(* ===== verification/Compadre_Prelude.thy ===== *)
theory Compadre_Prelude
  imports Complex_Main "HOL-Library.Word"
begin

text \<open>
  The vocabulary that every component shares: the ways in which the code fails, the
  result type that carries them, the reading and writing of views with their bounds,
  the two integer types of Compadre_Typedefs.hpp, and the exclusive-scan layout that
  the neighbor lists, the alpha tiles, the target offsets and the batches all use.
\<close>

section \<open>Failures and results\<close>

text \<open>
  \<open>compadre_assert_release\<close> throws \<open>std::logic_error\<close>; \<open>compadre_kernel_assert_release\<close>
  calls \<open>Kokkos::abort\<close>.  A read or a write outside a view, the overflow of a signed
  \<open>int\<close> and an integer division by zero are undefined behaviour in C++: they are errors
  of their own here, so that no theorem can rest on what an undefined access returns.  An
  allocation that fails throws; the error carries the label of the view.
\<close>

datatype error =
    Logic_error string
  | Kokkos_abort string
  | Out_of_bounds
  | Int_overflow
  | Division_by_zero
  | Indeterminate_value
  | Allocation_failure string

type_synonym 'a result = "error + 'a"

definition rbind :: "'a result \<Rightarrow> ('a \<Rightarrow> 'b result) \<Rightarrow> 'b result" where
  "rbind m f = (case m of Inl e \<Rightarrow> Inl e | Inr a \<Rightarrow> f a)"

lemma rbind_Inl [simp]: "rbind (Inl e) f = Inl e"
  by (simp add: rbind_def)

lemma rbind_Inr [simp]: "rbind (Inr a) f = f a"
  by (simp add: rbind_def)

lemma rbind_eq_Inr_iff: "rbind m f = Inr b \<longleftrightarrow> (\<exists>a. m = Inr a \<and> f a = Inr b)"
  by (cases m) simp_all

lemma rbind_InrE:
  assumes "rbind m f = Inr b"
  obtains a where "m = Inr a" and "f a = Inr b"
  using assms by (auto simp: rbind_eq_Inr_iff)

lemma rbind_assoc: "rbind (rbind m f) g = rbind m (\<lambda>a. rbind (f a) g)"
  by (cases m) simp_all

text \<open>\<open>compadre_assert_release(condition)\<close>.\<close>

definition compadre_assert_release :: "string \<Rightarrow> bool \<Rightarrow> unit result" where
  "compadre_assert_release msg c = (if c then Inr () else Inl (Logic_error msg))"

text \<open>
  \<open>compadre_assert_debug(condition)\<close>: checked only when the build defines
  \<open>COMPADRE_DEBUG\<close>, which is the first argument.
\<close>

definition compadre_assert_debug :: "bool \<Rightarrow> string \<Rightarrow> bool \<Rightarrow> unit result" where
  "compadre_assert_debug dbg msg c =
     (if dbg \<and> \<not> c then Inl (Logic_error msg) else Inr ())"

definition compadre_kernel_assert_release :: "string \<Rightarrow> bool \<Rightarrow> unit result" where
  "compadre_kernel_assert_release msg c = (if c then Inr () else Inl (Kokkos_abort msg))"

definition compadre_kernel_assert_debug :: "bool \<Rightarrow> string \<Rightarrow> bool \<Rightarrow> unit result" where
  "compadre_kernel_assert_debug dbg msg c =
     (if dbg \<and> \<not> c then Inl (Kokkos_abort msg) else Inr ())"

lemma assert_release_simps [simp]:
  "compadre_assert_release msg True = Inr ()"
  "compadre_assert_release msg False = Inl (Logic_error msg)"
  "compadre_assert_release msg c = Inr u \<longleftrightarrow> c"
  by (simp_all add: compadre_assert_release_def)

lemma assert_debug_simps [simp]:
  "compadre_assert_debug False msg c = Inr ()"
  "compadre_assert_debug dbg msg True = Inr ()"
  "compadre_assert_debug True msg False = Inl (Logic_error msg)"
  "compadre_assert_debug dbg msg c = Inr u \<longleftrightarrow> (dbg \<longrightarrow> c)"
  by (auto simp: compadre_assert_debug_def)

lemma kernel_assert_simps [simp]:
  "compadre_kernel_assert_release msg True = Inr ()"
  "compadre_kernel_assert_release msg False = Inl (Kokkos_abort msg)"
  "compadre_kernel_assert_debug False msg c = Inr ()"
  "compadre_kernel_assert_debug dbg msg True = Inr ()"
  "compadre_kernel_assert_debug True msg False = Inl (Kokkos_abort msg)"
  by (auto simp: compadre_kernel_assert_release_def compadre_kernel_assert_debug_def)

section \<open>Integers\<close>

text \<open>
  \<open>global_index_type\<close> is \<open>std::size_t\<close>: 64 bits, and its arithmetic wraps.
  \<open>local_index_type\<close> is \<open>int\<close>: its overflow is undefined, so it is modelled by \<open>int\<close>
  with \<open>fits_int\<close> checked where the code multiplies before it widens.
\<close>

type_synonym u64 = "64 word"

definition TO_GLOBAL :: "int \<Rightarrow> u64" where
  "TO_GLOBAL i = word_of_int i"

definition fits_int :: "int \<Rightarrow> bool" where
  "fits_int i \<longleftrightarrow> - (2 ^ 31) \<le> i \<and> i < 2 ^ 31"

definition int_checked :: "int \<Rightarrow> int result" where
  "int_checked i = (if fits_int i then Inr i else Inl Int_overflow)"

lemma int_checked_simps [simp]:
  "fits_int i \<Longrightarrow> int_checked i = Inr i"
  "\<not> fits_int i \<Longrightarrow> int_checked i = Inl Int_overflow"
  by (simp_all add: int_checked_def)

lemma int_checked_Inr [simp]: "int_checked i = Inr j \<longleftrightarrow> fits_int i \<and> j = i"
  by (auto simp: int_checked_def)

lemma TO_GLOBAL_of_nat: "TO_GLOBAL (int n) = of_nat n"
  by (simp add: TO_GLOBAL_def)

lemma TO_GLOBAL_0 [simp]: "TO_GLOBAL 0 = 0"
  by (simp add: TO_GLOBAL_def)

lemma unat_TO_GLOBAL: "0 \<le> i \<Longrightarrow> i < 2 ^ 64 \<Longrightarrow> unat (TO_GLOBAL i) = nat i"
  by (simp add: TO_GLOBAL_def unat_eq_nat_uint uint_word_of_int_eq take_bit_int_eq_self)

section \<open>Strings\<close>

text \<open>\<open>::tolower\<close> in the default locale, character by character.\<close>

definition tolower :: "char \<Rightarrow> char" where
  "tolower c = (let n = (of_char c :: nat) in if 65 \<le> n \<and> n \<le> 90 then char_of (n + 32) else c)"

definition to_lower :: "string \<Rightarrow> string" where
  "to_lower s = map tolower s"

section \<open>Views\<close>

text \<open>
  A rank-1 Kokkos view is the list of its entries, a rank-2 view the list of its rows.
  Kokkos does not check bounds in a release build: an access outside the extent is
  \<open>Out_of_bounds\<close>.
\<close>

definition view_read :: "'a list \<Rightarrow> int \<Rightarrow> 'a result" where
  "view_read v i = (if 0 \<le> i \<and> i < int (length v) then Inr (v ! nat i) else Inl Out_of_bounds)"

definition view_write :: "'a list \<Rightarrow> int \<Rightarrow> 'a \<Rightarrow> 'a list result" where
  "view_write v i x =
     (if 0 \<le> i \<and> i < int (length v) then Inr (v[nat i := x]) else Inl Out_of_bounds)"

definition view_read2 :: "'a list list \<Rightarrow> int \<Rightarrow> int \<Rightarrow> 'a result" where
  "view_read2 v i j = rbind (view_read v i) (\<lambda>r. view_read r j)"

lemma view_read_nat [simp]: "i < length v \<Longrightarrow> view_read v (int i) = Inr (v ! i)"
  by (simp add: view_read_def)

lemma view_write_nat [simp]: "i < length v \<Longrightarrow> view_write v (int i) x = Inr (v[i := x])"
  by (simp add: view_write_def)

lemma view_read_Inr_iff:
  "view_read v i = Inr x \<longleftrightarrow> 0 \<le> i \<and> i < int (length v) \<and> x = v ! nat i"
  by (auto simp: view_read_def)

lemma view_write_Inr_iff:
  "view_write v i x = Inr w \<longleftrightarrow> 0 \<le> i \<and> i < int (length v) \<and> w = v[nat i := x]"
  by (auto simp: view_write_def)

lemma view_read_outside [simp]: "int (length v) \<le> i \<Longrightarrow> view_read v i = Inl Out_of_bounds"
  by (simp add: view_read_def)

text \<open>A sequential loop over a list of indices that may fail, and its result list.\<close>

fun rfold :: "('a \<Rightarrow> 's \<Rightarrow> 's result) \<Rightarrow> 'a list \<Rightarrow> 's \<Rightarrow> 's result" where
  "rfold f [] s = Inr s"
| "rfold f (x # xs) s = rbind (f x s) (rfold f xs)"

fun rmap :: "('a \<Rightarrow> 'b result) \<Rightarrow> 'a list \<Rightarrow> 'b list result" where
  "rmap f [] = Inr []"
| "rmap f (x # xs) = rbind (f x) (\<lambda>y. rbind (rmap f xs) (\<lambda>ys. Inr (y # ys)))"

lemma rfold_append: "rfold f (xs @ ys) s = rbind (rfold f xs s) (rfold f ys)"
proof (induction xs arbitrary: s)
  case Nil
  show ?case by simp
next
  case (Cons x xs)
  then show ?case by (cases "f x s") simp_all
qed

lemma rfold_Inr:
  assumes "\<And>x s. x \<in> set xs \<Longrightarrow> P s \<Longrightarrow> f x s = Inr (g x s) \<and> P (g x s)" and "P s"
  shows "rfold f xs s = Inr (fold g xs s) \<and> P (fold g xs s)"
  using assms by (induction xs arbitrary: s) auto

lemma rfold_keeps:
  assumes "rfold f xs s = Inr t" "P s" and "\<And>x s s'. f x s = Inr s' \<Longrightarrow> P s \<Longrightarrow> P s'"
  shows "P t"
  using assms(1,2)
proof (induction xs arbitrary: s)
  case Nil
  then show ?case by simp
next
  case (Cons x xs)
  then show ?case using assms(3) by (auto simp: rbind_eq_Inr_iff)
qed

lemma rmap_Inr: "(\<And>x. x \<in> set xs \<Longrightarrow> f x = Inr (g x)) \<Longrightarrow> rmap f xs = Inr (map g xs)"
  by (induction xs) auto

lemma rmap_Inr_iff:
  "rmap f xs = Inr ys \<longleftrightarrow> list_all2 (\<lambda>x y. f x = Inr y) xs ys"
proof (induction xs arbitrary: ys)
  case Nil
  then show ?case by auto
next
  case (Cons x xs)
  then show ?case by (auto simp: rbind_eq_Inr_iff list_all2_Cons1)
qed

text \<open>
  Computations whose only failure is an access outside a view: the failure of a loop of
  them follows from the failure of one round.
\<close>

definition only_oob :: "'a result \<Rightarrow> bool" where
  "only_oob r \<longleftrightarrow> (\<forall>e. r = Inl e \<longrightarrow> e = Out_of_bounds)"

lemma only_oob_simps [simp]:
  "only_oob (Inr a)" "only_oob (Inl Out_of_bounds)" "only_oob (view_read v i)"
  "only_oob (view_write v i x)"
  by (auto simp: only_oob_def view_read_def view_write_def)

lemma only_oob_rbind: "only_oob m \<Longrightarrow> (\<And>a. only_oob (f a)) \<Longrightarrow> only_oob (rbind m f)"
  by (cases m) (auto simp: only_oob_def)

lemma only_oob_rfold: "(\<And>x s. only_oob (f x s)) \<Longrightarrow> only_oob (rfold f xs s)"
  by (induction xs arbitrary: s) (auto intro: only_oob_rbind)

lemma only_oob_rmap: "(\<And>x. only_oob (f x)) \<Longrightarrow> only_oob (rmap f xs)"
  by (induction xs) (auto intro!: only_oob_rbind)

lemma only_oob_failure: "only_oob r \<Longrightarrow> (\<And>a. r \<noteq> Inr a) \<Longrightarrow> r = Inl Out_of_bounds"
  by (cases r) (auto simp: only_oob_def)

lemma rfold_failing_round:
  assumes "x \<in> set xs" and "\<And>s s'. f x s \<noteq> Inr s'"
  shows "rfold f xs s \<noteq> Inr t"
  using assms(1)
proof (induction xs arbitrary: s)
  case Nil
  then show ?case by simp
next
  case (Cons y ys)
  then show ?case using assms(2) by (auto simp: rbind_eq_Inr_iff)
qed

section \<open>Exclusive-scan layouts\<close>

text \<open>
  Several tables of the program have the same shape: row \<open>i\<close> owns the \<open>width\<close> places
  from \<open>offset i\<close> on, and the offsets are the exclusive scan of the widths.  The locale
  is that contract; its lemmas say that the rows tile an initial segment without gap or
  overlap.  The neighbor lists, the columns of the target operations, the tiles of the
  alphas and the batches of the solver are its interpretations.
\<close>

locale scan_layout =
  fixes invar :: "'s \<Rightarrow> bool"
    and rows :: "'s \<Rightarrow> nat"
    and width :: "'s \<Rightarrow> nat \<Rightarrow> nat"
    and offset :: "'s \<Rightarrow> nat \<Rightarrow> nat"
  assumes offset_0: "invar s \<Longrightarrow> 0 < rows s \<Longrightarrow> offset s 0 = 0"
    and offset_Suc: "invar s \<Longrightarrow> Suc i < rows s \<Longrightarrow> offset s (Suc i) = offset s i + width s i"
begin

lemma offset_sum: "invar s \<Longrightarrow> i < rows s \<Longrightarrow> offset s i = (\<Sum>k<i. width s k)"
  by (induction i) (simp_all add: offset_0 offset_Suc)

lemma row_before:
  assumes "invar s" "i < j" "j < rows s"
  shows "offset s i + width s i \<le> offset s j"
proof -
  have "offset s i + width s i = (\<Sum>k<Suc i. width s k)"
    using assms by (simp add: offset_sum)
  also have "\<dots> \<le> (\<Sum>k<j. width s k)"
    using assms(2) by (intro sum_mono2) auto
  finally show ?thesis
    using assms by (simp add: offset_sum)
qed

lemma slot_inj:
  assumes "invar s" "i < rows s" "j < rows s" "a < width s i" "b < width s j"
    and "offset s i + a = offset s j + b"
  shows "i = j \<and> a = b"
  using assms row_before [of s i j] row_before [of s j i]
  by (cases i j rule: linorder_cases) auto

lemma slot_bound:
  assumes "invar s" "i < rows s" "a < width s i"
  shows "offset s i + a < (\<Sum>k<rows s. width s k)"
proof -
  have "offset s i + a < (\<Sum>k<Suc i. width s k)"
    using assms by (simp add: offset_sum)
  also have "\<dots> \<le> (\<Sum>k<rows s. width s k)"
    using assms(2) by (intro sum_mono2) auto
  finally show ?thesis .
qed

lemma slot_surj:
  assumes "invar s" "k < (\<Sum>i<rows s. width s i)"
  shows "\<exists>i a. i < rows s \<and> a < width s i \<and> offset s i + a = k"
proof -
  have "\<exists>i a. i < n \<and> a < width s i \<and> offset s i + a = k"
    if "k < (\<Sum>i<n. width s i)" "n \<le> rows s" for n
    using that
  proof (induction n)
    case 0
    then show ?case by simp
  next
    case (Suc n)
    show ?case
    proof (cases "k < (\<Sum>i<n. width s i)")
      case True
      then show ?thesis using Suc.IH Suc.prems(2) by (meson less_SucI Suc_leD)
    next
      case False
      moreover have "offset s n = (\<Sum>i<n. width s i)"
        using assms(1) Suc.prems(2) by (simp add: offset_sum)
      ultimately show ?thesis
        using Suc.prems by (intro exI [of _ n] exI [of _ "k - offset s n"]) auto
    qed
  qed
  then show ?thesis using assms(2) by blast
qed

end

text \<open>A layout whose places all lie in an allocation of a known extent.\<close>

locale scan_store = scan_layout +
  fixes extent :: "'s \<Rightarrow> nat"
  assumes extent: "invar s \<Longrightarrow> (\<Sum>k<rows s. width s k) \<le> extent s"
begin

lemma slot_in_extent: "invar s \<Longrightarrow> i < rows s \<Longrightarrow> a < width s i \<Longrightarrow> offset s i + a < extent s"
  using slot_bound extent by (meson less_le_trans)

lemma row_in_extent:
  assumes "invar s" "i < rows s"
  shows "offset s i + width s i \<le> extent s"
proof -
  have "offset s i + width s i = (\<Sum>k<Suc i. width s k)"
    using assms by (simp add: offset_sum)
  also have "\<dots> \<le> (\<Sum>k<rows s. width s k)"
    using assms(2) by (intro sum_mono2) auto
  finally show ?thesis using extent [OF assms(1)] by simp
qed

end

section \<open>Arithmetic of tiles\<close>

lemma tile_inj:
  fixes m :: nat
  assumes "q * m + r = q' * m + r'" "r < m" "r' < m"
  shows "q = q' \<and> r = r'"
proof -
  from assms(2) have "0 < m" by simp
  from assms have "(q * m + r) div m = (q' * m + r') div m" by simp
  then have "q = q'" using assms(2,3) \<open>0 < m\<close> by (simp add: div_mult_self3)
  then show ?thesis using assms(1) by simp
qed

lemma tile_bound:
  fixes m :: nat
  assumes "q < n" "r < m"
  shows "q * m + r < n * m"
proof -
  have "q * m + r < Suc q * m" using assms(2) by simp
  also have "\<dots> \<le> n * m" using assms(1) by (intro mult_le_mono1) simp
  finally show ?thesis .
qed

end
