(* ===== verification/Compadre_Operators.thy ===== *)
theory Compadre_Operators
  imports Compadre_Prelude
begin

text \<open>
  Compadre_Operators.hpp: the enumerations a GMLS problem is described with, the tables
  of tensor ranks they index, and the sampling functionals.
\<close>

section \<open>Target operations\<close>

datatype TargetOperation =
    ScalarPointEvaluation
  | VectorPointEvaluation
  | LaplacianOfScalarPointEvaluation
  | VectorLaplacianPointEvaluation
  | GradientOfScalarPointEvaluation
  | GradientOfVectorPointEvaluation
  | DivergenceOfVectorPointEvaluation
  | CurlOfVectorPointEvaluation
  | CurlCurlOfVectorPointEvaluation
  | PartialXOfScalarPointEvaluation
  | PartialYOfScalarPointEvaluation
  | PartialZOfScalarPointEvaluation
  | ChainedStaggeredLaplacianOfScalarPointEvaluation
  | GaussianCurvaturePointEvaluation
  | ScalarFaceAverageEvaluation

text \<open>\<open>(int)lro\<close>: the value of the enumerator; \<open>COUNT\<close> is the explicit last enumerator.\<close>

fun target_op_num :: "TargetOperation \<Rightarrow> int" where
  "target_op_num ScalarPointEvaluation = 0"
| "target_op_num VectorPointEvaluation = 1"
| "target_op_num LaplacianOfScalarPointEvaluation = 2"
| "target_op_num VectorLaplacianPointEvaluation = 3"
| "target_op_num GradientOfScalarPointEvaluation = 4"
| "target_op_num GradientOfVectorPointEvaluation = 5"
| "target_op_num DivergenceOfVectorPointEvaluation = 6"
| "target_op_num CurlOfVectorPointEvaluation = 7"
| "target_op_num CurlCurlOfVectorPointEvaluation = 8"
| "target_op_num PartialXOfScalarPointEvaluation = 9"
| "target_op_num PartialYOfScalarPointEvaluation = 10"
| "target_op_num PartialZOfScalarPointEvaluation = 11"
| "target_op_num ChainedStaggeredLaplacianOfScalarPointEvaluation = 12"
| "target_op_num GaussianCurvaturePointEvaluation = 13"
| "target_op_num ScalarFaceAverageEvaluation = 14"

definition TargetOperation_COUNT :: int where
  "TargetOperation_COUNT = 15"

lemma target_op_num_nonneg [simp]: "0 \<le> target_op_num lro"
  by (cases lro) simp_all

lemma target_op_num_less_COUNT [simp]: "target_op_num lro < TargetOperation_COUNT"
  by (cases lro) (simp_all add: TargetOperation_COUNT_def)

lemma target_op_num_inject [simp]: "target_op_num a = target_op_num b \<longleftrightarrow> a = b"
  by (cases a; cases b) simp_all

text \<open>An unscoped enumeration compares by its values.\<close>

instantiation TargetOperation :: linorder
begin

definition less_eq_TargetOperation :: "TargetOperation \<Rightarrow> TargetOperation \<Rightarrow> bool" where
  "less_eq_TargetOperation a b \<longleftrightarrow> target_op_num a \<le> target_op_num b"

definition less_TargetOperation :: "TargetOperation \<Rightarrow> TargetOperation \<Rightarrow> bool" where
  "less_TargetOperation a b \<longleftrightarrow> target_op_num a < target_op_num b"

instance
  by standard (auto simp: less_eq_TargetOperation_def less_TargetOperation_def)

end

definition TargetOutputTensorRank :: "int list" where
  "TargetOutputTensorRank = [0, 1, 0, 1, 1, 2, 0, 1, 1, 0, 0, 0, 0, 0, 0]"

definition getTargetOutputTensorRank :: "int \<Rightarrow> int result" where
  "getTargetOutputTensorRank index = view_read TargetOutputTensorRank index"

text \<open>The rank by constructor: what the table is meant to say.\<close>

fun target_output_rank :: "TargetOperation \<Rightarrow> nat" where
  "target_output_rank VectorPointEvaluation = 1"
| "target_output_rank VectorLaplacianPointEvaluation = 1"
| "target_output_rank GradientOfScalarPointEvaluation = 1"
| "target_output_rank GradientOfVectorPointEvaluation = 2"
| "target_output_rank CurlOfVectorPointEvaluation = 1"
| "target_output_rank CurlCurlOfVectorPointEvaluation = 1"
| "target_output_rank _ = 0"

lemma getTargetOutputTensorRank_enum [simp]:
  "getTargetOutputTensorRank (target_op_num lro) = Inr (int (target_output_rank lro))"
  by (cases lro)
     (simp_all add: getTargetOutputTensorRank_def view_read_def TargetOutputTensorRank_def)

section \<open>Reconstruction spaces\<close>

datatype ReconstructionSpace =
    ScalarTaylorPolynomial
  | VectorTaylorPolynomial
  | VectorOfScalarClonesTaylorPolynomial
  | DivergenceFreeVectorTaylorPolynomial

fun reconstruction_space_num :: "ReconstructionSpace \<Rightarrow> int" where
  "reconstruction_space_num ScalarTaylorPolynomial = 0"
| "reconstruction_space_num VectorTaylorPolynomial = 1"
| "reconstruction_space_num VectorOfScalarClonesTaylorPolynomial = 2"
| "reconstruction_space_num DivergenceFreeVectorTaylorPolynomial = 3"

definition ActualReconstructionSpaceRank :: "int list" where
  "ActualReconstructionSpaceRank = [0, 1, 0, 0]"

definition getActualReconstructionSpaceRank :: "int \<Rightarrow> int result" where
  "getActualReconstructionSpaceRank index = view_read ActualReconstructionSpaceRank index"

lemma getActualReconstructionSpaceRank_enum [simp]:
  "getActualReconstructionSpaceRank (reconstruction_space_num rs)
     = Inr (if rs = VectorTaylorPolynomial then 1 else 0)"
  by (cases rs)
     (simp_all add: getActualReconstructionSpaceRank_def view_read_def
        ActualReconstructionSpaceRank_def)

section \<open>Sampling functionals\<close>

datatype SamplingTransformType =
    Identity | SameForAll | DifferentEachTarget | DifferentEachNeighbor

text \<open>
  \<open>transform_type\<close> is an \<open>int\<close> field that only ever receives a cast enumerator, so the
  record keeps the enumerator.
\<close>

record SamplingFunctional =
  sf_id :: nat
  input_rank :: int
  output_rank :: int
  use_target_site_weights :: bool
  nontrivial_nullspace :: bool
  transform_type :: SamplingTransformType

definition make_sampling_functional ::
  "int \<Rightarrow> int \<Rightarrow> bool \<Rightarrow> bool \<Rightarrow> SamplingTransformType \<Rightarrow> nat \<Rightarrow> SamplingFunctional" where
  "make_sampling_functional inp out targets nontrivial transform counter =
     \<lparr>sf_id = counter, input_rank = inp, output_rank = out,
      use_target_site_weights = targets, nontrivial_nullspace = nontrivial,
      transform_type = transform\<rparr>"

text \<open>The overloaded \<open>==\<close> and \<open>!=\<close> look at the identifier only.\<close>

definition sf_eq :: "SamplingFunctional \<Rightarrow> SamplingFunctional \<Rightarrow> bool" where
  "sf_eq a b \<longleftrightarrow> sf_id a = sf_id b"

definition sf_neq :: "SamplingFunctional \<Rightarrow> SamplingFunctional \<Rightarrow> bool" where
  "sf_neq a b \<longleftrightarrow> sf_id a \<noteq> sf_id b"

text \<open>
  \<open>__COUNTER__\<close> yields consecutive values in the order of the definitions; this header
  is its only use in the sources, so the first value is written 0.
\<close>

definition PointSample :: SamplingFunctional where
  "PointSample = make_sampling_functional 0 0 False False Identity 0"
definition VectorPointSample :: SamplingFunctional where
  "VectorPointSample = make_sampling_functional 1 1 False False Identity 1"
definition ManifoldVectorPointSample :: SamplingFunctional where
  "ManifoldVectorPointSample = make_sampling_functional 1 1 False False DifferentEachTarget 2"
definition StaggeredEdgeAnalyticGradientIntegralSample :: SamplingFunctional where
  "StaggeredEdgeAnalyticGradientIntegralSample =
     make_sampling_functional 0 0 True True SameForAll 3"
definition StaggeredEdgeIntegralSample :: SamplingFunctional where
  "StaggeredEdgeIntegralSample = make_sampling_functional 1 0 True True DifferentEachNeighbor 4"
definition VaryingManifoldVectorPointSample :: SamplingFunctional where
  "VaryingManifoldVectorPointSample =
     make_sampling_functional 1 1 False False DifferentEachNeighbor 5"
definition FaceNormalIntegralSample :: SamplingFunctional where
  "FaceNormalIntegralSample = make_sampling_functional 1 0 False False Identity 6"
definition FaceNormalPointSample :: SamplingFunctional where
  "FaceNormalPointSample = make_sampling_functional 1 0 False False Identity 7"
definition FaceTangentIntegralSample :: SamplingFunctional where
  "FaceTangentIntegralSample = make_sampling_functional 1 0 False False Identity 8"
definition FaceTangentPointSample :: SamplingFunctional where
  "FaceTangentPointSample = make_sampling_functional 1 0 False False Identity 9"
definition ScalarFaceAverageSample :: SamplingFunctional where
  "ScalarFaceAverageSample = make_sampling_functional 0 0 False False DifferentEachNeighbor 10"

lemmas sampling_functional_defs =
  make_sampling_functional_def PointSample_def VectorPointSample_def
  ManifoldVectorPointSample_def StaggeredEdgeAnalyticGradientIntegralSample_def
  StaggeredEdgeIntegralSample_def VaryingManifoldVectorPointSample_def
  FaceNormalIntegralSample_def FaceNormalPointSample_def FaceTangentIntegralSample_def
  FaceTangentPointSample_def ScalarFaceAverageSample_def

definition all_sampling_functionals :: "SamplingFunctional list" where
  "all_sampling_functionals =
     [PointSample, VectorPointSample, ManifoldVectorPointSample,
      StaggeredEdgeAnalyticGradientIntegralSample, StaggeredEdgeIntegralSample,
      VaryingManifoldVectorPointSample, FaceNormalIntegralSample, FaceNormalPointSample,
      FaceTangentIntegralSample, FaceTangentPointSample, ScalarFaceAverageSample]"

lemma sampling_functionals_distinct: "distinct (map sf_id all_sampling_functionals)"
  by (simp add: all_sampling_functionals_def sampling_functional_defs)

text \<open>Comparing identifiers decides identity among the functionals the library offers.\<close>

lemma sf_eq_iff:
  "a \<in> set all_sampling_functionals \<Longrightarrow> b \<in> set all_sampling_functionals \<Longrightarrow> sf_eq a b \<longleftrightarrow> a = b"
  using sampling_functionals_distinct
  by (auto simp: sf_eq_def distinct_map inj_on_def)

lemma sampling_functional_ranks:
  "sf \<in> set all_sampling_functionals \<Longrightarrow> input_rank sf \<in> {0, 1} \<and> output_rank sf \<in> {0, 1}"
  by (auto simp: all_sampling_functionals_def sampling_functional_defs)

section \<open>The other enumerations\<close>

datatype DenseSolverType = QR | LU

datatype ProblemType = STANDARD | MANIFOLD

datatype ConstraintType = NO_CONSTRAINT | NEUMANN_GRAD_SCALAR

datatype WeightingFunctionType = Power | Gaussian | CubicSpline | Cosine | Sigmoid

datatype CoordinatesType = Ambient | Local

end
