(* ===== verification/Compadre_Misc.thy ===== *)
theory Compadre_Misc
  imports Compadre_Operators
begin

text \<open>
  Compadre_Misc.hpp: three-component points, the sizes of the dense matrices of a
  problem, and the dimensions of the operations.  A \<open>double\<close> is a \<open>real\<close> throughout the
  development: rounding is not modelled.
\<close>

section \<open>Points\<close>

record XYZ =
  x_coord :: real
  y_coord :: real
  z_coord :: real

definition XYZ_make :: "real \<Rightarrow> real \<Rightarrow> real \<Rightarrow> XYZ" where
  "XYZ_make x y z = \<lparr>x_coord = x, y_coord = y, z_coord = z\<rparr>"

definition XYZ_of_array :: "real list \<Rightarrow> XYZ result" where
  "XYZ_of_array arry =
     rbind (view_read arry 0) (\<lambda>x. rbind (view_read arry 1) (\<lambda>y.
     rbind (view_read arry 2) (\<lambda>z. Inr (XYZ_make x y z))))"

definition XYZ_add_assign :: "XYZ \<Rightarrow> XYZ \<Rightarrow> XYZ" where
  "XYZ_add_assign this other =
     this\<lparr>x_coord := x_coord this + x_coord other,
          y_coord := y_coord this + y_coord other,
          z_coord := z_coord this + z_coord other\<rparr>"

definition XYZ_sub_assign :: "XYZ \<Rightarrow> XYZ \<Rightarrow> XYZ" where
  "XYZ_sub_assign this other =
     this\<lparr>x_coord := x_coord this - x_coord other,
          y_coord := y_coord this - y_coord other,
          z_coord := z_coord this - z_coord other\<rparr>"

definition XYZ_scale_assign :: "XYZ \<Rightarrow> real \<Rightarrow> XYZ" where
  "XYZ_scale_assign this scaling =
     this\<lparr>x_coord := x_coord this * scaling,
          y_coord := y_coord this * scaling,
          z_coord := z_coord this * scaling\<rparr>"

text \<open>\<open>operator []\<close>: every index other than 0 and 1 selects \<open>z\<close>, also a negative one.\<close>

definition XYZ_index :: "XYZ \<Rightarrow> int \<Rightarrow> real" where
  "XYZ_index p i = (if i = 0 then x_coord p else if i = 1 then y_coord p else z_coord p)"

definition XYZ_index_set :: "XYZ \<Rightarrow> int \<Rightarrow> real \<Rightarrow> XYZ" where
  "XYZ_index_set p i v =
     (if i = 0 then p\<lparr>x_coord := v\<rparr> else if i = 1 then p\<lparr>y_coord := v\<rparr> else p\<lparr>z_coord := v\<rparr>)"

definition XYZ_member_scale :: "XYZ \<Rightarrow> real \<Rightarrow> XYZ" where
  "XYZ_member_scale p scalar =
     (XYZ_make 0 0 0)\<lparr>x_coord := scalar * x_coord p, y_coord := scalar * y_coord p,
                      z_coord := scalar * z_coord p\<rparr>"

definition XYZ_add :: "XYZ \<Rightarrow> XYZ \<Rightarrow> XYZ" where
  "XYZ_add a b = XYZ_make (x_coord a + x_coord b) (y_coord a + y_coord b) (z_coord a + z_coord b)"
definition XYZ_sub :: "XYZ \<Rightarrow> XYZ \<Rightarrow> XYZ" where
  "XYZ_sub a b = XYZ_make (x_coord a - x_coord b) (y_coord a - y_coord b) (z_coord a - z_coord b)"
definition XYZ_mult :: "XYZ \<Rightarrow> XYZ \<Rightarrow> XYZ" where
  "XYZ_mult a b = XYZ_make (x_coord a * x_coord b) (y_coord a * y_coord b) (z_coord a * z_coord b)"
definition XYZ_add_const :: "XYZ \<Rightarrow> real \<Rightarrow> XYZ" where
  "XYZ_add_const a c = XYZ_make (x_coord a + c) (y_coord a + c) (z_coord a + c)"
definition XYZ_const_add :: "real \<Rightarrow> XYZ \<Rightarrow> XYZ" where
  "XYZ_const_add c a = XYZ_make (x_coord a + c) (y_coord a + c) (z_coord a + c)"
definition XYZ_sub_const :: "XYZ \<Rightarrow> real \<Rightarrow> XYZ" where
  "XYZ_sub_const a c = XYZ_make (x_coord a - c) (y_coord a - c) (z_coord a - c)"
definition XYZ_const_sub :: "real \<Rightarrow> XYZ \<Rightarrow> XYZ" where
  "XYZ_const_sub c a = XYZ_make (c - x_coord a) (c - y_coord a) (c - z_coord a)"
definition XYZ_scale :: "XYZ \<Rightarrow> real \<Rightarrow> XYZ" where
  "XYZ_scale a c = XYZ_make (x_coord a * c) (y_coord a * c) (z_coord a * c)"
definition XYZ_const_scale :: "real \<Rightarrow> XYZ \<Rightarrow> XYZ" where
  "XYZ_const_scale c a = XYZ_make (x_coord a * c) (y_coord a * c) (z_coord a * c)"
definition XYZ_div :: "XYZ \<Rightarrow> real \<Rightarrow> XYZ" where
  "XYZ_div a c = XYZ_make (x_coord a / c) (y_coord a / c) (z_coord a / c)"

lemmas XYZ_defs =
  XYZ_make_def XYZ_add_assign_def XYZ_sub_assign_def XYZ_scale_assign_def XYZ_index_def
  XYZ_index_set_def XYZ_member_scale_def XYZ_add_def XYZ_sub_def XYZ_mult_def
  XYZ_add_const_def XYZ_const_add_def XYZ_sub_const_def XYZ_const_sub_def XYZ_scale_def
  XYZ_const_scale_def XYZ_div_def

lemma XYZ_eqI: "(\<And>i. XYZ_index p i = XYZ_index q i) \<Longrightarrow> p = (q::XYZ)"
proof -
  assume *: "\<And>i. XYZ_index p i = XYZ_index q i"
  have "x_coord p = x_coord q" "y_coord p = y_coord q" "z_coord p = z_coord q"
    using * [of 0] * [of 1] * [of 2] by (simp_all add: XYZ_index_def)
  then show "p = q" by (cases p; cases q) simp
qed

lemma XYZ_assign_ops:
  "XYZ_add_assign a b = XYZ_add a b"
  "XYZ_sub_assign a b = XYZ_sub a b"
  "XYZ_scale_assign a c = XYZ_scale a c"
  "XYZ_member_scale a c = XYZ_scale a c"
  "XYZ_const_scale c a = XYZ_scale a c"
  by (simp_all add: XYZ_defs)

lemma XYZ_sub_add_cancel: "XYZ_sub_assign (XYZ_add_assign a b) b = a"
  by (cases a) (simp add: XYZ_defs)

section \<open>Powers of dimensions\<close>

text \<open>
  \<open>std::pow(d, r)\<close> of two \<open>int\<close>s, converted back to \<open>int\<close>: exact for the small
  dimensions at hand.  For a negative exponent the quotient is truncated to zero
  (\<open>pow(0, r)\<close> with \<open>r < 0\<close> is infinite; no rank of the program is negative).
\<close>

definition std_pow :: "int \<Rightarrow> int \<Rightarrow> int" where
  "std_pow d r =
     (if 0 \<le> r then d ^ nat r
      else if d = 1 then 1
      else if d = -1 then (if even r then 1 else -1)
      else 0)"

lemma std_pow_nat [simp]: "std_pow d (int n) = d ^ n"
  by (simp add: std_pow_def)

lemma std_pow_0 [simp]: "std_pow d 0 = 1"
  by (simp add: std_pow_def)

lemma std_pow_1 [simp]: "std_pow d 1 = d"
  by (simp add: std_pow_def)

lemma std_pow_pos: "1 \<le> d \<Longrightarrow> 0 \<le> r \<Longrightarrow> 1 \<le> std_pow d r"
  by (simp add: std_pow_def)

section \<open>Sizes of the matrices of a problem\<close>

definition getAdditionalAlphaSizeFromConstraint :: "DenseSolverType \<Rightarrow> ConstraintType \<Rightarrow> int" where
  "getAdditionalAlphaSizeFromConstraint dense_solver_type constraint_type =
     (if constraint_type = NEUMANN_GRAD_SCALAR then 1 else 0)"

definition getAdditionalCoeffSizeFromConstraintAndSpace ::
  "DenseSolverType \<Rightarrow> ConstraintType \<Rightarrow> ReconstructionSpace \<Rightarrow> int \<Rightarrow> int" where
  "getAdditionalCoeffSizeFromConstraintAndSpace dense_solver_type constraint_type
       reconstruction_space dimension =
     (let added_alpha_size =
        getAdditionalAlphaSizeFromConstraint dense_solver_type constraint_type
      in if reconstruction_space = VectorTaylorPolynomial then dimension * added_alpha_size
         else added_alpha_size)"

text \<open>The two output references are the components of the result.\<close>

definition getRHSDims ::
  "DenseSolverType \<Rightarrow> ConstraintType \<Rightarrow> ReconstructionSpace \<Rightarrow> int \<Rightarrow> int \<Rightarrow> int \<Rightarrow> int \<times> int" where
  "getRHSDims dense_solver_type constraint_type reconstruction_space dimension M N =
     (let added_coeff_size = getAdditionalCoeffSizeFromConstraintAndSpace dense_solver_type
            constraint_type reconstruction_space dimension
      in if constraint_type = NEUMANN_GRAD_SCALAR
         then (N + added_coeff_size, N + added_coeff_size)
         else if dense_solver_type \<noteq> LU then (N, M)
         else (N + added_coeff_size, N + added_coeff_size))"

definition getPDims ::
  "DenseSolverType \<Rightarrow> ConstraintType \<Rightarrow> ReconstructionSpace \<Rightarrow> int \<Rightarrow> int \<Rightarrow> int \<Rightarrow> int \<times> int" where
  "getPDims dense_solver_type constraint_type reconstruction_space dimension M N =
     (let added_coeff_size = getAdditionalCoeffSizeFromConstraintAndSpace dense_solver_type
            constraint_type reconstruction_space dimension;
          added_alpha_size =
            getAdditionalAlphaSizeFromConstraint dense_solver_type constraint_type
      in if constraint_type = NEUMANN_GRAD_SCALAR
         then (M + added_alpha_size, N + added_coeff_size)
         else if dense_solver_type = LU then (M + added_alpha_size, N + added_coeff_size)
         else (M, N))"

lemmas dims_defs =
  getAdditionalAlphaSizeFromConstraint_def getAdditionalCoeffSizeFromConstraintAndSpace_def
  getRHSDims_def getPDims_def Let_def

section \<open>Component indices and dimensions of operations\<close>

definition getTargetOutputIndex :: "int \<Rightarrow> int \<Rightarrow> int \<Rightarrow> int \<Rightarrow> int result" where
  "getTargetOutputIndex operation_num output_component_axis_1 output_component_axis_2 dimensions =
     rbind (getTargetOutputTensorRank operation_num) (\<lambda>rank.
       let axis_1_size = (if rank > 1 then dimensions else 1)
       in Inr (axis_1_size * output_component_axis_1 + output_component_axis_2))"

definition getSamplingOutputIndex :: "SamplingFunctional \<Rightarrow> int \<Rightarrow> int \<Rightarrow> int" where
  "getSamplingOutputIndex sf output_component_axis_1 output_component_axis_2 =
     (let axis_1_size = (if output_rank sf > 1 then output_rank sf else 1)
      in axis_1_size * output_component_axis_1 + output_component_axis_2)"

definition getInputRankOfSampling :: "SamplingFunctional \<Rightarrow> int" where
  "getInputRankOfSampling sro = input_rank sro"

definition getOutputDimensionOfSampling :: "SamplingFunctional \<Rightarrow> int \<Rightarrow> int" where
  "getOutputDimensionOfSampling sro local_dimensions = std_pow local_dimensions (output_rank sro)"

definition getInputDimensionOfSampling :: "SamplingFunctional \<Rightarrow> int \<Rightarrow> int" where
  "getInputDimensionOfSampling sro global_dimensions = std_pow global_dimensions (input_rank sro)"

definition calculateBasisMultiplier :: "ReconstructionSpace \<Rightarrow> int \<Rightarrow> int result" where
  "calculateBasisMultiplier rs local_dimensions =
     rbind (getActualReconstructionSpaceRank (reconstruction_space_num rs)) (\<lambda>rank.
       Inr (std_pow local_dimensions rank))"

definition calculateSamplingMultiplier ::
  "ReconstructionSpace \<Rightarrow> SamplingFunctional \<Rightarrow> int \<Rightarrow> int result" where
  "calculateSamplingMultiplier rs sro local_dimensions =
     rbind (calculateBasisMultiplier rs local_dimensions) (\<lambda>bm.
       let sm = getOutputDimensionOfSampling sro local_dimensions
       in if rs = VectorOfScalarClonesTaylorPolynomial
          then Inr (if bm < sm then bm else sm)
          else Inr sm)"

definition getOutputDimensionOfOperation :: "TargetOperation \<Rightarrow> int \<Rightarrow> int result" where
  "getOutputDimensionOfOperation lro local_dimensions =
     rbind (getTargetOutputTensorRank (target_op_num lro)) (\<lambda>rank.
       Inr (std_pow local_dimensions rank))"

definition getInputDimensionOfOperation ::
  "TargetOperation \<Rightarrow> SamplingFunctional \<Rightarrow> int \<Rightarrow> int" where
  "getInputDimensionOfOperation lro sro local_dimensions =
     getOutputDimensionOfSampling sro local_dimensions"

lemma getOutputDimensionOfOperation_eq [simp]:
  "getOutputDimensionOfOperation lro d = Inr (d ^ target_output_rank lro)"
  by (simp add: getOutputDimensionOfOperation_def)

lemma calculateBasisMultiplier_eq [simp]:
  "calculateBasisMultiplier rs d = Inr (if rs = VectorTaylorPolynomial then d else 1)"
  by (simp add: calculateBasisMultiplier_def)

lemma calculateSamplingMultiplier_eq:
  "calculateSamplingMultiplier rs sro d =
     Inr (if rs = VectorOfScalarClonesTaylorPolynomial
          then min 1 (getOutputDimensionOfSampling sro d)
          else getOutputDimensionOfSampling sro d)"
  by (simp add: calculateSamplingMultiplier_def min_def Let_def)

lemma target_output_rank_le_2: "target_output_rank lro \<le> 2"
  by (cases lro) simp_all

lemma getTargetOutputIndex_enum:
  "getTargetOutputIndex (target_op_num lro) a b d =
     Inr ((if target_output_rank lro = 2 then d else 1) * a + b)"
  using target_output_rank_le_2 [of lro] by (auto simp: getTargetOutputIndex_def Let_def)

lemma getOutputDimensionOfSampling_pos:
  "1 \<le> d \<Longrightarrow> 0 \<le> output_rank sf \<Longrightarrow> 1 \<le> getOutputDimensionOfSampling sf d"
  by (simp add: getOutputDimensionOfSampling_def std_pow_pos)

end
