(* ===== verification/Compadre_NeighborLists.thy ===== *)
theory Compadre_NeighborLists
  imports Compadre_Prelude
begin

text \<open>
  Compadre_NeighborLists.hpp: compressed-row neighbor lists with their host mirrors, the
  parallel reductions and the scan that fill them, and the conversion from
  two-dimensional lists.
\<close>

section \<open>State\<close>

text \<open>
  The three device views and their host mirrors.  \<open>create_mirror_view\<close> returns the view
  itself when its memory is accessible from the host: \<open>nl_aliased\<close> records that, and a
  write to the device data is then a write to the host data as well.  The minimum is an
  option: two of the constructors leave it uninitialized.
\<close>

record neighbor_lists =
  nl_max_row_storage :: int
  nl_min_row_storage :: "int option"
  nl_needs_sync_to_host :: bool
  nl_number_of_targets :: int
  nl_row_offsets :: "u64 list"
  nl_cr_neighbor_lists :: "int list"
  nl_number_of_neighbors_list :: "int list"
  nl_host_row_offsets :: "u64 list"
  nl_host_cr_neighbor_lists :: "int list"
  nl_host_number_of_neighbors_list :: "int list"
  nl_aliased :: bool

definition INT_MIN :: int where
  "INT_MIN = - (2 ^ 31)"

definition INT_MAX :: int where
  "INT_MAX = 2 ^ 31 - 1"

section \<open>Parallel reductions and the parallel scan\<close>

text \<open>
  \<open>Kokkos::parallel_reduce\<close> splits the range into chunks, reduces each one from the
  identity of the reducer and joins the results.
\<close>

definition kokkos_reduce :: "('a \<Rightarrow> 'r \<Rightarrow> 'r) \<Rightarrow> ('r \<Rightarrow> 'r \<Rightarrow> 'r) \<Rightarrow> 'r \<Rightarrow> 'a list list \<Rightarrow> 'r" where
  "kokkos_reduce body join ident chunks =
     foldl join ident (map (\<lambda>c. fold body c ident) chunks)"

definition max_body :: "int \<Rightarrow> int \<Rightarrow> int" where
  "max_body n t_max = (if n > t_max then n else t_max)"

definition min_body :: "int \<Rightarrow> int \<Rightarrow> int" where
  "min_body n t_min = (if n < t_min then n else t_min)"

text \<open>The body of the scan writes the running sum before it adds to it.\<close>

fun scan_offsets :: "u64 \<Rightarrow> int list \<Rightarrow> u64 list" where
  "scan_offsets lsum [] = []"
| "scan_offsets lsum (n # ns) = lsum # scan_offsets (lsum + TO_GLOBAL n) ns"

definition chunk_sum :: "int list \<Rightarrow> u64" where
  "chunk_sum ns = fold (\<lambda>n s. s + TO_GLOBAL n) ns 0"

text \<open>
  The final pass of a chunked scan: every chunk is scanned again from the sum of the
  chunks before it.
\<close>

fun kokkos_scan :: "u64 \<Rightarrow> int list list \<Rightarrow> u64 list" where
  "kokkos_scan s [] = []"
| "kokkos_scan s (c # cs) = scan_offsets s c @ kokkos_scan (s + chunk_sum c) cs"

section \<open>Modifiers\<close>

definition computeMaxNumNeighbors :: "neighbor_lists \<Rightarrow> neighbor_lists" where
  "computeMaxNumNeighbors nl =
     (if length (nl_number_of_neighbors_list nl) = 0 then nl\<lparr>nl_max_row_storage := 0\<rparr>
      else nl\<lparr>nl_max_row_storage :=
        kokkos_reduce max_body max INT_MIN [nl_number_of_neighbors_list nl]\<rparr>)"

definition computeMinNumNeighbors :: "neighbor_lists \<Rightarrow> neighbor_lists" where
  "computeMinNumNeighbors nl =
     (if length (nl_number_of_neighbors_list nl) = 0 then nl\<lparr>nl_min_row_storage := Some 0\<rparr>
      else nl\<lparr>nl_min_row_storage :=
        Some (kokkos_reduce min_body min INT_MAX [nl_number_of_neighbors_list nl])\<rparr>)"

definition computeRowOffsets :: "neighbor_lists \<Rightarrow> neighbor_lists" where
  "computeRowOffsets nl =
     (let offsets = scan_offsets 0 (nl_number_of_neighbors_list nl)
      in nl\<lparr>nl_row_offsets := offsets, nl_host_row_offsets := offsets\<rparr>)"

definition copyDeviceDataToHost :: "neighbor_lists \<Rightarrow> neighbor_lists" where
  "copyDeviceDataToHost nl =
     nl\<lparr>nl_host_cr_neighbor_lists := nl_cr_neighbor_lists nl, nl_needs_sync_to_host := False\<rparr>"

definition getNeighborLists :: "neighbor_lists \<Rightarrow> int list" where
  "getNeighborLists nl = nl_cr_neighbor_lists nl"

text \<open>One store into the compressed rows, through the device view.\<close>

definition write_cr :: "neighbor_lists \<Rightarrow> int \<Rightarrow> int \<Rightarrow> neighbor_lists result" where
  "write_cr nl k v =
     rbind (view_write (nl_cr_neighbor_lists nl) k v) (\<lambda>cr.
       Inr (if nl_aliased nl
            then nl\<lparr>nl_cr_neighbor_lists := cr, nl_host_cr_neighbor_lists := cr\<rparr>
            else nl\<lparr>nl_cr_neighbor_lists := cr\<rparr>))"

text \<open>
  The flag is set inside \<open>compadre_assert_debug\<close>, so only a debug build marks the host
  copy as stale.
\<close>

definition setNeighborDevice ::
  "bool \<Rightarrow> neighbor_lists \<Rightarrow> int \<Rightarrow> int \<Rightarrow> int \<Rightarrow> neighbor_lists result" where
  "setNeighborDevice dbg nl target_index neighbor_num new_value =
     rbind (view_read (nl_row_offsets nl) target_index) (\<lambda>off.
     rbind (write_cr nl (uint (off + TO_GLOBAL neighbor_num)) new_value) (\<lambda>nl'.
       Inr (if dbg then nl'\<lparr>nl_needs_sync_to_host := True\<rparr> else nl')))"

section \<open>Accessors\<close>

definition getNumberOfTargets :: "neighbor_lists \<Rightarrow> int" where
  "getNumberOfTargets nl = nl_number_of_targets nl"

definition getNumberOfNeighborsHost :: "neighbor_lists \<Rightarrow> int \<Rightarrow> int result" where
  "getNumberOfNeighborsHost nl target_index =
     view_read (nl_host_number_of_neighbors_list nl) target_index"

definition getNumberOfNeighborsDevice :: "neighbor_lists \<Rightarrow> int \<Rightarrow> int result" where
  "getNumberOfNeighborsDevice nl target_index =
     view_read (nl_number_of_neighbors_list nl) target_index"

definition getRowOffsetHost :: "neighbor_lists \<Rightarrow> int \<Rightarrow> u64 result" where
  "getRowOffsetHost nl target_index = view_read (nl_host_row_offsets nl) target_index"

definition getRowOffsetDevice :: "neighbor_lists \<Rightarrow> int \<Rightarrow> u64 result" where
  "getRowOffsetDevice nl target_index = view_read (nl_row_offsets nl) target_index"

definition getNeighborHost :: "bool \<Rightarrow> neighbor_lists \<Rightarrow> int \<Rightarrow> int \<Rightarrow> int result" where
  "getNeighborHost dbg nl target_index neighbor_num =
     rbind (compadre_assert_debug dbg ''Stale information in host_cr_neighbor_lists.''
              (\<not> nl_needs_sync_to_host nl)) (\<lambda>_.
     rbind (if dbg
            then rbind (getNumberOfNeighborsHost nl target_index) (\<lambda>n.
              compadre_assert_debug dbg ''neighor_num exceeds number of neighbors''
                (neighbor_num < n))
            else Inr ()) (\<lambda>_.
     rbind (getRowOffsetHost nl target_index) (\<lambda>off.
       view_read (nl_host_cr_neighbor_lists nl) (uint (off + TO_GLOBAL neighbor_num)))))"

definition getNeighborDevice :: "neighbor_lists \<Rightarrow> int \<Rightarrow> int \<Rightarrow> int result" where
  "getNeighborDevice nl target_index neighbor_num =
     rbind (getRowOffsetDevice nl target_index) (\<lambda>off.
       view_read (nl_cr_neighbor_lists nl) (uint (off + TO_GLOBAL neighbor_num)))"

definition getMaxNumNeighbors :: "bool \<Rightarrow> neighbor_lists \<Rightarrow> int result" where
  "getMaxNumNeighbors dbg nl =
     rbind (compadre_kernel_assert_debug dbg ''maximum never calculated''
              (nl_max_row_storage nl > -1)) (\<lambda>_.
       Inr (nl_max_row_storage nl))"

definition getMinNumNeighbors :: "bool \<Rightarrow> neighbor_lists \<Rightarrow> int result" where
  "getMinNumNeighbors dbg nl =
     (case nl_min_row_storage nl of
        None \<Rightarrow> Inl Indeterminate_value
      | Some m \<Rightarrow>
          rbind (compadre_kernel_assert_debug dbg ''minimum never calculated'' (m > -1)) (\<lambda>_.
            Inr m))"

definition getTotalNeighborsOverAllListsHost :: "neighbor_lists \<Rightarrow> u64 result" where
  "getTotalNeighborsOverAllListsHost nl =
     (if getNumberOfTargets nl = 0 then Inr 0
      else rbind (getNumberOfNeighborsHost nl (getNumberOfTargets nl - 1)) (\<lambda>n.
           rbind (getRowOffsetHost nl (getNumberOfTargets nl - 1)) (\<lambda>off.
             Inr (TO_GLOBAL n + off))))"

definition getTotalNeighborsOverAllListsDevice :: "neighbor_lists \<Rightarrow> u64 result" where
  "getTotalNeighborsOverAllListsDevice nl =
     rbind (getNumberOfNeighborsDevice nl (getNumberOfTargets nl - 1)) (\<lambda>n.
     rbind (getRowOffsetDevice nl (getNumberOfTargets nl - 1)) (\<lambda>off.
       Inr (TO_GLOBAL n + off)))"

section \<open>Constructors\<close>

definition NeighborLists_default :: neighbor_lists where
  "NeighborLists_default =
     \<lparr>nl_max_row_storage = -1, nl_min_row_storage = Some (-1), nl_needs_sync_to_host = True,
      nl_number_of_targets = 0, nl_row_offsets = [], nl_cr_neighbor_lists = [],
      nl_number_of_neighbors_list = [], nl_host_row_offsets = [],
      nl_host_cr_neighbor_lists = [], nl_host_number_of_neighbors_list = [],
      nl_aliased = True\<rparr>"

definition check_storage :: "neighbor_lists \<Rightarrow> neighbor_lists result" where
  "check_storage nl =
     rbind (getTotalNeighborsOverAllListsHost nl) (\<lambda>total.
     rbind (compadre_assert_release
              ''neighbor_lists is not large enough to store all neighbors.''
              (unat total \<le> length (nl_cr_neighbor_lists nl))) (\<lambda>_.
       Inr (nl\<lparr>nl_needs_sync_to_host := False\<rparr>)))"

text \<open>With row offsets that the caller has computed.\<close>

definition NeighborLists_with_offsets ::
  "bool \<Rightarrow> int list \<Rightarrow> int list \<Rightarrow> u64 list \<Rightarrow> bool \<Rightarrow> neighbor_lists result" where
  "NeighborLists_with_offsets aliased cr_neighbor_lists number_of_neighbors_list
       neighbor_lists_row_offsets compute_max =
     (let nl = \<lparr>nl_max_row_storage = -1, nl_min_row_storage = Some (-1),
                nl_needs_sync_to_host = True,
                nl_number_of_targets = int (length number_of_neighbors_list),
                nl_row_offsets = neighbor_lists_row_offsets,
                nl_cr_neighbor_lists = cr_neighbor_lists,
                nl_number_of_neighbors_list = number_of_neighbors_list,
                nl_host_row_offsets = neighbor_lists_row_offsets,
                nl_host_cr_neighbor_lists = cr_neighbor_lists,
                nl_host_number_of_neighbors_list = number_of_neighbors_list,
                nl_aliased = aliased\<rparr>;
          nl = (if compute_max then computeMaxNumNeighbors nl
                else nl\<lparr>nl_max_row_storage := -1\<rparr>)
      in check_storage nl)"

text \<open>With preallocated rows; the offsets are computed here.\<close>

definition NeighborLists_compressed ::
  "bool \<Rightarrow> int list \<Rightarrow> int list \<Rightarrow> neighbor_lists result" where
  "NeighborLists_compressed aliased cr_neighbor_lists number_of_neighbors_list =
     (let n = length number_of_neighbors_list;
          nl = \<lparr>nl_max_row_storage = -1, nl_min_row_storage = None,
                nl_needs_sync_to_host = True, nl_number_of_targets = int n,
                nl_row_offsets = replicate n 0,
                nl_cr_neighbor_lists = cr_neighbor_lists,
                nl_number_of_neighbors_list = number_of_neighbors_list,
                nl_host_row_offsets = replicate n 0,
                nl_host_cr_neighbor_lists = cr_neighbor_lists,
                nl_host_number_of_neighbors_list = number_of_neighbors_list,
                nl_aliased = aliased\<rparr>;
          nl = computeMaxNumNeighbors (computeRowOffsets nl)
      in check_storage nl)"

text \<open>From the numbers of neighbors alone; the rows are allocated, filled with zero.\<close>

definition NeighborLists_counts :: "bool \<Rightarrow> int list \<Rightarrow> neighbor_lists result" where
  "NeighborLists_counts aliased number_of_neighbors_list =
     (let n = length number_of_neighbors_list;
          nl = \<lparr>nl_max_row_storage = -1, nl_min_row_storage = None,
                nl_needs_sync_to_host = True, nl_number_of_targets = int n,
                nl_row_offsets = replicate n 0, nl_cr_neighbor_lists = [],
                nl_number_of_neighbors_list = number_of_neighbors_list,
                nl_host_row_offsets = replicate n 0, nl_host_cr_neighbor_lists = [],
                nl_host_number_of_neighbors_list = number_of_neighbors_list,
                nl_aliased = aliased\<rparr>;
          nl = computeMaxNumNeighbors (computeRowOffsets nl)
      in rbind (getTotalNeighborsOverAllListsHost nl) (\<lambda>total.
           Inr (nl\<lparr>nl_cr_neighbor_lists := replicate (unat total) 0,
                   nl_host_cr_neighbor_lists := replicate (unat total) 0,
                   nl_needs_sync_to_host := False\<rparr>)))"

section \<open>Two-dimensional lists\<close>

text \<open>
  Entry 0 of a row is the number of neighbors, the neighbors follow.  The copy runs over
  the device when it can reach the new rows and over the host otherwise; \<open>order\<close> is the
  order in which the row iterations are executed.
\<close>

definition copy_row :: "(neighbor_lists \<Rightarrow> int \<Rightarrow> u64 result) \<Rightarrow> int list list \<Rightarrow> nat
    \<Rightarrow> neighbor_lists \<Rightarrow> neighbor_lists result" where
  "copy_row row_offset neighbor_lists i nla =
     rbind (view_read2 neighbor_lists (int i) 0) (\<lambda>n.
       rfold (\<lambda>j nla.
         rbind (row_offset nla (int i)) (\<lambda>off.
         rbind (view_read2 neighbor_lists (int i) (int j + 1)) (\<lambda>v.
           write_cr nla (uint (off + TO_GLOBAL (int j))) v)))
         [0..<nat n] nla)"

text \<open>The reduction that sizes the compressed rows.\<close>

definition total_storage_size :: "int list \<Rightarrow> u64" where
  "total_storage_size counts = kokkos_reduce (\<lambda>n t. t + TO_GLOBAL n) (+) 0 [counts]"

definition Convert2DToCompressedRowNeighborLists ::
  "bool \<Rightarrow> bool \<Rightarrow> nat list \<Rightarrow> int list list \<Rightarrow> neighbor_lists result" where
  "Convert2DToCompressedRowNeighborLists aliased device_accessible order neighbor_lists =
     rbind (rmap (\<lambda>row. view_read row 0) neighbor_lists) (\<lambda>counts.
     let new_cr_neighbor_lists = replicate (unat (total_storage_size counts)) 0;
         new_number_of_neighbors_list = counts
     in rbind (NeighborLists_compressed aliased new_cr_neighbor_lists
                 new_number_of_neighbors_list) (\<lambda>nla.
        if device_accessible
        then rbind (rfold (copy_row getRowOffsetDevice neighbor_lists) order nla) (\<lambda>nla.
               Inr (copyDeviceDataToHost nla))
        else rfold (copy_row getRowOffsetHost neighbor_lists) order nla))"

section \<open>Reductions do not depend on the schedule\<close>

text \<open>
  The contract of a reducer: the body can be moved under the join, and joining the
  identity changes nothing.  Then the result is the one of the sequential loop.
\<close>

locale reducer =
  fixes ok :: "'r \<Rightarrow> bool"
    and body :: "'a \<Rightarrow> 'r \<Rightarrow> 'r"
    and join :: "'r \<Rightarrow> 'r \<Rightarrow> 'r"
    and ident :: 'r
  assumes ok_ident: "ok ident"
    and ok_body: "ok r \<Longrightarrow> ok (body x r)"
    and join_ident: "ok r \<Longrightarrow> join r ident = r"
    and body_join: "body x (join r r') = join r (body x r')"
begin

lemma fold_join: "fold body c (join r r') = join r (fold body c r')"
  by (induction c arbitrary: r') (simp_all add: body_join)

lemma ok_fold: "ok r \<Longrightarrow> ok (fold body c r)"
  by (induction c arbitrary: r) (simp_all add: ok_body)

lemma join_chunk: "ok r \<Longrightarrow> join r (fold body c ident) = fold body c r"
  using fold_join [of c r ident] by (simp add: join_ident)

lemma reduce_sequential:
  "kokkos_reduce body join ident chunks = fold body (concat chunks) ident"
proof -
  have "foldl join r (map (\<lambda>c. fold body c ident) chunks) = fold body (concat chunks) r"
    if "ok r" for r
    using that by (induction chunks arbitrary: r) (simp_all add: join_chunk ok_fold)
  then show ?thesis by (simp add: kokkos_reduce_def ok_ident)
qed

end

interpretation max_reducer: reducer "\<lambda>r. INT_MIN \<le> r" max_body max INT_MIN
  by unfold_locales (auto simp: max_body_def)

interpretation min_reducer: reducer "\<lambda>r. r \<le> INT_MAX" min_body min INT_MAX
  by unfold_locales (auto simp: min_body_def)

interpretation sum_reducer: reducer "\<lambda>_. True" "\<lambda>n t. t + TO_GLOBAL n" "(+)" 0
  by unfold_locales (simp_all add: algebra_simps)

lemma fold_max_body: "fold max_body ns r = Max (insert r (set ns))"
proof (induction ns arbitrary: r)
  case Nil
  show ?case by simp
next
  case (Cons n ns)
  have "max_body n r = max n r" by (simp add: max_body_def)
  with Cons show ?case by (cases "ns = []") (simp_all add: ac_simps)
qed

lemma fold_min_body: "fold min_body ns r = Min (insert r (set ns))"
proof (induction ns arbitrary: r)
  case Nil
  show ?case by simp
next
  case (Cons n ns)
  have "min_body n r = min n r" by (simp add: min_body_def)
  with Cons show ?case by (cases "ns = []") (simp_all add: ac_simps)
qed

section \<open>The scan\<close>

lemma TO_GLOBAL_add: "TO_GLOBAL (a + b) = TO_GLOBAL a + TO_GLOBAL b"
  by (simp add: TO_GLOBAL_def)

lemma fold_TO_GLOBAL: "fold (\<lambda>n s. s + TO_GLOBAL n) ns s = s + TO_GLOBAL (sum_list ns)"
  by (induction ns arbitrary: s) (simp_all add: TO_GLOBAL_add)

lemma chunk_sum_eq: "chunk_sum ns = TO_GLOBAL (sum_list ns)"
  by (simp add: chunk_sum_def fold_TO_GLOBAL)

lemma length_scan_offsets [simp]: "length (scan_offsets s ns) = length ns"
  by (induction ns arbitrary: s) simp_all

lemma scan_offsets_append:
  "scan_offsets s (xs @ ys) = scan_offsets s xs @ scan_offsets (s + TO_GLOBAL (sum_list xs)) ys"
  by (induction xs arbitrary: s) (simp_all add: TO_GLOBAL_add add.assoc)

lemma kokkos_scan_sequential: "kokkos_scan s chunks = scan_offsets s (concat chunks)"
  by (induction chunks arbitrary: s) (simp_all add: scan_offsets_append chunk_sum_eq)

lemma scan_offsets_nth:
  "i < length ns \<Longrightarrow> scan_offsets s ns ! i = s + TO_GLOBAL (sum_list (take i ns))"
proof (induction ns arbitrary: s i)
  case Nil
  then show ?case by simp
next
  case (Cons n ns)
  then show ?case by (cases i) (simp_all add: TO_GLOBAL_add add.assoc)
qed

text \<open>Counts that the code can store: none negative, and a total within \<open>size_t\<close>.\<close>

definition counts_ok :: "int list \<Rightarrow> bool" where
  "counts_ok ns \<longleftrightarrow> (\<forall>n \<in> set ns. 0 \<le> n) \<and> sum_list ns < 2 ^ 64"

lemma counts_ok_nonneg: "counts_ok ns \<Longrightarrow> 0 \<le> sum_list ns"
  by (simp add: counts_ok_def sum_list_nonneg)

lemma counts_ok_nat: "counts_ok ns \<Longrightarrow> nat (sum_list ns) < 2 ^ 64"
  by (simp add: counts_ok_def nat_less_iff sum_list_nonneg)

lemma sum_list_take_le:
  fixes ns :: "int list"
  assumes "\<forall>n \<in> set ns. 0 \<le> n"
  shows "0 \<le> sum_list (take i ns) \<and> sum_list (take i ns) \<le> sum_list ns"
proof -
  have "0 \<le> sum_list (take i ns)" "0 \<le> sum_list (drop i ns)"
    using assms by (auto intro!: sum_list_nonneg dest: in_set_takeD in_set_dropD)
  moreover have "sum_list ns = sum_list (take i ns) + sum_list (drop i ns)"
    by (metis append_take_drop_id sum_list_append)
  ultimately show ?thesis by simp
qed

lemma scan_offsets_unat:
  assumes "counts_ok ns" "i < length ns"
  shows "unat (scan_offsets 0 ns ! i) = nat (sum_list (take i ns))"
  using assms sum_list_take_le [of ns i]
  by (simp add: scan_offsets_nth counts_ok_def unat_TO_GLOBAL)

lemma sum_list_take_nat:
  fixes ns :: "int list"
  assumes "\<forall>n \<in> set ns. 0 \<le> n" "i \<le> length ns"
  shows "nat (sum_list (take i ns)) = (\<Sum>k<i. nat (ns ! k))"
  using assms(2)
proof (induction i)
  case 0
  then show ?case by simp
next
  case (Suc i)
  then have "sum_list (take (Suc i) ns) = sum_list (take i ns) + ns ! i"
    by (simp add: take_Suc_conv_app_nth)
  moreover have "0 \<le> ns ! i" "0 \<le> sum_list (take i ns)"
    using assms Suc.prems sum_list_take_le [of ns i] by auto
  ultimately show ?case using Suc by (simp add: nat_add_distrib)
qed

section \<open>Well-formed neighbor lists\<close>

definition nl_wf :: "neighbor_lists \<Rightarrow> bool" where
  "nl_wf nl \<longleftrightarrow>
     counts_ok (nl_number_of_neighbors_list nl)
     \<and> nl_number_of_targets nl = int (length (nl_number_of_neighbors_list nl))
     \<and> nl_row_offsets nl = scan_offsets 0 (nl_number_of_neighbors_list nl)
     \<and> nl_host_row_offsets nl = nl_row_offsets nl
     \<and> nl_host_number_of_neighbors_list nl = nl_number_of_neighbors_list nl
     \<and> length (nl_host_cr_neighbor_lists nl) = length (nl_cr_neighbor_lists nl)
     \<and> sum_list (nl_number_of_neighbors_list nl) \<le> int (length (nl_cr_neighbor_lists nl))
     \<and> (nl_aliased nl \<longrightarrow> nl_host_cr_neighbor_lists nl = nl_cr_neighbor_lists nl)"

lemma nl_wfD:
  assumes "nl_wf nl"
  shows "counts_ok (nl_number_of_neighbors_list nl)"
    and "nl_number_of_targets nl = int (length (nl_number_of_neighbors_list nl))"
    and "nl_row_offsets nl = scan_offsets 0 (nl_number_of_neighbors_list nl)"
    and "nl_host_row_offsets nl = scan_offsets 0 (nl_number_of_neighbors_list nl)"
    and "nl_host_number_of_neighbors_list nl = nl_number_of_neighbors_list nl"
    and "length (nl_host_cr_neighbor_lists nl) = length (nl_cr_neighbor_lists nl)"
    and "sum_list (nl_number_of_neighbors_list nl) \<le> int (length (nl_cr_neighbor_lists nl))"
    and "nl_aliased nl \<Longrightarrow> nl_host_cr_neighbor_lists nl = nl_cr_neighbor_lists nl"
  using assms by (simp_all add: nl_wf_def)

definition nl_rows :: "neighbor_lists \<Rightarrow> nat" where
  "nl_rows nl = length (nl_number_of_neighbors_list nl)"

definition nl_count :: "neighbor_lists \<Rightarrow> nat \<Rightarrow> nat" where
  "nl_count nl i = nat (nl_number_of_neighbors_list nl ! i)"

definition nl_offset :: "neighbor_lists \<Rightarrow> nat \<Rightarrow> nat" where
  "nl_offset nl i = unat (nl_row_offsets nl ! i)"

definition nl_extent :: "neighbor_lists \<Rightarrow> nat" where
  "nl_extent nl = length (nl_cr_neighbor_lists nl)"

lemmas nl_view_defs = nl_rows_def nl_count_def nl_offset_def nl_extent_def

lemma nl_offset_sum:
  assumes "nl_wf nl" "i < nl_rows nl"
  shows "nl_offset nl i = (\<Sum>k<i. nl_count nl k)"
proof -
  have ns: "\<forall>n \<in> set (nl_number_of_neighbors_list nl). 0 \<le> n"
    using nl_wfD(1) [OF assms(1)] by (simp add: counts_ok_def)
  show ?thesis
    using assms nl_wfD(1,3) [OF assms(1)] sum_list_take_nat [OF ns]
    by (simp add: nl_view_defs scan_offsets_unat)
qed

lemma nl_total_count:
  assumes "nl_wf nl"
  shows "(\<Sum>k<nl_rows nl. nl_count nl k) = nat (sum_list (nl_number_of_neighbors_list nl))"
proof -
  have ns: "\<forall>n \<in> set (nl_number_of_neighbors_list nl). 0 \<le> n"
    using nl_wfD(1) [OF assms] by (simp add: counts_ok_def)
  show ?thesis
    using sum_list_take_nat [OF ns, of "length (nl_number_of_neighbors_list nl)"]
    by (simp add: nl_view_defs)
qed

interpretation nls: scan_store nl_wf nl_rows nl_count nl_offset nl_extent
proof unfold_locales
  fix nl :: neighbor_lists
  assume wf: "nl_wf nl"
  show "nl_offset nl 0 = 0" if "0 < nl_rows nl"
    using nl_offset_sum [OF wf that] by simp
  show "nl_offset nl (Suc i) = nl_offset nl i + nl_count nl i" if "Suc i < nl_rows nl" for i
    using nl_offset_sum [OF wf that] nl_offset_sum [OF wf Suc_lessD [OF that]] by simp
  show "(\<Sum>k<nl_rows nl. nl_count nl k) \<le> nl_extent nl"
    using nl_total_count [OF wf] nl_wfD(7) [OF wf] by (simp add: nl_extent_def)
qed

section \<open>Addresses\<close>

lemma nl_address:
  assumes "nl_wf nl" "i < nl_rows nl" "j < nl_count nl i"
  shows "uint (nl_row_offsets nl ! i + TO_GLOBAL (int j)) = int (nl_offset nl i + j)"
proof -
  have "nl_offset nl i + j < (\<Sum>k<nl_rows nl. nl_count nl k)"
    using assms by (rule nls.slot_bound)
  also have "\<dots> < 2 ^ 64"
    using nl_total_count [OF assms(1)] counts_ok_nat [OF nl_wfD(1) [OF assms(1)]] by simp
  finally have "unat (nl_row_offsets nl ! i + of_nat j) = nl_offset nl i + j"
    by (simp add: nl_offset_def unat_word_ariths unat_of_nat take_bit_nat_eq_self)
  then show ?thesis
    by (metis TO_GLOBAL_of_nat uint_nat)
qed

lemma nl_offset_device:
  "nl_wf nl \<Longrightarrow> i < nl_rows nl \<Longrightarrow> getRowOffsetDevice nl (int i) = Inr (nl_row_offsets nl ! i)"
  using nl_wfD(3) [of nl] by (simp add: getRowOffsetDevice_def nl_rows_def)

lemma nl_offset_host:
  "nl_wf nl \<Longrightarrow> i < nl_rows nl \<Longrightarrow> getRowOffsetHost nl (int i) = Inr (nl_row_offsets nl ! i)"
  using nl_wfD(3,4) [of nl] by (simp add: getRowOffsetHost_def nl_rows_def)

lemma nl_count_host:
  "nl_wf nl \<Longrightarrow> i < nl_rows nl \<Longrightarrow> getNumberOfNeighborsHost nl (int i) = Inr (int (nl_count nl i))"
  using nl_wfD(1,5) [of nl]
  by (simp add: getNumberOfNeighborsHost_def nl_rows_def nl_count_def counts_ok_def)

lemma nl_count_device:
  "nl_wf nl \<Longrightarrow> i < nl_rows nl \<Longrightarrow> getNumberOfNeighborsDevice nl (int i) = Inr (int (nl_count nl i))"
  using nl_wfD(1) [of nl]
  by (simp add: getNumberOfNeighborsDevice_def nl_rows_def nl_count_def counts_ok_def)

lemma nl_device_read:
  assumes "nl_wf nl" "i < nl_rows nl" "j < nl_count nl i"
  shows "getNeighborDevice nl (int i) (int j) = Inr (nl_cr_neighbor_lists nl ! (nl_offset nl i + j))"
  using nls.slot_in_extent [OF assms]
  by (simp only: getNeighborDevice_def nl_offset_device [OF assms(1,2)] rbind_Inr
      nl_address [OF assms] nl_extent_def view_read_nat)

lemma nl_host_read:
  assumes "nl_wf nl" "i < nl_rows nl" "j < nl_count nl i"
  shows "getNeighborHost dbg nl (int i) (int j) =
    (if dbg \<and> nl_needs_sync_to_host nl
     then Inl (Logic_error ''Stale information in host_cr_neighbor_lists.'')
     else Inr (nl_host_cr_neighbor_lists nl ! (nl_offset nl i + j)))"
proof -
  have "view_read (nl_host_cr_neighbor_lists nl) (uint (nl_row_offsets nl ! i + TO_GLOBAL (int j)))
      = Inr (nl_host_cr_neighbor_lists nl ! (nl_offset nl i + j))"
    using nls.slot_in_extent [OF assms] nl_wfD(6) [OF assms(1)]
    by (simp only: nl_address [OF assms] nl_extent_def view_read_nat)
  then show ?thesis
    using assms(3)
    by (auto simp: getNeighborHost_def nl_offset_host [OF assms(1,2)] nl_count_host [OF assms(1,2)]
        compadre_assert_debug_def)
qed

section \<open>Stores\<close>

text \<open>A store into the compressed rows: what it changes and what it keeps.\<close>

definition nl_store :: "neighbor_lists \<Rightarrow> nat \<Rightarrow> int \<Rightarrow> neighbor_lists" where
  "nl_store nl k v =
     nl\<lparr>nl_cr_neighbor_lists := (nl_cr_neighbor_lists nl)[k := v],
        nl_host_cr_neighbor_lists :=
          (if nl_aliased nl then (nl_cr_neighbor_lists nl)[k := v]
           else nl_host_cr_neighbor_lists nl)\<rparr>"

lemma write_cr_eq: "k < nl_extent nl \<Longrightarrow> write_cr nl (int k) v = Inr (nl_store nl k v)"
  by (simp add: write_cr_def nl_extent_def nl_store_def)

lemma nl_store_simps [simp]:
  "nl_number_of_neighbors_list (nl_store nl k v) = nl_number_of_neighbors_list nl"
  "nl_row_offsets (nl_store nl k v) = nl_row_offsets nl"
  "nl_host_row_offsets (nl_store nl k v) = nl_host_row_offsets nl"
  "nl_host_number_of_neighbors_list (nl_store nl k v) = nl_host_number_of_neighbors_list nl"
  "nl_number_of_targets (nl_store nl k v) = nl_number_of_targets nl"
  "nl_max_row_storage (nl_store nl k v) = nl_max_row_storage nl"
  "nl_aliased (nl_store nl k v) = nl_aliased nl"
  "nl_needs_sync_to_host (nl_store nl k v) = nl_needs_sync_to_host nl"
  "nl_rows (nl_store nl k v) = nl_rows nl"
  "nl_count (nl_store nl k v) = nl_count nl"
  "nl_offset (nl_store nl k v) = nl_offset nl"
  "nl_extent (nl_store nl k v) = nl_extent nl"
  "nl_cr_neighbor_lists (nl_store nl k v) = (nl_cr_neighbor_lists nl)[k := v]"
  by (simp_all add: nl_store_def nl_view_defs fun_eq_iff)

lemma nl_wf_store: "nl_wf nl \<Longrightarrow> nl_wf (nl_store nl k v)"
  by (auto simp: nl_wf_def nl_store_def)

lemma nl_wf_sync_flag [simp]: "nl_wf (nl\<lparr>nl_needs_sync_to_host := b\<rparr>) \<longleftrightarrow> nl_wf nl"
  by (simp add: nl_wf_def)

lemma nl_wf_copyDeviceDataToHost: "nl_wf nl \<Longrightarrow> nl_wf (copyDeviceDataToHost nl)"
  by (auto simp: nl_wf_def copyDeviceDataToHost_def)

lemma nl_views_flag [simp]:
  "nl_rows (nl\<lparr>nl_needs_sync_to_host := b\<rparr>) = nl_rows nl"
  "nl_count (nl\<lparr>nl_needs_sync_to_host := b\<rparr>) = nl_count nl"
  "nl_offset (nl\<lparr>nl_needs_sync_to_host := b\<rparr>) = nl_offset nl"
  "nl_extent (nl\<lparr>nl_needs_sync_to_host := b\<rparr>) = nl_extent nl"
  by (simp_all add: nl_view_defs fun_eq_iff)

lemma nl_views_sync [simp]:
  "nl_rows (copyDeviceDataToHost nl) = nl_rows nl"
  "nl_count (copyDeviceDataToHost nl) = nl_count nl"
  "nl_offset (copyDeviceDataToHost nl) = nl_offset nl"
  "nl_extent (copyDeviceDataToHost nl) = nl_extent nl"
  "nl_cr_neighbor_lists (copyDeviceDataToHost nl) = nl_cr_neighbor_lists nl"
  "nl_host_cr_neighbor_lists (copyDeviceDataToHost nl) = nl_cr_neighbor_lists nl"
  "nl_needs_sync_to_host (copyDeviceDataToHost nl) = False"
  by (simp_all add: nl_view_defs fun_eq_iff copyDeviceDataToHost_def)

lemma setNeighborDevice_eq:
  assumes "nl_wf nl" "i < nl_rows nl" "j < nl_count nl i"
  shows "setNeighborDevice dbg nl (int i) (int j) v =
    Inr (let nl' = nl_store nl (nl_offset nl i + j) v
         in if dbg then nl'\<lparr>nl_needs_sync_to_host := True\<rparr> else nl')"
  using nl_offset_device [OF assms(1,2)]
  by (simp add: setNeighborDevice_def getRowOffsetDevice_def nl_address [OF assms]
      write_cr_eq nls.slot_in_extent [OF assms] Let_def del: of_nat_add)

lemma setNeighborDevice_wf:
  assumes "nl_wf nl" "i < nl_rows nl" "j < nl_count nl i"
    and "setNeighborDevice dbg nl (int i) (int j) v = Inr nl'"
  shows "nl_wf nl' \<and> nl_rows nl' = nl_rows nl \<and> nl_count nl' = nl_count nl
    \<and> nl_offset nl' = nl_offset nl
    \<and> nl_cr_neighbor_lists nl' = (nl_cr_neighbor_lists nl)[nl_offset nl i + j := v]"
  using assms(4) nl_wf_store [OF assms(1)]
  by (auto simp: setNeighborDevice_eq [OF assms(1-3)] Let_def split: if_splits)

section \<open>Construction\<close>

lemma computeMaxNumNeighbors_eq:
  assumes "counts_ok (nl_number_of_neighbors_list nl)"
  shows "computeMaxNumNeighbors nl =
    nl\<lparr>nl_max_row_storage := Max (insert 0 (set (nl_number_of_neighbors_list nl)))\<rparr>"
proof (cases "nl_number_of_neighbors_list nl")
  case Nil
  then show ?thesis by (simp add: computeMaxNumNeighbors_def)
next
  case (Cons n ns)
  have "0 \<le> n" "INT_MIN \<le> n"
    using assms Cons by (auto simp: counts_ok_def INT_MIN_def)
  then have "Max (insert INT_MIN (insert n (set ns))) = Max (insert 0 (insert n (set ns)))"
    by (cases "ns = []") (auto simp: insert_commute [of _ n] max_def)
  then show ?thesis
    using Cons
    by (simp add: computeMaxNumNeighbors_def max_reducer.reduce_sequential fold_max_body
        del: fold.simps)
qed

lemma total_host_eq:
  assumes "nl_number_of_targets nl = int (length (nl_host_number_of_neighbors_list nl))"
    and "nl_host_row_offsets nl = scan_offsets 0 (nl_host_number_of_neighbors_list nl)"
  shows "getTotalNeighborsOverAllListsHost nl =
    Inr (TO_GLOBAL (sum_list (nl_host_number_of_neighbors_list nl)))"
proof (cases "nl_host_number_of_neighbors_list nl" rule: rev_cases)
  case Nil
  then show ?thesis
    using assms by (simp add: getTotalNeighborsOverAllListsHost_def getNumberOfTargets_def)
next
  case (snoc ns n)
  then have "nl_number_of_targets nl - 1 = int (length ns)" "nl_number_of_targets nl \<noteq> 0"
    using assms(1) by simp_all
  then show ?thesis
    using assms snoc
    by (simp add: getTotalNeighborsOverAllListsHost_def getNumberOfTargets_def
        getNumberOfNeighborsHost_def getRowOffsetHost_def scan_offsets_append nth_append
        TO_GLOBAL_add del: of_nat_diff)
qed

lemma nl_total_host:
  assumes "nl_wf nl"
  shows "getTotalNeighborsOverAllListsHost nl =
    Inr (TO_GLOBAL (int (\<Sum>k<nl_rows nl. nl_count nl k)))"
proof -
  have "0 \<le> sum_list (nl_number_of_neighbors_list nl)"
    using nl_wfD(1) [OF assms] by (simp add: counts_ok_def sum_list_nonneg)
  then show ?thesis
    using total_host_eq [of nl] nl_wfD(2,4,5) [OF assms] nl_total_count [OF assms]
    by simp
qed

text \<open>The object that the constructor from preallocated rows builds.\<close>

definition nl_built :: "bool \<Rightarrow> int list \<Rightarrow> int list \<Rightarrow> neighbor_lists" where
  "nl_built aliased cr counts =
     \<lparr>nl_max_row_storage = Max (insert 0 (set counts)), nl_min_row_storage = None,
      nl_needs_sync_to_host = False, nl_number_of_targets = int (length counts),
      nl_row_offsets = scan_offsets 0 counts, nl_cr_neighbor_lists = cr,
      nl_number_of_neighbors_list = counts, nl_host_row_offsets = scan_offsets 0 counts,
      nl_host_cr_neighbor_lists = cr, nl_host_number_of_neighbors_list = counts,
      nl_aliased = aliased\<rparr>"

lemma nl_built_wf:
  "counts_ok counts \<Longrightarrow> sum_list counts \<le> int (length cr) \<Longrightarrow> nl_wf (nl_built aliased cr counts)"
  by (simp add: nl_wf_def nl_built_def)

lemma NeighborLists_compressed_eq:
  assumes "counts_ok counts"
  shows "NeighborLists_compressed aliased cr counts =
    (if sum_list counts \<le> int (length cr) then Inr (nl_built aliased cr counts)
     else Inl (Logic_error ''neighbor_lists is not large enough to store all neighbors.''))"
proof -
  have "0 \<le> sum_list counts" "sum_list counts < 2 ^ 64"
    using assms by (simp_all add: counts_ok_def sum_list_nonneg)
  then have "unat (TO_GLOBAL (sum_list counts)) \<le> length cr \<longleftrightarrow> sum_list counts \<le> int (length cr)"
    by (simp add: unat_TO_GLOBAL nat_le_iff)
  then show ?thesis
    using assms
    by (simp add: NeighborLists_compressed_def Let_def computeRowOffsets_def
        computeMaxNumNeighbors_eq check_storage_def total_host_eq nl_built_def)
qed

lemma NeighborLists_counts_eq:
  assumes "counts_ok counts"
  shows "NeighborLists_counts aliased counts =
    Inr (nl_built aliased (replicate (nat (sum_list counts)) 0) counts)"
proof -
  have "0 \<le> sum_list counts" "sum_list counts < 2 ^ 64"
    using assms by (simp_all add: counts_ok_def sum_list_nonneg)
  then show ?thesis
    using assms
    by (simp add: NeighborLists_counts_def Let_def computeRowOffsets_def
        computeMaxNumNeighbors_eq total_host_eq nl_built_def unat_TO_GLOBAL)
qed

section \<open>Conversion from two-dimensional lists\<close>

text \<open>Writing one row, and writing the rows in any order.\<close>

definition row_store :: "int list list \<Rightarrow> nat \<Rightarrow> neighbor_lists \<Rightarrow> neighbor_lists" where
  "row_store rows i nl =
     fold (\<lambda>j nl'. nl_store nl' (nl_offset nl i + j) (rows ! i ! (j + 1))) [0..<nl_count nl i] nl"

definition same_layout :: "neighbor_lists \<Rightarrow> neighbor_lists \<Rightarrow> bool" where
  "same_layout nl nl' \<longleftrightarrow> nl_wf nl' \<and> nl_rows nl' = nl_rows nl \<and> nl_count nl' = nl_count nl
     \<and> nl_offset nl' = nl_offset nl \<and> nl_row_offsets nl' = nl_row_offsets nl
     \<and> nl_extent nl' = nl_extent nl
     \<and> nl_aliased nl' = nl_aliased nl \<and> nl_needs_sync_to_host nl' = nl_needs_sync_to_host nl"

lemma same_layout_refl: "nl_wf nl \<Longrightarrow> same_layout nl nl"
  by (simp add: same_layout_def)

lemma same_layout_store: "same_layout nl nl' \<Longrightarrow> same_layout nl (nl_store nl' k v)"
  by (simp add: same_layout_def nl_wf_store)

lemma same_layout_fold:
  "same_layout nl nl' \<Longrightarrow> same_layout nl (fold (\<lambda>j nl''. nl_store nl'' (f j) (g j)) js nl')"
  by (induction js arbitrary: nl') (simp_all add: same_layout_store)

lemma same_layout_trans: "same_layout a b \<Longrightarrow> same_layout b c \<Longrightarrow> same_layout a c"
  by (simp add: same_layout_def)

lemma same_layout_row_store: "same_layout nl nl' \<Longrightarrow> same_layout nl (row_store rows i nl')"
  by (simp add: row_store_def same_layout_fold)

lemma fold_store_nth:
  assumes "a + n \<le> length (nl_cr_neighbor_lists nl)" "k < length (nl_cr_neighbor_lists nl)"
  shows "nl_cr_neighbor_lists (fold (\<lambda>j nl'. nl_store nl' (a + j) (g j)) [0..<n] nl) ! k
    = (if a \<le> k \<and> k < a + n then g (k - a) else nl_cr_neighbor_lists nl ! k)"
  using assms(1)
proof (induction n)
  case 0
  then show ?case by simp
next
  case (Suc n)
  let ?F = "fold (\<lambda>j nl'. nl_store nl' (a + j) (g j)) [0..<n] nl"
  have "length (nl_cr_neighbor_lists ?F) = length (nl_cr_neighbor_lists nl)"
  proof -
    have "length (nl_cr_neighbor_lists (fold (\<lambda>j nl'. nl_store nl' (a + j) (g j)) js nl'))
        = length (nl_cr_neighbor_lists nl')" for js nl'
      by (induction js arbitrary: nl') simp_all
    then show ?thesis .
  qed
  then show ?case
    using Suc assms(2) by (auto simp: nth_list_update)
qed

lemma row_store_nth:
  assumes "nl_wf nl" "i < nl_rows nl" "i' < nl_rows nl" "j < nl_count nl i'"
  shows "nl_cr_neighbor_lists (row_store rows i nl) ! (nl_offset nl i' + j)
    = (if i = i' then rows ! i ! (j + 1) else nl_cr_neighbor_lists nl ! (nl_offset nl i' + j))"
proof -
  have row_end: "nl_offset nl i + nl_count nl i \<le> length (nl_cr_neighbor_lists nl)"
  proof (cases "nl_count nl i")
    case 0
    have "nl_offset nl i \<le> (\<Sum>k<nl_rows nl. nl_count nl k)"
      using assms(1,2) by (simp add: nls.offset_sum sum_mono2)
    then show ?thesis using 0 nls.extent [OF assms(1)] by (simp add: nl_extent_def)
  next
    case (Suc c)
    then show ?thesis
      using nls.slot_in_extent [OF assms(1,2), of c] by (simp add: nl_extent_def)
  qed
  have k: "nl_offset nl i' + j < length (nl_cr_neighbor_lists nl)"
    using nls.slot_in_extent [OF assms(1,3,4)] by (simp add: nl_extent_def)
  show ?thesis
  proof (cases "i = i'")
    case True
    then show ?thesis
      using fold_store_nth [OF row_end k] assms(4) by (simp add: row_store_def)
  next
    case False
    have "\<not> (nl_offset nl i \<le> nl_offset nl i' + j
        \<and> nl_offset nl i' + j < nl_offset nl i + nl_count nl i)"
    proof
      assume "nl_offset nl i \<le> nl_offset nl i' + j
        \<and> nl_offset nl i' + j < nl_offset nl i + nl_count nl i"
      then have "nl_offset nl i + (nl_offset nl i' + j - nl_offset nl i) = nl_offset nl i' + j"
        and "nl_offset nl i' + j - nl_offset nl i < nl_count nl i" by auto
      then show False
        using nls.slot_inj [OF assms(1,2,3) _ assms(4)] False by blast
    qed
    then show ?thesis
      using fold_store_nth [OF row_end k] False by (auto simp: row_store_def)
  qed
qed

lemma rows_store_nth:
  assumes "nl_wf nl" "\<forall>i \<in> set ord. i < nl_rows nl" "i' < nl_rows nl" "j < nl_count nl i'"
  shows "nl_cr_neighbor_lists (fold (row_store rows) ord nl) ! (nl_offset nl i' + j)
    = (if i' \<in> set ord then rows ! i' ! (j + 1)
       else nl_cr_neighbor_lists nl ! (nl_offset nl i' + j))"
  using assms
proof (induction ord arbitrary: nl)
  case Nil
  then show ?case by simp
next
  case (Cons i ord)
  have "same_layout nl (row_store rows i nl)"
    using Cons.prems(1) by (simp add: same_layout_refl same_layout_row_store)
  then show ?case
    using Cons.IH [of "row_store rows i nl"] row_store_nth [OF Cons.prems(1) _ Cons.prems(3,4)]
      Cons.prems
    by (auto simp: same_layout_def)
qed

text \<open>A two-dimensional list as its format wants it.\<close>

definition rows_ok :: "int list list \<Rightarrow> bool" where
  "rows_ok rows \<longleftrightarrow>
     (\<forall>row \<in> set rows. row \<noteq> [] \<and> 0 \<le> hd row \<and> hd row < int (length row))
     \<and> sum_list (map hd rows) < 2 ^ 64"

lemma rows_ok_counts: "rows_ok rows \<Longrightarrow> counts_ok (map hd rows)"
  by (auto simp: rows_ok_def counts_ok_def)

lemma copy_row_eq:
  assumes ro: "\<And>nl i. nl_wf nl \<Longrightarrow> i < nl_rows nl \<Longrightarrow> ro nl (int i) = Inr (nl_row_offsets nl ! i)"
    and "rows_ok rows" "nl_wf nl" "nl_number_of_neighbors_list nl = map hd rows" "i < length rows"
  shows "copy_row ro rows i nl = Inr (row_store rows i nl)"
proof -
  let ?row = "rows ! i"
  have row: "?row \<noteq> []" "0 \<le> hd ?row" "hd ?row < int (length ?row)"
    using assms(2,5) by (auto simp: rows_ok_def)
  have i: "i < nl_rows nl" and n: "nl_count nl i = nat (hd ?row)"
    using assms(4,5) by (simp_all add: nl_rows_def nl_count_def)
  have "rfold (\<lambda>j nla. rbind (ro nla (int i)) (\<lambda>off.
          rbind (view_read2 rows (int i) (int j + 1)) (\<lambda>v.
            write_cr nla (uint (off + TO_GLOBAL (int j))) v))) [0..<nat (hd ?row)] nl
      = Inr (fold (\<lambda>j nl'. nl_store nl' (nl_offset nl i + j) (?row ! (j + 1)))
               [0..<nat (hd ?row)] nl)
     \<and> same_layout nl (fold (\<lambda>j nl'. nl_store nl' (nl_offset nl i + j) (?row ! (j + 1)))
               [0..<nat (hd ?row)] nl)"
  proof (rule rfold_Inr, goal_cases)
    case (1 j nla)
    then have nla: "nl_wf nla" "i < nl_rows nla" "j < nl_count nla i"
      and o: "nl_offset nla i = nl_offset nl i" "nl_row_offsets nla = nl_row_offsets nl"
      using i n by (auto simp: same_layout_def)
    have j: "view_read ?row (int j + 1) = Inr (?row ! (j + 1))"
      using 1(1) row by (simp add: view_read_def nat_add_distrib)
    have "write_cr nla (uint (nl_row_offsets nla ! i + TO_GLOBAL (int j))) v
        = Inr (nl_store nla (nl_offset nl i + j) v)" for v
      using write_cr_eq [of "nl_offset nla i + j" nla v] nls.slot_in_extent [OF nla] o(1)
      by (simp add: nl_address [OF nla] del: of_nat_add)
    then show ?case
      using ro [OF nla(1,2)] j assms(5) 1(2) by (simp add: view_read2_def same_layout_store)
  next
    case 2
    show ?case using assms(3) by (rule same_layout_refl)
  qed
  moreover have "view_read2 rows (int i) 0 = Inr (hd ?row)"
    using row assms(5) by (simp add: view_read2_def view_read_def hd_conv_nth)
  ultimately show ?thesis
    by (simp add: copy_row_def row_store_def n)
qed

lemma nl_count_list_row_store [simp]:
  "nl_number_of_neighbors_list (row_store rows i nl) = nl_number_of_neighbors_list nl"
proof -
  have "nl_number_of_neighbors_list (fold (\<lambda>j nl'. nl_store nl' (f j) (g j)) js nl')
      = nl_number_of_neighbors_list nl'" for f g js nl'
    by (induction js arbitrary: nl') simp_all
  then show ?thesis by (simp add: row_store_def)
qed

lemma copy_rows_eq:
  assumes ro: "\<And>nl i. nl_wf nl \<Longrightarrow> i < nl_rows nl \<Longrightarrow> ro nl (int i) = Inr (nl_row_offsets nl ! i)"
    and "rows_ok rows" "nl_wf nl" "nl_number_of_neighbors_list nl = map hd rows"
    and "\<forall>i \<in> set order. i < length rows"
  shows "rfold (copy_row ro rows) order nl = Inr (fold (row_store rows) order nl)
    \<and> (same_layout nl (fold (row_store rows) order nl)
       \<and> nl_number_of_neighbors_list (fold (row_store rows) order nl) = map hd rows)"
proof (rule rfold_Inr, goal_cases)
  case (1 i nla)
  then have "nl_wf nla" "nl_number_of_neighbors_list nla = map hd rows" "i < length rows"
    using assms(5) by (auto simp: same_layout_def)
  then show ?case
    using 1 copy_row_eq [OF ro assms(2)] by (simp add: same_layout_row_store)
next
  case 2
  show ?case using assms(3,4) by (simp add: same_layout_refl)
qed

lemma Convert2D_eq:
  assumes "rows_ok rows" "set order = {..<length rows}" "device_accessible \<or> aliased"
  shows "\<exists>nl. Convert2DToCompressedRowNeighborLists aliased device_accessible order rows = Inr nl
    \<and> nl_wf nl \<and> nl_rows nl = length rows \<and> nl_needs_sync_to_host nl = False
    \<and> nl_number_of_neighbors_list nl = map hd rows
    \<and> nl_host_cr_neighbor_lists nl = nl_cr_neighbor_lists nl
    \<and> (\<forall>i < length rows. \<forall>j < nat (hd (rows ! i)).
         nl_cr_neighbor_lists nl ! (nl_offset nl i + j) = rows ! i ! (j + 1))"
proof -
  let ?counts = "map hd rows"
  let ?cr = "replicate (nat (sum_list ?counts)) 0"
  let ?nl0 = "nl_built aliased ?cr ?counts"
  let ?nl1 = "fold (row_store rows) order ?nl0"
  note counts = rows_ok_counts [OF assms(1)]
  have nonneg: "0 \<le> sum_list ?counts"
    using counts by (rule counts_ok_nonneg)
  have wf0: "nl_wf ?nl0"
    using counts nonneg by (simp add: nl_built_wf)
  have reads: "rmap (\<lambda>row. view_read row 0) rows = Inr ?counts"
    using assms(1) by (intro rmap_Inr) (auto simp: rows_ok_def view_read_def hd_conv_nth)
  have "unat (total_storage_size ?counts) = nat (sum_list ?counts)"
    using counts nonneg
    by (simp add: total_storage_size_def sum_reducer.reduce_sequential fold_TO_GLOBAL counts_ok_def unat_TO_GLOBAL)
  then have build: "NeighborLists_compressed aliased
       (replicate (unat (total_storage_size ?counts)) 0) ?counts = Inr ?nl0"
    using counts nonneg by (simp add: NeighborLists_compressed_eq)
  have c0: "nl_number_of_neighbors_list ?nl0 = ?counts"
    and r0: "nl_rows ?nl0 = length rows" "\<And>i. i < length rows \<Longrightarrow> nl_count ?nl0 i = nat (hd (rows ! i))"
    by (simp_all add: nl_built_def nl_view_defs)
  have order: "\<forall>i \<in> set order. i < length rows"
    using assms(2) by auto
  have copy: "rfold (copy_row ro rows) order ?nl0 = Inr ?nl1
      \<and> (same_layout ?nl0 ?nl1 \<and> nl_number_of_neighbors_list ?nl1 = ?counts)"
    if "\<And>nl i. nl_wf nl \<Longrightarrow> i < nl_rows nl \<Longrightarrow> ro nl (int i) = Inr (nl_row_offsets nl ! i)" for ro
    using copy_rows_eq [OF that assms(1) wf0 c0 order] .
  note dev = copy [OF nl_offset_device] and hst = copy [OF nl_offset_host]
  have lay: "same_layout ?nl0 ?nl1" using dev by blast
  have data: "nl_cr_neighbor_lists ?nl1 ! (nl_offset ?nl1 i + j) = rows ! i ! (j + 1)"
    if "i < length rows" "j < nat (hd (rows ! i))" for i j
    using rows_store_nth [OF wf0, of order i j rows] that order assms(2) r0 lay
    by (auto simp: same_layout_def)
  define nl where "nl = (if device_accessible then copyDeviceDataToHost ?nl1 else ?nl1)"
  have "Convert2DToCompressedRowNeighborLists aliased device_accessible order rows = Inr nl"
    using dev hst
    by (simp add: Convert2DToCompressedRowNeighborLists_def reads build Let_def nl_def)
  moreover have "nl_wf nl \<and> nl_rows nl = length rows \<and> nl_needs_sync_to_host nl = False"
    using lay r0(1) by (auto simp: nl_def same_layout_def nl_wf_copyDeviceDataToHost nl_built_def)
  moreover have "nl_number_of_neighbors_list nl = ?counts"
    using dev by (simp add: nl_def copyDeviceDataToHost_def)
  moreover have "nl_host_cr_neighbor_lists nl = nl_cr_neighbor_lists nl"
    using assms(3) lay nl_wfD(8) [of ?nl1]
    by (auto simp: nl_def same_layout_def nl_built_def)
  moreover have "nl_offset nl = nl_offset ?nl1" "nl_cr_neighbor_lists nl = nl_cr_neighbor_lists ?nl1"
    by (simp_all add: nl_def)
  ultimately show ?thesis
    using data by auto
qed

section \<open>Properties\<close>

text \<open>A small list that the witnesses evaluate: two targets with two and one neighbors.\<close>

definition nl_example :: neighbor_lists where
  "nl_example = nl_built False [5, 6, 7] [2, 1]"

lemma nl_example_wf: "nl_wf nl_example"
  unfolding nl_example_def by (rule nl_built_wf) (simp_all add: counts_ok_def)

lemma nl_example_build: "NeighborLists_compressed False [5, 6, 7] [2, 1] = Inr nl_example"
  by (simp add: NeighborLists_compressed_eq counts_ok_def nl_example_def)

lemma nl_example_views:
  "nl_rows nl_example = 2" "nl_count nl_example 0 = 2" "nl_count nl_example (Suc 0) = 1"
  "nl_aliased nl_example = False"
  by (simp_all add: nl_example_def nl_built_def nl_view_defs)

lemma minimum_indeterminate_until_computed:
  assumes "counts_ok counts" "counts \<noteq> []" "\<forall>n \<in> set counts. n \<le> INT_MAX"
    and "NeighborLists_compressed aliased cr counts = Inr nl"
  shows "getMinNumNeighbors dbg nl = Inl Indeterminate_value
    \<and> (\<exists>m \<in> set counts. getMinNumNeighbors dbg (computeMinNumNeighbors nl) = Inr m
          \<and> (\<forall>n \<in> set counts. m \<le> n))"
proof -
  have nl: "nl = nl_built aliased cr counts"
    using assms(1,4) by (simp add: NeighborLists_compressed_eq split: if_splits)
  obtain m where m: "m \<in> set counts" "m = Min (set counts)"
    using assms(2) by simp
  have "Min (insert INT_MAX (set counts)) = min INT_MAX m"
    using assms(2) m(2) by simp
  then have "Min (insert INT_MAX (set counts)) = m"
    using assms(3) m(1) by (simp add: min_absorb2)
  then have "computeMinNumNeighbors nl = nl\<lparr>nl_min_row_storage := Some m\<rparr>"
    using assms(2) m(2)
    by (simp add: computeMinNumNeighbors_def nl nl_built_def min_reducer.reduce_sequential
        fold_min_body)
  moreover have "-1 < m" using assms(1) m(1) by (force simp: counts_ok_def)
  ultimately show ?thesis
    using m by (auto simp: getMinNumNeighbors_def nl nl_built_def
        compadre_kernel_assert_debug_def)
qed

text \<open>
  C11: for counts that are not negative and whose sum fits in size_t, the constructor from
  preallocated rows fails exactly when the sum of the counts exceeds the extent of the
  rows; otherwise row i starts at the sum of the counts before it, the total is the sum
  of all counts, and the stored maximum is an upper bound that is attained.  It sets no
  minimum: the member stays indeterminate until \<open>computeMinNumNeighbors\<close> is called, which
  stores a lower bound that is attained.
\<close>

theorem compressed_constructor_correct:
  assumes "counts_ok counts"
  shows "case NeighborLists_compressed aliased cr counts of
      Inl e \<Rightarrow> sum_list counts > int (length cr)
        \<and> e = Logic_error ''neighbor_lists is not large enough to store all neighbors.''
    | Inr nl \<Rightarrow> sum_list counts \<le> int (length cr)
        \<and> (\<forall>i < length counts. map_sum id unat (getRowOffsetHost nl (int i))
              = Inr (nat (sum_list (take i counts))))
        \<and> map_sum id unat (getTotalNeighborsOverAllListsHost nl) = Inr (nat (sum_list counts))
        \<and> (\<exists>m. getMaxNumNeighbors dbg nl = Inr m \<and> (\<forall>n \<in> set counts. n \<le> m)
               \<and> (counts \<noteq> [] \<longrightarrow> m \<in> set counts))
        \<and> getMinNumNeighbors dbg nl = Inl Indeterminate_value
        \<and> (counts \<noteq> [] \<and> (\<forall>n \<in> set counts. n \<le> INT_MAX) \<longrightarrow>
             (\<exists>m \<in> set counts. getMinNumNeighbors dbg (computeMinNumNeighbors nl) = Inr m
                \<and> (\<forall>n \<in> set counts. m \<le> n)))"
proof (cases "sum_list counts \<le> int (length cr)")
  case False
  then show ?thesis using assms by (simp add: NeighborLists_compressed_eq)
next
  case True
  let ?nl = "nl_built aliased cr counts"
  have wf: "nl_wf ?nl" using assms True by (rule nl_built_wf)
  have offs: "getRowOffsetHost ?nl (int i) = Inr (scan_offsets 0 counts ! i)"
    if "i < length counts" for i
    using that by (simp add: getRowOffsetHost_def nl_built_def)
  have total: "getTotalNeighborsOverAllListsHost ?nl = Inr (TO_GLOBAL (sum_list counts))"
    using total_host_eq [of ?nl] by (simp add: nl_built_def)
  have max0: "-1 < Max (insert 0 (set counts))"
    by (rule less_le_trans [of _ 0]) simp_all
  have "Max (insert 0 (set counts)) \<in> set counts" if "counts \<noteq> []"
  proof -
    from that obtain n where "n \<in> set counts" by (cases counts) auto
    moreover from this have "0 \<le> n" using assms by (simp add: counts_ok_def)
    ultimately have "Max (insert 0 (set counts)) = Max (set counts)"
      by (metis List.finite_set Max.insert Max_ge empty_iff max.absorb2 order.trans)
    then show ?thesis using that by simp
  qed
  moreover have "getMaxNumNeighbors dbg ?nl = Inr (Max (insert 0 (set counts)))"
    using max0 by (simp add: getMaxNumNeighbors_def nl_built_def compadre_kernel_assert_debug_def)
  ultimately have "\<exists>m. getMaxNumNeighbors dbg ?nl = Inr m \<and> (\<forall>n \<in> set counts. n \<le> m)
      \<and> (counts \<noteq> [] \<longrightarrow> m \<in> set counts)"
    by auto
  moreover have "unat (TO_GLOBAL (sum_list counts)) = nat (sum_list counts)"
    using assms counts_ok_nonneg [OF assms] by (simp add: unat_TO_GLOBAL counts_ok_def)
  moreover have "getMinNumNeighbors dbg ?nl = Inl Indeterminate_value"
    by (simp add: getMinNumNeighbors_def nl_built_def)
  moreover have "NeighborLists_compressed aliased cr counts = Inr ?nl"
    using assms True by (simp add: NeighborLists_compressed_eq)
  ultimately show ?thesis
    using assms True minimum_indeterminate_until_computed [OF assms, of aliased cr ?nl dbg]
    by (simp add: offs total scan_offsets_unat)
qed

theorem compressed_constructor_correct_witness:
  "counts_ok [2, 1] \<and> map_sum id unat (getTotalNeighborsOverAllListsHost nl_example) = Inr 3"
proof -
  have ok: "counts_ok [2, 1]" by (simp add: counts_ok_def)
  show ?thesis
    using ok compressed_constructor_correct [OF ok, where aliased = False and cr = "[5, 6, 7]"]
    by (simp add: nl_example_build)
qed

text \<open>
  C20: the result of the parallel reductions and of the parallel scan does not depend on
  how the runtime splits the targets into chunks: for every split the reductions give the
  maximum, the minimum and the total storage, and the scan gives the row offsets, that the
  sequential loops give.
\<close>

theorem schedule_independent:
  assumes "concat chunks = nl_number_of_neighbors_list nl" "nl_number_of_neighbors_list nl \<noteq> []"
  shows "nl_max_row_storage (computeMaxNumNeighbors nl)
           = kokkos_reduce max_body max INT_MIN chunks
    \<and> nl_min_row_storage (computeMinNumNeighbors nl)
           = Some (kokkos_reduce min_body min INT_MAX chunks)
    \<and> nl_row_offsets (computeRowOffsets nl) = kokkos_scan 0 chunks
    \<and> total_storage_size (nl_number_of_neighbors_list nl)
           = kokkos_reduce (\<lambda>n t. t + TO_GLOBAL n) (+) 0 chunks"
  using assms
  by (simp_all add: computeMaxNumNeighbors_def computeMinNumNeighbors_def computeRowOffsets_def
      total_storage_size_def Let_def max_reducer.reduce_sequential min_reducer.reduce_sequential
      sum_reducer.reduce_sequential kokkos_scan_sequential)

theorem schedule_independent_witness:
  "concat [[2], [1 :: int]] = nl_number_of_neighbors_list nl_example
   \<and> kokkos_reduce max_body max INT_MIN [[2], [1]] = 2
   \<and> kokkos_scan 0 [[2], [1]] = [0, 2]"
proof -
  have c: "concat [[2], [1 :: int]] = nl_number_of_neighbors_list nl_example"
    and n: "nl_number_of_neighbors_list nl_example \<noteq> []"
    by (simp_all add: nl_example_def nl_built_def)
  have "nl_max_row_storage (computeMaxNumNeighbors nl_example) = 2"
    by (simp add: nl_example_def nl_built_def computeMaxNumNeighbors_def kokkos_reduce_def
        max_body_def INT_MIN_def)
  moreover have "nl_row_offsets (computeRowOffsets nl_example) = [0, 2]"
    by (simp add: nl_example_def nl_built_def computeRowOffsets_def TO_GLOBAL_def Let_def)
  ultimately show ?thesis
    using c schedule_independent [OF c n] by simp
qed

text \<open>
  Storing a neighbor through the device and reading through the device is a table
  indexed by (target, neighbor number): the stored value is read back at its place, and
  every other place of every target keeps its value.
\<close>

theorem set_then_get_neighbor:
  assumes "nl_wf nl" "i < nl_rows nl" "j < nl_count nl i" "i' < nl_rows nl" "j' < nl_count nl i'"
  shows "rbind (setNeighborDevice dbg nl (int i) (int j) v)
           (\<lambda>nl'. getNeighborDevice nl' (int i') (int j'))
    = (if i' = i \<and> j' = j then Inr v else getNeighborDevice nl (int i') (int j'))"
proof -
  define nl' where "nl' = (let s = nl_store nl (nl_offset nl i + j) v
         in if dbg then s\<lparr>nl_needs_sync_to_host := True\<rparr> else s)"
  have set: "setNeighborDevice dbg nl (int i) (int j) v = Inr nl'"
    using setNeighborDevice_eq [OF assms(1-3)] by (simp add: nl'_def)
  note wf = setNeighborDevice_wf [OF assms(1-3) set]
  have "getNeighborDevice nl' (int i') (int j')
      = Inr ((nl_cr_neighbor_lists nl)[nl_offset nl i + j := v] ! (nl_offset nl i' + j'))"
    using nl_device_read [of nl' i' j'] wf assms(4,5) by simp
  then show ?thesis
    using set nl_device_read [OF assms(1,4,5)] nls.slot_inj [OF assms(1,2,4,3,5)]
      nls.slot_in_extent [OF assms(1-3)]
    by (auto simp: nth_list_update nl_extent_def)
qed

theorem set_then_get_neighbor_witness:
  "nl_wf nl_example \<and> rbind (setNeighborDevice True nl_example 1 0 9)
     (\<lambda>nl'. getNeighborDevice nl' 1 0) = Inr 9"
  using nl_example_wf
    set_then_get_neighbor [of nl_example 1 0 1 0 True 9] nl_example_views by simp

text \<open>
  C32: where host and device memory differ, a debug build refuses a host read after a
  device store until the lists are synchronized, and then reads the stored value; a
  release build returns the old host value without any sign that it is stale.
\<close>

theorem host_read_after_device_store:
  assumes "nl_wf nl" "i < nl_rows nl" "j < nl_count nl i"
    and "\<not> nl_aliased nl" "\<not> nl_needs_sync_to_host nl"
    and "setNeighborDevice dbg nl (int i) (int j) v = Inr nl'"
  shows "getNeighborHost dbg nl' (int i) (int j) =
      (if dbg then Inl (Logic_error ''Stale information in host_cr_neighbor_lists.'')
       else getNeighborHost dbg nl (int i) (int j))
    \<and> getNeighborHost dbg (copyDeviceDataToHost nl') (int i) (int j) = Inr v"
proof
  have nl': "nl' = (let s = nl_store nl (nl_offset nl i + j) v
         in if dbg then s\<lparr>nl_needs_sync_to_host := True\<rparr> else s)"
    using assms(6) by (simp add: setNeighborDevice_eq [OF assms(1-3)])
  have host: "nl_host_cr_neighbor_lists nl' = nl_host_cr_neighbor_lists nl"
    and flag: "nl_needs_sync_to_host nl' = dbg"
    using assms(4,5) by (auto simp: nl' Let_def nl_store_def)
  note wf = setNeighborDevice_wf [OF assms(1-3) assms(6)]
  show "getNeighborHost dbg nl' (int i) (int j) =
      (if dbg then Inl (Logic_error ''Stale information in host_cr_neighbor_lists.'')
       else getNeighborHost dbg nl (int i) (int j))"
    using nl_host_read [of nl' i j dbg] nl_host_read [OF assms(1-3), of dbg] wf assms(2,3,5) host flag
    by (cases dbg) simp_all
  show "getNeighborHost dbg (copyDeviceDataToHost nl') (int i) (int j) = Inr v"
    using nl_host_read [of "copyDeviceDataToHost nl'" i j dbg] wf assms(2,3)
      nl_wf_copyDeviceDataToHost [of nl'] nls.slot_in_extent [OF assms(1-3)]
    by (simp add: nl_extent_def)
qed

theorem host_read_after_device_store_witness:
  "\<exists>nl'. setNeighborDevice True nl_example 0 1 9 = Inr nl'
     \<and> getNeighborHost True nl' 0 1
         = Inl (Logic_error ''Stale information in host_cr_neighbor_lists.'')
     \<and> getNeighborHost True (copyDeviceDataToHost nl') 0 1 = Inr 9"
proof -
  have v: "0 < nl_rows nl_example" "1 < nl_count nl_example 0" "\<not> nl_aliased nl_example"
    by (simp_all add: nl_example_views)
  have sync: "\<not> nl_needs_sync_to_host nl_example"
    by (simp add: nl_example_def nl_built_def)
  obtain nl' where set: "setNeighborDevice True nl_example (int 0) (int 1) 9 = Inr nl'"
    using setNeighborDevice_eq [OF nl_example_wf v(1,2)] by simp
  show ?thesis
    using host_read_after_device_store [OF nl_example_wf v sync set] set by auto
qed

text \<open>
  C15: converting a two-dimensional list (entry 0 of a row is its number of neighbors) and
  reading the compressed lists, on the host or on the device, gives back every neighbor
  of every row, in whatever order the runtime executes the row iterations.
\<close>

theorem convert_2d_roundtrip:
  assumes "rows_ok rows" "set order = {..<length rows}" "device_accessible \<or> aliased"
  shows "\<exists>nl. Convert2DToCompressedRowNeighborLists aliased device_accessible order rows = Inr nl
    \<and> getNumberOfTargets nl = int (length rows)
    \<and> (\<forall>i < length rows. getNumberOfNeighborsHost nl (int i) = Inr (hd (rows ! i))
        \<and> (\<forall>j < nat (hd (rows ! i)).
             getNeighborHost dbg nl (int i) (int j) = Inr (rows ! i ! (j + 1))
           \<and> getNeighborDevice nl (int i) (int j) = Inr (rows ! i ! (j + 1))))"
proof -
  obtain nl where nl: "Convert2DToCompressedRowNeighborLists aliased device_accessible order rows = Inr nl"
    "nl_wf nl" "nl_rows nl = length rows" "nl_needs_sync_to_host nl = False"
    "nl_number_of_neighbors_list nl = map hd rows"
    "nl_host_cr_neighbor_lists nl = nl_cr_neighbor_lists nl"
    "\<forall>i < length rows. \<forall>j < nat (hd (rows ! i)).
         nl_cr_neighbor_lists nl ! (nl_offset nl i + j) = rows ! i ! (j + 1)"
    using Convert2D_eq [OF assms] by blast
  have hd: "0 \<le> hd (rows ! i)" if "i < length rows" for i
    using assms(1) that by (auto simp: rows_ok_def)
  have cnt: "nl_count nl i = nat (hd (rows ! i))" if "i < length rows" for i
    using that nl(5) by (simp add: nl_count_def)
  show ?thesis
  proof (intro exI [of _ nl] conjI allI impI)
    show "getNumberOfTargets nl = int (length rows)"
      using nl_wfD(2) [OF nl(2)] nl(5) by (simp add: getNumberOfTargets_def)
  qed (use nl hd cnt nl_count_host [OF nl(2)] nl_device_read [OF nl(2)] nl_host_read [OF nl(2)]
       in auto)
qed

theorem convert_2d_roundtrip_witness:
  "rows_ok [[2, 7, 8], [1, 9, 0]]
   \<and> (\<exists>nl. Convert2DToCompressedRowNeighborLists False True [1, 0] [[2, 7, 8], [1, 9, 0]] = Inr nl
        \<and> getNeighborHost True nl 0 1 = Inr 8)"
proof -
  have ok: "rows_ok [[2, 7, 8], [1, 9, 0]]" by (simp add: rows_ok_def)
  have ord: "set [1, 0] = {..<length [[2, 7, 8], [1, 9, 0 :: int]]}" by auto
  obtain nl where nl:
      "Convert2DToCompressedRowNeighborLists False True [1, 0] [[2, 7, 8], [1, 9, 0]] = Inr nl"
    and get: "\<And>i j. i < length [[2, 7, 8], [1, 9, 0 :: int]] \<Longrightarrow>
        j < nat (hd ([[2, 7, 8], [1, 9, 0]] ! i)) \<Longrightarrow>
        getNeighborHost True nl (int i) (int j) = Inr ([[2, 7, 8], [1, 9, 0]] ! i ! (j + 1))"
    using convert_2d_roundtrip [OF ok ord, of True False True] by blast
  have "getNeighborHost True nl 0 1 = Inr 8"
    using get [of 0 1] by simp
  then show ?thesis
    using ok nl by blast
qed

end
