(* ===== verification/Compadre_SolutionSet.thy ===== *)
theory Compadre_SolutionSet
  imports Compadre_Misc Compadre_NeighborLists
begin

text \<open>
  Compadre_SolutionSet.hpp: which target operations are registered, how the columns of
  their coefficients are laid out, where the coefficient (alpha) of an operation, a
  target, a neighbor and a pair of components lies, and the operations on that state.
\<close>

section \<open>State\<close>

text \<open>
  An empty \<open>ss_lro_lookup\<close> is a view that has not been allocated; otherwise it has an entry
  for every enumerator.
\<close>

record solution_set =
  ss_lro :: "TargetOperation list"
  ss_lro_lookup :: "int list"
  ss_lro_total_offsets :: "int list"
  ss_lro_output_tile_size :: "int list"
  ss_lro_input_tile_size :: "int list"
  ss_lro_output_tensor_rank :: "int list"
  ss_lro_input_tensor_rank :: "int list"
  ss_alphas :: "real list"
  ss_added_alpha_size :: int
  ss_max_evaluation_sites_per_target :: int
  ss_total_alpha_values :: int
  ss_neighbor_lists :: neighbor_lists
  ss_data_sampling_functional :: SamplingFunctional
  ss_dimensions :: int
  ss_local_dimensions :: int
  ss_problem_type :: ProblemType

definition SolutionSet_make ::
  "SamplingFunctional \<Rightarrow> int \<Rightarrow> int \<Rightarrow> ProblemType \<Rightarrow> solution_set" where
  "SolutionSet_make data_sampling_functional dimensions local_dimensions problem_type =
     \<lparr>ss_lro = [], ss_lro_lookup = [], ss_lro_total_offsets = [],
      ss_lro_output_tile_size = [], ss_lro_input_tile_size = [],
      ss_lro_output_tensor_rank = [], ss_lro_input_tensor_rank = [],
      ss_alphas = [], ss_added_alpha_size = 0, ss_max_evaluation_sites_per_target = 1,
      ss_total_alpha_values = 0, ss_neighbor_lists = NeighborLists_default,
      ss_data_sampling_functional = data_sampling_functional,
      ss_dimensions = dimensions, ss_local_dimensions = local_dimensions,
      ss_problem_type = problem_type\<rparr>"

text \<open>
  The copy from one memory space to the other takes every table, but not the alphas.  Where
  host and device memory are the same space, both are one C++ class: the template is not
  used, and the implicit copy constructor takes every member, the alphas too.  (It shares
  the views.  The model keeps two values; no operation of the solve writes into a table of
  one of them while the other is read.)
\<close>

definition SolutionSet_copy :: "bool \<Rightarrow> solution_set \<Rightarrow> solution_set" where
  "SolutionSet_copy same_space other =
     (if same_space then other else
     \<lparr>ss_lro = ss_lro other, ss_lro_lookup = ss_lro_lookup other,
      ss_lro_total_offsets = ss_lro_total_offsets other,
      ss_lro_output_tile_size = ss_lro_output_tile_size other,
      ss_lro_input_tile_size = ss_lro_input_tile_size other,
      ss_lro_output_tensor_rank = ss_lro_output_tensor_rank other,
      ss_lro_input_tensor_rank = ss_lro_input_tensor_rank other,
      ss_alphas = [],
      ss_added_alpha_size = ss_added_alpha_size other,
      ss_max_evaluation_sites_per_target = ss_max_evaluation_sites_per_target other,
      ss_total_alpha_values = ss_total_alpha_values other,
      ss_neighbor_lists = ss_neighbor_lists other,
      ss_data_sampling_functional = ss_data_sampling_functional other,
      ss_dimensions = ss_dimensions other, ss_local_dimensions = ss_local_dimensions other,
      ss_problem_type = ss_problem_type other\<rparr>)"

definition copyAlphas :: "solution_set \<Rightarrow> solution_set \<Rightarrow> solution_set" where
  "copyAlphas this other = this\<lparr>ss_alphas := ss_alphas other\<rparr>"

definition getAlphas :: "solution_set \<Rightarrow> real list" where
  "getAlphas ss = ss_alphas ss"

section \<open>Accessors on the device\<close>

definition getTargetOffsetIndex_device ::
  "solution_set \<Rightarrow> int \<Rightarrow> int \<Rightarrow> int \<Rightarrow> int \<Rightarrow> int result" where
  "getTargetOffsetIndex_device ss lro_num input_component output_component
       evaluation_site_local_index =
     rbind (view_read (ss_lro_total_offsets ss) lro_num) (\<lambda>offset.
     rbind (view_read (ss_lro_output_tile_size ss) lro_num) (\<lambda>tile.
       Inr (ss_total_alpha_values ss * evaluation_site_local_index
            + offset
            + input_component * tile
            + output_component)))"

definition getAlphaIndex_device :: "solution_set \<Rightarrow> int \<Rightarrow> int \<Rightarrow> u64 result" where
  "getAlphaIndex_device ss target_index alpha_column_offset =
     rbind (getRowOffsetDevice (ss_neighbor_lists ss) target_index)
       (\<lambda>total_neighbors_before_target.
     rbind (int_checked (target_index * ss_added_alpha_size ss))
       (\<lambda>total_added_alphas_before_target.
     rbind (getNumberOfNeighborsDevice (ss_neighbor_lists ss) target_index) (\<lambda>n.
     let alphas_per_tile_per_target = n + ss_added_alpha_size ss
     in rbind (int_checked (alpha_column_offset * alphas_per_tile_per_target)) (\<lambda>columns.
       Inr ((total_neighbors_before_target + TO_GLOBAL total_added_alphas_before_target)
              * TO_GLOBAL (ss_total_alpha_values ss)
              * TO_GLOBAL (ss_max_evaluation_sites_per_target ss)
            + TO_GLOBAL columns)))))"

definition getAlphaColumnOffset_device :: "bool \<Rightarrow> solution_set \<Rightarrow> TargetOperation
    \<Rightarrow> int \<Rightarrow> int \<Rightarrow> int \<Rightarrow> int \<Rightarrow> int \<Rightarrow> int result" where
  "getAlphaColumnOffset_device dbg ss lro output_component_axis_1 output_component_axis_2
       input_component_axis_1 input_component_axis_2 evaluation_site_local_index =
     rbind (view_read (ss_lro_lookup ss) (target_op_num lro)) (\<lambda>lro_number.
     rbind (compadre_kernel_assert_debug dbg
              ''getAlphaColumnOffset called for a TargetOperation that was not registered.''
              (lro_number \<ge> 0)) (\<lambda>_.
     let input_index = getSamplingOutputIndex (ss_data_sampling_functional ss)
                         input_component_axis_1 input_component_axis_2
     in rbind (getTargetOutputIndex (target_op_num lro) output_component_axis_1
                 output_component_axis_2 (ss_dimensions ss)) (\<lambda>output_index.
          getTargetOffsetIndex_device ss lro_number input_index output_index
            evaluation_site_local_index)))"

definition getAlpha_device :: "bool \<Rightarrow> solution_set \<Rightarrow> TargetOperation \<Rightarrow> int
    \<Rightarrow> int \<Rightarrow> int \<Rightarrow> int \<Rightarrow> int \<Rightarrow> int \<Rightarrow> int \<Rightarrow> real result" where
  "getAlpha_device dbg ss lro target_index output_component_axis_1 output_component_axis_2
       neighbor_index input_component_axis_1 input_component_axis_2
       evaluation_site_local_index =
     rbind (getAlphaColumnOffset_device dbg ss lro output_component_axis_1
              output_component_axis_2 input_component_axis_1 input_component_axis_2
              evaluation_site_local_index) (\<lambda>alpha_column_offset.
     rbind (getAlphaIndex_device ss target_index alpha_column_offset) (\<lambda>alphas_index.
       view_read (ss_alphas ss) (uint (alphas_index + TO_GLOBAL neighbor_index))))"

definition getTargetOperationLocalIndex_device :: "solution_set \<Rightarrow> TargetOperation \<Rightarrow> int result" where
  "getTargetOperationLocalIndex_device ss lro = view_read (ss_lro_lookup ss) (target_op_num lro)"

definition getAlpha0TensorTo0Tensor_device :: "bool \<Rightarrow> solution_set \<Rightarrow> TargetOperation
    \<Rightarrow> int \<Rightarrow> int \<Rightarrow> int \<Rightarrow> real result" where
  "getAlpha0TensorTo0Tensor_device dbg ss lro target_index neighbor_index
       evaluation_site_local_index =
     getAlpha_device dbg ss lro target_index 0 0
       neighbor_index 0 0 evaluation_site_local_index"

definition getAlpha0TensorTo1Tensor_device :: "bool \<Rightarrow> solution_set \<Rightarrow> TargetOperation
    \<Rightarrow> int \<Rightarrow> int \<Rightarrow> int \<Rightarrow> int \<Rightarrow> real result" where
  "getAlpha0TensorTo1Tensor_device dbg ss lro target_index output_component neighbor_index
       evaluation_site_local_index =
     getAlpha_device dbg ss lro target_index output_component 0
       neighbor_index 0 0 evaluation_site_local_index"

definition getAlpha0TensorTo2Tensor_device :: "bool \<Rightarrow> solution_set \<Rightarrow> TargetOperation
    \<Rightarrow> int \<Rightarrow> int \<Rightarrow> int \<Rightarrow> int \<Rightarrow> int \<Rightarrow> real result" where
  "getAlpha0TensorTo2Tensor_device dbg ss lro target_index output_component_axis_1 output_component_axis_2 neighbor_index
       evaluation_site_local_index =
     getAlpha_device dbg ss lro target_index output_component_axis_1 output_component_axis_2
       neighbor_index 0 0 evaluation_site_local_index"

definition getAlpha1TensorTo0Tensor_device :: "bool \<Rightarrow> solution_set \<Rightarrow> TargetOperation
    \<Rightarrow> int \<Rightarrow> int \<Rightarrow> int \<Rightarrow> int \<Rightarrow> real result" where
  "getAlpha1TensorTo0Tensor_device dbg ss lro target_index neighbor_index input_component
       evaluation_site_local_index =
     getAlpha_device dbg ss lro target_index 0 0
       neighbor_index input_component 0 evaluation_site_local_index"

definition getAlpha1TensorTo1Tensor_device :: "bool \<Rightarrow> solution_set \<Rightarrow> TargetOperation
    \<Rightarrow> int \<Rightarrow> int \<Rightarrow> int \<Rightarrow> int \<Rightarrow> int \<Rightarrow> real result" where
  "getAlpha1TensorTo1Tensor_device dbg ss lro target_index output_component neighbor_index input_component
       evaluation_site_local_index =
     getAlpha_device dbg ss lro target_index output_component 0
       neighbor_index input_component 0 evaluation_site_local_index"

definition getAlpha1TensorTo2Tensor_device :: "bool \<Rightarrow> solution_set \<Rightarrow> TargetOperation
    \<Rightarrow> int \<Rightarrow> int \<Rightarrow> int \<Rightarrow> int \<Rightarrow> int \<Rightarrow> int \<Rightarrow> real result" where
  "getAlpha1TensorTo2Tensor_device dbg ss lro target_index output_component_axis_1 output_component_axis_2 neighbor_index input_component
       evaluation_site_local_index =
     getAlpha_device dbg ss lro target_index output_component_axis_1 output_component_axis_2
       neighbor_index input_component 0 evaluation_site_local_index"

definition getAlpha2TensorTo0Tensor_device :: "bool \<Rightarrow> solution_set \<Rightarrow> TargetOperation
    \<Rightarrow> int \<Rightarrow> int \<Rightarrow> int \<Rightarrow> int \<Rightarrow> int \<Rightarrow> real result" where
  "getAlpha2TensorTo0Tensor_device dbg ss lro target_index neighbor_index input_component_axis_1 input_component_axis_2
       evaluation_site_local_index =
     getAlpha_device dbg ss lro target_index 0 0
       neighbor_index input_component_axis_1 input_component_axis_2 evaluation_site_local_index"

definition getAlpha2TensorTo1Tensor_device :: "bool \<Rightarrow> solution_set \<Rightarrow> TargetOperation
    \<Rightarrow> int \<Rightarrow> int \<Rightarrow> int \<Rightarrow> int \<Rightarrow> int \<Rightarrow> int \<Rightarrow> real result" where
  "getAlpha2TensorTo1Tensor_device dbg ss lro target_index output_component neighbor_index input_component_axis_1 input_component_axis_2
       evaluation_site_local_index =
     getAlpha_device dbg ss lro target_index output_component 0
       neighbor_index input_component_axis_1 input_component_axis_2 evaluation_site_local_index"

definition getAlpha2TensorTo2Tensor_device :: "bool \<Rightarrow> solution_set \<Rightarrow> TargetOperation
    \<Rightarrow> int \<Rightarrow> int \<Rightarrow> int \<Rightarrow> int \<Rightarrow> int \<Rightarrow> int \<Rightarrow> int \<Rightarrow> real result" where
  "getAlpha2TensorTo2Tensor_device dbg ss lro target_index output_component_axis_1 output_component_axis_2 neighbor_index input_component_axis_1 input_component_axis_2
       evaluation_site_local_index =
     getAlpha_device dbg ss lro target_index output_component_axis_1 output_component_axis_2
       neighbor_index input_component_axis_1 input_component_axis_2 evaluation_site_local_index"

section \<open>Accessors on the host\<close>

definition getTargetOffsetIndex_host ::
  "solution_set \<Rightarrow> int \<Rightarrow> int \<Rightarrow> int \<Rightarrow> int \<Rightarrow> int result" where
  "getTargetOffsetIndex_host ss lro_num input_component output_component
       evaluation_site_local_index =
     rbind (view_read (ss_lro_total_offsets ss) lro_num) (\<lambda>offset.
     rbind (view_read (ss_lro_output_tile_size ss) lro_num) (\<lambda>tile.
       Inr (ss_total_alpha_values ss * evaluation_site_local_index
            + offset
            + input_component * tile
            + output_component)))"

definition getAlphaIndex_host :: "solution_set \<Rightarrow> int \<Rightarrow> int \<Rightarrow> u64 result" where
  "getAlphaIndex_host ss target_index alpha_column_offset =
     rbind (getRowOffsetHost (ss_neighbor_lists ss) target_index)
       (\<lambda>total_neighbors_before_target.
     rbind (int_checked (target_index * ss_added_alpha_size ss))
       (\<lambda>total_added_alphas_before_target.
     rbind (getNumberOfNeighborsHost (ss_neighbor_lists ss) target_index) (\<lambda>n.
     let alphas_per_tile_per_target = n + ss_added_alpha_size ss
     in rbind (int_checked (alpha_column_offset * alphas_per_tile_per_target)) (\<lambda>columns.
       Inr ((total_neighbors_before_target + TO_GLOBAL total_added_alphas_before_target)
              * TO_GLOBAL (ss_total_alpha_values ss)
              * TO_GLOBAL (ss_max_evaluation_sites_per_target ss)
            + TO_GLOBAL columns)))))"

definition getAlphaColumnOffset_host :: "bool \<Rightarrow> solution_set \<Rightarrow> TargetOperation
    \<Rightarrow> int \<Rightarrow> int \<Rightarrow> int \<Rightarrow> int \<Rightarrow> int \<Rightarrow> int result" where
  "getAlphaColumnOffset_host dbg ss lro output_component_axis_1 output_component_axis_2
       input_component_axis_1 input_component_axis_2 evaluation_site_local_index =
     rbind (view_read (ss_lro_lookup ss) (target_op_num lro)) (\<lambda>lro_number.
     rbind (compadre_kernel_assert_debug dbg
              ''getAlphaColumnOffset called for a TargetOperation that was not registered.''
              (lro_number \<ge> 0)) (\<lambda>_.
     let input_index = getSamplingOutputIndex (ss_data_sampling_functional ss)
                         input_component_axis_1 input_component_axis_2
     in rbind (getTargetOutputIndex (target_op_num lro) output_component_axis_1
                 output_component_axis_2 (ss_dimensions ss)) (\<lambda>output_index.
          getTargetOffsetIndex_host ss lro_number input_index output_index
            evaluation_site_local_index)))"

definition getAlpha_host :: "bool \<Rightarrow> solution_set \<Rightarrow> TargetOperation \<Rightarrow> int
    \<Rightarrow> int \<Rightarrow> int \<Rightarrow> int \<Rightarrow> int \<Rightarrow> int \<Rightarrow> int \<Rightarrow> real result" where
  "getAlpha_host dbg ss lro target_index output_component_axis_1 output_component_axis_2
       neighbor_index input_component_axis_1 input_component_axis_2
       evaluation_site_local_index =
     rbind (getAlphaColumnOffset_host dbg ss lro output_component_axis_1
              output_component_axis_2 input_component_axis_1 input_component_axis_2
              evaluation_site_local_index) (\<lambda>alpha_column_offset.
     rbind (getAlphaIndex_host ss target_index alpha_column_offset) (\<lambda>alphas_index.
       view_read (ss_alphas ss) (uint (alphas_index + TO_GLOBAL neighbor_index))))"

definition getTargetOperationLocalIndex_host :: "solution_set \<Rightarrow> TargetOperation \<Rightarrow> int result" where
  "getTargetOperationLocalIndex_host ss lro = view_read (ss_lro_lookup ss) (target_op_num lro)"

definition getAlpha0TensorTo0Tensor_host :: "bool \<Rightarrow> solution_set \<Rightarrow> TargetOperation
    \<Rightarrow> int \<Rightarrow> int \<Rightarrow> int \<Rightarrow> real result" where
  "getAlpha0TensorTo0Tensor_host dbg ss lro target_index neighbor_index
       evaluation_site_local_index =
     getAlpha_host dbg ss lro target_index 0 0
       neighbor_index 0 0 evaluation_site_local_index"

definition getAlpha0TensorTo1Tensor_host :: "bool \<Rightarrow> solution_set \<Rightarrow> TargetOperation
    \<Rightarrow> int \<Rightarrow> int \<Rightarrow> int \<Rightarrow> int \<Rightarrow> real result" where
  "getAlpha0TensorTo1Tensor_host dbg ss lro target_index output_component neighbor_index
       evaluation_site_local_index =
     getAlpha_host dbg ss lro target_index output_component 0
       neighbor_index 0 0 evaluation_site_local_index"

definition getAlpha0TensorTo2Tensor_host :: "bool \<Rightarrow> solution_set \<Rightarrow> TargetOperation
    \<Rightarrow> int \<Rightarrow> int \<Rightarrow> int \<Rightarrow> int \<Rightarrow> int \<Rightarrow> real result" where
  "getAlpha0TensorTo2Tensor_host dbg ss lro target_index output_component_axis_1 output_component_axis_2 neighbor_index
       evaluation_site_local_index =
     getAlpha_host dbg ss lro target_index output_component_axis_1 output_component_axis_2
       neighbor_index 0 0 evaluation_site_local_index"

definition getAlpha1TensorTo0Tensor_host :: "bool \<Rightarrow> solution_set \<Rightarrow> TargetOperation
    \<Rightarrow> int \<Rightarrow> int \<Rightarrow> int \<Rightarrow> int \<Rightarrow> real result" where
  "getAlpha1TensorTo0Tensor_host dbg ss lro target_index neighbor_index input_component
       evaluation_site_local_index =
     getAlpha_host dbg ss lro target_index 0 0
       neighbor_index input_component 0 evaluation_site_local_index"

definition getAlpha1TensorTo1Tensor_host :: "bool \<Rightarrow> solution_set \<Rightarrow> TargetOperation
    \<Rightarrow> int \<Rightarrow> int \<Rightarrow> int \<Rightarrow> int \<Rightarrow> int \<Rightarrow> real result" where
  "getAlpha1TensorTo1Tensor_host dbg ss lro target_index output_component neighbor_index input_component
       evaluation_site_local_index =
     getAlpha_host dbg ss lro target_index output_component 0
       neighbor_index input_component 0 evaluation_site_local_index"

definition getAlpha1TensorTo2Tensor_host :: "bool \<Rightarrow> solution_set \<Rightarrow> TargetOperation
    \<Rightarrow> int \<Rightarrow> int \<Rightarrow> int \<Rightarrow> int \<Rightarrow> int \<Rightarrow> int \<Rightarrow> real result" where
  "getAlpha1TensorTo2Tensor_host dbg ss lro target_index output_component_axis_1 output_component_axis_2 neighbor_index input_component
       evaluation_site_local_index =
     getAlpha_host dbg ss lro target_index output_component_axis_1 output_component_axis_2
       neighbor_index input_component 0 evaluation_site_local_index"

definition getAlpha2TensorTo0Tensor_host :: "bool \<Rightarrow> solution_set \<Rightarrow> TargetOperation
    \<Rightarrow> int \<Rightarrow> int \<Rightarrow> int \<Rightarrow> int \<Rightarrow> int \<Rightarrow> real result" where
  "getAlpha2TensorTo0Tensor_host dbg ss lro target_index neighbor_index input_component_axis_1 input_component_axis_2
       evaluation_site_local_index =
     getAlpha_host dbg ss lro target_index 0 0
       neighbor_index input_component_axis_1 input_component_axis_2 evaluation_site_local_index"

definition getAlpha2TensorTo1Tensor_host :: "bool \<Rightarrow> solution_set \<Rightarrow> TargetOperation
    \<Rightarrow> int \<Rightarrow> int \<Rightarrow> int \<Rightarrow> int \<Rightarrow> int \<Rightarrow> int \<Rightarrow> real result" where
  "getAlpha2TensorTo1Tensor_host dbg ss lro target_index output_component neighbor_index input_component_axis_1 input_component_axis_2
       evaluation_site_local_index =
     getAlpha_host dbg ss lro target_index output_component 0
       neighbor_index input_component_axis_1 input_component_axis_2 evaluation_site_local_index"

definition getAlpha2TensorTo2Tensor_host :: "bool \<Rightarrow> solution_set \<Rightarrow> TargetOperation
    \<Rightarrow> int \<Rightarrow> int \<Rightarrow> int \<Rightarrow> int \<Rightarrow> int \<Rightarrow> int \<Rightarrow> int \<Rightarrow> real result" where
  "getAlpha2TensorTo2Tensor_host dbg ss lro target_index output_component_axis_1 output_component_axis_2 neighbor_index input_component_axis_1 input_component_axis_2
       evaluation_site_local_index =
     getAlpha_host dbg ss lro target_index output_component_axis_1 output_component_axis_2
       neighbor_index input_component_axis_1 input_component_axis_2 evaluation_site_local_index"

section \<open>Modifiers\<close>

definition clearTargets :: "solution_set \<Rightarrow> solution_set result" where
  "clearTargets ss =
     rbind (rfold (\<lambda>i lookup. view_write lookup (int i) (-1))
              [0..<nat TargetOperation_COUNT] (ss_lro_lookup ss)) (\<lambda>lookup.
       Inr (ss\<lparr>ss_lro := [], ss_lro_lookup := lookup\<rparr>))"

text \<open>The inner loop of \<open>addTargets\<close>: the first registered position of an operation.\<close>

fun find_registered :: "TargetOperation list \<Rightarrow> nat \<Rightarrow> TargetOperation \<Rightarrow> nat option" where
  "find_registered [] j op = None"
| "find_registered (x # xs) j op = (if x = op then Some j else find_registered xs (Suc j) op)"

definition register_target :: "TargetOperation list \<Rightarrow> TargetOperation
    \<Rightarrow> int list \<times> TargetOperation list \<Rightarrow> (int list \<times> TargetOperation list) result" where
  "register_target old op st =
     (case st of (lookup, unique_new_lro) \<Rightarrow>
        (case find_registered old 0 op of
           Some j \<Rightarrow>
             rbind (view_write lookup (target_op_num op) (int j)) (\<lambda>lookup.
               Inr (lookup, unique_new_lro))
         | None \<Rightarrow>
             rbind (view_write lookup (target_op_num op)
                      (int (length old) + int (length unique_new_lro))) (\<lambda>lookup.
               Inr (lookup, unique_new_lro @ [op]))))"

text \<open>
  The loop that fills the tables: offset, output tile, and the running total it returns.
\<close>

fun lro_tables :: "int \<Rightarrow> int \<Rightarrow> int \<Rightarrow> TargetOperation list
    \<Rightarrow> ((int \<times> int) list \<times> int) result" where
  "lro_tables local_dimensions input_tile_size total_offset [] = Inr ([], total_offset)"
| "lro_tables local_dimensions input_tile_size total_offset (lro # lros) =
     rbind (getOutputDimensionOfOperation lro local_dimensions) (\<lambda>output_tile_size.
     rbind (lro_tables local_dimensions input_tile_size
              (total_offset + input_tile_size * output_tile_size) lros) (\<lambda>(rows, total).
       Inr ((total_offset, output_tile_size) # rows, total)))"

definition addTargets :: "solution_set \<Rightarrow> TargetOperation list \<Rightarrow> solution_set result" where
  "addTargets ss lro =
     (let lookup = (if ss_lro_lookup ss = []
                    then replicate (nat TargetOperation_COUNT) (-1) else ss_lro_lookup ss)
      in rbind (rfold (register_target (ss_lro ss)) lro (lookup, []))
           (\<lambda>(lookup, unique_new_lro).
         let new_lro = ss_lro ss @ unique_new_lro;
             input_tile_size = getOutputDimensionOfSampling (ss_data_sampling_functional ss)
                                 (ss_local_dimensions ss)
         in rbind (lro_tables (ss_local_dimensions ss) input_tile_size 0 new_lro)
              (\<lambda>(rows, total_offset).
            rbind (rmap (\<lambda>op. getTargetOutputTensorRank (target_op_num op)) new_lro) (\<lambda>ranks.
              let total_alpha_values =
                    (if ss_problem_type ss = MANIFOLD
                     then (if total_offset > std_pow (ss_local_dimensions ss) 1 then total_offset
                           else std_pow (ss_local_dimensions ss) 1)
                     else total_offset)
              in Inr (ss\<lparr>ss_lro := new_lro, ss_lro_lookup := lookup,
                         ss_lro_total_offsets := map fst rows,
                         ss_lro_output_tile_size := map snd rows,
                         ss_lro_input_tile_size := map (\<lambda>_. input_tile_size) new_lro,
                         ss_lro_output_tensor_rank := ranks,
                         ss_lro_input_tensor_rank :=
                           map (\<lambda>_. output_rank (ss_data_sampling_functional ss)) new_lro,
                         ss_total_alpha_values := total_alpha_values\<rparr>)))))"

definition addTarget :: "solution_set \<Rightarrow> TargetOperation \<Rightarrow> solution_set result" where
  "addTarget ss lro = addTargets ss (replicate 1 lro)"

section \<open>Registration\<close>

lemma find_registered_Some:
  "find_registered xs j op = Some k \<Longrightarrow> j \<le> k \<and> k - j < length xs \<and> xs ! (k - j) = op"
proof (induction xs arbitrary: j)
  case Nil
  then show ?case by simp
next
  case (Cons x xs)
  show ?case
  proof (cases "x = op")
    case True
    then show ?thesis using Cons.prems by auto
  next
    case False
    then have "Suc j \<le> k \<and> k - Suc j < length xs \<and> xs ! (k - Suc j) = op"
      using Cons.IH [of "Suc j"] Cons.prems by simp
    then show ?thesis by (auto simp: nth_Cons' Suc_diff_le)
  qed
qed

lemma find_registered_None: "find_registered xs j op = None \<longleftrightarrow> op \<notin> set xs"
  by (induction xs arbitrary: j) auto

text \<open>The lookup says for every operation where it is registered, or \<open>-1\<close>.\<close>

definition lookup_ok :: "int list \<Rightarrow> TargetOperation list \<Rightarrow> bool" where
  "lookup_ok lookup lros \<longleftrightarrow> length lookup = nat TargetOperation_COUNT
     \<and> (\<forall>op. (lookup ! nat (target_op_num op) = -1 \<and> op \<notin> set lros)
           \<or> (\<exists>k < length lros. lookup ! nat (target_op_num op) = int k \<and> lros ! k = op))"

lemma op_index_bound:
  "length lookup = nat TargetOperation_COUNT \<Longrightarrow> nat (target_op_num op) < length lookup"
  using target_op_num_less_COUNT [of op] target_op_num_nonneg [of op]
  by (simp add: TargetOperation_COUNT_def)

lemma view_write_op:
  assumes "length lookup = nat TargetOperation_COUNT"
  shows "view_write lookup (target_op_num op) x = Inr (lookup[nat (target_op_num op) := x])"
  using view_write_nat [OF op_index_bound [OF assms], of op] by simp

lemma view_read_op:
  assumes "length lookup = nat TargetOperation_COUNT"
  shows "view_read lookup (target_op_num op) = Inr (lookup ! nat (target_op_num op))"
  using view_read_nat [OF op_index_bound [OF assms], of op] by simp

lemma lookup_ok_update:
  assumes "lookup_ok lookup lros" "k < length (lros @ extra)" "(lros @ extra) ! k = op"
    and "set extra \<subseteq> {op}"
  shows "lookup_ok (lookup[nat (target_op_num op) := int k]) (lros @ extra)"
proof -
  have len: "length lookup = nat TargetOperation_COUNT"
    using assms(1) by (simp add: lookup_ok_def)
  have "(lookup[nat (target_op_num op) := int k] ! nat (target_op_num op') = -1
          \<and> op' \<notin> set (lros @ extra))
      \<or> (\<exists>k' < length (lros @ extra).
           lookup[nat (target_op_num op) := int k] ! nat (target_op_num op') = int k'
           \<and> (lros @ extra) ! k' = op')" for op'
  proof (cases "op' = op")
    case True
    then show ?thesis using assms(2,3) op_index_bound [OF len] by auto
  next
    case False
    then have "nat (target_op_num op) \<noteq> nat (target_op_num op')"
      by (metis int_nat_eq target_op_num_inject target_op_num_nonneg)
    then show ?thesis
      using assms(1,4) False by (auto simp: lookup_ok_def nth_append)
  qed
  then show ?thesis by (simp add: lookup_ok_def len)
qed

lemma register_target_ok:
  assumes "lookup_ok lookup (old @ new)"
  shows "\<exists>lookup'. register_target old op (lookup, new)
      = Inr (lookup', new @ (if op \<in> set old then [] else [op]))
    \<and> lookup_ok lookup' (old @ new @ (if op \<in> set old then [] else [op]))"
proof -
  have len: "length lookup = nat TargetOperation_COUNT"
    using assms by (simp add: lookup_ok_def)
  show ?thesis
  proof (cases "find_registered old 0 op")
    case None
    then have "op \<notin> set old" by (simp add: find_registered_None)
    then show ?thesis
      using None lookup_ok_update [OF assms, of "length old + length new" "[op]" op]
      by (simp add: register_target_def view_write_op [OF len] nth_append)
  next
    case (Some k)
    then have k: "k < length old" "old ! k = op"
      using find_registered_Some [OF Some] by simp_all
    then have "op \<in> set old" by auto
    then show ?thesis
      using Some k lookup_ok_update [OF assms, of k "[]" op]
      by (simp add: register_target_def view_write_op [OF len] nth_append)
  qed
qed

lemma register_targets_ok:
  assumes "lookup_ok lookup (old @ new)"
  shows "\<exists>lookup'. rfold (register_target old) ops (lookup, new)
      = Inr (lookup', new @ filter (\<lambda>op. op \<notin> set old) ops)
    \<and> lookup_ok lookup' (old @ new @ filter (\<lambda>op. op \<notin> set old) ops)"
  using assms
proof (induction ops arbitrary: lookup new)
  case Nil
  then show ?case by simp
next
  case (Cons op ops)
  obtain lookup' where 1: "register_target old op (lookup, new)
      = Inr (lookup', new @ (if op \<in> set old then [] else [op]))"
    and 2: "lookup_ok lookup' (old @ new @ (if op \<in> set old then [] else [op]))"
    using register_target_ok [OF Cons.prems] by blast
  show ?case
    using 1 Cons.IH [OF 2] by (cases "op \<in> set old") auto
qed

lemma lookup_ok_empty: "lookup_ok (replicate (nat TargetOperation_COUNT) (-1)) []"
  using op_index_bound [of "replicate (nat TargetOperation_COUNT) (-1)"]
  by (auto simp: lookup_ok_def)

section \<open>Tables\<close>

text \<open>The columns of one operation: components of the data times components of the result.\<close>

definition op_columns :: "int \<Rightarrow> int \<Rightarrow> TargetOperation \<Rightarrow> int" where
  "op_columns d input_tile op = input_tile * d ^ target_output_rank op"

lemma lro_tables_eq:
  "lro_tables d it t lros =
    Inr (map (\<lambda>k. (t + (\<Sum>i<k. op_columns d it (lros ! i)), d ^ target_output_rank (lros ! k)))
           [0..<length lros],
         t + (\<Sum>i<length lros. op_columns d it (lros ! i)))"
proof (induction lros arbitrary: t)
  case Nil
  then show ?case by simp
next
  case (Cons op lros)
  have shift: "(\<Sum>i<Suc k. op_columns d it ((op # lros) ! i))
      = op_columns d it op + (\<Sum>i<k. op_columns d it (lros ! i))" for k
    by (simp add: sum.lessThan_Suc_shift del: sum.lessThan_Suc)
  show ?case
    using Cons.IH [of "t + it * d ^ target_output_rank op"]
    by (simp add: map_upt_Suc shift op_columns_def [of d it op] add.assoc del: upt_Suc
        sum.lessThan_Suc)
qed

text \<open>The state of a solution set between operations.\<close>

definition ss_inv :: "solution_set \<Rightarrow> bool" where
  "ss_inv ss \<longleftrightarrow>
     1 \<le> ss_local_dimensions ss \<and> 0 \<le> output_rank (ss_data_sampling_functional ss)
     \<and> (ss_lro_lookup ss = [] \<and> ss_lro ss = [] \<or> lookup_ok (ss_lro_lookup ss) (ss_lro ss))
     \<and> (ss_lro ss \<noteq> [] \<longrightarrow>
         (let d = ss_local_dimensions ss;
              it = getOutputDimensionOfSampling (ss_data_sampling_functional ss) d;
              n = length (ss_lro ss)
          in ss_lro_total_offsets ss
               = map (\<lambda>k. \<Sum>i<k. op_columns d it (ss_lro ss ! i)) [0..<n]
           \<and> ss_lro_output_tile_size ss = map (\<lambda>op. d ^ target_output_rank op) (ss_lro ss)
           \<and> ss_lro_input_tile_size ss = map (\<lambda>_. it) (ss_lro ss)
           \<and> (\<Sum>i<n. op_columns d it (ss_lro ss ! i)) \<le> ss_total_alpha_values ss))"

lemma ss_inv_make:
  "1 \<le> local_dimensions \<Longrightarrow> 0 \<le> output_rank sf
    \<Longrightarrow> ss_inv (SolutionSet_make sf dimensions local_dimensions problem_type)"
  by (simp add: ss_inv_def SolutionSet_make_def)

lemma SolutionSet_copy_eq:
  "SolutionSet_copy same_space ss = ss\<lparr>ss_alphas := if same_space then ss_alphas ss else []\<rparr>"
  by (cases ss) (simp add: SolutionSet_copy_def)

lemma ss_inv_copy: "ss_inv (SolutionSet_copy same_space ss) \<longleftrightarrow> ss_inv ss"
  by (simp add: ss_inv_def SolutionSet_copy_eq)

text \<open>What \<open>addTargets\<close> computes, in closed form.\<close>

lemma addTargets_eq:
  fixes ss :: solution_set and ops :: "TargetOperation list"
  assumes "ss_inv ss"
  defines "d \<equiv> ss_local_dimensions ss"
  defines "it \<equiv> getOutputDimensionOfSampling (ss_data_sampling_functional ss) d"
  defines "lros \<equiv> ss_lro ss @ filter (\<lambda>op. op \<notin> set (ss_lro ss)) ops"
  defines "tot \<equiv> \<Sum>i<length lros. op_columns d it (lros ! i)"
  shows "\<exists>lookup. lookup_ok lookup lros \<and> addTargets ss ops =
    Inr (ss\<lparr>ss_lro := lros, ss_lro_lookup := lookup,
      ss_lro_total_offsets := map (\<lambda>k. \<Sum>i<k. op_columns d it (lros ! i)) [0..<length lros],
      ss_lro_output_tile_size := map (\<lambda>op. d ^ target_output_rank op) lros,
      ss_lro_input_tile_size := map (\<lambda>_. it) lros,
      ss_lro_output_tensor_rank := map (\<lambda>op. int (target_output_rank op)) lros,
      ss_lro_input_tensor_rank := map (\<lambda>_. output_rank (ss_data_sampling_functional ss)) lros,
      ss_total_alpha_values := (if ss_problem_type ss = MANIFOLD then max tot d else tot)\<rparr>)"
proof -
  let ?lookup = "if ss_lro_lookup ss = []
      then replicate (nat TargetOperation_COUNT) (-1) else ss_lro_lookup ss"
  have "lookup_ok ?lookup (ss_lro ss @ [])"
    using assms(1) lookup_ok_empty
    by (auto simp: ss_inv_def lookup_ok_def [of "[]"] TargetOperation_COUNT_def)
  then obtain lookup where 1: "rfold (register_target (ss_lro ss)) ops (?lookup, [])
      = Inr (lookup, filter (\<lambda>op. op \<notin> set (ss_lro ss)) ops)"
    and 2: "lookup_ok lookup lros"
    using register_targets_ok [of ?lookup "ss_lro ss" "[]" ops] by (auto simp: lros_def)
  have tiles: "map (\<lambda>k. d ^ target_output_rank (lros ! k)) [0..<length lros]
      = map (\<lambda>op. d ^ target_output_rank op) lros"
    by (rule nth_equalityI) simp_all
  have ranks: "rmap (\<lambda>op. getTargetOutputTensorRank (target_op_num op)) lros
      = Inr (map (\<lambda>op. int (target_output_rank op)) lros)"
    by (rule rmap_Inr) simp
  have tables: "lro_tables d it 0 lros =
      Inr (map (\<lambda>k. (\<Sum>i<k. op_columns d it (lros ! i), d ^ target_output_rank (lros ! k)))
             [0..<length lros], tot)"
    by (simp add: lro_tables_eq tot_def)
  show ?thesis
    using 1 2 ranks tables tiles
    by (intro exI [of _ lookup])
       (simp add: addTargets_def Let_def d_def [symmetric] it_def [symmetric]
          lros_def [symmetric] o_def max_def del: map_append)
qed

lemma addTargets_inv:
  assumes "ss_inv ss" "addTargets ss ops = Inr ss'"
  shows "ss_inv ss' \<and> ss_lro ss' = ss_lro ss @ filter (\<lambda>op. op \<notin> set (ss_lro ss)) ops"
  using addTargets_eq [OF assms(1), of ops] assms
  by (auto simp: ss_inv_def Let_def)

lemma clearTargets_writes:
  "n \<le> length lookup \<Longrightarrow>
   rfold (\<lambda>i lookup. view_write lookup (int i) (-1)) [0..<n] lookup
     = Inr (replicate n (-1) @ drop n lookup)"
proof (induction n)
  case 0
  then show ?case by simp
next
  case (Suc n)
  then have "(replicate n (-1) @ drop n lookup)[n := -1] = replicate n (-1) @ (drop n lookup)[0 := -1]"
    by (simp add: list_update_append)
  also have "(drop n lookup)[0 := -1] = -1 # drop (Suc n) lookup"
    using Suc.prems by (simp add: Cons_nth_drop_Suc [symmetric])
  finally show ?case
    using Suc by (simp add: rfold_append replicate_append_same)
qed

lemma clearTargets_eq:
  assumes "ss_inv ss"
  shows "clearTargets ss =
    (if ss_lro_lookup ss = [] then Inl Out_of_bounds
     else Inr (ss\<lparr>ss_lro := [], ss_lro_lookup := replicate (nat TargetOperation_COUNT) (-1)\<rparr>))"
proof (cases "ss_lro_lookup ss = []")
  case True
  then show ?thesis
    by (simp add: clearTargets_def TargetOperation_COUNT_def upt_rec view_write_def)
next
  case False
  then have "length (ss_lro_lookup ss) = nat TargetOperation_COUNT"
    using assms by (auto simp: ss_inv_def lookup_ok_def)
  then show ?thesis
    using False clearTargets_writes [of "nat TargetOperation_COUNT" "ss_lro_lookup ss"]
    by (simp add: clearTargets_def)
qed

lemma clearTargets_inv: "ss_inv ss \<Longrightarrow> clearTargets ss = Inr ss' \<Longrightarrow> ss_inv ss'"
  using lookup_ok_empty by (auto simp: clearTargets_eq ss_inv_def split: if_splits)

section \<open>Columns of the operations\<close>

definition ss_rows :: "solution_set \<Rightarrow> nat" where
  "ss_rows ss = length (ss_lro ss)"

definition col_width :: "solution_set \<Rightarrow> nat \<Rightarrow> nat" where
  "col_width ss k = nat (ss_lro_input_tile_size ss ! k * ss_lro_output_tile_size ss ! k)"

definition col_offset :: "solution_set \<Rightarrow> nat \<Rightarrow> nat" where
  "col_offset ss k = nat (ss_lro_total_offsets ss ! k)"

definition col_extent :: "solution_set \<Rightarrow> nat" where
  "col_extent ss = nat (ss_total_alpha_values ss)"

lemmas col_defs = ss_rows_def col_width_def col_offset_def col_extent_def

lemma ss_inv_tables:
  assumes "ss_inv ss" "k < ss_rows ss"
  defines "d \<equiv> ss_local_dimensions ss"
  defines "it \<equiv> getOutputDimensionOfSampling (ss_data_sampling_functional ss) d"
  shows "1 \<le> d" "1 \<le> it"
    "length (ss_lro_total_offsets ss) = ss_rows ss"
    "length (ss_lro_output_tile_size ss) = ss_rows ss"
    "ss_lro_total_offsets ss ! k = (\<Sum>i<k. op_columns d it (ss_lro ss ! i))"
    "ss_lro_output_tile_size ss ! k = d ^ target_output_rank (ss_lro ss ! k)"
    "ss_lro_input_tile_size ss ! k = it"
    "(\<Sum>i < ss_rows ss. op_columns d it (ss_lro ss ! i)) \<le> ss_total_alpha_values ss"
  using assms getOutputDimensionOfSampling_pos [of d "ss_data_sampling_functional ss"]
  by (auto simp: ss_inv_def ss_rows_def Let_def)

lemma op_columns_nonneg: "1 \<le> d \<Longrightarrow> 1 \<le> it \<Longrightarrow> 0 \<le> op_columns d it op"
  by (simp add: op_columns_def)

lemma col_width_eq:
  assumes "ss_inv ss" "k < ss_rows ss"
  shows "int (col_width ss k) = op_columns (ss_local_dimensions ss)
     (getOutputDimensionOfSampling (ss_data_sampling_functional ss) (ss_local_dimensions ss))
     (ss_lro ss ! k)"
  using ss_inv_tables [OF assms] by (simp add: col_width_def op_columns_def)

lemma col_width_pos:
  assumes "ss_inv ss" "k < ss_rows ss"
  shows "0 < col_width ss k"
proof -
  have "0 < int (col_width ss k)"
    using ss_inv_tables(1,2) [OF assms]
    by (simp add: col_width_eq [OF assms] op_columns_def zero_less_mult_iff del: of_nat_0_less_iff)
  then show ?thesis by simp
qed

lemma col_offset_eq:
  assumes "ss_inv ss" "k < ss_rows ss"
  shows "int (col_offset ss k) = ss_lro_total_offsets ss ! k"
    and "int (col_offset ss k) = (\<Sum>i<k. int (col_width ss i))"
proof -
  note t = ss_inv_tables [OF assms]
  show "int (col_offset ss k) = ss_lro_total_offsets ss ! k"
    using t op_columns_nonneg [OF t(1,2)] by (simp add: col_offset_def sum_nonneg)
  then show "int (col_offset ss k) = (\<Sum>i<k. int (col_width ss i))"
    using t(5) assms by (simp add: col_width_eq)
qed

interpretation cols: scan_store ss_inv ss_rows col_width col_offset col_extent
proof unfold_locales
  fix ss :: solution_set
  assume inv: "ss_inv ss"
  show "col_offset ss 0 = 0" if "0 < ss_rows ss"
    using col_offset_eq(2) [OF inv that] by simp
  show "col_offset ss (Suc k) = col_offset ss k + col_width ss k" if "Suc k < ss_rows ss" for k
    using col_offset_eq(2) [OF inv that] col_offset_eq(2) [OF inv Suc_lessD [OF that]]
    by (simp flip: of_nat_add of_nat_sum)
  show "(\<Sum>k < ss_rows ss. col_width ss k) \<le> col_extent ss"
  proof (cases "ss_rows ss")
    case 0
    then show ?thesis by simp
  next
    case (Suc n)
    then have k: "0 < ss_rows ss" by simp
    have "(\<Sum>k < ss_rows ss. int (col_width ss k)) \<le> ss_total_alpha_values ss"
      using ss_inv_tables(8) [OF inv k] by (simp add: col_width_eq [OF inv])
    then show ?thesis
      by (simp add: col_extent_def le_nat_iff flip: of_nat_sum)
  qed
qed

text \<open>Components within the tensors of an operation and of the sampling functional.\<close>

definition output_valid :: "TargetOperation \<Rightarrow> nat \<Rightarrow> nat \<Rightarrow> nat \<Rightarrow> bool" where
  "output_valid lro d o1 o2 \<longleftrightarrow>
     (if target_output_rank lro = 0 then o1 = 0 \<and> o2 = 0
      else if target_output_rank lro = 1 then o1 < d \<and> o2 = 0
      else o1 < d \<and> o2 < d)"

definition input_valid :: "SamplingFunctional \<Rightarrow> nat \<Rightarrow> nat \<Rightarrow> nat \<Rightarrow> bool" where
  "input_valid sf d i1 i2 \<longleftrightarrow>
     (if output_rank sf = 0 then i1 = 0 \<and> i2 = 0
      else output_rank sf = 1 \<and> i1 < d \<and> i2 = 0)"

text \<open>
  The output index is made with \<open>_dimensions\<close>, the output tile with \<open>_local_dimensions\<close>:
  a rank-2 result needs them to be equal.
\<close>

definition index_dims_ok :: "solution_set \<Rightarrow> TargetOperation \<Rightarrow> bool" where
  "index_dims_ok ss lro \<longleftrightarrow>
     target_output_rank lro = 2 \<longrightarrow> ss_dimensions ss = ss_local_dimensions ss"

definition output_index :: "TargetOperation \<Rightarrow> nat \<Rightarrow> nat \<Rightarrow> nat \<Rightarrow> nat" where
  "output_index lro d o1 o2 = (if target_output_rank lro = 2 then d else 1) * o1 + o2"

lemma output_index_bound:
  "output_valid lro d o1 o2 \<Longrightarrow> output_index lro d o1 o2 < d ^ target_output_rank lro"
  using target_output_rank_le_2 [of lro] tile_bound [of o1 d o2 d]
  by (auto simp: output_valid_def output_index_def power2_eq_square mult.commute
      le_Suc_eq numeral_2_eq_2 split: if_splits)

lemma output_index_inj:
  "output_valid lro d o1 o2 \<Longrightarrow> output_valid lro d o1' o2'
    \<Longrightarrow> output_index lro d o1 o2 = output_index lro d o1' o2' \<Longrightarrow> o1 = o1' \<and> o2 = o2'"
  using target_output_rank_le_2 [of lro] tile_inj [of o1 d o2 o1' o2']
  by (auto simp: output_valid_def output_index_def mult.commute le_Suc_eq numeral_2_eq_2
      split: if_splits)

lemma sampling_index:
  "input_valid sf d i1 i2 \<Longrightarrow> getSamplingOutputIndex sf (int i1) (int i2) = int i1"
  by (auto simp: input_valid_def getSamplingOutputIndex_def split: if_splits)

lemma sampling_index_bound:
  "input_valid sf d i1 i2 \<Longrightarrow> int i1 < getOutputDimensionOfSampling sf (int d)"
  by (auto simp: input_valid_def getOutputDimensionOfSampling_def split: if_splits)

text \<open>The column of a component pair of an operation at an evaluation site.\<close>

definition alpha_column :: "solution_set \<Rightarrow> nat \<Rightarrow> nat \<Rightarrow> nat \<Rightarrow> nat \<Rightarrow> nat" where
  "alpha_column ss k inp out e =
     col_extent ss * e + (col_offset ss k + (inp * nat (ss_lro_output_tile_size ss ! k) + out))"

definition lro_place :: "solution_set \<Rightarrow> TargetOperation \<Rightarrow> nat" where
  "lro_place ss lro = nat (ss_lro_lookup ss ! nat (target_op_num lro))"

lemma lro_place:
  assumes "ss_inv ss" "lro \<in> set (ss_lro ss)"
  shows "lro_place ss lro < ss_rows ss" "ss_lro ss ! lro_place ss lro = lro"
    "view_read (ss_lro_lookup ss) (target_op_num lro) = Inr (int (lro_place ss lro))"
proof -
  have ok: "lookup_ok (ss_lro_lookup ss) (ss_lro ss)"
    using assms by (auto simp: ss_inv_def)
  then obtain k where "k < length (ss_lro ss)"
    "ss_lro_lookup ss ! nat (target_op_num lro) = int k" "ss_lro ss ! k = lro"
    using assms(2) by (auto simp: lookup_ok_def)
  then show "lro_place ss lro < ss_rows ss" "ss_lro ss ! lro_place ss lro = lro"
    "view_read (ss_lro_lookup ss) (target_op_num lro) = Inr (int (lro_place ss lro))"
    using view_read_op [of "ss_lro_lookup ss" lro] ok
    by (auto simp: lro_place_def ss_rows_def lookup_ok_def)
qed

lemma alpha_column_facts:
  assumes "ss_inv ss" "k < ss_rows ss" "output_valid (ss_lro ss ! k) (nat (ss_local_dimensions ss)) o1 o2"
    and "input_valid (ss_data_sampling_functional ss) (nat (ss_local_dimensions ss)) i1 i2"
  defines "out \<equiv> output_index (ss_lro ss ! k) (nat (ss_local_dimensions ss)) o1 o2"
  shows "out < nat (ss_lro_output_tile_size ss ! k)"
    and "i1 * nat (ss_lro_output_tile_size ss ! k) + out < col_width ss k"
    and "col_offset ss k + (i1 * nat (ss_lro_output_tile_size ss ! k) + out) < col_extent ss"
proof -
  note t = ss_inv_tables [OF assms(1,2)]
  show out: "out < nat (ss_lro_output_tile_size ss ! k)"
    using output_index_bound [OF assms(3)] t(1,6) by (simp add: out_def nat_power_eq)
  have "i1 < nat (ss_lro_input_tile_size ss ! k)"
    using sampling_index_bound [OF assms(4)] t(1,2,7) by simp
  then show "i1 * nat (ss_lro_output_tile_size ss ! k) + out < col_width ss k"
    using tile_bound [OF _ out] t(2,7) by (simp add: col_width_def nat_mult_distrib)
  then show "col_offset ss k + (i1 * nat (ss_lro_output_tile_size ss ! k) + out) < col_extent ss"
    by (rule cols.slot_in_extent [OF assms(1,2)])
qed

lemma alpha_column_inj:
  assumes "ss_inv ss" "k < ss_rows ss" "k' < ss_rows ss"
    and "output_valid (ss_lro ss ! k) (nat (ss_local_dimensions ss)) o1 o2"
    and "input_valid (ss_data_sampling_functional ss) (nat (ss_local_dimensions ss)) i1 i2"
    and "output_valid (ss_lro ss ! k') (nat (ss_local_dimensions ss)) o1' o2'"
    and "input_valid (ss_data_sampling_functional ss) (nat (ss_local_dimensions ss)) i1' i2'"
    and "alpha_column ss k i1 (output_index (ss_lro ss ! k) (nat (ss_local_dimensions ss)) o1 o2) e
       = alpha_column ss k' i1' (output_index (ss_lro ss ! k') (nat (ss_local_dimensions ss)) o1' o2') e'"
  shows "k = k' \<and> o1 = o1' \<and> o2 = o2' \<and> i1 = i1' \<and> i2 = i2' \<and> e = e'"
proof -
  note f = alpha_column_facts [OF assms(1,2,4,5)] and f' = alpha_column_facts [OF assms(1,3,6,7)]
  have 1: "e = e' \<and>
      col_offset ss k + (i1 * nat (ss_lro_output_tile_size ss ! k)
         + output_index (ss_lro ss ! k) (nat (ss_local_dimensions ss)) o1 o2)
    = col_offset ss k' + (i1' * nat (ss_lro_output_tile_size ss ! k')
         + output_index (ss_lro ss ! k') (nat (ss_local_dimensions ss)) o1' o2')"
    using tile_inj [OF _ f(3) f'(3), of e e'] assms(8)
    by (simp add: alpha_column_def mult.commute)
  then have 2: "k = k' \<and> i1 * nat (ss_lro_output_tile_size ss ! k)
         + output_index (ss_lro ss ! k) (nat (ss_local_dimensions ss)) o1 o2
       = i1' * nat (ss_lro_output_tile_size ss ! k')
         + output_index (ss_lro ss ! k') (nat (ss_local_dimensions ss)) o1' o2'"
    using cols.slot_inj [OF assms(1,2,3) f(2) f'(2)] by blast
  then have 3: "i1 = i1' \<and> output_index (ss_lro ss ! k) (nat (ss_local_dimensions ss)) o1 o2
       = output_index (ss_lro ss ! k') (nat (ss_local_dimensions ss)) o1' o2'"
    using tile_inj [of i1 "nat (ss_lro_output_tile_size ss ! k)"
        "output_index (ss_lro ss ! k) (nat (ss_local_dimensions ss)) o1 o2" i1'
        "output_index (ss_lro ss ! k') (nat (ss_local_dimensions ss)) o1' o2'"] f(1) f'(1) by auto
  then have "o1 = o1' \<and> o2 = o2'"
    using output_index_inj [OF assms(4)] assms(6) 2 by auto
  moreover have "i2 = i2'"
    using assms(5,7) by (auto simp: input_valid_def split: if_splits)
  ultimately show ?thesis using 1 2 3 by blast
qed

section \<open>Addresses of the alphas\<close>

definition alpha_rows :: "solution_set \<Rightarrow> nat" where
  "alpha_rows ss = nl_rows (ss_neighbor_lists ss)"

text \<open>The coefficients one column of a target holds: its neighbors and the added ones.\<close>

definition alpha_depth :: "solution_set \<Rightarrow> nat \<Rightarrow> nat" where
  "alpha_depth ss i = nl_count (ss_neighbor_lists ss) i + nat (ss_added_alpha_size ss)"

definition alpha_columns :: "solution_set \<Rightarrow> nat" where
  "alpha_columns ss =
     nat (ss_total_alpha_values ss) * nat (ss_max_evaluation_sites_per_target ss)"

definition alpha_width :: "solution_set \<Rightarrow> nat \<Rightarrow> nat" where
  "alpha_width ss i = alpha_depth ss i * alpha_columns ss"

definition alpha_offset :: "solution_set \<Rightarrow> nat \<Rightarrow> nat" where
  "alpha_offset ss i =
     (nl_offset (ss_neighbor_lists ss) i + i * nat (ss_added_alpha_size ss)) * alpha_columns ss"

definition alpha_extent :: "solution_set \<Rightarrow> nat" where
  "alpha_extent ss = length (ss_alphas ss)"

text \<open>
  A solved set: alphas allocated as \<open>generatePolynomialCoefficients\<close> allocates them, and
  the products that the code forms in \<open>int\<close> within its range.
\<close>

definition alphas_inv :: "solution_set \<Rightarrow> bool" where
  "alphas_inv ss \<longleftrightarrow>
     ss_inv ss \<and> nl_wf (ss_neighbor_lists ss)
     \<and> 0 \<le> ss_added_alpha_size ss \<and> 0 \<le> ss_total_alpha_values ss
     \<and> 0 \<le> ss_max_evaluation_sites_per_target ss
     \<and> length (ss_alphas ss) = (\<Sum>i < alpha_rows ss. alpha_width ss i)
     \<and> length (ss_alphas ss) < 2 ^ 64
     \<and> int (alpha_rows ss) * ss_added_alpha_size ss < 2 ^ 31
     \<and> (\<forall>i < alpha_rows ss. int (alpha_columns ss * alpha_depth ss i) < 2 ^ 31)"

interpretation alphas: scan_store alphas_inv alpha_rows alpha_width alpha_offset alpha_extent
proof unfold_locales
  fix ss :: solution_set
  assume inv: "alphas_inv ss"
  then have wf: "nl_wf (ss_neighbor_lists ss)" by (simp add: alphas_inv_def)
  show "alpha_offset ss 0 = 0" if "0 < alpha_rows ss"
    using nls.offset_0 [OF wf] that by (simp add: alpha_offset_def alpha_rows_def)
  show "alpha_offset ss (Suc i) = alpha_offset ss i + alpha_width ss i"
    if "Suc i < alpha_rows ss" for i
    using nls.offset_Suc [OF wf] that
    by (simp add: alpha_offset_def alpha_width_def alpha_depth_def alpha_rows_def algebra_simps)
  show "(\<Sum>i < alpha_rows ss. alpha_width ss i) \<le> alpha_extent ss"
    using inv by (simp add: alphas_inv_def alpha_extent_def)
qed

lemma getAlphaIndex_eq:
  assumes inv: "alphas_inv ss" and t: "t < alpha_rows ss" and c: "c < alpha_columns ss"
  shows "getAlphaIndex_host ss (int t) (int c) =
      Inr (of_nat (alpha_offset ss t + c * alpha_depth ss t))"
    and "getAlphaIndex_device ss (int t) (int c) =
      Inr (of_nat (alpha_offset ss t + c * alpha_depth ss t))"
proof -
  let ?nl = "ss_neighbor_lists ss"
  have wf: "nl_wf ?nl" and rows: "t < nl_rows ?nl"
    and nonneg: "0 \<le> ss_added_alpha_size ss" "0 \<le> ss_total_alpha_values ss"
      "0 \<le> ss_max_evaluation_sites_per_target ss"
    using inv t by (simp_all add: alphas_inv_def alpha_rows_def)
  obtain a tot e where ate: "ss_added_alpha_size ss = int a"
      "ss_total_alpha_values ss = int tot" "ss_max_evaluation_sites_per_target ss = int e"
    using nonneg by (metis nonneg_int_cases)
  have "t * a \<le> alpha_rows ss * a" using t by (intro mult_le_mono1) simp
  also have "\<dots> < 2 ^ 31"
    using inv ate(1) by (simp add: alphas_inv_def flip: of_nat_mult)
  finally have fit1: "fits_int (int t * int a)"
    by (simp add: fits_int_def flip: of_nat_mult)
  have "c * alpha_depth ss t \<le> alpha_columns ss * alpha_depth ss t"
    using c by (intro mult_le_mono1) simp
  moreover have "int (alpha_columns ss * alpha_depth ss t) < 2 ^ 31"
    using inv t unfolding alphas_inv_def by blast
  ultimately have "int (c * alpha_depth ss t) < 2 ^ 31"
    by (meson of_nat_le_iff order.strict_trans1)
  then have "fits_int (int (c * alpha_depth ss t))"
    unfolding fits_int_def by linarith
  then have fit2: "fits_int (int c * (int (nl_count ?nl t) + int a))"
    by (simp add: alpha_depth_def ate)
  have off: "nl_row_offsets ?nl ! t = of_nat (nl_offset ?nl t)"
    by (simp add: nl_offset_def)
  have val: "(nl_row_offsets ?nl ! t + TO_GLOBAL (int t * int a)) * TO_GLOBAL (int tot)
       * TO_GLOBAL (int e) + TO_GLOBAL (int c * (int (nl_count ?nl t) + int a))
     = of_nat (alpha_offset ss t + c * alpha_depth ss t)"
    by (simp add: off alpha_offset_def alpha_depth_def alpha_columns_def ate TO_GLOBAL_of_nat
        algebra_simps flip: of_nat_mult of_nat_add)
  show "getAlphaIndex_host ss (int t) (int c) =
      Inr (of_nat (alpha_offset ss t + c * alpha_depth ss t))"
    using fit1 fit2 val
    by (simp add: getAlphaIndex_host_def nl_offset_host [OF wf rows] nl_count_host [OF wf rows]
        ate Let_def)
  show "getAlphaIndex_device ss (int t) (int c) =
      Inr (of_nat (alpha_offset ss t + c * alpha_depth ss t))"
    using fit1 fit2 val
    by (simp add: getAlphaIndex_device_def nl_offset_device [OF wf rows]
        nl_count_device [OF wf rows] ate Let_def)
qed

text \<open>A request for an alpha: the arguments of \<open>getAlpha\<close>.\<close>

record alpha_request =
  rq_lro :: TargetOperation
  rq_target :: nat
  rq_out1 :: nat
  rq_out2 :: nat
  rq_neighbor :: nat
  rq_in1 :: nat
  rq_in2 :: nat
  rq_site :: nat

definition request_valid :: "solution_set \<Rightarrow> alpha_request \<Rightarrow> bool" where
  "request_valid ss r \<longleftrightarrow>
     rq_lro r \<in> set (ss_lro ss) \<and> index_dims_ok ss (rq_lro r)
     \<and> rq_target r < alpha_rows ss
     \<and> rq_neighbor r < alpha_depth ss (rq_target r)
     \<and> rq_site r < nat (ss_max_evaluation_sites_per_target ss)
     \<and> output_valid (rq_lro r) (nat (ss_local_dimensions ss)) (rq_out1 r) (rq_out2 r)
     \<and> input_valid (ss_data_sampling_functional ss) (nat (ss_local_dimensions ss))
          (rq_in1 r) (rq_in2 r)"

text \<open>The part of it that says which column is meant, of whatever target.\<close>

definition column_valid :: "solution_set \<Rightarrow> alpha_request \<Rightarrow> bool" where
  "column_valid ss r \<longleftrightarrow>
     rq_lro r \<in> set (ss_lro ss) \<and> index_dims_ok ss (rq_lro r)
     \<and> rq_site r < nat (ss_max_evaluation_sites_per_target ss)
     \<and> output_valid (rq_lro r) (nat (ss_local_dimensions ss)) (rq_out1 r) (rq_out2 r)
     \<and> input_valid (ss_data_sampling_functional ss) (nat (ss_local_dimensions ss))
          (rq_in1 r) (rq_in2 r)"

lemma request_valid_column: "request_valid ss r \<Longrightarrow> column_valid ss r"
  by (simp add: request_valid_def column_valid_def)

definition request_column :: "solution_set \<Rightarrow> alpha_request \<Rightarrow> nat" where
  "request_column ss r =
     alpha_column ss (lro_place ss (rq_lro r)) (rq_in1 r)
       (output_index (rq_lro r) (nat (ss_local_dimensions ss)) (rq_out1 r) (rq_out2 r)) (rq_site r)"

definition request_address :: "solution_set \<Rightarrow> alpha_request \<Rightarrow> nat" where
  "request_address ss r =
     alpha_offset ss (rq_target r)
       + (request_column ss r * alpha_depth ss (rq_target r) + rq_neighbor r)"

definition getAlpha_request :: "bool \<Rightarrow> solution_set \<Rightarrow> alpha_request \<Rightarrow> real result" where
  "getAlpha_request dbg ss r =
     getAlpha_host dbg ss (rq_lro r) (int (rq_target r)) (int (rq_out1 r)) (int (rq_out2 r))
       (int (rq_neighbor r)) (int (rq_in1 r)) (int (rq_in2 r)) (int (rq_site r))"

definition getAlpha_request_device :: "bool \<Rightarrow> solution_set \<Rightarrow> alpha_request \<Rightarrow> real result" where
  "getAlpha_request_device dbg ss r =
     getAlpha_device dbg ss (rq_lro r) (int (rq_target r)) (int (rq_out1 r)) (int (rq_out2 r))
       (int (rq_neighbor r)) (int (rq_in1 r)) (int (rq_in2 r)) (int (rq_site r))"

lemma column_lookup:
  assumes "alphas_inv ss" "column_valid ss r"
  defines "k \<equiv> lro_place ss (rq_lro r)"
  shows "ss_inv ss" "k < ss_rows ss" "ss_lro ss ! k = rq_lro r"
    "view_read (ss_lro_lookup ss) (target_op_num (rq_lro r)) = Inr (int k)"
  using assms lro_place [of ss "rq_lro r"] by (auto simp: alphas_inv_def column_valid_def)

lemma column_bound:
  assumes "alphas_inv ss" "column_valid ss r"
  shows "request_column ss r < alpha_columns ss"
proof -
  note l = column_lookup [OF assms]
  have r: "output_valid (rq_lro r) (nat (ss_local_dimensions ss)) (rq_out1 r) (rq_out2 r)"
      "input_valid (ss_data_sampling_functional ss) (nat (ss_local_dimensions ss)) (rq_in1 r) (rq_in2 r)"
    using assms(2) by (simp_all add: column_valid_def)
  have "col_offset ss (lro_place ss (rq_lro r))
      + (rq_in1 r * nat (ss_lro_output_tile_size ss ! lro_place ss (rq_lro r))
         + output_index (rq_lro r) (nat (ss_local_dimensions ss)) (rq_out1 r) (rq_out2 r))
      < col_extent ss"
    using alpha_column_facts(3) [OF l(1,2), of "rq_out1 r" "rq_out2 r" "rq_in1 r" "rq_in2 r"]
      r l(3) by simp
  then show ?thesis
    using assms(2) tile_bound [of "rq_site r" _ _ "col_extent ss"]
    by (simp add: request_column_def alpha_column_def alpha_columns_def column_valid_def
        col_extent_def mult.commute)
qed

lemma column_code:
  assumes "alphas_inv ss" "column_valid ss r"
  shows "getAlphaColumnOffset_host dbg ss (rq_lro r) (int (rq_out1 r)) (int (rq_out2 r))
      (int (rq_in1 r)) (int (rq_in2 r)) (int (rq_site r)) = Inr (int (request_column ss r))"
    and "getAlphaColumnOffset_device dbg ss (rq_lro r) (int (rq_out1 r)) (int (rq_out2 r))
      (int (rq_in1 r)) (int (rq_in2 r)) (int (rq_site r)) = Inr (int (request_column ss r))"
proof -
  let ?k = "lro_place ss (rq_lro r)"
  let ?d = "nat (ss_local_dimensions ss)"
  note l = column_lookup [OF assms]
  note t = ss_inv_tables [OF l(1,2)]
  have r: "output_valid (rq_lro r) ?d (rq_out1 r) (rq_out2 r)" "index_dims_ok ss (rq_lro r)"
      "input_valid (ss_data_sampling_functional ss) ?d (rq_in1 r) (rq_in2 r)"
    using assms(2) by (simp_all add: column_valid_def)
  have out: "getTargetOutputIndex (target_op_num (rq_lro r)) (int (rq_out1 r)) (int (rq_out2 r))
      (ss_dimensions ss) = Inr (int (output_index (rq_lro r) ?d (rq_out1 r) (rq_out2 r)))"
    using r(2) t(1) by (simp add: getTargetOutputIndex_enum output_index_def index_dims_ok_def)
  have tot: "ss_total_alpha_values ss = int (col_extent ss)"
    using assms(1) by (simp add: alphas_inv_def col_extent_def)
  have reads: "view_read (ss_lro_total_offsets ss) (int ?k) = Inr (int (col_offset ss ?k))"
      "view_read (ss_lro_output_tile_size ss) (int ?k)
         = Inr (int (nat (ss_lro_output_tile_size ss ! ?k)))"
    using l(2) t(1,3,4,6) col_offset_eq(1) [OF l(1,2)] by simp_all
  show "getAlphaColumnOffset_host dbg ss (rq_lro r) (int (rq_out1 r)) (int (rq_out2 r))
      (int (rq_in1 r)) (int (rq_in2 r)) (int (rq_site r)) = Inr (int (request_column ss r))"
    by (simp add: getAlphaColumnOffset_host_def l(4) out sampling_index [OF r(3)]
        getTargetOffsetIndex_host_def reads tot request_column_def alpha_column_def
        del: int_nat_eq nat_int)
  show "getAlphaColumnOffset_device dbg ss (rq_lro r) (int (rq_out1 r)) (int (rq_out2 r))
      (int (rq_in1 r)) (int (rq_in2 r)) (int (rq_site r)) = Inr (int (request_column ss r))"
    by (simp add: getAlphaColumnOffset_device_def l(4) out sampling_index [OF r(3)]
        getTargetOffsetIndex_device_def reads tot request_column_def alpha_column_def
        del: int_nat_eq nat_int)
qed

lemmas request_lookup = column_lookup [OF _ request_valid_column]

lemmas request_column_bound = column_bound [OF _ request_valid_column]

lemmas request_column_code = column_code [OF _ request_valid_column]

lemma request_place_bound:
  assumes "alphas_inv ss" "request_valid ss r"
  shows "request_column ss r * alpha_depth ss (rq_target r) + rq_neighbor r
    < alpha_width ss (rq_target r)"
proof -
  have "rq_neighbor r < alpha_depth ss (rq_target r)"
    using assms(2) by (simp add: request_valid_def)
  from tile_bound [OF request_column_bound [OF assms] this] show ?thesis
    by (simp add: alpha_width_def mult.commute)
qed

lemma request_address_bound:
  assumes "alphas_inv ss" "request_valid ss r"
  shows "request_address ss r < length (ss_alphas ss)"
  using alphas.slot_in_extent [OF assms(1) _ request_place_bound [OF assms]] assms(2)
  by (simp add: request_address_def request_valid_def alpha_extent_def)

lemma request_code:
  assumes "alphas_inv ss" "request_valid ss r"
  shows "getAlpha_request dbg ss r = Inr (ss_alphas ss ! request_address ss r)"
    and "getAlpha_request_device dbg ss r = Inr (ss_alphas ss ! request_address ss r)"
proof -
  note c = request_column_code [OF assms] and b = request_address_bound [OF assms]
  have t: "rq_target r < alpha_rows ss" using assms(2) by (simp add: request_valid_def)
  note i = getAlphaIndex_eq [OF assms(1) t request_column_bound [OF assms]]
  have "length (ss_alphas ss) < 2 ^ 64" using assms(1) by (simp add: alphas_inv_def)
  with b have a: "request_address ss r < 2 ^ 64" by simp
  have "(of_nat (alpha_offset ss (rq_target r) + request_column ss r * alpha_depth ss (rq_target r))
      :: u64) + TO_GLOBAL (int (rq_neighbor r)) = of_nat (request_address ss r)"
    by (simp add: request_address_def TO_GLOBAL_of_nat)
  moreover have "uint (of_nat (request_address ss r) :: u64) = int (request_address ss r)"
    using a by (simp add: uint_nat unat_of_nat take_bit_nat_eq_self)
  ultimately have "view_read (ss_alphas ss) (uint ((of_nat (alpha_offset ss (rq_target r)
        + request_column ss r * alpha_depth ss (rq_target r)) :: u64)
        + TO_GLOBAL (int (rq_neighbor r)))) = Inr (ss_alphas ss ! request_address ss r)"
    using b by simp
  then show "getAlpha_request dbg ss r = Inr (ss_alphas ss ! request_address ss r)"
    and "getAlpha_request_device dbg ss r = Inr (ss_alphas ss ! request_address ss r)"
    by (simp_all add: getAlpha_request_def getAlpha_request_device_def getAlpha_host_def
        getAlpha_device_def c i del: of_nat_add)
qed

lemma request_address_inj:
  assumes "alphas_inv ss" "request_valid ss r" "request_valid ss r'"
    and "request_address ss r = request_address ss r'"
  shows "r = (r' :: alpha_request)"
proof -
  note l = request_lookup [OF assms(1,2)] and l' = request_lookup [OF assms(1,3)]
  have 1: "rq_target r = rq_target r'
    \<and> request_column ss r * alpha_depth ss (rq_target r) + rq_neighbor r
      = request_column ss r' * alpha_depth ss (rq_target r') + rq_neighbor r'"
    using alphas.slot_inj [OF assms(1) _ _ request_place_bound [OF assms(1,2)]
        request_place_bound [OF assms(1,3)]] assms(2-4)
    by (simp add: request_address_def request_valid_def)
  then have 2: "request_column ss r = request_column ss r' \<and> rq_neighbor r = rq_neighbor r'"
    using tile_inj [of "request_column ss r" "alpha_depth ss (rq_target r)" "rq_neighbor r"
        "request_column ss r'" "rq_neighbor r'"] 1 assms(2,3) by (auto simp: request_valid_def)
  have v: "output_valid (ss_lro ss ! lro_place ss (rq_lro r)) (nat (ss_local_dimensions ss))
        (rq_out1 r) (rq_out2 r)"
      "input_valid (ss_data_sampling_functional ss) (nat (ss_local_dimensions ss))
        (rq_in1 r) (rq_in2 r)"
    using assms(2) l(3) by (simp_all add: request_valid_def)
  have v': "output_valid (ss_lro ss ! lro_place ss (rq_lro r')) (nat (ss_local_dimensions ss))
        (rq_out1 r') (rq_out2 r')"
      "input_valid (ss_data_sampling_functional ss) (nat (ss_local_dimensions ss))
        (rq_in1 r') (rq_in2 r')"
    using assms(3) l'(3) by (simp_all add: request_valid_def)
  have "lro_place ss (rq_lro r) = lro_place ss (rq_lro r') \<and> rq_out1 r = rq_out1 r'
    \<and> rq_out2 r = rq_out2 r' \<and> rq_in1 r = rq_in1 r' \<and> rq_in2 r = rq_in2 r'
    \<and> rq_site r = rq_site r'"
    using alpha_column_inj [OF l(1,2) l'(2) v v', of "rq_site r" "rq_site r'"]
      conjunct1 [OF 2] by (simp only: request_column_def l(3) l'(3))
  moreover from this have "rq_lro r = rq_lro r'" using l(3) l'(3) by metis
  ultimately show ?thesis using 1 2 by (cases r; cases r') simp
qed

section \<open>Properties\<close>

text \<open>
  The set that the witnesses evaluate: a value and a gradient in two dimensions, for the
  two targets of the example lists, solved.
\<close>

definition ss_example :: solution_set where
  "ss_example =
     (SolutionSet_make PointSample 2 2 STANDARD)
       \<lparr>ss_lro := [ScalarPointEvaluation, GradientOfScalarPointEvaluation],
        ss_lro_lookup := [0, -1, -1, -1, 1, -1, -1, -1, -1, -1, -1, -1, -1, -1, -1],
        ss_lro_total_offsets := [0, 1], ss_lro_output_tile_size := [1, 2],
        ss_lro_input_tile_size := [1, 1], ss_lro_output_tensor_rank := [0, 1],
        ss_lro_input_tensor_rank := [0, 0], ss_total_alpha_values := 3,
        ss_neighbor_lists := nl_example,
        ss_alphas := [1, 2, 3, 4, 5, 6, 7, 8, 9]\<rparr>"

lemmas ss_example_simps = ss_example_def SolutionSet_make_def

lemma ss_example_sampling:
  "output_rank PointSample = 0" "getOutputDimensionOfSampling PointSample d = 1"
  by (simp_all add: getOutputDimensionOfSampling_def sampling_functional_defs)

lemma lookup_ok_ss_example:
  "lookup_ok [0, -1, -1, -1, 1, -1, -1, -1, -1, -1, -1, -1, -1, -1, -1]
     [ScalarPointEvaluation, GradientOfScalarPointEvaluation]"
proof -
  let ?l = "[0, -1, -1, -1, 1, -1, -1, -1, -1, -1, -1, -1, -1, -1, -1] :: int list"
  let ?ops = "[ScalarPointEvaluation, GradientOfScalarPointEvaluation]"
  have "(?l ! nat (target_op_num op) = -1 \<and> op \<notin> set ?ops)
      \<or> (\<exists>k < length ?ops. ?l ! nat (target_op_num op) = int k \<and> ?ops ! k = op)" for op
    by (cases op) (simp_all add: Ex_less_Suc)
  then show ?thesis by (simp add: lookup_ok_def TargetOperation_COUNT_def)
qed

lemma ss_example_inv: "ss_inv ss_example"
  using lookup_ok_ss_example
  by (simp add: ss_inv_def ss_example_simps ss_example_sampling op_columns_def
      eval_nat_numeral)

lemma ss_example_views:
  "alpha_rows ss_example = 2" "alpha_depth ss_example 0 = 2" "alpha_depth ss_example (Suc 0) = 1"
  "alpha_columns ss_example = 3" "length (ss_alphas ss_example) = 9"
  "ss_added_alpha_size ss_example = 0" "ss_total_alpha_values ss_example = 3"
  "ss_neighbor_lists ss_example = nl_example"
  "ss_local_dimensions ss_example = 2" "ss_data_sampling_functional ss_example = PointSample"
  "ss_max_evaluation_sites_per_target ss_example = 1"
  "ss_lro ss_example = [ScalarPointEvaluation, GradientOfScalarPointEvaluation]"
  by (simp_all add: alpha_rows_def alpha_depth_def alpha_columns_def ss_example_simps
      nl_example_views)

lemma sum_below_2: "(\<Sum>i<(2::nat). f i) = f 0 + f (Suc 0)"
  by (simp add: numeral_2_eq_2)

lemma all_below_2: "(\<forall>i<(2::nat). P i) \<longleftrightarrow> P 0 \<and> P (Suc 0)"
  by (auto simp: less_2_cases_iff)

lemma ss_example_alphas: "alphas_inv ss_example"
  using ss_example_inv nl_example_wf
  by (simp add: alphas_inv_def alpha_width_def ss_example_views sum_below_2 all_below_2)

definition rq_example :: "nat \<Rightarrow> nat \<Rightarrow> alpha_request" where
  "rq_example component neighbor =
     \<lparr>rq_lro = GradientOfScalarPointEvaluation, rq_target = 0, rq_out1 = component,
      rq_out2 = 0, rq_neighbor = neighbor, rq_in1 = 0, rq_in2 = 0, rq_site = 0\<rparr>"

lemma rq_example_valid: "c < 2 \<Longrightarrow> n < 2 \<Longrightarrow> request_valid ss_example (rq_example c n)"
  by (simp add: request_valid_def rq_example_def ss_example_views index_dims_ok_def
      output_valid_def input_valid_def ss_example_sampling)

text \<open>
  C2: on a solved set, every valid request reads an entry inside the allocation, the same on
  the host and on the device, and two different valid requests never share an entry.  A
  request is valid when it names a registered operation, a target, a neighbor of it,
  components within the tensors and an evaluation site, and, for an operation with a rank-2
  result, when the dimension and the local dimension of the set are equal.  The code does
  not check this last condition, and rank-2 results on manifolds violate it: there different
  requests do share entries (\<open>manifold_rank2_overlap\<close>).
\<close>

theorem alpha_requests_disjoint:
  assumes "alphas_inv ss" "request_valid ss r" "request_valid ss r'"
  shows "request_address ss r < length (ss_alphas ss)
    \<and> getAlpha_request dbg ss r = Inr (ss_alphas ss ! request_address ss r)
    \<and> getAlpha_request_device dbg ss r = Inr (ss_alphas ss ! request_address ss r)
    \<and> (request_address ss r = request_address ss r' \<longleftrightarrow> r = r')"
  using request_address_bound [OF assms(1,2)] request_code [OF assms(1,2)]
    request_address_inj [OF assms] by blast

theorem alpha_requests_disjoint_witness:
  "request_address ss_example (rq_example 0 1) \<noteq> request_address ss_example (rq_example 1 0)
   \<and> request_address ss_example (rq_example 0 1) < 9"
proof -
  have "rq_example 0 1 \<noteq> rq_example 1 0" by (simp add: rq_example_def)
  moreover have "length (ss_alphas ss_example) = 9" by (simp add: ss_example_simps)
  ultimately show ?thesis
    using alpha_requests_disjoint [OF ss_example_alphas rq_example_valid [of 0 1]
        rq_example_valid [of 1 0], of True] by simp
qed

text \<open>
  C6: adding target operations keeps the state consistent: the operations registered
  before stay in their places, every requested operation is registered, the lookup of an
  operation gives a place that holds it or -1 for an unregistered one, and the columns of
  every place start where those of the places before it end and lie within the total.
\<close>

theorem addTargets_consistent:
  assumes "ss_inv ss"
  shows "\<exists>ss'. addTargets ss ops = Inr ss' \<and> ss_inv ss'
    \<and> take (length (ss_lro ss)) (ss_lro ss') = ss_lro ss
    \<and> set (ss_lro ss') = set (ss_lro ss) \<union> set ops
    \<and> (\<forall>op. if op \<in> set (ss_lro ss')
            then \<exists>k < length (ss_lro ss'). getTargetOperationLocalIndex_host ss' op = Inr (int k)
                    \<and> ss_lro ss' ! k = op
            else getTargetOperationLocalIndex_host ss' op = Inr (-1))
    \<and> (\<forall>k < length (ss_lro ss').
          col_offset ss' k = (\<Sum>i<k. col_width ss' i)
        \<and> int (col_offset ss' k + col_width ss' k) \<le> ss_total_alpha_values ss')"
proof -
  obtain ss' lookup where ss': "addTargets ss ops = Inr ss'" "ss_lro_lookup ss' = lookup"
    "lookup_ok lookup (ss_lro ss')"
    using addTargets_eq [OF assms, of ops] by auto
  note inv = addTargets_inv [OF assms ss'(1)]
  have len: "length lookup = nat TargetOperation_COUNT"
    using ss'(3) by (simp add: lookup_ok_def)
  have look: "if op \<in> set (ss_lro ss')
      then \<exists>k < length (ss_lro ss'). getTargetOperationLocalIndex_host ss' op = Inr (int k)
              \<and> ss_lro ss' ! k = op
      else getTargetOperationLocalIndex_host ss' op = Inr (-1)" for op
    using ss'(2,3) view_read_op [OF len, of op]
    by (auto simp: getTargetOperationLocalIndex_host_def lookup_ok_def)
  have cols: "col_offset ss' k = (\<Sum>i<k. col_width ss' i)
      \<and> int (col_offset ss' k + col_width ss' k) \<le> ss_total_alpha_values ss'"
    if k: "k < length (ss_lro ss')" for k
  proof -
    from k have k': "k < ss_rows ss'" by (simp add: ss_rows_def)
    have i: "ss_inv ss'" using inv by simp
    have "0 < col_width ss' k" by (rule col_width_pos [OF i k'])
    then have "col_offset ss' k + (col_width ss' k - 1) < col_extent ss'"
      using cols.slot_in_extent [OF i k', of "col_width ss' k - 1"] by simp
    with \<open>0 < col_width ss' k\<close>
    have "col_offset ss' k + col_width ss' k \<le> nat (ss_total_alpha_values ss')"
      by (simp add: col_extent_def)
    with \<open>0 < col_width ss' k\<close>
    have "int (col_offset ss' k + col_width ss' k) \<le> ss_total_alpha_values ss'" by linarith
    then show ?thesis using cols.offset_sum [OF i k'] by blast
  qed
  have prefix: "take (length (ss_lro ss)) (ss_lro ss') = ss_lro ss"
    and members: "set (ss_lro ss') = set (ss_lro ss) \<union> set ops"
    and consistent: "ss_inv ss'"
    using inv by auto
  show ?thesis
    using ss'(1) prefix members consistent look cols by blast
qed

theorem addTargets_consistent_witness:
  "ss_inv ss_example \<and> (\<exists>ss'. addTargets ss_example [CurlOfVectorPointEvaluation] = Inr ss'
     \<and> CurlOfVectorPointEvaluation \<in> set (ss_lro ss'))"
  using ss_example_inv
    addTargets_consistent [OF ss_example_inv, of "[CurlOfVectorPointEvaluation]"] by auto

text \<open>
  The list of new operations is compared with the operations registered before the
  call only: an operation named twice in one call is registered twice and takes columns
  twice, although two calls that name it once register it once.
\<close>

theorem addTargets_duplicates:
  assumes "ss_inv ss" "op \<notin> set (ss_lro ss)"
  shows "\<exists>once twice again. addTargets ss [op] = Inr once \<and> addTargets ss [op, op] = Inr twice
    \<and> addTargets once [op] = Inr again
    \<and> ss_lro twice = ss_lro once @ [op] \<and> ss_lro again = ss_lro once
    \<and> col_width twice (length (ss_lro once)) = col_width once (length (ss_lro ss))
    \<and> 0 < col_width twice (length (ss_lro once))"
proof -
  obtain once where once: "addTargets ss [op] = Inr once"
    using addTargets_eq [OF assms(1), of "[op]"] by auto
  obtain twice where twice: "addTargets ss [op, op] = Inr twice"
    using addTargets_eq [OF assms(1), of "[op, op]"] by auto
  note io = addTargets_inv [OF assms(1) once] and it = addTargets_inv [OF assms(1) twice]
  obtain again where again: "addTargets once [op] = Inr again"
    using addTargets_eq [OF conjunct1 [OF io], of "[op]"] by auto
  note ia = addTargets_inv [OF conjunct1 [OF io] again]
  have same: "ss_local_dimensions once = ss_local_dimensions ss"
    "ss_data_sampling_functional once = ss_data_sampling_functional ss"
    "ss_local_dimensions twice = ss_local_dimensions ss"
    "ss_data_sampling_functional twice = ss_data_sampling_functional ss"
    using addTargets_eq [OF assms(1), of "[op]"] addTargets_eq [OF assms(1), of "[op, op]"]
      once twice by auto
  have k: "length (ss_lro once) < ss_rows twice" "length (ss_lro ss) < ss_rows once"
    using io it assms(2) by (simp_all add: ss_rows_def)
  have "int (col_width twice (length (ss_lro once))) = int (col_width once (length (ss_lro ss)))"
    using col_width_eq [OF conjunct1 [OF it] k(1)] col_width_eq [OF conjunct1 [OF io] k(2)]
      io it assms(2) same by (simp add: nth_append)
  moreover have "0 < col_width twice (length (ss_lro once))"
    by (rule col_width_pos [OF conjunct1 [OF it] k(1)])
  ultimately show ?thesis
    using once twice again io it ia assms(2) by auto
qed

theorem addTargets_duplicates_witness:
  "\<exists>twice. addTargets (SolutionSet_make PointSample 2 2 STANDARD)
      [ScalarPointEvaluation, ScalarPointEvaluation] = Inr twice
    \<and> ss_lro twice = [ScalarPointEvaluation, ScalarPointEvaluation]"
proof -
  let ?ss = "SolutionSet_make PointSample 2 2 STANDARD"
  have inv: "ss_inv ?ss" by (rule ss_inv_make) (simp_all add: ss_example_sampling)
  have new: "ScalarPointEvaluation \<notin> set (ss_lro ?ss)" by (simp add: SolutionSet_make_def)
  obtain twice where "addTargets ?ss [ScalarPointEvaluation, ScalarPointEvaluation] = Inr twice"
    using addTargets_duplicates [OF inv new] by blast
  then show ?thesis
    using addTargets_inv [OF inv] by (fastforce simp: SolutionSet_make_def)
qed

text \<open>
  C31: clearing the targets of a set on which targets were registered unregisters all of
  them and keeps the state consistent, but leaves the number of alpha values as it was;
  on a set on which none was ever registered it writes outside the lookup table, which
  has not been allocated.
\<close>

theorem clearTargets_behaviour:
  assumes "ss_inv ss"
  shows "if ss_lro_lookup ss = [] then clearTargets ss = Inl Out_of_bounds
    else \<exists>ss'. clearTargets ss = Inr ss' \<and> ss_inv ss' \<and> ss_lro ss' = []
           \<and> (\<forall>op. getTargetOperationLocalIndex_host ss' op = Inr (-1))
           \<and> ss_total_alpha_values ss' = ss_total_alpha_values ss"
proof (cases "ss_lro_lookup ss = []")
  case True
  then show ?thesis using clearTargets_eq [OF assms] by simp
next
  case False
  then obtain ss' where ss': "clearTargets ss = Inr ss'"
    using clearTargets_eq [OF assms] by simp
  have "getTargetOperationLocalIndex_host ss' op = Inr (-1)" for op
    using ss' False view_read_op [of "replicate (nat TargetOperation_COUNT) (-1)" op]
      op_index_bound [of "replicate (nat TargetOperation_COUNT) (-1)" op]
    by (auto simp: clearTargets_eq [OF assms] getTargetOperationLocalIndex_host_def)
  then show ?thesis
    using False ss' clearTargets_inv [OF assms ss']
    by (auto simp: clearTargets_eq [OF assms])
qed

theorem clearTargets_behaviour_witness:
  "clearTargets (SolutionSet_make PointSample 2 2 STANDARD) = Inl Out_of_bounds
   \<and> (\<exists>ss'. clearTargets ss_example = Inr ss' \<and> ss_total_alpha_values ss' = 3)"
proof -
  have inv: "ss_inv (SolutionSet_make PointSample 2 2 STANDARD)"
    by (rule ss_inv_make) (simp_all add: ss_example_sampling)
  show ?thesis
    using clearTargets_behaviour [OF inv] clearTargets_behaviour [OF ss_example_inv]
    by (auto simp: ss_example_simps)
qed



end
