(* ===== verification/Compadre_ParallelManager.thy ===== *)
theory Compadre_ParallelManager
  imports Compadre_Prelude
begin

text \<open>
  The class \<open>ParallelManager\<close> of Compadre_ParallelManager.hpp: the scratch levels and
  sizes, the default team shape read from the environment, and the team policies that
  every kernel launch of the toolkit is made with.

  A policy of Kokkos is recorded by what the code asks of it: the league size, the team
  size, the vector length and the list of \<open>set_scratch_size\<close> requests, in the order in
  which they are made.  What Kokkos does with a policy is not modelled; the theorems
  count the requests, so they need no assumption on it.
\<close>

section \<open>State\<close>

record parallel_manager =
  pm_scratch_team_level_a :: int
  pm_team_scratch_size_a :: int
  pm_scratch_thread_level_a :: int
  pm_thread_scratch_size_a :: int
  pm_scratch_team_level_b :: int
  pm_team_scratch_size_b :: int
  pm_scratch_thread_level_b :: int
  pm_thread_scratch_size_b :: int
  pm_default_threads :: int
  pm_default_vector_lanes :: int

datatype scratch_request = PerTeam int int | PerThread int int

record policy =
  league_size :: u64
  team_size :: int
  vector_length :: int
  scratch :: "scratch_request list"

definition team_policy :: "u64 \<Rightarrow> int \<Rightarrow> int \<Rightarrow> scratch_request list \<Rightarrow> policy" where
  "team_policy league team lanes requests =
     \<lparr> league_size = league, team_size = team, vector_length = lanes, scratch = requests \<rparr>"

datatype 'c launch = Parallel_for 'c string policy

section \<open>The environment\<close>

text \<open>
  \<open>std::atoi\<close>: white space is skipped, an optional sign and the longest run of decimal
  digits are read, the rest is ignored, and no digits give 0.  A value that does not fit
  an \<open>int\<close> is undefined behaviour.
\<close>

definition is_space :: "char \<Rightarrow> bool" where
  "is_space c \<longleftrightarrow> (let n = of_char c :: nat in n = 32 \<or> 9 \<le> n \<and> n \<le> 13)"

definition is_digit :: "char \<Rightarrow> bool" where
  "is_digit c \<longleftrightarrow> (let n = of_char c :: nat in 48 \<le> n \<and> n \<le> 57)"

definition digit_value :: "char \<Rightarrow> int" where
  "digit_value c = of_char c - 48"

definition read_digits :: "string \<Rightarrow> int" where
  "read_digits s = foldl (\<lambda>acc c. 10 * acc + digit_value c) 0 (takeWhile is_digit s)"

definition atoi :: "string \<Rightarrow> int result" where
  "atoi s =
     (case dropWhile is_space s of
        [] \<Rightarrow> Inr 0
      | c # cs \<Rightarrow>
          if c = CHR ''-'' then int_checked (- read_digits cs)
          else if c = CHR ''+'' then int_checked (read_digits cs)
          else int_checked (read_digits (c # cs)))"

text \<open>
  The constructor.  Its first argument says whether the build has \<open>COMPADRE_USE_CUDA\<close>,
  the second is \<open>getenv\<close>.
\<close>

definition ParallelManager_make ::
  "bool \<Rightarrow> (string \<Rightarrow> string option) \<Rightarrow> parallel_manager result" where
  "ParallelManager_make use_cuda env =
     (let pm =
        (if use_cuda then
           \<lparr> pm_scratch_team_level_a = 0, pm_team_scratch_size_a = 0,
             pm_scratch_thread_level_a = 0, pm_thread_scratch_size_a = 0,
             pm_scratch_team_level_b = 1, pm_team_scratch_size_b = 0,
             pm_scratch_thread_level_b = 1, pm_thread_scratch_size_b = 0,
             pm_default_threads = 16, pm_default_vector_lanes = 8 \<rparr>
         else
           \<lparr> pm_scratch_team_level_a = 0, pm_team_scratch_size_a = 0,
             pm_scratch_thread_level_a = 0, pm_thread_scratch_size_a = 0,
             pm_scratch_team_level_b = 0, pm_team_scratch_size_b = 0,
             pm_scratch_thread_level_b = 0, pm_thread_scratch_size_b = 0,
             pm_default_threads = 1, pm_default_vector_lanes = 1 \<rparr>) in
      rbind (case env ''THREADS'' of
               None \<Rightarrow> Inr pm
             | Some s \<Rightarrow> rbind (atoi s) (\<lambda>n. Inr (pm\<lparr> pm_default_threads := n \<rparr>))) (\<lambda>pm.
      case env ''VECTORLANES'' of
        None \<Rightarrow> Inr pm
      | Some s \<Rightarrow> rbind (atoi s) (\<lambda>n. Inr (pm\<lparr> pm_default_vector_lanes := n \<rparr>))))"

section \<open>Accessors and modifiers\<close>

definition getTeamScratchLevel :: "parallel_manager \<Rightarrow> int \<Rightarrow> int" where
  "getTeamScratchLevel pm level =
     (if level = 0 then pm_scratch_team_level_a pm else pm_scratch_team_level_b pm)"

definition getThreadScratchLevel :: "parallel_manager \<Rightarrow> int \<Rightarrow> int" where
  "getThreadScratchLevel pm level =
     (if level = 0 then pm_scratch_thread_level_a pm else pm_scratch_thread_level_b pm)"

definition getTeamScratchSize :: "parallel_manager \<Rightarrow> int \<Rightarrow> int" where
  "getTeamScratchSize pm level =
     (if level = 0 then pm_team_scratch_size_a pm else pm_team_scratch_size_b pm)"

definition getThreadScratchSize :: "parallel_manager \<Rightarrow> int \<Rightarrow> int" where
  "getThreadScratchSize pm level =
     (if level = 0 then pm_thread_scratch_size_a pm else pm_thread_scratch_size_b pm)"

definition setTeamScratchLevel ::
  "parallel_manager \<Rightarrow> int \<Rightarrow> int \<Rightarrow> parallel_manager" where
  "setTeamScratchLevel pm level v =
     (if level = 0 then pm\<lparr> pm_scratch_team_level_a := v \<rparr>
      else pm\<lparr> pm_scratch_team_level_b := v \<rparr>)"

definition setThreadScratchLevel ::
  "parallel_manager \<Rightarrow> int \<Rightarrow> int \<Rightarrow> parallel_manager" where
  "setThreadScratchLevel pm level v =
     (if level = 0 then pm\<lparr> pm_scratch_thread_level_a := v \<rparr>
      else pm\<lparr> pm_scratch_thread_level_b := v \<rparr>)"

definition setTeamScratchSize ::
  "parallel_manager \<Rightarrow> int \<Rightarrow> int \<Rightarrow> parallel_manager" where
  "setTeamScratchSize pm level v =
     (if level = 0 then pm\<lparr> pm_team_scratch_size_a := v \<rparr>
      else pm\<lparr> pm_team_scratch_size_b := v \<rparr>)"

definition setThreadScratchSize ::
  "parallel_manager \<Rightarrow> int \<Rightarrow> int \<Rightarrow> parallel_manager" where
  "setThreadScratchSize pm level v =
     (if level = 0 then pm\<lparr> pm_thread_scratch_size_a := v \<rparr>
      else pm\<lparr> pm_thread_scratch_size_b := v \<rparr>)"

definition clearScratchSizes :: "parallel_manager \<Rightarrow> parallel_manager" where
  "clearScratchSizes pm =
     pm\<lparr> pm_team_scratch_size_a := 0, pm_team_scratch_size_b := 0,
         pm_thread_scratch_size_a := 0, pm_thread_scratch_size_b := 0 \<rparr>"

section \<open>Policies and launches\<close>

text \<open>
  The three routines that make a policy repeat sixteen branches: four for which of the
  two shape arguments are positive, times four for which of the scratch levels
  coincide.  The sums of sizes are \<open>int\<close> sums.
\<close>

definition TeamPolicyThreadsAndVectors ::
  "parallel_manager \<Rightarrow> u64 \<Rightarrow> int \<Rightarrow> int \<Rightarrow> policy result" where
  "TeamPolicyThreadsAndVectors pm batch_size threads_per_team vector_lanes_per_thread =
    (if 0 < threads_per_team \<and> 0 < vector_lanes_per_thread then
      (if pm_scratch_team_level_a pm \<noteq> pm_scratch_team_level_b pm
          \<and> pm_scratch_thread_level_a pm \<noteq> pm_scratch_thread_level_b pm then
         Inr (team_policy batch_size threads_per_team vector_lanes_per_thread
           [PerTeam (pm_scratch_team_level_a pm) (pm_team_scratch_size_a pm),
            PerTeam (pm_scratch_team_level_b pm) (pm_team_scratch_size_b pm),
            PerThread (pm_scratch_thread_level_a pm) (pm_thread_scratch_size_a pm),
            PerThread (pm_scratch_thread_level_b pm) (pm_thread_scratch_size_b pm)])
       else if pm_scratch_team_level_a pm \<noteq> pm_scratch_team_level_b pm then
         rbind (int_checked (pm_thread_scratch_size_a pm + pm_thread_scratch_size_b pm)) (\<lambda>thread_sum.
         Inr (team_policy batch_size threads_per_team vector_lanes_per_thread
           [PerTeam (pm_scratch_team_level_a pm) (pm_team_scratch_size_a pm),
            PerTeam (pm_scratch_team_level_b pm) (pm_team_scratch_size_b pm),
            PerThread (pm_scratch_thread_level_a pm) thread_sum]))
       else if pm_scratch_thread_level_a pm \<noteq> pm_scratch_thread_level_b pm then
         rbind (int_checked (pm_team_scratch_size_a pm + pm_team_scratch_size_b pm)) (\<lambda>team_sum.
         Inr (team_policy batch_size threads_per_team vector_lanes_per_thread
           [PerTeam (pm_scratch_team_level_a pm) team_sum,
            PerThread (pm_scratch_thread_level_a pm) (pm_thread_scratch_size_a pm),
            PerThread (pm_scratch_thread_level_b pm) (pm_thread_scratch_size_b pm)]))
       else
         rbind (int_checked (pm_team_scratch_size_a pm + pm_team_scratch_size_b pm)) (\<lambda>team_sum.
         rbind (int_checked (pm_thread_scratch_size_a pm + pm_thread_scratch_size_b pm)) (\<lambda>thread_sum.
         Inr (team_policy batch_size threads_per_team vector_lanes_per_thread
           [PerTeam (pm_scratch_team_level_a pm) team_sum,
            PerThread (pm_scratch_thread_level_a pm) thread_sum]))))
    else if 0 < threads_per_team then
      (if pm_scratch_team_level_a pm \<noteq> pm_scratch_team_level_b pm
          \<and> pm_scratch_thread_level_a pm \<noteq> pm_scratch_thread_level_b pm then
         Inr (team_policy batch_size threads_per_team (pm_default_vector_lanes pm)
           [PerTeam (pm_scratch_team_level_a pm) (pm_team_scratch_size_a pm),
            PerTeam (pm_scratch_team_level_b pm) (pm_team_scratch_size_b pm),
            PerThread (pm_scratch_thread_level_a pm) (pm_thread_scratch_size_a pm),
            PerThread (pm_scratch_thread_level_b pm) (pm_thread_scratch_size_b pm)])
       else if pm_scratch_team_level_a pm \<noteq> pm_scratch_team_level_b pm then
         rbind (int_checked (pm_thread_scratch_size_a pm + pm_thread_scratch_size_b pm)) (\<lambda>thread_sum.
         Inr (team_policy batch_size threads_per_team (pm_default_vector_lanes pm)
           [PerTeam (pm_scratch_team_level_a pm) (pm_team_scratch_size_a pm),
            PerTeam (pm_scratch_team_level_b pm) (pm_team_scratch_size_b pm),
            PerThread (pm_scratch_thread_level_a pm) thread_sum]))
       else if pm_scratch_thread_level_a pm \<noteq> pm_scratch_thread_level_b pm then
         rbind (int_checked (pm_team_scratch_size_a pm + pm_team_scratch_size_b pm)) (\<lambda>team_sum.
         Inr (team_policy batch_size threads_per_team (pm_default_vector_lanes pm)
           [PerTeam (pm_scratch_team_level_a pm) team_sum,
            PerThread (pm_scratch_thread_level_a pm) (pm_thread_scratch_size_a pm),
            PerThread (pm_scratch_thread_level_b pm) (pm_thread_scratch_size_b pm)]))
       else
         rbind (int_checked (pm_team_scratch_size_a pm + pm_team_scratch_size_b pm)) (\<lambda>team_sum.
         rbind (int_checked (pm_thread_scratch_size_a pm + pm_thread_scratch_size_b pm)) (\<lambda>thread_sum.
         Inr (team_policy batch_size threads_per_team (pm_default_vector_lanes pm)
           [PerTeam (pm_scratch_team_level_a pm) team_sum,
            PerThread (pm_scratch_thread_level_a pm) thread_sum]))))
    else if 0 < vector_lanes_per_thread then
      (if pm_scratch_team_level_a pm \<noteq> pm_scratch_team_level_b pm
          \<and> pm_scratch_thread_level_a pm \<noteq> pm_scratch_thread_level_b pm then
         Inr (team_policy batch_size (pm_default_threads pm) vector_lanes_per_thread
           [PerTeam (pm_scratch_team_level_a pm) (pm_team_scratch_size_a pm),
            PerTeam (pm_scratch_team_level_b pm) (pm_team_scratch_size_b pm),
            PerThread (pm_scratch_thread_level_a pm) (pm_thread_scratch_size_a pm),
            PerThread (pm_scratch_thread_level_b pm) (pm_thread_scratch_size_b pm)])
       else if pm_scratch_team_level_a pm \<noteq> pm_scratch_team_level_b pm then
         rbind (int_checked (pm_thread_scratch_size_a pm + pm_thread_scratch_size_b pm)) (\<lambda>thread_sum.
         Inr (team_policy batch_size (pm_default_threads pm) vector_lanes_per_thread
           [PerTeam (pm_scratch_team_level_a pm) (pm_team_scratch_size_a pm),
            PerTeam (pm_scratch_team_level_b pm) (pm_team_scratch_size_b pm),
            PerThread (pm_scratch_thread_level_a pm) thread_sum]))
       else if pm_scratch_thread_level_a pm \<noteq> pm_scratch_thread_level_b pm then
         rbind (int_checked (pm_team_scratch_size_a pm + pm_team_scratch_size_b pm)) (\<lambda>team_sum.
         Inr (team_policy batch_size (pm_default_threads pm) vector_lanes_per_thread
           [PerTeam (pm_scratch_team_level_a pm) team_sum,
            PerThread (pm_scratch_thread_level_a pm) (pm_thread_scratch_size_a pm),
            PerThread (pm_scratch_thread_level_b pm) (pm_thread_scratch_size_b pm)]))
       else
         rbind (int_checked (pm_team_scratch_size_a pm + pm_team_scratch_size_b pm)) (\<lambda>team_sum.
         rbind (int_checked (pm_thread_scratch_size_a pm + pm_thread_scratch_size_b pm)) (\<lambda>thread_sum.
         Inr (team_policy batch_size (pm_default_threads pm) vector_lanes_per_thread
           [PerTeam (pm_scratch_team_level_a pm) team_sum,
            PerThread (pm_scratch_thread_level_a pm) thread_sum]))))
    else
      (if pm_scratch_team_level_a pm \<noteq> pm_scratch_team_level_b pm
          \<and> pm_scratch_thread_level_a pm \<noteq> pm_scratch_thread_level_b pm then
         Inr (team_policy batch_size (pm_default_threads pm) (pm_default_vector_lanes pm)
           [PerTeam (pm_scratch_team_level_a pm) (pm_team_scratch_size_a pm),
            PerTeam (pm_scratch_team_level_b pm) (pm_team_scratch_size_b pm),
            PerThread (pm_scratch_thread_level_a pm) (pm_thread_scratch_size_a pm),
            PerThread (pm_scratch_thread_level_b pm) (pm_thread_scratch_size_b pm)])
       else if pm_scratch_team_level_a pm \<noteq> pm_scratch_team_level_b pm then
         rbind (int_checked (pm_thread_scratch_size_a pm + pm_thread_scratch_size_b pm)) (\<lambda>thread_sum.
         Inr (team_policy batch_size (pm_default_threads pm) (pm_default_vector_lanes pm)
           [PerTeam (pm_scratch_team_level_a pm) (pm_team_scratch_size_a pm),
            PerTeam (pm_scratch_team_level_b pm) (pm_team_scratch_size_b pm),
            PerThread (pm_scratch_thread_level_a pm) thread_sum]))
       else if pm_scratch_thread_level_a pm \<noteq> pm_scratch_thread_level_b pm then
         rbind (int_checked (pm_team_scratch_size_a pm + pm_team_scratch_size_b pm)) (\<lambda>team_sum.
         Inr (team_policy batch_size (pm_default_threads pm) (pm_default_vector_lanes pm)
           [PerTeam (pm_scratch_team_level_a pm) team_sum,
            PerThread (pm_scratch_thread_level_a pm) (pm_thread_scratch_size_a pm),
            PerThread (pm_scratch_thread_level_b pm) (pm_thread_scratch_size_b pm)]))
       else
         rbind (int_checked (pm_team_scratch_size_a pm + pm_team_scratch_size_b pm)) (\<lambda>team_sum.
         rbind (int_checked (pm_thread_scratch_size_a pm + pm_thread_scratch_size_b pm)) (\<lambda>thread_sum.
         Inr (team_policy batch_size (pm_default_threads pm) (pm_default_vector_lanes pm)
           [PerTeam (pm_scratch_team_level_a pm) team_sum,
            PerThread (pm_scratch_thread_level_a pm) thread_sum])))))"

text \<open>With a \<open>Tag\<close>: the label of the launch is the name of the tag.\<close>

definition CallFunctorWithTeamThreadsAndVectors_Tag ::
  "parallel_manager \<Rightarrow> string \<Rightarrow> 'c \<Rightarrow> u64 \<Rightarrow> int \<Rightarrow> int \<Rightarrow> 'c launch result" where
  "CallFunctorWithTeamThreadsAndVectors_Tag pm tag_name functor batch_size
     threads_per_team vector_lanes_per_thread =
    (if 0 < threads_per_team \<and> 0 < vector_lanes_per_thread then
      (if pm_scratch_team_level_a pm \<noteq> pm_scratch_team_level_b pm
          \<and> pm_scratch_thread_level_a pm \<noteq> pm_scratch_thread_level_b pm then
         Inr (Parallel_for functor tag_name
             (team_policy batch_size threads_per_team vector_lanes_per_thread
           [PerTeam (pm_scratch_team_level_a pm) (pm_team_scratch_size_a pm),
            PerTeam (pm_scratch_team_level_b pm) (pm_team_scratch_size_b pm),
            PerThread (pm_scratch_thread_level_a pm) (pm_thread_scratch_size_a pm),
            PerThread (pm_scratch_thread_level_b pm) (pm_thread_scratch_size_b pm)]))
       else if pm_scratch_team_level_a pm \<noteq> pm_scratch_team_level_b pm then
         rbind (int_checked (pm_thread_scratch_size_a pm + pm_thread_scratch_size_b pm)) (\<lambda>thread_sum.
         Inr (Parallel_for functor tag_name
             (team_policy batch_size threads_per_team vector_lanes_per_thread
           [PerTeam (pm_scratch_team_level_a pm) (pm_team_scratch_size_a pm),
            PerTeam (pm_scratch_team_level_b pm) (pm_team_scratch_size_b pm),
            PerThread (pm_scratch_thread_level_a pm) thread_sum])))
       else if pm_scratch_thread_level_a pm \<noteq> pm_scratch_thread_level_b pm then
         rbind (int_checked (pm_team_scratch_size_a pm + pm_team_scratch_size_b pm)) (\<lambda>team_sum.
         Inr (Parallel_for functor tag_name
             (team_policy batch_size threads_per_team vector_lanes_per_thread
           [PerTeam (pm_scratch_team_level_a pm) team_sum,
            PerThread (pm_scratch_thread_level_a pm) (pm_thread_scratch_size_a pm),
            PerThread (pm_scratch_thread_level_b pm) (pm_thread_scratch_size_b pm)])))
       else
         rbind (int_checked (pm_team_scratch_size_a pm + pm_team_scratch_size_b pm)) (\<lambda>team_sum.
         rbind (int_checked (pm_thread_scratch_size_a pm + pm_thread_scratch_size_b pm)) (\<lambda>thread_sum.
         Inr (Parallel_for functor tag_name
             (team_policy batch_size threads_per_team vector_lanes_per_thread
           [PerTeam (pm_scratch_team_level_a pm) team_sum,
            PerThread (pm_scratch_thread_level_a pm) thread_sum])))))
    else if 0 < threads_per_team then
      (if pm_scratch_team_level_a pm \<noteq> pm_scratch_team_level_b pm
          \<and> pm_scratch_thread_level_a pm \<noteq> pm_scratch_thread_level_b pm then
         Inr (Parallel_for functor tag_name
             (team_policy batch_size threads_per_team (pm_default_vector_lanes pm)
           [PerTeam (pm_scratch_team_level_a pm) (pm_team_scratch_size_a pm),
            PerTeam (pm_scratch_team_level_b pm) (pm_team_scratch_size_b pm),
            PerThread (pm_scratch_thread_level_a pm) (pm_thread_scratch_size_a pm),
            PerThread (pm_scratch_thread_level_b pm) (pm_thread_scratch_size_b pm)]))
       else if pm_scratch_team_level_a pm \<noteq> pm_scratch_team_level_b pm then
         rbind (int_checked (pm_thread_scratch_size_a pm + pm_thread_scratch_size_b pm)) (\<lambda>thread_sum.
         Inr (Parallel_for functor tag_name
             (team_policy batch_size threads_per_team (pm_default_vector_lanes pm)
           [PerTeam (pm_scratch_team_level_a pm) (pm_team_scratch_size_a pm),
            PerTeam (pm_scratch_team_level_b pm) (pm_team_scratch_size_b pm),
            PerThread (pm_scratch_thread_level_a pm) thread_sum])))
       else if pm_scratch_thread_level_a pm \<noteq> pm_scratch_thread_level_b pm then
         rbind (int_checked (pm_team_scratch_size_a pm + pm_team_scratch_size_b pm)) (\<lambda>team_sum.
         Inr (Parallel_for functor tag_name
             (team_policy batch_size threads_per_team (pm_default_vector_lanes pm)
           [PerTeam (pm_scratch_team_level_a pm) team_sum,
            PerThread (pm_scratch_thread_level_a pm) (pm_thread_scratch_size_a pm),
            PerThread (pm_scratch_thread_level_b pm) (pm_thread_scratch_size_b pm)])))
       else
         rbind (int_checked (pm_team_scratch_size_a pm + pm_team_scratch_size_b pm)) (\<lambda>team_sum.
         rbind (int_checked (pm_thread_scratch_size_a pm + pm_thread_scratch_size_b pm)) (\<lambda>thread_sum.
         Inr (Parallel_for functor tag_name
             (team_policy batch_size threads_per_team (pm_default_vector_lanes pm)
           [PerTeam (pm_scratch_team_level_a pm) team_sum,
            PerThread (pm_scratch_thread_level_a pm) thread_sum])))))
    else if 0 < vector_lanes_per_thread then
      (if pm_scratch_team_level_a pm \<noteq> pm_scratch_team_level_b pm
          \<and> pm_scratch_thread_level_a pm \<noteq> pm_scratch_thread_level_b pm then
         Inr (Parallel_for functor tag_name
             (team_policy batch_size (pm_default_threads pm) vector_lanes_per_thread
           [PerTeam (pm_scratch_team_level_a pm) (pm_team_scratch_size_a pm),
            PerTeam (pm_scratch_team_level_b pm) (pm_team_scratch_size_b pm),
            PerThread (pm_scratch_thread_level_a pm) (pm_thread_scratch_size_a pm),
            PerThread (pm_scratch_thread_level_b pm) (pm_thread_scratch_size_b pm)]))
       else if pm_scratch_team_level_a pm \<noteq> pm_scratch_team_level_b pm then
         rbind (int_checked (pm_thread_scratch_size_a pm + pm_thread_scratch_size_b pm)) (\<lambda>thread_sum.
         Inr (Parallel_for functor tag_name
             (team_policy batch_size (pm_default_threads pm) vector_lanes_per_thread
           [PerTeam (pm_scratch_team_level_a pm) (pm_team_scratch_size_a pm),
            PerTeam (pm_scratch_team_level_b pm) (pm_team_scratch_size_b pm),
            PerThread (pm_scratch_thread_level_a pm) thread_sum])))
       else if pm_scratch_thread_level_a pm \<noteq> pm_scratch_thread_level_b pm then
         rbind (int_checked (pm_team_scratch_size_a pm + pm_team_scratch_size_b pm)) (\<lambda>team_sum.
         Inr (Parallel_for functor tag_name
             (team_policy batch_size (pm_default_threads pm) vector_lanes_per_thread
           [PerTeam (pm_scratch_team_level_a pm) team_sum,
            PerThread (pm_scratch_thread_level_a pm) (pm_thread_scratch_size_a pm),
            PerThread (pm_scratch_thread_level_b pm) (pm_thread_scratch_size_b pm)])))
       else
         rbind (int_checked (pm_team_scratch_size_a pm + pm_team_scratch_size_b pm)) (\<lambda>team_sum.
         rbind (int_checked (pm_thread_scratch_size_a pm + pm_thread_scratch_size_b pm)) (\<lambda>thread_sum.
         Inr (Parallel_for functor tag_name
             (team_policy batch_size (pm_default_threads pm) vector_lanes_per_thread
           [PerTeam (pm_scratch_team_level_a pm) team_sum,
            PerThread (pm_scratch_thread_level_a pm) thread_sum])))))
    else
      (if pm_scratch_team_level_a pm \<noteq> pm_scratch_team_level_b pm
          \<and> pm_scratch_thread_level_a pm \<noteq> pm_scratch_thread_level_b pm then
         Inr (Parallel_for functor tag_name
             (team_policy batch_size (pm_default_threads pm) (pm_default_vector_lanes pm)
           [PerTeam (pm_scratch_team_level_a pm) (pm_team_scratch_size_a pm),
            PerTeam (pm_scratch_team_level_b pm) (pm_team_scratch_size_b pm),
            PerThread (pm_scratch_thread_level_a pm) (pm_thread_scratch_size_a pm),
            PerThread (pm_scratch_thread_level_b pm) (pm_thread_scratch_size_b pm)]))
       else if pm_scratch_team_level_a pm \<noteq> pm_scratch_team_level_b pm then
         rbind (int_checked (pm_thread_scratch_size_a pm + pm_thread_scratch_size_b pm)) (\<lambda>thread_sum.
         Inr (Parallel_for functor tag_name
             (team_policy batch_size (pm_default_threads pm) (pm_default_vector_lanes pm)
           [PerTeam (pm_scratch_team_level_a pm) (pm_team_scratch_size_a pm),
            PerTeam (pm_scratch_team_level_b pm) (pm_team_scratch_size_b pm),
            PerThread (pm_scratch_thread_level_a pm) thread_sum])))
       else if pm_scratch_thread_level_a pm \<noteq> pm_scratch_thread_level_b pm then
         rbind (int_checked (pm_team_scratch_size_a pm + pm_team_scratch_size_b pm)) (\<lambda>team_sum.
         Inr (Parallel_for functor tag_name
             (team_policy batch_size (pm_default_threads pm) (pm_default_vector_lanes pm)
           [PerTeam (pm_scratch_team_level_a pm) team_sum,
            PerThread (pm_scratch_thread_level_a pm) (pm_thread_scratch_size_a pm),
            PerThread (pm_scratch_thread_level_b pm) (pm_thread_scratch_size_b pm)])))
       else
         rbind (int_checked (pm_team_scratch_size_a pm + pm_team_scratch_size_b pm)) (\<lambda>team_sum.
         rbind (int_checked (pm_thread_scratch_size_a pm + pm_thread_scratch_size_b pm)) (\<lambda>thread_sum.
         Inr (Parallel_for functor tag_name
             (team_policy batch_size (pm_default_threads pm) (pm_default_vector_lanes pm)
           [PerTeam (pm_scratch_team_level_a pm) team_sum,
            PerThread (pm_scratch_thread_level_a pm) thread_sum]))))))"

text \<open>Without a tag: the label is an argument, by default the name of the functor's type.\<close>

definition CallFunctorWithTeamThreadsAndVectors ::
  "parallel_manager \<Rightarrow> 'c \<Rightarrow> u64 \<Rightarrow> int \<Rightarrow> int \<Rightarrow> string \<Rightarrow> 'c launch result" where
  "CallFunctorWithTeamThreadsAndVectors pm functor batch_size
     threads_per_team vector_lanes_per_thread functor_name =
    (if 0 < threads_per_team \<and> 0 < vector_lanes_per_thread then
      (if pm_scratch_team_level_a pm \<noteq> pm_scratch_team_level_b pm
          \<and> pm_scratch_thread_level_a pm \<noteq> pm_scratch_thread_level_b pm then
         Inr (Parallel_for functor functor_name
             (team_policy batch_size threads_per_team vector_lanes_per_thread
           [PerTeam (pm_scratch_team_level_a pm) (pm_team_scratch_size_a pm),
            PerTeam (pm_scratch_team_level_b pm) (pm_team_scratch_size_b pm),
            PerThread (pm_scratch_thread_level_a pm) (pm_thread_scratch_size_a pm),
            PerThread (pm_scratch_thread_level_b pm) (pm_thread_scratch_size_b pm)]))
       else if pm_scratch_team_level_a pm \<noteq> pm_scratch_team_level_b pm then
         rbind (int_checked (pm_thread_scratch_size_a pm + pm_thread_scratch_size_b pm)) (\<lambda>thread_sum.
         Inr (Parallel_for functor functor_name
             (team_policy batch_size threads_per_team vector_lanes_per_thread
           [PerTeam (pm_scratch_team_level_a pm) (pm_team_scratch_size_a pm),
            PerTeam (pm_scratch_team_level_b pm) (pm_team_scratch_size_b pm),
            PerThread (pm_scratch_thread_level_a pm) thread_sum])))
       else if pm_scratch_thread_level_a pm \<noteq> pm_scratch_thread_level_b pm then
         rbind (int_checked (pm_team_scratch_size_a pm + pm_team_scratch_size_b pm)) (\<lambda>team_sum.
         Inr (Parallel_for functor functor_name
             (team_policy batch_size threads_per_team vector_lanes_per_thread
           [PerTeam (pm_scratch_team_level_a pm) team_sum,
            PerThread (pm_scratch_thread_level_a pm) (pm_thread_scratch_size_a pm),
            PerThread (pm_scratch_thread_level_b pm) (pm_thread_scratch_size_b pm)])))
       else
         rbind (int_checked (pm_team_scratch_size_a pm + pm_team_scratch_size_b pm)) (\<lambda>team_sum.
         rbind (int_checked (pm_thread_scratch_size_a pm + pm_thread_scratch_size_b pm)) (\<lambda>thread_sum.
         Inr (Parallel_for functor functor_name
             (team_policy batch_size threads_per_team vector_lanes_per_thread
           [PerTeam (pm_scratch_team_level_a pm) team_sum,
            PerThread (pm_scratch_thread_level_a pm) thread_sum])))))
    else if 0 < threads_per_team then
      (if pm_scratch_team_level_a pm \<noteq> pm_scratch_team_level_b pm
          \<and> pm_scratch_thread_level_a pm \<noteq> pm_scratch_thread_level_b pm then
         Inr (Parallel_for functor functor_name
             (team_policy batch_size threads_per_team (pm_default_vector_lanes pm)
           [PerTeam (pm_scratch_team_level_a pm) (pm_team_scratch_size_a pm),
            PerTeam (pm_scratch_team_level_b pm) (pm_team_scratch_size_b pm),
            PerThread (pm_scratch_thread_level_a pm) (pm_thread_scratch_size_a pm),
            PerThread (pm_scratch_thread_level_b pm) (pm_thread_scratch_size_b pm)]))
       else if pm_scratch_team_level_a pm \<noteq> pm_scratch_team_level_b pm then
         rbind (int_checked (pm_thread_scratch_size_a pm + pm_thread_scratch_size_b pm)) (\<lambda>thread_sum.
         Inr (Parallel_for functor functor_name
             (team_policy batch_size threads_per_team (pm_default_vector_lanes pm)
           [PerTeam (pm_scratch_team_level_a pm) (pm_team_scratch_size_a pm),
            PerTeam (pm_scratch_team_level_b pm) (pm_team_scratch_size_b pm),
            PerThread (pm_scratch_thread_level_a pm) thread_sum])))
       else if pm_scratch_thread_level_a pm \<noteq> pm_scratch_thread_level_b pm then
         rbind (int_checked (pm_team_scratch_size_a pm + pm_team_scratch_size_b pm)) (\<lambda>team_sum.
         Inr (Parallel_for functor functor_name
             (team_policy batch_size threads_per_team (pm_default_vector_lanes pm)
           [PerTeam (pm_scratch_team_level_a pm) team_sum,
            PerThread (pm_scratch_thread_level_a pm) (pm_thread_scratch_size_a pm),
            PerThread (pm_scratch_thread_level_b pm) (pm_thread_scratch_size_b pm)])))
       else
         rbind (int_checked (pm_team_scratch_size_a pm + pm_team_scratch_size_b pm)) (\<lambda>team_sum.
         rbind (int_checked (pm_thread_scratch_size_a pm + pm_thread_scratch_size_b pm)) (\<lambda>thread_sum.
         Inr (Parallel_for functor functor_name
             (team_policy batch_size threads_per_team (pm_default_vector_lanes pm)
           [PerTeam (pm_scratch_team_level_a pm) team_sum,
            PerThread (pm_scratch_thread_level_a pm) thread_sum])))))
    else if 0 < vector_lanes_per_thread then
      (if pm_scratch_team_level_a pm \<noteq> pm_scratch_team_level_b pm
          \<and> pm_scratch_thread_level_a pm \<noteq> pm_scratch_thread_level_b pm then
         Inr (Parallel_for functor functor_name
             (team_policy batch_size (pm_default_threads pm) vector_lanes_per_thread
           [PerTeam (pm_scratch_team_level_a pm) (pm_team_scratch_size_a pm),
            PerTeam (pm_scratch_team_level_b pm) (pm_team_scratch_size_b pm),
            PerThread (pm_scratch_thread_level_a pm) (pm_thread_scratch_size_a pm),
            PerThread (pm_scratch_thread_level_b pm) (pm_thread_scratch_size_b pm)]))
       else if pm_scratch_team_level_a pm \<noteq> pm_scratch_team_level_b pm then
         rbind (int_checked (pm_thread_scratch_size_a pm + pm_thread_scratch_size_b pm)) (\<lambda>thread_sum.
         Inr (Parallel_for functor functor_name
             (team_policy batch_size (pm_default_threads pm) vector_lanes_per_thread
           [PerTeam (pm_scratch_team_level_a pm) (pm_team_scratch_size_a pm),
            PerTeam (pm_scratch_team_level_b pm) (pm_team_scratch_size_b pm),
            PerThread (pm_scratch_thread_level_a pm) thread_sum])))
       else if pm_scratch_thread_level_a pm \<noteq> pm_scratch_thread_level_b pm then
         rbind (int_checked (pm_team_scratch_size_a pm + pm_team_scratch_size_b pm)) (\<lambda>team_sum.
         Inr (Parallel_for functor functor_name
             (team_policy batch_size (pm_default_threads pm) vector_lanes_per_thread
           [PerTeam (pm_scratch_team_level_a pm) team_sum,
            PerThread (pm_scratch_thread_level_a pm) (pm_thread_scratch_size_a pm),
            PerThread (pm_scratch_thread_level_b pm) (pm_thread_scratch_size_b pm)])))
       else
         rbind (int_checked (pm_team_scratch_size_a pm + pm_team_scratch_size_b pm)) (\<lambda>team_sum.
         rbind (int_checked (pm_thread_scratch_size_a pm + pm_thread_scratch_size_b pm)) (\<lambda>thread_sum.
         Inr (Parallel_for functor functor_name
             (team_policy batch_size (pm_default_threads pm) vector_lanes_per_thread
           [PerTeam (pm_scratch_team_level_a pm) team_sum,
            PerThread (pm_scratch_thread_level_a pm) thread_sum])))))
    else
      (if pm_scratch_team_level_a pm \<noteq> pm_scratch_team_level_b pm
          \<and> pm_scratch_thread_level_a pm \<noteq> pm_scratch_thread_level_b pm then
         Inr (Parallel_for functor functor_name
             (team_policy batch_size (pm_default_threads pm) (pm_default_vector_lanes pm)
           [PerTeam (pm_scratch_team_level_a pm) (pm_team_scratch_size_a pm),
            PerTeam (pm_scratch_team_level_b pm) (pm_team_scratch_size_b pm),
            PerThread (pm_scratch_thread_level_a pm) (pm_thread_scratch_size_a pm),
            PerThread (pm_scratch_thread_level_b pm) (pm_thread_scratch_size_b pm)]))
       else if pm_scratch_team_level_a pm \<noteq> pm_scratch_team_level_b pm then
         rbind (int_checked (pm_thread_scratch_size_a pm + pm_thread_scratch_size_b pm)) (\<lambda>thread_sum.
         Inr (Parallel_for functor functor_name
             (team_policy batch_size (pm_default_threads pm) (pm_default_vector_lanes pm)
           [PerTeam (pm_scratch_team_level_a pm) (pm_team_scratch_size_a pm),
            PerTeam (pm_scratch_team_level_b pm) (pm_team_scratch_size_b pm),
            PerThread (pm_scratch_thread_level_a pm) thread_sum])))
       else if pm_scratch_thread_level_a pm \<noteq> pm_scratch_thread_level_b pm then
         rbind (int_checked (pm_team_scratch_size_a pm + pm_team_scratch_size_b pm)) (\<lambda>team_sum.
         Inr (Parallel_for functor functor_name
             (team_policy batch_size (pm_default_threads pm) (pm_default_vector_lanes pm)
           [PerTeam (pm_scratch_team_level_a pm) team_sum,
            PerThread (pm_scratch_thread_level_a pm) (pm_thread_scratch_size_a pm),
            PerThread (pm_scratch_thread_level_b pm) (pm_thread_scratch_size_b pm)])))
       else
         rbind (int_checked (pm_team_scratch_size_a pm + pm_team_scratch_size_b pm)) (\<lambda>team_sum.
         rbind (int_checked (pm_thread_scratch_size_a pm + pm_thread_scratch_size_b pm)) (\<lambda>thread_sum.
         Inr (Parallel_for functor functor_name
             (team_policy batch_size (pm_default_threads pm) (pm_default_vector_lanes pm)
           [PerTeam (pm_scratch_team_level_a pm) team_sum,
            PerThread (pm_scratch_thread_level_a pm) thread_sum]))))))"

definition CallFunctorWithTeamThreads_Tag ::
  "parallel_manager \<Rightarrow> string \<Rightarrow> 'c \<Rightarrow> u64 \<Rightarrow> 'c launch result" where
  "CallFunctorWithTeamThreads_Tag pm tag_name functor batch_size =
     CallFunctorWithTeamThreadsAndVectors_Tag pm tag_name functor batch_size
       (pm_default_threads pm) 1"

definition CallFunctorWithTeamThreads ::
  "parallel_manager \<Rightarrow> 'c \<Rightarrow> u64 \<Rightarrow> string \<Rightarrow> 'c launch result" where
  "CallFunctorWithTeamThreads pm functor batch_size functor_name =
     CallFunctorWithTeamThreadsAndVectors pm functor batch_size
       (pm_default_threads pm) 1 functor_name"

section \<open>The scratch store as an interface\<close>

text \<open>
  The four pairs of getters and setters share a contract: level 0 names one slot, every
  other level the second one.
\<close>

locale two_level_store =
  fixes get :: "'s \<Rightarrow> int \<Rightarrow> int"
    and put :: "'s \<Rightarrow> int \<Rightarrow> int \<Rightarrow> 's"
  assumes get_put: "get (put s l v) l' = (if (l = 0) = (l' = 0) then v else get s l')"
begin

lemma get_put_same: "get (put s l v) l = v"
  by (simp add: get_put)

lemma get_put_both: "get (put (put s 0 a) 1 b) l = (if l = 0 then a else b)"
  by (simp add: get_put)

lemma overwrite: "get (put (put s l v) l w) l' = get (put s l w) l'"
  by (simp add: get_put)

lemma levels_above_zero_alias: "0 < l \<Longrightarrow> 0 < l' \<Longrightarrow> get (put s l v) l' = v"
  by (simp add: get_put)

end

interpretation team_size: two_level_store getTeamScratchSize setTeamScratchSize
  by unfold_locales (simp add: getTeamScratchSize_def setTeamScratchSize_def)

interpretation thread_size: two_level_store getThreadScratchSize setThreadScratchSize
  by unfold_locales (simp add: getThreadScratchSize_def setThreadScratchSize_def)

interpretation team_level: two_level_store getTeamScratchLevel setTeamScratchLevel
  by unfold_locales (simp add: getTeamScratchLevel_def setTeamScratchLevel_def)

interpretation thread_level: two_level_store getThreadScratchLevel setThreadScratchLevel
  by unfold_locales (simp add: getThreadScratchLevel_def setThreadScratchLevel_def)

section \<open>What a policy asks for\<close>

text \<open>
  The abstract view of a list of requests: for each level, how many requests of a kind
  there are and how many bytes they ask for.
\<close>

fun team_requests :: "int \<Rightarrow> scratch_request list \<Rightarrow> int list" where
  "team_requests l [] = []"
| "team_requests l (PerTeam l' n # rs) =
     (if l' = l then n # team_requests l rs else team_requests l rs)"
| "team_requests l (PerThread l' n # rs) = team_requests l rs"

fun thread_requests :: "int \<Rightarrow> scratch_request list \<Rightarrow> int list" where
  "thread_requests l [] = []"
| "thread_requests l (PerTeam l' n # rs) = thread_requests l rs"
| "thread_requests l (PerThread l' n # rs) =
     (if l' = l then n # thread_requests l rs else thread_requests l rs)"

definition team_bytes :: "parallel_manager \<Rightarrow> int \<Rightarrow> int" where
  "team_bytes pm l =
     (if pm_scratch_team_level_a pm = l then pm_team_scratch_size_a pm else 0)
   + (if pm_scratch_team_level_b pm = l then pm_team_scratch_size_b pm else 0)"

definition thread_bytes :: "parallel_manager \<Rightarrow> int \<Rightarrow> int" where
  "thread_bytes pm l =
     (if pm_scratch_thread_level_a pm = l then pm_thread_scratch_size_a pm else 0)
   + (if pm_scratch_thread_level_b pm = l then pm_thread_scratch_size_b pm else 0)"

definition pm_fits :: "parallel_manager \<Rightarrow> bool" where
  "pm_fits pm \<longleftrightarrow>
     (pm_scratch_team_level_a pm = pm_scratch_team_level_b pm
        \<longrightarrow> fits_int (pm_team_scratch_size_a pm + pm_team_scratch_size_b pm))
   \<and> (pm_scratch_thread_level_a pm = pm_scratch_thread_level_b pm
        \<longrightarrow> fits_int (pm_thread_scratch_size_a pm + pm_thread_scratch_size_b pm))"

text \<open>The sixteen branches in one: the requests do not depend on the shape arguments.\<close>

definition pm_requests :: "parallel_manager \<Rightarrow> scratch_request list" where
  "pm_requests pm =
     (if pm_scratch_team_level_a pm = pm_scratch_team_level_b pm
      then [PerTeam (pm_scratch_team_level_a pm)
              (pm_team_scratch_size_a pm + pm_team_scratch_size_b pm)]
      else [PerTeam (pm_scratch_team_level_a pm) (pm_team_scratch_size_a pm),
            PerTeam (pm_scratch_team_level_b pm) (pm_team_scratch_size_b pm)])
   @ (if pm_scratch_thread_level_a pm = pm_scratch_thread_level_b pm
      then [PerThread (pm_scratch_thread_level_a pm)
              (pm_thread_scratch_size_a pm + pm_thread_scratch_size_b pm)]
      else [PerThread (pm_scratch_thread_level_a pm) (pm_thread_scratch_size_a pm),
            PerThread (pm_scratch_thread_level_b pm) (pm_thread_scratch_size_b pm)])"

definition pm_shape :: "parallel_manager \<Rightarrow> int \<Rightarrow> int \<Rightarrow> int \<times> int" where
  "pm_shape pm threads lanes =
     (if 0 < threads then threads else pm_default_threads pm,
      if 0 < lanes then lanes else pm_default_vector_lanes pm)"

lemma TeamPolicy_eq:
  "TeamPolicyThreadsAndVectors pm n threads lanes =
     (if pm_fits pm
      then Inr (team_policy n (fst (pm_shape pm threads lanes)) (snd (pm_shape pm threads lanes))
                  (pm_requests pm))
      else Inl Int_overflow)"
  unfolding TeamPolicyThreadsAndVectors_def pm_fits_def pm_requests_def pm_shape_def
  by (auto simp: rbind_def int_checked_def)

lemma CallFunctor_Tag_eq:
  "CallFunctorWithTeamThreadsAndVectors_Tag pm tag f n threads lanes =
     rbind (TeamPolicyThreadsAndVectors pm n threads lanes)
       (\<lambda>p. Inr (Parallel_for f tag p))"
  unfolding CallFunctorWithTeamThreadsAndVectors_Tag_def TeamPolicyThreadsAndVectors_def
  by (simp add: rbind_def int_checked_def)

lemma CallFunctor_eq:
  "CallFunctorWithTeamThreadsAndVectors pm f n threads lanes name =
     rbind (TeamPolicyThreadsAndVectors pm n threads lanes)
       (\<lambda>p. Inr (Parallel_for f name p))"
  unfolding CallFunctorWithTeamThreadsAndVectors_def TeamPolicyThreadsAndVectors_def
  by (simp add: rbind_def int_checked_def)

lemma requests_complete:
  "sum_list (team_requests l (pm_requests pm)) = team_bytes pm l"
  "sum_list (thread_requests l (pm_requests pm)) = thread_bytes pm l"
  "length (team_requests l (pm_requests pm)) \<le> 1"
  "length (thread_requests l (pm_requests pm)) \<le> 1"
  by (auto simp: pm_requests_def team_bytes_def thread_bytes_def)

section \<open>Properties\<close>

text \<open>
  C23: in each of the sixteen branches the policy asks for every scratch level at most
  once per kind, and for exactly the bytes configured at that level (the sizes of the
  two slots are added when the slots name one level); a positive shape argument is used
  as it is and any other is replaced by the default.  The only failure is the overflow
  of the sum of two sizes at one level, and both launches use that same policy.
\<close>

theorem team_policy_requests:
  "(case TeamPolicyThreadsAndVectors pm n threads lanes of
      Inl e \<Rightarrow> e = Int_overflow \<and> \<not> pm_fits pm
    | Inr p \<Rightarrow> pm_fits pm \<and> league_size p = n
        \<and> team_size p = (if 0 < threads then threads else pm_default_threads pm)
        \<and> vector_length p = (if 0 < lanes then lanes else pm_default_vector_lanes pm)
        \<and> (\<forall>l. length (team_requests l (scratch p)) \<le> 1
              \<and> length (thread_requests l (scratch p)) \<le> 1
              \<and> sum_list (team_requests l (scratch p)) = team_bytes pm l
              \<and> sum_list (thread_requests l (scratch p)) = thread_bytes pm l))
   \<and> CallFunctorWithTeamThreadsAndVectors_Tag pm tag f n threads lanes =
       rbind (TeamPolicyThreadsAndVectors pm n threads lanes) (\<lambda>p. Inr (Parallel_for f tag p))
   \<and> CallFunctorWithTeamThreadsAndVectors pm f n threads lanes name =
       rbind (TeamPolicyThreadsAndVectors pm n threads lanes) (\<lambda>p. Inr (Parallel_for f name p))"
proof (cases "pm_fits pm")
  case True
  then show ?thesis
    using requests_complete [of _ pm]
    by (simp add: CallFunctor_Tag_eq CallFunctor_eq TeamPolicy_eq team_policy_def pm_shape_def)
next
  case False
  then show ?thesis
    by (simp add: CallFunctor_Tag_eq CallFunctor_eq TeamPolicy_eq)
qed

definition configured :: "bool \<Rightarrow> int \<Rightarrow> int \<Rightarrow> int \<Rightarrow> int \<Rightarrow> parallel_manager result" where
  "configured use_cuda ta tb ha hb =
     rbind (ParallelManager_make use_cuda (\<lambda>v. None)) (\<lambda>pm.
     Inr (setThreadScratchSize (setThreadScratchSize (setTeamScratchSize (setTeamScratchSize
            (clearScratchSizes pm) 0 ta) 1 tb) 0 ha) 1 hb))"

text \<open>
  A manager made without environment variables and configured through the setters
  launches a tagged kernel with the default number of threads and one lane.  On a CPU
  build both slots name level 0 and their sizes are added; on a CUDA build the two
  slots are levels 0 and 1 and are asked for separately.
\<close>

theorem configured_launch:
  assumes "fits_int (ta + tb)" "fits_int (ha + hb)"
  shows "rbind (configured False ta tb ha hb)
           (\<lambda>pm. CallFunctorWithTeamThreads_Tag pm tag f n) =
         Inr (Parallel_for f tag (team_policy n 1 1 [PerTeam 0 (ta + tb), PerThread 0 (ha + hb)]))
       \<and> rbind (configured True ta tb ha hb)
           (\<lambda>pm. CallFunctorWithTeamThreads_Tag pm tag f n) =
         Inr (Parallel_for f tag (team_policy n 16 1
                [PerTeam 0 ta, PerTeam 1 tb, PerThread 0 ha, PerThread 1 hb]))"
  using assms
  by (simp add: configured_def ParallelManager_make_def clearScratchSizes_def
      setThreadScratchSize_def setTeamScratchSize_def CallFunctorWithTeamThreads_Tag_def
      CallFunctor_Tag_eq TeamPolicy_eq pm_fits_def pm_shape_def pm_requests_def)

theorem configured_launch_witness:
  "rbind (configured False 100 20 8 0)
     (\<lambda>pm. CallFunctorWithTeamThreads_Tag pm ''AssembleStandardPsqrtW'' () 5) =
   Inr (Parallel_for () ''AssembleStandardPsqrtW''
          (team_policy 5 1 1 [PerTeam 0 120, PerThread 0 8]))"
  using configured_launch [of 100 20 8 0 "''AssembleStandardPsqrtW''" "()" 5]
  by (simp add: fits_int_def)

text \<open>
  The environment overrides the default team shape, through \<open>atoi\<close>: the sequence of
  decimal digits that follows white space is the value, whatever stands behind it, and a
  text without digits gives 0, which then reaches the policy.
\<close>

theorem environment_shape:
  assumes "\<forall>c \<in> set blanks. is_space c" "\<forall>c \<in> set ds. is_digit c" "ds \<noteq> []"
    and "rest = [] \<or> \<not> is_digit (hd rest)"
    and "env = (\<lambda>v. if v = ''THREADS'' then Some (blanks @ ds @ rest) else None)"
    and "fits_int (read_digits ds)"
  shows "\<exists>pm. ParallelManager_make cuda env = Inr pm
    \<and> pm_default_threads pm = foldl (\<lambda>acc c. 10 * acc + digit_value c) 0 ds
    \<and> pm_default_vector_lanes pm = (if cuda then 8 else 1)"
proof -
  obtain c cs where ds: "ds = c # cs" using assms(3) by (cases ds) auto
  have c: "\<not> is_space c" "c \<noteq> CHR ''-''" "c \<noteq> CHR ''+''"
    using assms(2) by (auto simp: ds is_digit_def is_space_def Let_def)
  have all: "takeWhile is_digit ds = ds"
    using assms(2) by (simp add: takeWhile_eq_all_conv)
  have "takeWhile is_digit (ds @ rest) = ds"
    using assms(2,4) by (cases rest) (auto simp: takeWhile_append)
  then have "read_digits (ds @ rest) = read_digits ds"
    by (simp only: read_digits_def all)
  moreover have "dropWhile is_space (blanks @ ds @ rest) = ds @ rest"
    using assms(1) c(1) by (simp add: dropWhile_append ds)
  ultimately have "atoi (blanks @ ds @ rest) = Inr (read_digits ds)"
    using c assms(6) by (simp add: atoi_def ds)
  then show ?thesis
    using all assms(5) by (simp add: ParallelManager_make_def Let_def read_digits_def)
qed

theorem environment_shape_witness:
  "\<exists>pm. ParallelManager_make True
          (\<lambda>v. if v = ''THREADS'' then Some ('' '' @ ''32'' @ ''x'') else None) = Inr pm
    \<and> pm_default_threads pm = 32 \<and> pm_default_vector_lanes pm = 8"
  using environment_shape [of "'' ''" "''32''" "''x''"
      "\<lambda>v. if v = ''THREADS'' then Some ('' '' @ ''32'' @ ''x'') else None" True]
  by (simp add: is_space_def is_digit_def read_digits_def digit_value_def fits_int_def)

end
