(* ===== verification/Compadre_TaylorTables.thy ===== *)
theory Compadre_TaylorTables
  imports Compadre_Prelude
begin

text \<open>
  What the polynomial bases of src/src/basis share: the table of factorials, the tables
  of powers of the scaled coordinates in the workspace, the scaled monomial that an
  entry of the basis is made of, the weighted store into \<open>delta\<close>, and the orders in
  which the multi-indices are enumerated.  A \<open>double\<close> is a real number.

  The lemmas give each of them a closed form: the workspace holds powers, an entry is a
  product of \<open>t ^ a / a!\<close>, a counting loop lays its values over \<open>delta\<close>, and the
  derivative of a scaled monomial is the one with the exponent lowered.
\<close>

section \<open>Definitions\<close>

definition factorial :: "real list" where
  "factorial = [1, 1, 2, 6, 24, 120, 720, 5040, 40320, 362880, 3628800, 39916800,
     479001600, 6227020800, 87178291200]"

text \<open>
  The views \<open>x_over_h_to_i\<close>, \<open>y_over_h_to_i\<close> and \<open>z_over_h_to_i\<close> lie one behind the
  other in the workspace, \<open>max_degree + 1\<close> places each; the first loop writes the ones,
  the second one writes the next power of every ratio in each round.
\<close>

definition power_rows :: "real list \<Rightarrow> nat \<Rightarrow> real list \<Rightarrow> real list result" where
  "power_rows ratios max_degree workspace =
     rbind (rfold (\<lambda>k ws. view_write ws (int (k * (max_degree + 1))) 1)
              [0..<length ratios] workspace) (\<lambda>ws.
     rfold (\<lambda>i. rfold (\<lambda>k ws.
              rbind (view_read ws (int (k * (max_degree + 1)) + int i - 1)) (\<lambda>p.
              view_write ws (int (k * (max_degree + 1)) + int i) (p * ratios ! k)))
            [0..<length ratios])
       [1..<max_degree + 1] ws)"

text \<open>
  \<open>c * x_over_h_to_i[p0] * y_over_h_to_i[p1] * z_over_h_to_i[p2] / alphaf\<close>, where
  \<open>alphaf\<close> is the product of the factorials of the exponents.
\<close>

definition monomial :: "real list \<Rightarrow> nat \<Rightarrow> real \<Rightarrow> int list \<Rightarrow> real result" where
  "monomial ws max_degree c var_pow =
     rbind (rmap (view_read factorial) var_pow) (\<lambda>fs.
     rbind (rmap (\<lambda>k. view_read ws (int (k * (max_degree + 1)) + var_pow ! k))
              [0..<length var_pow]) (\<lambda>xs.
     Inr (foldl (*) c xs / foldl (*) 1 fs)))"

text \<open>\<open>var_pow[d]--\<close> and \<open>var_pow[d]++\<close>.\<close>

definition var_dec :: "int list \<Rightarrow> int \<Rightarrow> int list result" where
  "var_dec vp d = rbind (view_read vp d) (\<lambda>a. view_write vp d (a - 1))"

definition var_inc :: "int list \<Rightarrow> int \<Rightarrow> int list result" where
  "var_inc vp d = rbind (view_read vp d) (\<lambda>a. view_write vp d (a + 1))"

text \<open>\<open>*(delta+i) = weight_of_original_value * *(delta+i) + v\<close>, then \<open>i++\<close>.\<close>

definition store :: "real \<Rightarrow> real \<Rightarrow> real list \<times> int \<Rightarrow> (real list \<times> int) result" where
  "store w0 v = (\<lambda>(delta, i).
     rbind (view_read delta i) (\<lambda>old.
     rbind (view_write delta i (w0 * old + v)) (\<lambda>delta. Inr (delta, i + 1))))"

text \<open>One round of a loop: the value of an entry is computed and stored behind the last one.\<close>

definition add_entry :: "real \<Rightarrow> ('e \<Rightarrow> real result) \<Rightarrow> 'e \<Rightarrow> real list \<times> int
    \<Rightarrow> (real list \<times> int) result" where
  "add_entry w0 g e st = rbind (g e) (\<lambda>v. store w0 v st)"

text \<open>
  The entry of a derivative: 0 when an exponent of \<open>var_pow\<close> has become negative.
\<close>

definition derivative_entry :: "real list \<Rightarrow> nat \<Rightarrow> real \<Rightarrow> real \<Rightarrow> int list \<Rightarrow> real result" where
  "derivative_entry ws max_degree zero c var_pow =
     (if list_ex (\<lambda>a. a < 0) var_pow then Inr zero else monomial ws max_degree c var_pow)"

section \<open>Loops\<close>

lemma rfold_map: "rfold f (map h xs) = rfold (\<lambda>x. f (h x)) xs"
proof
  show "rfold f (map h xs) s = rfold (\<lambda>x. f (h x)) xs s" for s
    by (induction xs arbitrary: s) (auto simp: rbind_def split: sum.splits)
qed

lemma rfold_concat: "rfold f (concat (map g xs)) = rfold (\<lambda>x. rfold f (g x)) xs"
proof
  show "rfold f (concat (map g xs)) s = rfold (\<lambda>x. rfold f (g x)) xs s" for s
    by (induction xs arbitrary: s) (auto simp: rfold_append rbind_def split: sum.splits)
qed

lemma rfold_cong: "(\<And>x s. x \<in> set xs \<Longrightarrow> f x s = g x s) \<Longrightarrow> rfold f xs s = rfold g xs s"
proof (induction xs arbitrary: s)
  case Nil
  show ?case by simp
next
  case (Cons x xs)
  then show ?case by (cases "g x s") simp_all
qed

lemma rfold_upt_inv:
  assumes step: "\<And>i s. a \<le> i \<Longrightarrow> i < b \<Longrightarrow> P i s \<Longrightarrow> \<exists>s'. f i s = Inr s' \<and> P (Suc i) s'"
    and "P a s" "a \<le> b"
  shows "\<exists>s'. rfold f [a..<b] s = Inr s' \<and> P b s'"
proof -
  have "\<exists>s'. rfold f [a..<a + n] s = Inr s' \<and> P (a + n) s'" if "a + n \<le> b" for n
    using that
  proof (induction n)
    case 0
    then show ?case using assms(2) by simp
  next
    case (Suc n)
    then obtain s' where s': "rfold f [a..<a + n] s = Inr s'" "P (a + n) s'" by auto
    obtain s'' where "f (a + n) s' = Inr s''" "P (Suc (a + n)) s''"
      using step [OF _ _ s'(2)] Suc.prems by auto
    then show ?case using s'(1) by (auto simp: rfold_append)
  qed
  from this [of "b - a"] assms(3) show ?thesis by simp
qed

section \<open>The power tables\<close>

definition tables :: "real list \<Rightarrow> nat \<Rightarrow> real list \<Rightarrow> bool" where
  "tables ts m ws \<longleftrightarrow> length ts * (m + 1) \<le> length ws
     \<and> (\<forall>k < length ts. \<forall>a \<le> m. ws ! (k * (m + 1) + a) = ts ! k ^ a)"

lemma row_bound: "k < n \<Longrightarrow> a \<le> m \<Longrightarrow> k * (m + 1) + a < n * (m + 1)" for m :: nat
  using tile_bound [of k n a "m + 1"] by simp

lemma row_inj: "a \<le> m \<Longrightarrow> b \<le> m \<Longrightarrow> k * (m + 1) + a = l * (m + 1) + b \<Longrightarrow> k = l \<and> a = b"
  for m :: nat
  using tile_inj [of k "m + 1" a l b] by simp

lemma power_rows_ok:
  assumes "length ts * (m + 1) \<le> length ws"
  shows "\<exists>ws'. power_rows ts m ws = Inr ws' \<and> length ws' = length ws \<and> tables ts m ws'
           \<and> (\<forall>j \<ge> length ts * (m + 1). ws' ! j = ws ! j)"
proof -
  let ?n = "length ts"
  define rest where "rest w \<longleftrightarrow> length w = length ws \<and> (\<forall>j \<ge> ?n * (m + 1). w ! j = ws ! j)" for w
  define filled where "filled i k w \<longleftrightarrow> rest w
      \<and> (\<forall>l < ?n. \<forall>a \<le> m. (if l < k then a \<le> i else a < i)
            \<longrightarrow> w ! (l * (m + 1) + a) = ts ! l ^ a)" for i k w
  have set: "filled i (Suc k) (w[k * (m + 1) + i := ts ! k ^ i])"
    if "filled i k w" "k < ?n" "i \<le> m" for i k w
  proof -
    have len: "k * (m + 1) + i < length w"
      using that assms row_bound [of k ?n i m] by (simp add: filled_def rest_def)
    have "rest (w[k * (m + 1) + i := ts ! k ^ i])"
      using that row_bound [of k ?n i m] by (auto simp: filled_def rest_def nth_list_update)
    moreover have "w[k * (m + 1) + i := ts ! k ^ i] ! (l * (m + 1) + a) = ts ! l ^ a"
      if "l < ?n" "a \<le> m" "if l < Suc k then a \<le> i else a < i" for l a
    proof (cases "l = k \<and> a = i")
      case True
      then show ?thesis using len by simp
    next
      case False
      then have "l * (m + 1) + a \<noteq> k * (m + 1) + i"
        using row_inj [of a m i l k] that(2) \<open>i \<le> m\<close> by auto
      moreover have "if l < k then a \<le> i else a < i"
        using that(3) False by (auto split: if_splits)
      ultimately show ?thesis
        using \<open>filled i k w\<close> that(1,2) by (simp add: filled_def nth_list_update)
    qed
    ultimately show ?thesis unfolding filled_def by blast
  qed
  have "\<exists>w. rfold (\<lambda>k ws. view_write ws (int (k * (m + 1))) 1) [0..<?n] ws = Inr w \<and> filled 0 ?n w"
  proof (rule rfold_upt_inv [where P = "filled 0"])
    show "filled 0 0 ws" by (simp add: filled_def rest_def)
    show "\<exists>w'. view_write w (int (k * (m + 1))) 1 = Inr w' \<and> filled 0 (Suc k) w'"
      if "0 \<le> k" "k < ?n" "filled 0 k w" for k w
    proof -
      have "k * (m + 1) < length w"
        using that assms row_bound [of k ?n 0 m] by (simp add: filled_def rest_def)
      then show ?thesis
        using set [OF that(3,2)] view_write_nat [of "k * (m + 1)" w 1] by simp
    qed
  qed simp
  then obtain w0 where w0: "rfold (\<lambda>k ws. view_write ws (int (k * (m + 1))) 1) [0..<?n] ws = Inr w0"
    and d0: "filled 0 ?n w0" by blast
  define body where "body i = (\<lambda>k w. rbind (view_read w (int (k * (m + 1)) + int i - 1)) (\<lambda>p.
              view_write w (int (k * (m + 1)) + int i) (p * ts ! k)))" for i
  have "\<exists>w. rfold (\<lambda>i. rfold (body i) [0..<?n]) [1..<m + 1] w0 = Inr w \<and> filled m ?n w"
  proof -
    have "\<exists>w. rfold (\<lambda>i. rfold (body i) [0..<?n]) [1..<m + 1] w0 = Inr w \<and> filled (m + 1 - 1) ?n w"
    proof (rule rfold_upt_inv [where P = "\<lambda>i. filled (i - 1) ?n"])
      show "filled (1 - 1) ?n w0" using d0 by simp
      show "\<exists>w'. rfold (body i) [0..<?n] w = Inr w' \<and> filled (Suc i - 1) ?n w'"
        if i: "1 \<le> i" "i < m + 1" and w: "filled (i - 1) ?n w" for i w
      proof -
        have "\<exists>w'. rfold (body i) [0..<?n] w = Inr w' \<and> filled i ?n w'"
        proof (rule rfold_upt_inv [where P = "filled i"])
          have "a \<le> i - 1" if "a < i" for a using that by simp
          then show "filled i 0 w" using w i by (auto simp: filled_def)
          show "\<exists>w'. body i k w = Inr w' \<and> filled i (Suc k) w'"
            if k: "0 \<le> k" "k < ?n" and dk: "filled i k w" for k w
          proof -
            have len: "k * (m + 1) + i < length w"
              using k i dk assms row_bound [of k ?n i m] by (simp add: filled_def rest_def)
            have "w ! (k * (m + 1) + (i - 1)) = ts ! k ^ (i - 1)"
              using dk k i unfolding filled_def
              by (metis diff_less less_or_eq_imp_le less_imp_diff_less less_Suc_eq_le
                  Suc_eq_plus1 nat_less_le zero_less_one less_le_trans)
            moreover have "int (k * (m + 1)) + int i - 1 = int (k * (m + 1) + (i - 1))"
              using i by simp
            ultimately have "body i k w = Inr (w[k * (m + 1) + i := ts ! k ^ (i - 1) * ts ! k])"
              using len view_write_nat [OF len] view_read_nat [of "k * (m + 1) + (i - 1)" w]
              by (simp add: body_def)
            also have "ts ! k ^ (i - 1) * ts ! k = ts ! k ^ i"
              using i by (cases i) simp_all
            finally show ?thesis using set [OF dk k(2)] i by simp
          qed
        qed simp
        then show ?thesis by simp
      qed
    qed simp
    then show ?thesis by simp
  qed
  then obtain w where w: "rfold (\<lambda>i. rfold (body i) [0..<?n]) [1..<m + 1] w0 = Inr w"
    and dm: "filled m ?n w" by blast
  have "power_rows ts m ws = Inr w"
    using w0 w by (simp add: power_rows_def body_def)
  moreover have "tables ts m w" "length w = length ws" "\<forall>j \<ge> ?n * (m + 1). w ! j = ws ! j"
    using dm assms by (auto simp: filled_def rest_def tables_def)
  ultimately show ?thesis by blast
qed

section \<open>Monomials\<close>

text \<open>The factor \<open>t ^ a / a!\<close>, 0 for a negative exponent, and the product of the factors.\<close>

definition tfac :: "real \<Rightarrow> int \<Rightarrow> real" where
  "tfac t a = (if a < 0 then 0 else t ^ nat a / fact (nat a))"

definition taylor :: "real list \<Rightarrow> int list \<Rightarrow> real" where
  "taylor ts vp = (\<Prod>k<length vp. tfac (ts ! k) (vp ! k))"

lemma taylor_negative: "\<exists>a \<in> set vp. a < 0 \<Longrightarrow> taylor ts vp = 0"
  by (auto simp: taylor_def tfac_def in_set_conv_nth)

lemma factorial_read:
  assumes "0 \<le> a" "a \<le> 14"
  shows "view_read factorial a = Inr (fact (nat a))"
proof -
  have "nat a < 15" using assms by simp
  moreover have "\<forall>k < 15. factorial ! k = fact k"
    by (simp add: factorial_def numeral_eq_Suc less_Suc_eq)
  ultimately show ?thesis using assms by (simp add: view_read_def factorial_def)
qed

lemma factorial_outside: "15 \<le> a \<Longrightarrow> view_read factorial a = Inl Out_of_bounds"
  by (simp add: view_read_def factorial_def)

lemma foldl_times: "foldl (*) c xs = c * prod_list xs" for c :: real
  by (induction xs arbitrary: c) (simp_all add: mult.assoc)

lemma prod_list_upt: "prod_list (map f [0..<n]) = (\<Prod>k<n. f k)" for f :: "nat \<Rightarrow> real"
  by (induction n) (simp_all add: mult.commute)

lemma monomial_ok:
  assumes "tables ts m ws" "length vp \<le> length ts" "m \<le> 14"
    and vp: "\<forall>a \<in> set vp. 0 \<le> a \<and> a \<le> int m"
  shows "monomial ws m c vp = Inr (c * taylor ts vp)"
proof -
  let ?n = "length vp"
  have fs: "rmap (view_read factorial) vp = Inr (map (\<lambda>a. fact (nat a)) vp)"
    using assms(3) vp by (intro rmap_Inr factorial_read) force+
  have xs: "rmap (\<lambda>k. view_read ws (int (k * (m + 1)) + vp ! k)) [0..<?n]
      = Inr (map (\<lambda>k. ts ! k ^ nat (vp ! k)) [0..<?n])"
  proof (rule rmap_Inr)
    fix k assume "k \<in> set [0..<?n]"
    then have k: "k < ?n" by simp
    then have a: "0 \<le> vp ! k" "nat (vp ! k) \<le> m" using vp by (auto simp: nat_le_iff)
    have "k * (m + 1) + nat (vp ! k) < length ws"
      using row_bound [of k "length ts" "nat (vp ! k)" m] k a assms(1,2)
      by (simp add: tables_def)
    moreover have "int (k * (m + 1)) + vp ! k = int (k * (m + 1) + nat (vp ! k))"
      using a by simp
    moreover have "ws ! (k * (m + 1) + nat (vp ! k)) = ts ! k ^ nat (vp ! k)"
      using assms(1,2) k a by (simp add: tables_def)
    ultimately show "view_read ws (int (k * (m + 1)) + vp ! k) = Inr (ts ! k ^ nat (vp ! k))"
      by (simp only: view_read_nat)
  qed
  have "prod_list (map (\<lambda>a. fact (nat a)) vp) = (\<Prod>k<?n. fact (nat (vp ! k)) :: real)"
  proof -
    have "map (\<lambda>a. fact (nat a)) vp = map (\<lambda>k. fact (nat (vp ! k)) :: real) [0..<?n]"
      by (rule nth_equalityI) simp_all
    then show ?thesis by (simp only: prod_list_upt)
  qed
  moreover have "taylor ts vp = (\<Prod>k<?n. ts ! k ^ nat (vp ! k) / fact (nat (vp ! k)))"
    unfolding taylor_def
    using vp by (intro prod.cong) (force simp: tfac_def dest: nth_mem)+
  ultimately show ?thesis
    using fs xs by (simp add: monomial_def foldl_times prod_list_upt prod_dividef)
qed

lemma derivative_entry_ok:
  assumes "tables ts m ws" "length vp \<le> length ts" "m \<le> 14"
    and vp: "\<forall>a \<in> set vp. a \<le> int m"
  shows "derivative_entry ws m (w * 0) c vp = Inr (c * taylor ts vp)"
proof (cases "list_ex (\<lambda>a. a < 0) vp")
  case True
  then show ?thesis
    using taylor_negative [of vp ts] by (simp add: derivative_entry_def list_ex_iff)
next
  case False
  then show ?thesis
    using monomial_ok [OF assms(1-3)] vp
    by (auto simp: derivative_entry_def list_ex_iff not_less)
qed

lemma var_dec_nat [simp]: "d < length vp \<Longrightarrow> var_dec vp (int d) = Inr (vp[d := vp ! d - 1])"
  by (simp add: var_dec_def)

lemma var_inc_nat [simp]: "d < length vp \<Longrightarrow> var_inc vp (int d) = Inr (vp[d := vp ! d + 1])"
  by (simp add: var_inc_def)

lemma tfac_derivative:
  "((\<lambda>t. tfac (t / h) a) has_real_derivative tfac (t / h) (a - 1) / h) (at t)"
proof (cases "a \<le> 0")
  case True
  then have "(\<lambda>t. tfac (t / h) a) = (\<lambda>t. if a < 0 then 0 else 1)" "tfac (t / h) (a - 1) = 0"
    by (auto simp: tfac_def fun_eq_iff)
  then show ?thesis by simp
next
  case False
  then obtain n where a: "a = int (Suc n)"
    by (metis int_nat_eq not_le nat_less_le not0_implies_Suc zero_less_nat_eq less_numeral_extra(3) less_imp_le)
  have "((\<lambda>t. (t / h) ^ Suc n / fact (Suc n)) has_real_derivative
      (real (Suc n) * (1 / h * (t / h) ^ (Suc n - Suc 0))) / fact (Suc n)) (at t)"
    by (intro DERIV_cdivide DERIV_power DERIV_ident)
  also have "(real (Suc n) * (1 / h * (t / h) ^ (Suc n - Suc 0))) / fact (Suc n)
      = (t / h) ^ n / fact n / h"
    by (simp only: fact_Suc of_nat_mult of_nat_Suc diff_Suc_Suc minus_nat.diff_0)
       (simp add: divide_simps)
  finally have "((\<lambda>t. (t / h) ^ Suc n / fact (Suc n)) has_real_derivative
      (t / h) ^ n / fact n / h) (at t)" .
  moreover have "nat a = Suc n" "\<not> a < 0" "nat (a - 1) = n" "\<not> a - 1 < 0"
    using a by simp_all
  ultimately show ?thesis by (simp only: tfac_def if_False)
qed

lemma taylor_derivative:
  assumes "d < length vp" "length vp \<le> length ps"
  shows "((\<lambda>t. taylor (map (\<lambda>x. x / h) (ps[d := t])) vp) has_real_derivative
          taylor (map (\<lambda>x. x / h) (ps[d := t])) (vp[d := vp ! d - 1]) / h) (at t)"
proof -
  let ?n = "length vp"
  let ?rest = "\<Prod>k \<in> {..<?n} - {d}. tfac (ps ! k / h) (vp ! k)"
  have split: "taylor (map (\<lambda>x. x / h) (ps[d := t])) (vp[d := a]) = tfac (t / h) a * ?rest" for t a
  proof -
    have "taylor (map (\<lambda>x. x / h) (ps[d := t])) (vp[d := a])
        = tfac (t / h) a * (\<Prod>k \<in> {..<?n} - {d}.
            tfac (map (\<lambda>x. x / h) (ps[d := t]) ! k) (vp[d := a] ! k))"
      using assms by (simp add: taylor_def prod.remove [of _ d])
    also have "(\<Prod>k \<in> {..<?n} - {d}. tfac (map (\<lambda>x. x / h) (ps[d := t]) ! k) (vp[d := a] ! k)) = ?rest"
      using assms by (intro prod.cong) auto
    finally show ?thesis .
  qed
  have "((\<lambda>t. tfac (t / h) (vp ! d) * ?rest) has_real_derivative
      (tfac (t / h) (vp ! d - 1) / h) * ?rest) (at t)"
    by (intro DERIV_cmult_right tfac_derivative)
  then show ?thesis
    using split [of _ "vp ! d"] split [of t "vp ! d - 1"] assms(1) by (simp add: ac_simps)
qed

section \<open>Counting stores\<close>

definition overlay :: "real \<Rightarrow> nat \<Rightarrow> real list \<Rightarrow> real list \<Rightarrow> real list" where
  "overlay w0 i vs d =
     map (\<lambda>j. if i \<le> j \<and> j < i + length vs then w0 * d ! j + vs ! (j - i) else d ! j)
       [0..<length d]"

lemma length_overlay [simp]: "length (overlay w0 i vs d) = length d"
  by (simp add: overlay_def)

lemma nth_overlay:
  "j < length d \<Longrightarrow> overlay w0 i vs d ! j =
     (if i \<le> j \<and> j < i + length vs then w0 * d ! j + vs ! (j - i) else d ! j)"
  by (simp add: overlay_def)

lemma overlay_Nil [simp]: "overlay w0 i [] d = d"
  by (rule nth_equalityI) (auto simp: nth_overlay)

lemma overlay_Cons:
  "i < length d \<Longrightarrow> overlay w0 (Suc i) vs (d[i := w0 * d ! i + v]) = overlay w0 i (v # vs) d"
  by (rule nth_equalityI) (auto simp: nth_overlay nth_list_update nth_Cons' Suc_le_eq)

lemma overlay_append:
  "overlay w0 (i + length us) vs (overlay w0 i us d) = overlay w0 i (us @ vs) d"
  by (rule nth_equalityI) (auto simp: nth_overlay nth_append)

text \<open>
  A loop that computes a value for each index and stores it behind the last one: all
  values land in order, or the buffer is too short and the loop leaves it.
\<close>

lemma add_entry_stores:
  "g e = Inr v \<Longrightarrow> i < length d \<Longrightarrow>
     add_entry w0 g e (d, int i) = Inr (d[i := w0 * d ! i + v], int (Suc i))"
  by (simp add: add_entry_def store_def)

lemma add_entry_outside:
  "g e = Inr v \<Longrightarrow> length d \<le> i \<Longrightarrow> add_entry w0 g e (d, int i) = Inl Out_of_bounds"
  by (simp add: add_entry_def store_def)

lemma store_loop:
  assumes "\<And>e. e \<in> set es \<Longrightarrow> g e = Inr (v e)" and "i \<le> length d"
  shows "rfold (add_entry w0 g) es (d, int i) =
     (if i + length es \<le> length d
      then Inr (overlay w0 i (map v es) d, int (i + length es)) else Inl Out_of_bounds)"
  using assms
proof (induction es arbitrary: i d)
  case Nil
  then show ?case by simp
next
  case (Cons e es)
  show ?case
  proof (cases "i < length d")
    case True
    have "rfold (add_entry w0 g) es
        (d[i := w0 * d ! i + v e], int (Suc i)) =
      (if Suc i + length es \<le> length d
       then Inr (overlay w0 (Suc i) (map v es) (d[i := w0 * d ! i + v e]), int (Suc i + length es))
       else Inl Out_of_bounds)"
      using Cons.IH [where d = "d[i := w0 * d ! i + v e]" and i = "Suc i"] Cons.prems True by simp
    moreover have "add_entry w0 g e (d, int i) = Inr (d[i := w0 * d ! i + v e], int (Suc i))"
      using True Cons.prems(1) [of e] by (intro add_entry_stores) auto
    moreover have "overlay w0 (Suc i) (map v es) (d[i := w0 * d ! i + v e])
        = overlay w0 i (map v (e # es)) d"
      using overlay_Cons [OF True, of w0 "map v es" "v e"] by simp
    ultimately show ?thesis by simp
  next
    case False
    moreover have "add_entry w0 g e (d, int i) = Inl Out_of_bounds"
      using False Cons.prems(1) [of e] by (intro add_entry_outside) auto
    ultimately show ?thesis by simp
  qed
qed

section \<open>Enumerations of multi-indices\<close>

text \<open>The orders of the loops in one, two and three dimensions.\<close>

definition idx1 :: "nat \<Rightarrow> nat \<Rightarrow> int list list" where
  "idx1 a m = map (\<lambda>n. [int n]) [a..<m + 1]"

definition idx2 :: "nat \<Rightarrow> nat \<Rightarrow> int list list" where
  "idx2 a m = concat (map (\<lambda>n. map (\<lambda>k. [int (n - k), int k]) [0..<n + 1]) [a..<m + 1])"

definition idx3 :: "nat \<Rightarrow> nat \<Rightarrow> int list list" where
  "idx3 a m = concat (map (\<lambda>n. concat (map (\<lambda>z.
     map (\<lambda>y. [int (n - z - y), int y, int z]) [0..<n - z + 1]) [0..<n + 1])) [a..<m + 1])"

lemma idx_loops:
  "rfold (\<lambda>n. f [int n]) [a..<m + 1] s = rfold f (idx1 a m) s"
  "rfold (\<lambda>n. rfold (\<lambda>k. f [int (n - k), int k]) [0..<n + 1]) [a..<m + 1] s = rfold f (idx2 a m) s"
  "rfold (\<lambda>n. rfold (\<lambda>z. rfold (\<lambda>y. f [int (n - z - y), int y, int z]) [0..<n - z + 1]) [0..<n + 1])
     [a..<m + 1] s = rfold f (idx3 a m) s"
  by (simp_all only: idx1_def idx2_def idx3_def rfold_concat rfold_map)

lemma idx_bounds:
  "vp \<in> set (idx1 a m) \<Longrightarrow> length vp = 1 \<and> (\<forall>e \<in> set vp. 0 \<le> e \<and> e \<le> int m)
     \<and> int a \<le> sum_list vp \<and> sum_list vp \<le> int m"
  "vp \<in> set (idx2 a m) \<Longrightarrow> length vp = 2 \<and> (\<forall>e \<in> set vp. 0 \<le> e \<and> e \<le> int m)
     \<and> int a \<le> sum_list vp \<and> sum_list vp \<le> int m"
  "vp \<in> set (idx3 a m) \<Longrightarrow> length vp = 3 \<and> (\<forall>e \<in> set vp. 0 \<le> e \<and> e \<le> int m)
     \<and> int a \<le> sum_list vp \<and> sum_list vp \<le> int m"
  by (auto simp: idx1_def idx2_def idx3_def)

end
