(* ===== verification/Compadre_ScalarTaylorPolynomial.thy ===== *)
theory Compadre_ScalarTaylorPolynomial
  imports Compadre_TaylorTables "HOL-Library.Signed_Division"
begin

text \<open>
  The scalar Taylor basis of src/src/basis/Compadre_ScalarTaylorPolynomial.hpp: its size,
  its evaluation and its first and second partial derivatives, in one, two and three
  dimensions.  \<open>delta\<close> and \<open>workspace\<close> are the two scratch buffers of a thread; each
  function returns both.  Degrees are natural numbers, coordinates are reals.
\<close>

section \<open>The functions\<close>

definition ScalarTaylor_getSize :: "int \<Rightarrow> int \<Rightarrow> int" where
  "ScalarTaylor_getSize degree dimension =
     (if dimension = 3 then ((degree + 1) * (degree + 2) * (degree + 3)) sdiv 6
      else if dimension = 2 then ((degree + 1) * (degree + 2)) sdiv 2
      else degree + 1)"

text \<open>
  \<open>alphax\<close> is \<open>n - alphaz - alphay\<close> (\<open>s\<close> being \<open>n - alphaz\<close>).  The one-dimensional
  branch has no counter: it stores the entry of order \<open>i\<close> at place \<open>i\<close>.
\<close>

definition ScalarTaylor_evaluate ::
  "real list \<Rightarrow> real list \<Rightarrow> int \<Rightarrow> nat \<Rightarrow> real \<Rightarrow> real \<Rightarrow> real \<Rightarrow> real \<Rightarrow> nat \<Rightarrow> real \<Rightarrow> real
     \<Rightarrow> (real list \<times> real list) result" where
  "ScalarTaylor_evaluate delta workspace dimension max_degree h x y z starting_order w0 w1 =
     (if dimension = 3 then
        rbind (power_rows [x / h, y / h, z / h] max_degree workspace) (\<lambda>ws.
        rbind (rfold (\<lambda>n. rfold (\<lambda>alphaz. rfold (\<lambda>alphay.
                 add_entry w0 (monomial ws max_degree w1)
                   [int (n - alphaz - alphay), int alphay, int alphaz])
               [0..<n - alphaz + 1]) [0..<n + 1]) [starting_order..<max_degree + 1]
             (delta, 0)) (\<lambda>(delta, i).
        Inr (delta, ws)))
      else if dimension = 2 then
        rbind (power_rows [x / h, y / h] max_degree workspace) (\<lambda>ws.
        rbind (rfold (\<lambda>n. rfold (\<lambda>alphay.
                 add_entry w0 (monomial ws max_degree w1) [int (n - alphay), int alphay])
               [0..<n + 1]) [starting_order..<max_degree + 1]
             (delta, 0)) (\<lambda>(delta, i).
        Inr (delta, ws)))
      else
        rbind (power_rows [x / h] max_degree workspace) (\<lambda>ws.
        rbind (rfold (\<lambda>i delta.
                 rbind (add_entry w0 (monomial ws max_degree w1) [int i] (delta, int i))
                   (\<lambda>(delta, j). Inr delta))
               [starting_order..<max_degree + 1] delta) (\<lambda>delta.
        Inr (delta, ws))))"

definition ScalarTaylor_evaluatePartialDerivative ::
  "real list \<Rightarrow> real list \<Rightarrow> int \<Rightarrow> nat \<Rightarrow> int \<Rightarrow> real \<Rightarrow> real \<Rightarrow> real \<Rightarrow> real \<Rightarrow> nat \<Rightarrow> real \<Rightarrow> real
     \<Rightarrow> (real list \<times> real list) result" where
  "ScalarTaylor_evaluatePartialDerivative delta workspace dimension max_degree partial_direction
      h x y z starting_order w0 w1 =
     (if dimension = 3 then
        rbind (power_rows [x / h, y / h, z / h] max_degree workspace) (\<lambda>ws.
        rbind (rfold (\<lambda>n. rfold (\<lambda>alphaz. rfold (\<lambda>alphay.
                 add_entry w0 (\<lambda>var_pow. rbind (var_dec var_pow partial_direction)
                     (derivative_entry ws max_degree (w1 * 0) (w1 * 1 / h)))
                   [int (n - alphaz - alphay), int alphay, int alphaz])
               [0..<n - alphaz + 1]) [0..<n + 1]) [starting_order..<max_degree + 1]
             (delta, 0)) (\<lambda>(delta, i).
        Inr (delta, ws)))
      else if dimension = 2 then
        rbind (power_rows [x / h, y / h] max_degree workspace) (\<lambda>ws.
        rbind (rfold (\<lambda>n. rfold (\<lambda>alphay.
                 add_entry w0 (\<lambda>var_pow. rbind (var_dec var_pow partial_direction)
                     (derivative_entry ws max_degree (w1 * 0) (w1 * 1 / h)))
                   [int (n - alphay), int alphay])
               [0..<n + 1]) [starting_order..<max_degree + 1]
             (delta, 0)) (\<lambda>(delta, i).
        Inr (delta, ws)))
      else
        rbind (power_rows [x / h] max_degree workspace) (\<lambda>ws.
        rbind (rfold (\<lambda>n.
                 add_entry w0 (\<lambda>var_pow. rbind (var_dec var_pow partial_direction)
                     (derivative_entry ws max_degree (w1 * 0) (w1 * 1 / h)))
                   [int n])
               [starting_order..<max_degree + 1]
             (delta, 0)) (\<lambda>(delta, i).
        Inr (delta, ws))))"

definition ScalarTaylor_evaluateSecondPartialDerivative ::
  "real list \<Rightarrow> real list \<Rightarrow> int \<Rightarrow> nat \<Rightarrow> int \<Rightarrow> int \<Rightarrow> real \<Rightarrow> real \<Rightarrow> real \<Rightarrow> real \<Rightarrow> nat
     \<Rightarrow> real \<Rightarrow> real \<Rightarrow> (real list \<times> real list) result" where
  "ScalarTaylor_evaluateSecondPartialDerivative delta workspace dimension max_degree
      partial_direction_1 partial_direction_2 h x y z starting_order w0 w1 =
     (if dimension = 3 then
        rbind (power_rows [x / h, y / h, z / h] max_degree workspace) (\<lambda>ws.
        rbind (rfold (\<lambda>n. rfold (\<lambda>alphaz. rfold (\<lambda>alphay.
                 add_entry w0 (\<lambda>var_pow. rbind (var_dec var_pow partial_direction_1) (\<lambda>var_pow.
                     rbind (var_dec var_pow partial_direction_2)
                     (derivative_entry ws max_degree (w1 * 0) (w1 * 1 / h))))
                   [int (n - alphaz - alphay), int alphay, int alphaz])
               [0..<n - alphaz + 1]) [0..<n + 1]) [starting_order..<max_degree + 1]
             (delta, 0)) (\<lambda>(delta, i).
        Inr (delta, ws)))
      else if dimension = 2 then
        rbind (power_rows [x / h, y / h] max_degree workspace) (\<lambda>ws.
        rbind (rfold (\<lambda>n. rfold (\<lambda>alphay.
                 add_entry w0 (\<lambda>var_pow. rbind (var_dec var_pow partial_direction_1) (\<lambda>var_pow.
                     rbind (var_dec var_pow partial_direction_2)
                     (derivative_entry ws max_degree (w1 * 0) (w1 * 1 / h))))
                   [int (n - alphay), int alphay])
               [0..<n + 1]) [starting_order..<max_degree + 1]
             (delta, 0)) (\<lambda>(delta, i).
        Inr (delta, ws)))
      else
        rbind (power_rows [x / h] max_degree workspace) (\<lambda>ws.
        rbind (rfold (\<lambda>n.
                 add_entry w0 (\<lambda>var_pow. rbind (var_dec var_pow partial_direction_1) (\<lambda>var_pow.
                     rbind (var_dec var_pow partial_direction_2)
                     (derivative_entry ws max_degree (w1 * 0) (w1 * 1 / h))))
                   [int n])
               [starting_order..<max_degree + 1]
             (delta, 0)) (\<lambda>(delta, i).
        Inr (delta, ws))))"

section \<open>The enumeration\<close>

definition multi_indices :: "nat \<Rightarrow> nat \<Rightarrow> nat \<Rightarrow> int list list" where
  "multi_indices nd a m = (if nd = 3 then idx3 a m else if nd = 2 then idx2 a m else idx1 a m)"

lemma length_idx1: "length (idx1 0 m) = m + 1"
  by (simp add: idx1_def)

lemma length_idx2: "2 * length (idx2 0 m) = (m + 1) * (m + 2)"
  by (induction m) (simp_all add: idx2_def algebra_simps)

lemma length_layer3:
  "2 * length (concat (map (\<lambda>z. map (\<lambda>y. [int (n - z - y), int y, int z]) [0..<n - z + 1])
      [0..<n + 1])) = (n + 1) * (n + 2)"
proof -
  have "length (concat (map (\<lambda>z. map (\<lambda>y. [int (n - z - y), int y, int z]) [0..<n - z + 1])
      [0..<n + 1])) = (\<Sum>z<n + 1. n - z + 1)"
    by (simp add: length_concat comp_def interv_sum_list_conv_sum_set_nat atLeast0LessThan
        del: upt_Suc)
  also have "\<dots> = (\<Sum>z<n + 1. z + 1)"
    using sum.nat_diff_reindex [of "\<lambda>z. z + 1" "n + 1"] by (simp add: Suc_diff_le [symmetric])
  also have "2 * \<dots> = (n + 1) * (n + 2)" by (induction n) simp_all
  finally show ?thesis .
qed

lemma length_idx3: "6 * length (idx3 0 m) = (m + 1) * (m + 2) * (m + 3)"
proof (induction m)
  case 0
  then show ?case by (simp add: idx3_def)
next
  case (Suc m)
  have "idx3 0 (Suc m) = idx3 0 m @ concat (map (\<lambda>z.
      map (\<lambda>y. [int (Suc m - z - y), int y, int z]) [0..<Suc m - z + 1]) [0..<Suc m + 1])"
  proof -
    have "[0..<Suc m + 1] = [0..<m + 1] @ [Suc m]" by simp
    then show ?thesis
      by (simp only: idx3_def map_append concat_append list.map concat.simps append_Nil2)
  qed
  then have "6 * length (idx3 0 (Suc m)) = (m + 1) * (m + 2) * (m + 3) + 3 * ((Suc m + 1) * (Suc m + 2))"
    using Suc.IH length_layer3 [of "Suc m"] by simp
  then show ?case by (simp add: algebra_simps)
qed

lemma length_multi_indices:
  assumes "nd \<in> {1, 2, 3}"
  shows "int (length (multi_indices nd 0 m)) = ScalarTaylor_getSize (int m) (int nd)"
proof -
  have sdiv: "(k * n) sdiv k = n" if "0 < k" for k n :: int
    using that by (simp add: signed_divide_int_def sgn_mult abs_mult mult_sgn_abs)
  have "(int m + 1) * (int m + 2) = 2 * int (length (idx2 0 m))"
    using arg_cong [OF length_idx2 [of m], of int] by (simp add: algebra_simps)
  moreover have "(int m + 1) * (int m + 2) * (int m + 3) = 6 * int (length (idx3 0 m))"
    using arg_cong [OF length_idx3 [of m], of int] by (simp add: algebra_simps)
  ultimately have "ScalarTaylor_getSize (int m) 2 = int (length (idx2 0 m))"
    "ScalarTaylor_getSize (int m) 3 = int (length (idx3 0 m))"
    by (simp_all only: ScalarTaylor_getSize_def sdiv if_True if_False refl) simp_all
  then show ?thesis
    using assms length_idx1 [of m]
    by (auto simp: multi_indices_def ScalarTaylor_getSize_def)
qed

lemma distinct_concat_map:
  assumes "distinct xs" "\<And>x. x \<in> set xs \<Longrightarrow> distinct (g x)"
    and "\<And>x y. x \<in> set xs \<Longrightarrow> y \<in> set xs \<Longrightarrow> x \<noteq> y \<Longrightarrow> set (g x) \<inter> set (g y) = {}"
  shows "distinct (concat (map g xs))"
  using assms by (induction xs) auto

lemma distinct_multi_indices: "distinct (multi_indices nd a m)"
proof -
  have "distinct (idx1 a m)" by (simp add: idx1_def distinct_map inj_on_def del: upt_Suc)
  moreover have "distinct (idx2 a m)"
    unfolding idx2_def by (rule distinct_concat_map) (auto simp: distinct_map inj_on_def)
  moreover have "distinct (idx3 a m)"
    unfolding idx3_def
  proof (intro distinct_concat_map)
    show "set (concat (map (\<lambda>z. map (\<lambda>y. [int (x - z - y), int y, int z]) [0..<x - z + 1]) [0..<x + 1]))
      \<inter> set (concat (map (\<lambda>z. map (\<lambda>y. [int (n - z - y), int y, int z]) [0..<n - z + 1]) [0..<n + 1])) = {}"
      if "x \<noteq> n" for x n :: nat
      using that by auto
  qed (auto simp: distinct_map inj_on_def)
  ultimately show ?thesis by (simp add: multi_indices_def)
qed

lemma concat_mapI: "x \<in> set xs \<Longrightarrow> y \<in> set (g x) \<Longrightarrow> y \<in> set (concat (map g xs))"
  by auto

lemma set_multi_indices:
  assumes "nd \<in> {1, 2, 3}"
  shows "set (multi_indices nd a m) = {vp. length vp = nd \<and> (\<forall>e \<in> set vp. 0 \<le> e)
    \<and> int a \<le> sum_list vp \<and> sum_list vp \<le> int m}"
proof (intro set_eqI iffI)
  fix vp assume "vp \<in> set (multi_indices nd a m)"
  then show "vp \<in> {vp. length vp = nd \<and> (\<forall>e \<in> set vp. 0 \<le> e)
      \<and> int a \<le> sum_list vp \<and> sum_list vp \<le> int m}"
    using assms idx_bounds [where vp = vp and a = a and m = m]
    by (auto simp: multi_indices_def split: if_splits)
next
  fix vp assume vp: "vp \<in> {vp. length vp = nd \<and> (\<forall>e \<in> set vp. 0 \<le> e)
      \<and> int a \<le> sum_list vp \<and> sum_list vp \<le> int m}"
  define ns where "ns = map nat vp"
  have ints: "vp = map int ns" using vp by (auto simp: ns_def intro!: nth_equalityI)
  consider p where "ns = [p]" "nd = 1" | p q where "ns = [p, q]" "nd = 2"
    | p q r where "ns = [p, q, r]" "nd = 3"
    using vp assms
    by (auto simp: ns_def length_Suc_conv numeral_eq_Suc)
  then show "vp \<in> set (multi_indices nd a m)"
  proof cases
    case 1
    then show ?thesis using vp ints by (auto simp: multi_indices_def idx1_def)
  next
    case 2
    then have "p + q \<in> set [a..<m + 1]" using vp ints by auto
    then have "vp \<in> set (idx2 a m)"
      unfolding idx2_def
      by (rule concat_mapI) (use 2 ints in \<open>auto intro!: image_eqI [of _ _ q]\<close>)
    then show ?thesis using 2 by (simp add: multi_indices_def)
  next
    case 3
    then have "p + q + r \<in> set [a..<m + 1]" using vp ints by auto
    then have "vp \<in> set (idx3 a m)"
      unfolding idx3_def
    proof (rule concat_mapI)
      have "r \<in> set [0..<p + q + r + 1]" unfolding set_upt by simp
      then show "vp \<in> set (concat (map (\<lambda>z. map (\<lambda>y. [int (p + q + r - z - y), int y, int z])
          [0..<p + q + r - z + 1]) [0..<p + q + r + 1]))"
        by (rule concat_mapI) (use 3 ints in \<open>auto intro!: image_eqI [of _ _ q]\<close>)
    qed
    then show ?thesis using 3 by (simp add: multi_indices_def)
  qed
qed

section \<open>Closed forms\<close>

lemma taylor_take: "length vp \<le> n \<Longrightarrow> taylor (take n ts) vp = taylor ts vp"
  by (simp add: taylor_def)

lemma evaluate_branches:
  assumes "nd \<in> {2, 3}"
  shows "ScalarTaylor_evaluate delta workspace (int nd) m h x y z a w0 w1 =
    rbind (power_rows (take nd [x / h, y / h, z / h]) m workspace) (\<lambda>ws.
    rbind (rfold (add_entry w0 (monomial ws m w1)) (multi_indices nd a m) (delta, 0))
      (\<lambda>(delta, i). Inr (delta, ws)))"
  using assms
  by (auto simp only: ScalarTaylor_evaluate_def idx_loops multi_indices_def simp_thms
      insert_iff empty_iff of_nat_numeral numeral_eq_iff) (simp_all add: numeral_eq_Suc)

lemma derivative_branches:
  assumes "nd \<in> {1, 2, 3}"
  shows "ScalarTaylor_evaluatePartialDerivative delta workspace (int nd) m d h x y z a w0 w1 =
    rbind (power_rows (take nd [x / h, y / h, z / h]) m workspace) (\<lambda>ws.
    rbind (rfold (add_entry w0 (\<lambda>vp. rbind (var_dec vp d) (derivative_entry ws m (w1 * 0) (w1 * 1 / h))))
       (multi_indices nd a m) (delta, 0)) (\<lambda>(delta, i). Inr (delta, ws)))"
    "ScalarTaylor_evaluateSecondPartialDerivative delta workspace (int nd) m d d' h x y z a w0 w1 =
    rbind (power_rows (take nd [x / h, y / h, z / h]) m workspace) (\<lambda>ws.
    rbind (rfold (add_entry w0 (\<lambda>vp. rbind (var_dec vp d) (\<lambda>vp. rbind (var_dec vp d')
         (derivative_entry ws m (w1 * 0) (w1 * 1 / h)))))
       (multi_indices nd a m) (delta, 0)) (\<lambda>(delta, i). Inr (delta, ws)))"
  unfolding ScalarTaylor_evaluatePartialDerivative_def
    ScalarTaylor_evaluateSecondPartialDerivative_def idx_loops multi_indices_def
  using assms by auto

lemma multi_indices_dim:
  assumes "nd \<in> {1, 2, 3}" "vp \<in> set (multi_indices nd a m)"
  shows "length vp = nd" "\<forall>e \<in> set vp. 0 \<le> e \<and> e \<le> int m"
  using assms idx_bounds [where vp = vp and a = a and m = m]
  by (auto simp: multi_indices_def split: if_splits)

text \<open>The one-dimensional evaluation counts with the order itself.\<close>

lemma evaluate_1d_loop:
  assumes "a \<le> b"
  shows "rfold (\<lambda>n. add_entry w0 g [int n]) [a..<b] (d, int a) =
    rbind (rfold (\<lambda>i delta. rbind (add_entry w0 g [int i] (delta, int i)) (\<lambda>(delta, j). Inr delta))
             [a..<b] d) (\<lambda>d. Inr (d, int b))"
  using assms
proof (induction b rule: dec_induct)
  case base
  then show ?case by simp
next
  case (step n)
  have "add_entry w0 g [int n] (d', int n) =
      rbind (rbind (add_entry w0 g [int n] (d', int n)) (\<lambda>(delta, j). Inr delta))
        (\<lambda>d. Inr (d, int (Suc n)))" for d'
    by (auto simp: add_entry_def store_def rbind_def split: sum.splits)
  then have round: "(\<lambda>d. add_entry w0 g [int n] (d, int n)) =
      (\<lambda>d'. rbind (rbind (add_entry w0 g [int n] (d', int n)) (\<lambda>(delta, j). Inr delta))
        (\<lambda>d. Inr (d, int (Suc n))))" ..
  have "rfold (\<lambda>n. add_entry w0 g [int n]) [a..<Suc n] (d, int a) =
      rbind (rfold (\<lambda>n. add_entry w0 g [int n]) [a..<n] (d, int a)) (add_entry w0 g [int n])"
    using step.hyps by (simp add: rfold_append rbind_def split: sum.split)
  also have "\<dots> = rbind (rfold (\<lambda>i delta. rbind (add_entry w0 g [int i] (delta, int i))
      (\<lambda>(delta, j). Inr delta)) [a..<n] d) (\<lambda>d. add_entry w0 g [int n] (d, int n))"
    by (simp add: step.IH rbind_assoc)
  also have "\<dots> = rbind (rfold (\<lambda>i delta. rbind (add_entry w0 g [int i] (delta, int i))
      (\<lambda>(delta, j). Inr delta)) [a..<Suc n] d) (\<lambda>d. Inr (d, int (Suc n)))"
    unfolding round using step.hyps by (simp add: rfold_append rbind_assoc rbind_def split: sum.split)
  finally show ?case .
qed

lemma power_rows_dim:
  assumes "nd \<le> 3" "nd * (m + 1) \<le> length workspace"
  shows "\<exists>ws. power_rows (take nd [x / h, y / h, z / h]) m workspace = Inr ws
    \<and> length ws = length workspace \<and> tables (take nd [x / h, y / h, z / h]) m ws"
proof -
  have "length (take nd [x / h, y / h, z / h]) = nd" using assms(1) by simp
  then show ?thesis
    using power_rows_ok [of "take nd [x / h, y / h, z / h]" m workspace] assms(2)
    by metis
qed

lemma evaluate_closed:
  assumes nd: "nd \<in> {1, 2, 3}" and m: "m \<le> 14" "a \<le> m + 1"
    and "nd * (m + 1) \<le> length workspace"
    and room: "(if nd = 1 then a else 0) + length (multi_indices nd a m) \<le> length delta"
  shows "\<exists>ws. ScalarTaylor_evaluate delta workspace (int nd) m h x y z a w0 w1 =
     Inr (overlay w0 (if nd = 1 then a else 0)
            (map (\<lambda>vp. w1 * taylor [x / h, y / h, z / h] vp) (multi_indices nd a m)) delta, ws)
     \<and> length ws = length workspace"
proof -
  let ?ts = "take nd [x / h, y / h, z / h]"
  let ?i = "if nd = 1 then a else 0"
  obtain ws where ws: "power_rows ?ts m workspace = Inr ws" "length ws = length workspace"
      "tables ?ts m ws"
    using power_rows_dim [OF _ assms(4), of x h y z] nd by force
  have "monomial ws m w1 vp = Inr (w1 * taylor [x / h, y / h, z / h] vp)"
    if "vp \<in> set (multi_indices nd a m)" for vp
    using monomial_ok [OF ws(3) _ m(1)] multi_indices_dim [OF nd that] nd
      taylor_take [of vp nd "[x / h, y / h, z / h]"] by auto
  then have loop: "rfold (add_entry w0 (monomial ws m w1)) (multi_indices nd a m) (delta, int ?i) =
      Inr (overlay w0 ?i (map (\<lambda>vp. w1 * taylor [x / h, y / h, z / h] vp) (multi_indices nd a m))
             delta, int (?i + length (multi_indices nd a m)))"
    using room
    by (subst store_loop [where v = "\<lambda>vp. w1 * taylor [x / h, y / h, z / h] vp"]) auto
  show ?thesis
  proof (cases "nd = 1")
    case True
    have "rfold (\<lambda>i delta. rbind (add_entry w0 (monomial ws m w1) [int i] (delta, int i))
        (\<lambda>(delta, j). Inr delta)) [a..<m + 1] delta =
      Inr (overlay w0 ?i (map (\<lambda>vp. w1 * taylor [x / h, y / h, z / h] vp) (multi_indices nd a m)) delta)"
      using loop evaluate_1d_loop [OF m(2), of w0 "monomial ws m w1" delta, unfolded idx_loops] True
      by (auto simp: multi_indices_def rbind_eq_Inr_iff simp del: upt_Suc)
    then show ?thesis
      using ws True by (simp add: ScalarTaylor_evaluate_def del: upt_Suc)
  next
    case False
    then have "nd \<in> {2, 3}" using nd by auto
    then show ?thesis
      using evaluate_branches [of nd delta workspace m h x y z a w0 w1] ws loop False by simp
  qed
qed

lemma derivative_closed:
  assumes nd: "nd \<in> {1, 2, 3}" and m: "m \<le> 14" and d: "d < nd" "d' < nd"
    and "nd * (m + 1) \<le> length workspace"
    and room: "length (multi_indices nd a m) \<le> length delta"
  shows "\<exists>ws. ScalarTaylor_evaluatePartialDerivative delta workspace (int nd) m (int d) h x y z a w0 w1 =
     Inr (overlay w0 0 (map (\<lambda>vp. w1 / h * taylor [x / h, y / h, z / h] (vp[d := vp ! d - 1]))
            (multi_indices nd a m)) delta, ws) \<and> length ws = length workspace"
    "\<exists>ws. ScalarTaylor_evaluateSecondPartialDerivative delta workspace (int nd) m (int d) (int d')
        h x y z a w0 w1 =
     Inr (overlay w0 0 (map (\<lambda>vp. w1 / h * taylor [x / h, y / h, z / h]
              (vp[d := vp ! d - 1, d' := vp[d := vp ! d - 1] ! d' - 1]))
            (multi_indices nd a m)) delta, ws) \<and> length ws = length workspace"
proof -
  let ?ts = "take nd [x / h, y / h, z / h]"
  obtain ws where ws: "power_rows ?ts m workspace = Inr ws" "length ws = length workspace"
      "tables ?ts m ws"
    using power_rows_dim [OF _ assms(5), of x h y z] nd by force
  have entry: "derivative_entry ws m (w1 * 0) (w1 * 1 / h) vp =
      Inr (w1 / h * taylor [x / h, y / h, z / h] vp)"
    if "length vp = nd" "\<forall>e \<in> set vp. e \<le> int m" for vp
    using derivative_entry_ok [OF ws(3) _ m that(2), of w1 "w1 * 1 / h"] that(1) nd
      taylor_take [of vp nd "[x / h, y / h, z / h]"] by auto
  have one: "rbind (var_dec vp (int d)) (derivative_entry ws m (w1 * 0) (w1 * 1 / h)) =
        Inr (w1 / h * taylor [x / h, y / h, z / h] (vp[d := vp ! d - 1]))"
    and two: "rbind (var_dec vp (int d)) (\<lambda>vp. rbind (var_dec vp (int d'))
          (derivative_entry ws m (w1 * 0) (w1 * 1 / h))) =
        Inr (w1 / h * taylor [x / h, y / h, z / h]
          (vp[d := vp ! d - 1, d' := vp[d := vp ! d - 1] ! d' - 1]))"
    if "vp \<in> set (multi_indices nd a m)" for vp
  proof -
    have vp: "length vp = nd" "\<forall>e \<in> set vp. 0 \<le> e \<and> e \<le> int m"
      using multi_indices_dim [OF nd that] by auto
    have lower: "\<forall>e \<in> set (up[k := up ! k - 1]). e \<le> int m"
      if "\<forall>e \<in> set up. e \<le> int m" "k < length up" for up :: "int list" and k
      using that set_update_subset_insert [of up k "up ! k - 1"] nth_mem [of k up] by fastforce
    have "\<forall>e \<in> set (vp[d := vp ! d - 1]). e \<le> int m"
      using lower [of vp d] vp d by auto
    moreover from this
    have "\<forall>e \<in> set (vp[d := vp ! d - 1, d' := vp[d := vp ! d - 1] ! d' - 1]). e \<le> int m"
      using lower [of "vp[d := vp ! d - 1]" d'] vp d by auto
    ultimately show "rbind (var_dec vp (int d)) (derivative_entry ws m (w1 * 0) (w1 * 1 / h)) =
        Inr (w1 / h * taylor [x / h, y / h, z / h] (vp[d := vp ! d - 1]))"
      "rbind (var_dec vp (int d)) (\<lambda>vp. rbind (var_dec vp (int d'))
          (derivative_entry ws m (w1 * 0) (w1 * 1 / h))) =
        Inr (w1 / h * taylor [x / h, y / h, z / h]
          (vp[d := vp ! d - 1, d' := vp[d := vp ! d - 1] ! d' - 1]))"
      using vp d by (simp_all only: var_dec_nat rbind_Inr length_list_update entry)
  qed
  have loop: "rfold (add_entry w0 g) (multi_indices nd a m) (delta, 0) =
      Inr (overlay w0 0 (map v (multi_indices nd a m)) delta, int (length (multi_indices nd a m)))"
    if "\<And>vp. vp \<in> set (multi_indices nd a m) \<Longrightarrow> g vp = Inr (v vp)" for g v
    using store_loop [of "multi_indices nd a m" g v 0 delta w0] that room by simp
  show "\<exists>ws. ScalarTaylor_evaluatePartialDerivative delta workspace (int nd) m (int d) h x y z a w0 w1 =
     Inr (overlay w0 0 (map (\<lambda>vp. w1 / h * taylor [x / h, y / h, z / h] (vp[d := vp ! d - 1]))
            (multi_indices nd a m)) delta, ws) \<and> length ws = length workspace"
    using ws(1,2) room
    by (simp only: derivative_branches [OF nd] rbind_Inr loop [OF one]) simp
  show "\<exists>ws. ScalarTaylor_evaluateSecondPartialDerivative delta workspace (int nd) m (int d) (int d')
        h x y z a w0 w1 =
     Inr (overlay w0 0 (map (\<lambda>vp. w1 / h * taylor [x / h, y / h, z / h]
              (vp[d := vp ! d - 1, d' := vp[d := vp ! d - 1] ! d' - 1]))
            (multi_indices nd a m)) delta, ws) \<and> length ws = length workspace"
    using ws(1,2) room
    by (simp only: derivative_branches [OF nd] rbind_Inr loop [OF two]) simp
qed

section \<open>Properties\<close>

text \<open>
  C19: with degree at most 14 and buffers that are large enough, the evaluation succeeds
  in one, two and three dimensions, writes exactly \<open>getSize\<close> entries, combines each with
  the old value by the two weights, and leaves the rest of \<open>delta\<close> alone.  The entries
  are the products \<open>(x/h)^a/a! * (y/h)^b/b! * (z/h)^c/c!\<close>, one for every multi-index of
  total degree at most the degree, without repetition.
\<close>

theorem scalar_evaluate_entries:
  assumes "nd \<in> {1, 2, 3}" "m \<le> 14" "h \<noteq> 0" "nd * (m + 1) \<le> length workspace"
    and "ScalarTaylor_getSize (int m) (int nd) \<le> int (length delta)"
  shows "\<exists>delta' ws. ScalarTaylor_evaluate delta workspace (int nd) m h x y z 0 w0 w1 = Inr (delta', ws)
    \<and> length delta' = length delta \<and> length ws = length workspace
    \<and> (\<forall>j < length delta. delta' ! j =
         (if int j < ScalarTaylor_getSize (int m) (int nd)
          then w0 * delta ! j + w1 * (\<Prod>k<nd. ([x, y, z] ! k / h) ^ nat (multi_indices nd 0 m ! j ! k)
                                        / fact (nat (multi_indices nd 0 m ! j ! k)))
          else delta ! j))
    \<and> distinct (multi_indices nd 0 m)
    \<and> set (multi_indices nd 0 m) =
        {vp. length vp = nd \<and> (\<forall>e \<in> set vp. 0 \<le> e) \<and> sum_list vp \<le> int m}"
proof -
  note len = length_multi_indices [OF assms(1), of m]
  obtain ws where ws: "ScalarTaylor_evaluate delta workspace (int nd) m h x y z 0 w0 w1 =
     Inr (overlay w0 0 (map (\<lambda>vp. w1 * taylor [x / h, y / h, z / h] vp) (multi_indices nd 0 m)) delta, ws)"
    "length ws = length workspace"
    using evaluate_closed [OF assms(1,2) _ assms(4), of 0 delta h x y z w0 w1] assms(5) len
    by auto
  have entry: "taylor [x / h, y / h, z / h] vp =
      (\<Prod>k<nd. ([x, y, z] ! k / h) ^ nat (vp ! k) / fact (nat (vp ! k)))"
    if "vp \<in> set (multi_indices nd 0 m)" for vp
  proof -
    have vp: "length vp = nd" "\<forall>e \<in> set vp. 0 \<le> e \<and> e \<le> int m"
      using multi_indices_dim [OF assms(1) that] by auto
    have ratio: "[x / h, y / h, z / h] ! k = [x, y, z] ! k / h" if "k < nd" for k
      using that assms(1) by (auto simp: less_Suc_eq numeral_eq_Suc)
    show ?thesis
      unfolding taylor_def vp(1)
      using vp ratio by (intro prod.cong) (auto simp: tfac_def not_less dest: nth_mem)
  qed
  have "sum_list vp \<ge> 0" if "\<forall>e \<in> set vp. 0 \<le> e" for vp :: "int list"
    using that by (intro sum_list_nonneg) auto
  then show ?thesis
    using ws len distinct_multi_indices set_multi_indices [OF assms(1), of 0 m]
    by (intro exI [where x = "overlay w0 0 _ delta"] exI [where x = ws] conjI)
       (auto simp: nth_overlay entry)
qed

theorem scalar_evaluate_entries_witness:
  "\<exists>delta' ws. ScalarTaylor_evaluate [5, 5, 5, 5, 5, 5, 5] [0, 0, 0, 0, 0, 0] 2 2 1 3 4 0 0 0 1 =
     Inr (delta', ws) \<and> length delta' = 7 \<and> delta' ! 6 = 5"
  using scalar_evaluate_entries [of 2 2 1 "[0, 0, 0, 0, 0, 0]" "[5, 5, 5, 5, 5, 5, 5]" 3 4 0 0 1]
  by (force simp: ScalarTaylor_getSize_def signed_divide_int_def)

lemma only_oob_tables:
  "only_oob (power_rows ts m ws)" "only_oob (monomial ws m c vp)" "only_oob (store w0 v st)"
  by (auto simp: power_rows_def monomial_def store_def
      intro!: only_oob_rbind only_oob_rfold only_oob_rmap split: prod.split)

lemma only_oob_add_entry:
  "(\<And>e. only_oob (g e)) \<Longrightarrow> only_oob (add_entry w0 g e st)"
  by (auto simp: add_entry_def intro: only_oob_rbind only_oob_tables)

lemma monomial_outside:
  assumes "e \<in> set vp" "15 \<le> e"
  shows "monomial ws m c vp \<noteq> Inr v"
proof
  assume "monomial ws m c vp = Inr v"
  then obtain fs where "rmap (view_read factorial) vp = Inr fs"
    by (auto simp: monomial_def rbind_eq_Inr_iff)
  then have "\<forall>a \<in> set vp. \<exists>f. view_read factorial a = Inr f"
    by (auto simp: rmap_Inr_iff list_all2_conv_all_nth in_set_conv_nth)
  then show False using assms factorial_outside by fastforce
qed

text \<open>
  The table of factorials ends at 14!: with a degree of 15 or more the evaluation
  leaves it, whatever the buffers and the point.
\<close>

theorem scalar_degree_limit:
  assumes "nd \<in> {1, 2, 3}" "15 \<le> m" "a \<le> m"
  shows "ScalarTaylor_evaluate delta workspace (int nd) m h x y z a w0 w1 = Inl Out_of_bounds"
proof (rule only_oob_failure)
  show "only_oob (ScalarTaylor_evaluate delta workspace (int nd) m h x y z a w0 w1)"
    unfolding ScalarTaylor_evaluate_def
    by (auto intro!: only_oob_rbind only_oob_rfold only_oob_add_entry only_oob_tables
        split: prod.split)
  fix r
  have last: "\<exists>e \<in> set (int m # replicate (nd - 1) 0). 15 \<le> e" using assms(2) by simp
  have mem: "int m # replicate (nd - 1) 0 \<in> set (multi_indices nd a m)"
    using assms by (subst set_multi_indices [OF assms(1)]) (auto simp: sum_list_replicate)
  have stuck: "add_entry w0 (monomial ws m w1) (int m # replicate (nd - 1) 0) st \<noteq> Inr s'" for ws st s'
    using last monomial_outside [where vp = "int m # replicate (nd - 1) 0"]
    unfolding add_entry_def rbind_eq_Inr_iff by blast
  show "ScalarTaylor_evaluate delta workspace (int nd) m h x y z a w0 w1 \<noteq> Inr r"
  proof (cases "nd = 1")
    case True
    have "rfold (\<lambda>i delta. rbind (add_entry w0 (monomial ws m w1) [int i] (delta, int i))
        (\<lambda>(delta, j). Inr delta)) [a..<m + 1] delta \<noteq> Inr d" for ws d
      by (rule rfold_failing_round [of m]) (use assms stuck True in \<open>auto simp: rbind_eq_Inr_iff\<close>)
    then show ?thesis
      using True by (simp add: ScalarTaylor_evaluate_def rbind_eq_Inr_iff del: upt_Suc)
  next
    case False
    then have nd: "nd \<in> {2, 3}" using assms(1) by auto
    show ?thesis
      unfolding evaluate_branches [OF nd]
      using rfold_failing_round [where f = "add_entry w0 (monomial _ m w1)", OF mem stuck]
      by (auto simp: rbind_eq_Inr_iff)
  qed
qed

theorem scalar_degree_limit_witness:
  "ScalarTaylor_evaluate (replicate 136 0) (replicate 32 0) 2 15 1 0 0 0 0 0 1 = Inl Out_of_bounds"
  using scalar_degree_limit [of 2 15 0 "replicate 136 0" "replicate 32 0" 1 0 0 0 0 1] by simp

text \<open>
  The rows of values that the three functions write into fresh buffers at a point,
  entry by entry (the empty list if one of them fails).
\<close>

definition row_of :: "(real list \<times> real list) result \<Rightarrow> real list" where
  "row_of r = (case r of Inl e \<Rightarrow> [] | Inr (delta, ws) \<Rightarrow> delta)"

definition scalar_room :: "nat \<Rightarrow> nat \<Rightarrow> real list" where
  "scalar_room nd m = replicate (nat (ScalarTaylor_getSize (int m) (int nd))) 0"

definition scalar_row :: "nat \<Rightarrow> nat \<Rightarrow> real \<Rightarrow> real list \<Rightarrow> real list" where
  "scalar_row nd m h ps = row_of (ScalarTaylor_evaluate (scalar_room nd m)
     (replicate (nd * (m + 1)) 0) (int nd) m h (ps ! 0) (ps ! 1) (ps ! 2) 0 0 1)"

definition scalar_partial_row :: "nat \<Rightarrow> nat \<Rightarrow> nat \<Rightarrow> real \<Rightarrow> real list \<Rightarrow> real list" where
  "scalar_partial_row nd m d h ps = row_of (ScalarTaylor_evaluatePartialDerivative
     (scalar_room nd m) (replicate (nd * (m + 1)) 0) (int nd) m (int d)
     h (ps ! 0) (ps ! 1) (ps ! 2) 0 0 1)"

definition scalar_second_row :: "nat \<Rightarrow> nat \<Rightarrow> nat \<Rightarrow> nat \<Rightarrow> real \<Rightarrow> real list \<Rightarrow> real list" where
  "scalar_second_row nd m d d' h ps = row_of (ScalarTaylor_evaluateSecondPartialDerivative
     (scalar_room nd m) (replicate (nd * (m + 1)) 0) (int nd) m (int d) (int d')
     h (ps ! 0) (ps ! 1) (ps ! 2) 0 0 1)"

lemma scalar_rows:
  assumes "nd \<in> {1, 2, 3}" "m \<le> 14" "d < nd" "d' < nd" "length ps = 3"
  shows "scalar_row nd m h ps = map (taylor (map (\<lambda>x. x / h) ps)) (multi_indices nd 0 m)"
    "scalar_partial_row nd m d h ps =
       map (\<lambda>vp. taylor (map (\<lambda>x. x / h) ps) (vp[d := vp ! d - 1]) / h) (multi_indices nd 0 m)"
    "scalar_second_row nd m d d' h ps =
       map (\<lambda>vp. taylor (map (\<lambda>x. x / h) ps)
              (vp[d := vp ! d - 1, d' := vp[d := vp ! d - 1] ! d' - 1]) / h) (multi_indices nd 0 m)"
proof -
  have len: "length (scalar_room nd m) = length (multi_indices nd 0 m)"
    using length_multi_indices [OF assms(1), of m] by (simp add: scalar_room_def)
  have ps: "[ps ! 0 / h, ps ! Suc 0 / h, ps ! 2 / h] = map (\<lambda>x. x / h) ps"
    using assms(5) by (auto simp: length_Suc_conv numeral_eq_Suc)
  have over: "overlay 0 0 vs (scalar_room nd m) = vs" if "length vs = length (multi_indices nd 0 m)" for vs
    using that len by (intro nth_equalityI) (simp_all add: nth_overlay)
  show "scalar_row nd m h ps = map (taylor (map (\<lambda>x. x / h) ps)) (multi_indices nd 0 m)"
    using evaluate_closed [OF assms(1,2), of 0 "replicate (nd * (m + 1)) 0" "scalar_room nd m" h
        "ps ! 0" "ps ! 1" "ps ! 2" 0 1] len
    by (auto simp: scalar_row_def row_of_def over ps)
  show "scalar_partial_row nd m d h ps =
       map (\<lambda>vp. taylor (map (\<lambda>x. x / h) ps) (vp[d := vp ! d - 1]) / h) (multi_indices nd 0 m)"
    using derivative_closed(1) [OF assms(1,2,3,4), of "replicate (nd * (m + 1)) 0" 0
        "scalar_room nd m" h "ps ! 0" "ps ! 1" "ps ! 2" 0 1] len
    by (auto simp: scalar_partial_row_def row_of_def over ps)
  show "scalar_second_row nd m d d' h ps =
       map (\<lambda>vp. taylor (map (\<lambda>x. x / h) ps)
              (vp[d := vp ! d - 1, d' := vp[d := vp ! d - 1] ! d' - 1]) / h) (multi_indices nd 0 m)"
    using derivative_closed(2) [OF assms(1,2,3,4), of "replicate (nd * (m + 1)) 0" 0
        "scalar_room nd m" h "ps ! 0" "ps ! 1" "ps ! 2" 0 1] len
    by (auto simp: scalar_second_row_def row_of_def over ps)
qed

text \<open>
  C13: every entry that the partial-derivative routine writes is the derivative of the
  entry that the evaluation writes at the same place, in the direction asked for.
\<close>

theorem scalar_partial_is_derivative:
  assumes "nd \<in> {1, 2, 3}" "m \<le> 14" "d < nd" "length ps = 3" "h \<noteq> 0"
    and "int j < ScalarTaylor_getSize (int m) (int nd)"
  shows "length (scalar_row nd m h ps) = nat (ScalarTaylor_getSize (int m) (int nd))
    \<and> length (scalar_partial_row nd m d h ps) = nat (ScalarTaylor_getSize (int m) (int nd))
    \<and> ((\<lambda>t. scalar_row nd m h (ps[d := t]) ! j) has_real_derivative
         scalar_partial_row nd m d h ps ! j) (at (ps ! d))"
proof -
  let ?vp = "multi_indices nd 0 m ! j"
  note len = length_multi_indices [OF assms(1), of m]
  have j: "j < length (multi_indices nd 0 m)" using assms(6) len by simp
  then have vp: "length ?vp = nd" by (intro multi_indices_dim [OF assms(1) nth_mem])
  have "((\<lambda>t. taylor (map (\<lambda>x. x / h) (ps[d := t])) ?vp) has_real_derivative
      taylor (map (\<lambda>x. x / h) (ps[d := ps ! d])) (?vp[d := ?vp ! d - 1]) / h) (at (ps ! d))"
    using assms vp by (intro taylor_derivative) auto
  then show ?thesis
    using scalar_rows [OF assms(1-3,3)] assms(4) j len by simp
qed

theorem scalar_partial_is_derivative_witness:
  "((\<lambda>t. scalar_row 2 3 2 ([1, 5, 0][1 := t]) ! 8) has_real_derivative
      scalar_partial_row 2 3 1 2 [1, 5, 0] ! 8) (at 5)"
  using scalar_partial_is_derivative [of 2 3 1 "[1, 5, 0]" 2 8]
  by (simp add: ScalarTaylor_getSize_def signed_divide_int_def)

text \<open>
  C35: the second-partial-derivative routine lowers both exponents but divides by the
  window size once: what it writes, divided once more by the window size, is the
  derivative of what the first-partial-derivative routine writes.
\<close>

theorem scalar_second_partial_scaled:
  assumes "nd \<in> {1, 2, 3}" "m \<le> 14" "d < nd" "d' < nd" "length ps = 3" "h \<noteq> 0"
    and "int j < ScalarTaylor_getSize (int m) (int nd)"
  shows "((\<lambda>t. scalar_partial_row nd m d h (ps[d' := t]) ! j) has_real_derivative
         scalar_second_row nd m d d' h ps ! j / h) (at (ps ! d'))"
proof -
  let ?vp = "multi_indices nd 0 m ! j"
  let ?up = "?vp[d := ?vp ! d - 1]"
  note len = length_multi_indices [OF assms(1), of m]
  have j: "j < length (multi_indices nd 0 m)" using assms(7) len by simp
  then have vp: "length ?vp = nd" by (intro multi_indices_dim [OF assms(1) nth_mem])
  have "((\<lambda>t. taylor (map (\<lambda>x. x / h) (ps[d' := t])) ?up) has_real_derivative
      taylor (map (\<lambda>x. x / h) (ps[d' := ps ! d'])) (?up[d' := ?up ! d' - 1]) / h) (at (ps ! d'))"
    using assms vp by (intro taylor_derivative) auto
  from DERIV_cdivide [OF this, of h] show ?thesis
    using scalar_rows [OF assms(1-4)] assms(5) j by simp
qed

theorem scalar_second_partial_scaled_witness:
  "((\<lambda>t. scalar_partial_row 1 2 0 2 ([3, 0, 0][0 := t]) ! 2) has_real_derivative
      scalar_second_row 1 2 0 0 2 [3, 0, 0] ! 2 / 2) (at 3)
   \<and> scalar_second_row 1 2 0 0 2 [3, 0, 0] ! 2 = 1 / 2"
proof -
  have "scalar_second_row 1 2 0 0 2 [3, 0, 0] ! 2 = 1 / 2"
    by (simp add: scalar_rows multi_indices_def idx1_def taylor_def tfac_def)
  then show ?thesis
    using scalar_second_partial_scaled [of 1 2 0 0 "[3, 0, 0]" 2 2]
    by (simp add: ScalarTaylor_getSize_def)
qed

text \<open>
  The routines disagree on the meaning of the starting order in one dimension: the
  evaluation stores the entry of order \<open>i\<close> at place \<open>i\<close>, so the places below the
  starting order keep their values, whereas the partial derivative starts at place 0
  (as both do in two and three dimensions).
\<close>

theorem starting_order_places:
  assumes "m \<le> 14" "a \<le> m" "h \<noteq> 0" "m + 1 \<le> length workspace" "m + 1 \<le> length delta"
  shows "(\<exists>ws. ScalarTaylor_evaluate delta workspace 1 m h x y z a 0 1 =
           Inr (take a delta @ map (\<lambda>n. (x / h) ^ n / fact n) [a..<m + 1] @ drop (m + 1) delta, ws))
    \<and> (\<exists>ws. ScalarTaylor_evaluatePartialDerivative delta workspace 1 m 0 h x y z a 0 1 =
           Inr (map (\<lambda>n. if n = 0 then 0 else (x / h) ^ (n - 1) / fact (n - 1) / h) [a..<m + 1]
                @ drop (m + 1 - a) delta, ws))"
proof -
  have idx: "multi_indices 1 a m = map (\<lambda>n. [int n]) [a..<m + 1]"
    by (simp add: multi_indices_def idx1_def)
  have len: "length (multi_indices 1 a m) = m + 1 - a" using assms(2) unfolding idx by simp
  obtain ws where ws: "ScalarTaylor_evaluate delta workspace 1 m h x y z a 0 1 =
     Inr (overlay 0 a (map (\<lambda>vp. 1 * taylor [x / h, y / h, z / h] vp) (multi_indices 1 a m)) delta, ws)"
    using evaluate_closed [of 1 m a workspace delta h x y z 0 1] assms len by auto
  obtain ws' where ws': "ScalarTaylor_evaluatePartialDerivative delta workspace 1 m 0 h x y z a 0 1 =
     Inr (overlay 0 0 (map (\<lambda>vp. 1 / h * taylor [x / h, y / h, z / h] (vp[0 := vp ! 0 - 1]))
       (multi_indices 1 a m)) delta, ws')"
    using derivative_closed(1) [of 1 m 0 0 workspace a delta h x y z 0 1] assms len
      order_trans [OF diff_le_self assms(5), of a] by auto
  have "overlay 0 a (map (\<lambda>vp. 1 * taylor [x / h, y / h, z / h] vp) (multi_indices 1 a m)) delta =
      take a delta @ map (\<lambda>n. (x / h) ^ n / fact n) [a..<m + 1] @ drop (m + 1) delta"
    using assms unfolding idx
    by (intro nth_equalityI)
       (auto simp: nth_overlay nth_append taylor_def tfac_def simp del: upt_Suc)
  moreover have "overlay 0 0 (map (\<lambda>vp. 1 / h * taylor [x / h, y / h, z / h] (vp[0 := vp ! 0 - 1]))
       (multi_indices 1 a m)) delta =
      map (\<lambda>n. if n = 0 then 0 else (x / h) ^ (n - 1) / fact (n - 1) / h) [a..<m + 1]
        @ drop (m + 1 - a) delta"
    using assms unfolding idx
    by (intro nth_equalityI)
       (auto simp: nth_overlay nth_append taylor_def tfac_def nat_diff_distrib nat_add_distrib simp del: upt_Suc)
  ultimately show ?thesis using ws ws' by auto
qed

theorem starting_order_places_witness:
  "(\<exists>ws. ScalarTaylor_evaluate [7, 8] [0, 0] 1 1 1 3 0 0 1 0 1 = Inr ([7, 3], ws))
   \<and> (\<exists>ws. ScalarTaylor_evaluatePartialDerivative [7, 8] [0, 0] 1 1 0 1 3 0 0 1 0 1 = Inr ([1, 8], ws))"
  using starting_order_places [of 1 1 1 "[0, 0]" "[7, 8]" 3 0 0] by simp

end
