(* ===== verification/Compadre_DivergenceFreePolynomial.thy ===== *)
theory Compadre_DivergenceFreePolynomial
  imports Compadre_ScalarTaylorPolynomial
begin

text \<open>
  The divergence-free basis of src/src/basis/Compadre_DivergenceFreePolynomial.hpp: the
  size, and the evaluation of one component of the vector fields and of their first and
  second partial derivatives, in two and three dimensions.  The fields come in blocks:
  one block for each of the first coordinate directions \<open>d\<close>, whose component \<open>d\<close> is a
  scalar Taylor polynomial and another component balances its divergence, and a last
  block of fields along the last direction that do not depend on it.

  The lemmas give the rows in closed form; the properties say that the derivatives are
  derivatives and that the divergence of every field of the basis vanishes.
\<close>

section \<open>The functions\<close>

definition DivFree_getSize :: "int \<Rightarrow> int \<Rightarrow> int" where
  "DivFree_getSize degree dimension =
     (dimension - 1) * ScalarTaylor_getSize degree dimension
       + ScalarTaylor_getSize degree (dimension - 1)"

definition DivFree_evaluate_3d ::
  "real list \<Rightarrow> real list \<Rightarrow> nat \<Rightarrow> int \<Rightarrow> real \<Rightarrow> real \<Rightarrow> real \<Rightarrow> real \<Rightarrow> nat \<Rightarrow> real \<Rightarrow> real
     \<Rightarrow> (real list \<times> real list) result" where
  "DivFree_evaluate_3d delta workspace max_degree component h x y z
      starting_order w0 w1 =
     rbind (power_rows [x / h, y / h, z / h] max_degree workspace) (\<lambda>ws.
     rbind (rfold (\<lambda>d st.
          if d + 1 = 3 then
            if component = int d then
              rfold (\<lambda>n. rfold (\<lambda>alphay.
                add_entry w0 (monomial ws max_degree w1)
                  [int (n - alphay), int alphay])
              [0..<n + 1]) [starting_order..<max_degree + 1] st
            else
              rfold (add_entry w0 (\<lambda>j. Inr (w1 * 0)))
                [0..<nat (ScalarTaylor_getSize (int max_degree) 2)] st
          else if component = int d then
            rfold (\<lambda>n. rfold (\<lambda>alphaz. rfold (\<lambda>alphay.
              add_entry w0 (monomial ws max_degree w1)
                [int (n - alphaz - alphay), int alphay, int alphaz])
            [0..<n - alphaz + 1]) [0..<n + 1]) [starting_order..<max_degree + 1] st
          else if component = (int d + 1) mod 3 then
            rfold (add_entry w0 (\<lambda>j. Inr (w1 * 0)))
              [0..<nat (ScalarTaylor_getSize (int max_degree) 3)] st
          else
            rfold (\<lambda>n. rfold (\<lambda>alphaz. rfold (\<lambda>alphay.
              add_entry w0 (\<lambda>var_pow. rbind (var_dec var_pow (int d)) (\<lambda>var_pow.
                  if list_ex (\<lambda>a. a < 0) var_pow then Inr (w1 * 0)
                  else rbind (var_inc var_pow component) (monomial ws max_degree (w1 * -1))))
                [int (n - alphaz - alphay), int alphay, int alphaz])
            [0..<n - alphaz + 1]) [0..<n + 1]) [starting_order..<max_degree + 1] st)
        [0..<3] (delta, 0)) (\<lambda>(delta, i).
     Inr (delta, ws)))"

definition DivFree_evaluate_2d ::
  "real list \<Rightarrow> real list \<Rightarrow> nat \<Rightarrow> int \<Rightarrow> real \<Rightarrow> real \<Rightarrow> real \<Rightarrow> nat \<Rightarrow> real \<Rightarrow> real
     \<Rightarrow> (real list \<times> real list) result" where
  "DivFree_evaluate_2d delta workspace max_degree component h x y
      starting_order w0 w1 =
     rbind (power_rows [x / h, y / h] max_degree workspace) (\<lambda>ws.
     rbind (rfold (\<lambda>d st.
          if d + 1 = 2 then
            if component = int d then
              rfold (\<lambda>n.
                add_entry w0 (monomial ws max_degree w1)
                  [int n])
              [starting_order..<max_degree + 1] st
            else
              rfold (add_entry w0 (\<lambda>j. Inr (w1 * 0)))
                [0..<nat (ScalarTaylor_getSize (int max_degree) 1)] st
          else if component = int d then
            rfold (\<lambda>n. rfold (\<lambda>alphay.
              add_entry w0 (monomial ws max_degree w1)
                [int (n - alphay), int alphay])
            [0..<n + 1]) [starting_order..<max_degree + 1] st
          else
            rfold (\<lambda>n. rfold (\<lambda>alphay.
              add_entry w0 (\<lambda>var_pow. rbind (var_dec var_pow (int d)) (\<lambda>var_pow.
                  if list_ex (\<lambda>a. a < 0) var_pow then Inr (w1 * 0)
                  else rbind (var_inc var_pow component) (monomial ws max_degree (w1 * -1))))
                [int (n - alphay), int alphay])
            [0..<n + 1]) [starting_order..<max_degree + 1] st)
        [0..<2] (delta, 0)) (\<lambda>(delta, i).
     Inr (delta, ws)))"

definition DivFree_evaluate ::
  "real list \<Rightarrow> real list \<Rightarrow> int \<Rightarrow> nat \<Rightarrow> int \<Rightarrow> real \<Rightarrow> real \<Rightarrow> real \<Rightarrow> real \<Rightarrow> nat
     \<Rightarrow> real \<Rightarrow> real \<Rightarrow> (real list \<times> real list) result" where
  "DivFree_evaluate delta workspace dimension max_degree component h x y z
      starting_order w0 w1 =
     (if dimension = 3 then
        DivFree_evaluate_3d delta workspace max_degree component h x y z
          starting_order w0 w1
      else if dimension = 2 then
        DivFree_evaluate_2d delta workspace max_degree component h x y
          starting_order w0 w1
      else Inl (Kokkos_abort
        ''Divergence-free basis only defined or dimensions 2 and 3.''))"

definition DivFree_evaluatePartialDerivative_3d ::
  "real list \<Rightarrow> real list \<Rightarrow> nat \<Rightarrow> int \<Rightarrow> int \<Rightarrow> real \<Rightarrow> real \<Rightarrow> real \<Rightarrow> real \<Rightarrow> nat \<Rightarrow> real \<Rightarrow> real
     \<Rightarrow> (real list \<times> real list) result" where
  "DivFree_evaluatePartialDerivative_3d delta workspace max_degree component partial_direction h x y z
      starting_order w0 w1 =
     rbind (power_rows [x / h, y / h, z / h] max_degree workspace) (\<lambda>ws.
     rbind (rfold (\<lambda>d st.
          if d + 1 = 3 then
            if component = int d then
              rfold (\<lambda>n. rfold (\<lambda>alphay.
                add_entry w0 (\<lambda>var_pow. rbind (var_dec var_pow partial_direction) (\<lambda>var_pow.
                  if list_ex (\<lambda>a. a < 0) var_pow then Inr (w1 * 0)
                  else monomial ws max_degree (w1 * 1 / h) (take 2 var_pow)))
                  [int (n - alphay), int alphay, 0])
              [0..<n + 1]) [starting_order..<max_degree + 1] st
            else
              rfold (add_entry w0 (\<lambda>j. Inr (w1 * 0)))
                [0..<nat (ScalarTaylor_getSize (int max_degree) 2)] st
          else if component = int d then
            rfold (\<lambda>n. rfold (\<lambda>alphaz. rfold (\<lambda>alphay.
              add_entry w0 (\<lambda>var_pow. rbind (var_dec var_pow partial_direction) (\<lambda>var_pow.
                  derivative_entry ws max_degree (w1 * 0) (w1 * 1 / h) var_pow))
                [int (n - alphaz - alphay), int alphay, int alphaz])
            [0..<n - alphaz + 1]) [0..<n + 1]) [starting_order..<max_degree + 1] st
          else if component = (int d + 1) mod 3 then
            rfold (add_entry w0 (\<lambda>j. Inr (w1 * 0)))
              [0..<nat (ScalarTaylor_getSize (int max_degree) 3)] st
          else
            rfold (\<lambda>n. rfold (\<lambda>alphaz. rfold (\<lambda>alphay.
              add_entry w0 (\<lambda>var_pow. rbind (var_dec var_pow (int d)) (\<lambda>var_pow.
                  if list_ex (\<lambda>a. a < 0) var_pow then Inr (w1 * 0)
                  else rbind (var_inc var_pow component) (\<lambda>var_pow.
                  rbind (var_dec var_pow partial_direction) (\<lambda>var_pow.
                  derivative_entry ws max_degree (w1 * 0) (w1 * -1 / h) var_pow))))
                [int (n - alphaz - alphay), int alphay, int alphaz])
            [0..<n - alphaz + 1]) [0..<n + 1]) [starting_order..<max_degree + 1] st)
        [0..<3] (delta, 0)) (\<lambda>(delta, i).
     Inr (delta, ws)))"

definition DivFree_evaluatePartialDerivative_2d ::
  "real list \<Rightarrow> real list \<Rightarrow> nat \<Rightarrow> int \<Rightarrow> int \<Rightarrow> real \<Rightarrow> real \<Rightarrow> real \<Rightarrow> nat \<Rightarrow> real \<Rightarrow> real
     \<Rightarrow> (real list \<times> real list) result" where
  "DivFree_evaluatePartialDerivative_2d delta workspace max_degree component partial_direction h x y
      starting_order w0 w1 =
     rbind (power_rows [x / h, y / h] max_degree workspace) (\<lambda>ws.
     rbind (rfold (\<lambda>d st.
          if d + 1 = 2 then
            if component = int d then
              rfold (\<lambda>n.
                add_entry w0 (\<lambda>var_pow. rbind (var_dec var_pow partial_direction) (\<lambda>var_pow.
                  if list_ex (\<lambda>a. a < 0) var_pow then Inr (w1 * 0)
                  else monomial ws max_degree (w1 * 1 / h) (take 1 var_pow)))
                  [int n, 0])
              [starting_order..<max_degree + 1] st
            else
              rfold (add_entry w0 (\<lambda>j. Inr (w1 * 0)))
                [0..<nat (ScalarTaylor_getSize (int max_degree) 1)] st
          else if component = int d then
            rfold (\<lambda>n. rfold (\<lambda>alphay.
              add_entry w0 (\<lambda>var_pow. rbind (var_dec var_pow partial_direction) (\<lambda>var_pow.
                  derivative_entry ws max_degree (w1 * 0) (w1 * 1 / h) var_pow))
                [int (n - alphay), int alphay])
            [0..<n + 1]) [starting_order..<max_degree + 1] st
          else
            rfold (\<lambda>n. rfold (\<lambda>alphay.
              add_entry w0 (\<lambda>var_pow. rbind (var_dec var_pow (int d)) (\<lambda>var_pow.
                  if list_ex (\<lambda>a. a < 0) var_pow then Inr (w1 * 0)
                  else rbind (var_inc var_pow component) (\<lambda>var_pow.
                  rbind (var_dec var_pow partial_direction) (\<lambda>var_pow.
                  derivative_entry ws max_degree (w1 * 0) (w1 * -1 / h) var_pow))))
                [int (n - alphay), int alphay])
            [0..<n + 1]) [starting_order..<max_degree + 1] st)
        [0..<2] (delta, 0)) (\<lambda>(delta, i).
     Inr (delta, ws)))"

definition DivFree_evaluatePartialDerivative ::
  "real list \<Rightarrow> real list \<Rightarrow> int \<Rightarrow> nat \<Rightarrow> int \<Rightarrow> int \<Rightarrow> real \<Rightarrow> real \<Rightarrow> real \<Rightarrow> real \<Rightarrow> nat
     \<Rightarrow> real \<Rightarrow> real \<Rightarrow> (real list \<times> real list) result" where
  "DivFree_evaluatePartialDerivative delta workspace dimension max_degree component partial_direction h x y z
      starting_order w0 w1 =
     (if dimension = 3 then
        DivFree_evaluatePartialDerivative_3d delta workspace max_degree component partial_direction h x y z
          starting_order w0 w1
      else if dimension = 2 then
        DivFree_evaluatePartialDerivative_2d delta workspace max_degree component partial_direction h x y
          starting_order w0 w1
      else Inl (Kokkos_abort
        ''Divergence-free basis only defined or dimensions 2 and 3.''))"

definition DivFree_evaluateSecondPartialDerivative_3d ::
  "real list \<Rightarrow> real list \<Rightarrow> nat \<Rightarrow> int \<Rightarrow> int \<Rightarrow> int \<Rightarrow> real \<Rightarrow> real \<Rightarrow> real \<Rightarrow> real \<Rightarrow> nat \<Rightarrow> real \<Rightarrow> real
     \<Rightarrow> (real list \<times> real list) result" where
  "DivFree_evaluateSecondPartialDerivative_3d delta workspace max_degree component partial_direction_1 partial_direction_2 h x y z
      starting_order w0 w1 =
     rbind (power_rows [x / h, y / h, z / h] max_degree workspace) (\<lambda>ws.
     rbind (rfold (\<lambda>d st.
          if d + 1 = 3 then
            if component = int d then
              rfold (\<lambda>n. rfold (\<lambda>alphay.
                add_entry w0 (\<lambda>var_pow. rbind (var_dec var_pow partial_direction_1) (\<lambda>var_pow.
                  rbind (var_dec var_pow partial_direction_2) (\<lambda>var_pow.
                  if list_ex (\<lambda>a. a < 0) var_pow then Inr (w1 * 0)
                  else monomial ws max_degree (w1 * 1 / h / h) (take 2 var_pow))))
                  [int (n - alphay), int alphay, 0])
              [0..<n + 1]) [starting_order..<max_degree + 1] st
            else
              rfold (add_entry w0 (\<lambda>j. Inr (w1 * 0)))
                [0..<nat (ScalarTaylor_getSize (int max_degree) 2)] st
          else if component = int d then
            rfold (\<lambda>n. rfold (\<lambda>alphaz. rfold (\<lambda>alphay.
              add_entry w0 (\<lambda>var_pow. rbind (var_dec var_pow partial_direction_1) (\<lambda>var_pow.
                  rbind (var_dec var_pow partial_direction_2) (\<lambda>var_pow.
                  derivative_entry ws max_degree (w1 * 0) (w1 * 1 / h / h) var_pow)))
                [int (n - alphaz - alphay), int alphay, int alphaz])
            [0..<n - alphaz + 1]) [0..<n + 1]) [starting_order..<max_degree + 1] st
          else if component = (int d + 1) mod 3 then
            rfold (add_entry w0 (\<lambda>j. Inr (w1 * 0)))
              [0..<nat (ScalarTaylor_getSize (int max_degree) 3)] st
          else
            rfold (\<lambda>n. rfold (\<lambda>alphaz. rfold (\<lambda>alphay.
              add_entry w0 (\<lambda>var_pow. rbind (var_dec var_pow (int d)) (\<lambda>var_pow.
                  if list_ex (\<lambda>a. a < 0) var_pow then Inr (w1 * 0)
                  else rbind (var_inc var_pow component) (\<lambda>var_pow.
                  rbind (var_dec var_pow partial_direction_1) (\<lambda>var_pow.
                  rbind (var_dec var_pow partial_direction_2) (\<lambda>var_pow.
                  derivative_entry ws max_degree (w1 * 0) (w1 * -1 / h / h) var_pow)))))
                [int (n - alphaz - alphay), int alphay, int alphaz])
            [0..<n - alphaz + 1]) [0..<n + 1]) [starting_order..<max_degree + 1] st)
        [0..<3] (delta, 0)) (\<lambda>(delta, i).
     Inr (delta, ws)))"

definition DivFree_evaluateSecondPartialDerivative_2d ::
  "real list \<Rightarrow> real list \<Rightarrow> nat \<Rightarrow> int \<Rightarrow> int \<Rightarrow> int \<Rightarrow> real \<Rightarrow> real \<Rightarrow> real \<Rightarrow> nat \<Rightarrow> real \<Rightarrow> real
     \<Rightarrow> (real list \<times> real list) result" where
  "DivFree_evaluateSecondPartialDerivative_2d delta workspace max_degree component partial_direction_1 partial_direction_2 h x y
      starting_order w0 w1 =
     rbind (power_rows [x / h, y / h] max_degree workspace) (\<lambda>ws.
     rbind (rfold (\<lambda>d st.
          if d + 1 = 2 then
            if component = int d then
              rfold (\<lambda>n.
                add_entry w0 (\<lambda>var_pow. rbind (var_dec var_pow partial_direction_1) (\<lambda>var_pow.
                  rbind (var_dec var_pow partial_direction_2) (\<lambda>var_pow.
                  if list_ex (\<lambda>a. a < 0) var_pow then Inr (w1 * 0)
                  else monomial ws max_degree (w1 * 1 / h / h) (take 1 var_pow))))
                  [int n, 0])
              [starting_order..<max_degree + 1] st
            else
              rfold (add_entry w0 (\<lambda>j. Inr (w1 * 0)))
                [0..<nat (ScalarTaylor_getSize (int max_degree) 1)] st
          else if component = int d then
            rfold (\<lambda>n. rfold (\<lambda>alphay.
              add_entry w0 (\<lambda>var_pow. rbind (var_dec var_pow partial_direction_1) (\<lambda>var_pow.
                  rbind (var_dec var_pow partial_direction_2) (\<lambda>var_pow.
                  derivative_entry ws max_degree (w1 * 0) (w1 * 1 / h / h) var_pow)))
                [int (n - alphay), int alphay])
            [0..<n + 1]) [starting_order..<max_degree + 1] st
          else
            rfold (\<lambda>n. rfold (\<lambda>alphay.
              add_entry w0 (\<lambda>var_pow. rbind (var_dec var_pow (int d)) (\<lambda>var_pow.
                  if list_ex (\<lambda>a. a < 0) var_pow then Inr (w1 * 0)
                  else rbind (var_inc var_pow component) (\<lambda>var_pow.
                  rbind (var_dec var_pow partial_direction_1) (\<lambda>var_pow.
                  rbind (var_dec var_pow partial_direction_2) (\<lambda>var_pow.
                  derivative_entry ws max_degree (w1 * 0) (w1 * -1 / h / h) var_pow)))))
                [int (n - alphay), int alphay])
            [0..<n + 1]) [starting_order..<max_degree + 1] st)
        [0..<2] (delta, 0)) (\<lambda>(delta, i).
     Inr (delta, ws)))"

definition DivFree_evaluateSecondPartialDerivative ::
  "real list \<Rightarrow> real list \<Rightarrow> int \<Rightarrow> nat \<Rightarrow> int \<Rightarrow> int \<Rightarrow> int \<Rightarrow> real \<Rightarrow> real \<Rightarrow> real \<Rightarrow> real \<Rightarrow> nat
     \<Rightarrow> real \<Rightarrow> real \<Rightarrow> (real list \<times> real list) result" where
  "DivFree_evaluateSecondPartialDerivative delta workspace dimension max_degree component partial_direction_1 partial_direction_2 h x y z
      starting_order w0 w1 =
     (if dimension = 3 then
        DivFree_evaluateSecondPartialDerivative_3d delta workspace max_degree component partial_direction_1 partial_direction_2 h x y z
          starting_order w0 w1
      else if dimension = 2 then
        DivFree_evaluateSecondPartialDerivative_2d delta workspace max_degree component partial_direction_1 partial_direction_2 h x y
          starting_order w0 w1
      else Inl (Kokkos_abort
        ''Divergence-free basis only defined or dimensions 2 and 3.''))"

section \<open>The basis in closed form\<close>

text \<open>
  The fields of the basis in the order of the rows: the block \<open>d\<close> and the exponents of
  the scalar polynomial, those of the last block with a 0 for the last direction.
\<close>

definition df_layer :: "nat \<Rightarrow> nat \<Rightarrow> nat \<Rightarrow> int list list" where
  "df_layer nd m d =
     (if d + 1 = nd then map (\<lambda>vp. vp @ [0]) (multi_indices (nd - 1) 0 m)
      else multi_indices nd 0 m)"

definition df_index :: "nat \<Rightarrow> nat \<Rightarrow> (nat \<times> int list) list" where
  "df_index nd m = concat (map (\<lambda>d. map (Pair d) (df_layer nd m d)) [0..<nd])"

text \<open>Component \<open>c\<close> of a field of block \<open>d\<close>: a sign and the exponents of one monomial.\<close>

definition df_sign :: "nat \<Rightarrow> nat \<Rightarrow> nat \<Rightarrow> real" where
  "df_sign nd c d =
     (if c = d then 1 else if d + 1 = nd \<or> nd = 3 \<and> c = (d + 1) mod 3 then 0 else -1)"

definition df_exps :: "nat \<Rightarrow> nat \<Rightarrow> int list \<Rightarrow> int list" where
  "df_exps c d vp = (if c = d then vp else vp[d := vp ! d - 1, c := vp ! c + 1])"

definition lower :: "nat \<Rightarrow> int list \<Rightarrow> int list" where
  "lower p vp = vp[p := vp ! p - 1]"

lemma length_lower [simp]: "length (lower p vp) = length vp"
  by (simp add: lower_def)

lemma length_df_exps [simp]: "length (df_exps c d vp) = length vp"
  by (simp add: df_exps_def)

lemma lower_negative: "\<exists>e \<in> set vp. e < 0 \<Longrightarrow> \<exists>e \<in> set (lower p vp). e < 0"
proof -
  assume "\<exists>e \<in> set vp. e < 0"
  then obtain k where k: "k < length vp" "vp ! k < 0" by (auto simp: in_set_conv_nth)
  then have "lower p vp ! k < 0" by (cases "p < length vp") (simp_all add: lower_def nth_list_update)
  moreover have "lower p vp ! k \<in> set (lower p vp)" using k by (intro nth_mem) simp
  ultimately show ?thesis by blast
qed

lemma lower_le: "k < length vp \<Longrightarrow> lower p vp ! k \<le> vp ! k"
  by (cases "p < length vp") (simp_all add: lower_def nth_list_update)

lemma lower_bound: "\<forall>e \<in> set vp. e \<le> b \<Longrightarrow> \<forall>e \<in> set (lower p vp). e \<le> b"
  using lower_le by (metis (no_types, lifting) in_set_conv_nth length_lower order_trans)

lemma taylor_last_0:
  assumes "length vp = Suc n" "vp ! n = 0"
  shows "taylor ts (take n vp) = taylor ts vp"
proof -
  have "(\<Prod>k<n. tfac (ts ! k) (take n vp ! k)) = (\<Prod>k<n. tfac (ts ! k) (vp ! k))"
    by (intro prod.cong) simp_all
  then show ?thesis using assms by (simp add: taylor_def tfac_def)
qed

lemma idx_loops_pad:
  "rfold (\<lambda>n. f [int n, 0]) [a..<m + 1] s = rfold f (map (\<lambda>vp. vp @ [0]) (idx1 a m)) s"
  "rfold (\<lambda>n. rfold (\<lambda>k. f [int (n - k), int k, 0]) [0..<n + 1]) [a..<m + 1] s =
     rfold f (map (\<lambda>vp. vp @ [0]) (idx2 a m)) s"
  by (simp_all only: idx1_def idx2_def rfold_concat rfold_map append_Cons append_Nil)

text \<open>Blocks that store their values one behind the other.\<close>

lemma rfold_blocks:
  assumes "\<And>d i \<delta>. d \<in> set ds \<Longrightarrow> i + length (B d) \<le> length \<delta> \<Longrightarrow>
      F d (\<delta>, int i) = Inr (overlay w0 i (B d) \<delta>, int (i + length (B d)))"
    and "i + length (concat (map B ds)) \<le> length \<delta>"
  shows "rfold F ds (\<delta>, int i) =
    Inr (overlay w0 i (concat (map B ds)) \<delta>, int (i + length (concat (map B ds))))"
  using assms
proof (induction ds arbitrary: i \<delta>)
  case Nil
  then show ?case by simp
next
  case (Cons d ds)
  have "rfold F ds (overlay w0 i (B d) \<delta>, int (i + length (B d))) =
      Inr (overlay w0 (i + length (B d)) (concat (map B ds)) (overlay w0 i (B d) \<delta>),
           int (i + length (B d) + length (concat (map B ds))))"
    using Cons.prems by (intro Cons.IH) auto
  moreover have "F d (\<delta>, int i) = Inr (overlay w0 i (B d) \<delta>, int (i + length (B d)))"
    using Cons.prems by auto
  ultimately show ?case by (simp add: overlay_append add.assoc)
qed

text \<open>
  One row, given the three kinds of loop bodies: \<open>T\<close> lowers the exponents for the
  derivatives and \<open>k\<close> is the scale of an entry.
\<close>

definition df_values ::
  "real list \<Rightarrow> nat \<Rightarrow> nat \<Rightarrow> nat \<Rightarrow> real \<Rightarrow> (int list \<Rightarrow> int list) \<Rightarrow> real list" where
  "df_values ts nd m c k T =
     map (\<lambda>(d, vp). k * (df_sign nd c d * taylor ts (T (df_exps c d vp)))) (df_index nd m)"

lemma length_df_layer:
  assumes "nd \<in> {2, 3}"
  shows "length (df_layer nd m d) =
    nat (ScalarTaylor_getSize (int m) (if d + 1 = nd then int nd - 1 else int nd))"
proof -
  have "nd - 1 \<in> {1, 2, 3}" "nd \<in> {1, 2, 3}" "int (nd - 1) = int nd - 1" using assms by auto
  then show ?thesis
    using length_multi_indices [of "nd - 1" m] length_multi_indices [of nd m]
    by (auto simp: df_layer_def simp flip: nat_int)
qed

lemma length_df_index:
  assumes "nd \<in> {2, 3}"
  shows "int (length (df_index nd m)) = DivFree_getSize (int m) (int nd)"
proof -
  have nonneg: "0 \<le> ScalarTaylor_getSize (int m) (int n)" if "n \<in> {1, 2, 3}" for n
    using length_multi_indices [OF that, of m] by (metis of_nat_0_le_iff)
  have "length (df_index nd m) = (\<Sum>d<nd. length (df_layer nd m d))"
    by (simp add: df_index_def length_concat comp_def interv_sum_list_conv_sum_set_nat
        atLeast0LessThan)
  then show ?thesis
    using assms nonneg [of 1] nonneg [of 2] nonneg [of 3]
    by (auto simp: length_df_layer [OF assms] DivFree_getSize_def numeral_eq_Suc)
qed

definition df_block where
  "df_block nd m c w0 w1 glast gsame gthird = (\<lambda>d st.
      if d + 1 = nd then
        if c = int d then rfold (add_entry w0 glast) (df_layer nd m (nd - 1)) st
        else rfold (add_entry w0 (\<lambda>j. Inr (w1 * 0)))
               [0..<nat (ScalarTaylor_getSize (int m) (int nd - 1))] st
      else if c = int d then rfold (add_entry w0 gsame) (multi_indices nd 0 m) st
      else if nd = 3 \<and> c = (int d + 1) mod 3 then
        rfold (add_entry w0 (\<lambda>j. Inr (w1 * 0))) [0..<nat (ScalarTaylor_getSize (int m) (int nd))] st
      else rfold (add_entry w0 (gthird d)) (multi_indices nd 0 m) st)"

lemma df_blocks:
  assumes nd: "nd \<in> {2, 3}" and c: "c < nd" and w: "w1 * 0 = (0 :: real)"
    and last: "\<And>vp. vp \<in> set (df_layer nd m (nd - 1)) \<Longrightarrow> glast vp = Inr (k * taylor ts (T vp))"
    and same: "\<And>vp. vp \<in> set (multi_indices nd 0 m) \<Longrightarrow> gsame vp = Inr (k * taylor ts (T vp))"
    and third: "\<And>d vp. vp \<in> set (multi_indices nd 0 m) \<Longrightarrow> d < nd \<Longrightarrow> d \<noteq> c \<Longrightarrow>
        gthird d vp = Inr (- k * taylor ts (T (df_exps c d vp)))"
    and room: "length (df_index nd m) \<le> length \<delta>"
  shows "rfold (df_block nd m (int c) w0 w1 glast gsame gthird) [0..<nd] (\<delta>, 0) =
    Inr (overlay w0 0 (df_values ts nd m c k T) \<delta>, int (length (df_index nd m)))"
    (is "rfold ?F _ _ = _")
proof -
  let ?B = "\<lambda>d. map (\<lambda>vp. k * (df_sign nd c d * taylor ts (T (df_exps c d vp)))) (df_layer nd m d)"
  have B: "concat (map ?B [0..<nd]) = df_values ts nd m c k T"
    by (simp add: df_values_def df_index_def map_concat comp_def)
  have block: "?F d (\<delta>, int i) = Inr (overlay w0 i (?B d) \<delta>, int (i + length (?B d)))"
    if d: "d \<in> set [0..<nd]" and len: "i + length (?B d) \<le> length \<delta>" for d i \<delta>
  proof -
    have mod: "(int d + 1) mod 3 = int ((d + 1) mod 3)" by (simp add: zmod_int add.commute)
    have loop: "rfold (add_entry w0 g) es (\<delta>, int i) = Inr (overlay w0 i (?B d) \<delta>, int (i + length (?B d)))"
      if "\<And>e. e \<in> set es \<Longrightarrow> g e = Inr (v e)" "map v es = ?B d" for g v and es :: "'z list"
    proof -
      have "length es = length (?B d)" using arg_cong [OF that(2), of length] by simp
      then show ?thesis using store_loop [of es g v i \<delta> w0] that len by auto
    qed
    have zeros: "rfold (add_entry w0 (\<lambda>j. Inr (w1 * 0))) [0..<length (df_layer nd m d)] (\<delta>, int i) =
        Inr (overlay w0 i (?B d) \<delta>, int (i + length (?B d)))" if "df_sign nd c d = 0"
      using loop [of "[0..<length (df_layer nd m d)]" "\<lambda>j. Inr (w1 * 0)" "\<lambda>j. 0"] that w
      by (simp add: map_replicate_const)
    have layer: "df_layer nd m d = multi_indices nd 0 m" if "d + 1 \<noteq> nd"
      using that by (simp add: df_layer_def)
    consider "d + 1 = nd" "c = d" | "d + 1 = nd" "c \<noteq> d" | "d + 1 \<noteq> nd" "c = d"
      | "d + 1 \<noteq> nd" "c \<noteq> d" "nd = 3 \<and> c = (d + 1) mod 3"
      | "d + 1 \<noteq> nd" "c \<noteq> d" "\<not> (nd = 3 \<and> c = (d + 1) mod 3)" by blast
    then show ?thesis
    proof cases
      case 1
      then have "d = nd - 1" by simp
      then show ?thesis
        using 1 loop [of "df_layer nd m d" glast "\<lambda>vp. k * taylor ts (T vp)"] last
        by (simp add: df_block_def df_sign_def df_exps_def)
    next
      case 2
      then show ?thesis
        using zeros length_df_layer [OF nd, of m d] by (simp add: df_block_def df_sign_def)
    next
      case 3
      then show ?thesis
        using loop [of "multi_indices nd 0 m" gsame "\<lambda>vp. k * taylor ts (T vp)"] same layer
        by (simp add: df_block_def df_sign_def df_exps_def)
    next
      case 4
      then show ?thesis
        using zeros length_df_layer [OF nd, of m d] mod by (auto simp: df_block_def df_sign_def)
    next
      case 5
      then have "df_sign nd c d = -1" "\<not> (nd = 3 \<and> int c = (int d + 1) mod 3)"
        using mod by (auto simp: df_sign_def)
      then show ?thesis
        using 5 d loop [of "multi_indices nd 0 m" "gthird d" "\<lambda>vp. - k * taylor ts (T (df_exps c d vp))"]
          third layer
        by (auto simp: df_block_def)
    qed
  qed
  have len: "length (df_values ts nd m c k T) = length (df_index nd m)"
    by (simp add: df_values_def)
  show ?thesis
    using rfold_blocks [where i = 0 and ds = "[0..<nd]" and B = ?B and F = ?F, OF block] room
    unfolding B len by simp
qed

text \<open>The three functions are made of such blocks.\<close>

lemma evaluate_blocks:
  assumes "nd \<in> {2, 3}"
  shows "DivFree_evaluate \<delta> W (int nd) m c h x y z 0 w0 w1 =
    rbind (power_rows (take nd [x / h, y / h, z / h]) m W) (\<lambda>ws.
    rbind (rfold (df_block nd m c w0 w1
        (\<lambda>vp. monomial ws m w1 (butlast vp))
        (monomial ws m w1)
        (\<lambda>d vp. rbind (var_dec vp (int d)) (\<lambda>vp.
           if list_ex (\<lambda>a. a < 0) vp then Inr (w1 * 0)
           else rbind (var_inc vp c) (monomial ws m (w1 * -1)))))
      [0..<nd] (\<delta>, 0)) (\<lambda>(\<delta>, i). Inr (\<delta>, ws)))"
proof -
  have last: "add_entry w0 (\<lambda>vp. g (butlast vp)) (vp @ [a]) = add_entry w0 g vp" for g vp and a :: int
    by (simp add: add_entry_def [abs_def])
  show ?thesis
    unfolding DivFree_evaluate_def DivFree_evaluate_3d_def DivFree_evaluate_2d_def idx_loops
    using assms
    by (auto simp: df_block_def df_layer_def multi_indices_def rfold_map last cong: if_cong)
qed

lemma partial_blocks:
  assumes "nd \<in> {2, 3}"
  shows "DivFree_evaluatePartialDerivative \<delta> W (int nd) m c p h x y z 0 w0 w1 =
    rbind (power_rows (take nd [x / h, y / h, z / h]) m W) (\<lambda>ws.
    rbind (rfold (df_block nd m c w0 w1
        (\<lambda>vp. rbind (var_dec vp p) (\<lambda>vp. if list_ex (\<lambda>a. a < 0) vp then Inr (w1 * 0)
           else monomial ws m (w1 * 1 / h) (take (nd - 1) vp)))
        (\<lambda>vp. rbind (var_dec vp p) (\<lambda>vp. derivative_entry ws m (w1 * 0) (w1 * 1 / h) vp))
        (\<lambda>d vp. rbind (var_dec vp (int d)) (\<lambda>vp.
           if list_ex (\<lambda>a. a < 0) vp then Inr (w1 * 0)
           else rbind (var_inc vp c) (\<lambda>vp. rbind (var_dec vp p) (\<lambda>vp.
             derivative_entry ws m (w1 * 0) (w1 * -1 / h) vp)))))
      [0..<nd] (\<delta>, 0)) (\<lambda>(\<delta>, i). Inr (\<delta>, ws)))"
  unfolding DivFree_evaluatePartialDerivative_def DivFree_evaluatePartialDerivative_3d_def
    DivFree_evaluatePartialDerivative_2d_def idx_loops idx_loops_pad
  using assms
  by (auto simp: df_block_def df_layer_def multi_indices_def cong: if_cong)

lemma second_blocks:
  assumes "nd \<in> {2, 3}"
  shows "DivFree_evaluateSecondPartialDerivative \<delta> W (int nd) m c p q h x y z 0 w0 w1 =
    rbind (power_rows (take nd [x / h, y / h, z / h]) m W) (\<lambda>ws.
    rbind (rfold (df_block nd m c w0 w1
        (\<lambda>vp. rbind (var_dec vp p) (\<lambda>vp. rbind (var_dec vp q) (\<lambda>vp.
           if list_ex (\<lambda>a. a < 0) vp then Inr (w1 * 0)
           else monomial ws m (w1 * 1 / h / h) (take (nd - 1) vp))))
        (\<lambda>vp. rbind (var_dec vp p) (\<lambda>vp. rbind (var_dec vp q) (\<lambda>vp.
           derivative_entry ws m (w1 * 0) (w1 * 1 / h / h) vp)))
        (\<lambda>d vp. rbind (var_dec vp (int d)) (\<lambda>vp.
           if list_ex (\<lambda>a. a < 0) vp then Inr (w1 * 0)
           else rbind (var_inc vp c) (\<lambda>vp. rbind (var_dec vp p) (\<lambda>vp. rbind (var_dec vp q) (\<lambda>vp.
             derivative_entry ws m (w1 * 0) (w1 * -1 / h / h) vp))))))
      [0..<nd] (\<delta>, 0)) (\<lambda>(\<delta>, i). Inr (\<delta>, ws)))"
  unfolding DivFree_evaluateSecondPartialDerivative_def DivFree_evaluateSecondPartialDerivative_3d_def
    DivFree_evaluateSecondPartialDerivative_2d_def idx_loops idx_loops_pad
  using assms
  by (auto simp: df_block_def df_layer_def multi_indices_def cong: if_cong)

section \<open>The three rows\<close>

lemma balance_entry:
  assumes vp: "length vp = n" "\<forall>e \<in> set vp. 0 \<le> e" "sum_list vp \<le> int m"
    and dc: "d < n" "c < n" "d \<noteq> c"
    and K: "\<And>up. length up = n \<Longrightarrow> \<forall>e \<in> set up. 0 \<le> e \<and> e \<le> int m \<Longrightarrow>
        K up = Inr (k * taylor ts (T up))"
    and T: "\<And>up. \<exists>e \<in> set up. e < 0 \<Longrightarrow> taylor ts (T up) = 0"
  shows "rbind (var_dec vp (int d)) (\<lambda>vp. if list_ex (\<lambda>a. a < 0) vp then Inr (w1 * 0)
      else rbind (var_inc vp (int c)) K) = Inr (k * taylor ts (T (df_exps c d vp)))"
proof -
  let ?up = "df_exps c d vp"
  have up: "?up = vp[d := vp ! d - 1, c := vp ! c + 1]" using dc by (simp add: df_exps_def)
  have nth: "?up ! i = (if i = c then vp ! c + 1 else if i = d then vp ! d - 1 else vp ! i)"
    if "i < n" for i
    using that vp(1) dc by (simp add: up nth_list_update)
  have pos: "0 \<le> vp ! i" if "i < n" for i using that vp(1,2) by simp
  show ?thesis
  proof (cases "vp ! d = 0")
    case True
    then have "list_ex (\<lambda>a. a < 0) (vp[d := vp ! d - 1])"
      using dc vp(1) True by (auto simp: list_ex_iff intro!: bexI [OF _ set_update_memI])
    moreover have "\<exists>e \<in> set ?up. e < 0"
    proof (rule bexI)
      show "?up ! d < 0" using nth [OF dc(1)] True dc by simp
      show "?up ! d \<in> set ?up" using dc vp(1) by (intro nth_mem) simp
    qed
    ultimately show ?thesis using T [of ?up] dc vp(1) by simp
  next
    case False
    then have d: "1 \<le> vp ! d" using pos [OF dc(1)] by simp
    have two: "vp ! i + vp ! j \<le> int m" if "i < n" "j < n" "i \<noteq> j" for i j
    proof -
      have "(\<Sum>l \<in> {i, j}. vp ! l) \<le> (\<Sum>l<n. vp ! l)"
        using that pos by (intro sum_mono2) auto
      then show ?thesis
        using that vp(1,3) by (simp add: sum_list_sum_nth atLeast0LessThan)
    qed
    have all: "\<forall>e \<in> set ?up. 0 \<le> e \<and> e \<le> int m"
    proof -
      have "0 \<le> ?up ! i \<and> ?up ! i \<le> int m" if "i < n" for i
        using nth [OF that] pos [OF that] pos [OF dc(2)] pos [OF dc(1)] two [OF dc] d
          two [OF that dc(1)] by auto
      then show ?thesis using vp(1) by (auto simp: in_set_conv_nth)
    qed
    have "\<not> list_ex (\<lambda>a. a < 0) (vp[d := vp ! d - 1])"
    proof -
      have "0 \<le> vp[d := vp ! d - 1] ! i" if "i < n" for i
        using that pos [OF that] d vp(1) by (cases "i = d") simp_all
      then show ?thesis
        using vp(1) by (auto simp: list_ex_iff in_set_conv_nth not_less)
    qed
    moreover have "var_inc (vp[d := vp ! d - 1]) (int c) = Inr ?up"
      using dc vp(1) by (simp add: up)
    ultimately show ?thesis using K [OF _ all] dc vp(1) by simp
  qed
qed

lemma df_layer_last:
  assumes "nd \<in> {2, 3}" "vp \<in> set (df_layer nd m (nd - 1))"
  shows "length vp = nd" "\<forall>e \<in> set vp. 0 \<le> e \<and> e \<le> int m" "vp ! (nd - 1) = 0"
proof -
  obtain up where up: "vp = up @ [0]" "up \<in> set (multi_indices (nd - 1) 0 m)"
    using assms by (auto simp: df_layer_def)
  have "nd - 1 \<in> {1, 2, 3}" using assms(1) by auto
  note dims = multi_indices_dim [OF this up(2)]
  show "length vp = nd" "\<forall>e \<in> set vp. 0 \<le> e \<and> e \<le> int m" "vp ! (nd - 1) = 0"
    using dims assms(1) by (auto simp: up(1) nth_append)
qed

lemma multi_indices_all:
  assumes "nd \<in> {2, 3}" "vp \<in> set (multi_indices nd 0 m)"
  shows "length vp = nd" "\<forall>e \<in> set vp. 0 \<le> e" "\<forall>e \<in> set vp. e \<le> int m" "sum_list vp \<le> int m"
proof -
  have nd: "nd \<in> {1, 2, 3}" using assms(1) by auto
  show "length vp = nd" "\<forall>e \<in> set vp. 0 \<le> e" "\<forall>e \<in> set vp. e \<le> int m" "sum_list vp \<le> int m"
    using multi_indices_dim [OF nd assms(2)] assms(2) set_multi_indices [OF nd, of 0 m] by auto
qed

text \<open>The loop bodies, with the exponents lowered by \<open>T\<close>.\<close>

lemma last_entry:
  assumes tab: "tables ts m ws" "length ts = nd" "m \<le> 14" and nd: "nd \<in> {2, 3}"
    and up: "length up = nd" "\<forall>e \<in> set up. e \<le> int m" "up ! (nd - 1) \<le> 0"
  shows "(if list_ex (\<lambda>a. a < 0) up then Inr (w1 * 0) else monomial ws m k (take (nd - 1) up)) =
    Inr (k * taylor ts up)"
proof (cases "list_ex (\<lambda>a. a < 0) up")
  case True
  then show ?thesis using taylor_negative [of up ts] by (simp add: list_ex_iff)
next
  case False
  then have nonneg: "\<forall>e \<in> set up. 0 \<le> e" by (auto simp: list_ex_iff not_less)
  have "nd - 1 < length up" using nd up(1) by auto
  then have "0 \<le> up ! (nd - 1)" using nonneg nth_mem by blast
  then have "up ! (nd - 1) = 0" using up(3) by simp
  moreover have "length up = Suc (nd - 1)" using nd up(1) by auto
  ultimately have "taylor ts (take (nd - 1) up) = taylor ts up" by (intro taylor_last_0)
  moreover have "monomial ws m k (take (nd - 1) up) = Inr (k * taylor ts (take (nd - 1) up))"
    using tab nonneg up(2) by (intro monomial_ok) (auto dest: in_set_takeD)
  ultimately show ?thesis using False by simp
qed

lemma evaluate_rows:
  assumes nd: "nd \<in> {2, 3}" and m: "m \<le> 14" and c: "c < nd"
    and "nd * (m + 1) \<le> length W" and room: "length (df_index nd m) \<le> length \<delta>"
  shows "\<exists>ws. DivFree_evaluate \<delta> W (int nd) m (int c) h x y z 0 w0 w1 =
    Inr (overlay w0 0 (df_values (take nd [x / h, y / h, z / h]) nd m c w1 (\<lambda>vp. vp)) \<delta>, ws)
    \<and> length ws = length W"
proof -
  let ?ts = "take nd [x / h, y / h, z / h]"
  have len: "length ?ts = nd" using nd by auto
  obtain ws where ws: "power_rows ?ts m W = Inr ws" "length ws = length W" "tables ?ts m ws"
    using power_rows_dim [OF _ assms(4), of x h y z] nd by force
  have mono: "monomial ws m k vp = Inr (k * taylor ?ts vp)"
    if "length vp = nd" "\<forall>e \<in> set vp. 0 \<le> e \<and> e \<le> int m" for vp k
    using monomial_ok [OF ws(3) _ m that(2)] that(1) len by simp
  have "rfold (df_block nd m (int c) w0 w1 (\<lambda>vp. monomial ws m w1 (butlast vp)) (monomial ws m w1)
      (\<lambda>d vp. rbind (var_dec vp (int d)) (\<lambda>vp.
         if list_ex (\<lambda>a. a < 0) vp then Inr (w1 * 0)
         else rbind (var_inc vp (int c)) (monomial ws m (w1 * -1))))) [0..<nd] (\<delta>, 0) =
    Inr (overlay w0 0 (df_values ?ts nd m c w1 (\<lambda>vp. vp)) \<delta>, int (length (df_index nd m)))"
  proof (rule df_blocks [OF nd c _ _ _ _ room])
    fix vp assume vp: "vp \<in> set (df_layer nd m (nd - 1))"
    note dims = df_layer_last [OF nd vp]
    have "butlast vp = take (nd - 1) vp" using dims(1) by (simp add: butlast_conv_take)
    moreover have "\<not> list_ex (\<lambda>a. a < 0) vp" using dims(2) by (auto simp: list_ex_iff not_less)
    ultimately show "monomial ws m w1 (butlast vp) = Inr (w1 * taylor ?ts vp)"
      using last_entry [OF ws(3) len m nd, of vp 0 w1] dims by simp
  next
    fix vp assume "vp \<in> set (multi_indices nd 0 m)"
    then show "monomial ws m w1 vp = Inr (w1 * taylor ?ts vp)"
      using mono multi_indices_all [OF nd] by simp
  next
    fix d vp assume "vp \<in> set (multi_indices nd 0 m)" "d < nd" "d \<noteq> c"
    then show "rbind (var_dec vp (int d)) (\<lambda>vp.
         if list_ex (\<lambda>a. a < 0) vp then Inr (w1 * 0)
         else rbind (var_inc vp (int c)) (monomial ws m (w1 * -1))) =
       Inr (- w1 * taylor ?ts (df_exps c d vp))"
      using balance_entry [of vp nd m d c "monomial ws m (w1 * -1)" "w1 * -1" ?ts "\<lambda>up. up" w1]
        multi_indices_all [OF nd] c mono taylor_negative by auto
  qed simp
  then show ?thesis using ws by (simp add: evaluate_blocks [OF nd])
qed

lemma partial_rows:
  assumes nd: "nd \<in> {2, 3}" and m: "m \<le> 14" and c: "c < nd" and p: "p < nd"
    and "nd * (m + 1) \<le> length W" and room: "length (df_index nd m) \<le> length \<delta>"
  shows "\<exists>ws. DivFree_evaluatePartialDerivative \<delta> W (int nd) m (int c) (int p) h x y z 0 w0 w1 =
    Inr (overlay w0 0 (df_values (take nd [x / h, y / h, z / h]) nd m c (w1 / h) (lower p)) \<delta>, ws)
    \<and> length ws = length W"
proof -
  let ?ts = "take nd [x / h, y / h, z / h]"
  have len: "length ?ts = nd" using nd by auto
  obtain ws where ws: "power_rows ?ts m W = Inr ws" "length ws = length W" "tables ?ts m ws"
    using power_rows_dim [OF _ assms(5), of x h y z] nd by force
  have dec: "var_dec vp (int p) = Inr (lower p vp)" if "length vp = nd" for vp
    using that p by (simp add: lower_def)
  have entry: "rbind (var_dec vp (int p)) (\<lambda>vp. derivative_entry ws m (w1 * 0) k vp) =
      Inr (k * taylor ?ts (lower p vp))"
    if "length vp = nd" "\<forall>e \<in> set vp. e \<le> int m" for vp k
    using derivative_entry_ok [OF ws(3) _ m lower_bound [OF that(2)], of p w1 k] dec that len
    by simp
  have "rfold (df_block nd m (int c) w0 w1
        (\<lambda>vp. rbind (var_dec vp (int p)) (\<lambda>vp. if list_ex (\<lambda>a. a < 0) vp then Inr (w1 * 0)
           else monomial ws m (w1 * 1 / h) (take (nd - 1) vp)))
        (\<lambda>vp. rbind (var_dec vp (int p)) (\<lambda>vp. derivative_entry ws m (w1 * 0) (w1 * 1 / h) vp))
        (\<lambda>d vp. rbind (var_dec vp (int d)) (\<lambda>vp.
           if list_ex (\<lambda>a. a < 0) vp then Inr (w1 * 0)
           else rbind (var_inc vp (int c)) (\<lambda>vp. rbind (var_dec vp (int p)) (\<lambda>vp.
             derivative_entry ws m (w1 * 0) (w1 * -1 / h) vp))))) [0..<nd] (\<delta>, 0) =
    Inr (overlay w0 0 (df_values ?ts nd m c (w1 / h) (lower p)) \<delta>, int (length (df_index nd m)))"
  proof (rule df_blocks [OF nd c _ _ _ _ room])
    fix vp assume vp: "vp \<in> set (df_layer nd m (nd - 1))"
    note dims = df_layer_last [OF nd vp]
    have "\<forall>e \<in> set (lower p vp). e \<le> int m" using lower_bound dims(2) by blast
    moreover have "nd - 1 < length vp" using dims(1) nd by auto
    then have "lower p vp ! (nd - 1) \<le> 0" using lower_le [of "nd - 1" vp p] dims(3) by simp
    ultimately have "(if list_ex (\<lambda>a. a < 0) (lower p vp) then Inr (w1 * 0)
        else monomial ws m (w1 * 1 / h) (take (nd - 1) (lower p vp))) =
      Inr (w1 * 1 / h * taylor ?ts (lower p vp))"
      using dims(1) by (intro last_entry [OF ws(3) len m nd]) simp_all
    then show "rbind (var_dec vp (int p)) (\<lambda>vp. if list_ex (\<lambda>a. a < 0) vp then Inr (w1 * 0)
           else monomial ws m (w1 * 1 / h) (take (nd - 1) vp)) = Inr (w1 / h * taylor ?ts (lower p vp))"
      by (simp only: dec [OF dims(1)] rbind_Inr mult_1_right)
  next
    fix vp assume "vp \<in> set (multi_indices nd 0 m)"
    then show "rbind (var_dec vp (int p)) (\<lambda>vp. derivative_entry ws m (w1 * 0) (w1 * 1 / h) vp) =
        Inr (w1 / h * taylor ?ts (lower p vp))"
      using entry [of vp "w1 * 1 / h"] multi_indices_all [OF nd] by simp
  next
    fix d vp assume "vp \<in> set (multi_indices nd 0 m)" "d < nd" "d \<noteq> c"
    then show "rbind (var_dec vp (int d)) (\<lambda>vp.
           if list_ex (\<lambda>a. a < 0) vp then Inr (w1 * 0)
           else rbind (var_inc vp (int c)) (\<lambda>vp. rbind (var_dec vp (int p)) (\<lambda>vp.
             derivative_entry ws m (w1 * 0) (w1 * -1 / h) vp))) =
       Inr (- (w1 / h) * taylor ?ts (lower p (df_exps c d vp)))"
      using balance_entry [of vp nd m d c "\<lambda>vp. rbind (var_dec vp (int p)) (\<lambda>vp.
            derivative_entry ws m (w1 * 0) (w1 * -1 / h) vp)" "- (w1 / h)" ?ts "lower p" w1]
        multi_indices_all [OF nd] c entry [of _ "w1 * -1 / h"]
        taylor_negative [OF lower_negative] by auto
  qed simp
  then show ?thesis using ws by (simp add: partial_blocks [OF nd])
qed

lemma second_rows:
  assumes nd: "nd \<in> {2, 3}" and m: "m \<le> 14" and c: "c < nd" and p: "p < nd" "q < nd"
    and "nd * (m + 1) \<le> length W" and room: "length (df_index nd m) \<le> length \<delta>"
  shows "\<exists>ws. DivFree_evaluateSecondPartialDerivative \<delta> W (int nd) m (int c) (int p) (int q)
      h x y z 0 w0 w1 =
    Inr (overlay w0 0 (df_values (take nd [x / h, y / h, z / h]) nd m c (w1 / h / h)
           (\<lambda>vp. lower q (lower p vp))) \<delta>, ws)
    \<and> length ws = length W"
proof -
  let ?ts = "take nd [x / h, y / h, z / h]"
  have len: "length ?ts = nd" using nd by auto
  obtain ws where ws: "power_rows ?ts m W = Inr ws" "length ws = length W" "tables ?ts m ws"
    using power_rows_dim [OF _ assms(6), of x h y z] nd by force
  have dec: "rbind (var_dec vp (int p)) (\<lambda>vp. rbind (var_dec vp (int q)) f) = f (lower q (lower p vp))"
    if "length vp = nd" for vp and f :: "int list \<Rightarrow> real result"
    using that p by (simp add: lower_def)
  have entry: "rbind (var_dec vp (int p)) (\<lambda>vp. rbind (var_dec vp (int q))
        (\<lambda>vp. derivative_entry ws m (w1 * 0) k vp)) = Inr (k * taylor ?ts (lower q (lower p vp)))"
    if "length vp = nd" "\<forall>e \<in> set vp. e \<le> int m" for vp k
    using derivative_entry_ok [OF ws(3) _ m lower_bound [OF lower_bound [OF that(2)]], of q p w1 k]
      dec that len
    by simp
  have "rfold (df_block nd m (int c) w0 w1
        (\<lambda>vp. rbind (var_dec vp (int p)) (\<lambda>vp. rbind (var_dec vp (int q)) (\<lambda>vp.
           if list_ex (\<lambda>a. a < 0) vp then Inr (w1 * 0)
           else monomial ws m (w1 * 1 / h / h) (take (nd - 1) vp))))
        (\<lambda>vp. rbind (var_dec vp (int p)) (\<lambda>vp. rbind (var_dec vp (int q)) (\<lambda>vp.
           derivative_entry ws m (w1 * 0) (w1 * 1 / h / h) vp)))
        (\<lambda>d vp. rbind (var_dec vp (int d)) (\<lambda>vp.
           if list_ex (\<lambda>a. a < 0) vp then Inr (w1 * 0)
           else rbind (var_inc vp (int c)) (\<lambda>vp. rbind (var_dec vp (int p)) (\<lambda>vp.
             rbind (var_dec vp (int q)) (\<lambda>vp.
             derivative_entry ws m (w1 * 0) (w1 * -1 / h / h) vp)))))) [0..<nd] (\<delta>, 0) =
    Inr (overlay w0 0 (df_values ?ts nd m c (w1 / h / h) (\<lambda>vp. lower q (lower p vp))) \<delta>,
         int (length (df_index nd m)))"
  proof (rule df_blocks [OF nd c _ _ _ _ room])
    fix vp assume vp: "vp \<in> set (df_layer nd m (nd - 1))"
    note dims = df_layer_last [OF nd vp]
    have "\<forall>e \<in> set (lower q (lower p vp)). e \<le> int m"
      using dims(2) by (intro lower_bound) auto
    moreover have "nd - 1 < length vp" using dims(1) nd by auto
    then have "lower q (lower p vp) ! (nd - 1) \<le> 0"
      using lower_le [of "nd - 1" vp p] lower_le [of "nd - 1" "lower p vp" q] dims(3) by simp
    ultimately have "(if list_ex (\<lambda>a. a < 0) (lower q (lower p vp)) then Inr (w1 * 0)
        else monomial ws m (w1 * 1 / h / h) (take (nd - 1) (lower q (lower p vp)))) =
      Inr (w1 * 1 / h / h * taylor ?ts (lower q (lower p vp)))"
      using dims(1) by (intro last_entry [OF ws(3) len m nd]) simp_all
    then show "rbind (var_dec vp (int p)) (\<lambda>vp. rbind (var_dec vp (int q)) (\<lambda>vp.
           if list_ex (\<lambda>a. a < 0) vp then Inr (w1 * 0)
           else monomial ws m (w1 * 1 / h / h) (take (nd - 1) vp))) =
        Inr (w1 / h / h * taylor ?ts (lower q (lower p vp)))"
      by (simp only: dec [OF dims(1)] mult_1_right)
  next
    fix vp assume "vp \<in> set (multi_indices nd 0 m)"
    then show "rbind (var_dec vp (int p)) (\<lambda>vp. rbind (var_dec vp (int q)) (\<lambda>vp.
           derivative_entry ws m (w1 * 0) (w1 * 1 / h / h) vp)) =
        Inr (w1 / h / h * taylor ?ts (lower q (lower p vp)))"
      using entry [of vp "w1 * 1 / h / h"] multi_indices_all [OF nd] by simp
  next
    fix d vp assume "vp \<in> set (multi_indices nd 0 m)" "d < nd" "d \<noteq> c"
    then show "rbind (var_dec vp (int d)) (\<lambda>vp.
           if list_ex (\<lambda>a. a < 0) vp then Inr (w1 * 0)
           else rbind (var_inc vp (int c)) (\<lambda>vp. rbind (var_dec vp (int p)) (\<lambda>vp.
             rbind (var_dec vp (int q)) (\<lambda>vp.
             derivative_entry ws m (w1 * 0) (w1 * -1 / h / h) vp)))) =
       Inr (- (w1 / h / h) * taylor ?ts (lower q (lower p (df_exps c d vp))))"
      using balance_entry [of vp nd m d c "\<lambda>vp. rbind (var_dec vp (int p)) (\<lambda>vp.
            rbind (var_dec vp (int q)) (\<lambda>vp. derivative_entry ws m (w1 * 0) (w1 * -1 / h / h) vp))"
            "- (w1 / h / h)" ?ts "\<lambda>vp. lower q (lower p vp)" w1]
        multi_indices_all [OF nd] c entry [of _ "w1 * -1 / h / h"]
        taylor_negative [OF lower_negative [OF lower_negative]] by auto
  qed simp
  then show ?thesis using ws by (simp add: second_blocks [OF nd])
qed

section \<open>Properties\<close>

text \<open>The rows that the functions write into fresh buffers at a point.\<close>

definition df_room :: "nat \<Rightarrow> nat \<Rightarrow> real list" where
  "df_room nd m = replicate (nat (DivFree_getSize (int m) (int nd))) 0"

definition df_row :: "nat \<Rightarrow> nat \<Rightarrow> nat \<Rightarrow> real \<Rightarrow> real list \<Rightarrow> real list" where
  "df_row nd m c h ps = row_of (DivFree_evaluate (df_room nd m) (replicate (nd * (m + 1)) 0)
     (int nd) m (int c) h (ps ! 0) (ps ! 1) (ps ! 2) 0 0 1)"

definition df_partial_row :: "nat \<Rightarrow> nat \<Rightarrow> nat \<Rightarrow> nat \<Rightarrow> real \<Rightarrow> real list \<Rightarrow> real list" where
  "df_partial_row nd m c p h ps = row_of (DivFree_evaluatePartialDerivative (df_room nd m)
     (replicate (nd * (m + 1)) 0) (int nd) m (int c) (int p) h (ps ! 0) (ps ! 1) (ps ! 2) 0 0 1)"

definition df_second_row :: "nat \<Rightarrow> nat \<Rightarrow> nat \<Rightarrow> nat \<Rightarrow> nat \<Rightarrow> real \<Rightarrow> real list \<Rightarrow> real list" where
  "df_second_row nd m c p q h ps = row_of (DivFree_evaluateSecondPartialDerivative (df_room nd m)
     (replicate (nd * (m + 1)) 0) (int nd) m (int c) (int p) (int q)
     h (ps ! 0) (ps ! 1) (ps ! 2) 0 0 1)"

lemma df_rows:
  assumes nd: "nd \<in> {2, 3}" and m: "m \<le> 14" and c: "c < nd" and ps: "length ps = 3"
  shows "df_row nd m c h ps = df_values (map (\<lambda>x. x / h) (take nd ps)) nd m c 1 (\<lambda>vp. vp)"
    and "p < nd \<Longrightarrow> df_partial_row nd m c p h ps =
      df_values (map (\<lambda>x. x / h) (take nd ps)) nd m c (1 / h) (lower p)"
    and "p < nd \<Longrightarrow> q < nd \<Longrightarrow> df_second_row nd m c p q h ps =
      df_values (map (\<lambda>x. x / h) (take nd ps)) nd m c (1 / h / h) (\<lambda>vp. lower q (lower p vp))"
proof -
  have len: "length (df_room nd m) = length (df_index nd m)"
    using length_df_index [OF nd, of m] by (simp add: df_room_def)
  have ts: "take nd [ps ! 0 / h, ps ! 1 / h, ps ! 2 / h] = map (\<lambda>x. x / h) (take nd ps)"
    using ps by (auto simp: length_Suc_conv numeral_eq_Suc simp flip: take_map)
  have over: "overlay 0 0 (df_values ts nd m c k T) (df_room nd m) = df_values ts nd m c k T"
    for ts k T
    using len by (intro nth_equalityI) (simp_all add: nth_overlay df_values_def)
  have room: "nd * (m + 1) \<le> length (replicate (nd * (m + 1)) (0::real))"
    "length (df_index nd m) \<le> length (df_room nd m)"
    using len by simp_all
  show "df_row nd m c h ps = df_values (map (\<lambda>x. x / h) (take nd ps)) nd m c 1 (\<lambda>vp. vp)"
    using evaluate_rows [OF nd m c room, of h "ps ! 0" "ps ! 1" "ps ! 2" 0 1]
    by (auto simp only: df_row_def row_of_def ts over sum.case prod.case)
  show "df_partial_row nd m c p h ps =
      df_values (map (\<lambda>x. x / h) (take nd ps)) nd m c (1 / h) (lower p)" if "p < nd"
    using partial_rows [OF nd m c that room, of h "ps ! 0" "ps ! 1" "ps ! 2" 0 1]
    by (auto simp only: df_partial_row_def row_of_def ts over sum.case prod.case)
  show "df_second_row nd m c p q h ps =
      df_values (map (\<lambda>x. x / h) (take nd ps)) nd m c (1 / h / h) (\<lambda>vp. lower q (lower p vp))"
    if "p < nd" "q < nd"
    using second_rows [OF nd m c that room, of h "ps ! 0" "ps ! 1" "ps ! 2" 0 1]
    by (auto simp only: df_second_row_def row_of_def ts over sum.case prod.case)
qed

lemma df_index_nth:
  assumes "nd \<in> {2, 3}" "j < length (df_index nd m)"
  obtains d vp where "df_index nd m ! j = (d, vp)" "d < nd" "vp \<in> set (df_layer nd m d)" "length vp = nd"
proof -
  obtain d vp where e: "df_index nd m ! j = (d, vp)" by (cases "df_index nd m ! j") auto
  then have "(d, vp) \<in> set (df_index nd m)" using assms(2) nth_mem by metis
  then have mem: "d < nd" "vp \<in> set (df_layer nd m d)" by (auto simp: df_index_def)
  have "length vp = nd"
  proof (cases "d + 1 = nd")
    case True
    then have "d = nd - 1" by simp
    then show ?thesis using df_layer_last(1) [OF assms(1)] mem(2) by blast
  next
    case False
    then show ?thesis using multi_indices_all(1) [OF assms(1)] mem(2) by (simp add: df_layer_def)
  qed
  then show thesis using that e mem by blast
qed

lemma nth_df_values:
  "j < length (df_index nd m) \<Longrightarrow> df_index nd m ! j = (d, vp) \<Longrightarrow>
     df_values ts nd m c k T ! j = k * (df_sign nd c d * taylor ts (T (df_exps c d vp)))"
  by (simp add: df_values_def)

lemma taylor_lower_derivative:
  assumes "length vp = nd" "p < nd" "nd \<le> length ps"
  shows "((\<lambda>t. taylor (map (\<lambda>x. x / h) (take nd (ps[p := t]))) vp) has_real_derivative
      taylor (map (\<lambda>x. x / h) (take nd ps)) (lower p vp) / h) (at (ps ! p))"
proof -
  have "(take nd ps)[p := ps ! p] = take nd ps"
    using assms(2,3) by (metis list_update_id nth_take)
  then show ?thesis
    using taylor_derivative [of p vp "take nd ps" h "ps ! p"] assms
    by (simp add: take_update_swap lower_def)
qed

text \<open>
  C14: each entry that the first-partial-derivative routine writes for a component is the
  derivative of the entry that the evaluation writes for that component.
\<close>

theorem divfree_partial_is_derivative:
  assumes "nd \<in> {2, 3}" "m \<le> 14" "c < nd" "p < nd" "length ps = 3" "h \<noteq> 0"
    and "int j < DivFree_getSize (int m) (int nd)"
  shows "length (df_row nd m c h ps) = nat (DivFree_getSize (int m) (int nd))
    \<and> ((\<lambda>t. df_row nd m c h (ps[p := t]) ! j) has_real_derivative
         df_partial_row nd m c p h ps ! j) (at (ps ! p))"
proof -
  note len = length_df_index [OF assms(1), of m]
  have j: "j < length (df_index nd m)" using assms(7) len by simp
  obtain d vp where e: "df_index nd m ! j = (d, vp)" "length vp = nd"
    using df_index_nth [OF assms(1) j] by metis
  have "((\<lambda>t. df_sign nd c d * taylor (map (\<lambda>x. x / h) (take nd (ps[p := t]))) (df_exps c d vp))
      has_real_derivative
      df_sign nd c d * (taylor (map (\<lambda>x. x / h) (take nd ps)) (lower p (df_exps c d vp)) / h))
      (at (ps ! p))"
    using assms e by (intro DERIV_cmult taylor_lower_derivative) auto
  then show ?thesis
    using assms(5) len
    by (simp add: df_rows [OF assms(1-3)] assms(4) nth_df_values [OF j e(1)])
       (simp add: df_values_def)
qed

theorem divfree_partial_is_derivative_witness:
  "((\<lambda>t. df_row 3 2 2 2 ([1, 2, 3][0 := t]) ! 4) has_real_derivative
      df_partial_row 3 2 2 0 2 [1, 2, 3] ! 4) (at 1)"
  using divfree_partial_is_derivative [of 3 2 2 0 "[1, 2, 3]" 2 4]
  by (simp add: DivFree_getSize_def ScalarTaylor_getSize_def signed_divide_int_def)

text \<open>
  C18: the entries that the second-partial-derivative routine writes are the derivatives
  of those of the first-partial-derivative routine (here both factors of the window size
  are divided out, unlike in the scalar basis).
\<close>

theorem divfree_second_partial_is_derivative:
  assumes "nd \<in> {2, 3}" "m \<le> 14" "c < nd" "p < nd" "q < nd" "length ps = 3" "h \<noteq> 0"
    and "int j < DivFree_getSize (int m) (int nd)"
  shows "((\<lambda>t. df_partial_row nd m c p h (ps[q := t]) ! j) has_real_derivative
         df_second_row nd m c p q h ps ! j) (at (ps ! q))"
proof -
  note len = length_df_index [OF assms(1), of m]
  have j: "j < length (df_index nd m)" using assms(8) len by simp
  obtain d vp where e: "df_index nd m ! j = (d, vp)" "length vp = nd"
    using df_index_nth [OF assms(1) j] by metis
  have "((\<lambda>t. 1 / h * (df_sign nd c d *
        taylor (map (\<lambda>x. x / h) (take nd (ps[q := t]))) (lower p (df_exps c d vp))))
      has_real_derivative
      1 / h * (df_sign nd c d *
        (taylor (map (\<lambda>x. x / h) (take nd ps)) (lower q (lower p (df_exps c d vp))) / h)))
      (at (ps ! q))"
    using assms e by (intro DERIV_cmult taylor_lower_derivative) auto
  then show ?thesis
    using assms(6) by (simp add: df_rows [OF assms(1-3)] assms(4,5) nth_df_values [OF j e(1)])
qed

theorem divfree_second_partial_is_derivative_witness:
  "((\<lambda>t. df_partial_row 2 3 1 0 2 ([1, 2, 0][1 := t]) ! 7) has_real_derivative
      df_second_row 2 3 1 0 1 2 [1, 2, 0] ! 7) (at 2)"
  using divfree_second_partial_is_derivative [of 2 3 1 0 1 "[1, 2, 0]" 2 7]
  by (simp add: DivFree_getSize_def ScalarTaylor_getSize_def signed_divide_int_def)

lemma sign_sum_zero:
  assumes "nd \<in> {2, 3}" "d < nd" "vp \<in> set (df_layer nd m d)" "length vp = nd"
  shows "(\<Sum>c<nd. df_sign nd c d * taylor ts (lower c (df_exps c d vp))) = 0"
proof (cases "d + 1 = nd")
  case True
  then have d: "d = nd - 1" by simp
  have "vp ! d = 0" using df_layer_last(3) [OF assms(1)] assms(3) unfolding d by blast
  then have "\<exists>e \<in> set (lower d vp). e < 0"
    using assms(2,4) by (auto simp: lower_def intro!: bexI [OF _ set_update_memI])
  then have "df_sign nd c d * taylor ts (lower c (df_exps c d vp)) = 0" for c
    using True taylor_negative by (auto simp: df_sign_def df_exps_def)
  then show ?thesis by (intro sum.neutral) blast
next
  case False
  define e where "e = (if nd = 2 then 1 else if d = 0 then 2 else 0 :: nat)"
  have e: "e < nd" "e \<noteq> d" using assms(1,2) False by (auto simp: e_def)
  have sgn: "df_sign nd c d = (if c = d then 1 else if c = e then -1 else 0)" if "c < nd" for c
  proof -
    consider "nd = 2" "d = 0" | "nd = 3" "d = 0" | "nd = 3" "d = 1"
      using assms(1,2) False by (fastforce simp: less_Suc_eq numeral_eq_Suc)
    then show ?thesis
      by cases (use that in \<open>auto simp: df_sign_def e_def\<close>)
  qed
  have same: "lower e (df_exps e d vp) = lower d (df_exps d d vp)"
    using e assms(2,4) list_update_swap [of d e vp "vp ! d - 1" "vp ! e"]
    by (simp add: lower_def df_exps_def)
  have "(\<Sum>c<nd. df_sign nd c d * taylor ts (lower c (df_exps c d vp))) =
      (\<Sum>c \<in> {d, e}. df_sign nd c d * taylor ts (lower c (df_exps c d vp)))"
    using assms(2) e sgn by (intro sum.mono_neutral_right) auto
  also have "\<dots> = 0" using e same sgn [OF assms(2)] sgn [OF e(1)] by simp
  finally show ?thesis .
qed

text \<open>
  C12: the basis is divergence free: for every field of the basis, of any degree up to 14,
  in two and three dimensions and at every point, the partial derivatives of the
  components along their own directions, as the code computes them, add up to zero.
\<close>

theorem divfree_divergence_zero:
  assumes "nd \<in> {2, 3}" "m \<le> 14" "length ps = 3" "h \<noteq> 0"
    and "int j < DivFree_getSize (int m) (int nd)"
  shows "(\<Sum>c<nd. df_partial_row nd m c c h ps ! j) = 0"
proof -
  have j: "j < length (df_index nd m)" using assms(5) length_df_index [OF assms(1), of m] by simp
  obtain d vp where e: "df_index nd m ! j = (d, vp)" "d < nd" "vp \<in> set (df_layer nd m d)"
      "length vp = nd"
    using df_index_nth [OF assms(1) j] by metis
  have "(\<Sum>c<nd. df_partial_row nd m c c h ps ! j) =
      (\<Sum>c<nd. 1 / h * (df_sign nd c d *
         taylor (map (\<lambda>x. x / h) (take nd ps)) (lower c (df_exps c d vp))))"
    by (rule sum.cong)
       (simp_all add: df_rows(2) [OF assms(1,2) _ assms(3)] nth_df_values [OF j e(1)])
  also have "\<dots> = 1 / h * (\<Sum>c<nd. df_sign nd c d *
      taylor (map (\<lambda>x. x / h) (take nd ps)) (lower c (df_exps c d vp)))"
    by (simp only: sum_distrib_left)
  also have "\<dots> = 0" using sign_sum_zero [OF assms(1) e(2,3,4)] by simp
  finally show ?thesis .
qed

theorem divfree_divergence_zero_witness:
  "(\<Sum>c<3. df_partial_row 3 4 c c 2 [1, 2, 3] ! 50) = 0"
  using divfree_divergence_zero [of 3 4 "[1, 2, 3]" 2 50]
  by (simp add: DivFree_getSize_def ScalarTaylor_getSize_def signed_divide_int_def)

lemma df_layer_offset:
  assumes "nd \<in> {2, 3}" "d < nd" "i < length (df_layer nd m d)"
  shows "d * length (multi_indices nd 0 m) + i < length (df_index nd m)"
    "df_index nd m ! (d * length (multi_indices nd 0 m) + i) = (d, df_layer nd m d ! i)"
proof -
  have front: "length (concat (map (\<lambda>d. map (Pair d) (df_layer nd m d)) [0..<k])) =
      k * length (multi_indices nd 0 m)" if "k < nd" for k
    using that by (induction k) (simp_all add: df_layer_def)
  have "[0..<nd] = [0..<d] @ d # [Suc d..<nd]"
    using assms(2) by (metis upt_add_eq_append upt_conv_Cons le_add_diff_inverse less_imp_le zero_le)
  then have split: "df_index nd m = concat (map (\<lambda>d. map (Pair d) (df_layer nd m d)) [0..<d])
      @ map (Pair d) (df_layer nd m d)
      @ concat (map (\<lambda>d. map (Pair d) (df_layer nd m d)) [Suc d..<nd])"
    by (simp add: df_index_def)
  show "d * length (multi_indices nd 0 m) + i < length (df_index nd m)"
    using front [OF assms(2)] assms(3) unfolding split by simp
  show "df_index nd m ! (d * length (multi_indices nd 0 m) + i) = (d, df_layer nd m d ! i)"
    using front [OF assms(2)] assms(3) unfolding split by (simp add: nth_append)
qed

text \<open>
  C24: the basis contains the scalar basis: component \<open>d\<close> of the fields of block \<open>d\<close> is
  the row of the scalar basis, and in the last block it is the row of the scalar basis
  of one dimension less, whose fields have no other component.
\<close>

theorem divfree_contains_scalar:
  assumes "nd \<in> {2, 3}" "m \<le> 14" "length ps = 3" "h \<noteq> 0" "d < nd"
    and "n = nat (ScalarTaylor_getSize (int m) (int nd))"
    and "i < length (scalar_row (if d + 1 = nd then nd - 1 else nd) m h ps)"
  shows "df_row nd m d h ps ! (d * n + i) =
       scalar_row (if d + 1 = nd then nd - 1 else nd) m h ps ! i
    \<and> (d + 1 = nd \<longrightarrow> (\<forall>c < nd. c \<noteq> d \<longrightarrow> df_row nd m c h ps ! (d * n + i) = 0))"
proof -
  let ?k = "if d + 1 = nd then nd - 1 else nd"
  have nd: "nd \<in> {1, 2, 3}" "?k \<in> {1, 2, 3}" "0 < ?k" using assms(1) by auto
  have n: "n = length (multi_indices nd 0 m)"
    using length_multi_indices [OF nd(1), of m] assms(6) by simp
  have row: "scalar_row ?k m h ps = map (taylor (map (\<lambda>x. x / h) ps)) (multi_indices ?k 0 m)"
    by (rule scalar_rows(1) [OF nd(2) assms(2) nd(3,3) assms(3)])
  then have i: "i < length (multi_indices ?k 0 m)" using assms(7) by simp
  then have li: "i < length (df_layer nd m d)" by (auto simp: df_layer_def split: if_splits)
  note off = df_layer_offset [OF assms(1,5) li]
  have len: "length (multi_indices ?k 0 m ! i) = ?k"
    by (rule multi_indices_dim [OF nd(2) nth_mem [OF i]])
  have "taylor (map (\<lambda>x. x / h) (take nd ps)) (df_layer nd m d ! i) =
      taylor (map (\<lambda>x. x / h) ps) (multi_indices ?k 0 m ! i)"
  proof (cases "d + 1 = nd")
    case True
    let ?vp = "multi_indices (nd - 1) 0 m ! i"
    have "length ?vp = nd - 1" using len True by simp
    then have "taylor (map (\<lambda>x. x / h) (take nd ps)) (take (nd - 1) (?vp @ [0])) =
        taylor (map (\<lambda>x. x / h) (take nd ps)) (?vp @ [0])"
      using assms(1) by (intro taylor_last_0) (auto simp: nth_append)
    then show ?thesis
      using True i \<open>length ?vp = nd - 1\<close> taylor_take [of ?vp nd "map (\<lambda>x. x / h) ps"]
      by (simp add: df_layer_def take_map)
  next
    case False
    then show ?thesis
      using len taylor_take [of "multi_indices nd 0 m ! i" nd "map (\<lambda>x. x / h) ps"]
      by (simp add: df_layer_def take_map)
  qed
  then show ?thesis
    using row i
    by (auto simp: df_rows(1) [OF assms(1,2) _ assms(3)] assms(5) n nth_df_values [OF off]
        df_sign_def df_exps_def)
qed

theorem divfree_contains_scalar_witness:
  "df_row 2 1 0 2 [1, 2, 0] ! 1 = scalar_row 2 1 2 [1, 2, 0] ! 1"
proof -
  have "length (scalar_row 2 1 2 [1, 2, 0]) = 3"
    using scalar_rows(1) [of 2 1 0 0 "[1, 2, 0]" 2] by (simp add: multi_indices_def idx2_def)
  then have "df_row 2 1 0 2 [1, 2, 0] ! (0 * 3 + 1) =
      scalar_row (if 0 + 1 = (2::nat) then 2 - 1 else 2) 1 2 [1, 2, 0] ! 1"
    by (intro divfree_contains_scalar [THEN conjunct1])
       (simp_all add: ScalarTaylor_getSize_def signed_divide_int_def)
  then show ?thesis by simp
qed

text \<open>
  In three dimensions the fields of the second block have no third component; the
  first component balances the divergence of the second.  (The description of the basis
  says that the first component vanishes and the third one balances.)
\<close>

theorem divfree_second_block:
  assumes "m \<le> 14" "length ps = 3" "h \<noteq> 0"
    and "n = nat (ScalarTaylor_getSize (int m) 3)" "i < n"
  shows "df_row 3 m 2 h ps ! (n + i) = 0
    \<and> df_row 3 m 0 h ps ! (n + i) =
        - taylor (map (\<lambda>x. x / h) ps)
            (let vp = multi_indices 3 0 m ! i in [vp ! 0 + 1, vp ! 1 - 1, vp ! 2])"
proof -
  have n: "n = length (multi_indices 3 0 m)"
    using length_multi_indices [of 3 m] assms(4) by simp
  then have li: "i < length (df_layer 3 m 1)" using assms(5) by (simp add: df_layer_def)
  note off = df_layer_offset [OF _ _ li, simplified]
  have vp: "length (multi_indices 3 0 m ! i) = 3"
    using multi_indices_dim [of 3 "multi_indices 3 0 m ! i" 0 m] assms(5) n by simp
  then have "(multi_indices 3 0 m ! i)[Suc 0 := multi_indices 3 0 m ! i ! Suc 0 - 1,
        0 := multi_indices 3 0 m ! i ! 0 + 1] =
      [multi_indices 3 0 m ! i ! 0 + 1, multi_indices 3 0 m ! i ! 1 - 1, multi_indices 3 0 m ! i ! 2]"
    by (auto simp: length_Suc_conv numeral_eq_Suc)
  then show ?thesis
    using df_rows(1) [of 3 m 2 ps h] df_rows(1) [of 3 m 0 ps h] assms(1,2)
    by (simp add: n nth_df_values [OF off] df_sign_def df_exps_def df_layer_def Let_def)
qed

theorem divfree_second_block_witness:
  "df_row 3 1 2 1 [1, 2, 3] ! 6 = 0 \<and> df_row 3 1 0 1 [1, 2, 3] ! 6 = -1"
proof -
  have "multi_indices 3 0 1 ! 2 = [0, 1, 0]"
    by (simp add: multi_indices_def idx3_def)
  then show ?thesis
    using divfree_second_block [of 1 "[1, 2, 3]" 1 4 2]
    by (simp add: ScalarTaylor_getSize_def signed_divide_int_def taylor_def tfac_def
        numeral_eq_Suc)
qed

end
