(* ===== verification/Compadre_DivergenceFreeTables.thy ===== *)
theory Compadre_DivergenceFreeTables
  imports Compadre_Misc
begin

text \<open>
  The second, hard-coded form of the divergence-free basis in
  src/src/basis/Compadre_DivergenceFreePolynomial.hpp, which its comments call
  deprecated: fields up to order 4 selected by a number, and tables of their first
  partial derivatives.  The coordinates \<open>sx\<close>, \<open>sy\<close>, \<open>sz\<close> are already scaled by the
  window size \<open>h\<close>.  The \<open>switch\<close> over the number is a list read at that place.
\<close>

section \<open>The tables\<close>

definition divfree_fields_3d :: "real \<Rightarrow> real \<Rightarrow> real \<Rightarrow> XYZ list" where
  "divfree_fields_3d sx sy sz =
    (let th = 1 / 3 in [
      XYZ_make 1 0 0,
      XYZ_make 0 1 0,
      XYZ_make 0 0 1,
      XYZ_make sy 0 0,
      XYZ_make sz 0 0,
      XYZ_make 0 sx 0,
      XYZ_make 0 sz 0,
      XYZ_make 0 0 sx,
      XYZ_make 0 0 sy,
      XYZ_make sx (- sy) 0,
      XYZ_make sx 0 (- sz),
      XYZ_make (sy * sy) 0 0,
      XYZ_make (sz * sz) 0 0,
      XYZ_make (sy * sz) 0 0,
      XYZ_make 0 (sx * sx) 0,
      XYZ_make 0 (sz * sz) 0,
      XYZ_make 0 (sx * sz) 0,
      XYZ_make 0 0 (sx * sx),
      XYZ_make 0 0 (sy * sy),
      XYZ_make 0 0 (sx * sy),
      XYZ_make (sx * sx) (- 2 * sx * sy) 0,
      XYZ_make (sx * sy) 0 (- 1 * sy * sz),
      XYZ_make (sx * sz) (- 1 * sy * sz) 0,
      XYZ_make (- 2 * sx * sy) (sy * sy) 0,
      XYZ_make 0 (sx * sy) (- 1 * sx * sz),
      XYZ_make (- 2 * sx * sz) 0 (sz * sz),
      XYZ_make (sy * sy * sy) 0 0,
      XYZ_make (sy * sy * sz) 0 0,
      XYZ_make (sy * sz * sz) 0 0,
      XYZ_make (sz * sz * sz) 0 0,
      XYZ_make 0 (sx * sx * sx) 0,
      XYZ_make 0 (sx * sx * sz) 0,
      XYZ_make 0 (sx * sz * sz) 0,
      XYZ_make 0 (sz * sz * sz) 0,
      XYZ_make 0 0 (sx * sx * sx),
      XYZ_make 0 0 (sx * sx * sy),
      XYZ_make 0 0 (sx * sy * sy),
      XYZ_make 0 0 (sy * sy * sy),
      XYZ_make (sx * sx * sx) (- 3 * sx * sx * sy) 0,
      XYZ_make (sx * sx * sx) 0 (- 3 * sx * sx * sz),
      XYZ_make (sx * sx * sy) (- 1 * sx * sy * sy) 0,
      XYZ_make (sx * sx * sy) 0 (- 2 * sx * sy * sz),
      XYZ_make (sx * sx * sz) (- 2 * sx * sy * sz) 0,
      XYZ_make (sx * sx * sz) 0 (- 1 * sx * sz * sz),
      XYZ_make (sx * sy * sy) (- th * sy * sy * sy) 0,
      XYZ_make (sx * sy * sy) 0 (- 1 * sy * sy * sz),
      XYZ_make (sx * sy * sz) (- (1 / 2) * sy * sy * sz) 0,
      XYZ_make (sx * sy * sz) 0 (- (1 / 2) * sy * sz * sz),
      XYZ_make (sx * sz * sz) (- 1 * sy * sz * sz) 0,
      XYZ_make (sx * sz * sz) 0 (- th * sz * sz * sz),
      XYZ_make (sy * sy * sy * sy) 0 0,
      XYZ_make (sy * sy * sy * sz) 0 0,
      XYZ_make (sy * sy * sz * sz) 0 0,
      XYZ_make (sy * sz * sz * sz) 0 0,
      XYZ_make (sz * sz * sz * sz) 0 0,
      XYZ_make 0 (sx * sx * sx * sx) 0,
      XYZ_make 0 (sx * sx * sx * sz) 0,
      XYZ_make 0 (sx * sx * sz * sz) 0,
      XYZ_make 0 (sx * sz * sz * sz) 0,
      XYZ_make 0 (sz * sz * sz * sz) 0,
      XYZ_make 0 0 (sx * sx * sx * sx),
      XYZ_make 0 0 (sx * sx * sx * sy),
      XYZ_make 0 0 (sx * sx * sy * sy),
      XYZ_make 0 0 (sx * sy * sy * sy),
      XYZ_make 0 0 (sy * sy * sy * sy),
      XYZ_make (sx * sx * sx * sx) (- 4 * sx * sx * sx * sy) 0,
      XYZ_make (sx * sx * sx * sx) 0 (- 4 * sx * sx * sx * sz),
      XYZ_make (sx * sx * sx * sy) (- (3 / 2) * sx * sx * sy * sy) 0,
      XYZ_make (sx * sx * sx * sy) 0 (- 3 * sx * sx * sy * sz),
      XYZ_make (sx * sx * sx * sz) (- 3 * sx * sx * sy * sz) 0,
      XYZ_make (sx * sx * sx * sz) 0 (- (3 / 2) * sx * sx * sz * sz),
      XYZ_make (sx * sx * sy * sy) (- 2 * th * sx * sy * sy * sy) 0,
      XYZ_make (sx * sx * sy * sy) 0 (- 2 * sx * sy * sy * sz),
      XYZ_make (sx * sx * sy * sz) (- sx * sy * sy * sz) 0,
      XYZ_make (sx * sx * sy * sz) 0 (- sx * sy * sz * sz),
      XYZ_make (sx * sx * sz * sz) (- 2 * sx * sy * sz * sz) 0,
      XYZ_make (sx * sx * sz * sz) 0 (- 2 * th * sx * sz * sz * sz),
      XYZ_make (sx * sy * sy * sy) (- (1 / 4) * sy * sy * sy * sy) 0,
      XYZ_make (sx * sy * sy * sy) 0 (- sy * sy * sy * sz),
      XYZ_make (sx * sy * sy * sz) (- th * sy * sy * sy * sz) 0,
      XYZ_make (sx * sy * sy * sz) 0 (- (1 / 2) * sy * sy * sz * sz),
      XYZ_make (sx * sy * sz * sz) (- (1 / 2) * sy * sy * sz * sz) 0,
      XYZ_make (sx * sy * sz * sz) 0 (- th * sy * sz * sz * sz),
      XYZ_make (sx * sz * sz * sz) (- sy * sz * sz * sz) 0,
      XYZ_make (sx * sz * sz * sz) 0 (- (1 / 4) * sz * sz * sz * sz)])"

definition divfree_fields_2d :: "real \<Rightarrow> real \<Rightarrow> XYZ list" where
  "divfree_fields_2d sx sy =
    [
      XYZ_make 1 0 0,
      XYZ_make 0 1 0,
      XYZ_make sy 0 0,
      XYZ_make 0 sx 0,
      XYZ_make sx (- sy) 0,
      XYZ_make (sy * sy) 0 0,
      XYZ_make 0 (sx * sx) 0,
      XYZ_make (sx * sx) (- 2 * sx * sy) 0,
      XYZ_make (- 2 * sx * sy) (sy * sy) 0,
      XYZ_make (sy * sy * sy) 0 0,
      XYZ_make 0 (sx * sx * sx) 0,
      XYZ_make (sx * sx * sx) (- 3 * sx * sx * sy) 0,
      XYZ_make (sx * sx * sy) (- 1 * sx * sy * sy) 0,
      XYZ_make (- 3 * sx * sy * sy) (sy * sy * sy) 0,
      XYZ_make (sy * sy * sy * sy) 0 0,
      XYZ_make 0 (sx * sx * sx * sx) 0,
      XYZ_make (sx * sx * sx * sx) (- 4 * sx * sx * sx * sy) 0,
      XYZ_make (2 * sx * sx * sx * sy) (- 3 * sx * sx * sy * sy) 0,
      XYZ_make (- 3 * sx * sx * sy * sy) (2 * sx * sy * sy * sy) 0,
      XYZ_make (- 4 * sx * sy * sy * sy) (sy * sy * sy * sy) 0]"

definition divfree_partials_3d_0 :: "real \<Rightarrow> real \<Rightarrow> real \<Rightarrow> real \<Rightarrow> XYZ list" where
  "divfree_partials_3d_0 h sx sy sz =
    (let th = 1 / 3 in [
      XYZ_make 0 0 0,
      XYZ_make 0 0 0,
      XYZ_make 0 0 0,
      XYZ_make 0 0 0,
      XYZ_make 0 0 0,
      XYZ_make 0 (1 / h) 0,
      XYZ_make 0 0 0,
      XYZ_make 0 0 (1 / h),
      XYZ_make 0 0 0,
      XYZ_make (1 / h) 0 0,
      XYZ_make (1 / h) 0 0,
      XYZ_make 0 0 0,
      XYZ_make 0 0 0,
      XYZ_make 0 0 0,
      XYZ_make 0 (2 * sx / h) 0,
      XYZ_make 0 0 0,
      XYZ_make 0 (sz / h) 0,
      XYZ_make 0 0 (2 * sx / h),
      XYZ_make 0 0 0,
      XYZ_make 0 0 (sy / h),
      XYZ_make (2 * sx / h) (- 2 * sy / h) 0,
      XYZ_make (sy / h) 0 0,
      XYZ_make (sz / h) 0 0,
      XYZ_make (- 2 * sy / h) 0 0,
      XYZ_make 0 (sy / h) (- 1 * sz / h),
      XYZ_make (- 2 * sz / h) 0 0,
      XYZ_make 0 0 0,
      XYZ_make 0 0 0,
      XYZ_make 0 0 0,
      XYZ_make 0 0 0,
      XYZ_make 0 (3 * sx * sx / h) 0,
      XYZ_make 0 (2 * sx * sz / h) 0,
      XYZ_make 0 (sz * sz / h) 0,
      XYZ_make 0 0 0,
      XYZ_make 0 0 (3 * sx * sx / h),
      XYZ_make 0 0 (2 * sx * sy / h),
      XYZ_make 0 0 (sy * sy / h),
      XYZ_make 0 0 0,
      XYZ_make (3 * sx * sx / h) (- 6 * sx * sy / h) 0,
      XYZ_make (3 * sx * sx / h) 0 (- 6 * sx * sz / h),
      XYZ_make (2 * sx * sy / h) (- 1 * sy * sy / h) 0,
      XYZ_make (2 * sx * sy / h) 0 (- 2 * sy * sz / h),
      XYZ_make (2 * sx * sz / h) (- 2 * sy * sz / h) 0,
      XYZ_make (2 * sx * sz / h) 0 (- 1 * sz * sz / h),
      XYZ_make (sy * sy / h) 0 0,
      XYZ_make (sy * sy / h) 0 0,
      XYZ_make (sy * sz / h) 0 0,
      XYZ_make (sy * sz / h) 0 0,
      XYZ_make (sz * sz / h) 0 0,
      XYZ_make (sz * sz / h) 0 0,
      XYZ_make 0 0 0,
      XYZ_make 0 0 0,
      XYZ_make 0 0 0,
      XYZ_make 0 0 0,
      XYZ_make 0 0 0,
      XYZ_make 0 (4 * sx * sx * sx / h) 0,
      XYZ_make 0 (3 * sx * sx * sz / h) 0,
      XYZ_make 0 (2 * sx * sz * sz / h) 0,
      XYZ_make 0 (sz * sz * sz / h) 0,
      XYZ_make 0 0 0,
      XYZ_make 0 0 (4 * sx * sx * sx / h),
      XYZ_make 0 0 (3 * sx * sx * sy / h),
      XYZ_make 0 0 (2 * sx * sy * sy / h),
      XYZ_make 0 0 (sy * sy * sy / h),
      XYZ_make 0 0 0,
      XYZ_make (4 * sx * sx * sx / h) (- 12 * sx * sx * sy / h) 0,
      XYZ_make (4 * sx * sx * sx / h) 0 (- 12 * sx * sx * sz / h),
      XYZ_make (3 * sx * sx * sy / h) (- 3 * sx * sy * sy / h) 0,
      XYZ_make (3 * sx * sx * sy / h) 0 (- 6 * sx * sy * sz / h),
      XYZ_make (3 * sx * sx * sz / h) (- 6 * sx * sy * sz / h) 0,
      XYZ_make (3 * sx * sx * sz / h) 0 (- 3 * sx * sz * sz / h),
      XYZ_make (2 * sx * sy * sy / h) (- 2 * th * sy * sy * sy / h) 0,
      XYZ_make (2 * sx * sy * sy / h) 0 (- 2 * sy * sy * sz / h),
      XYZ_make (2 * sx * sy * sz / h) (- sy * sy * sz / h) 0,
      XYZ_make (2 * sx * sy * sz / h) 0 (- sy * sz * sz / h),
      XYZ_make (2 * sx * sz * sz / h) (- 2 * sy * sz * sz / h) 0,
      XYZ_make (2 * sx * sz * sz / h) 0 (- 2 * th * sz * sz * sz / h),
      XYZ_make (sy * sy * sy / h) 0 0,
      XYZ_make (sy * sy * sy / h) 0 0,
      XYZ_make (sy * sy * sz / h) 0 0,
      XYZ_make (sy * sy * sz / h) 0 0,
      XYZ_make (sy * sz * sz / h) 0 0,
      XYZ_make (sy * sz * sz / h) 0 0,
      XYZ_make (sz * sz * sz / h) 0 0,
      XYZ_make (sz * sz * sz / h) 0 0])"

definition divfree_partials_3d_1 :: "real \<Rightarrow> real \<Rightarrow> real \<Rightarrow> real \<Rightarrow> XYZ list" where
  "divfree_partials_3d_1 h sx sy sz =
    (let th = 1 / 3 in [
      XYZ_make 0 0 0,
      XYZ_make 0 0 0,
      XYZ_make 0 0 0,
      XYZ_make (1 / h) 0 0,
      XYZ_make 0 0 0,
      XYZ_make 0 0 0,
      XYZ_make 0 0 0,
      XYZ_make 0 0 0,
      XYZ_make 0 0 (1 / h),
      XYZ_make 0 (- 1 / h) 0,
      XYZ_make 0 0 0,
      XYZ_make (2 * sy / h) 0 0,
      XYZ_make 0 0 0,
      XYZ_make (sz / h) 0 0,
      XYZ_make 0 0 0,
      XYZ_make 0 0 0,
      XYZ_make 0 0 0,
      XYZ_make 0 0 0,
      XYZ_make 0 0 (2 * sy / h),
      XYZ_make 0 0 (sx / h),
      XYZ_make 0 (- 2 * sx / h) 0,
      XYZ_make (sx / h) 0 (- 1 * sz / h),
      XYZ_make 0 (- 1 * sz / h) 0,
      XYZ_make (- 2 * sx / h) (2 * sy / h) 0,
      XYZ_make 0 (sx / h) 0,
      XYZ_make 0 0 0,
      XYZ_make (3 * sy * sy / h) 0 0,
      XYZ_make (2 * sy * sz / h) 0 0,
      XYZ_make (sz * sz / h) 0 0,
      XYZ_make 0 0 0,
      XYZ_make 0 0 0,
      XYZ_make 0 0 0,
      XYZ_make 0 0 0,
      XYZ_make 0 0 0,
      XYZ_make 0 0 0,
      XYZ_make 0 0 (sx * sx / h),
      XYZ_make 0 0 (2 * sx * sy / h),
      XYZ_make 0 0 (3 * sy * sy / h),
      XYZ_make 0 (- 3 * sx * sx / h) 0,
      XYZ_make 0 0 0,
      XYZ_make (sx * sx / h) (- 2 * sx * sy / h) 0,
      XYZ_make (sx * sx / h) 0 (- 2 * sx * sz / h),
      XYZ_make 0 (- 2 * sx * sz / h) 0,
      XYZ_make 0 0 0,
      XYZ_make (2 * sx * sy / h) (- 3 * th * sy * sy / h) 0,
      XYZ_make (2 * sx * sy / h) 0 (- 2 * sy * sz / h),
      XYZ_make (sx * sz / h) (- 1 * sy * sz / h) 0,
      XYZ_make (sx * sz / h) 0 (- (1 / 2) * sz * sz / h),
      XYZ_make 0 (- 1 * sz * sz / h) 0,
      XYZ_make 0 0 0,
      XYZ_make (4 * sy * sy * sy / h) 0 0,
      XYZ_make (3 * sy * sy * sz / h) 0 0,
      XYZ_make (2 * sy * sz * sz / h) 0 0,
      XYZ_make (sz * sz * sz / h) 0 0,
      XYZ_make 0 0 0,
      XYZ_make 0 0 0,
      XYZ_make 0 0 0,
      XYZ_make 0 0 0,
      XYZ_make 0 0 0,
      XYZ_make 0 0 0,
      XYZ_make 0 0 0,
      XYZ_make 0 0 (sx * sx * sx / h),
      XYZ_make 0 0 (2 * sx * sx * sy / h),
      XYZ_make 0 0 (3 * sx * sy * sy / h),
      XYZ_make 0 0 (4 * sy * sy * sy / h),
      XYZ_make 0 (- 4 * sx * sx * sx / h) 0,
      XYZ_make 0 0 0,
      XYZ_make (sx * sx * sx / h) (- 3 * sx * sx * sy / h) 0,
      XYZ_make (sx * sx * sx / h) 0 (- 3 * sx * sx * sz / h),
      XYZ_make 0 (- 3 * sx * sx * sz / h) 0,
      XYZ_make 0 0 0,
      XYZ_make (2 * sx * sx * sy / h) (- 6 * th * sx * sy * sy / h) 0,
      XYZ_make (2 * sx * sx * sy / h) 0 (- 4 * sx * sy * sz / h),
      XYZ_make (sx * sx * sz / h) (- 2 * sx * sy * sz) 0,
      XYZ_make (sx * sx * sz / h) 0 (- sx * sz * sz / h),
      XYZ_make 0 (- 2 * sx * sz * sz / h) 0,
      XYZ_make 0 0 0,
      XYZ_make (3 * sx * sy * sy / h) (- 1 * sy * sy * sy / h) 0,
      XYZ_make (3 * sx * sy * sy / h) 0 (- 3 * sy * sy * sz / h),
      XYZ_make (2 * sx * sy * sz / h) (- 3 * th * sy * sy * sz / h) 0,
      XYZ_make (2 * sx * sy * sz / h) 0 (- 1 * sy * sz * sz / h),
      XYZ_make (sx * sz * sz / h) (- 1 * sy * sz * sz / h) 0,
      XYZ_make (sx * sz * sz / h) 0 (- th * sz * sz * sz / h),
      XYZ_make 0 (- sz * sz * sz / h) 0,
      XYZ_make 0 0 0])"

definition divfree_partials_3d_2 :: "real \<Rightarrow> real \<Rightarrow> real \<Rightarrow> real \<Rightarrow> XYZ list" where
  "divfree_partials_3d_2 h sx sy sz =
    (let th = 1 / 3 in [
      XYZ_make 0 0 0,
      XYZ_make 0 0 0,
      XYZ_make 0 0 0,
      XYZ_make 0 0 0,
      XYZ_make (1 / h) 0 0,
      XYZ_make 0 0 0,
      XYZ_make 0 (1 / h) 0,
      XYZ_make 0 0 0,
      XYZ_make 0 0 0,
      XYZ_make 0 0 0,
      XYZ_make 0 0 (- 1 / h),
      XYZ_make 0 0 0,
      XYZ_make (2 * sz / h) 0 0,
      XYZ_make (sy / h) 0 0,
      XYZ_make 0 0 0,
      XYZ_make 0 (2 * sz / h) 0,
      XYZ_make 0 (sx / h) 0,
      XYZ_make 0 0 0,
      XYZ_make 0 0 0,
      XYZ_make 0 0 0,
      XYZ_make 0 0 0,
      XYZ_make 0 0 (- 1 * sy / h),
      XYZ_make (sx / h) (- 1 * sy / h) 0,
      XYZ_make 0 0 0,
      XYZ_make 0 0 (- 1 * sx / h),
      XYZ_make (- 2 * sx / h) 0 (2 * sz / h),
      XYZ_make 0 0 0,
      XYZ_make (sy * sy / h) 0 0,
      XYZ_make (2 * sy * sz / h) 0 0,
      XYZ_make (3 * sz * sz / h) 0 0,
      XYZ_make 0 0 0,
      XYZ_make 0 (sx * sx / h) 0,
      XYZ_make 0 (2 * sx * sz / h) 0,
      XYZ_make 0 (3 * sz * sz / h) 0,
      XYZ_make 0 0 0,
      XYZ_make 0 0 0,
      XYZ_make 0 0 0,
      XYZ_make 0 0 0,
      XYZ_make 0 0 0,
      XYZ_make 0 0 (- 3 * sx * sx / h),
      XYZ_make 0 0 0,
      XYZ_make 0 0 (- 2 * sx * sy / h),
      XYZ_make (sx * sx / h) (- 2 * sx * sy / h) 0,
      XYZ_make (sx * sx / h) 0 (- 2 * sx * sz / h),
      XYZ_make 0 0 0,
      XYZ_make 0 0 (- 1 * sy * sy / h),
      XYZ_make (sx * sy / h) (- (1 / 2) * sy * sy / h) 0,
      XYZ_make (sx * sy / h) 0 (- 1 * sy * sz / h),
      XYZ_make (2 * sx * sz / h) (- 2 * sy * sz / h) 0,
      XYZ_make (2 * sx * sz / h) 0 (- 3 * th * sz * sz / h),
      XYZ_make 0 0 0,
      XYZ_make (sy * sy * sy / h) 0 0,
      XYZ_make (2 * sy * sy * sz / h) 0 0,
      XYZ_make (3 * sy * sz * sz / h) 0 0,
      XYZ_make (4 * sz * sz * sz / h) 0 0,
      XYZ_make 0 0 0,
      XYZ_make 0 (sx * sx * sx / h) 0,
      XYZ_make 0 (2 * sx * sx * sz / h) 0,
      XYZ_make 0 (3 * sx * sz * sz / h) 0,
      XYZ_make 0 (4 * sz * sz * sz / h) 0,
      XYZ_make 0 0 0,
      XYZ_make 0 0 0,
      XYZ_make 0 0 0,
      XYZ_make 0 0 0,
      XYZ_make 0 0 0,
      XYZ_make 0 0 0,
      XYZ_make 0 0 (- 4 * sx * sx * sx / h),
      XYZ_make 0 0 0,
      XYZ_make 0 0 (- 3 * sx * sx * sy / h),
      XYZ_make (sx * sx * sx / h) (- 3 * sx * sx * sy / h) 0,
      XYZ_make (sx * sx * sx / h) 0 (- 3 * sx * sx * sz / h),
      XYZ_make 0 0 0,
      XYZ_make 0 0 (- 2 * sx * sy * sy / h),
      XYZ_make (sx * sx * sy / h) (- sx * sy * sy / h) 0,
      XYZ_make (sx * sx * sy / h) 0 (- 2 * sx * sy * sz / h),
      XYZ_make (2 * sx * sx * sz / h) (- 4 * sx * sy * sz / h) 0,
      XYZ_make (2 * sx * sx * sz / h) 0 (- 6 * th * sx * sz * sz / h),
      XYZ_make 0 0 0,
      XYZ_make 0 0 (- sy * sy * sy / h),
      XYZ_make (sx * sy * sy / h) (- th * sy * sy * sy / h) 0,
      XYZ_make (sx * sy * sy / h) 0 (- 1 * sy * sy * sz / h),
      XYZ_make (2 * sx * sy * sz / h) (- 1 * sy * sy * sz / h) 0,
      XYZ_make (2 * sx * sy * sz / h) 0 (- 3 * th * sy * sz * sz / h),
      XYZ_make (3 * sx * sz * sz / h) (- 3 * sy * sz * sz / h) 0,
      XYZ_make (3 * sx * sz * sz / h) 0 (- 1 * sz * sz * sz / h)])"

definition divfree_partials_2d_0 :: "real \<Rightarrow> real \<Rightarrow> real \<Rightarrow> XYZ list" where
  "divfree_partials_2d_0 h sx sy =
    [
      XYZ_make 0 0 0,
      XYZ_make 0 0 0,
      XYZ_make 0 0 0,
      XYZ_make 0 (1 / h) 0,
      XYZ_make (1 / h) 0 0,
      XYZ_make 0 0 0,
      XYZ_make 0 (2 * sx / h) 0,
      XYZ_make (2 * sx / h) (- 2 * sy / h) 0,
      XYZ_make (- 2 * sy / h) 0 0,
      XYZ_make 0 0 0,
      XYZ_make 0 (3 * sx * sx / h) 0,
      XYZ_make (3 * sx * sx / h) (- 6 * sx * sy / h) 0,
      XYZ_make (2 * sx * sy / h) (- 1 * sy * sy / h) 0,
      XYZ_make (- 3 * sy * sy / h) 0 0,
      XYZ_make 0 0 0,
      XYZ_make 0 (4 * sx * sx * sx / h) 0,
      XYZ_make (4 * sx * sx * sx / h) (- 12 * sx * sx * sy / h) 0,
      XYZ_make (6 * sx * sx * sy / h) (- 6 * sx * sy * sy / h) 0,
      XYZ_make (- 6 * sx * sy * sy / h) (2 * sy * sy * sy / h) 0,
      XYZ_make (- 4 * sy * sy * sy / h) 0 0]"

definition divfree_partials_2d_1 :: "real \<Rightarrow> real \<Rightarrow> real \<Rightarrow> XYZ list" where
  "divfree_partials_2d_1 h sx sy =
    [
      XYZ_make 0 0 0,
      XYZ_make 0 0 0,
      XYZ_make (1 / h) 0 0,
      XYZ_make 0 0 0,
      XYZ_make 0 (- 1 / h) 0,
      XYZ_make (2 * sy / h) 0 0,
      XYZ_make 0 0 0,
      XYZ_make 0 (- 2 * sx / h) 0,
      XYZ_make (- 2 * sx / h) (2 * sy / h) 0,
      XYZ_make (3 * sy * sy / h) 0 0,
      XYZ_make 0 0 0,
      XYZ_make 0 (- 3 * sx * sx / h) 0,
      XYZ_make (sx * sx / h) (- 2 * sx * sy / h) 0,
      XYZ_make (- 6 * sx * sy / h) (3 * sy * sy / h) 0,
      XYZ_make (4 * sy * sy * sy / h) 0 0,
      XYZ_make 0 0 0,
      XYZ_make 0 (- 4 * sx * sx * sx / h) 0,
      XYZ_make (2 * sx * sx * sx / h) (- 6 * sx * sx * sy / h) 0,
      XYZ_make (- 6 * sx * sx * sy / h) (6 * sx * sy * sy / h) 0,
      XYZ_make (- 12 * sx * sy * sy / h) (4 * sy * sy * sy / h) 0]"


text \<open>The \<open>default\<close> branch of the switches.\<close>

definition field_select :: "XYZ list \<Rightarrow> int \<Rightarrow> XYZ result" where
  "field_select table np =
     (if 0 \<le> np \<and> np < int (length table) then Inr (table ! nat np)
      else Inl (Kokkos_abort
        ''Divergence-free basis only supports up to 4th-order polynomials for now.''))"

definition DivFree_evaluate_np_3d :: "int \<Rightarrow> real \<Rightarrow> real \<Rightarrow> real \<Rightarrow> XYZ result" where
  "DivFree_evaluate_np_3d np sx sy sz = field_select (divfree_fields_3d sx sy sz) np"

definition DivFree_evaluate_np_2d :: "int \<Rightarrow> real \<Rightarrow> real \<Rightarrow> XYZ result" where
  "DivFree_evaluate_np_2d np sx sy = field_select (divfree_fields_2d sx sy) np"

definition DivFree_evaluatePartialDerivative_np_3d ::
  "int \<Rightarrow> int \<Rightarrow> real \<Rightarrow> real \<Rightarrow> real \<Rightarrow> real \<Rightarrow> XYZ result" where
  "DivFree_evaluatePartialDerivative_np_3d np partial_direction h sx sy sz =
     (if partial_direction = 0 then field_select (divfree_partials_3d_0 h sx sy sz) np
      else if partial_direction = 1 then field_select (divfree_partials_3d_1 h sx sy sz) np
      else field_select (divfree_partials_3d_2 h sx sy sz) np)"

definition DivFree_evaluatePartialDerivative_np_2d ::
  "int \<Rightarrow> int \<Rightarrow> real \<Rightarrow> real \<Rightarrow> real \<Rightarrow> XYZ result" where
  "DivFree_evaluatePartialDerivative_np_2d np partial_direction h sx sy =
     (if partial_direction = 0 then field_select (divfree_partials_2d_0 h sx sy) np
      else field_select (divfree_partials_2d_1 h sx sy) np)"

section \<open>Derivatives of lists\<close>

definition list_deriv :: "(real \<Rightarrow> real list) \<Rightarrow> real list \<Rightarrow> real \<Rightarrow> bool" where
  "list_deriv F G x \<longleftrightarrow> (\<forall>t. length (F t) = length G)
     \<and> (\<forall>i < length G. ((\<lambda>t. F t ! i) has_real_derivative G ! i) (at x))"

lemma list_deriv_Nil: "list_deriv (\<lambda>t. []) [] x"
  by (simp add: list_deriv_def)

lemma list_deriv_Cons:
  assumes "(f has_real_derivative g) (at x)" "list_deriv F G x"
  shows "list_deriv (\<lambda>t. f t # F t) (g # G) x"
  using assms by (auto simp: list_deriv_def nth_Cons split: nat.splits)

text \<open>The same with one place left out.\<close>

definition list_deriv_except :: "nat \<Rightarrow> (real \<Rightarrow> real list) \<Rightarrow> real list \<Rightarrow> real \<Rightarrow> bool" where
  "list_deriv_except k F G x \<longleftrightarrow> (\<forall>t. length (F t) = length G)
     \<and> (\<forall>i < length G. i \<noteq> k \<longrightarrow> ((\<lambda>t. F t ! i) has_real_derivative G ! i) (at x))"

lemma list_deriv_except_0:
  assumes "list_deriv F G x"
  shows "list_deriv_except 0 (\<lambda>t. f t # F t) (g # G) x"
  using assms by (auto simp: list_deriv_def list_deriv_except_def nth_Cons split: nat.splits)

lemma list_deriv_except_Suc:
  assumes "(f has_real_derivative g) (at x)" "list_deriv_except k F G x"
  shows "list_deriv_except (Suc k) (\<lambda>t. f t # F t) (g # G) x"
  using assms by (auto simp: list_deriv_except_def nth_Cons split: nat.splits)

lemma partials_3d_0_0:
  assumes "h \<noteq> 0"
  shows "list_deriv (\<lambda>t. map x_coord (divfree_fields_3d (t / h) (y / h) (z / h)))
    (map x_coord (divfree_partials_3d_0 h (x / h) (y / h) (z / h))) x"
  unfolding divfree_fields_3d_def divfree_partials_3d_0_def Let_def list.map XYZ_make_def
    XYZ.select_convs
  by (intro list_deriv_Cons list_deriv_Nil)
    ((rule DERIV_const | (use assms in \<open>auto intro!: derivative_eq_intros simp: field_simps\<close>))+)

lemma partials_3d_0_1:
  assumes "h \<noteq> 0"
  shows "list_deriv (\<lambda>t. map y_coord (divfree_fields_3d (t / h) (y / h) (z / h)))
    (map y_coord (divfree_partials_3d_0 h (x / h) (y / h) (z / h))) x"
  unfolding divfree_fields_3d_def divfree_partials_3d_0_def Let_def list.map XYZ_make_def
    XYZ.select_convs
  by (intro list_deriv_Cons list_deriv_Nil)
    ((rule DERIV_const | (use assms in \<open>auto intro!: derivative_eq_intros simp: field_simps\<close>))+)

lemma partials_3d_0_2:
  assumes "h \<noteq> 0"
  shows "list_deriv (\<lambda>t. map z_coord (divfree_fields_3d (t / h) (y / h) (z / h)))
    (map z_coord (divfree_partials_3d_0 h (x / h) (y / h) (z / h))) x"
  unfolding divfree_fields_3d_def divfree_partials_3d_0_def Let_def list.map XYZ_make_def
    XYZ.select_convs
  by (intro list_deriv_Cons list_deriv_Nil)
    ((rule DERIV_const | (use assms in \<open>auto intro!: derivative_eq_intros simp: field_simps\<close>))+)

lemma partials_3d_1_0:
  assumes "h \<noteq> 0"
  shows "list_deriv (\<lambda>t. map x_coord (divfree_fields_3d (x / h) (t / h) (z / h)))
    (map x_coord (divfree_partials_3d_1 h (x / h) (y / h) (z / h))) y"
  unfolding divfree_fields_3d_def divfree_partials_3d_1_def Let_def list.map XYZ_make_def
    XYZ.select_convs
  by (intro list_deriv_Cons list_deriv_Nil)
    ((rule DERIV_const | (use assms in \<open>auto intro!: derivative_eq_intros simp: field_simps\<close>))+)

lemma partials_3d_1_1:
  assumes "h \<noteq> 0"
  shows "list_deriv_except 73 (\<lambda>t. map y_coord (divfree_fields_3d (x / h) (t / h) (z / h)))
    (map y_coord (divfree_partials_3d_1 h (x / h) (y / h) (z / h))) y"
  unfolding divfree_fields_3d_def divfree_partials_3d_1_def Let_def list.map XYZ_make_def
    XYZ.select_convs eval_nat_numeral Num.BitM.simps
  by (intro list_deriv_except_Suc list_deriv_except_0 list_deriv_Cons list_deriv_Nil)
    ((rule DERIV_const | (use assms in \<open>auto intro!: derivative_eq_intros simp: field_simps\<close>))+)

lemma partials_3d_1_2:
  assumes "h \<noteq> 0"
  shows "list_deriv (\<lambda>t. map z_coord (divfree_fields_3d (x / h) (t / h) (z / h)))
    (map z_coord (divfree_partials_3d_1 h (x / h) (y / h) (z / h))) y"
  unfolding divfree_fields_3d_def divfree_partials_3d_1_def Let_def list.map XYZ_make_def
    XYZ.select_convs
  by (intro list_deriv_Cons list_deriv_Nil)
    ((rule DERIV_const | (use assms in \<open>auto intro!: derivative_eq_intros simp: field_simps\<close>))+)

lemma partials_3d_2_0:
  assumes "h \<noteq> 0"
  shows "list_deriv (\<lambda>t. map x_coord (divfree_fields_3d (x / h) (y / h) (t / h)))
    (map x_coord (divfree_partials_3d_2 h (x / h) (y / h) (z / h))) z"
  unfolding divfree_fields_3d_def divfree_partials_3d_2_def Let_def list.map XYZ_make_def
    XYZ.select_convs
  by (intro list_deriv_Cons list_deriv_Nil)
    ((rule DERIV_const | (use assms in \<open>auto intro!: derivative_eq_intros simp: field_simps\<close>))+)

lemma partials_3d_2_1:
  assumes "h \<noteq> 0"
  shows "list_deriv (\<lambda>t. map y_coord (divfree_fields_3d (x / h) (y / h) (t / h)))
    (map y_coord (divfree_partials_3d_2 h (x / h) (y / h) (z / h))) z"
  unfolding divfree_fields_3d_def divfree_partials_3d_2_def Let_def list.map XYZ_make_def
    XYZ.select_convs
  by (intro list_deriv_Cons list_deriv_Nil)
    ((rule DERIV_const | (use assms in \<open>auto intro!: derivative_eq_intros simp: field_simps\<close>))+)

lemma partials_3d_2_2:
  assumes "h \<noteq> 0"
  shows "list_deriv (\<lambda>t. map z_coord (divfree_fields_3d (x / h) (y / h) (t / h)))
    (map z_coord (divfree_partials_3d_2 h (x / h) (y / h) (z / h))) z"
  unfolding divfree_fields_3d_def divfree_partials_3d_2_def Let_def list.map XYZ_make_def
    XYZ.select_convs
  by (intro list_deriv_Cons list_deriv_Nil)
    ((rule DERIV_const | (use assms in \<open>auto intro!: derivative_eq_intros simp: field_simps\<close>))+)

lemma partials_2d_0_0:
  assumes "h \<noteq> 0"
  shows "list_deriv (\<lambda>t. map x_coord (divfree_fields_2d (t / h) (y / h)))
    (map x_coord (divfree_partials_2d_0 h (x / h) (y / h))) x"
  unfolding divfree_fields_2d_def divfree_partials_2d_0_def list.map XYZ_make_def
    XYZ.select_convs
  by (intro list_deriv_Cons list_deriv_Nil)
    ((rule DERIV_const | (use assms in \<open>auto intro!: derivative_eq_intros simp: field_simps\<close>))+)

lemma partials_2d_0_1:
  assumes "h \<noteq> 0"
  shows "list_deriv (\<lambda>t. map y_coord (divfree_fields_2d (t / h) (y / h)))
    (map y_coord (divfree_partials_2d_0 h (x / h) (y / h))) x"
  unfolding divfree_fields_2d_def divfree_partials_2d_0_def list.map XYZ_make_def
    XYZ.select_convs
  by (intro list_deriv_Cons list_deriv_Nil)
    ((rule DERIV_const | (use assms in \<open>auto intro!: derivative_eq_intros simp: field_simps\<close>))+)

lemma partials_2d_0_2:
  assumes "h \<noteq> 0"
  shows "list_deriv (\<lambda>t. map z_coord (divfree_fields_2d (t / h) (y / h)))
    (map z_coord (divfree_partials_2d_0 h (x / h) (y / h))) x"
  unfolding divfree_fields_2d_def divfree_partials_2d_0_def list.map XYZ_make_def
    XYZ.select_convs
  by (intro list_deriv_Cons list_deriv_Nil)
    ((rule DERIV_const | (use assms in \<open>auto intro!: derivative_eq_intros simp: field_simps\<close>))+)

lemma partials_2d_1_0:
  assumes "h \<noteq> 0"
  shows "list_deriv (\<lambda>t. map x_coord (divfree_fields_2d (x / h) (t / h)))
    (map x_coord (divfree_partials_2d_1 h (x / h) (y / h))) y"
  unfolding divfree_fields_2d_def divfree_partials_2d_1_def list.map XYZ_make_def
    XYZ.select_convs
  by (intro list_deriv_Cons list_deriv_Nil)
    ((rule DERIV_const | (use assms in \<open>auto intro!: derivative_eq_intros simp: field_simps\<close>))+)

lemma partials_2d_1_1:
  assumes "h \<noteq> 0"
  shows "list_deriv (\<lambda>t. map y_coord (divfree_fields_2d (x / h) (t / h)))
    (map y_coord (divfree_partials_2d_1 h (x / h) (y / h))) y"
  unfolding divfree_fields_2d_def divfree_partials_2d_1_def list.map XYZ_make_def
    XYZ.select_convs
  by (intro list_deriv_Cons list_deriv_Nil)
    ((rule DERIV_const | (use assms in \<open>auto intro!: derivative_eq_intros simp: field_simps\<close>))+)

lemma partials_2d_1_2:
  assumes "h \<noteq> 0"
  shows "list_deriv (\<lambda>t. map z_coord (divfree_fields_2d (x / h) (t / h)))
    (map z_coord (divfree_partials_2d_1 h (x / h) (y / h))) y"
  unfolding divfree_fields_2d_def divfree_partials_2d_1_def list.map XYZ_make_def
    XYZ.select_convs
  by (intro list_deriv_Cons list_deriv_Nil)
    ((rule DERIV_const | (use assms in \<open>auto intro!: derivative_eq_intros simp: field_simps\<close>))+)

lemma table_lengths:
  "length (divfree_fields_3d sx sy sz) = 85" "length (divfree_partials_3d_0 h sx sy sz) = 85"
  "length (divfree_partials_3d_1 h sx sy sz) = 85" "length (divfree_partials_3d_2 h sx sy sz) = 85"
  "length (divfree_fields_2d sx sy) = 20" "length (divfree_partials_2d_0 h sx sy) = 20"
  "length (divfree_partials_2d_1 h sx sy) = 20"
  by (simp_all add: divfree_fields_3d_def divfree_partials_3d_0_def divfree_partials_3d_1_def
      divfree_partials_3d_2_def divfree_fields_2d_def divfree_partials_2d_0_def
      divfree_partials_2d_1_def Let_def)

section \<open>Divergence\<close>

definition list_zero3 :: "real list \<Rightarrow> real list \<Rightarrow> real list \<Rightarrow> bool" where
  "list_zero3 F G H \<longleftrightarrow> length F = length G \<and> length G = length H
     \<and> (\<forall>i < length H. F ! i + G ! i + H ! i = 0)"

definition list_zero3_except :: "nat \<Rightarrow> real list \<Rightarrow> real list \<Rightarrow> real list \<Rightarrow> real \<Rightarrow> bool" where
  "list_zero3_except k F G H d \<longleftrightarrow> length F = length G \<and> length G = length H
     \<and> (\<forall>i < length H. F ! i + G ! i + H ! i = (if i = k then d else 0))"

lemma list_zero3_Nil: "list_zero3 [] [] []"
  by (simp add: list_zero3_def)

lemma list_zero3_Cons:
  "a + b + c = 0 \<Longrightarrow> list_zero3 F G H \<Longrightarrow> list_zero3 (a # F) (b # G) (c # H)"
  by (auto simp: list_zero3_def nth_Cons split: nat.splits)

lemma list_zero3_except_0:
  "a + b + c = d \<Longrightarrow> list_zero3 F G H \<Longrightarrow> list_zero3_except 0 (a # F) (b # G) (c # H) d"
  by (auto simp: list_zero3_def list_zero3_except_def nth_Cons split: nat.splits)

lemma list_zero3_except_Suc:
  "a + b + c = 0 \<Longrightarrow> list_zero3_except k F G H d
    \<Longrightarrow> list_zero3_except (Suc k) (a # F) (b # G) (c # H) d"
  by (auto simp: list_zero3_except_def nth_Cons split: nat.splits)

lemma tables_divergence_3d:
  assumes "h \<noteq> 0"
  shows "list_zero3_except 73 (map x_coord (divfree_partials_3d_0 h sx sy sz))
    (map y_coord (divfree_partials_3d_1 h sx sy sz)) (map z_coord (divfree_partials_3d_2 h sx sy sz))
    (2 * sx * sy * sz * (1 / h - 1))"
  unfolding divfree_partials_3d_0_def divfree_partials_3d_1_def divfree_partials_3d_2_def
    Let_def list.map XYZ_make_def XYZ.select_convs eval_nat_numeral Num.BitM.simps
  by (intro list_zero3_except_Suc list_zero3_except_0 list_zero3_Cons list_zero3_Nil)
    (use assms in \<open>auto simp: field_simps\<close>)

lemma tables_divergence_2d:
  assumes "h \<noteq> 0"
  shows "list_zero3 (map x_coord (divfree_partials_2d_0 h sx sy))
    (map y_coord (divfree_partials_2d_1 h sx sy)) (map (\<lambda>v. 0) (divfree_partials_2d_1 h sx sy))"
  unfolding divfree_partials_2d_0_def divfree_partials_2d_1_def list.map XYZ_make_def
    XYZ.select_convs
  by (intro list_zero3_Cons list_zero3_Nil) (use assms in \<open>auto simp: field_simps\<close>)

section \<open>Correctness\<close>

text \<open>The value of a call, and its three components one by one.\<close>

definition np_field :: "XYZ result \<Rightarrow> XYZ" where
  "np_field r = (case r of Inr v \<Rightarrow> v | Inl e \<Rightarrow> XYZ_make 0 0 0)"

definition partial_of :: "(XYZ \<Rightarrow> real) \<Rightarrow> (real \<Rightarrow> XYZ result) \<Rightarrow> XYZ result \<Rightarrow> real \<Rightarrow> bool" where
  "partial_of c f r x \<longleftrightarrow> (\<exists>v. r = Inr v \<and> ((\<lambda>t. c (np_field (f t))) has_real_derivative c v) (at x))"

lemma field_select_Inr:
  "0 \<le> np \<Longrightarrow> np < int (length T) \<Longrightarrow> field_select T np = Inr (T ! nat np)"
  by (simp add: field_select_def)

lemma partial_of_list:
  assumes "list_deriv (\<lambda>t. map c (F t)) (map c G) x" "0 \<le> np" "np < int (length G)"
  shows "partial_of c (\<lambda>t. field_select (F t) np) (field_select G np) x"
proof -
  have len: "length (F t) = length G" for t
    using assms(1) by (simp add: list_deriv_def)
  have "((\<lambda>t. map c (F t) ! nat np) has_real_derivative map c G ! nat np) (at x)"
    using assms by (simp add: list_deriv_def nat_less_iff del: nth_map)
  then show ?thesis
    using assms(2,3) len by (simp add: partial_of_def field_select_Inr np_field_def nat_less_iff)
qed

lemma partial_of_list_except:
  assumes "list_deriv_except k (\<lambda>t. map c (F t)) (map c G) x" "0 \<le> np" "np < int (length G)"
    and "nat np \<noteq> k"
  shows "partial_of c (\<lambda>t. field_select (F t) np) (field_select G np) x"
proof -
  have len: "length (F t) = length G" for t
    using assms(1) by (simp add: list_deriv_except_def)
  have "((\<lambda>t. map c (F t) ! nat np) has_real_derivative map c G ! nat np) (at x)"
    using assms by (simp add: list_deriv_except_def nat_less_iff del: nth_map)
  then show ?thesis
    using assms(2,3) len by (simp add: partial_of_def field_select_Inr np_field_def nat_less_iff)
qed

text \<open>
  For every basis number from 0 to 84 and every direction, the hard-coded table of
  first partial derivatives in 3-D holds the derivative of the hard-coded field in the
  unscaled coordinate, component by component, except for one entry: the second
  component of number 73 differentiated in the y direction.
\<close>

theorem hardcoded_partials_3d:
  assumes "h \<noteq> 0" "0 \<le> np" "np < 85"
  shows "(\<forall>c \<in> {x_coord, y_coord, z_coord}. partial_of c
        (\<lambda>t. DivFree_evaluate_np_3d np (t / h) (y / h) (z / h))
        (DivFree_evaluatePartialDerivative_np_3d np 0 h (x / h) (y / h) (z / h)) x)
    \<and> (\<forall>c \<in> {x_coord, z_coord}. partial_of c
        (\<lambda>t. DivFree_evaluate_np_3d np (x / h) (t / h) (z / h))
        (DivFree_evaluatePartialDerivative_np_3d np 1 h (x / h) (y / h) (z / h)) y)
    \<and> (np \<noteq> 73 \<longrightarrow> partial_of y_coord
        (\<lambda>t. DivFree_evaluate_np_3d np (x / h) (t / h) (z / h))
        (DivFree_evaluatePartialDerivative_np_3d np 1 h (x / h) (y / h) (z / h)) y)
    \<and> (\<forall>c \<in> {x_coord, y_coord, z_coord}. partial_of c
        (\<lambda>t. DivFree_evaluate_np_3d np (x / h) (y / h) (t / h))
        (DivFree_evaluatePartialDerivative_np_3d np 2 h (x / h) (y / h) (z / h)) z)"
proof -
  have "partial_of y_coord (\<lambda>t. DivFree_evaluate_np_3d np (x / h) (t / h) (z / h))
      (DivFree_evaluatePartialDerivative_np_3d np 1 h (x / h) (y / h) (z / h)) y" if "np \<noteq> 73"
    using partial_of_list_except [OF partials_3d_1_1 [OF assms(1), of x z y] assms(2)] assms that
    by (simp add: DivFree_evaluate_np_3d_def DivFree_evaluatePartialDerivative_np_3d_def table_lengths)
  then show ?thesis
    using assms partials_3d_0_0 partials_3d_0_1 partials_3d_0_2 partials_3d_1_0 partials_3d_1_2
      partials_3d_2_0 partials_3d_2_1 partials_3d_2_2
    by (auto simp: DivFree_evaluate_np_3d_def DivFree_evaluatePartialDerivative_np_3d_def
        table_lengths intro!: partial_of_list)
qed

theorem hardcoded_partials_3d_witness:
  "partial_of y_coord (\<lambda>t. DivFree_evaluate_np_3d 20 (3 / 2) (t / 2) (1 / 2))
     (DivFree_evaluatePartialDerivative_np_3d 20 1 2 (3 / 2) (5 / 2) (1 / 2)) 5"
  using hardcoded_partials_3d [of 2 20 5 1 3] by simp

text \<open>
  C34: the divergence read from the hard-coded 3-D tables vanishes for every basis
  number but 73, where it is \<open>2 sx sy sz (1/h - 1)\<close>: the table has \<open>-2 sx sy sz\<close>
  where the derivative is \<open>-2 sx sy sz / h\<close>, so the field loses its zero divergence
  whenever the window size is not one.
\<close>

theorem hardcoded_divergence_3d:
  assumes "h \<noteq> 0" "0 \<le> np" "np < 85"
  shows "\<exists>X Y Z. DivFree_evaluatePartialDerivative_np_3d np 0 h sx sy sz = Inr X
    \<and> DivFree_evaluatePartialDerivative_np_3d np 1 h sx sy sz = Inr Y
    \<and> DivFree_evaluatePartialDerivative_np_3d np 2 h sx sy sz = Inr Z
    \<and> x_coord X + y_coord Y + z_coord Z = (if np = 73 then 2 * sx * sy * sz * (1 / h - 1) else 0)"
proof -
  have "nat np < 85" "(nat np = 73) = (np = 73)" using assms(2,3) by auto
  then show ?thesis
    using assms tables_divergence_3d [OF assms(1), of sx sy sz]
    by (simp add: list_zero3_except_def DivFree_evaluatePartialDerivative_np_3d_def table_lengths
        field_select_Inr)
qed

theorem hardcoded_divergence_3d_witness:
  "\<exists>X Y Z. DivFree_evaluatePartialDerivative_np_3d 73 0 (1 / 2) 1 1 1 = Inr X
    \<and> DivFree_evaluatePartialDerivative_np_3d 73 1 (1 / 2) 1 1 1 = Inr Y
    \<and> DivFree_evaluatePartialDerivative_np_3d 73 2 (1 / 2) 1 1 1 = Inr Z
    \<and> x_coord X + y_coord Y + z_coord Z = 2"
  using hardcoded_divergence_3d [of "1 / 2" 73 1 1 1] by simp

text \<open>
  In 2-D all twenty hard-coded fields have the tabulated partial derivatives and a
  tabulated divergence of zero.
\<close>

theorem hardcoded_partials_2d:
  assumes "h \<noteq> 0" "0 \<le> np" "np < 20"
  shows "(\<forall>c \<in> {x_coord, y_coord, z_coord}.
      partial_of c (\<lambda>t. DivFree_evaluate_np_2d np (t / h) (y / h))
        (DivFree_evaluatePartialDerivative_np_2d np 0 h (x / h) (y / h)) x
      \<and> partial_of c (\<lambda>t. DivFree_evaluate_np_2d np (x / h) (t / h))
        (DivFree_evaluatePartialDerivative_np_2d np 1 h (x / h) (y / h)) y)
    \<and> x_coord (np_field (DivFree_evaluatePartialDerivative_np_2d np 0 h (x / h) (y / h)))
      + y_coord (np_field (DivFree_evaluatePartialDerivative_np_2d np 1 h (x / h) (y / h))) = 0"
proof
  show "\<forall>c \<in> {x_coord, y_coord, z_coord}.
      partial_of c (\<lambda>t. DivFree_evaluate_np_2d np (t / h) (y / h))
        (DivFree_evaluatePartialDerivative_np_2d np 0 h (x / h) (y / h)) x
      \<and> partial_of c (\<lambda>t. DivFree_evaluate_np_2d np (x / h) (t / h))
        (DivFree_evaluatePartialDerivative_np_2d np 1 h (x / h) (y / h)) y"
    using assms partials_2d_0_0 partials_2d_0_1 partials_2d_0_2 partials_2d_1_0 partials_2d_1_1
      partials_2d_1_2
    by (auto simp: DivFree_evaluate_np_2d_def DivFree_evaluatePartialDerivative_np_2d_def
        table_lengths intro!: partial_of_list)
next
  have "nat np < 20" using assms(2,3) by auto
  then show "x_coord (np_field (DivFree_evaluatePartialDerivative_np_2d np 0 h (x / h) (y / h)))
      + y_coord (np_field (DivFree_evaluatePartialDerivative_np_2d np 1 h (x / h) (y / h))) = 0"
    using assms tables_divergence_2d [OF assms(1), of "x / h" "y / h"]
    by (simp add: list_zero3_def DivFree_evaluatePartialDerivative_np_2d_def table_lengths
        field_select_Inr np_field_def)
qed

theorem hardcoded_partials_2d_witness:
  "partial_of x_coord (\<lambda>t. DivFree_evaluate_np_2d 17 (t / 2) (3 / 2))
     (DivFree_evaluatePartialDerivative_np_2d 17 0 2 (5 / 2) (3 / 2)) 5"
  using hardcoded_partials_2d [of 2 17 3 5] by simp

end
