(* ===== verification/Compadre_PointConnections.thy ===== *)
theory Compadre_PointConnections
  imports Compadre_Misc Compadre_NeighborLists
begin

text \<open>
  Compadre_PointConnections.hpp: neighbor lists together with the coordinates of the
  targets and of the sources they refer to, the coordinates relative to a target, and the
  change to and from a local orthonormal frame.
\<close>

section \<open>State\<close>

text \<open>Coordinates are rank-2 views: one row per point.\<close>

record point_connections =
  pc_target_coordinates :: "real list list"
  pc_source_coordinates :: "real list list"
  pc_nla :: neighbor_lists

definition PointConnections_make ::
  "real list list \<Rightarrow> real list list \<Rightarrow> neighbor_lists \<Rightarrow> point_connections" where
  "PointConnections_make target_coordinates source_coordinates nla =
     \<lparr>pc_target_coordinates = target_coordinates, pc_source_coordinates = source_coordinates,
      pc_nla = nla\<rparr>"

definition PointConnections_default :: point_connections where
  "PointConnections_default =
     \<lparr>pc_target_coordinates = [], pc_source_coordinates = [], pc_nla = NeighborLists_default\<rparr>"

definition PointConnections_copy :: "point_connections \<Rightarrow> point_connections" where
  "PointConnections_copy other =
     PointConnections_make (pc_target_coordinates other) (pc_source_coordinates other) (pc_nla other)"

section \<open>Frames\<close>

text \<open>
  The frame \<open>V\<close> is a matrix with one direction per row.  \<open>extent_int(1)\<close> is the number of
  columns.
\<close>

definition columns :: "real list list \<Rightarrow> int" where
  "columns V = (case V of [] \<Rightarrow> 0 | r # rs \<Rightarrow> int (length r))"

definition convertGlobalToLocalCoordinate ::
  "bool \<Rightarrow> XYZ \<Rightarrow> int \<Rightarrow> real list list \<Rightarrow> real result" where
  "convertGlobalToLocalCoordinate dbg global_coord nd V =
     rbind (compadre_kernel_assert_debug dbg ''dim<3'' (nd < 3)) (\<lambda>_.
     rbind (view_read2 V nd 0) (\<lambda>v0.
     rbind (if columns V > 1 then rbind (view_read2 V nd 1) (\<lambda>v1. Inr (y_coord global_coord * v1))
            else Inr 0) (\<lambda>sy.
     rbind (if columns V > 2 then rbind (view_read2 V nd 2) (\<lambda>v2. Inr (z_coord global_coord * v2))
            else Inr 0) (\<lambda>sz.
       Inr (0 + x_coord global_coord * v0 + sy + sz)))))"

definition convertLocalToGlobalCoordinate ::
  "XYZ \<Rightarrow> int \<Rightarrow> real list list \<Rightarrow> real result" where
  "convertLocalToGlobalCoordinate local_coord nd V =
     (if nd = 0 \<and> length V = 1 then
        rbind (view_read2 V 0 nd) (\<lambda>v. Inr (x_coord local_coord * v))
      else if nd = 0 then
        rbind (view_read2 V 0 nd) (\<lambda>v0. rbind (view_read2 V 1 nd) (\<lambda>v1.
          Inr (x_coord local_coord * (v0 + v1))))
      else if nd = 1 then
        rbind (view_read2 V 0 nd) (\<lambda>v0. rbind (view_read2 V 1 nd) (\<lambda>v1.
          Inr (y_coord local_coord * (v0 + v1))))
      else Inr 0)"

text \<open>The \<open>switch\<close> falls through from the case of three dimensions to that of two.\<close>

definition EuclideanVectorLength :: "XYZ \<Rightarrow> int \<Rightarrow> real" where
  "EuclideanVectorLength delta_vector dimension =
     sqrt (if dimension = 3 then
             x_coord delta_vector * x_coord delta_vector + z_coord delta_vector * z_coord delta_vector
             + y_coord delta_vector * y_coord delta_vector
           else if dimension = 2 then
             x_coord delta_vector * x_coord delta_vector + y_coord delta_vector * y_coord delta_vector
           else x_coord delta_vector * x_coord delta_vector)"

section \<open>Accessors\<close>

definition getNeighborIndex :: "point_connections \<Rightarrow> int \<Rightarrow> int \<Rightarrow> int result" where
  "getNeighborIndex pc target_index neighbor_list_num =
     getNeighborDevice (pc_nla pc) target_index neighbor_list_num"

text \<open>
  A row of a coordinate view as a point: the components beyond the extent stay zero.
\<close>

definition point_of_row :: "real list list \<Rightarrow> int \<Rightarrow> XYZ result" where
  "point_of_row coords i =
     rbind (view_read2 coords i 0) (\<lambda>x.
     rbind (if columns coords > 1
            then rbind (view_read2 coords i 1) (\<lambda>y. Inr (XYZ_index_set (XYZ_make x 0 0) 1 y))
            else Inr (XYZ_make x 0 0)) (\<lambda>p.
     if columns coords > 2
     then rbind (view_read2 coords i 2) (\<lambda>z. Inr (XYZ_index_set p 2 z))
     else Inr p))"

definition getTargetCoordinate ::
  "bool \<Rightarrow> point_connections \<Rightarrow> int \<Rightarrow> int \<Rightarrow> real list list option \<Rightarrow> real result" where
  "getTargetCoordinate dbg pc target_index nd V =
     rbind (compadre_kernel_assert_debug dbg ''Target index is out of range for _target_coordinates.''
              (of_nat (length (pc_target_coordinates pc)) \<ge> TO_GLOBAL target_index)) (\<lambda>_.
     case V of
       None \<Rightarrow> view_read2 (pc_target_coordinates pc) target_index nd
     | Some V \<Rightarrow> rbind (point_of_row (pc_target_coordinates pc) target_index) (\<lambda>target_coord.
         convertGlobalToLocalCoordinate dbg target_coord nd V))"

definition getNeighborCoordinate ::
  "bool \<Rightarrow> point_connections \<Rightarrow> int \<Rightarrow> int \<Rightarrow> int \<Rightarrow> real list list option \<Rightarrow> real result" where
  "getNeighborCoordinate dbg pc target_index neighbor_list_num nd V =
     rbind (getNeighborIndex pc target_index neighbor_list_num) (\<lambda>source_index.
     rbind (compadre_kernel_assert_debug dbg ''Source index is out of range for _source_coordinates.''
              (of_nat (length (pc_source_coordinates pc)) \<ge> TO_GLOBAL source_index)) (\<lambda>_.
     case V of
       None \<Rightarrow> view_read2 (pc_source_coordinates pc) source_index nd
     | Some V \<Rightarrow> rbind (point_of_row (pc_source_coordinates pc) source_index) (\<lambda>neighbor_coord.
         convertGlobalToLocalCoordinate dbg neighbor_coord nd V)))"

definition relative_component ::
  "bool \<Rightarrow> point_connections \<Rightarrow> int \<Rightarrow> int \<Rightarrow> int \<Rightarrow> real list list option \<Rightarrow> real result" where
  "relative_component dbg pc target_index neighbor_list_num nd V =
     rbind (getNeighborCoordinate dbg pc target_index neighbor_list_num nd V) (\<lambda>n.
     rbind (getTargetCoordinate dbg pc target_index nd V) (\<lambda>t. Inr (n - t)))"

definition getRelativeCoord ::
  "bool \<Rightarrow> point_connections \<Rightarrow> int \<Rightarrow> int \<Rightarrow> int \<Rightarrow> real list list option \<Rightarrow> XYZ result" where
  "getRelativeCoord dbg pc target_index neighbor_list_num dimension V =
     rbind (relative_component dbg pc target_index neighbor_list_num 0 V) (\<lambda>x.
     rbind (if dimension > 1 then relative_component dbg pc target_index neighbor_list_num 1 V
            else Inr 0) (\<lambda>y.
     rbind (if dimension > 2 then relative_component dbg pc target_index neighbor_list_num 2 V
            else Inr 0) (\<lambda>z.
       Inr (XYZ_make x y z))))"

section \<open>Connections that fit together\<close>

text \<open>
  Every target has a row of neighbors, every neighbor is a source, and all points have
  \<open>d\<close> coordinates.
\<close>

definition pc_valid :: "nat \<Rightarrow> point_connections \<Rightarrow> bool" where
  "pc_valid d pc \<longleftrightarrow> nl_wf (pc_nla pc)
     \<and> nl_rows (pc_nla pc) = length (pc_target_coordinates pc)
     \<and> length (pc_target_coordinates pc) < 2 ^ 31
     \<and> length (pc_source_coordinates pc) < 2 ^ 31
     \<and> (\<forall>k < length (nl_cr_neighbor_lists (pc_nla pc)).
          0 \<le> nl_cr_neighbor_lists (pc_nla pc) ! k
          \<and> nl_cr_neighbor_lists (pc_nla pc) ! k < int (length (pc_source_coordinates pc)))
     \<and> (\<forall>r \<in> set (pc_target_coordinates pc) \<union> set (pc_source_coordinates pc). length r = d)"

definition neighbor_of :: "point_connections \<Rightarrow> nat \<Rightarrow> nat \<Rightarrow> nat" where
  "neighbor_of pc i j =
     nat (nl_cr_neighbor_lists (pc_nla pc) ! (nl_offset (pc_nla pc) i + j))"

definition row_point :: "real list \<Rightarrow> XYZ" where
  "row_point r = XYZ_make (r ! 0) (if length r > 1 then r ! 1 else 0) (if length r > 2 then r ! 2 else 0)"

lemma view_read2_nat:
  "i < length v \<Longrightarrow> j < length (v ! i) \<Longrightarrow> view_read2 v (int i) (int j) = Inr (v ! i ! j)"
  by (simp add: view_read2_def)

lemma view_read2_012:
  "i < length v \<Longrightarrow> 0 < length (v ! i) \<Longrightarrow> view_read2 v (int i) 0 = Inr (v ! i ! 0)"
  "i < length v \<Longrightarrow> 1 < length (v ! i) \<Longrightarrow> view_read2 v (int i) 1 = Inr (v ! i ! 1)"
  "i < length v \<Longrightarrow> 2 < length (v ! i) \<Longrightarrow> view_read2 v (int i) 2 = Inr (v ! i ! 2)"
  using view_read2_nat [of i v 0] view_read2_nat [of i v 1] view_read2_nat [of i v 2] by simp_all

lemma columns_uniform: "v \<noteq> [] \<Longrightarrow> (\<forall>r \<in> set v. length r = d) \<Longrightarrow> columns v = int d"
  by (cases v) (simp_all add: columns_def)

lemma point_of_row_eq:
  assumes "i < length coords" "\<forall>r \<in> set coords. length r = d" "0 < d"
  shows "point_of_row coords (int i) = Inr (row_point (coords ! i))"
proof -
  have d: "length (coords ! i) = d" and ne: "coords \<noteq> []" using assms by auto
  then have "columns coords = int d" using assms(2) by (simp add: columns_uniform)
  then show ?thesis
    using assms(1,3) d by (simp add: point_of_row_def view_read2_012 row_point_def XYZ_defs)
qed

lemma neighbor_index_eq:
  assumes "pc_valid d pc" "i < nl_rows (pc_nla pc)" "j < nl_count (pc_nla pc) i"
  shows "getNeighborIndex pc (int i) (int j) = Inr (int (neighbor_of pc i j))"
    and "neighbor_of pc i j < length (pc_source_coordinates pc)"
proof -
  note v = assms(1) [unfolded pc_valid_def]
  have off: "nl_offset (pc_nla pc) i + j < length (nl_cr_neighbor_lists (pc_nla pc))"
    using nls.slot_in_extent [OF _ assms(2,3)] v by (simp add: nl_extent_def)
  then have n: "0 \<le> nl_cr_neighbor_lists (pc_nla pc) ! (nl_offset (pc_nla pc) i + j)"
      "nl_cr_neighbor_lists (pc_nla pc) ! (nl_offset (pc_nla pc) i + j)
        < int (length (pc_source_coordinates pc))"
    using v by auto
  show "neighbor_of pc i j < length (pc_source_coordinates pc)"
    using n by (simp add: neighbor_of_def)
  show "getNeighborIndex pc (int i) (int j) = Inr (int (neighbor_of pc i j))"
    using n nl_device_read [OF _ assms(2,3)] v
    by (simp add: getNeighborIndex_def neighbor_of_def)
qed

lemma TO_GLOBAL_le:
  assumes "i \<le> n" "n < 2 ^ 31"
  shows "TO_GLOBAL (int i) \<le> of_nat n"
  using assms by (simp add: TO_GLOBAL_of_nat word_le_nat_alt unat_of_nat)

lemma TO_GLOBAL_le_iff:
  assumes "fits_int t" "n < 2 ^ 31"
  shows "TO_GLOBAL t \<le> of_nat n \<longleftrightarrow> 0 \<le> t \<and> t \<le> int n"
proof (cases "0 \<le> t")
  case True
  then obtain m where "t = int m" by (metis nonneg_int_cases)
  then show ?thesis
    using assms by (simp add: TO_GLOBAL_of_nat word_le_nat_alt unat_of_nat fits_int_def)
next
  case False
  have "uint (TO_GLOBAL t) = t mod 2 ^ 64"
    by (simp add: TO_GLOBAL_def uint_word_of_int_eq take_bit_eq_mod)
  also have "\<dots> = (t + 2 ^ 64) mod 2 ^ 64" by simp
  also have "\<dots> = t + 2 ^ 64"
    using False assms(1) by (intro mod_pos_pos_trivial) (simp_all add: fits_int_def)
  finally have "int n < uint (TO_GLOBAL t)"
    using assms by (simp add: fits_int_def)
  moreover have "uint (of_nat n :: u64) = int n"
    using assms(2) by (simp add: uint_nat unat_of_nat)
  ultimately show ?thesis
    using False by (simp add: word_le_def)
qed

text \<open>One row of a frame applied to a point.\<close>

definition frame_row :: "nat \<Rightarrow> real list list \<Rightarrow> nat \<Rightarrow> XYZ \<Rightarrow> real" where
  "frame_row d V k p = x_coord p * V ! k ! 0 + (if 1 < d then y_coord p * V ! k ! 1 else 0)
     + (if 2 < d then z_coord p * V ! k ! 2 else 0)"

definition is_frame :: "nat \<Rightarrow> real list list \<Rightarrow> bool" where
  "is_frame d V \<longleftrightarrow> length V = d \<and> (\<forall>r \<in> set V. length r = d)"

definition orthogonal_frame :: "nat \<Rightarrow> real list list \<Rightarrow> bool" where
  "orthogonal_frame d V \<longleftrightarrow> is_frame d V
     \<and> (\<forall>a < d. \<forall>b < d. (\<Sum>k<d. V ! k ! a * V ! k ! b) = (if a = b then 1 else 0))"

lemma convert_eq:
  assumes "is_frame d V" "k < d" "k < 3"
  shows "convertGlobalToLocalCoordinate dbg p (int k) V = Inr (frame_row d V k p)"
proof -
  have len: "length (V ! k) = d" "k < length V" and ne: "V \<noteq> []"
    using assms by (auto simp: is_frame_def)
  have "columns V = int d" using ne assms(1) by (simp add: columns_uniform is_frame_def)
  then show ?thesis
    using assms len by (simp add: convertGlobalToLocalCoordinate_def view_read2_012 frame_row_def)
qed

text \<open>The component of a point with or without a frame.\<close>

definition frame_component :: "nat \<Rightarrow> real list list option \<Rightarrow> nat \<Rightarrow> XYZ \<Rightarrow> real" where
  "frame_component d V k p = (case V of None \<Rightarrow> XYZ_index p (int k) | Some V \<Rightarrow> frame_row d V k p)"

lemma row_point_index: "k < length r \<Longrightarrow> k < 3 \<Longrightarrow> XYZ_index (row_point r) (int k) = r ! k"
  by (cases "k = 0"; cases "k = 1")
    (auto simp: row_point_def XYZ_defs less_Suc_eq numeral_3_eq_3 numeral_2_eq_2)

lemma target_coordinate_eq:
  assumes "pc_valid d pc" "i < nl_rows (pc_nla pc)" "k < d" "k < 3"
    and "\<And>V'. V = Some V' \<Longrightarrow> is_frame d V'"
  shows "getTargetCoordinate dbg pc (int i) (int k) V
    = Inr (frame_component d V k (row_point (pc_target_coordinates pc ! i)))"
proof -
  note v = assms(1) [unfolded pc_valid_def]
  have i: "i < length (pc_target_coordinates pc)" using v assms(2) by simp
  then have "length (pc_target_coordinates pc ! i) = d" using v by simp
  moreover have "TO_GLOBAL (int i) \<le> of_nat (length (pc_target_coordinates pc))"
    using i v by (intro TO_GLOBAL_le) auto
  moreover have "point_of_row (pc_target_coordinates pc) (int i)
      = Inr (row_point (pc_target_coordinates pc ! i))"
    using i v assms(3) by (intro point_of_row_eq [of _ _ d]) auto
  ultimately show ?thesis
    using i assms(3-5) by (cases V) (simp_all add: getTargetCoordinate_def frame_component_def
        view_read2_nat row_point_index convert_eq)
qed

lemma neighbor_coordinate_eq:
  assumes "pc_valid d pc" "i < nl_rows (pc_nla pc)" "j < nl_count (pc_nla pc) i" "k < d" "k < 3"
    and "\<And>V'. V = Some V' \<Longrightarrow> is_frame d V'"
  shows "getNeighborCoordinate dbg pc (int i) (int j) (int k) V
    = Inr (frame_component d V k (row_point (pc_source_coordinates pc ! neighbor_of pc i j)))"
proof -
  note v = assms(1) [unfolded pc_valid_def]
  note n = neighbor_index_eq [OF assms(1-3)]
  then have "length (pc_source_coordinates pc ! neighbor_of pc i j) = d" using v by simp
  moreover have "TO_GLOBAL (int (neighbor_of pc i j)) \<le> of_nat (length (pc_source_coordinates pc))"
    using n v by (intro TO_GLOBAL_le) auto
  moreover have "point_of_row (pc_source_coordinates pc) (int (neighbor_of pc i j))
      = Inr (row_point (pc_source_coordinates pc ! neighbor_of pc i j))"
    using n v assms(4) by (intro point_of_row_eq [of _ _ d]) auto
  ultimately show ?thesis
    using n assms(4-6) by (cases V) (simp_all add: getNeighborCoordinate_def frame_component_def
        view_read2_nat row_point_index convert_eq)
qed

text \<open>The relative coordinate is the difference of the two points, seen in the frame.\<close>

definition relative_point :: "nat \<Rightarrow> point_connections \<Rightarrow> nat \<Rightarrow> nat \<Rightarrow> real list list option \<Rightarrow> XYZ" where
  "relative_point d pc i j V =
     (let p = XYZ_sub (row_point (pc_source_coordinates pc ! neighbor_of pc i j))
                (row_point (pc_target_coordinates pc ! i))
      in XYZ_make (frame_component d V 0 p) (if 1 < d then frame_component d V 1 p else 0)
           (if 2 < d then frame_component d V 2 p else 0))"

lemma frame_component_sub: "frame_component d V k p - frame_component d V k q = frame_component d V k (XYZ_sub p q)"
  by (cases V) (auto simp: frame_component_def XYZ_defs frame_row_def algebra_simps)

lemma XYZ_index_sub: "XYZ_index (XYZ_sub p q) k = XYZ_index p k - XYZ_index q k"
  by (simp add: XYZ_defs)

lemma relative_coord_eq:
  assumes "pc_valid d pc" "i < nl_rows (pc_nla pc)" "j < nl_count (pc_nla pc) i" "0 < d" "d \<le> 3"
    and "\<And>V'. V = Some V' \<Longrightarrow> is_frame d V'"
  shows "getRelativeCoord dbg pc (int i) (int j) (int d) V = Inr (relative_point d pc i j V)"
proof -
  have "relative_component dbg pc (int i) (int j) (int k) V = Inr (frame_component d V k
      (XYZ_sub (row_point (pc_source_coordinates pc ! neighbor_of pc i j))
        (row_point (pc_target_coordinates pc ! i))))" if "k < d" for k
    using that assms(5) neighbor_coordinate_eq [OF assms(1-3) that _ assms(6)]
      target_coordinate_eq [OF assms(1,2) that _ assms(6)]
    by (simp add: relative_component_def frame_component_sub)
  from this [of 0] this [of 1] this [of 2] show ?thesis
    using assms(4) by (simp add: getRelativeCoord_def relative_point_def Let_def)
qed

lemma frame_isometry:
  assumes "orthogonal_frame d V" "0 < d" "d \<le> 3"
  shows "EuclideanVectorLength (XYZ_make (frame_row d V 0 p) (if 1 < d then frame_row d V 1 p else 0)
      (if 2 < d then frame_row d V 2 p else 0)) (int d) = EuclideanVectorLength p (int d)"
proof -
  define v where "v = (\<lambda>k a. V ! k ! a)"
  have o: "(\<Sum>k<d. v k a * v k b) = (if a = b then 1 else 0)" if "a < d" "b < d" for a b
    using assms(1) that by (simp add: orthogonal_frame_def v_def)
  consider "d = 1" | "d = 2" | "d = 3" using assms(2,3) by linarith
  then show ?thesis
  proof cases
    case 1
    then have "\<bar>v 0 0\<bar> = 1" using o [of 0 0] abs_square_eq_1 [of "v 0 0"] by (simp add: power2_eq_square)
    then show ?thesis
      using 1 by (simp add: EuclideanVectorLength_def frame_row_def v_def XYZ_make_def abs_mult)
  next
    case 2
    have "(x_coord p * v 0 0 + y_coord p * v 0 1) * (x_coord p * v 0 0 + y_coord p * v 0 1)
        + (x_coord p * v 1 0 + y_coord p * v 1 1) * (x_coord p * v 1 0 + y_coord p * v 1 1)
      = x_coord p * x_coord p * (\<Sum>k<d. v k 0 * v k 0) + y_coord p * y_coord p * (\<Sum>k<d. v k 1 * v k 1)
        + 2 * x_coord p * y_coord p * (\<Sum>k<d. v k 0 * v k 1)"
      using 2 by (simp add: numeral_2_eq_2 algebra_simps)
    then show ?thesis
      using 2 o [of 0 0] o [of 1 1] o [of 0 1]
      by (simp add: EuclideanVectorLength_def frame_row_def v_def XYZ_make_def)
  next
    case 3
    have "(x_coord p * v 0 0 + y_coord p * v 0 1 + z_coord p * v 0 2) ^ 2
        + (x_coord p * v 1 0 + y_coord p * v 1 1 + z_coord p * v 1 2) ^ 2
        + (x_coord p * v 2 0 + y_coord p * v 2 1 + z_coord p * v 2 2) ^ 2
      = x_coord p * x_coord p * (\<Sum>k<d. v k 0 * v k 0) + y_coord p * y_coord p * (\<Sum>k<d. v k 1 * v k 1)
        + z_coord p * z_coord p * (\<Sum>k<d. v k 2 * v k 2)
        + 2 * x_coord p * y_coord p * (\<Sum>k<d. v k 0 * v k 1)
        + 2 * x_coord p * z_coord p * (\<Sum>k<d. v k 0 * v k 2)
        + 2 * y_coord p * z_coord p * (\<Sum>k<d. v k 1 * v k 2)"
      using 3 by (simp add: numeral_3_eq_3 numeral_2_eq_2 algebra_simps power2_eq_square)
    then show ?thesis
      using 3 o [of 0 0] o [of 1 1] o [of 2 2] o [of 0 1] o [of 0 2] o [of 1 2]
      by (simp add: EuclideanVectorLength_def frame_row_def v_def XYZ_make_def power2_eq_square
          algebra_simps)
  qed
qed

section \<open>Properties\<close>

text \<open>
  C16: for targets, sources and neighbor lists that fit together, the relative coordinate
  of a neighbor succeeds with and without a local frame; without one its components are
  the differences of the coordinates, and an orthogonal frame keeps its Euclidean length,
  so the weights do not depend on the frame in which a point is seen.
\<close>

theorem relative_coord_isometry:
  assumes "pc_valid d pc" "i < nl_rows (pc_nla pc)" "j < nl_count (pc_nla pc) i" "0 < d" "d \<le> 3"
    and "orthogonal_frame d V"
  shows "\<exists>p q. getRelativeCoord dbg pc (int i) (int j) (int d) None = Inr p
    \<and> getRelativeCoord dbg pc (int i) (int j) (int d) (Some V) = Inr q
    \<and> getNeighborIndex pc (int i) (int j) = Inr (int (neighbor_of pc i j))
    \<and> (\<forall>k<d. XYZ_index p (int k)
         = pc_source_coordinates pc ! neighbor_of pc i j ! k - pc_target_coordinates pc ! i ! k)
    \<and> EuclideanVectorLength q (int d) = EuclideanVectorLength p (int d)"
proof -
  define p where "p = XYZ_sub (row_point (pc_source_coordinates pc ! neighbor_of pc i j))
    (row_point (pc_target_coordinates pc ! i))"
  note v = assms(1) [unfolded pc_valid_def]
  note n = neighbor_index_eq [OF assms(1-3)]
  have len: "length (pc_source_coordinates pc ! neighbor_of pc i j) = d"
      "length (pc_target_coordinates pc ! i) = d"
    using n(2) v assms(2) by auto
  have idx: "XYZ_index p (int k)
      = pc_source_coordinates pc ! neighbor_of pc i j ! k - pc_target_coordinates pc ! i ! k"
    if "k < d" for k
    using that assms(5) row_point_index [of k "pc_source_coordinates pc ! neighbor_of pc i j"]
      row_point_index [of k "pc_target_coordinates pc ! i"] len
    by (simp add: p_def XYZ_index_sub)
  have "relative_point d pc i j None = p"
    using assms(4) by (auto simp: relative_point_def p_def [symmetric] frame_component_def len p_def
        row_point_def XYZ_defs Let_def)
  moreover have "EuclideanVectorLength (relative_point d pc i j (Some V)) (int d)
      = EuclideanVectorLength p (int d)"
    using frame_isometry [OF assms(6,4,5), of p]
    unfolding relative_point_def p_def [symmetric] Let_def frame_component_def option.case .
  ultimately show ?thesis
    using relative_coord_eq [OF assms(1-5), of None] relative_coord_eq [OF assms(1-5), of "Some V"]
      assms(6) idx n(1) by (simp add: orthogonal_frame_def)
qed

text \<open>Two targets and eight sources in the plane, with a rotated frame.\<close>

definition pc_example :: point_connections where
  "pc_example = PointConnections_make [[0, 0], [1, 0]]
     [[0, 0], [1, 0], [2, 0], [3, 0], [4, 0], [5, 1], [6, 1], [7, 1]] nl_example"

lemma pc_example_valid: "pc_valid 2 pc_example"
  using nl_example_wf nl_example_views
  by (auto simp: pc_valid_def pc_example_def PointConnections_make_def nl_example_def nl_built_def
      less_Suc_eq numeral_3_eq_3)

lemma pc_example_frame: "orthogonal_frame 2 [[3 / 5, 4 / 5], [- 4 / 5, 3 / 5]]"
  by (auto simp: orthogonal_frame_def is_frame_def less_Suc_eq numeral_2_eq_2)

theorem relative_coord_isometry_witness:
  "\<exists>p q. getRelativeCoord True pc_example 0 1 2 None = Inr p
    \<and> getRelativeCoord True pc_example 0 1 2 (Some [[3 / 5, 4 / 5], [- 4 / 5, 3 / 5]]) = Inr q
    \<and> EuclideanVectorLength q 2 = EuclideanVectorLength p 2"
  using relative_coord_isometry [OF pc_example_valid _ _ _ _ pc_example_frame, of 0 1 True]
    nl_example_views by (auto simp: pc_example_def PointConnections_make_def)

text \<open>
  The way back from a local frame is not the multiplication with the transposed frame
  that its comment promises.  For a surface in space (two tangent directions of three
  components) the first component agrees with it for all local coordinates only if the
  second direction has no first component, the second one only if the first direction has
  no second component, and the third one is always zero.
\<close>

theorem local_to_global_not_transpose:
  assumes "length V = 2" "\<forall>r \<in> set V. length r = 3" "nd < 3"
  shows "(\<forall>c. convertLocalToGlobalCoordinate c (int nd) V
            = Inr (x_coord c * V ! 0 ! nd + y_coord c * V ! 1 ! nd))
    \<longleftrightarrow> (if nd = 0 then V ! 1 ! 0 = 0 else if nd = 1 then V ! 0 ! 1 = 0
         else V ! 0 ! 2 = 0 \<and> V ! 1 ! 2 = 0)"
proof -
  have r: "view_read2 V 0 (int nd) = Inr (V ! 0 ! nd)" "view_read2 V 1 (int nd) = Inr (V ! 1 ! nd)"
    using assms view_read2_nat [of 0 V nd] view_read2_nat [of 1 V nd] by simp_all
  consider "nd = 0" | "nd = 1" | "nd = 2" using assms(3) by linarith
  then show ?thesis
  proof cases
    case 1
    have "V ! 1 ! 0 = 0" if "\<forall>c :: XYZ. x_coord c * (V ! 0 ! 0 + V ! 1 ! 0) = x_coord c * V ! 0 ! 0 + y_coord c * V ! 1 ! 0"
      using that [rule_format, of "XYZ_make 1 0 0"] by (simp add: XYZ_make_def)
    then show ?thesis
      using 1 r assms(1) by (auto simp: convertLocalToGlobalCoordinate_def algebra_simps)
  next
    case 2
    have "V ! 0 ! 1 = 0" if "\<forall>c :: XYZ. y_coord c * (V ! 0 ! 1 + V ! 1 ! 1) = x_coord c * V ! 0 ! 1 + y_coord c * V ! 1 ! 1"
      using that [rule_format, of "XYZ_make 0 1 0"] by (simp add: XYZ_make_def)
    then show ?thesis
      using 2 r assms(1) by (auto simp: convertLocalToGlobalCoordinate_def algebra_simps)
  next
    case 3
    have "V ! 0 ! 2 = 0 \<and> V ! 1 ! 2 = 0" if "\<forall>c :: XYZ. 0 = x_coord c * V ! 0 ! 2 + y_coord c * V ! 1 ! 2"
      using that [rule_format, of "XYZ_make 1 0 0"] that [rule_format, of "XYZ_make 0 1 0"]
      by (simp add: XYZ_make_def)
    then show ?thesis
      using 3 r assms(1) by (auto simp: convertLocalToGlobalCoordinate_def)
  qed
qed

theorem local_to_global_not_transpose_witness:
  "\<not> (\<forall>c. convertLocalToGlobalCoordinate c 2 [[1, 0, 0], [0, 0, 1]]
         = Inr (x_coord c * 0 + y_coord c * 1))"
  using local_to_global_not_transpose [of "[[1, 0, 0], [0, 0, 1]]" 2] by simp

text \<open>
  The range check of a target index in a debug build admits the extent itself: with an
  index equal to the number of targets the assertion holds and the read is outside the
  view, as it is in a release build; a larger or a negative index is refused.
\<close>

theorem target_index_check:
  assumes "length (pc_target_coordinates pc) < 2 ^ 31" "fits_int t" "0 \<le> nd"
  shows "getTargetCoordinate True pc t nd None
    = (if t < 0 \<or> int (length (pc_target_coordinates pc)) < t
       then Inl (Kokkos_abort ''Target index is out of range for _target_coordinates.'')
       else if t = int (length (pc_target_coordinates pc)) then Inl Out_of_bounds
       else view_read (pc_target_coordinates pc ! nat t) nd)"
proof -
  note TO_GLOBAL_le_iff [OF assms(2,1)]
  then show ?thesis
    using assms(3) by (auto simp: getTargetCoordinate_def view_read2_def view_read_def)
qed

theorem target_index_check_witness:
  "getTargetCoordinate True pc_example 2 0 None = Inl Out_of_bounds"
  using target_index_check [of pc_example 2 0]
  by (simp add: pc_example_def PointConnections_make_def fits_int_def)

end
