(* ===== verification/Compadre_Quadrature.thy ===== *)
theory Compadre_Quadrature
  imports Compadre_Prelude
begin

text \<open>
  Compadre_Quadrature.hpp: the class \<open>Quadrature\<close>, its tables of points and weights for the
  unit interval and for the reference triangle, and what they integrate.  The decimal
  literals are kept digit by digit: a table of them is a list of integers, and the selection
  of the table gives their common power of ten.  Reals stand for doubles.
\<close>

section \<open>The tables\<close>

text \<open>
  A rule on the interval lists a site and a weight per point; a rule on the triangle the
  two components of the site and the weight.
\<close>

type_synonym line_rule = "(real \<times> real) list"
type_synonym rule = "(real \<times> real \<times> real) list"
type_synonym points = "(int \<times> int \<times> int) list"

definition scaled :: "nat \<Rightarrow> points \<Rightarrow> rule" where
  "scaled k points =
     map (\<lambda>(x, y, w). (of_int x / 10 ^ k, of_int y / 10 ^ k, of_int w / 10 ^ k)) points"

definition line_1 :: line_rule where
  "line_1 = [(5 / 10, 1)]"

definition line_2 :: line_rule where
  "line_2 = [(5 / 10 * (1 - sqrt (1 / 3)), 5 / 10),
     (5 / 10 * (1 + sqrt (1 / 3)), 5 / 10)]"

definition line_3 :: line_rule where
  "line_3 = [(5 / 10 * (1 - sqrt (3 / 5)), 25 / 10 / 9),
     (5 / 10 * (1 + sqrt (3 / 5)), 25 / 10 / 9),
     (5 / 10, 4 / 9)]"

definition line_4 :: line_rule where
  "line_4 = [(5 / 10 * (1 - sqrt (3 / 7 - 2 / 7 * sqrt (6 / 5))), (18 + sqrt 30) / 72),
     (5 / 10 * (1 + sqrt (3 / 7 - 2 / 7 * sqrt (6 / 5))), (18 + sqrt 30) / 72),
     (5 / 10 * (1 - sqrt (3 / 7 + 2 / 7 * sqrt (6 / 5))), (18 - sqrt 30) / 72),
     (5 / 10 * (1 + sqrt (3 / 7 + 2 / 7 * sqrt (6 / 5))), (18 - sqrt 30) / 72)]"

definition line_5 :: line_rule where
  "line_5 = [(5 / 10, 128 / 450),
     (5 / 10 * (1 + 1 / 3 * sqrt (5 - 2 * sqrt (10 / 7))), (322 + 13 * sqrt 70) / 1800),
     (5 / 10 * (1 - 1 / 3 * sqrt (5 - 2 * sqrt (10 / 7))), (322 + 13 * sqrt 70) / 1800),
     (5 / 10 * (1 + 1 / 3 * sqrt (5 + 2 * sqrt (10 / 7))), (322 - 13 * sqrt 70) / 1800),
     (5 / 10 * (1 - 1 / 3 * sqrt (5 + 2 * sqrt (10 / 7))), (322 - 13 * sqrt 70) / 1800)]"

definition triangle_1 :: rule where
  "triangle_1 = [(1 / 3, 1 / 3, 5 / 10)]"

definition triangle_3 :: rule where
  "triangle_3 = [(1 / 6, 1 / 6, 1 / 6), (1 / 6, 2 / 3, 1 / 6), (2 / 3, 1 / 6, 1 / 6)]"

definition triangle_4 :: rule where
  "triangle_4 = [(1 / 3, 1 / 3, - 9 / 32), (1 / 5, 1 / 5, 25 / 96), (1 / 5, 3 / 5, 25 / 96),
     (3 / 5, 1 / 5, 25 / 96)]"

definition triangle_6 :: points where
  "triangle_6 =
     [(445948490915964875773320432526951760848000,
        445948490915964875773320432526951760848000,
        111690794839005730539539428030386578170280),
      (445948490915964875773320432526951760848000,
        108103018168070248453359134946096478304000,
        111690794839005730539539428030386578170280),
      (108103018168070248453359134946096478304000,
        445948490915964875773320432526951760848000,
        111690794839005730539539428030386578170280),
      (91576213509770745141706146463816673424873,
        91576213509770745141706146463816673424873,
        54975871827660936395761590801109078322738),
      (91576213509770745141706146463816673424873,
        816847572980458509716587707072366653150250,
        54975871827660936395761590801109078322738),
      (816847572980458509716587707072366653150250,
        91576213509770745141706146463816673424873,
        54975871827660936395761590801109078322738)]"

definition triangle_7 :: points where
  "triangle_7 =
     [(333333333333333333333333333333333333333330,
        333333333333333333333333333333333333333330,
        112500000000000000000000000000000000000000),
      (101286507323456338800987361915123828055580,
        101286507323456338800987361915123828055580,
        62969590272413576297841972750090666828820),
      (797426985353087322398025276169752343888850,
        101286507323456338800987361915123828055580,
        62969590272413576297841972750090666828820),
      (101286507323456338800987361915123828055580,
        797426985353087322398025276169752343888850,
        62969590272413576297841972750090666828820),
      (470142064105115089770441209513447600515850,
        470142064105115089770441209513447600515850,
        66197076394253090368824693916575999837847),
      (59715871789769820459117580973104798968293,
        470142064105115089770441209513447600515850,
        66197076394253090368824693916575999837847),
      (470142064105115089770441209513447600515850,
        59715871789769820459117580973104798968293,
        66197076394253090368824693916575999837847)]"

definition triangle_12 :: points where
  "triangle_12 =
     [(63089014491502228340331602870819157341003,
        63089014491502228340331602870819157341003,
        25422453185103408460468404553434492023395),
      (63089014491502228340331602870819157341003,
        873821971016995543319336794258361685317990,
        25422453185103408460468404553434492023395),
      (873821971016995543319336794258361685317990,
        63089014491502228340331602870819157341003,
        25422453185103408460468404553434492023395),
      (249286745170910421291638553107019076087960,
        249286745170910421291638553107019076087960,
        58393137863189683012644805692789720663043),
      (249286745170910421291638553107019076087960,
        501426509658179157416722893785961847824070,
        58393137863189683012644805692789720663043),
      (501426509658179157416722893785961847824070,
        249286745170910421291638553107019076087960,
        58393137863189683012644805692789720663043),
      (310352451033784412867595667232651171400820,
        53145049844816939902261738355299128796183,
        41425537809186787596776728210221226990114),
      (636502499121398656678315786570061821348500,
        310352451033784395968434541798540031657740,
        41425537809186787596776728210221226990114),
      (53145049844816930454088546197287007250682,
        636502499121398664129303719846160839546080,
        41425537809186787596776728210221226990114),
      (53145049844816939902261738355299128796183,
        310352451033784412867595667232651171400820,
        41425537809186787596776728210221226990114),
      (636502499121398664129303719846160839546080,
        53145049844816930454088546197287007250682,
        41425537809186787596776728210221226990114),
      (310352451033784395968434541798540031657740,
        636502499121398656678315786570061821348500,
        41425537809186787596776728210221226990114)]"

definition triangle_13 :: points where
  "triangle_13 =
     [(3333333333333330, 3333333333333330, - 747850222338410),
      (2603459660790400, 2603459660790400, 878076287166040),
      (2603459660790400, 4793080678419200, 878076287166040),
      (4793080678419200, 2603459660790400, 878076287166040),
      (651301029022160, 651301029022160, 266736178044190),
      (651301029022160, 8697397941955680, 266736178044190),
      (8697397941955680, 651301029022160, 266736178044190),
      (3128654960048740, 6384441885698100, 385568804451285),
      (6384441885698100, 486903154253160, 385568804451285),
      (486903154253160, 3128654960048740, 385568804451285),
      (3128654960048740, 486903154253160, 385568804451285),
      (6384441885698100, 3128654960048740, 385568804451285),
      (486903154253160, 6384441885698100, 385568804451285)]"

definition triangle_16 :: points where
  "triangle_16 =
     [(33333333333333300, 33333333333333300, 7215780383889350),
      (45929258829272300, 45929258829272300, 4754581713364250),
      (45929258829272300, 8141482341455400, 4754581713364250),
      (8141482341455400, 45929258829272300, 4754581713364250),
      (17056930775176000, 17056930775176000, 5160868526735900),
      (17056930775176000, 65886138449648000, 5160868526735900),
      (65886138449648000, 17056930775176000, 5160868526735900),
      (5054722831703100, 5054722831703100, 1622924881159900),
      (5054722831703100, 89890554336593800, 1622924881159880),
      (89890554336593800, 5054722831703100, 1622924881159900),
      (26311282963463800, 72849239295540400, 1361515708721750),
      (72849239295540400, 839477740995798, 1361515708721750),
      (839477740995798, 26311282963463800, 1361515708721750),
      (26311282963463800, 839477740995798, 1361515708721750),
      (72849239295540400, 26311282963463800, 1361515708721750),
      (839477740995798, 72849239295540400, 1361515708721750)]"

definition triangle_19 :: points where
  "triangle_19 =
     [(3333333333333330, 3333333333333330, 485678981413995),
      (4896825191987380, 4896825191987380, 156673501135695),
      (4896825191987380, 206349616025250, 156673501135695),
      (206349616025250, 4896825191987380, 156673501135695),
      (4370895914929370, 4370895914929370, 389137705023870),
      (4370895914929370, 1258208170141270, 389137705023870),
      (1258208170141270, 4370895914929370, 389137705023870),
      (1882035356190330, 1882035356190330, 398238694636050),
      (1882035356190330, 6235929287619350, 398238694636050),
      (6235929287619350, 1882035356190330, 398238694636050),
      (447295133944530, 447295133944530, 127888378293490),
      (447295133944530, 9105409732110950, 127888378293490),
      (9105409732110950, 447295133944530, 127888378293490),
      (2219629891607660, 7411985987844980, 216417696886445),
      (7411985987844980, 368384120547360, 216417696886445),
      (368384120547360, 2219629891607660, 216417696886445),
      (2219629891607660, 368384120547360, 216417696886445),
      (7411985987844980, 2219629891607660, 216417696886445),
      (368384120547360, 7411985987844980, 216417696886445)]"

definition triangle_24 :: points where
  "triangle_24 =
     [(38102570854643002, 8685438694307654500, 53333456379563004),
      (8386534950010904300, 1613465049989096000, 55334733911235499),
      (0, 3936677447072201000, 59501524071177998),
      (7775751842942910700, 0, 66995403929284002),
      (477683817720224030, 9289948698578790500, 73041646115608498),
      (109391420571199000, 1769073062555903100, 74233118233402503),
      (4637438386743054100, 0, 75781309587828498),
      (9304984690026308900, 295535928468229000, 76015470130063496),
      (390997455504233020, 353196562525861030, 88279222964811003),
      (4879843780539749900, 5036582507594397100, 97797061087609508),
      (1930590322425194100, 305734040930993010, 157073511803344260),
      (2237635877427585100, 7472659172886881900, 161513010117286250),
      (360362667879077020, 6349183237920065200, 214811646960396500),
      (7677768017002395400, 1061464299029000100, 262683295512058240),
      (1095495985558546900, 7532940277625424000, 263651907044194990),
      (6420336531866266400, 2953044553585110200, 274578021969271760),
      (1099943905563045000, 1692992748896645900, 289870702993496010),
      (3394729031180054900, 953792084877217030, 308711229330976760),
      (841985221155436970, 3872965791396035300, 313439626504567750),
      (5796632510548634900, 804918946561055950, 330930672376299750),
      (3641974443033926300, 5243368255892443300, 370398236683899470),
      (2758633408931597300, 2648153165149677000, 422072212798550730),
      (2077611657548482900, 5055050737352908600, 433620193138323990),
      (4812328906246424700, 2754238502441298000, 476332786356749720)]"

definition triangle_27 :: points where
  "triangle_27 =
     [(3780216389133692100, 6194843153313519500, 56375356078552001),
      (328998222921862980, 9361489351467562300, 65529674260441251),
      (9355143428589709500, 332685606226783980, 66871546432313500),
      (342227718413591970, 329164038789997030, 72740543402810501),
      (143545320109309000, 3965973166958650100, 91794421950682249),
      (221205351961617990, 1689297098229023100, 106889040489568260),
      (8156296969326821700, 268071506267726010, 115561901768105760),
      (277195229186186010, 8162623371596881000, 118210297828823250),
      (1740057167303226100, 252527046383045000, 120351502503041000),
      (3891398111331936200, 225926510513066000, 133613935873663490),
      (8036483405390387700, 1665561449206056900, 133783180816266000),
      (1642928671571345900, 8045497474761553700, 137979500750899250),
      (6175887317127715100, 256601868330523990, 143608886837634750),
      (262971997137642010, 6192487323211012300, 147172790532167500),
      (5989543962993421100, 3727276986162910100, 162984365724539480),
      (817214048553818050, 3271987815755290100, 212988524490575240),
      (1303545303194269000, 1366708353439050900, 227691295600751760),
      (7102786810776158300, 1382800020429232100, 245954974541871750),
      (1411811973095279900, 7009926794964522800, 260302676690605740),
      (5314196015407995900, 1241714858680148900, 270607382376275260),
      (3499291433428865000, 5693848619532799700, 274859990044217520),
      (3190973781468187100, 1169897641332344100, 274955063587110740),
      (1245440591054410000, 5135314343344723500, 283229425613496750),
      (4113249917890465800, 2667716807157773900, 293058842037047000),
      (5363422811208471400, 3208195790948298900, 310965750556275490),
      (2278995588434749900, 2879031022481964900, 330712229424807990),
      (2913385943694236100, 4649456477369399200, 341206899787455250)]"

definition triangle_32 :: points where
  "triangle_32 =
     [(9273489744839498200, 0, 24440249073300249),
      (235517332495787000, 9552691935700603500, 33379500136836750),
      (0, 8581588842153308200, 34227673271718501),
      (9454750732209709100, 430105601064054990, 35598757180403499),
      (1540646016268560900, 8459353983731439100, 38572461868124248),
      (0, 6273153192324117900, 48273543712181750),
      (271109713562558000, 297541174968418000, 52546633678012501),
      (1460449616721757000, 92296909059649008, 53404218288141498),
      (211522233831219000, 1555706689689795000, 92418429056154005),
      (145665147883470000, 3638466044607751000, 92727402108032757),
      (7886017192231316000, 1892063306171594100, 103100020598410490),
      (7491897397906794900, 230881487661157990, 108425427085057250),
      (718714961015891050, 8543147494758043200, 112453730995791000),
      (3321290839476451200, 245062866369900010, 124520366007538510),
      (3611815911896720800, 6160092961726749700, 125495867138425510),
      (2434581339487997000, 934480876044409960, 139718671599399510),
      (5816892147401474500, 3931651031960480800, 140727793026066750),
      (5444466762719252200, 257162836236939020, 140848272298649750),
      (8260033140175600000, 799553848413813020, 152645862060362510),
      (1163864990672773000, 896027058005874070, 152876388020194500),
      (2037684810777298000, 7178818589805232600, 197868028964859990),
      (644132203822604940, 7100812595683652100, 206409436977312740),
      (954285858105845960, 2607706825656290200, 229689210828958500),
      (2449829650934902100, 2111793990980493100, 237497876626536000),
      (705667243440367960, 4973206337779659800, 240744025184536500),
      (6193812573625557800, 1251229950581039000, 254824624383939260),
      (6276826156803140300, 2501550033533920800, 266760415244104740),
      (4226056574334600100, 1295329690043362000, 270734363065837750),
      (2107852593914039100, 3798602109340196200, 297189169755677010),
      (4089638044912448100, 4663178746232307100, 299948536635530510),
      (2137774325300596000, 5580252895312025600, 315822732113283520),
      (4097865777700253100, 3014170932090929900, 376110313016621980)]"

definition triangle_36 :: points where
  "triangle_36 =
     [(242935351590267000, 9493059293846403100, 41560249689274751),
      (265193427721589010, 242695130640410980, 41702924944386254),
      (9492126023551057400, 265067966437248990, 41707642266642000),
      (33775763749036999, 4767316412363077900, 43920217520637501),
      (4757672298101158200, 5198921829101939000, 46118665461224503),
      (5190783193470685000, 55912706202052003, 49485602546932503),
      (8616839745320530300, 133996048618183000, 50885098963676500),
      (1249209759925559000, 8613054321334139300, 51713215985039248),
      (138565453861054010, 1247733717358467900, 52067841521619253),
      (211887064221685000, 8438438351222645700, 79454944569679001),
      (8432296787218840400, 1354563645830365000, 80118008810179994),
      (1354231797864999000, 213482820656205990, 80151920286416749),
      (3088853510679406800, 221919663013606000, 107691489795694750),
      (6685057595169071600, 3089012879389427300, 109618353834767500),
      (226545012557147000, 6691709943320993700, 109802418183191000),
      (2808515408772022100, 6924718155106244200, 119987980922644750),
      (6922446749050594800, 268723345025945990, 120951565183315000),
      (268617447119434000, 2810093973221908200, 121216855843658010),
      (1141778485470160000, 7973581413585799600, 139241122006052000),
      (7974807922061274400, 879806508790881010, 140256591089023260),
      (892807293894242040, 1145020561127518000, 141297530923212760),
      (1052487892455045000, 6686904119922044700, 172322472667400250),
      (6663022280739845400, 2275051631832027100, 179303334022210240),
      (2307803737546952900, 1054572561221325900, 181863480244052990),
      (1705059157540305100, 5174064398657772800, 197201834184262990),
      (5086593973042509200, 3170523855209321800, 202528586378090990),
      (3141823862280830900, 1810706361659039100, 206431324763668500),
      (4617460817864014200, 4678594539804059000, 210511141832616240),
      (693087496081059020, 4622856042084541000, 210896383326249250),
      (4651955259268243900, 724357805668980060, 212992467121983010),
      (2578625857892604100, 6131395039177163200, 225711332013113740),
      (6112627766779219500, 1300360834609385900, 228570785871134750),
      (1305182135933508100, 2581713828883638900, 229069766352298500),
      (4281437991828107000, 2362005969816733900, 256393343723979730),
      (3356995783730062900, 4311026308588342100, 258289915353355250),
      (2305424298836163100, 3456013949375805200, 258963591798315980)]"

definition triangle_42 :: points where
  "triangle_42 =
     [(48896391036217900, 48896391036217900, 1094179068471450),
      (48896391036217900, 2207217927564300, 1094179068471450),
      (2207217927564300, 48896391036217900, 1094179068471450),
      (41764471934045400, 41764471934045400, 1639417677206250),
      (41764471934045400, 16471056131909200, 1639417677206250),
      (16471056131909200, 41764471934045400, 1639417677206250),
      (27347752830883900, 27347752830883900, 2588705225364600),
      (27347752830883900, 45304494338232300, 2588705225364600),
      (45304494338232300, 27347752830883900, 2588705225364600),
      (17720553241254300, 17720553241254300, 2108129436849650),
      (17720553241254300, 64558893517491300, 2108129436849650),
      (64558893517491300, 17720553241254300, 2108129436849650),
      (6179988309087300, 6179988309087300, 721684983488850),
      (6179988309087300, 87640023381825500, 721684983488850),
      (87640023381825500, 6179988309087300, 721684983488850),
      (1939096124870100, 1939096124870100, 246170180120000),
      (1939096124870100, 96121807750259800, 246170180120000),
      (96121807750259800, 1939096124870100, 246170180120000),
      (17226668782135600, 77060855477499600, 1233287660628200),
      (77060855477499600, 5712475740364800, 1233287660628200),
      (5712475740364800, 17226668782135600, 1233287660628200),
      (17226668782135600, 5712475740364800, 1233287660628200),
      (77060855477499600, 17226668782135600, 1233287660628200),
      (5712475740364800, 77060855477499600, 1233287660628200),
      (33686145979634500, 57022229084668300, 1928575539353050),
      (57022229084668300, 9291624935697200, 1928575539353050),
      (9291624935697200, 33686145979634500, 1928575539353050),
      (33686145979634500, 9291624935697200, 1928575539353050),
      (57022229084668300, 33686145979634500, 1928575539353050),
      (9291624935697200, 57022229084668300, 1928575539353050),
      (29837288213625800, 68698016780808800, 721815405676700),
      (68698016780808800, 1464695005565400, 721815405676700),
      (1464695005565400, 29837288213625800, 721815405676700),
      (29837288213625800, 1464695005565400, 721815405676700),
      (68698016780808800, 29837288213625800, 721815405676700),
      (1464695005565400, 68698016780808800, 721815405676700),
      (11897449769695700, 87975717137017100, 250511441925050),
      (87975717137017100, 126833093287199, 250511441925050),
      (126833093287199, 11897449769695700, 250511441925050),
      (11897449769695700, 126833093287199, 250511441925050),
      (87975717137017100, 11897449769695700, 250511441925050),
      (126833093287199, 87975717137017100, 250511441925050)]"

definition triangle_55 :: points where
  "triangle_55 =
     [(100000000000000000000, 0, 15506499627784999),
      (0, 100000000000000000000, 15787936779320001),
      (0, 0, 17716503897180001),
      (93988635835771928000, 498487446341009960, 137909290420205000),
      (5438066830583550300, 93864056186166756000, 156731019139450000),
      (939400491638760040, 5264244626973470200, 196328522065045010),
      (1643450863624020000, 94690355173508323000, 236378709661202480),
      (94694872698624577000, 3633736771669399800, 244561278177724990),
      (4266040057676510200, 1512245417994110100, 249654108723614990),
      (1222694954387200000, 86937735106643133000, 343884547040362520),
      (86736965210466677000, 12049172857742969000, 352447945100209990),
      (84567440213890721000, 1577639678700019900, 374117160842900010),
      (13957596321026139000, 84481208703747090000, 390243759029977510),
      (13178217432308281000, 1350096055840220100, 394209233370412460),
      (1579551263002480100, 14552749385359881000, 439486365956787490),
      (73654628844363068000, 1556975409082280100, 510284600675070010),
      (1396884303303890000, 73798368944501946000, 523907196539949960),
      (25478951860390298000, 72976156897705524000, 526783532494509970),
      (73163865225549030000, 25430766833150520000, 544116900505074980),
      (1572537289508450100, 26962397957906031000, 555721021746515000),
      (26623028436468249000, 1447839563080130000, 560466734205162470),
      (86735040652140771000, 5916794104004820300, 575306542482879970),
      (7414936669566120400, 86347825750608687000, 592034756249437510),
      (1592859483600329900, 41912389552381862000, 643661608419767490),
      (1560610280677770000, 58092229211457624000, 644892004020120040),
      (59100948174838852000, 1592514526509410100, 645180819024982530),
      (40347714968887188000, 58067003681039198000, 650858080146697520),
      (56947456285259768000, 41494951463020030000, 664420354022792530),
      (6784937006503000100, 7612186785913760400, 664461904577192540),
      (42659685902715933000, 1575096923115440100, 668830823094487480),
      (6709825078897020700, 77418983124212093000, 939469516602185060),
      (75283102314795158000, 8191194956392429400, 957664735488224920),
      (77537277835568841000, 15771284572917341000, 962124237563260000),
      (16890731577873661000, 75039430997422452000, 974049564631087470),
      (16873358329194171000, 7083115072678189400, 986510278868742500),
      (8212447084363240500, 17629966267710759000, 1030911945244512500),
      (62887053633447976000, 8077449533165630100, 1282181096208457500),
      (8114130152657519900, 30543735897757762000, 1291014104836592600),
      (29691120650804809000, 62274859888709300000, 1295575105672770000),
      (7675423141705729800, 62472471495456661000, 1321319970452537600),
      (62230223338447721000, 30114858211656370000, 1346263932568170100),
      (31037862880509631000, 7790983650794459900, 1354738323298190100),
      (8192182151865859400, 46036330383508761000, 1461842866111090000),
      (47170226650134689000, 8215540067967190600, 1482157920908215100),
      (45466034152504742000, 46375650338896440000, 1485895691871630100),
      (17010913392369389000, 64222778081881993000, 1579500639657445100),
      (64060043294867430000, 18982935372556059000, 1582317112883310100),
      (19122675837165989000, 17399556853425760000, 1601768404428920200),
      (18853157670702370000, 47989140704057581000, 2030101489795757600),
      (47729299576907452000, 33483565981193042000, 2036093783825882600),
      (31269746217597721000, 49579721972587398000, 2036698003103452500),
      (49612259459456259000, 19275536689044351000, 2037626370211222500),
      (19288053128670610000, 31610158072607569000, 2037911662347394900),
      (33600414538164958000, 18948928012898231000, 2042327649057822500),
      (33372805508479741000, 33435710218114523000, 2308045836326322700)]"

definition triangle_61 :: points where
  "triangle_61 =
     [(33333333333333300, 33333333333333300, 1671859964540150),
      (49717054055677400, 49717054055677400, 254670772025350),
      (49717054055677400, 565891888645198, 254670772025350),
      (565891888645198, 49717054055677400, 254670772025350),
      (48217632262462500, 48217632262462500, 733543226381900),
      (48217632262462500, 3564735475075100, 733543226381900),
      (3564735475075100, 48217632262462500, 733543226381900),
      (45023996902078200, 45023996902078200, 1217543917683600),
      (45023996902078200, 9952006195843700, 1217543917683600),
      (9952006195843700, 45023996902078200, 1217543917683600),
      (40026623937739700, 40026623937739700, 1555377543448450),
      (40026623937739700, 19946752124520600, 1555377543448450),
      (19946752124520600, 40026623937739700, 1555377543448450),
      (25214126797095300, 25214126797095300, 1562855560931000),
      (25214126797095300, 49571746405809500, 1562855560931000),
      (49571746405809500, 25214126797095300, 1562855560931000),
      (16204700465846100, 16204700465846100, 1240782716983250),
      (16204700465846100, 67590599068307700, 1240782716983250),
      (67590599068307700, 16204700465846100, 1240782716983250),
      (7587588226074600, 7587588226074600, 702803653527850),
      (7587588226074600, 84824823547850800, 702803653527850),
      (84824823547850800, 7587588226074600, 702803653527850),
      (1565472696782200, 1565472696782200, 159733808688950),
      (1565472696782200, 96869054606435600, 159733808688950),
      (96869054606435600, 1565472696782200, 159733808688950),
      (33431986736365800, 65549320380942300, 405982765949650),
      (65549320380942300, 1018692882691900, 405982765949650),
      (1018692882691900, 33431986736365800, 405982765949650),
      (33431986736365800, 1018692882691900, 405982765949650),
      (65549320380942300, 33431986736365800, 405982765949650),
      (1018692882691900, 65549320380942300, 405982765949650),
      (29222153779694400, 57233759053202000, 1340287114158150),
      (57233759053202000, 13544087167103600, 1340287114158150),
      (13544087167103600, 29222153779694400, 1340287114158150),
      (29222153779694400, 13544087167103600, 1340287114158150),
      (57233759053202000, 29222153779694400, 1340287114158150),
      (13544087167103600, 57233759053202000, 1340287114158150),
      (31957488542319000, 62600119028622800, 922999660541100),
      (62600119028622800, 5442392429058300, 922999660541100),
      (5442392429058300, 31957488542319000, 922999660541100),
      (31957488542319000, 5442392429058300, 922999660541100),
      (62600119028622800, 31957488542319000, 922999660541100),
      (5442392429058300, 62600119028622800, 922999660541100),
      (19070422419229200, 79642721497407100, 423843426716400),
      (79642721497407100, 1286856083363700, 423843426716400),
      (1286856083363700, 19070422419229200, 423843426716400),
      (19070422419229200, 1286856083363700, 423843426716400),
      (79642721497407100, 19070422419229200, 423843426716400),
      (1286856083363700, 79642721497407100, 423843426716400),
      (18048321164874600, 75235100593772900, 914639838501250),
      (75235100593772900, 6716578241352400, 914639838501250),
      (6716578241352400, 18048321164874600, 914639838501250),
      (18048321164874600, 6716578241352400, 914639838501250),
      (75235100593772900, 18048321164874600, 914639838501250),
      (6716578241352400, 75235100593772900, 914639838501250),
      (8071131367956400, 90462550409560800, 333281600208250),
      (90462550409560800, 1466318222482800, 333281600208250),
      (1466318222482800, 8071131367956400, 333281600208250),
      (8071131367956400, 1466318222482800, 333281600208250),
      (90462550409560800, 8071131367956400, 333281600208250),
      (1466318222482800, 90462550409560800, 333281600208250)]"

definition triangle_66 :: points where
  "triangle_66 =
     [(1167310596684120000, 98125659512890129000, 62914392466127504),
      (98100308583879503000, 714625048632160000, 63183630018052495),
      (1069663170916970000, 1151539333759660000, 83173238332957496),
      (93824769835505051000, 4955705913406419800, 203758730313485010),
      (1266275184172140100, 93701236206150318000, 215338814354042520),
      (5981094099838019800, 1213645789218480000, 219466865448270010),
      (1373632979267210000, 6127836255969679900, 242748963904192500),
      (92295279594054480000, 1411282706024209900, 256165529787172500),
      (6331073549926949400, 92201972917274344000, 270994220851857510),
      (1172651003346020100, 15005204752290349000, 323463475439607480),
      (15547205873234721000, 83251471215892492000, 340849558957384990),
      (83432938889821573000, 1252281587588360000, 346193320366640010),
      (85016380319567597000, 13719975087357841000, 348553850262127520),
      (1288163505219759900, 84776270634792006000, 360303499918989980),
      (15108016089587781000, 1365269240393750100, 384258638835065010),
      (1019178792165840000, 57704386183448575000, 406224505631407480),
      (28133723993032811000, 70668537596231984000, 424295760700362480),
      (71243746285009335000, 1245697809899030100, 425221331053320020),
      (27630252508633668000, 1217413113856420000, 427383801686634980),
      (1096583685606179900, 41943067124662847000, 434722136397747500),
      (42891105178839167000, 55996160674689166000, 436359906096802500),
      (42154205551147350000, 1164759947846569900, 446016893216592480),
      (57112585904443613000, 1182183139885120000, 446117159698410010),
      (58268682705109343000, 40578895811771831000, 447615843880885040),
      (1305678067132469900, 27250237508679159000, 453149390501757490),
      (1307604009639180000, 72247125232334730000, 461962097205067480),
      (72634370624067746000, 26029840192506443000, 464483910927795000),
      (6872300686373740400, 6314172772096270100, 508042879441357540),
      (86523021015294610000, 7206118373376789500, 534429154522917530),
      (6485990710373669400, 85904335439099433000, 579792135245704980),
      (14834949433620581000, 78887883522396707000, 686066777147767510),
      (6243598983959380100, 14939354993542750000, 725754805850935010),
      (78713690117350699000, 6563820427565950100, 736306846263567500),
      (5191049216095310100, 52556356956052430000, 748590629072727520),
      (15431299274438229000, 7163839269170059500, 767567370296979960),
      (26178427456029407000, 6214794852881509700, 813158414656775000),
      (76672578728127994000, 16582115548313259000, 819710521265260010),
      (25821036766273009000, 68001197661390189000, 828086687979989920),
      (6790659251474259700, 75715154377818017000, 865418817186434930),
      (52935782748041971000, 41215038411072058000, 867703434940317490),
      (6660361504841599800, 26125130878864999000, 868430123509627420),
      (5856754618994319800, 39022361145349760000, 871321906135500040),
      (6445353604108340600, 63736265597609554000, 871503902964915030),
      (67481384291513691000, 6375833420612910000, 888678924937210020),
      (39146023103687089000, 55032380905631106000, 900457490956745040),
      (64877014923071408000, 28367283602629478000, 907315714607017510),
      (39464982204080379000, 6051755225537090000, 954744255208004980),
      (53901371519333352000, 6119901769364220100, 980632000294757480),
      (16278950827847499000, 68613221410348235000, 1206775314718767600),
      (68124363226406448000, 15679683458990931000, 1224780303915602500),
      (15428328780201980000, 16675126240198401000, 1243052084680452500),
      (25227277504445078000, 25048039333948502000, 1267664342464455000),
      (25479815324070432000, 49940906490431908000, 1274429985107442500),
      (14855805491943541000, 57560230960873771000, 1303400159167997600),
      (29302396064361819000, 56568973541618528000, 1308652187311745000),
      (28089912723099042000, 14379215742477949000, 1311101708879330000),
      (48209895929708219000, 25185575358650381000, 1318649112056497500),
      (56418782454436134000, 14629667431525920000, 1323622659319075000),
      (13076996443439021000, 44895775861167753000, 1355988986252047500),
      (14796922219475581000, 30011743868291701000, 1358675508548252500),
      (56386842229459166000, 28137720892975088000, 1367751371597147500),
      (43611574287904659000, 42520534464204729000, 1393220864781722500),
      (36032639352854701000, 25991900048886368000, 1444335660582780000),
      (42241883346742481000, 14532384433026860000, 1463484454056692600),
      (37190018330523877000, 37801227035670099000, 1522598126698982600),
      (24136450069284729000, 38475632849397318000, 1593184911123735100)]"

definition triangle_73 :: points where
  "triangle_73 =
     [(33333333333333300, 33333333333333300, 1645316569445950),
      (48960998707300600, 48960998707300600, 516536594563600),
      (48960998707300600, 2078002585398700, 516536594563600),
      (2078002585398700, 48960998707300600, 516536594563600),
      (45453689269789300, 45453689269789300, 1119362363150800),
      (45453689269789300, 9092621460421500, 1119362363150800),
      (9092621460421500, 45453689269789300, 1119362363150800),
      (40141668064943100, 40141668064943100, 1513306293473400),
      (40141668064943100, 19716663870113800, 1513306293473400),
      (19716663870113800, 40141668064943100, 1513306293473400),
      (25555165440309800, 25555165440309800, 1524548390109900),
      (25555165440309800, 48889669119380500, 1524548390109900),
      (48889669119380500, 25555165440309800, 1524548390109900),
      (17707794215213000, 17707794215213000, 1207960637082050),
      (17707794215213000, 64584411569574100, 1207960637082050),
      (64584411569574100, 17707794215213000, 1207960637082050),
      (11006105322795200, 11006105322795200, 802540179340050),
      (11006105322795200, 77987789354409600, 802540179340050),
      (77987789354409600, 11006105322795200, 802540179340050),
      (5552862425184000, 5552862425184000, 404229013089200),
      (5552862425184000, 88894275149632100, 404229013089200),
      (88894275149632100, 5552862425184000, 404229013089200),
      (1262186377722900, 1262186377722900, 103968101374250),
      (1262186377722900, 97475627244554300, 103968101374250),
      (97475627244554300, 1262186377722900, 103968101374250),
      (39575478735694300, 60063379479464500, 194243845249050),
      (60063379479464500, 361141784841201, 194243845249050),
      (361141784841201, 39575478735694300, 194243845249050),
      (39575478735694300, 361141784841201, 194243845249050),
      (60063379479464500, 39575478735694300, 194243845249050),
      (361141784841201, 60063379479464300, 194243845249050),
      (30792998388043600, 55760326158878400, 1278708030601100),
      (55760326158878400, 13446675453078000, 1278708030601100),
      (13446675453078000, 30792998388043600, 1278708030601100),
      (30792998388043600, 13446675453078000, 1278708030601100),
      (55760326158878400, 30792998388043600, 1278708030601100),
      (13446675453078000, 55760326158878400, 1278708030601100),
      (26456694840652000, 72098702581736500, 444045178666900),
      (72098702581736500, 1444602577611500, 444045178666900),
      (1444602577611500, 26456694840652000, 444045178666900),
      (26456694840652000, 1444602577611500, 444045178666900),
      (72098702581736500, 26456694840652000, 444045178666900),
      (1444602577611500, 72098702581736500, 444045178666900),
      (35853935220595100, 59452706895587100, 806227338086550),
      (59452706895587100, 4693357883817800, 806227338086550),
      (4693357883817800, 35853935220595100, 806227338086550),
      (35853935220595100, 4693357883817800, 806227338086550),
      (59452706895587100, 35853935220595100, 806227338086550),
      (4693357883817800, 59452706895587100, 806227338086550),
      (15780740596859500, 83933147368083900, 124597090874550),
      (83933147368083900, 286112035056701, 124597090874550),
      (286112035056701, 15780740596859500, 124597090874550),
      (15780740596859500, 286112035056701, 124597090874550),
      (83933147368083900, 15780740596859500, 124597090874550),
      (286112035056701, 83933147368083900, 124597090874550),
      (7505059697591100, 70108797892617300, 912142005947550),
      (70108797892617300, 22386142409791600, 912142005947550),
      (22386142409791600, 7505059697591100, 912142005947550),
      (7505059697591100, 22386142409791600, 912142005947550),
      (70108797892617300, 7505059697591100, 912142005947550),
      (22386142409791600, 70108797892617300, 912142005947550),
      (14242160111338300, 82293132406985700, 512928186809950),
      (82293132406985700, 3464707481676000, 512928186809950),
      (3464707481676000, 14242160111338300, 512928186809950),
      (14242160111338300, 3464707481676000, 512928186809950),
      (82293132406985700, 14242160111338300, 512928186809950),
      (3464707481676000, 82293132406985700, 512928186809950),
      (6549462808293800, 92434425262078400, 189996442765100),
      (92434425262078400, 1016111929627800, 189996442765100),
      (1016111929627800, 6549462808293800, 189996442765100),
      (6549462808293800, 1016111929627800, 189996442765100),
      (92434425262078400, 6549462808293800, 189996442765100),
      (1016111929627800, 92434425262078400, 189996442765100)]"

definition triangle_78 :: points where
  "triangle_78 =
     [(894113371120359990, 869832937019849980, 54361363496487503),
      (97926226298067365000, 1026441337436510000, 72467838162779998),
      (1054753821118780000, 97855142025151109000, 77115073341352497),
      (237770619471220020, 6365510986036170000, 86004082758987495),
      (6304251157946599800, 415063475086310030, 104746180029410010),
      (93084224967299967000, 480534822625460020, 111845128744807500),
      (6290765554902740000, 93167900694812233000, 117636052035477510),
      (93159622463806491000, 6262648818013590000, 122169839375790000),
      (619516894145520030, 92935870585640645000, 129819108422355000),
      (2871258192366810100, 3102021229971629900, 185182647451995000),
      (92938444783052321000, 3421529682185289700, 199388525752305010),
      (3754575666212810200, 92578688846693047000, 208876307274007480),
      (868957390638339970, 15849712515099221000, 240416652159345000),
      (15475970539646791000, 83636066576882862000, 240795644626097490),
      (83310252941849239000, 892572448244760040, 246443651895802500),
      (83742310735260950000, 15291673040783921000, 256644700753422490),
      (15593625052337881000, 949662400580290020, 257970257777732480),
      (985996420952360040, 83422114935955050000, 265727504076184980),
      (40558737332891631000, 743893020079130010, 267203267238375020),
      (59647278986182350000, 39563308093107152000, 267422552525765000),
      (807478004157670060, 40313194259026802000, 272566154284062520),
      (750739777207109960, 58516095946805691000, 274749458936275010),
      (39367645192372991000, 59748965928987985000, 283557638072537510),
      (58465307262122179000, 872504649681920060, 301339107324570010),
      (48708041121196383000, 2021292299119400000, 349047984551497520),
      (26835128117845169000, 72023400886682198000, 352869978841022490),
      (72239562887479880000, 26623993664561901000, 354825867614592520),
      (27168267423572212000, 1128826988082360000, 360531690670817500),
      (1125808420458930000, 71696959633251023000, 361760867137277510),
      (1150347343697400100, 27400671101656832000, 362374424680157520),
      (71405259005638033000, 1135115604970620000, 363466939235184990),
      (49028710531115449000, 49364918414683351000, 364910477314002490),
      (2014234252093069800, 48325734596013992000, 368286446165715010),
      (3611074648585500100, 9356795015820139300, 418659908260377540),
      (86079988198508572000, 3973790670753919700, 422388751143844970),
      (10058915260013050000, 85863434193517962000, 423556657210409980),
      (9187407170584159500, 3955130019733769900, 432675430238729960),
      (86048882961910289000, 9662240570792470000, 436311366231735030),
      (4398421786732559900, 85618863491067676000, 443043055398347540),
      (20110176067354310000, 74491158356262255000, 707060060058182540),
      (74499937262632787000, 5368656381658040000, 712491781220302500),
      (5321866413098320200, 19637542759350521000, 712514116346782500),
      (74539846474005178000, 19820658055500051000, 751618058694245030),
      (19572899328760179000, 5557138331560859700, 755078192705679970),
      (10925320579875419000, 61000361824130300000, 759967840192340030),
      (5676257020005150100, 74091218949591942000, 764171990185012490),
      (4838379334748110100, 60751356609779783000, 765168532505727460),
      (10806128097601329000, 11220815104370099000, 773325170501502470),
      (61856059009905007000, 26987537030349740000, 774434552087025030),
      (77212960134965625000, 11141173953329921000, 782865626361647570),
      (61157348011327173000, 33893676779306348000, 783933733479394950),
      (33813261033758418000, 4946939387874579900, 785801173216645050),
      (11730841282542900000, 76964513097951825000, 787955359733802550),
      (26745512605961458000, 11157188081540730000, 810620344963755050),
      (65421001600256889000, 19065483146999149000, 868780380964962430),
      (5382974811577580200, 33586168268491179000, 875983637317060030),
      (18488403241167711000, 15518315238513730000, 876793550775819930),
      (33762671047443338000, 60814025962944529000, 880323038335389940),
      (60671020344994708000, 5426327955982120100, 881538762453727520),
      (46126140854956371000, 6881766707216539800, 916008050856760050),
      (15254653656712561000, 65102408457488470000, 919332769175765060),
      (7005825435430750000, 46619043927415987000, 929189157342127580),
      (47042013790318088000, 46348264553531421000, 933428929015719940),
      (12164616937459330000, 23814948755156831000, 1009933366469665000),
      (63714040527021165000, 12383993845133670000, 1033950101594175100),
      (23799045151187120000, 63702164523263760000, 1054894479675140000),
      (14839298571771459000, 48941885777801442000, 1238627510092855100),
      (35980695715496319000, 14528808662532389000, 1251048152852785000),
      (49414410550951349000, 36102163838181101000, 1264486467786492400),
      (14406306879808209000, 35135083418870572000, 1300093025469847500),
      (50197644400035468000, 14354916632930600000, 1303833919713802400),
      (35554238342982608000, 50164915995018422000, 1312247880894775100),
      (24434395407713269000, 24060521291041001000, 1497899406289497500),
      (24370649893418969000, 51090172770553444000, 1499024993565712500),
      (51222008073208247000, 24527379735428820000, 1499788180321905000),
      (25260383151777532000, 37003195550936951000, 1585332958623384900),
      (37598956528506539000, 25054066116305501000, 1588279652770940200),
      (37290779871441049000, 37537502775491960000, 1593016514180015100)]"

section \<open>The class\<close>

datatype QuadratureType = INVALID | LINE | TRI | QUAD | TET | HEX

record quadrature =
  q_is_initialized :: bool
  q_number_of_quadrature_points :: int
  q_order_of_quadrature_points :: int
  q_dimension_of_quadrature_points :: int
  q_quadrature_weights :: "real list"
  q_parameterized_quadrature_sites :: "real list list"
  q_qt :: QuadratureType

definition oneDNumPointsFromOrder :: "int list" where
  "oneDNumPointsFromOrder = [1, 1, 2, 2, 3, 3, 4, 4, 5, 5]"

definition twoDNumPointsFromOrder :: "int list" where
  "twoDNumPointsFromOrder =
     [1, 1, 3, 4, 6, 7, 12, 13, 16, 19, 24, 27, 32, 36, 42, 55, 61, 66, 73, 78]"

text \<open>
  The number of points.  The code indexes a \<open>std::vector\<close> with the order, unchecked: an
  order that is negative or too high is read out of bounds.
\<close>

definition number_of_points :: "int \<Rightarrow> int \<Rightarrow> int result" where
  "number_of_points order dimension =
     (if dimension = 0 then Inr 0
      else if dimension = 1 then view_read oneDNumPointsFromOrder order
      else if dimension = 2 then view_read twoDNumPointsFromOrder order
      else Inl (Logic_error ''Higher than 2D quadrature not currently supported.''))"

definition line_table :: "int \<Rightarrow> line_rule result" where
  "line_table n =
     (if n = 1 then Inr line_1 else if n = 2 then Inr line_2 else if n = 3 then Inr line_3
      else if n = 4 then Inr line_4 else if n = 5 then Inr line_5
      else Inl (Logic_error ''Unsupported number of quadrature points.''))"

definition triangle_table :: "int \<Rightarrow> rule result" where
  "triangle_table n =
     (if n = 1 then Inr triangle_1 else if n = 3 then Inr triangle_3
      else if n = 4 then Inr triangle_4 else if n = 6 then Inr (scaled 42 triangle_6)
      else if n = 7 then Inr (scaled 42 triangle_7) else if n = 12 then Inr (scaled 42 triangle_12)
      else if n = 13 then Inr (scaled 16 triangle_13) else if n = 16 then Inr (scaled 17 triangle_16)
      else if n = 19 then Inr (scaled 16 triangle_19) else if n = 24 then Inr (scaled 19 triangle_24)
      else if n = 27 then Inr (scaled 19 triangle_27) else if n = 32 then Inr (scaled 19 triangle_32)
      else if n = 36 then Inr (scaled 19 triangle_36) else if n = 42 then Inr (scaled 17 triangle_42)
      else if n = 55 then Inr (scaled 20 triangle_55) else if n = 61 then Inr (scaled 17 triangle_61)
      else if n = 66 then Inr (scaled 20 triangle_66) else if n = 73 then Inr (scaled 17 triangle_73)
      else if n = 78 then Inr (scaled 20 triangle_78)
      else Inl (Logic_error ''Number of quadrature points not supported.''))"

text \<open>Every entry of the two views, which are allocated for the number of points, is assigned.\<close>

definition generateQuadrature :: "quadrature \<Rightarrow> int \<Rightarrow> int \<Rightarrow> quadrature result" where
  "generateQuadrature q order dimension =
     rbind (number_of_points order dimension) (\<lambda>n.
     let q = q\<lparr>q_number_of_quadrature_points := n\<rparr>
     in if dimension = 1 then
          rbind (line_table n) (\<lambda>points.
            Inr (q\<lparr>q_quadrature_weights := map snd points,
                   q_parameterized_quadrature_sites := map (\<lambda>(x, w). [x]) points\<rparr>))
        else if dimension = 2 then
          rbind (triangle_table n) (\<lambda>points.
            Inr (q\<lparr>q_quadrature_weights := map (\<lambda>(x, y, w). w) points,
                   q_parameterized_quadrature_sites := map (\<lambda>(x, y, w). [x, y]) points\<rparr>))
        else Inl (Logic_error ''Dimension not supported for quadrature.''))"

definition parseQuadratureType :: "string \<Rightarrow> QuadratureType result" where
  "parseQuadratureType quadrature_type =
     (let quadrature_type = to_lower quadrature_type
      in if quadrature_type = ''line'' then Inr LINE
         else if quadrature_type = ''tri'' \<or> quadrature_type = ''triangle'' then Inr TRI
         else if quadrature_type = '''' then Inr INVALID
         else Inl (Logic_error ''Quadrature type not available.''))"

definition Quadrature_default :: quadrature where
  "Quadrature_default =
     \<lparr>q_is_initialized = False, q_number_of_quadrature_points = 0,
      q_order_of_quadrature_points = 0, q_dimension_of_quadrature_points = 0,
      q_quadrature_weights = [], q_parameterized_quadrature_sites = [], q_qt = INVALID\<rparr>"

definition Quadrature_make :: "int \<Rightarrow> int \<Rightarrow> string \<Rightarrow> quadrature result" where
  "Quadrature_make order dimension quadrature_type =
     rbind (parseQuadratureType quadrature_type) (\<lambda>qt.
     let q = Quadrature_default\<lparr>q_qt := qt\<rparr>
     in if dimension > 0 then
          rbind (generateQuadrature q order dimension) (\<lambda>q.
            Inr (q\<lparr>q_is_initialized := True\<rparr>))
        else Inr (q\<lparr>q_is_initialized := False\<rparr>))"

definition validQuadrature :: "quadrature \<Rightarrow> bool" where
  "validQuadrature q = q_is_initialized q"

definition getNumberOfQuadraturePoints :: "quadrature \<Rightarrow> int" where
  "getNumberOfQuadraturePoints q = q_number_of_quadrature_points q"

definition getOrderOfQuadraturePoints :: "quadrature \<Rightarrow> int" where
  "getOrderOfQuadraturePoints q = q_order_of_quadrature_points q"

text \<open>The accessor of the dimension returns the order.\<close>

definition getDimensionOfQuadraturePoints :: "quadrature \<Rightarrow> int" where
  "getDimensionOfQuadraturePoints q = q_order_of_quadrature_points q"

definition getQuadratureType :: "quadrature \<Rightarrow> QuadratureType" where
  "getQuadratureType q = q_qt q"

definition getWeight :: "quadrature \<Rightarrow> int \<Rightarrow> real result" where
  "getWeight q index = view_read (q_quadrature_weights q) index"

definition getSite :: "quadrature \<Rightarrow> int \<Rightarrow> int \<Rightarrow> real result" where
  "getSite q index component = view_read2 (q_parameterized_quadrature_sites q) index component"

end
