(* ===== verification/Compadre_GMLS.thy ===== *)
theory Compadre_GMLS
  imports Compadre_PointConnections Compadre_SolutionSet Compadre_ParallelManager
    Compadre_DivergenceFreePolynomial Compadre_Quadrature
begin

text \<open>
  Compadre_GMLS.hpp: the state of a batch of GMLS problems, its constructors, the sizes it
  derives, its accessors and its modifiers.  The solve itself, in Compadre_GMLS.cpp, is
  Compadre\_GMLS\_Driver.

  \<open>dbg\<close> says whether the build defines \<open>COMPADRE_DEBUG\<close>, \<open>aliased\<close> whether host and
  device share memory.  Views of coordinates are lists of rows; the views that the code
  flattens (\<open>_T\<close>, \<open>_ref_N\<close>, \<open>_P\<close>, \<open>_RHS\<close>, \<open>_w\<close>, \<open>_Z\<close>) are lists.
\<close>

section \<open>State\<close>

text \<open>The rank-5 view of the prestencil weights: its extents and its entries, row by row.\<close>

record rank5 =
  r5_extents :: "int list"
  r5_data :: "real list"

definition rank5_empty :: rank5 where
  "rank5_empty = \<lparr>r5_extents = [0, 0, 0, 0, 0], r5_data = []\<rparr>"

definition rank5_zero :: "int list \<Rightarrow> rank5" where
  "rank5_zero extents = \<lparr>r5_extents = extents, r5_data = replicate (nat (prod_list extents)) 0\<rparr>"

definition rank5_read :: "rank5 \<Rightarrow> int list \<Rightarrow> real result" where
  "rank5_read v idx =
     (if list_all2 (\<lambda>i n. 0 \<le> i \<and> i < n) idx (r5_extents v)
      then view_read (r5_data v) (foldl (\<lambda>acc (i, n). acc * n + i) 0 (zip idx (r5_extents v)))
      else Inl Out_of_bounds)"

text \<open>
  \<open>_data_sampling_multiplier\<close> is not set by the constructors, and the device solution set
  is default-constructed, with indeterminate numbers, until the first solve: both are
  options.
\<close>

record gmls =
  g_w :: "real list"
  g_P :: "real list"
  g_RHS :: "real list"
  g_Z :: "real list"
  g_T :: "real list"
  g_ref_N :: "real list"
  g_host_T :: "real list"
  g_host_ref_N :: "real list"
  g_manifold_curvature_coefficients :: "real list"
  g_source_extra_data :: "real list list"
  g_target_extra_data :: "real list list"
  g_neighbor_lists :: neighbor_lists
  g_host_number_of_neighbors_list :: "int list"
  g_source_coordinates :: "real list list"
  g_target_coordinates :: "real list list"
  g_pc :: point_connections
  g_epsilons :: "real list"
  g_host_epsilons :: "real list"
  g_prestencil_weights :: rank5
  g_host_prestencil_weights :: rank5
  g_additional_evaluation_coordinates :: "real list list"
  g_additional_evaluation_indices :: neighbor_lists
  g_additional_pc :: point_connections
  g_host_number_of_additional_evaluation_indices :: "int list"
  g_h_ss :: solution_set
  g_d_ss :: "solution_set option"
  g_poly_order :: int
  g_curvature_poly_order :: int
  g_NP :: int
  g_global_dimensions :: int
  g_local_dimensions :: int
  g_dimensions :: int
  g_reconstruction_space :: ReconstructionSpace
  g_reconstruction_space_rank :: int
  g_dense_solver_type :: DenseSolverType
  g_problem_type :: ProblemType
  g_constraint_type :: ConstraintType
  g_polynomial_sampling_functional :: SamplingFunctional
  g_data_sampling_functional :: SamplingFunctional
  g_curvature_support_operations :: "TargetOperation list"
  g_operations :: "TargetOperation list"
  g_host_operations :: "TargetOperation list"
  g_weighting_type :: WeightingFunctionType
  g_curvature_weighting_type :: WeightingFunctionType
  g_weighting_p :: int
  g_weighting_n :: int
  g_curvature_weighting_p :: int
  g_curvature_weighting_n :: int
  g_basis_multiplier :: int
  g_sampling_multiplier :: int
  g_data_sampling_multiplier :: "int option"
  g_orthonormal_tangent_space_provided :: bool
  g_reference_outward_normal_direction_provided :: bool
  g_use_reference_outward_normal_direction_provided_to_orient_surface :: bool
  g_entire_batch_computed_at_once :: bool
  g_store_PTWP_inv_PTW :: bool
  g_initial_index_for_batch :: int
  g_max_num_neighbors :: int
  g_pm :: parallel_manager
  g_order_of_quadrature_points :: int
  g_dimension_of_quadrature_points :: int
  g_quadrature_type :: string
  g_qm :: quadrature

section \<open>Names of solvers, problems, constraints and kernels\<close>

definition parseSolverType :: "string \<Rightarrow> DenseSolverType" where
  "parseSolverType dense_solver_type =
     (if to_lower dense_solver_type = ''lu'' then LU else QR)"

definition parseProblemType :: "string \<Rightarrow> ProblemType" where
  "parseProblemType problem_type =
     (let problem_type_to_lower = to_lower problem_type
      in if problem_type_to_lower = ''standard'' then STANDARD
         else if problem_type_to_lower = ''manifold'' then MANIFOLD
         else STANDARD)"

definition parseConstraintType :: "string \<Rightarrow> ConstraintType" where
  "parseConstraintType constraint_type =
     (let constraint_type_to_lower = to_lower constraint_type
      in if constraint_type_to_lower = ''none'' then NO_CONSTRAINT
         else if constraint_type_to_lower = ''neumann_grad_scalar'' then NEUMANN_GRAD_SCALAR
         else NO_CONSTRAINT)"

text \<open>The chain of comparisons that both \<open>setWeightingType\<close>s share.\<close>

definition weighting_of_name :: "string \<Rightarrow> WeightingFunctionType" where
  "weighting_of_name wt =
     (let wt_to_lower = to_lower wt
      in if wt_to_lower = ''power'' then Power
         else if wt_to_lower = ''gaussian'' then Gaussian
         else if wt_to_lower = ''cubicspline'' then CubicSpline
         else if wt_to_lower = ''cosine'' then Cosine
         else if wt_to_lower = ''sigmoid'' then Sigmoid
         else Power)"

section \<open>Sizes of the basis and the weighting kernel\<close>

definition getNP :: "int \<Rightarrow> int \<Rightarrow> ReconstructionSpace \<Rightarrow> int" where
  "getNP m dimension r_space =
     (if r_space \<noteq> DivergenceFreeVectorTaylorPolynomial then ScalarTaylor_getSize m dimension
      else DivFree_getSize m dimension)"

text \<open>
  The products are of type \<open>double\<close> and are cut off to \<open>int\<close>; they are not negative here,
  so the cut is the floor.
\<close>

definition getNN :: "int \<Rightarrow> int \<Rightarrow> ReconstructionSpace \<Rightarrow> int" where
  "getNN m dimension r_space =
     (let np = getNP m dimension r_space
      in if dimension = 3 then \<lfloor>of_int np * (17 / 10 + of_int m * (1 / 10)) :: real\<rfloor>
         else if dimension = 2 then \<lfloor>of_int np * (14 / 10 + of_int m * (3 / 100)) :: real\<rfloor>
         else if dimension = 1 then \<lfloor>of_int np * (11 / 10) :: real\<rfloor>
         else np)"

text \<open>
  \<open>std::pow\<close> of a \<open>double\<close> and an \<open>int\<close>.  A negative power of zero is infinite.
\<close>

definition pow_int :: "real \<Rightarrow> int \<Rightarrow> real result" where
  "pow_int b e = (if b = 0 \<and> e < 0 then Inl Division_by_zero else Inr (b powi e))"

definition double_of_bool :: "bool \<Rightarrow> real" where
  "double_of_bool b = (if b then 1 else 0)"

definition Wab :: "real \<Rightarrow> real \<Rightarrow> WeightingFunctionType \<Rightarrow> int \<Rightarrow> int \<Rightarrow> real result" where
  "Wab r h weighting_type p n =
     (case weighting_type of
        Power \<Rightarrow>
          (let abs_r_over_h_to_n = \<bar>r / h\<bar>
           in rbind (if n > 1 then pow_int abs_r_over_h_to_n n else Inr abs_r_over_h_to_n)
                (\<lambda>abs_r_over_h_to_n.
              rbind (pow_int (1 - abs_r_over_h_to_n) p) (\<lambda>v.
                Inr (v * double_of_bool (1 - abs_r_over_h_to_n > 0)))))
      | CubicSpline \<Rightarrow>
          (let x = \<bar>r / h\<bar>
           in Inr (((1 - x) + x * (1 - x) * (1 - 2 * x)) * double_of_bool (x \<le> 1)))
      | Cosine \<Rightarrow>
          (let pi_digits = 314159265358979323846 / 10 ^ 20; abs_r_over_h_to_n = \<bar>r / h\<bar>
           in Inr (cos (5 / 10 * pi_digits * r / h) * double_of_bool (1 - abs_r_over_h_to_n > 0)))
      | Gaussian \<Rightarrow>
          (if p = 0 then Inl Division_by_zero
           else let h_over_p = h / of_int p; abs_r_over_h_to_n = \<bar>r / h\<bar>
                in Inr (double_of_bool (1 - abs_r_over_h_to_n > 0)
                          / (h_over_p * (25066282746310002416124 / 10 ^ 22))
                        * exp (- 5 / 10 * r * r / (h_over_p * h_over_p))))
      | Sigmoid \<Rightarrow>
          (let abs_r_over_h_to_n = \<bar>r / h\<bar>
           in Inr (double_of_bool (1 - abs_r_over_h_to_n > 0)
                     / (exp (of_int p * r) + exp (- of_int p * r) + of_int n))))"

section \<open>Constructors\<close>

text \<open>On a manifold the vector point sample stands for the one with target-wise transforms.\<close>

definition manifold_sample :: "ProblemType \<Rightarrow> SamplingFunctional \<Rightarrow> SamplingFunctional" where
  "manifold_sample pt sampling_strategy =
     (if pt = MANIFOLD \<and> sf_eq sampling_strategy VectorPointSample
      then ManifoldVectorPointSample else sampling_strategy)"

definition GMLS_make ::
  "bool \<Rightarrow> (string \<Rightarrow> string option) \<Rightarrow> ReconstructionSpace \<Rightarrow> SamplingFunctional
     \<Rightarrow> SamplingFunctional \<Rightarrow> int \<Rightarrow> int \<Rightarrow> string \<Rightarrow> string \<Rightarrow> string \<Rightarrow> int \<Rightarrow> gmls result" where
  "GMLS_make use_cuda env reconstruction_space polynomial_sampling_strategy data_sampling_strategy
      poly_order dimensions dense_solver_type problem_type constraint_type
      manifold_curvature_poly_order =
     (let pt = parseProblemType problem_type;
          data_sampling_functional = manifold_sample pt data_sampling_strategy;
          local_dimensions = (if pt = MANIFOLD then dimensions - 1 else dimensions);
          h_ss = SolutionSet_make data_sampling_functional dimensions local_dimensions pt
      in rbind (ParallelManager_make use_cuda env) (\<lambda>pm.
         rbind (getActualReconstructionSpaceRank (reconstruction_space_num reconstruction_space))
           (\<lambda>rank.
         Inr \<lparr>g_w = [], g_P = [], g_RHS = [], g_Z = [], g_T = [], g_ref_N = [], g_host_T = [],
           g_host_ref_N = [], g_manifold_curvature_coefficients = [], g_source_extra_data = [],
           g_target_extra_data = [], g_neighbor_lists = NeighborLists_default,
           g_host_number_of_neighbors_list = [], g_source_coordinates = [],
           g_target_coordinates = [], g_pc = PointConnections_default, g_epsilons = [],
           g_host_epsilons = [], g_prestencil_weights = rank5_empty,
           g_host_prestencil_weights = rank5_empty, g_additional_evaluation_coordinates = [],
           g_additional_evaluation_indices = NeighborLists_default,
           g_additional_pc = PointConnections_default,
           g_host_number_of_additional_evaluation_indices = [],
           g_h_ss = h_ss\<lparr>ss_max_evaluation_sites_per_target := 1\<rparr>,
           g_d_ss = None,
           g_poly_order = poly_order, g_curvature_poly_order = manifold_curvature_poly_order,
           g_NP = getNP poly_order dimensions reconstruction_space,
           g_global_dimensions = dimensions, g_local_dimensions = local_dimensions,
           g_dimensions = dimensions, g_reconstruction_space = reconstruction_space,
           g_reconstruction_space_rank = rank,
           g_dense_solver_type = parseSolverType dense_solver_type, g_problem_type = pt,
           g_constraint_type = parseConstraintType constraint_type,
           g_polynomial_sampling_functional = manifold_sample pt polynomial_sampling_strategy,
           g_data_sampling_functional = data_sampling_functional,
           g_curvature_support_operations =
             (if pt = MANIFOLD then [GradientOfScalarPointEvaluation] else []),
           g_operations = [], g_host_operations = [],
           g_weighting_type = Power, g_curvature_weighting_type = Power,
           g_weighting_p = 2, g_weighting_n = 1,
           g_curvature_weighting_p = 2, g_curvature_weighting_n = 1,
           g_basis_multiplier = 1, g_sampling_multiplier = 1, g_data_sampling_multiplier = None,
           g_orthonormal_tangent_space_provided = False,
           g_reference_outward_normal_direction_provided = False,
           g_use_reference_outward_normal_direction_provided_to_orient_surface = False,
           g_entire_batch_computed_at_once = True, g_store_PTWP_inv_PTW = False,
           g_initial_index_for_batch = 0, g_max_num_neighbors = 0, g_pm = pm,
           g_order_of_quadrature_points = 0, g_dimension_of_quadrature_points = 0,
           g_quadrature_type = [], g_qm = Quadrature_default\<rparr>)))"

definition GMLS_clones ::
  "bool \<Rightarrow> (string \<Rightarrow> string option) \<Rightarrow> int \<Rightarrow> int \<Rightarrow> string \<Rightarrow> string \<Rightarrow> string \<Rightarrow> int
     \<Rightarrow> gmls result" where
  "GMLS_clones use_cuda env poly_order dimensions dense_solver_type problem_type constraint_type
      manifold_curvature_poly_order =
     GMLS_make use_cuda env VectorOfScalarClonesTaylorPolynomial VectorPointSample VectorPointSample
       poly_order dimensions dense_solver_type problem_type constraint_type
       manifold_curvature_poly_order"

definition GMLS_dual ::
  "bool \<Rightarrow> (string \<Rightarrow> string option) \<Rightarrow> ReconstructionSpace \<Rightarrow> SamplingFunctional
     \<Rightarrow> int \<Rightarrow> int \<Rightarrow> string \<Rightarrow> string \<Rightarrow> string \<Rightarrow> int \<Rightarrow> gmls result" where
  "GMLS_dual use_cuda env reconstruction_space dual_sampling_strategy poly_order dimensions
      dense_solver_type problem_type constraint_type manifold_curvature_poly_order =
     GMLS_make use_cuda env reconstruction_space dual_sampling_strategy dual_sampling_strategy
       poly_order dimensions dense_solver_type problem_type constraint_type
       manifold_curvature_poly_order"

section \<open>Accessors\<close>

definition getPolynomialCoefficientsDomainRangeSize :: "bool \<Rightarrow> gmls \<Rightarrow> (int \<times> int) result" where
  "getPolynomialCoefficientsDomainRangeSize dbg g =
     rbind (getMaxNumNeighbors dbg (g_neighbor_lists g)) (\<lambda>mx.
       Inr (g_basis_multiplier g * g_NP g, g_sampling_multiplier g * mx))"

definition getPolynomialCoefficientsSize :: "bool \<Rightarrow> gmls \<Rightarrow> int result" where
  "getPolynomialCoefficientsSize dbg g =
     rbind (getPolynomialCoefficientsDomainRangeSize dbg g) (\<lambda>sizes. Inr (fst sizes))"

definition coefficients_available :: "gmls \<Rightarrow> unit result" where
  "coefficients_available g =
     rbind (compadre_assert_release
       ''Entire batch not computed at once, so getFullPolynomialCoefficientsBasis() can not be called.''
       (g_entire_batch_computed_at_once g)) (\<lambda>_.
     compadre_assert_release ''generateAlphas() called with keep_coefficients set to false.''
       (g_store_PTWP_inv_PTW g))"

text \<open>\<open>getPDims\<close> is called with its two output arguments exchanged.\<close>

definition getPolynomialCoefficientsMemorySize :: "bool \<Rightarrow> gmls \<Rightarrow> (int \<times> int) result" where
  "getPolynomialCoefficientsMemorySize dbg g =
     rbind (getPolynomialCoefficientsDomainRangeSize dbg g) (\<lambda>(M, N).
     rbind (coefficients_available g) (\<lambda>_.
       Inr (if g_constraint_type g = NO_CONSTRAINT \<and> g_dense_solver_type g \<noteq> LU
            then getRHSDims (g_dense_solver_type g) (g_constraint_type g)
                   (g_reconstruction_space g) (g_dimensions g) N M
            else (let (p0, p1) = getPDims (g_dense_solver_type g) (g_constraint_type g)
                        (g_reconstruction_space g) (g_dimensions g) N M
                  in (p1, p0)))))"

definition getFullPolynomialCoefficientsBasis :: "gmls \<Rightarrow> real list result" where
  "getFullPolynomialCoefficientsBasis g =
     rbind (coefficients_available g) (\<lambda>_.
       Inr (if g_constraint_type g = NO_CONSTRAINT \<and> g_dense_solver_type g \<noteq> LU
            then g_RHS g else g_P g))"

definition getWeightingParameter :: "gmls \<Rightarrow> int \<Rightarrow> int" where
  "getWeightingParameter g index = (if index = 1 then g_weighting_n g else g_weighting_p g)"

definition getManifoldWeightingParameter :: "gmls \<Rightarrow> int \<Rightarrow> int" where
  "getManifoldWeightingParameter g index =
     (if index = 1 then g_curvature_weighting_n g else g_curvature_weighting_p g)"

text \<open>
  \<open>T(direction, component)\<close> of the row-major matrix that starts at the target's tile.
\<close>

definition getTangentBundle :: "gmls \<Rightarrow> int \<Rightarrow> int \<Rightarrow> int \<Rightarrow> real result" where
  "getTangentBundle g target_index direction component =
     view_read (g_host_T g)
       (target_index * g_dimensions g * g_dimensions g + direction * g_dimensions g + component)"

definition getReferenceNormalDirection :: "bool \<Rightarrow> gmls \<Rightarrow> int \<Rightarrow> int \<Rightarrow> real result" where
  "getReferenceNormalDirection dbg g target_index component =
     rbind (compadre_assert_debug dbg
       ''getRefenceNormalDirection called, but reference outwrad normal directions were never provided.''
       (g_reference_outward_normal_direction_provided g)) (\<lambda>_.
     view_read (g_host_ref_N g) (target_index * g_dimensions g + component))"

definition getPreStencilWeight ::
  "gmls \<Rightarrow> SamplingFunctional \<Rightarrow> int \<Rightarrow> int \<Rightarrow> bool \<Rightarrow> int \<Rightarrow> int \<Rightarrow> real result" where
  "getPreStencilWeight g sro target_index neighbor_index for_target output_component
      input_component =
     (if sf_eq sro PointSample then Inr (if for_target then 0 else 1)
      else let target_index_in_weights =
                 (if transform_type sro = DifferentEachTarget
                     \<or> transform_type sro = DifferentEachNeighbor then target_index else 0);
               neighbor_index_in_weights =
                 (if transform_type sro = DifferentEachNeighbor then neighbor_index else 0)
           in rank5_read (g_host_prestencil_weights g)
                [if for_target then 1 else 0, target_index_in_weights, neighbor_index_in_weights,
                 output_component, input_component])"

text \<open>
  The alphas come to the host on the first request after a solve, and only then.
\<close>

definition getSolutionSetHost :: "gmls \<Rightarrow> gmls \<times> solution_set" where
  "getSolutionSetHost g =
     (let g = (case g_d_ss g of
                 None \<Rightarrow> g
               | Some d_ss \<Rightarrow>
                   if ss_alphas (g_h_ss g) = [] \<and> ss_alphas d_ss \<noteq> []
                   then g\<lparr>g_h_ss := copyAlphas (g_h_ss g) d_ss\<rparr> else g)
      in (g, g_h_ss g))"

section \<open>Modifiers\<close>

text \<open>Every modifier ends with this call: it drops the right-hand sides, nothing else.\<close>

definition resetCoefficientData :: "gmls \<Rightarrow> gmls" where
  "resetCoefficientData g = (if length (g_RHS g) > 0 then g\<lparr>g_RHS := []\<rparr> else g)"

text \<open>The three assignments that follow every change of sites or neighbors.\<close>

definition connect :: "gmls \<Rightarrow> gmls" where
  "connect g =
     g\<lparr>g_pc := PointConnections_make (g_target_coordinates g) (g_source_coordinates g)
                (g_neighbor_lists g),
       g_additional_pc := PointConnections_make (g_target_coordinates g)
                (g_additional_evaluation_coordinates g) (g_additional_evaluation_indices g),
       g_h_ss := (g_h_ss g)\<lparr>ss_neighbor_lists := g_neighbor_lists g\<rparr>\<rparr>"

text \<open>The loop that copies the numbers of neighbors to the host.\<close>

definition host_counts :: "neighbor_lists \<Rightarrow> int list result" where
  "host_counts nl =
     rmap (\<lambda>i. getNumberOfNeighborsHost nl (int i)) [0..<nat (getNumberOfTargets nl)]"

text \<open>
  The neighbor lists, given in compressed rows (both overloads: a copy of the views and
  the views themselves) and given in two dimensions.
\<close>

definition install_neighbor_lists :: "bool \<Rightarrow> gmls \<Rightarrow> neighbor_lists \<Rightarrow> gmls result" where
  "install_neighbor_lists dbg g nl =
     rbind (getMaxNumNeighbors dbg nl) (\<lambda>mx.
     rbind (host_counts nl) (\<lambda>counts.
     let g = resetCoefficientData (g\<lparr>g_neighbor_lists := nl, g_max_num_neighbors := mx,
                                     g_host_number_of_neighbors_list := counts\<rparr>)
     in Inr (if length (g_source_coordinates g) > 0 \<and> length (g_target_coordinates g) > 0
             then connect g else g)))"

definition setNeighborLists :: "bool \<Rightarrow> bool \<Rightarrow> gmls \<Rightarrow> int list \<Rightarrow> int list \<Rightarrow> gmls result" where
  "setNeighborLists dbg aliased g neighbor_lists number_of_neighbors_list =
     rbind (NeighborLists_compressed aliased neighbor_lists number_of_neighbors_list)
       (install_neighbor_lists dbg g)"

definition setNeighborLists_2d ::
  "bool \<Rightarrow> bool \<Rightarrow> bool \<Rightarrow> nat list \<Rightarrow> gmls \<Rightarrow> int list list \<Rightarrow> gmls result" where
  "setNeighborLists_2d dbg aliased device_accessible order g neighbor_lists =
     rbind (Convert2DToCompressedRowNeighborLists aliased device_accessible order neighbor_lists)
       (install_neighbor_lists dbg g)"

text \<open>The additional evaluation sites.\<close>

definition install_additional_indices :: "bool \<Rightarrow> gmls \<Rightarrow> neighbor_lists \<Rightarrow> gmls result" where
  "install_additional_indices dbg g nl =
     rbind (getMaxNumNeighbors dbg nl) (\<lambda>mx.
     rbind (host_counts nl) (\<lambda>counts.
       Inr (resetCoefficientData
         (g\<lparr>g_additional_evaluation_indices := nl,
            g_h_ss := (g_h_ss g)\<lparr>ss_max_evaluation_sites_per_target := mx + 1\<rparr>,
            g_host_number_of_additional_evaluation_indices := counts\<rparr>))))"

definition setAuxiliaryEvaluationIndicesLists ::
  "bool \<Rightarrow> bool \<Rightarrow> gmls \<Rightarrow> int list \<Rightarrow> int list \<Rightarrow> gmls result" where
  "setAuxiliaryEvaluationIndicesLists dbg aliased g additional_evaluation_indices
      number_of_neighbors_list =
     rbind (NeighborLists_compressed aliased additional_evaluation_indices
              number_of_neighbors_list) (install_additional_indices dbg g)"

definition setAuxiliaryEvaluationIndicesLists_2d ::
  "bool \<Rightarrow> bool \<Rightarrow> bool \<Rightarrow> nat list \<Rightarrow> gmls \<Rightarrow> int list list \<Rightarrow> gmls result" where
  "setAuxiliaryEvaluationIndicesLists_2d dbg aliased device_accessible order g
      additional_evaluation_indices =
     rbind (Convert2DToCompressedRowNeighborLists aliased device_accessible order
              additional_evaluation_indices) (install_additional_indices dbg g)"

definition setAuxiliaryEvaluationCoordinates :: "gmls \<Rightarrow> real list list \<Rightarrow> gmls" where
  "setAuxiliaryEvaluationCoordinates g evaluation_coordinates =
     resetCoefficientData (g\<lparr>g_additional_evaluation_coordinates := evaluation_coordinates\<rparr>)"

definition additional_connections :: "gmls \<Rightarrow> gmls" where
  "additional_connections g =
     g\<lparr>g_additional_pc := PointConnections_make (g_target_coordinates g)
          (g_additional_evaluation_coordinates g) (g_additional_evaluation_indices g)\<rparr>"

definition setAdditionalEvaluationSitesData ::
  "bool \<Rightarrow> bool \<Rightarrow> gmls \<Rightarrow> int list \<Rightarrow> int list \<Rightarrow> real list list \<Rightarrow> gmls result" where
  "setAdditionalEvaluationSitesData dbg aliased g cr_additional_evaluation_indices
      number_of_additional_evaluation_indices additional_evaluation_coordinates =
     rbind (setAuxiliaryEvaluationIndicesLists dbg aliased g cr_additional_evaluation_indices
              number_of_additional_evaluation_indices) (\<lambda>g.
       Inr (additional_connections
         (setAuxiliaryEvaluationCoordinates g additional_evaluation_coordinates)))"

definition setAdditionalEvaluationSitesData_2d ::
  "bool \<Rightarrow> bool \<Rightarrow> bool \<Rightarrow> nat list \<Rightarrow> gmls \<Rightarrow> int list list \<Rightarrow> real list list \<Rightarrow> gmls result" where
  "setAdditionalEvaluationSitesData_2d dbg aliased device_accessible order g
      additional_evaluation_indices additional_evaluation_coordinates =
     rbind (setAuxiliaryEvaluationIndicesLists_2d dbg aliased device_accessible order g
              additional_evaluation_indices) (\<lambda>g.
       Inr (additional_connections
         (setAuxiliaryEvaluationCoordinates g additional_evaluation_coordinates)))"

text \<open>The sites.\<close>

definition setSourceSites :: "gmls \<Rightarrow> real list list \<Rightarrow> gmls" where
  "setSourceSites g source_coordinates =
     (let g = resetCoefficientData (g\<lparr>g_source_coordinates := source_coordinates\<rparr>)
      in if length (g_target_coordinates g) > 0 \<and> getNumberOfTargets (g_neighbor_lists g) \<noteq> 0
         then connect g else g)"

definition setTargetSites :: "bool \<Rightarrow> bool \<Rightarrow> gmls \<Rightarrow> real list list \<Rightarrow> gmls result" where
  "setTargetSites dbg aliased g target_coordinates =
     (let g = g\<lparr>g_target_coordinates := target_coordinates,
                g_host_number_of_additional_evaluation_indices :=
                  replicate (length target_coordinates) 0\<rparr>
      in rbind (if getNumberOfTargets (g_additional_evaluation_indices g)
                     \<noteq> int (length (g_target_coordinates g))
                then setAuxiliaryEvaluationIndicesLists dbg aliased g []
                       (g_host_number_of_additional_evaluation_indices g)
                else Inr g) (\<lambda>g.
         let g = resetCoefficientData g
         in Inr (if length (g_source_coordinates g) > 0
                    \<and> getNumberOfTargets (g_neighbor_lists g) \<noteq> 0
                 then connect g else g)))"

text \<open>The first overload copies through the host, the second takes the device view.\<close>

definition setWindowSizes :: "gmls \<Rightarrow> real list \<Rightarrow> gmls" where
  "setWindowSizes g epsilons =
     resetCoefficientData (g\<lparr>g_epsilons := epsilons, g_host_epsilons := epsilons\<rparr>)"

definition setWindowSizes_device :: "gmls \<Rightarrow> real list \<Rightarrow> gmls" where
  "setWindowSizes_device g epsilons = resetCoefficientData (g\<lparr>g_epsilons := epsilons\<rparr>)"

definition setProblemData ::
  "bool \<Rightarrow> bool \<Rightarrow> gmls \<Rightarrow> int list \<Rightarrow> int list \<Rightarrow> real list list \<Rightarrow> real list list \<Rightarrow> real list
     \<Rightarrow> gmls result" where
  "setProblemData dbg aliased g cr_neighbor_lists number_of_neighbors_list source_coordinates
      target_coordinates epsilons =
     rbind (setNeighborLists dbg aliased g cr_neighbor_lists number_of_neighbors_list) (\<lambda>g.
     rbind (setTargetSites dbg aliased (setSourceSites g source_coordinates) target_coordinates)
       (\<lambda>g. Inr (setWindowSizes g epsilons)))"

definition setProblemData_2d ::
  "bool \<Rightarrow> bool \<Rightarrow> bool \<Rightarrow> nat list \<Rightarrow> gmls \<Rightarrow> int list list \<Rightarrow> real list list \<Rightarrow> real list list
     \<Rightarrow> real list \<Rightarrow> gmls result" where
  "setProblemData_2d dbg aliased device_accessible order g neighbor_lists source_coordinates
      target_coordinates epsilons =
     rbind (setNeighborLists_2d dbg aliased device_accessible order g neighbor_lists) (\<lambda>g.
     rbind (setTargetSites dbg aliased (setSourceSites g source_coordinates) target_coordinates)
       (\<lambda>g. Inr (setWindowSizes g epsilons)))"

text \<open>
  Tangent bundle and reference normals: the loops that copy the user's rank-3 and rank-2
  views into flat views, row by row.
\<close>

definition setTangentBundle :: "bool \<Rightarrow> gmls \<Rightarrow> real list list list \<Rightarrow> gmls result" where
  "setTangentBundle same_memory_space g tangent_directions =
     rbind (compadre_assert_release
       ''Memory space does not match between _T and tangent_directions'' same_memory_space) (\<lambda>_.
     rbind (rmap (\<lambda>i. rmap (\<lambda>j. rmap (\<lambda>k.
         rbind (view_read tangent_directions (int i)) (\<lambda>m. view_read2 m (int j) (int k)))
       [0..<nat (g_dimensions g)]) [0..<nat (g_dimensions g)])
       [0..<length (g_target_coordinates g)]) (\<lambda>tiles.
     let T = concat (concat tiles)
     in Inr (resetCoefficientData (g\<lparr>g_T := T, g_host_T := T,
          g_orthonormal_tangent_space_provided := True\<rparr>))))"

definition setReferenceOutwardNormalDirection ::
  "gmls \<Rightarrow> real list list \<Rightarrow> bool \<Rightarrow> gmls result" where
  "setReferenceOutwardNormalDirection g outward_normal_directions use_to_orient_surface =
     rbind (rmap (\<lambda>i. rmap (\<lambda>j. view_read2 outward_normal_directions (int i) (int j))
         [0..<nat (g_dimensions g)]) [0..<length (g_target_coordinates g)]) (\<lambda>rows.
     Inr (resetCoefficientData (g\<lparr>g_ref_N := concat rows, g_host_ref_N := concat rows,
       g_reference_outward_normal_direction_provided := True,
       g_use_reference_outward_normal_direction_provided_to_orient_surface :=
         use_to_orient_surface\<rparr>)))"

definition setSourceExtraData :: "gmls \<Rightarrow> real list list \<Rightarrow> gmls" where
  "setSourceExtraData g extra_data = resetCoefficientData (g\<lparr>g_source_extra_data := extra_data\<rparr>)"

definition setTargetExtraData :: "gmls \<Rightarrow> real list list \<Rightarrow> gmls" where
  "setTargetExtraData g extra_data = resetCoefficientData (g\<lparr>g_target_extra_data := extra_data\<rparr>)"

definition setWeightingType :: "gmls \<Rightarrow> WeightingFunctionType \<Rightarrow> gmls" where
  "setWeightingType g wt = resetCoefficientData (g\<lparr>g_weighting_type := wt\<rparr>)"

definition setWeightingType_name :: "gmls \<Rightarrow> string \<Rightarrow> gmls" where
  "setWeightingType_name g wt =
     resetCoefficientData (g\<lparr>g_weighting_type := weighting_of_name wt\<rparr>)"

definition setCurvatureWeightingType :: "gmls \<Rightarrow> WeightingFunctionType \<Rightarrow> gmls" where
  "setCurvatureWeightingType g wt = resetCoefficientData (g\<lparr>g_curvature_weighting_type := wt\<rparr>)"

definition setCurvatureWeightingType_name :: "gmls \<Rightarrow> string \<Rightarrow> gmls" where
  "setCurvatureWeightingType_name g wt =
     resetCoefficientData (g\<lparr>g_curvature_weighting_type := weighting_of_name wt\<rparr>)"

definition setPolynomialOrder :: "gmls \<Rightarrow> int \<Rightarrow> gmls" where
  "setPolynomialOrder g poly_order =
     resetCoefficientData (g\<lparr>g_poly_order := poly_order,
       g_NP := getNP poly_order (g_dimensions g) (g_reconstruction_space g)\<rparr>)"

definition setCurvaturePolynomialOrder :: "gmls \<Rightarrow> int \<Rightarrow> gmls" where
  "setCurvaturePolynomialOrder g manifold_poly_order =
     resetCoefficientData (g\<lparr>g_curvature_poly_order := manifold_poly_order\<rparr>)"

definition setWeightingParameter :: "gmls \<Rightarrow> int \<Rightarrow> int \<Rightarrow> gmls" where
  "setWeightingParameter g wp index =
     resetCoefficientData
       (if index = 1 then g\<lparr>g_weighting_n := wp\<rparr> else g\<lparr>g_weighting_p := wp\<rparr>)"

definition setCurvatureWeightingParameter :: "gmls \<Rightarrow> int \<Rightarrow> int \<Rightarrow> gmls" where
  "setCurvatureWeightingParameter g wp index =
     resetCoefficientData
       (if index = 1 then g\<lparr>g_curvature_weighting_n := wp\<rparr>
        else g\<lparr>g_curvature_weighting_p := wp\<rparr>)"

definition setOrderOfQuadraturePoints :: "gmls \<Rightarrow> int \<Rightarrow> gmls" where
  "setOrderOfQuadraturePoints g order =
     resetCoefficientData (g\<lparr>g_order_of_quadrature_points := order\<rparr>)"

definition setDimensionOfQuadraturePoints :: "gmls \<Rightarrow> int \<Rightarrow> gmls" where
  "setDimensionOfQuadraturePoints g nd =
     resetCoefficientData (g\<lparr>g_dimension_of_quadrature_points := nd\<rparr>)"

definition setQuadratureType :: "gmls \<Rightarrow> string \<Rightarrow> gmls" where
  "setQuadratureType g quadrature_type =
     resetCoefficientData (g\<lparr>g_quadrature_type := quadrature_type\<rparr>)"

definition gmls_addTarget :: "gmls \<Rightarrow> TargetOperation \<Rightarrow> gmls result" where
  "gmls_addTarget g lro =
     rbind (addTarget (g_h_ss g) lro) (\<lambda>ss. Inr (resetCoefficientData (g\<lparr>g_h_ss := ss\<rparr>)))"

definition gmls_addTargets :: "gmls \<Rightarrow> TargetOperation list \<Rightarrow> gmls result" where
  "gmls_addTargets g lro =
     rbind (addTargets (g_h_ss g) lro) (\<lambda>ss. Inr (resetCoefficientData (g\<lparr>g_h_ss := ss\<rparr>)))"

definition gmls_clearTargets :: "gmls \<Rightarrow> gmls result" where
  "gmls_clearTargets g =
     rbind (clearTargets (g_h_ss g)) (\<lambda>ss. Inr (resetCoefficientData (g\<lparr>g_h_ss := ss\<rparr>)))"

section \<open>The invariant of the state\<close>

text \<open>A neighbor list as the state keeps it: consistent, with its maximum computed.\<close>

definition max_count :: "neighbor_lists \<Rightarrow> int" where
  "max_count nl = Max (insert 0 (set (nl_number_of_neighbors_list nl)))"

definition nl_exact :: "neighbor_lists \<Rightarrow> bool" where
  "nl_exact nl \<longleftrightarrow> nl_wf nl \<and> nl_max_row_storage nl = max_count nl"

definition nl_ready :: "neighbor_lists \<Rightarrow> bool" where
  "nl_ready nl \<longleftrightarrow> nl_exact nl \<or> nl = NeighborLists_default"

text \<open>Once sites and neighbors are there, every part of the state refers to the same ones.\<close>

definition connected :: "gmls \<Rightarrow> bool" where
  "connected g \<longleftrightarrow>
     (g_source_coordinates g \<noteq> [] \<and> g_target_coordinates g \<noteq> []
        \<and> getNumberOfTargets (g_neighbor_lists g) \<noteq> 0 \<longrightarrow>
      g_pc g = PointConnections_make (g_target_coordinates g) (g_source_coordinates g)
                 (g_neighbor_lists g)
      \<and> g_additional_pc g = PointConnections_make (g_target_coordinates g)
                 (g_additional_evaluation_coordinates g) (g_additional_evaluation_indices g)
      \<and> ss_neighbor_lists (g_h_ss g) = g_neighbor_lists g)"

definition gmls_core :: "gmls \<Rightarrow> bool" where
  "gmls_core g \<longleftrightarrow>
     nl_ready (g_neighbor_lists g) \<and> nl_ready (g_additional_evaluation_indices g)
     \<and> g_max_num_neighbors g = max_count (g_neighbor_lists g)
     \<and> g_host_number_of_neighbors_list g = nl_number_of_neighbors_list (g_neighbor_lists g)
     \<and> (g_host_number_of_additional_evaluation_indices g
           = nl_number_of_neighbors_list (g_additional_evaluation_indices g)
         \<or> set (g_host_number_of_additional_evaluation_indices g) \<subseteq> {0})
     \<and> ss_inv (g_h_ss g)
     \<and> ss_max_evaluation_sites_per_target (g_h_ss g)
         = max_count (g_additional_evaluation_indices g) + 1
     \<and> ss_data_sampling_functional (g_h_ss g) = g_data_sampling_functional g
     \<and> ss_dimensions (g_h_ss g) = g_dimensions g
     \<and> ss_local_dimensions (g_h_ss g) = g_local_dimensions g
     \<and> ss_problem_type (g_h_ss g) = g_problem_type g"

definition gmls_inv :: "gmls \<Rightarrow> bool" where
  "gmls_inv g \<longleftrightarrow> gmls_core g \<and> connected g"

text \<open>
  The public calls that change the state between solves, with the inputs that they take:
  counts that are not negative and whose total fits \<open>size_t\<close>, rows that begin with their
  count.
\<close>

inductive modifier :: "bool \<Rightarrow> gmls \<Rightarrow> gmls \<Rightarrow> bool" for dbg where
  set_neighbors: "counts_ok counts \<Longrightarrow> setNeighborLists dbg aliased g cr counts = Inr g'
    \<Longrightarrow> modifier dbg g g'"
| set_neighbors_2d: "rows_ok rows \<Longrightarrow> set order = {..<length rows} \<Longrightarrow> device_accessible \<or> aliased
    \<Longrightarrow> setNeighborLists_2d dbg aliased device_accessible order g rows = Inr g' \<Longrightarrow> modifier dbg g g'"
| set_additional: "counts_ok counts
    \<Longrightarrow> setAdditionalEvaluationSitesData dbg aliased g cr counts coords = Inr g' \<Longrightarrow> modifier dbg g g'"
| set_additional_2d: "rows_ok rows \<Longrightarrow> set order = {..<length rows} \<Longrightarrow> device_accessible \<or> aliased
    \<Longrightarrow> setAdditionalEvaluationSitesData_2d dbg aliased device_accessible order g rows coords = Inr g'
    \<Longrightarrow> modifier dbg g g'"
| set_sources: "modifier dbg g (setSourceSites g coords)"
| set_targets: "setTargetSites dbg aliased g coords = Inr g' \<Longrightarrow> modifier dbg g g'"
| set_windows: "modifier dbg g (setWindowSizes g eps)"
| set_windows_device: "modifier dbg g (setWindowSizes_device g eps)"
| set_tangents: "setTangentBundle same g ts = Inr g' \<Longrightarrow> modifier dbg g g'"
| set_normals: "setReferenceOutwardNormalDirection g ns use = Inr g' \<Longrightarrow> modifier dbg g g'"
| set_source_extra: "modifier dbg g (setSourceExtraData g extra)"
| set_target_extra: "modifier dbg g (setTargetExtraData g extra)"
| set_weighting: "modifier dbg g (setWeightingType g wt)"
| set_weighting_name: "modifier dbg g (setWeightingType_name g name)"
| set_curvature_weighting: "modifier dbg g (setCurvatureWeightingType g wt)"
| set_curvature_weighting_name: "modifier dbg g (setCurvatureWeightingType_name g name)"
| set_order: "modifier dbg g (setPolynomialOrder g m)"
| set_curvature_order: "modifier dbg g (setCurvaturePolynomialOrder g m)"
| set_parameter: "modifier dbg g (setWeightingParameter g wp index)"
| set_curvature_parameter: "modifier dbg g (setCurvatureWeightingParameter g wp index)"
| set_quadrature_order: "modifier dbg g (setOrderOfQuadraturePoints g m)"
| set_quadrature_dimension: "modifier dbg g (setDimensionOfQuadraturePoints g m)"
| set_quadrature_type: "modifier dbg g (setQuadratureType g name)"
| add_target: "gmls_addTarget g lro = Inr g' \<Longrightarrow> modifier dbg g g'"
| add_targets: "gmls_addTargets g lros = Inr g' \<Longrightarrow> modifier dbg g g'"
| clear_targets: "gmls_clearTargets g = Inr g' \<Longrightarrow> modifier dbg g g'"
| ask_solution: "modifier dbg g (fst (getSolutionSetHost g))"

lemma reset_simps [simp]:
  "gmls_core (resetCoefficientData g) = gmls_core g"
  "connected (resetCoefficientData g) = connected g"
  "gmls_inv (resetCoefficientData g) = gmls_inv g"
  "g_neighbor_lists (resetCoefficientData g) = g_neighbor_lists g"
  "g_source_coordinates (resetCoefficientData g) = g_source_coordinates g"
  "g_target_coordinates (resetCoefficientData g) = g_target_coordinates g"
  "g_RHS (resetCoefficientData g) = []"
  "g_additional_evaluation_indices (resetCoefficientData g) = g_additional_evaluation_indices g"
  "g_additional_evaluation_coordinates (resetCoefficientData g) = g_additional_evaluation_coordinates g"
  "g_host_number_of_additional_evaluation_indices (resetCoefficientData g)
     = g_host_number_of_additional_evaluation_indices g"
  "g_max_num_neighbors (resetCoefficientData g) = g_max_num_neighbors g"
  "g_host_number_of_neighbors_list (resetCoefficientData g) = g_host_number_of_neighbors_list g"
  "g_h_ss (resetCoefficientData g) = g_h_ss g"
  "g_pc (resetCoefficientData g) = g_pc g"
  "g_additional_pc (resetCoefficientData g) = g_additional_pc g"
  "g_data_sampling_functional (resetCoefficientData g) = g_data_sampling_functional g"
  "g_dimensions (resetCoefficientData g) = g_dimensions g"
  "g_local_dimensions (resetCoefficientData g) = g_local_dimensions g"
  "g_problem_type (resetCoefficientData g) = g_problem_type g"
  by (simp_all add: resetCoefficientData_def gmls_core_def gmls_inv_def connected_def)

lemma ss_inv_updates [simp]:
  "ss_inv (ss\<lparr>ss_neighbor_lists := nl\<rparr>) = ss_inv ss"
  "ss_inv (ss\<lparr>ss_max_evaluation_sites_per_target := m\<rparr>) = ss_inv ss"
  "ss_inv (ss\<lparr>ss_alphas := al\<rparr>) = ss_inv ss"
  by (simp_all add: ss_inv_def)

lemma nl_exact_built:
  assumes "counts_ok counts" "NeighborLists_compressed aliased cr counts = Inr nl"
  shows "nl_exact nl"
  using assms nl_built_wf
  by (auto simp: NeighborLists_compressed_eq nl_exact_def nl_built_def max_count_def split: if_splits)

lemma copy_row_max:
  assumes "copy_row ro rows i nl = Inr nl'"
  shows "nl_max_row_storage nl' = nl_max_row_storage nl"
proof -
  have step: "nl_max_row_storage b = nl_max_row_storage a" if "write_cr a k v = Inr b" for a b k v
    using that by (auto simp: write_cr_def rbind_eq_Inr_iff split: if_splits)
  obtain n where "rfold (\<lambda>j nla. rbind (ro nla (int i)) (\<lambda>off.
      rbind (view_read2 rows (int i) (int j + 1)) (\<lambda>v.
        write_cr nla (uint (off + TO_GLOBAL (int j))) v))) [0..<nat n] nl = Inr nl'"
    using assms by (auto simp: copy_row_def rbind_eq_Inr_iff)
  then show ?thesis
    by (rule rfold_keeps [where P = "\<lambda>a. nl_max_row_storage a = nl_max_row_storage nl"])
      (auto simp: rbind_eq_Inr_iff dest: step)
qed

lemma nl_exact_converted:
  assumes "rows_ok rows" "set order = {..<length rows}" "device_accessible \<or> aliased"
    and "Convert2DToCompressedRowNeighborLists aliased device_accessible order rows = Inr nl"
  shows "nl_exact nl"
proof -
  have 1: "nl_wf nl \<and> nl_number_of_neighbors_list nl = map hd rows"
    using Convert2D_eq [OF assms(1-3)] assms(4) by auto
  have reads: "rmap (\<lambda>row. view_read row 0) rows = Inr (map hd rows)"
    using assms(1) by (intro rmap_Inr) (auto simp: rows_ok_def view_read_def hd_conv_nth)
  obtain cr nl0 where 2: "NeighborLists_compressed aliased cr (map hd rows) = Inr nl0"
    and 3: "nl_max_row_storage nl = nl_max_row_storage nl0"
  proof -
    fix thesis
    assume *: "\<And>cr nl0. NeighborLists_compressed aliased cr (map hd rows) = Inr nl0 \<Longrightarrow>
      nl_max_row_storage nl = nl_max_row_storage nl0 \<Longrightarrow> thesis"
    have keep: "nl_max_row_storage b = nl_max_row_storage a"
      if "rfold (copy_row ro rows) order a = Inr b" for ro a b
      using that by (rule rfold_keeps [where P = "\<lambda>c. nl_max_row_storage c = nl_max_row_storage a"])
        (auto dest: copy_row_max)
    show thesis
      using assms(4) *
      by (auto simp: Convert2DToCompressedRowNeighborLists_def reads Let_def rbind_eq_Inr_iff
          copyDeviceDataToHost_def dest: keep split: if_splits)
  qed
  have "nl_max_row_storage nl0 = max_count nl0 \<and> nl_number_of_neighbors_list nl0 = map hd rows"
    using 2 rows_ok_counts [OF assms(1)]
    by (auto simp: NeighborLists_compressed_eq nl_built_def max_count_def split: if_splits)
  then show ?thesis
    using 1 3 by (simp add: nl_exact_def max_count_def)
qed

lemma host_counts_eq:
  assumes "nl_wf nl"
  shows "host_counts nl = Inr (nl_number_of_neighbors_list nl)"
proof -
  have "rmap (\<lambda>i. getNumberOfNeighborsHost nl (int i)) [0..<length (nl_number_of_neighbors_list nl)]
      = Inr (map (\<lambda>i. nl_number_of_neighbors_list nl ! i) [0..<length (nl_number_of_neighbors_list nl)])"
    using nl_wfD(5) [OF assms] by (intro rmap_Inr) (simp add: getNumberOfNeighborsHost_def)
  then show ?thesis
    using nl_wfD(2) [OF assms] by (simp add: host_counts_def getNumberOfTargets_def map_nth)
qed

lemma default_wf: "nl_wf NeighborLists_default"
  by (simp add: nl_wf_def NeighborLists_default_def counts_ok_def)

lemma nl_ready_wf: "nl_ready nl \<Longrightarrow> nl_wf nl"
  using default_wf by (auto simp: nl_ready_def nl_exact_def)

lemma getMaxNumNeighbors_Inr: "getMaxNumNeighbors dbg nl = Inr mx \<Longrightarrow> mx = nl_max_row_storage nl"
  by (auto simp: getMaxNumNeighbors_def rbind_eq_Inr_iff)

lemma connected_connect: "connected (connect g)"
  by (simp add: connected_def connect_def)

lemma gmls_inv_connect [simp]: "gmls_inv (connect g) \<longleftrightarrow> gmls_core g"
  by (simp add: gmls_inv_def connected_connect) (simp add: gmls_core_def connect_def)

lemma gmls_inv_disconnected:
  assumes "gmls_core g" "g_source_coordinates g = [] \<or> g_target_coordinates g = []
    \<or> getNumberOfTargets (g_neighbor_lists g) = 0"
  shows "gmls_inv g"
  using assms by (auto simp: gmls_inv_def connected_def)

lemma install_neighbor_lists_inv:
  assumes "gmls_inv g" "nl_exact nl" "install_neighbor_lists dbg g nl = Inr g'"
  shows "gmls_inv g'"
proof -
  note wf = assms(2) [unfolded nl_exact_def]
  define g1 where "g1 = resetCoefficientData (g\<lparr>g_neighbor_lists := nl,
    g_max_num_neighbors := max_count nl, g_host_number_of_neighbors_list := nl_number_of_neighbors_list nl\<rparr>)"
  have "g' = (if length (g_source_coordinates g1) > 0 \<and> length (g_target_coordinates g1) > 0
      then connect g1 else g1)"
    using assms(3) wf by (auto simp: install_neighbor_lists_def rbind_eq_Inr_iff host_counts_eq
        g1_def Let_def dest!: getMaxNumNeighbors_Inr)
  moreover have "gmls_core g1"
    using assms(1,2) by (simp add: g1_def gmls_inv_def gmls_core_def nl_ready_def)
  ultimately show ?thesis
    by (auto intro: gmls_inv_disconnected)
qed

lemma install_additional_indices_core:
  assumes "gmls_core g" "nl_exact nl" "install_additional_indices dbg g nl = Inr g'"
  shows "gmls_core g'" and "connected (additional_connections (setAuxiliaryEvaluationCoordinates g' coords))
    \<longleftrightarrow> connected (additional_connections g)"
proof -
  note wf = assms(2) [unfolded nl_exact_def]
  have g': "g' = resetCoefficientData (g\<lparr>g_additional_evaluation_indices := nl,
      g_h_ss := (g_h_ss g)\<lparr>ss_max_evaluation_sites_per_target := max_count nl + 1\<rparr>,
      g_host_number_of_additional_evaluation_indices := nl_number_of_neighbors_list nl\<rparr>)"
    using assms(3) wf by (auto simp: install_additional_indices_def rbind_eq_Inr_iff host_counts_eq
        dest!: getMaxNumNeighbors_Inr)
  show "gmls_core g'"
    using assms(1,2) by (simp add: g' gmls_core_def nl_ready_def)
  show "connected (additional_connections (setAuxiliaryEvaluationCoordinates g' coords))
    \<longleftrightarrow> connected (additional_connections g)"
    by (simp add: g' connected_def resetCoefficientData_def additional_connections_def
        setAuxiliaryEvaluationCoordinates_def)
qed

lemma additional_core [simp]:
  "gmls_core (additional_connections g) = gmls_core g"
  "gmls_core (setAuxiliaryEvaluationCoordinates g coords) = gmls_core g"
  "connected g \<Longrightarrow> connected (additional_connections g)"
  by (simp_all add: additional_connections_def setAuxiliaryEvaluationCoordinates_def gmls_core_def
      connected_def)

lemma additional_inv:
  assumes "gmls_inv g" "nl_exact nl" "install_additional_indices dbg g nl = Inr g'"
  shows "gmls_inv (additional_connections (setAuxiliaryEvaluationCoordinates g' coords))"
  using assms install_additional_indices_core [OF _ assms(2,3)] by (simp add: gmls_inv_def)

lemma setSourceSites_inv:
  assumes "gmls_inv g"
  shows "gmls_inv (setSourceSites g coords)"
proof -
  have "gmls_core (g\<lparr>g_source_coordinates := coords\<rparr>)"
    using assms by (simp add: gmls_inv_def gmls_core_def)
  then show ?thesis
    by (auto simp: setSourceSites_def Let_def intro!: gmls_inv_disconnected)
qed

lemma counts_ok_zero [simp]: "counts_ok (replicate n 0)"
  by (simp add: counts_ok_def sum_list_replicate)

lemma setTargetSites_inv:
  assumes "gmls_inv g" "setTargetSites dbg aliased g coords = Inr g'"
  shows "gmls_inv g'"
proof -
  define g1 where "g1 = g\<lparr>g_target_coordinates := coords,
    g_host_number_of_additional_evaluation_indices := replicate (length coords) 0\<rparr>"
  have "set (replicate (length coords) 0) \<subseteq> {0 :: int}" by auto
  then have 1: "gmls_core g1"
    using assms(1) by (simp add: g1_def gmls_inv_def gmls_core_def)
  obtain g2 where "gmls_core g2"
    and "g' = (if length (g_source_coordinates g2) > 0 \<and> getNumberOfTargets (g_neighbor_lists g2) \<noteq> 0
      then connect (resetCoefficientData g2) else resetCoefficientData g2)"
  proof (cases "getNumberOfTargets (g_additional_evaluation_indices g1) = int (length coords)")
    case True
    then show ?thesis
      using that [OF 1] assms(2) by (simp add: setTargetSites_def g1_def Let_def split: if_splits)
  next
    case False
    then obtain nl g2 where nl: "NeighborLists_compressed aliased [] (replicate (length coords) 0) = Inr nl"
      and i: "install_additional_indices dbg g1 nl = Inr g2"
      and g': "g' = (if length (g_source_coordinates g2) > 0 \<and> getNumberOfTargets (g_neighbor_lists g2) \<noteq> 0
        then connect (resetCoefficientData g2) else resetCoefficientData g2)"
      using assms(2) by (auto simp: setTargetSites_def g1_def Let_def rbind_eq_Inr_iff
          setAuxiliaryEvaluationIndicesLists_def)
    show ?thesis
      using that [OF _ g'] install_additional_indices_core(1) [OF 1 nl_exact_built [OF _ nl] i] by simp
  qed
  then show ?thesis
    by (auto intro!: gmls_inv_disconnected)
qed

lemma addTargets_fields:
  assumes "addTargets ss ops = Inr ss'" "ss_inv ss"
  shows "ss_inv ss'
    \<and> ss_neighbor_lists ss' = ss_neighbor_lists ss
    \<and> ss_max_evaluation_sites_per_target ss' = ss_max_evaluation_sites_per_target ss
    \<and> ss_data_sampling_functional ss' = ss_data_sampling_functional ss
    \<and> ss_dimensions ss' = ss_dimensions ss \<and> ss_local_dimensions ss' = ss_local_dimensions ss
    \<and> ss_problem_type ss' = ss_problem_type ss \<and> ss_alphas ss' = ss_alphas ss"
  using addTargets_eq [OF assms(2), of ops] addTargets_inv [OF assms(2,1)] assms(1) by auto

lemma clearTargets_fields:
  assumes "clearTargets ss = Inr ss'" "ss_inv ss"
  shows "ss_inv ss'
    \<and> ss_neighbor_lists ss' = ss_neighbor_lists ss
    \<and> ss_max_evaluation_sites_per_target ss' = ss_max_evaluation_sites_per_target ss
    \<and> ss_data_sampling_functional ss' = ss_data_sampling_functional ss
    \<and> ss_dimensions ss' = ss_dimensions ss \<and> ss_local_dimensions ss' = ss_local_dimensions ss
    \<and> ss_problem_type ss' = ss_problem_type ss \<and> ss_alphas ss' = ss_alphas ss"
  using clearTargets_inv [OF assms(2,1)] assms by (auto simp: clearTargets_eq split: if_splits)

lemma modifier_inv:
  assumes "modifier dbg g g'" "gmls_inv g"
  shows "gmls_inv g'"
  using assms
proof (induction rule: modifier.induct)
  case (set_neighbors counts aliased g cr g')
  then show ?case
    by (auto simp: setNeighborLists_def rbind_eq_Inr_iff
        intro: install_neighbor_lists_inv nl_exact_built)
next
  case (set_neighbors_2d rows order device_accessible aliased g g')
  then show ?case
    by (auto simp: setNeighborLists_2d_def rbind_eq_Inr_iff
        intro: install_neighbor_lists_inv nl_exact_converted)
next
  case (set_additional counts aliased g cr coords g')
  then show ?case
    by (auto simp: setAdditionalEvaluationSitesData_def setAuxiliaryEvaluationIndicesLists_def
        rbind_eq_Inr_iff intro!: additional_inv intro: nl_exact_built)
next
  case (set_additional_2d rows order device_accessible aliased g coords g')
  then show ?case
    by (auto simp: setAdditionalEvaluationSitesData_2d_def setAuxiliaryEvaluationIndicesLists_2d_def
        rbind_eq_Inr_iff intro!: additional_inv intro: nl_exact_converted)
next
  case (set_targets aliased g coords g')
  then show ?case using setTargetSites_inv by blast
next
  case (set_sources g coords)
  then show ?case by (rule setSourceSites_inv)
next
  case (add_target g lro g')
  then show ?case
    by (auto simp: gmls_addTarget_def addTarget_def rbind_eq_Inr_iff gmls_inv_def gmls_core_def
        connected_def dest!: addTargets_fields)
next
  case (add_targets g lros g')
  then show ?case
    by (auto simp: gmls_addTargets_def rbind_eq_Inr_iff gmls_inv_def gmls_core_def
        connected_def dest!: addTargets_fields)
next
  case (clear_targets g g')
  then show ?case
    by (auto simp: gmls_clearTargets_def rbind_eq_Inr_iff gmls_inv_def gmls_core_def
        connected_def dest: clearTargets_inv dest!: clearTargets_fields)
next
  case (ask_solution g)
  then show ?case
    by (auto simp: getSolutionSetHost_def Let_def copyAlphas_def gmls_inv_def gmls_core_def
        connected_def split: option.splits)
qed (auto simp: gmls_inv_def gmls_core_def connected_def setWindowSizes_def setWindowSizes_device_def
    setTangentBundle_def setReferenceOutwardNormalDirection_def setSourceExtraData_def
    setTargetExtraData_def setWeightingType_def setWeightingType_name_def
    setCurvatureWeightingType_def setCurvatureWeightingType_name_def setPolynomialOrder_def
    setCurvaturePolynomialOrder_def setWeightingParameter_def setCurvatureWeightingParameter_def
    setOrderOfQuadraturePoints_def setDimensionOfQuadraturePoints_def setQuadratureType_def
    rbind_eq_Inr_iff Let_def)

text \<open>
  What a modifier leaves of the coefficients that a solve has kept: the matrices of the solve
  and the flags, but not the right-hand sides.
\<close>

definition kept_part ::
  "gmls \<Rightarrow> real list \<times> bool \<times> bool \<times> ConstraintType \<times> DenseSolverType" where
  "kept_part g = (g_P g, g_entire_batch_computed_at_once g, g_store_PTWP_inv_PTW g,
     g_constraint_type g, g_dense_solver_type g)"

lemma kept_part_updates [simp]:
  "kept_part (resetCoefficientData g) = kept_part g" "kept_part (connect g) = kept_part g"
  "kept_part (additional_connections g) = kept_part g"
  "kept_part (setAuxiliaryEvaluationCoordinates g coords) = kept_part g"
  "g_RHS (connect g) = g_RHS g" "g_RHS (additional_connections g) = g_RHS g"
  "g_RHS (setAuxiliaryEvaluationCoordinates g coords) = []"
  by (simp_all add: kept_part_def resetCoefficientData_def connect_def additional_connections_def
      setAuxiliaryEvaluationCoordinates_def)

lemma kept_part_set [simp]:
  "kept_part (g\<lparr>g_target_coordinates := x1\<rparr>) = kept_part g"
  "kept_part (g\<lparr>g_source_coordinates := x1\<rparr>) = kept_part g"
  "kept_part (g\<lparr>g_host_number_of_additional_evaluation_indices := x2\<rparr>) = kept_part g"
  "kept_part (g\<lparr>g_neighbor_lists := x3\<rparr>) = kept_part g"
  "kept_part (g\<lparr>g_max_num_neighbors := x4\<rparr>) = kept_part g"
  "kept_part (g\<lparr>g_host_number_of_neighbors_list := x5\<rparr>) = kept_part g"
  "kept_part (g\<lparr>g_additional_evaluation_indices := x3\<rparr>) = kept_part g"
  "kept_part (g\<lparr>g_h_ss := x6\<rparr>) = kept_part g"
  "kept_part (g\<lparr>g_epsilons := y0\<rparr>) = kept_part g"
  "kept_part (g\<lparr>g_host_epsilons := y1\<rparr>) = kept_part g"
  "kept_part (g\<lparr>g_T := y2\<rparr>) = kept_part g"
  "kept_part (g\<lparr>g_host_T := y3\<rparr>) = kept_part g"
  "kept_part (g\<lparr>g_orthonormal_tangent_space_provided := y4\<rparr>) = kept_part g"
  "kept_part (g\<lparr>g_ref_N := y5\<rparr>) = kept_part g"
  "kept_part (g\<lparr>g_host_ref_N := y6\<rparr>) = kept_part g"
  "kept_part (g\<lparr>g_reference_outward_normal_direction_provided := y7\<rparr>) = kept_part g"
  "kept_part (g\<lparr>g_use_reference_outward_normal_direction_provided_to_orient_surface := y8\<rparr>) = kept_part g"
  "kept_part (g\<lparr>g_source_extra_data := y9\<rparr>) = kept_part g"
  "kept_part (g\<lparr>g_target_extra_data := y10\<rparr>) = kept_part g"
  "kept_part (g\<lparr>g_weighting_type := y11\<rparr>) = kept_part g"
  "kept_part (g\<lparr>g_curvature_weighting_type := y12\<rparr>) = kept_part g"
  "kept_part (g\<lparr>g_poly_order := y13\<rparr>) = kept_part g"
  "kept_part (g\<lparr>g_NP := y14\<rparr>) = kept_part g"
  "kept_part (g\<lparr>g_curvature_poly_order := y15\<rparr>) = kept_part g"
  "kept_part (g\<lparr>g_weighting_n := y16\<rparr>) = kept_part g"
  "kept_part (g\<lparr>g_weighting_p := y17\<rparr>) = kept_part g"
  "kept_part (g\<lparr>g_curvature_weighting_n := y18\<rparr>) = kept_part g"
  "kept_part (g\<lparr>g_curvature_weighting_p := y19\<rparr>) = kept_part g"
  "kept_part (g\<lparr>g_order_of_quadrature_points := y20\<rparr>) = kept_part g"
  "kept_part (g\<lparr>g_dimension_of_quadrature_points := y21\<rparr>) = kept_part g"
  "kept_part (g\<lparr>g_quadrature_type := y22\<rparr>) = kept_part g"
  "kept_part (g\<lparr>g_additional_evaluation_coordinates := y23\<rparr>) = kept_part g"
  by (simp_all add: kept_part_def)

lemma install_keeps:
  "install_neighbor_lists dbg g nl = Inr g' \<Longrightarrow> kept_part g' = kept_part g \<and> g_RHS g' = []"
  "install_additional_indices dbg g nl = Inr g' \<Longrightarrow> kept_part g' = kept_part g \<and> g_RHS g' = []"
  by (auto simp: install_neighbor_lists_def install_additional_indices_def rbind_eq_Inr_iff Let_def)

lemma modifier_keeps_coefficients:
  assumes "modifier dbg g g'"
  shows "kept_part g' = kept_part g \<and> (g_RHS g' = g_RHS g \<or> g_RHS g' = [])"
  using assms
proof (induction rule: modifier.induct)
  case (set_targets aliased g coords g')
  then show ?case
    by (auto simp: setTargetSites_def setAuxiliaryEvaluationIndicesLists_def rbind_eq_Inr_iff Let_def
        split: if_splits dest!: install_keeps)
next
  case (set_neighbors counts aliased g cr g')
  then show ?case by (auto simp: setNeighborLists_def rbind_eq_Inr_iff dest!: install_keeps)
next
  case (set_neighbors_2d rows order device_accessible aliased g g')
  from set_neighbors_2d(4) show ?case
    by (auto simp: setNeighborLists_2d_def rbind_eq_Inr_iff dest!: install_keeps)
next
  case (set_additional counts aliased g cr coords g')
  then show ?case
    by (auto simp: setAdditionalEvaluationSitesData_def setAuxiliaryEvaluationIndicesLists_def
        rbind_eq_Inr_iff dest!: install_keeps)
next
  case (set_additional_2d rows order device_accessible aliased g coords g')
  from set_additional_2d(4) show ?case
    by (auto simp: setAdditionalEvaluationSitesData_2d_def setAuxiliaryEvaluationIndicesLists_2d_def
        rbind_eq_Inr_iff dest!: install_keeps)
next
  case (set_tangents same g ts g')
  then obtain t where "g' = resetCoefficientData (g\<lparr>g_T := t, g_host_T := t,
      g_orthonormal_tangent_space_provided := True\<rparr>)"
    unfolding setTangentBundle_def rbind_eq_Inr_iff [where b = g'] Let_def sum.inject by blast
  then show ?case by simp
next
  case (set_normals g ns use g')
  then obtain r where "g' = resetCoefficientData (g\<lparr>g_ref_N := r, g_host_ref_N := r,
      g_reference_outward_normal_direction_provided := True,
      g_use_reference_outward_normal_direction_provided_to_orient_surface := use\<rparr>)"
    unfolding setReferenceOutwardNormalDirection_def rbind_eq_Inr_iff [where b = g'] sum.inject by blast
  then show ?case by simp
next
  case (ask_solution g)
  then show ?case by (simp add: getSolutionSetHost_def Let_def split: option.split)
qed (auto simp: setSourceSites_def setWindowSizes_def setWindowSizes_device_def setSourceExtraData_def
    setTargetExtraData_def setWeightingType_def setWeightingType_name_def
    setCurvatureWeightingType_def setCurvatureWeightingType_name_def setPolynomialOrder_def
    setCurvaturePolynomialOrder_def setWeightingParameter_def setCurvatureWeightingParameter_def
    setOrderOfQuadraturePoints_def setDimensionOfQuadraturePoints_def setQuadratureType_def
    gmls_addTarget_def gmls_addTargets_def gmls_clearTargets_def rbind_eq_Inr_iff Let_def)

lemma modifiers_keep_coefficients:
  assumes "(modifier dbg)\<^sup>*\<^sup>* g g'"
  shows "kept_part g' = kept_part g \<and> (g_RHS g' = g_RHS g \<or> g_RHS g' = [])"
  using assms by induction (auto dest!: modifier_keeps_coefficients)

section \<open>Flat tiles\<close>

text \<open>Reading a concatenation of rows of one length.\<close>

lemma concat_nth:
  assumes "\<forall>r \<in> set rows. length r = d" "i < length rows" "j < d"
  shows "i * d + j < length (concat rows)" and "concat rows ! (i * d + j) = rows ! i ! j"
proof -
  have "i * d + j < length (concat rows) \<and> concat rows ! (i * d + j) = rows ! i ! j"
    using assms
  proof (induction rows arbitrary: i)
    case Nil
    then show ?case by simp
  next
    case (Cons r rows)
    show ?case
    proof (cases i)
      case 0
      then show ?thesis using Cons.prems by (simp add: nth_append)
    next
      case (Suc k)
      then have "k * d + j < length (concat rows) \<and> concat rows ! (k * d + j) = rows ! k ! j"
        using Cons by simp
      then show ?thesis using Suc Cons.prems by (simp add: nth_append)
    qed
  qed
  then show "i * d + j < length (concat rows)" "concat rows ! (i * d + j) = rows ! i ! j"
    by simp_all
qed

lemma rmap_table:
  assumes "\<And>i. i < n \<Longrightarrow> f i = Inr (g i)"
  shows "rmap f [0..<n] = Inr (map g [0..<n])"
  using assms by (intro rmap_Inr) simp

lemma view_read_flat:
  assumes "i * d + j < length v"
  shows "view_read v (int i * int d + int j) = Inr (v ! (i * d + j))"
  using view_read_nat [OF assms] by simp

section \<open>Weights\<close>

lemma powi_nonneg_nat: "0 \<le> e \<Longrightarrow> b powi e = (b :: real) ^ nat e"
  by (simp add: power_int_def)

lemma Wab_support:
  assumes "0 < h" "h \<le> \<bar>r\<bar>" "0 \<le> p" "weighting_type = Gaussian \<longrightarrow> p \<noteq> 0"
  shows "Wab r h weighting_type p n = Inr 0"
proof -
  define x where "x = \<bar>r / h\<bar>"
  have x: "1 \<le> x" using assms(1,2) by (simp add: x_def abs_divide)
  then have x1: "x \<noteq> 0" "x \<le> 1 \<longrightarrow> x = 1" by linarith+
  have xn: "(x powi n < 1) = False" if "n > 1"
    using x that by (simp add: powi_nonneg_nat not_less one_le_power)
  show ?thesis
  proof (cases "weighting_type = Power \<and> n > 1")
    case True
    then show ?thesis
      using xn x1 assms(3) by (simp add: Wab_def Let_def x_def [symmetric] pow_int_def
          double_of_bool_def del: abs_divide)
  next
    case False
    then show ?thesis
      using x x1 assms(3,4) by (cases weighting_type)
        (auto simp: Wab_def Let_def x_def [symmetric] pow_int_def double_of_bool_def
          simp del: abs_divide)
  qed
qed

lemma Wab_symmetric: "Wab (- r) h weighting_type p n = Wab r h weighting_type p n"
  by (cases weighting_type) (simp_all add: Wab_def Let_def add.commute)

lemma Wab_positive:
  assumes "0 < h" "\<bar>r\<bar> < h" "0 \<le> p" "weighting_type \<noteq> Cosine"
    and "weighting_type = Gaussian \<longrightarrow> p \<noteq> 0" "weighting_type = Sigmoid \<longrightarrow> 0 \<le> n"
  shows "\<exists>v > 0. Wab r h weighting_type p n = Inr v"
proof -
  define x where "x = \<bar>r / h\<bar>"
  have x: "0 \<le> x" "x < 1" using assms(1,2) by (simp_all add: x_def abs_divide)
  then have xn: "0 < 1 - x powi n" if "n > 1"
    using that by (simp add: powi_nonneg_nat power_less_one_iff)
  show ?thesis
  proof (cases weighting_type)
    case Power
    then show ?thesis
      using x xn assms(3)
      by (auto simp: Wab_def Let_def x_def [symmetric] pow_int_def double_of_bool_def
          zero_less_power_int split: if_splits simp del: abs_divide)
  next
    case CubicSpline
    have "(1 - x) + x * (1 - x) * (1 - 2 * x) = (1 - x) * (1 - x) * (1 + 2 * x)"
      by (simp add: algebra_simps)
    moreover have "0 < (1 - x) * (1 - x) * (1 + 2 * x)" using x by simp
    ultimately show ?thesis
      using CubicSpline x by (simp add: Wab_def Let_def x_def [symmetric] double_of_bool_def
          del: abs_divide)
  next
    case Gaussian
    then show ?thesis
      using x assms(1,3,5) by (simp add: Wab_def Let_def x_def [symmetric] double_of_bool_def
          del: abs_divide)
  next
    case Sigmoid
    have "0 < exp (of_int p * r) + exp (- of_int p * r) + of_int n"
      using assms(6) Sigmoid by (intro add_pos_nonneg add_pos_pos) simp_all
    then show ?thesis
      using Sigmoid x by (simp add: Wab_def Let_def x_def [symmetric] double_of_bool_def
          del: abs_divide)
  qed (use assms(4) in simp)
qed

section \<open>Properties\<close>

lemma GMLS_make_inv:
  assumes "GMLS_make use_cuda env rs psf dsf m d solver problem constraint mc = Inr g"
    and "(if parseProblemType problem = MANIFOLD then 2 else 1) \<le> d" "0 \<le> output_rank dsf"
  shows "gmls_inv g"
proof -
  have rank: "0 \<le> output_rank (manifold_sample pt dsf)" for pt
    using assms(3) by (auto simp: manifold_sample_def sampling_functional_defs)
  show ?thesis
    using assms rank by (auto simp: GMLS_make_def Let_def rbind_eq_Inr_iff gmls_inv_def gmls_core_def
        nl_ready_def connected_def max_count_def NeighborLists_default_def ss_inv_make
        SolutionSet_make_def [of _ _ _ "parseProblemType problem"] split: if_splits)
      (auto simp: ss_inv_def split: if_splits)
qed

text \<open>
  C4: however the public modifiers are called after construction, in whatever order and
  number, the state stays consistent: the neighbor lists and the lists of additional
  evaluation sites are well formed, the maxima of both and the host copy of the numbers of
  neighbors are what the lists say, the host copy of the numbers of additional indices is
  what its list says or all zero (\<open>setTargetSites\<close> zeroes it even where it keeps the list),
  the solution set keeps its invariant and the dimensions of the problem, and as soon as
  there are sources, targets and neighbors, the point connections and the solution set
  refer to the current ones.
\<close>

theorem modifiers_keep_state:
  assumes "GMLS_make use_cuda env rs psf dsf m d solver problem constraint mc = Inr g0"
    and "(if parseProblemType problem = MANIFOLD then 2 else 1) \<le> d" "0 \<le> output_rank dsf"
    and "(modifier dbg)\<^sup>*\<^sup>* g0 g"
  shows "gmls_inv g
    \<and> (g_source_coordinates g \<noteq> [] \<and> g_target_coordinates g \<noteq> []
         \<and> getNumberOfTargets (g_neighbor_lists g) \<noteq> 0 \<longrightarrow>
       g_pc g = PointConnections_make (g_target_coordinates g) (g_source_coordinates g)
                  (g_neighbor_lists g)
       \<and> g_additional_pc g = PointConnections_make (g_target_coordinates g)
                  (g_additional_evaluation_coordinates g) (g_additional_evaluation_indices g)
       \<and> ss_neighbor_lists (g_h_ss g) = g_neighbor_lists g)"
proof -
  from assms(4) have "gmls_inv g"
    by (induction rule: rtranclp_induct) (simp_all add: GMLS_make_inv [OF assms(1-3)] modifier_inv)
  then show ?thesis by (simp add: gmls_inv_def connected_def)
qed

text \<open>A problem in the plane with two targets and two registered operations.\<close>

definition gmls_example :: "gmls result" where
  "gmls_example =
     GMLS_make False (\<lambda>_. None) ScalarTaylorPolynomial PointSample PointSample 2 2 ''QR''
       ''STANDARD'' ''NO_CONSTRAINT'' 2"

lemma gmls_example_built: "\<exists>g. gmls_example = Inr g \<and> g_source_coordinates g = []
    \<and> g_target_coordinates g = [] \<and> g_neighbor_lists g = NeighborLists_default"
  by (simp add: gmls_example_def GMLS_make_def ParallelManager_make_def Let_def
      getActualReconstructionSpaceRank_def ActualReconstructionSpaceRank_def view_read_def)

theorem modifiers_keep_state_witness:
  "\<exists>g0 g1 g2. gmls_example = Inr g0 \<and> setNeighborLists True False g0 [5, 6, 7] [2, 1] = Inr g1
    \<and> setTargetSites True False (setSourceSites g1 (replicate 8 [0, 0])) [[0, 0], [1, 0]] = Inr g2
    \<and> ss_neighbor_lists (g_h_ss g2) = nl_example"
proof -
  obtain g0 where g0: "gmls_example = Inr g0" "g_target_coordinates g0 = []"
    using gmls_example_built by auto
  have c: "counts_ok [2, 1]" by (simp add: counts_ok_def)
  have ex: "nl_exact nl_example"
    using nl_exact_built [OF c nl_example_build] .
  have inst: "\<exists>g'. install_neighbor_lists True g nl_example = Inr g'
      \<and> g_neighbor_lists g' = nl_example \<and> g_target_coordinates g' = g_target_coordinates g" for g
    using ex nl_example_views by (auto simp: install_neighbor_lists_def host_counts_eq nl_exact_def
        getMaxNumNeighbors_def nl_example_def nl_built_def Let_def connect_def)
  obtain g1 where g1: "setNeighborLists True False g0 [5, 6, 7] [2, 1] = Inr g1"
    and n1: "g_neighbor_lists g1 = nl_example"
    using inst [of g0] by (auto simp: setNeighborLists_def nl_example_build)
  let ?g = "setSourceSites g1 (replicate 8 [0, 0])"
  have s: "g_source_coordinates ?g = replicate 8 [0, 0]" "g_neighbor_lists ?g = nl_example"
    using n1 by (simp_all add: setSourceSites_def Let_def connect_def)
  have "\<exists>g2. setTargetSites True False ?g [[0, 0], [1, 0]] = Inr g2
      \<and> g_source_coordinates g2 = replicate 8 [0, 0] \<and> g_neighbor_lists g2 = nl_example
      \<and> g_target_coordinates g2 = [[0, 0], [1, 0]]"
  proof -
    have z: "NeighborLists_compressed False [] [0, 0] = Inr (nl_built False [] [0, 0])"
      by (simp add: NeighborLists_compressed_eq counts_ok_def)
    have zx: "nl_exact (nl_built False [] [0, 0])"
      by (rule nl_exact_built [OF _ z]) (simp add: counts_ok_def)
    show ?thesis
      using s zx by (simp add: setTargetSites_def Let_def setAuxiliaryEvaluationIndicesLists_def z
          install_additional_indices_def host_counts_eq nl_exact_def getMaxNumNeighbors_def
          nl_built_def connect_def numeral_2_eq_2)
  qed
  then obtain g2 where g2: "setTargetSites True False ?g [[0, 0], [1, 0]] = Inr g2"
    and f2: "g_source_coordinates g2 \<noteq> []" "g_neighbor_lists g2 = nl_example"
      "g_target_coordinates g2 \<noteq> []"
    by auto
  have "modifier True g0 g1" using c g1 by (rule set_neighbors)
  moreover have "modifier True g1 ?g" by (rule set_sources)
  moreover have "modifier True ?g g2" using g2 by (rule set_targets)
  ultimately have "(modifier True)\<^sup>*\<^sup>* g0 g2" by (simp add: rtranclp.rtrancl_into_rtrancl)
  then have "ss_neighbor_lists (g_h_ss g2) = nl_example"
    using modifiers_keep_state [OF g0(1) [unfolded gmls_example_def], of True g2] f2
    by (simp add: parseProblemType_def to_lower_def tolower_def Let_def sampling_functional_defs
        getNumberOfTargets_def nl_example_def nl_built_def)
  then show ?thesis using g0(1) g1 g2 by auto
qed

text \<open>
  C17: for a positive window size, a parameter \<open>p\<close> that is not negative and, for the
  Gaussian, not zero, every kernel is symmetric and vanishes from the window size on, the
  Gaussian and the sigmoid too, although comments in the code call these two not compactly
  supported; and all kernels but the cosine are positive inside the window (the sigmoid when
  its summand \<open>n\<close> is not negative), so that the square roots of the weights exist.
\<close>

theorem weighting_kernel:
  assumes "0 < h" "0 \<le> p" "weighting_type = Gaussian \<longrightarrow> p \<noteq> 0"
  shows "Wab (- r) h weighting_type p n = Wab r h weighting_type p n
    \<and> (h \<le> \<bar>r\<bar> \<longrightarrow> Wab r h weighting_type p n = Inr 0)
    \<and> (\<bar>r\<bar> < h \<and> weighting_type \<noteq> Cosine \<and> (weighting_type = Sigmoid \<longrightarrow> 0 \<le> n) \<longrightarrow>
         (\<exists>v > 0. Wab r h weighting_type p n = Inr v))"
  using assms Wab_symmetric Wab_support Wab_positive by blast

theorem weighting_kernel_witness:
  "Wab 3 2 CubicSpline 0 0 = Inr 0 \<and> (\<exists>v > 0. Wab 1 2 Power 2 1 = Inr v)"
  using weighting_kernel [of 2 0 CubicSpline 3 0] weighting_kernel [of 2 2 Power 1 1] by simp

text \<open>
  In one to three dimensions the number of neighbors that is recommended is never
  below the size of the scalar basis, which a unisolvent neighborhood needs.
\<close>

theorem enough_neighbors:
  assumes "0 \<le> m" "1 \<le> d" "d \<le> 3"
  shows "getNP m d ScalarTaylorPolynomial \<le> getNN m d ScalarTaylorPolynomial"
proof -
  have np: "0 \<le> getNP m d ScalarTaylorPolynomial"
    using assms(1) by (auto simp: getNP_def ScalarTaylor_getSize_def signed_divide_int_def sgn_if
        zero_le_mult_iff zero_le_divide_iff pos_imp_zdiv_nonneg_iff)
  have *: "getNP m d ScalarTaylorPolynomial \<le> \<lfloor>of_int (getNP m d ScalarTaylorPolynomial) * c :: real\<rfloor>"
    if "1 \<le> c" for c
    using np that mult_left_mono [of 1 c "of_int (getNP m d ScalarTaylorPolynomial)"]
    by (simp add: le_floor_iff)
  have "d = 1 \<or> d = 2 \<or> d = 3" using assms(2,3) by linarith
  then show ?thesis
    using assms(1) * [of "11 / 10"] * [of "14 / 10 + of_int m * (3 / 100)"]
      * [of "17 / 10 + of_int m * (1 / 10)"]
    by (auto simp: getNN_def Let_def)
qed

theorem enough_neighbors_witness:
  "getNP 2 3 ScalarTaylorPolynomial \<le> getNN 2 3 ScalarTaylorPolynomial"
  using enough_neighbors [of 2 3] by simp

text \<open>
  The tangent bundle and the reference normals that a user provides are read back
  component by component, for every target.
\<close>

theorem bundle_roundtrip:
  assumes "g_dimensions g = int d" "length ts = length (g_target_coordinates g)"
    and "\<forall>t \<in> set ts. length t = d \<and> (\<forall>r \<in> set t. length r = d)"
    and "length ns = length (g_target_coordinates g)" "\<forall>r \<in> set ns. length r = d"
  shows "\<exists>g1 g2. setTangentBundle True g ts = Inr g1
    \<and> setReferenceOutwardNormalDirection g1 ns orient = Inr g2
    \<and> (\<forall>i < length ts. \<forall>j < d. \<forall>k < d. getTangentBundle g2 (int i) (int j) (int k) = Inr (ts ! i ! j ! k))
    \<and> (\<forall>i < length ts. \<forall>k < d. getReferenceNormalDirection dbg g2 (int i) (int k) = Inr (ns ! i ! k))"
proof -
  let ?n = "length (g_target_coordinates g)"
  have L: "length (ts ! i) = d" "j < d \<Longrightarrow> length (ts ! i ! j) = d" if "i < ?n" for i j
  proof -
    have 1: "length (ts ! i) = d" "\<forall>r \<in> set (ts ! i). length r = d"
      using assms(2,3) that by auto
    then show "length (ts ! i) = d" by simp
    show "length (ts ! i ! j) = d" if "j < d" using 1 that by (metis nth_mem)
  qed
  have t: "rmap (\<lambda>i. rmap (\<lambda>j. rmap (\<lambda>k.
         rbind (view_read ts (int i)) (\<lambda>m. view_read2 m (int j) (int k)))
       [0..<d]) [0..<d]) [0..<?n]
     = Inr (map (\<lambda>i. map (\<lambda>j. map (\<lambda>k. ts ! i ! j ! k) [0..<d]) [0..<d]) [0..<?n])"
    using assms(2) L by (intro rmap_table) (simp add: view_read2_def)
  moreover have "map (\<lambda>i. map (\<lambda>j. map (\<lambda>k. ts ! i ! j ! k) [0..<d]) [0..<d]) [0..<?n] = ts"
    using assms(2) L by (auto intro!: nth_equalityI)
  ultimately have t': "rmap (\<lambda>i. rmap (\<lambda>j. rmap (\<lambda>k.
         rbind (view_read ts (int i)) (\<lambda>m. view_read2 m (int j) (int k)))
       [0..<d]) [0..<d]) [0..<?n] = Inr ts"
    by simp
  have "rmap (\<lambda>i. rmap (\<lambda>j. view_read2 ns (int i) (int j)) [0..<d]) [0..<?n]
     = Inr (map (\<lambda>i. map (\<lambda>j. ns ! i ! j) [0..<d]) [0..<?n])"
    using assms(4,5) by (intro rmap_table) (simp add: view_read2_def)
  moreover have "map (\<lambda>i. map (\<lambda>j. ns ! i ! j) [0..<d]) [0..<?n] = ns"
    using assms(4,5) by (auto intro!: nth_equalityI)
  ultimately have n': "rmap (\<lambda>i. rmap (\<lambda>j. view_read2 ns (int i) (int j)) [0..<d]) [0..<?n] = Inr ns"
    by simp
  define g1 where "g1 = resetCoefficientData (g\<lparr>g_T := concat (concat ts), g_host_T := concat (concat ts),
    g_orthonormal_tangent_space_provided := True\<rparr>)"
  define g2 where "g2 = resetCoefficientData (g1\<lparr>g_ref_N := concat ns, g_host_ref_N := concat ns,
    g_reference_outward_normal_direction_provided := True,
    g_use_reference_outward_normal_direction_provided_to_orient_surface := orient\<rparr>)"
  have f: "g_host_T g2 = concat (concat ts)" "g_host_ref_N g2 = concat ns"
      "g_reference_outward_normal_direction_provided g2" "g_dimensions g2 = int d"
    using assms(1) by (simp_all add: g1_def g2_def resetCoefficientData_def)
  have rows: "\<forall>r \<in> set (concat ts). length r = d" using assms(3) by auto
  have "getTangentBundle g2 (int i) (int j) (int k) = Inr (ts ! i ! j ! k)"
    if "i < length ts" "j < d" "k < d" for i j k
  proof -
    have "\<forall>r \<in> set ts. length r = d" using assms(3) by auto
    from concat_nth [OF this that(1,2)]
    have 1: "i * d + j < length (concat ts)" "concat ts ! (i * d + j) = ts ! i ! j" by auto
    show ?thesis
      using concat_nth [OF rows 1(1) that(3)] 1(2)
        view_read_flat [of "i * d + j" d k "concat (concat ts)"]
      by (simp add: getTangentBundle_def f algebra_simps)
  qed
  moreover have "getReferenceNormalDirection dbg g2 (int i) (int k) = Inr (ns ! i ! k)"
    if "i < length ts" "k < d" for i k
    using concat_nth [OF assms(5), of i k] that assms(2,4) view_read_flat [of i d k "concat ns"]
    by (simp add: getReferenceNormalDirection_def f)
  moreover have "setTangentBundle True g ts = Inr g1"
    using t' assms(1) by (simp add: setTangentBundle_def g1_def Let_def)
  moreover have "setReferenceOutwardNormalDirection g1 ns orient = Inr g2"
    using n' assms(1) by (simp add: setReferenceOutwardNormalDirection_def g2_def g1_def)
  ultimately show ?thesis by blast
qed

theorem bundle_roundtrip_witness:
  "\<exists>g g1 g2. setTangentBundle True g [[[0, 1], [-1, 0]]] = Inr g1
    \<and> setReferenceOutwardNormalDirection g1 [[-1, 0]] True = Inr g2
    \<and> getTangentBundle g2 0 0 1 = Inr 1 \<and> getReferenceNormalDirection True g2 0 0 = Inr (-1)"
proof -
  obtain g0 where g0: "gmls_example = Inr g0" using gmls_example_built by auto
  define g where "g = g0\<lparr>g_target_coordinates := [[0, 0]]\<rparr>"
  have "g_dimensions g = int 2"
    using g0 by (auto simp: g_def gmls_example_def GMLS_make_def Let_def rbind_eq_Inr_iff)
  then obtain g1 g2 where "setTangentBundle True g [[[0, 1], [-1, 0]]] = Inr g1"
      "setReferenceOutwardNormalDirection g1 [[-1, 0]] True = Inr g2"
      "\<forall>i<1. \<forall>j<2. \<forall>k<2. getTangentBundle g2 (int i) (int j) (int k) = Inr ([[[0, 1], [-1, 0]]] ! i ! j ! k)"
      "\<forall>i<1. \<forall>k<2. getReferenceNormalDirection True g2 (int i) (int k) = Inr ([[-1, 0]] ! i ! k)"
    using bundle_roundtrip [of g 2 "[[[0, 1], [-1, 0]]]" "[[-1, 0]]" True True]
    by (auto simp: g_def)
  moreover from this(3) [rule_format, of 0 0 1] have "getTangentBundle g2 0 0 1 = Inr 1" by simp
  moreover from calculation(4) [rule_format, of 0 0]
  have "getReferenceNormalDirection True g2 0 0 = Inr (-1)" by simp
  ultimately show ?thesis by blast
qed

end
