(* ===== verification/Compadre_GMLS_Driver.thy ===== *)
theory Compadre_GMLS_Driver
  imports Compadre_GMLS
begin

text \<open>
  Compadre_GMLS.cpp: \<open>generatePolynomialCoefficients\<close> and \<open>generateAlphas\<close>.  The solve
  checks its input, derives the sizes of the problem, allocates the device storage and
  runs over batches of targets.  In each batch it starts device functors
  (Compadre_Functors.hpp) and batched factorizations (Compadre_LinearAlgebra.cpp, on top
  of kokkos-kernels).  What these compute is the parameter \<open>dev\<close>; which of them are
  started, in which order, with which sizes and on which state is modelled here.
\<close>

section \<open>Calls to the device\<close>

datatype kernel =
    ComputeCoarseTangentPlane
  | FixTangentDirectionOrdering
  | AssembleCurvaturePsqrtW
  | GetAccurateTangentDirections
  | ApplyCurvatureTargets
  | ComputePrestencilWeights
  | AssembleManifoldPsqrtW
  | AssembleStandardPsqrtW
  | EvaluateManifoldTargets
  | EvaluateStandardTargets
  | ApplyTargets

datatype matrix_layout = Layout_right | Layout_left

datatype buffer = Buffer_P | Buffer_RHS

text \<open>
  A batched solve: the layouts of A, B and X, the matrices A and B with their two
  extents, the sizes M, N and NRHS of each system, and the number of systems.  The last
  two calls are plain copies: zeros into \<open>_P\<close>, and \<open>_T\<close> to its host mirror.
\<close>

datatype device_call =
    Launch kernel policy
  | Batch_solve matrix_layout matrix_layout matrix_layout "buffer \<times> int \<times> int"
      "buffer \<times> int \<times> int" int int int u64
  | Zero_P
  | Copy_T_to_host

text \<open>
  The parts of the platform that the solve uses: the build options (with Cuda, and whether
  host and device memory are the same space), the environment, the sizes of Kokkos scratch
  views, which allocations of device storage succeed, and the device.
\<close>

record platform =
  pl_use_cuda :: bool
  pl_same_space :: bool
  pl_env :: "string \<Rightarrow> string option"
  pl_shmem_vector :: "int \<Rightarrow> int"
  pl_shmem_matrix :: "int \<Rightarrow> int \<Rightarrow> int"
  pl_allocates :: "string \<Rightarrow> nat \<Rightarrow> bool"
  pl_dev :: "device_call \<Rightarrow> gmls \<Rightarrow> gmls result"

definition zeros :: "real list \<Rightarrow> real list" where
  "zeros v = replicate (length v) 0"

text \<open>
  A new view, filled with zeros.  An allocation that fails throws; the handlers of the
  solve print a message and throw again.
\<close>

definition allocate :: "platform \<Rightarrow> string \<Rightarrow> nat \<Rightarrow> real list result" where
  "allocate pl label n =
     (if pl_allocates pl label n then Inr (replicate n 0) else Inl (Allocation_failure label))"

definition perform :: "platform \<Rightarrow> device_call \<Rightarrow> gmls \<Rightarrow> gmls result" where
  "perform pl call g =
     (case call of
        Zero_P \<Rightarrow> Inr (g\<lparr>g_P := zeros (g_P g)\<rparr>)
      | Copy_T_to_host \<Rightarrow> Inr (g\<lparr>g_host_T := g_T g\<rparr>)
      | _ \<Rightarrow> pl_dev pl call g)"

section \<open>Sizes\<close>

text \<open>The conversion of a \<open>size_t\<close> to \<open>int\<close> keeps the low 32 bits.\<close>

definition TO_INT :: "u64 \<Rightarrow> int" where
  "TO_INT w = sint (ucast w :: 32 word)"

text \<open>The local variables that the batches use.\<close>

record sizes =
  sz_max_num_rows :: int
  sz_this_num_cols :: int
  sz_manifold_NP :: int
  sz_added_coeff_size :: int
  sz_RHS_dims :: "int \<times> int"
  sz_P_dims :: "int \<times> int"
  sz_max_batch_size :: u64

definition device_ss :: "gmls \<Rightarrow> solution_set result" where
  "device_ss g = (case g_d_ss g of None \<Rightarrow> Inl Indeterminate_value | Some ss \<Rightarrow> Inr ss)"

section \<open>One batch\<close>

text \<open>The solve of the curvature problem: LU on the normal equations, or QR.\<close>

definition curvature_solve :: "gmls \<Rightarrow> sizes \<Rightarrow> u64 \<Rightarrow> device_call" where
  "curvature_solve g sz n =
     (case (sz_RHS_dims sz, sz_P_dims sz) of ((R0, R1), (P0, P1)) \<Rightarrow>
        if g_dense_solver_type g = LU
        then Batch_solve Layout_right Layout_left Layout_right (Buffer_RHS, R0, R1) (Buffer_P, P1, P0)
               (sz_manifold_NP sz) (sz_manifold_NP sz) (g_max_num_neighbors g) n
        else Batch_solve Layout_right Layout_right Layout_right (Buffer_P, P0, P1) (Buffer_RHS, R0, R1)
               (g_max_num_neighbors g) (sz_manifold_NP sz) (g_max_num_neighbors g) n)"

definition manifold_solve :: "gmls \<Rightarrow> sizes \<Rightarrow> u64 \<Rightarrow> device_call" where
  "manifold_solve g sz n =
     (case (sz_RHS_dims sz, sz_P_dims sz) of ((R0, R1), (P0, P1)) \<Rightarrow>
        if g_dense_solver_type g = LU
        then Batch_solve Layout_right Layout_left Layout_right (Buffer_RHS, R0, R1) (Buffer_P, P1, P0)
               (sz_this_num_cols sz) (sz_this_num_cols sz) (sz_max_num_rows sz) n
        else Batch_solve Layout_right Layout_right Layout_right (Buffer_P, P0, P1) (Buffer_RHS, R0, R1)
               (sz_max_num_rows sz) (sz_this_num_cols sz) (sz_max_num_rows sz) n)"

definition standard_solve :: "gmls \<Rightarrow> sizes \<Rightarrow> int \<Rightarrow> u64 \<Rightarrow> device_call" where
  "standard_solve g sz added_alpha_size n =
     (case (sz_RHS_dims sz, sz_P_dims sz) of ((R0, R1), (P0, P1)) \<Rightarrow>
        let NC = sz_this_num_cols sz + sz_added_coeff_size sz
        in if g_dense_solver_type g = LU
           then Batch_solve Layout_right Layout_left Layout_right (Buffer_RHS, R0, R1) (Buffer_P, P1, P0)
                  NC NC (sz_max_num_rows sz + added_alpha_size) n
           else if g_constraint_type g \<noteq> NO_CONSTRAINT
           then Batch_solve Layout_right Layout_right Layout_right (Buffer_RHS, R0, R1)
                  (Buffer_P, P1, P0) NC NC (sz_max_num_rows sz + added_alpha_size) n
           else Batch_solve Layout_right Layout_right Layout_right (Buffer_P, P0, P1)
                  (Buffer_RHS, R0, R1) (sz_max_num_rows sz) (sz_this_num_cols sz)
                  (sz_max_num_rows sz) n)"

text \<open>
  The calls of one batch up to the application of the targets.  Their choice depends on
  members of the class that the device does not change.
\<close>

definition batch_calls ::
  "gmls \<Rightarrow> sizes \<Rightarrow> int \<Rightarrow> u64 \<Rightarrow> policy \<Rightarrow> bool \<Rightarrow> device_call list" where
  "batch_calls g sz added_alpha_size n tp last_batch =
     (if g_problem_type g = MANIFOLD then
        (if \<not> g_orthonormal_tangent_space_provided g then
           [Launch ComputeCoarseTangentPlane tp]
           @ (if g_reference_outward_normal_direction_provided g
                 \<and> g_use_reference_outward_normal_direction_provided_to_orient_surface g
              then [Launch FixTangentDirectionOrdering tp] else [])
           @ [Launch AssembleCurvaturePsqrtW tp, curvature_solve g sz n,
              Launch GetAccurateTangentDirections tp, Zero_P]
           @ (if last_batch then [Copy_T_to_host] else [])
         else [])
        @ [Launch AssembleCurvaturePsqrtW tp, curvature_solve g sz n,
           Launch ApplyCurvatureTargets tp, Launch ComputePrestencilWeights tp, Zero_P,
           Launch AssembleManifoldPsqrtW tp, manifold_solve g sz n,
           Launch EvaluateManifoldTargets tp]
      else
        [Launch AssembleStandardPsqrtW tp, standard_solve g sz added_alpha_size n,
         Launch ComputePrestencilWeights tp, Launch EvaluateStandardTargets tp])"

definition zero_buffers :: "gmls \<Rightarrow> gmls" where
  "zero_buffers g =
     g\<lparr>g_RHS := zeros (g_RHS g), g_P := zeros (g_P g), g_w := zeros (g_w g), g_Z := zeros (g_Z g)\<rparr>"

definition this_batch_size :: "gmls \<Rightarrow> sizes \<Rightarrow> u64" where
  "this_batch_size g sz =
     min (of_nat (length (g_target_coordinates g)) - TO_GLOBAL (g_initial_index_for_batch g))
       (sz_max_batch_size sz)"

text \<open>
  One round of the loop.  The parallel manager of the last call is a new one, built from
  the environment again.
\<close>

definition one_batch :: "platform \<Rightarrow> sizes \<Rightarrow> bool \<Rightarrow> gmls \<Rightarrow> gmls result" where
  "one_batch pl sz last_batch g =
     (let n = this_batch_size g sz;
          g = zero_buffers g
      in rbind (TeamPolicyThreadsAndVectors (g_pm g) n (pm_default_threads (g_pm g)) 1) (\<lambda>tp.
         rbind (device_ss g) (\<lambda>d_ss.
         rbind (rfold (perform pl)
                  (batch_calls g sz (ss_added_alpha_size d_ss) n tp last_batch) g) (\<lambda>g.
         rbind (ParallelManager_make (pl_use_cuda pl) (pl_env pl)) (\<lambda>pm.
         rbind (TeamPolicyThreadsAndVectors pm n (pm_default_threads pm)
                  (pm_default_vector_lanes pm)) (\<lambda>tp2.
         rbind (perform pl (Launch ApplyTargets tp2) g) (\<lambda>g.
           Inr (g\<lparr>g_initial_index_for_batch :=
                  TO_INT (TO_GLOBAL (g_initial_index_for_batch g) + n)\<rparr>))))))))"

section \<open>The loop over the batches\<close>

fun batch_loop :: "platform \<Rightarrow> sizes \<Rightarrow> int \<Rightarrow> nat list \<Rightarrow> gmls \<Rightarrow> gmls result" where
  "batch_loop pl sz number_of_batches [] g = Inr g"
| "batch_loop pl sz number_of_batches (batch_num # batch_nums) g =
     rbind (one_batch pl sz (int batch_num = number_of_batches - 1) g) (\<lambda>g.
       if TO_GLOBAL (g_initial_index_for_batch g) = of_nat (length (g_target_coordinates g))
       then Inr g else batch_loop pl sz number_of_batches batch_nums g)"

section \<open>The parts of the solve before and after the loop\<close>

text \<open>
  The quadrature, the copy of the solution set and the operations on the device, and the
  checks between these assignments.  A failed check throws, so that the object that is
  left is not the result of the call.
\<close>

definition begun :: "bool \<Rightarrow> quadrature \<Rightarrow> gmls \<Rightarrow> gmls" where
  "begun same_space qm g =
     g\<lparr>g_qm := qm, g_d_ss := Some (SolutionSet_copy same_space (g_h_ss g)),
       g_host_operations := ss_lro (g_h_ss g), g_operations := ss_lro (g_h_ss g)\<rparr>"

definition quadrature_of :: "gmls \<Rightarrow> quadrature result" where
  "quadrature_of g = Quadrature_make (g_order_of_quadrature_points g)
     (g_dimension_of_quadrature_points g) (g_quadrature_type g)"

definition begin_solve :: "platform \<Rightarrow> gmls \<Rightarrow> int \<Rightarrow> bool \<Rightarrow> gmls result" where
  "begin_solve pl g number_of_batches keep_coefficients =
     rbind (compadre_assert_release
       ''keep_coefficients is set to true, but number of batches exceeds 1.''
       (keep_coefficients = False \<or> number_of_batches = 1)) (\<lambda>_.
     rbind (quadrature_of g) (\<lambda>qm.
     rbind (compadre_assert_release
       ''No target operations added to GMLS class before calling generatePolynomialCoefficients().''
       (length (ss_lro (g_h_ss g)) > 0)) (\<lambda>_.
     rbind (compadre_assert_release
       ''Neighbor lists not set in GMLS class before calling generatePolynomialCoefficients.''
       (TO_GLOBAL (getNumberOfTargets (g_neighbor_lists g))
          = of_nat (length (g_target_coordinates g)))) (\<lambda>_.
     rbind (compadre_assert_release
       ''Source coordinates not set in GMLS class before calling generatePolynomialCoefficients.''
       (length (g_source_coordinates g) > 0 \<or> length (g_target_coordinates g) = 0)) (\<lambda>_.
     rbind (compadre_assert_release
       ''Cannot solve GMLS problems with the NEUMANN_GRAD_SCALAR constraint using QR Factorization.''
       (\<not> (g_dense_solver_type g = QR \<and> g_constraint_type g = NEUMANN_GRAD_SCALAR))) (\<lambda>_.
       Inr (begun (pl_same_space pl) qm g)))))))"

text \<open>The alphas, all zero.\<close>

definition alpha_count :: "gmls \<Rightarrow> solution_set \<Rightarrow> u64 result" where
  "alpha_count g d_ss =
     rbind (getTotalNeighborsOverAllListsHost (g_neighbor_lists g)) (\<lambda>total_neighbors.
     let total_added_alphas =
           TO_INT (of_nat (length (g_target_coordinates g)) * TO_GLOBAL (ss_added_alpha_size d_ss))
     in Inr ((total_neighbors + TO_GLOBAL total_added_alphas)
               * TO_GLOBAL (ss_total_alpha_values d_ss)
               * TO_GLOBAL (ss_max_evaluation_sites_per_target d_ss)))"

definition allocate_alphas :: "platform \<Rightarrow> gmls \<Rightarrow> gmls result" where
  "allocate_alphas pl g =
     rbind (device_ss g) (\<lambda>d_ss.
     let d_ss = d_ss\<lparr>ss_added_alpha_size :=
           getAdditionalAlphaSizeFromConstraint (g_dense_solver_type g) (g_constraint_type g)\<rparr>
     in rbind (alpha_count g d_ss) (\<lambda>n.
        rbind (allocate pl ''alphas'' (unat n)) (\<lambda>alphas.
          Inr (g\<lparr>g_d_ss := Some (d_ss\<lparr>ss_alphas := alphas\<rparr>)\<rparr>))))"

text \<open>The prestencil weights, the multipliers, and the order of a gradient basis.\<close>

definition prestencil_extents :: "gmls \<Rightarrow> int list" where
  "prestencil_extents g =
     (let sro = g_data_sampling_functional g
      in [2 ^ (if use_target_site_weights sro then 1 else 0),
          if transform_type sro = DifferentEachTarget \<or> transform_type sro = DifferentEachNeighbor
          then getNumberOfTargets (g_neighbor_lists g) else 1,
          if transform_type sro = DifferentEachNeighbor then g_max_num_neighbors g else 1,
          if output_rank sro > 0 then g_local_dimensions g else 1,
          if input_rank sro > 0 then g_global_dimensions g else 1])"

definition allocate_prestencil_weights :: "platform \<Rightarrow> gmls \<Rightarrow> gmls result" where
  "allocate_prestencil_weights pl g =
     rbind (allocate pl ''Prestencil weights'' (nat (prod_list (prestencil_extents g)))) (\<lambda>weights.
       Inr (g\<lparr>g_prestencil_weights :=
              \<lparr>r5_extents = prestencil_extents g, r5_data = weights\<rparr>\<rparr>))"

definition store_multipliers :: "gmls \<Rightarrow> int \<Rightarrow> int \<Rightarrow> gmls" where
  "store_multipliers g bm sm =
     g\<lparr>g_basis_multiplier := bm, g_sampling_multiplier := sm,
       g_data_sampling_multiplier := Some (getOutputDimensionOfSampling
         (g_data_sampling_functional g) (g_local_dimensions g))\<rparr>"

definition raise_order :: "gmls \<Rightarrow> gmls" where
  "raise_order g =
     (if sf_eq (g_polynomial_sampling_functional g) StaggeredEdgeAnalyticGradientIntegralSample
      then g\<lparr>g_poly_order := g_poly_order g + 1,
             g_NP := getNP (g_poly_order g + 1) (g_dimensions g) (g_reconstruction_space g)\<rparr>
      else g)"

definition set_multipliers :: "gmls \<Rightarrow> gmls result" where
  "set_multipliers g =
     rbind (calculateBasisMultiplier (g_reconstruction_space g) (g_local_dimensions g)) (\<lambda>bm.
     rbind (calculateSamplingMultiplier (g_reconstruction_space g) (g_data_sampling_functional g)
              (g_local_dimensions g)) (\<lambda>sm.
     Inr (raise_order (store_multipliers g bm sm))))"

text \<open>
  The sizes and the scratch space of the parallel manager, and then, on a manifold, the
  storage of the tangents and of the curvature.
\<close>

definition set_scratch :: "gmls \<Rightarrow> int \<Rightarrow> int \<Rightarrow> int \<Rightarrow> int \<Rightarrow> gmls" where
  "set_scratch g team_a team_b thread_a thread_b =
     g\<lparr>g_pm := setThreadScratchSize (setThreadScratchSize (setTeamScratchSize
        (setTeamScratchSize (g_pm g) 0 team_a) 1 team_b) 0 thread_a) 1 thread_b\<rparr>"

definition manifold_sizes :: "platform \<Rightarrow> gmls \<Rightarrow> gmls \<times> int \<times> int" where
  "manifold_sizes pl g =
     (let d = g_dimensions g;
          manifold_NP = getNP (g_curvature_poly_order g) (d - 1) ScalarTaylorPolynomial;
          NP = getNP (g_poly_order g) (d - 1) (g_reconstruction_space g);
          max_manifold_NP = (if manifold_NP > NP then manifold_NP else NP);
          this_num_cols = g_basis_multiplier g * max_manifold_NP;
          max_poly_order = (if g_poly_order g > g_curvature_poly_order g then g_poly_order g
                            else g_curvature_poly_order g);
          varying = sf_eq (g_data_sampling_functional g) VaryingManifoldVectorPointSample;
          vec = pl_shmem_vector pl;
          team_b = pl_shmem_matrix pl d d + vec ((d - 1) * g_max_num_neighbors g)
            + (if varying then vec (g_max_num_neighbors g) + vec (g_max_num_neighbors g) else 0);
          thread_a = vec this_num_cols + vec ((max_poly_order + 1) * g_global_dimensions g);
          thread_b = (if varying then vec (d * d) else 0)
      in (set_scratch (g\<lparr>g_NP := NP\<rparr>) 0 team_b thread_a thread_b, this_num_cols, manifold_NP))"

definition standard_sizes :: "platform \<Rightarrow> gmls \<Rightarrow> gmls \<times> int \<times> int" where
  "standard_sizes pl g =
     (let this_num_cols = g_basis_multiplier g * g_NP g;
          thread_a = pl_shmem_vector pl this_num_cols
            + pl_shmem_vector pl ((g_poly_order g + 1) * g_global_dimensions g)
      in (set_scratch g 0 0 thread_a 0, this_num_cols, 0))"

definition derive_sizes :: "platform \<Rightarrow> gmls \<Rightarrow> gmls \<times> int \<times> int" where
  "derive_sizes pl g =
     (if g_problem_type g = MANIFOLD then manifold_sizes pl g else standard_sizes pl g)"

definition allocate_manifold :: "platform \<Rightarrow> gmls \<Rightarrow> int \<Rightarrow> gmls result" where
  "allocate_manifold pl g manifold_NP =
     (if g_problem_type g = MANIFOLD then
        (let targets = length (g_target_coordinates g); d = nat (g_dimensions g)
         in rbind (if g_orthonormal_tangent_space_provided g then Inr (g_T g)
                   else allocate pl ''tangent approximation'' (targets * d * d)) (\<lambda>T.
            rbind (allocate pl ''manifold curvature coefficients'' (targets * nat manifold_NP))
              (\<lambda>coefficients. Inr (g\<lparr>g_T := T, g_manifold_curvature_coefficients := coefficients\<rparr>))))
      else Inr g)"

text \<open>The division of the targets into batches, and the storage for the largest one.\<close>

definition max_batch_size :: "nat \<Rightarrow> int \<Rightarrow> u64 result" where
  "max_batch_size targets number_of_batches =
     (if TO_GLOBAL number_of_batches = 0 then Inl Division_by_zero
      else Inr ((of_nat targets + TO_GLOBAL number_of_batches - 1) div TO_GLOBAL number_of_batches))"

definition allocate_batch :: "platform \<Rightarrow> gmls \<Rightarrow> sizes \<Rightarrow> solution_set \<Rightarrow> gmls result" where
  "allocate_batch pl g sz d_ss =
     (case (sz_RHS_dims sz, sz_P_dims sz) of ((R0, R1), (P0, P1)) \<Rightarrow>
        let n = sz_max_batch_size sz
        in rbind (allocate pl ''RHS'' (unat (n * TO_GLOBAL R0 * TO_GLOBAL R1))) (\<lambda>RHS.
           rbind (allocate pl ''P'' (unat (n * TO_GLOBAL P0 * TO_GLOBAL P1))) (\<lambda>P.
           rbind (allocate pl ''w'' (unat (n * TO_GLOBAL (sz_max_num_rows sz)))) (\<lambda>w.
           rbind (allocate pl ''Z'' (unat (n * TO_GLOBAL (ss_total_alpha_values d_ss
                    * ss_max_evaluation_sites_per_target d_ss * sz_this_num_cols sz)))) (\<lambda>Z.
             Inr (g\<lparr>g_RHS := RHS, g_P := P, g_w := w, g_Z := Z\<rparr>))))))"

text \<open>What stays allocated after the loop.\<close>

definition end_solve :: "gmls \<Rightarrow> int \<Rightarrow> bool \<Rightarrow> gmls" where
  "end_solve g number_of_batches keep_coefficients =
     (let g = g\<lparr>g_w := [], g_Z := []\<rparr>
      in if number_of_batches > 1 then
           g\<lparr>g_RHS := [], g_P := [], g_entire_batch_computed_at_once := False\<rparr>
         else
           (let g = (if g_constraint_type g \<noteq> NO_CONSTRAINT then
                       (if keep_coefficients then g\<lparr>g_RHS := []\<rparr> else g\<lparr>g_RHS := [], g_P := []\<rparr>)
                     else if g_dense_solver_type g \<noteq> LU then
                       (if keep_coefficients then g\<lparr>g_P := []\<rparr> else g\<lparr>g_P := [], g_RHS := []\<rparr>)
                     else
                       (if keep_coefficients then g\<lparr>g_RHS := []\<rparr> else g\<lparr>g_RHS := [], g_P := []\<rparr>))
            in if keep_coefficients then g\<lparr>g_store_PTWP_inv_PTW := True\<rparr> else g))"

definition publish :: "platform \<Rightarrow> gmls \<Rightarrow> gmls result" where
  "publish pl g =
     rbind (device_ss g) (\<lambda>d_ss.
     let g = g\<lparr>g_h_ss := SolutionSet_copy (pl_same_space pl) d_ss\<rparr>
     in Inr (if sf_neq (g_data_sampling_functional g) PointSample
             then g\<lparr>g_host_prestencil_weights := g_prestencil_weights g\<rparr> else g))"

section \<open>The solve\<close>

definition problem_sizes :: "gmls \<Rightarrow> int \<Rightarrow> int \<Rightarrow> u64 \<Rightarrow> sizes" where
  "problem_sizes g this_num_cols manifold_NP mbs =
     (let max_num_rows = g_sampling_multiplier g * g_max_num_neighbors g
      in \<lparr>sz_max_num_rows = max_num_rows, sz_this_num_cols = this_num_cols,
          sz_manifold_NP = manifold_NP,
          sz_added_coeff_size = getAdditionalCoeffSizeFromConstraintAndSpace
            (g_dense_solver_type g) (g_constraint_type g) (g_reconstruction_space g) (g_dimensions g),
          sz_RHS_dims = getRHSDims (g_dense_solver_type g) (g_constraint_type g)
            (g_reconstruction_space g) (g_dimensions g) max_num_rows this_num_cols,
          sz_P_dims = getPDims (g_dense_solver_type g) (g_constraint_type g)
            (g_reconstruction_space g) (g_dimensions g) max_num_rows this_num_cols,
          sz_max_batch_size = mbs\<rparr>)"

text \<open>Everything before the first batch.\<close>

definition prepare_solve ::
  "platform \<Rightarrow> gmls \<Rightarrow> int \<Rightarrow> bool \<Rightarrow> (gmls \<times> sizes) result" where
  "prepare_solve pl g number_of_batches keep_coefficients =
     rbind (begin_solve pl g number_of_batches keep_coefficients) (\<lambda>g.
     rbind (allocate_alphas pl g) (\<lambda>g.
     rbind (allocate_prestencil_weights pl g) (\<lambda>g.
     rbind (set_multipliers g) (\<lambda>g.
     case derive_sizes pl g of (g, this_num_cols, manifold_NP) \<Rightarrow>
     rbind (allocate_manifold pl g manifold_NP) (\<lambda>g.
     rbind (max_batch_size (length (g_target_coordinates g)) number_of_batches) (\<lambda>mbs.
     let sz = problem_sizes g this_num_cols manifold_NP mbs
     in rbind (device_ss g) (\<lambda>d_ss.
        rbind (allocate_batch pl g sz d_ss) (\<lambda>g.
        rbind (compadre_assert_release
          ''Normal vectors are required for solving GMLS problems with the NEUMANN_GRAD_SCALAR constraint.''
          (g_constraint_type g = NEUMANN_GRAD_SCALAR \<longrightarrow> g_orthonormal_tangent_space_provided g)) (\<lambda>_.
          Inr (g\<lparr>g_initial_index_for_batch := 0\<rparr>, sz))))))))))"

definition generatePolynomialCoefficients :: "platform \<Rightarrow> gmls \<Rightarrow> int \<Rightarrow> bool \<Rightarrow> gmls result" where
  "generatePolynomialCoefficients pl g number_of_batches keep_coefficients =
     rbind (prepare_solve pl g number_of_batches keep_coefficients) (\<lambda>(g, sz).
     rbind (batch_loop pl sz number_of_batches [0..<nat number_of_batches] g) (\<lambda>g.
       publish pl (end_solve g number_of_batches keep_coefficients)))"

definition generateAlphas :: "platform \<Rightarrow> gmls \<Rightarrow> int \<Rightarrow> bool \<Rightarrow> gmls result" where
  "generateAlphas pl g number_of_batches keep_coefficients =
     generatePolynomialCoefficients pl g number_of_batches keep_coefficients"

section \<open>What the device may change\<close>

text \<open>
  The state with the contents of the device buffers, the host copy of the tangents and the
  index of the batch erased.
\<close>

definition frame :: "gmls \<Rightarrow> gmls" where
  "frame g =
     g\<lparr>g_w := zeros (g_w g), g_P := zeros (g_P g), g_RHS := zeros (g_RHS g), g_Z := zeros (g_Z g),
       g_T := zeros (g_T g), g_host_T := [],
       g_manifold_curvature_coefficients := zeros (g_manifold_curvature_coefficients g),
       g_prestencil_weights := (g_prestencil_weights g)
         \<lparr>r5_data := zeros (r5_data (g_prestencil_weights g))\<rparr>,
       g_d_ss := map_option (\<lambda>ss. ss\<lparr>ss_alphas := zeros (ss_alphas ss)\<rparr>) (g_d_ss g),
       g_initial_index_for_batch := 0\<rparr>"

text \<open>What a solve reads and never writes: the input of its checks, and the scratch levels.\<close>

definition settings :: "gmls \<Rightarrow> (real list list \<times> real list list \<times> neighbor_lists)
    \<times> (DenseSolverType \<times> ConstraintType \<times> bool \<times> SamplingFunctional) \<times> (int \<times> int \<times> string)
    \<times> (int \<times> int) \<times> (int \<times> int)" where
  "settings g =
     ((g_target_coordinates g, g_source_coordinates g, g_neighbor_lists g),
      (g_dense_solver_type g, g_constraint_type g, g_orthonormal_tangent_space_provided g,
       g_polynomial_sampling_functional g),
      (g_order_of_quadrature_points g, g_dimension_of_quadrature_points g, g_quadrature_type g),
      (pm_scratch_team_level_a (g_pm g), pm_scratch_team_level_b (g_pm g)),
      (pm_scratch_thread_level_a (g_pm g), pm_scratch_thread_level_b (g_pm g)))"

text \<open>
  A device that writes into the buffers only: their extents and everything else stay.
\<close>

definition writes_buffers :: "(device_call \<Rightarrow> gmls \<Rightarrow> gmls result) \<Rightarrow> bool" where
  "writes_buffers dev \<longleftrightarrow>
     (\<forall>call g g'. dev call g = Inr g' \<longrightarrow> frame g' = frame g \<and> g_host_T g' = g_host_T g
        \<and> g_initial_index_for_batch g' = g_initial_index_for_batch g)"

lemma length_zeros [simp]: "length (zeros v) = length v"
  by (simp add: zeros_def)

lemma zeros_zeros [simp]: "zeros (zeros v) = zeros v"
  by (simp add: zeros_def)

lemma frame_simps [simp]:
  "g_target_coordinates (frame g) = g_target_coordinates g"
  "g_source_coordinates (frame g) = g_source_coordinates g"
  "g_neighbor_lists (frame g) = g_neighbor_lists g"
  "g_problem_type (frame g) = g_problem_type g"
  "g_orthonormal_tangent_space_provided (frame g) = g_orthonormal_tangent_space_provided g"
  "g_data_sampling_functional (frame g) = g_data_sampling_functional g"
  "g_h_ss (frame g) = g_h_ss g" "g_poly_order (frame g) = g_poly_order g" "g_pm (frame g) = g_pm g"
  "g_entire_batch_computed_at_once (frame g) = g_entire_batch_computed_at_once g"
  "settings (frame g) = settings g"
  "length (g_T (frame g)) = length (g_T g)"
  "g_d_ss (frame g) = map_option (\<lambda>ss. ss\<lparr>ss_alphas := zeros (ss_alphas ss)\<rparr>) (g_d_ss g)"
  "frame (g\<lparr>g_host_T := t\<rparr>) = frame g"
  "frame (g\<lparr>g_initial_index_for_batch := i\<rparr>) = frame g"
  "frame (g\<lparr>g_P := zeros (g_P g)\<rparr>) = frame g"
  "frame (zero_buffers g) = frame g"
  by (simp_all add: frame_def zero_buffers_def settings_def)

lemma frame_fields:
  assumes "frame g' = frame g"
  shows "g_target_coordinates g' = g_target_coordinates g"
    "g_neighbor_lists g' = g_neighbor_lists g" "g_problem_type g' = g_problem_type g"
    "g_orthonormal_tangent_space_provided g' = g_orthonormal_tangent_space_provided g"
    "g_data_sampling_functional g' = g_data_sampling_functional g" "g_h_ss g' = g_h_ss g"
    "map_option (\<lambda>ss. ss\<lparr>ss_alphas := zeros (ss_alphas ss)\<rparr>) (g_d_ss g')
      = map_option (\<lambda>ss. ss\<lparr>ss_alphas := zeros (ss_alphas ss)\<rparr>) (g_d_ss g)"
    "g_poly_order g' = g_poly_order g" "g_pm g' = g_pm g"
    "g_entire_batch_computed_at_once g' = g_entire_batch_computed_at_once g"
    "settings g' = settings g"
  using arg_cong [OF assms, of g_target_coordinates] arg_cong [OF assms, of g_neighbor_lists]
    arg_cong [OF assms, of g_problem_type] arg_cong [OF assms, of g_orthonormal_tangent_space_provided]
    arg_cong [OF assms, of g_data_sampling_functional] arg_cong [OF assms, of g_h_ss]
    arg_cong [OF assms, of g_d_ss] arg_cong [OF assms, of g_poly_order] arg_cong [OF assms, of g_pm]
    arg_cong [OF assms, of g_entire_batch_computed_at_once] arg_cong [OF assms, of settings]
  by simp_all

lemma perform_keeps:
  assumes "writes_buffers (pl_dev pl)" "perform pl call g = Inr g'"
  shows "frame g' = frame g" "g_initial_index_for_batch g' = g_initial_index_for_batch g"
    and "call \<noteq> Copy_T_to_host \<Longrightarrow> g_host_T g' = g_host_T g"
  using assms by (auto simp: writes_buffers_def perform_def split: device_call.splits)

lemma performs_keep:
  assumes "writes_buffers (pl_dev pl)" "rfold (perform pl) calls g = Inr g'"
  shows "frame g' = frame g \<and> g_initial_index_for_batch g' = g_initial_index_for_batch g
    \<and> (Copy_T_to_host \<notin> set calls \<longrightarrow> g_host_T g' = g_host_T g)"
  using assms(2)
proof (induction calls arbitrary: g)
  case Nil
  then show ?case by simp
next
  case (Cons call calls)
  then obtain g1 where "perform pl call g = Inr g1" "rfold (perform pl) calls g1 = Inr g'"
    by (auto simp: rbind_eq_Inr_iff)
  then show ?case
    using Cons.IH [of g1] perform_keeps [OF assms(1), of call g g1] by auto
qed

lemma one_batch_keeps:
  assumes "writes_buffers (pl_dev pl)" "one_batch pl sz last_batch g = Inr g'"
  shows "frame g' = frame g"
    and "g_initial_index_for_batch g'
      = TO_INT (TO_GLOBAL (g_initial_index_for_batch g) + this_batch_size g sz)"
    and "\<not> last_batch \<Longrightarrow> g_host_T g' = g_host_T g"
proof -
  obtain tp a pm tp2 g1 g2 where
    1: "rfold (perform pl) (batch_calls (zero_buffers g) sz a (this_batch_size g sz) tp last_batch)
          (zero_buffers g) = Inr g1"
    and 2: "perform pl (Launch ApplyTargets tp2) g1 = Inr g2"
    and 3: "g' = g2\<lparr>g_initial_index_for_batch :=
      TO_INT (TO_GLOBAL (g_initial_index_for_batch g2) + this_batch_size g sz)\<rparr>"
    using assms(2) by (auto simp: one_batch_def Let_def rbind_eq_Inr_iff)
  have z: "g_initial_index_for_batch (zero_buffers g) = g_initial_index_for_batch g"
      "g_host_T (zero_buffers g) = g_host_T g"
    by (simp_all add: zero_buffers_def)
  note k = performs_keep [OF assms(1) 1] perform_keeps [OF assms(1) 2]
  show "frame g' = frame g" using k 3 by simp
  show "g_initial_index_for_batch g'
      = TO_INT (TO_GLOBAL (g_initial_index_for_batch g) + this_batch_size g sz)"
    using k 3 z by simp
  show "g_host_T g' = g_host_T g" if "\<not> last_batch"
  proof -
    have "Copy_T_to_host \<notin> set (batch_calls (zero_buffers g) sz a (this_batch_size g sz) tp last_batch)"
      using that by (simp add: batch_calls_def curvature_solve_def manifold_solve_def
          standard_solve_def Let_def split: prod.splits)
    then show ?thesis using k 3 z by simp
  qed
qed

section \<open>The batches\<close>

text \<open>The batches as start and size: \<open>k\<close> is the number of rounds that are left.\<close>

fun batch_plan :: "nat \<Rightarrow> nat \<Rightarrow> nat \<Rightarrow> nat \<Rightarrow> (nat \<times> nat) list" where
  "batch_plan N m s 0 = []"
| "batch_plan N m s (Suc k) =
     (s, min (N - s) m) # (if s + min (N - s) m = N then [] else batch_plan N m (s + min (N - s) m) k)"

text \<open>The batches that the loop runs, as the model sees them.\<close>

fun batch_trace :: "platform \<Rightarrow> sizes \<Rightarrow> int \<Rightarrow> nat list \<Rightarrow> gmls \<Rightarrow> (int \<times> u64) list" where
  "batch_trace pl sz number_of_batches [] g = []"
| "batch_trace pl sz number_of_batches (batch_num # batch_nums) g =
     (g_initial_index_for_batch g, this_batch_size g sz)
     # (case one_batch pl sz (int batch_num = number_of_batches - 1) g of
          Inl e \<Rightarrow> []
        | Inr g' \<Rightarrow>
            if TO_GLOBAL (g_initial_index_for_batch g') = of_nat (length (g_target_coordinates g'))
            then [] else batch_trace pl sz number_of_batches batch_nums g')"

lemma plan_covers:
  assumes "N - s \<le> k * m" "s \<le> N" "0 < k"
  shows "concat (map (\<lambda>(a, n). [a..<a + n]) (batch_plan N m s k)) = [s..<N]
    \<and> (\<forall>(a, n) \<in> set (batch_plan N m s k). n \<le> m \<and> a + n \<le> N) \<and> length (batch_plan N m s k) \<le> k"
  using assms
proof (induction k arbitrary: s)
  case 0
  then show ?case by simp
next
  case (Suc k)
  show ?case
  proof (cases "s + min (N - s) m = N")
    case True
    then show ?thesis using Suc.prems by auto
  next
    case False
    then have m: "min (N - s) m = m" "s + m \<le> N" "N - (s + m) \<le> k * m" "s + m < N"
      using Suc.prems by auto
    then have "0 < k" by (cases k) auto
    note IH = Suc.IH [OF m(3,2) this]
    have "[s..<s + m] @ [s + m..<N] = [s..<N]"
      using m(2) by (metis upt_add_eq_append le_add1 le_add_diff_inverse)
    then show ?thesis using IH m False by auto
  qed
qed

lemma max_batch_size_nat:
  assumes "1 \<le> nb" "nb < 2 ^ 31" "N < 2 ^ 31"
  shows "max_batch_size N nb = Inr (of_nat ((N + nat nb - 1) div nat nb))"
    and "(N + nat nb - 1) div nat nb < 2 ^ 32"
    and "N \<le> nat nb * ((N + nat nb - 1) div nat nb)"
proof -
  obtain b where b: "nb = int b" "0 < b" "b < 2 ^ 31"
    using assms(1,2) by (cases nb) auto
  have u: "unat (of_nat b :: u64) = b" using b(3) by (simp add: unat_of_nat)
  then have "(of_nat b :: u64) \<noteq> 0" using b(2) by (metis less_irrefl unat_0)
  moreover have e: "(of_nat N + of_nat b - 1 :: u64) = of_nat (N + b - 1)"
    using b(2) by (simp add: of_nat_diff)
  moreover have "unat (of_nat (N + b - 1) :: u64) = N + b - 1"
    using assms(3) b by (simp add: unat_of_nat del: of_nat_add of_nat_diff)
  then have "(of_nat N + of_nat b - 1 :: u64) div of_nat b = of_nat ((N + b - 1) div b)"
    by (simp only: e word_arith_nat_div u)
  ultimately show "max_batch_size N nb = Inr (of_nat ((N + nat nb - 1) div nat nb))"
    using b(1) by (simp add: max_batch_size_def TO_GLOBAL_of_nat)
  have "N + b - 1 < 2 ^ 32" using assms(3) b by simp
  then have "(N + b - 1) div b < 2 ^ 32" by (rule le_less_trans [OF div_le_dividend])
  then show "(N + nat nb - 1) div nat nb < 2 ^ 32" using b by simp
  have "N + b - 1 < b * ((N + b - 1) div b) + b"
    using b(2) by (metis mult.commute dividend_less_div_times mult_Suc_right add.commute)
  then show "N \<le> nat nb * ((N + nat nb - 1) div nat nb)" using b by simp
qed

lemma TO_INT_nat: "n < 2 ^ 31 \<Longrightarrow> TO_INT (of_nat n) = int n"
  by (simp add: TO_INT_def unsigned_of_nat take_bit_nat_eq_self sint_uint signed_of_nat
      signed_take_bit_int_eq_self)

lemma of_nat_u64_inj:
  assumes "a < 2 ^ 64" "b < 2 ^ 64"
  shows "(of_nat a :: u64) = of_nat b \<longleftrightarrow> a = b"
proof
  assume "(of_nat a :: u64) = of_nat b"
  then have "unat (of_nat a :: u64) = unat (of_nat b :: u64)" by (rule arg_cong)
  then show "a = b" using assms by (simp add: unat_of_nat)
qed simp

lemma this_batch_size_nat:
  assumes "length (g_target_coordinates g) = N" "N < 2 ^ 31" "g_initial_index_for_batch g = int s"
    and "s \<le> N" "sz_max_batch_size sz = of_nat m" "m < 2 ^ 32"
  shows "this_batch_size g sz = of_nat (min (N - s) m)"
proof -
  have d: "(of_nat N - of_nat s :: u64) = of_nat (N - s)"
    using assms(4) by (simp add: of_nat_diff)
  have "(of_nat (N - s) :: u64) \<le> of_nat m \<longleftrightarrow> N - s \<le> m"
    using assms(2,6) by (simp add: word_le_nat_alt unat_of_nat del: of_nat_diff)
  then show ?thesis
    using assms(1,3,5) by (simp only: this_batch_size_def TO_GLOBAL_of_nat d min_def if_distrib
        [where f = of_nat] split: if_split)
qed

lemma batch_loop_plan:
  assumes "writes_buffers (pl_dev pl)"
    and "length (g_target_coordinates g) = N" "N < 2 ^ 31"
    and "sz_max_batch_size sz = of_nat m" "m < 2 ^ 32"
    and "g_initial_index_for_batch g = int s" "s \<le> N" "N - s \<le> length bs * m" "bs \<noteq> []"
    and "batch_loop pl sz nb bs g = Inr g'"
  shows "batch_trace pl sz nb bs g = map (\<lambda>(a, n). (int a, of_nat n)) (batch_plan N m s (length bs))
    \<and> frame g' = frame g \<and> g_initial_index_for_batch g' = int N
    \<and> ((\<forall>i < length (batch_plan N m s (length bs)). int (bs ! i) \<noteq> nb - 1)
         \<longrightarrow> g_host_T g' = g_host_T g)"
  using assms(2,6-10)
proof (induction bs arbitrary: g s)
  case Nil
  then show ?case by simp
next
  case (Cons b bs)
  obtain g1 where g1: "one_batch pl sz (int b = nb - 1) g = Inr g1"
    and rest: "(if TO_GLOBAL (g_initial_index_for_batch g1) = of_nat (length (g_target_coordinates g1))
      then Inr g1 else batch_loop pl sz nb bs g1) = Inr g'"
    using Cons.prems(6) by (auto simp: rbind_eq_Inr_iff)
  note k = one_batch_keeps [OF assms(1) g1]
  let ?n = "min (N - s) m"
  note n = this_batch_size_nat [OF Cons.prems(1) assms(3) Cons.prems(2,3) assms(4,5)]
  have le: "s + ?n \<le> N" using Cons.prems(3) by simp
  have "TO_GLOBAL (int s) + of_nat ?n = of_nat (s + ?n)"
    by (simp add: TO_GLOBAL_of_nat)
  then have i1: "g_initial_index_for_batch g1 = int (s + ?n)"
    using k(2) n Cons.prems(2) le assms(3) by (simp add: TO_INT_nat del: of_nat_add)
  have N1: "length (g_target_coordinates g1) = N"
    using frame_fields(1) [OF k(1)] Cons.prems(1) by simp
  have "s + ?n < 2 ^ 64" "N < 2 ^ 64" using le assms(3) by simp_all
  then have stop: "TO_GLOBAL (g_initial_index_for_batch g1) = of_nat (length (g_target_coordinates g1))
      \<longleftrightarrow> s + ?n = N"
    by (simp only: i1 N1 TO_GLOBAL_of_nat of_nat_u64_inj)
  show ?case
  proof (cases "s + ?n = N")
    case True
    then show ?thesis
      using g1 rest stop k n Cons.prems(2) i1 by auto
  next
    case False
    then have m: "?n = m" "N - (s + ?n) \<le> length bs * m"
      using Cons.prems(4) le by auto
    then have "bs \<noteq> []" using False le by auto
    note IH = Cons.IH [OF N1 i1 le m(2) this]
    have "batch_loop pl sz nb bs g1 = Inr g'" using rest stop False by simp
    note IH = IH [OF this]
    then show ?thesis
      using g1 stop False k n Cons.prems(2) by (auto simp: nth_Cons split: nat.splits)
  qed
qed

text \<open>The plan is a layout: every batch starts where the one before it ends.\<close>

lemma plan_first: "0 < k \<Longrightarrow> fst (batch_plan N m s k ! 0) = s"
  by (cases k) simp_all

lemma plan_next:
  "Suc i < length (batch_plan N m s k) \<Longrightarrow>
    fst (batch_plan N m s k ! Suc i) = fst (batch_plan N m s k ! i) + snd (batch_plan N m s k ! i)"
proof (induction k arbitrary: s i)
  case 0
  then show ?case by simp
next
  case (Suc k)
  show ?case
  proof (cases i)
    case 0
    then have "0 < k" using Suc.prems by (cases k) (auto split: if_splits)
    then show ?thesis
      using 0 Suc.prems by (auto simp: plan_first split: if_splits)
  next
    case (Suc j)
    then show ?thesis
      using Suc.prems Suc.IH [of j "s + min (N - s) m"] by (auto split: if_splits)
  qed
qed

definition plan_of :: "nat \<times> nat \<Rightarrow> (nat \<times> nat) list" where
  "plan_of p = (case p of (N, nb) \<Rightarrow> batch_plan N ((N + nb - 1) div nb) 0 nb)"

definition plan_rows :: "nat \<times> nat \<Rightarrow> nat" where "plan_rows p = length (plan_of p)"
definition plan_width :: "nat \<times> nat \<Rightarrow> nat \<Rightarrow> nat" where "plan_width p i = snd (plan_of p ! i)"
definition plan_offset :: "nat \<times> nat \<Rightarrow> nat \<Rightarrow> nat" where "plan_offset p i = fst (plan_of p ! i)"

interpretation batches: scan_layout "\<lambda>p. 0 < snd p" plan_rows plan_width plan_offset
  by unfold_locales (auto simp: plan_rows_def plan_width_def plan_offset_def plan_of_def
      plan_first plan_next split: prod.splits)

lemma plan_total:
  assumes "0 < nb"
  shows "(\<Sum>i<plan_rows (N, nb). plan_width (N, nb) i) = N" "plan_rows (N, nb) \<le> nb"
    and "i < plan_rows (N, nb) \<Longrightarrow> plan_width (N, nb) i \<le> (N + nb - 1) div nb"
    and "i < plan_rows (N, nb) \<Longrightarrow> plan_offset (N, nb) i + plan_width (N, nb) i \<le> N"
proof -
  let ?m = "(N + nb - 1) div nb"
  have "N + nb - 1 < nb * ?m + nb"
    using assms by (metis mult.commute dividend_less_div_times add.commute)
  then have "N \<le> nb * ?m" using assms by simp
  then have c: "concat (map (\<lambda>(a, n). [a..<a + n]) (plan_of (N, nb))) = [0..<N]
      \<and> (\<forall>(a, n) \<in> set (plan_of (N, nb)). n \<le> ?m \<and> a + n \<le> N) \<and> length (plan_of (N, nb)) \<le> nb"
    using plan_covers [of N 0 nb ?m] assms by (simp add: plan_of_def)
  then have "length (concat (map (\<lambda>(a, n). [a..<a + n]) (plan_of (N, nb)))) = N" by simp
  moreover have "length (concat (map (\<lambda>(a, n). [a..<a + n]) xs)) = sum_list (map snd xs)"
    for xs :: "(nat \<times> nat) list"
    by (induction xs) auto
  ultimately show "(\<Sum>i<plan_rows (N, nb). plan_width (N, nb) i) = N"
    by (simp add: plan_rows_def plan_width_def sum_list_sum_nth atLeast0LessThan)
  show "plan_rows (N, nb) \<le> nb" using c by (simp add: plan_rows_def)
  show "i < plan_rows (N, nb) \<Longrightarrow> plan_width (N, nb) i \<le> ?m"
    "i < plan_rows (N, nb) \<Longrightarrow> plan_offset (N, nb) i + plan_width (N, nb) i \<le> N"
    using c nth_mem [of i "plan_of (N, nb)"]
    by (cases "plan_of (N, nb) ! i"; force simp: plan_rows_def plan_width_def plan_offset_def)+
qed

section \<open>What a solve leaves behind\<close>

lemma batch_loop_frame:
  assumes "writes_buffers (pl_dev pl)" "batch_loop pl sz nb bs g = Inr g'"
  shows "frame g' = frame g \<and> ((\<forall>b \<in> set bs. int b \<noteq> nb - 1) \<longrightarrow> g_host_T g' = g_host_T g)"
  using assms(2)
proof (induction bs arbitrary: g)
  case Nil
  then show ?case by simp
next
  case (Cons b bs)
  then obtain g1 where g1: "one_batch pl sz (int b = nb - 1) g = Inr g1"
    and rest: "g' = g1 \<or> batch_loop pl sz nb bs g1 = Inr g'"
    by (auto simp: rbind_eq_Inr_iff split: if_splits)
  then show ?case
    using Cons.IH [of g1] one_batch_keeps [OF assms(1) g1] by auto
qed

text \<open>The solution set that a solve starts from: the operations of the host, no alphas yet.\<close>

definition solved_from :: "gmls \<Rightarrow> solution_set" where
  "solved_from g = (SolutionSet_copy False (g_h_ss g))\<lparr>ss_added_alpha_size :=
     getAdditionalAlphaSizeFromConstraint (g_dense_solver_type g) (g_constraint_type g)\<rparr>"

lemma copy_solved:
  "(SolutionSet_copy same_space (g_h_ss g))\<lparr>ss_added_alpha_size :=
     getAdditionalAlphaSizeFromConstraint (g_dense_solver_type g) (g_constraint_type g), ss_alphas := a\<rparr>
   = (solved_from g)\<lparr>ss_alphas := a\<rparr>"
  by (simp add: solved_from_def SolutionSet_copy_eq)

lemma alpha_count_alphas [simp]: "alpha_count g (ss\<lparr>ss_alphas := a\<rparr>) = alpha_count g ss"
  by (simp add: alpha_count_def)

text \<open>The order of the basis that a solve uses: the staggered sample raises it.\<close>

definition solved_order :: "gmls \<Rightarrow> int" where
  "solved_order g =
     (if sf_eq (g_polynomial_sampling_functional g) StaggeredEdgeAnalyticGradientIntegralSample
      then g_poly_order g + 1 else g_poly_order g)"

lemma solved_order_prestencil [simp]: "solved_order (g\<lparr>g_prestencil_weights := w\<rparr>) = solved_order g"
  by (simp add: solved_order_def)

text \<open>Where the solve stands before its loop.\<close>

definition solving :: "gmls \<Rightarrow> gmls \<Rightarrow> bool" where
  "solving g g1 \<longleftrightarrow>
     g_target_coordinates g1 = g_target_coordinates g \<and> g_h_ss g1 = g_h_ss g
     \<and> g_neighbor_lists g1 = g_neighbor_lists g \<and> g_problem_type g1 = g_problem_type g
     \<and> g_data_sampling_functional g1 = g_data_sampling_functional g
     \<and> g_orthonormal_tangent_space_provided g1 = g_orthonormal_tangent_space_provided g
     \<and> g_host_T g1 = g_host_T g \<and> settings g1 = settings g
     \<and> g_entire_batch_computed_at_once g1 = g_entire_batch_computed_at_once g
     \<and> (\<exists>n. alpha_count g (solved_from g) = Inr n
          \<and> g_d_ss g1 = Some ((solved_from g)\<lparr>ss_alphas := replicate (unat n) 0\<rparr>))"

lemma begin_solve_Inr:
  "begin_solve pl g nb keep = Inr g1 \<longleftrightarrow> (\<exists>qm. quadrature_of g = Inr qm \<and> g1 = begun (pl_same_space pl) qm g) \<and> (keep \<longrightarrow> nb = 1) \<and> ss_lro (g_h_ss g) \<noteq> []
    \<and> TO_GLOBAL (getNumberOfTargets (g_neighbor_lists g)) = of_nat (length (g_target_coordinates g))
    \<and> (g_source_coordinates g \<noteq> [] \<or> g_target_coordinates g = [])
    \<and> \<not> (g_dense_solver_type g = QR \<and> g_constraint_type g = NEUMANN_GRAD_SCALAR)"
  by (cases "quadrature_of g") (auto simp: begin_solve_def compadre_assert_release_def)

lemma begin_solve_ok:
  assumes "begin_solve pl g nb keep = Inr g1" "allocate_alphas pl g1 = Inr g2"
  shows "solving g g2" "g_poly_order g2 = g_poly_order g" "solved_order g2 = solved_order g"
    "ss_lro (g_h_ss g) \<noteq> []"
    "TO_GLOBAL (getNumberOfTargets (g_neighbor_lists g)) = of_nat (length (g_target_coordinates g))"
    "g_source_coordinates g \<noteq> [] \<or> g_target_coordinates g = []"
proof -
  let ?a = "getAdditionalAlphaSizeFromConstraint (g_dense_solver_type g) (g_constraint_type g)"
  let ?copy = "SolutionSet_copy (pl_same_space pl) (g_h_ss g)"
  obtain qm where g1: "g1 = begun (pl_same_space pl) qm g" using assms(1) by (auto simp: begin_solve_Inr)
  have count: "alpha_count g1 ss = alpha_count g ss" for ss
    by (simp add: g1 begun_def alpha_count_def)
  have dev: "device_ss g1 = Inr ?copy" by (simp add: g1 begun_def device_ss_def)
  have set: "alpha_count g (?copy\<lparr>ss_added_alpha_size := ?a\<rparr>) = alpha_count g (solved_from g)"
    using arg_cong [OF copy_solved [where g = g and a = "[]" and same_space = "pl_same_space pl"], of "alpha_count g"] by simp
  obtain n where n1: "alpha_count g1 (?copy\<lparr>ss_added_alpha_size := ?a\<rparr>) = Inr n"
    and g2': "g2 = g1\<lparr>g_d_ss := Some (?copy\<lparr>ss_added_alpha_size := ?a, ss_alphas := replicate (unat n) 0\<rparr>)\<rparr>"
    using assms(2) dev
    by (auto simp: allocate_alphas_def allocate_def rbind_eq_Inr_iff Let_def g1 begun_def split: if_splits)
  then obtain n where n: "alpha_count g (solved_from g) = Inr n"
    and g2: "g2 = g1\<lparr>g_d_ss := Some ((solved_from g)\<lparr>ss_alphas := replicate (unat n) 0\<rparr>)\<rparr>"
    using count set copy_solved by simp
  show "solving g g2" using n by (simp add: solving_def g2 g1 begun_def settings_def)
  show "g_poly_order g2 = g_poly_order g" "solved_order g2 = solved_order g"
    by (simp_all add: g2 g1 begun_def solved_order_def)
  show "ss_lro (g_h_ss g) \<noteq> []"
    "TO_GLOBAL (getNumberOfTargets (g_neighbor_lists g)) = of_nat (length (g_target_coordinates g))"
    "g_source_coordinates g \<noteq> [] \<or> g_target_coordinates g = []"
    using assms(1) by (simp_all add: begin_solve_Inr)
qed

lemma allocate_Inr [simp]: "allocate pl label n = Inr v \<longleftrightarrow> pl_allocates pl label n \<and> v = replicate n 0"
  by (auto simp: allocate_def)

lemma allocate_prestencil_weights_elim:
  assumes "allocate_prestencil_weights pl g = Inr g'"
  obtains w where "g' = g\<lparr>g_prestencil_weights := w\<rparr>"
  using assms unfolding allocate_prestencil_weights_def rbind_eq_Inr_iff by blast

lemma allocate_manifold_elim:
  assumes "allocate_manifold pl g mnp = Inr g'"
  obtains t c where "g' = g\<lparr>g_T := t, g_manifold_curvature_coefficients := c\<rparr>"
proof (cases "g_problem_type g = MANIFOLD")
  case True
  then show thesis
    using assms that unfolding allocate_manifold_def Let_def if_P [OF True] rbind_eq_Inr_iff by blast
next
  case False
  then show thesis
    using assms that [where t = "g_T g" and c = "g_manifold_curvature_coefficients g"]
    by (simp add: allocate_manifold_def)
qed

lemma allocate_batch_elim:
  assumes "allocate_batch pl g sz d_ss = Inr g'"
  obtains r p w z where "g' = g\<lparr>g_RHS := r, g_P := p, g_w := w, g_Z := z\<rparr>"
  using assms unfolding allocate_batch_def Let_def split_def rbind_eq_Inr_iff by blast

lemma set_multipliers_elim:
  assumes "set_multipliers g = Inr g'"
  obtains bm sm where "g' = raise_order (store_multipliers g bm sm)"
  using assms unfolding set_multipliers_def rbind_eq_Inr_iff by blast

lemma set_multipliers_keeps:
  assumes "set_multipliers g = Inr g'"
  shows "g_target_coordinates g' = g_target_coordinates g" "g_h_ss g' = g_h_ss g"
    "g_neighbor_lists g' = g_neighbor_lists g" "g_problem_type g' = g_problem_type g"
    "g_data_sampling_functional g' = g_data_sampling_functional g"
    "g_orthonormal_tangent_space_provided g' = g_orthonormal_tangent_space_provided g"
    "g_host_T g' = g_host_T g"
    "g_entire_batch_computed_at_once g' = g_entire_batch_computed_at_once g"
    "g_d_ss g' = g_d_ss g"
    "g_poly_order g' = solved_order g" "settings g' = settings g"
  using assms
  by (elim set_multipliers_elim;
      simp add: raise_order_def store_multipliers_def solved_order_def settings_def)+

text \<open>The scratch sizes of a manager may change, its levels do not.\<close>

definition same_levels :: "parallel_manager \<Rightarrow> parallel_manager \<Rightarrow> bool" where
  "same_levels pm pm' \<longleftrightarrow>
     pm_scratch_team_level_a pm' = pm_scratch_team_level_a pm
     \<and> pm_scratch_team_level_b pm' = pm_scratch_team_level_b pm
     \<and> pm_scratch_thread_level_a pm' = pm_scratch_thread_level_a pm
     \<and> pm_scratch_thread_level_b pm' = pm_scratch_thread_level_b pm"

lemma set_scratch_shape:
  obtains pm where "set_scratch g w x y z = g\<lparr>g_pm := pm\<rparr>" "same_levels (g_pm g) pm"
proof -
  have "same_levels (g_pm g) (setThreadScratchSize (setThreadScratchSize (setTeamScratchSize
        (setTeamScratchSize (g_pm g) 0 w) 1 x) 0 y) 1 z)"
    by (simp add: same_levels_def setThreadScratchSize_def setTeamScratchSize_def)
  then show thesis using that unfolding set_scratch_def by blast
qed

lemma derive_sizes_shape:
  obtains np pm where "fst (derive_sizes pl g) = g\<lparr>g_NP := np, g_pm := pm\<rparr>" "same_levels (g_pm g) pm"
proof -
  have "\<exists>np w x y z. fst (derive_sizes pl g) = set_scratch (g\<lparr>g_NP := np\<rparr>) w x y z"
  proof (cases "g_problem_type g = MANIFOLD")
    case True
    then show ?thesis
      unfolding derive_sizes_def manifold_sizes_def Let_def if_P [OF True] fst_conv by blast
  next
    case False
    have "g = g\<lparr>g_NP := g_NP g\<rparr>" by simp
    then show ?thesis
      unfolding derive_sizes_def standard_sizes_def Let_def if_not_P [OF False] fst_conv by metis
  qed
  then obtain np w x y z where 1: "fst (derive_sizes pl g) = set_scratch (g\<lparr>g_NP := np\<rparr>) w x y z"
    by blast
  let ?g = "g\<lparr>g_NP := np\<rparr>"
  obtain pm where "set_scratch ?g w x y z = ?g\<lparr>g_pm := pm\<rparr>" "same_levels (g_pm ?g) pm"
    by (rule set_scratch_shape)
  then show thesis using 1 that by simp
qed

lemma derive_sizes_keeps:
  assumes "derive_sizes pl g = (g', cols, mnp)"
  shows "g_target_coordinates g' = g_target_coordinates g" "g_h_ss g' = g_h_ss g"
    "g_neighbor_lists g' = g_neighbor_lists g" "g_problem_type g' = g_problem_type g"
    "g_data_sampling_functional g' = g_data_sampling_functional g"
    "g_orthonormal_tangent_space_provided g' = g_orthonormal_tangent_space_provided g"
    "g_host_T g' = g_host_T g"
    "g_entire_batch_computed_at_once g' = g_entire_batch_computed_at_once g"
    "g_d_ss g' = g_d_ss g" "g_poly_order g' = g_poly_order g"
    "g_constraint_type g' = g_constraint_type g" "settings g' = settings g"
proof -
  obtain np pm where g': "g' = g\<lparr>g_NP := np, g_pm := pm\<rparr>"
    and l: "same_levels (g_pm g) pm"
    using derive_sizes_shape [of pl g] assms by (metis fst_conv)
  show "g_target_coordinates g' = g_target_coordinates g" "g_h_ss g' = g_h_ss g"
    "g_neighbor_lists g' = g_neighbor_lists g" "g_problem_type g' = g_problem_type g"
    "g_data_sampling_functional g' = g_data_sampling_functional g"
    "g_orthonormal_tangent_space_provided g' = g_orthonormal_tangent_space_provided g"
    "g_host_T g' = g_host_T g"
    "g_entire_batch_computed_at_once g' = g_entire_batch_computed_at_once g"
    "g_d_ss g' = g_d_ss g" "g_poly_order g' = g_poly_order g"
    "g_constraint_type g' = g_constraint_type g" "settings g' = settings g"
    using l by (simp_all add: g' settings_def same_levels_def)
qed

lemma prepare_solve_steps:
  assumes "prepare_solve pl g nb keep = Inr (g1, sz)"
  shows "solving g g1" "g_poly_order g1 = solved_order g" "ss_lro (g_h_ss g) \<noteq> []"
    and "max_batch_size (length (g_target_coordinates g)) nb = Inr (sz_max_batch_size sz)"
    and "g_initial_index_for_batch g1 = 0"
    and "g_source_coordinates g \<noteq> [] \<or> g_target_coordinates g = []"
    and "TO_GLOBAL (getNumberOfTargets (g_neighbor_lists g)) = of_nat (length (g_target_coordinates g))"
proof -
  obtain a b b' c d cols mnp where ab: "begin_solve pl g nb keep = Inr a" "allocate_alphas pl a = Inr b"
    and b': "allocate_prestencil_weights pl b = Inr b'" and c: "set_multipliers b' = Inr c"
    and d: "derive_sizes pl c = (d, cols, mnp)"
    and rest: "rbind (allocate_manifold pl d mnp) (\<lambda>g.
     rbind (max_batch_size (length (g_target_coordinates g)) nb) (\<lambda>mbs.
     let sz = problem_sizes g cols mnp mbs
     in rbind (device_ss g) (\<lambda>d_ss.
        rbind (allocate_batch pl g sz d_ss) (\<lambda>g.
        rbind (compadre_assert_release
          ''Normal vectors are required for solving GMLS problems with the NEUMANN_GRAD_SCALAR constraint.''
          (g_constraint_type g = NEUMANN_GRAD_SCALAR \<longrightarrow> g_orthonormal_tangent_space_provided g)) (\<lambda>_.
          Inr (g\<lparr>g_initial_index_for_batch := 0\<rparr>, sz)))))) = Inr (g1, sz)"
  proof -
    obtain a b b' c where ab: "begin_solve pl g nb keep = Inr a" "allocate_alphas pl a = Inr b"
      and b': "allocate_prestencil_weights pl b = Inr b'" and c: "set_multipliers b' = Inr c"
      and rest: "(case derive_sizes pl c of (g, cols, mnp) \<Rightarrow> rbind (allocate_manifold pl g mnp) (\<lambda>g.
     rbind (max_batch_size (length (g_target_coordinates g)) nb) (\<lambda>mbs.
     let sz = problem_sizes g cols mnp mbs
     in rbind (device_ss g) (\<lambda>d_ss.
        rbind (allocate_batch pl g sz d_ss) (\<lambda>g.
        rbind (compadre_assert_release
          ''Normal vectors are required for solving GMLS problems with the NEUMANN_GRAD_SCALAR constraint.''
          (g_constraint_type g = NEUMANN_GRAD_SCALAR \<longrightarrow> g_orthonormal_tangent_space_provided g)) (\<lambda>_.
          Inr (g\<lparr>g_initial_index_for_batch := 0\<rparr>, sz))))))) = Inr (g1, sz)"
      using assms unfolding prepare_solve_def rbind_eq_Inr_iff [of _ _ "(g1, sz)"] by blast
    obtain d cols mnp where d: "derive_sizes pl c = (d, cols, mnp)" by (cases "derive_sizes pl c")
    show thesis by (rule that [OF ab b' c d]) (use rest in \<open>simp add: d\<close>)
  qed
  obtain e mbs d_ss f where e: "allocate_manifold pl d mnp = Inr e"
    and m: "max_batch_size (length (g_target_coordinates e)) nb = Inr mbs"
    and sz: "sz = problem_sizes e cols mnp mbs"
    and f: "allocate_batch pl e sz d_ss = Inr f" and g1: "g1 = f\<lparr>g_initial_index_for_batch := 0\<rparr>"
    using rest unfolding Let_def rbind_eq_Inr_iff by blast
  note s = begin_solve_ok [OF ab]
  obtain w where b'_eq: "b' = b\<lparr>g_prestencil_weights := w\<rparr>"
    using b' by (rule allocate_prestencil_weights_elim)
  obtain t cf where e_eq: "e = d\<lparr>g_T := t, g_manifold_curvature_coefficients := cf\<rparr>"
    using e by (rule allocate_manifold_elim)
  obtain r p w' z where f_eq: "f = e\<lparr>g_RHS := r, g_P := p, g_w := w', g_Z := z\<rparr>"
    using f by (rule allocate_batch_elim)
  have o: "solved_order b' = solved_order g" using s(3) by (simp add: b'_eq)
  have sb: "solving g b'" using s(1) by (simp add: b'_eq solving_def settings_def)
  have sd: "solving g d"
    using sb set_multipliers_keeps [OF c] derive_sizes_keeps [OF d] by (simp add: solving_def)
  then show "solving g g1" by (simp add: g1 f_eq e_eq solving_def settings_def)
  show "g_poly_order g1 = solved_order g"
    using o set_multipliers_keeps(10) [OF c] derive_sizes_keeps(10) [OF d]
    by (simp add: g1 f_eq e_eq)
  have "g_target_coordinates e = g_target_coordinates g" using sd by (simp add: e_eq solving_def)
  then show "max_batch_size (length (g_target_coordinates g)) nb = Inr (sz_max_batch_size sz)"
    using m by (simp add: sz problem_sizes_def Let_def)
  show "g_initial_index_for_batch g1 = 0" by (simp add: g1)
  show "ss_lro (g_h_ss g) \<noteq> []" "g_source_coordinates g \<noteq> [] \<or> g_target_coordinates g = []"
    "TO_GLOBAL (getNumberOfTargets (g_neighbor_lists g)) = of_nat (length (g_target_coordinates g))"
    by (rule s(4) s(6) s(5))+
qed

lemma generate_steps:
  assumes "generatePolynomialCoefficients pl g nb keep = Inr g'"
  obtains g1 sz g2 where "solving g g1" "g_poly_order g1 = solved_order g" "ss_lro (g_h_ss g) \<noteq> []"
    and "max_batch_size (length (g_target_coordinates g)) nb = Inr (sz_max_batch_size sz)"
    and "g_initial_index_for_batch g1 = 0"
    and "batch_loop pl sz nb [0..<nat nb] g1 = Inr g2"
    and "publish pl (end_solve g2 nb keep) = Inr g'"
    and "g_source_coordinates g \<noteq> [] \<or> g_target_coordinates g = []"
    and "TO_GLOBAL (getNumberOfTargets (g_neighbor_lists g)) = of_nat (length (g_target_coordinates g))"
proof -
  obtain g1 sz g2 where p: "prepare_solve pl g nb keep = Inr (g1, sz)"
    and l: "batch_loop pl sz nb [0..<nat nb] g1 = Inr g2"
    and e: "publish pl (end_solve g2 nb keep) = Inr g'"
    using assms by (auto simp: generatePolynomialCoefficients_def rbind_eq_Inr_iff)
  note s = prepare_solve_steps [OF p]
  show thesis by (rule that [OF s(1-5) l e s(6,7)])
qed

lemma end_solve_fields [simp]:
  "g_d_ss (end_solve g nb keep) = g_d_ss g"
  "g_host_T (end_solve g nb keep) = g_host_T g"
  "g_target_coordinates (end_solve g nb keep) = g_target_coordinates g"
  "g_poly_order (end_solve g nb keep) = g_poly_order g"
  "settings (end_solve g nb keep) = settings g"
  "g_entire_batch_computed_at_once (end_solve g nb keep)
     = (g_entire_batch_computed_at_once g \<and> nb \<le> 1)"
  by (simp_all add: end_solve_def Let_def settings_def)

lemma ss_update_alphas:
  "ss\<lparr>ss_alphas := a\<rparr> = ss'\<lparr>ss_alphas := b\<rparr> \<Longrightarrow> ss = ss'\<lparr>ss_alphas := ss_alphas ss\<rparr>"
  by (cases ss; cases ss') simp

lemma publish_keeps:
  assumes "publish pl g = Inr g'"
  obtains d_ss where "g_d_ss g = Some d_ss" "g_d_ss g' = Some d_ss"
    "g_h_ss g' = SolutionSet_copy (pl_same_space pl) d_ss"
    "g_host_T g' = g_host_T g" "g_poly_order g' = g_poly_order g" "settings g' = settings g"
    "g_entire_batch_computed_at_once g' = g_entire_batch_computed_at_once g"
    "g_store_PTWP_inv_PTW g' = g_store_PTWP_inv_PTW g"
proof -
  obtain d_ss where "g_d_ss g = Some d_ss"
    using assms by (auto simp: publish_def device_ss_def split: option.splits)
  moreover have "g' = (if sf_neq (g_data_sampling_functional g) PointSample
      then g\<lparr>g_h_ss := SolutionSet_copy (pl_same_space pl) d_ss,
             g_host_prestencil_weights := g_prestencil_weights g\<rparr>
      else g\<lparr>g_h_ss := SolutionSet_copy (pl_same_space pl) d_ss\<rparr>)"
    using assms calculation by (simp add: publish_def device_ss_def Let_def split: if_splits)
  ultimately show thesis using that by (simp add: settings_def)
qed

lemma generate_result:
  assumes "generatePolynomialCoefficients pl g nb keep = Inr g'" "writes_buffers (pl_dev pl)"
  shows "\<exists>n d_ss. alpha_count g (solved_from g) = Inr n \<and> g_d_ss g' = Some d_ss
    \<and> length (ss_alphas d_ss) = unat n \<and> d_ss = (solved_from g)\<lparr>ss_alphas := ss_alphas d_ss\<rparr>
    \<and> g_h_ss g' = SolutionSet_copy (pl_same_space pl) d_ss"
    and "g_poly_order g' = solved_order g"
    and "g_entire_batch_computed_at_once g' \<longleftrightarrow> g_entire_batch_computed_at_once g \<and> nb \<le> 1"
    and "settings g' = settings g"
    and "nb \<le> 0 \<Longrightarrow> \<exists>n d_ss. g_d_ss g' = Some d_ss \<and> ss_alphas d_ss = replicate n 0"
proof -
  obtain g1 sz g2 where s: "solving g g1" and o: "g_poly_order g1 = solved_order g"
    and l: "batch_loop pl sz nb [0..<nat nb] g1 = Inr g2"
    and p: "publish pl (end_solve g2 nb keep) = Inr g'"
    using generate_steps [OF assms(1)] by blast
  have "frame g2 = frame g1" using batch_loop_frame [OF assms(2) l] by simp
  note fr = frame_fields [OF this]
  obtain n where n: "alpha_count g (solved_from g) = Inr n"
    and d1: "g_d_ss g1 = Some ((solved_from g)\<lparr>ss_alphas := replicate (unat n) 0\<rparr>)"
    using s by (auto simp: solving_def)
  obtain d_ss where d: "g_d_ss g2 = Some d_ss" "g_d_ss g' = Some d_ss"
    "g_h_ss g' = SolutionSet_copy (pl_same_space pl) d_ss" "g_poly_order g' = g_poly_order g2" "settings g' = settings g2"
    "g_entire_batch_computed_at_once g' \<longleftrightarrow> g_entire_batch_computed_at_once g2 \<and> nb \<le> 1"
    using publish_keeps [OF p] by auto
  have e: "d_ss\<lparr>ss_alphas := zeros (ss_alphas d_ss)\<rparr> = (solved_from g)\<lparr>ss_alphas := replicate (unat n) 0\<rparr>"
    using fr(7) d(1) d1 by (simp add: zeros_def)
  have len: "length (ss_alphas d_ss) = unat n"
    using arg_cong [OF e, of "\<lambda>ss. length (ss_alphas ss)"] by simp
  show "\<exists>n d_ss. alpha_count g (solved_from g) = Inr n \<and> g_d_ss g' = Some d_ss
    \<and> length (ss_alphas d_ss) = unat n \<and> d_ss = (solved_from g)\<lparr>ss_alphas := ss_alphas d_ss\<rparr>
    \<and> g_h_ss g' = SolutionSet_copy (pl_same_space pl) d_ss"
    using n len ss_update_alphas [OF e] d by blast
  show "g_poly_order g' = solved_order g" using d(4) fr(8) o by simp
  show "g_entire_batch_computed_at_once g' \<longleftrightarrow> g_entire_batch_computed_at_once g \<and> nb \<le> 1"
    using d(6) fr(10) s by (simp add: solving_def)
  show "settings g' = settings g" using d(5) fr(11) s by (simp add: solving_def)
  show "\<exists>n d_ss. g_d_ss g' = Some d_ss \<and> ss_alphas d_ss = replicate n 0" if "nb \<le> 0"
  proof -
    have "g2 = g1" using l that by simp
    then show ?thesis using d(1,2) d1 by auto
  qed
qed

end
