(* ===== verification/Compadre_GMLS_Solve.thy ===== *)
theory Compadre_GMLS_Solve
  imports Compadre_GMLS_Driver
begin

text \<open>
  What a call of \<open>generatePolynomialCoefficients\<close> achieves, for a device that writes into the
  buffers only: when it succeeds, what the solution set holds afterwards, which batches it
  runs, and what it leaves behind in the object.
\<close>

section \<open>The alphas fit the solution set\<close>

lemma alphas_total:
  "(\<Sum>i<alpha_rows ss. alpha_width ss i)
    = ((\<Sum>i<nl_rows (ss_neighbor_lists ss). nl_count (ss_neighbor_lists ss) i)
       + alpha_rows ss * nat (ss_added_alpha_size ss)) * alpha_columns ss"
  by (simp add: alpha_width_def alpha_depth_def alpha_rows_def sum.distrib algebra_simps
      flip: sum_distrib_left)

text \<open>The sizes of a problem that the address arithmetic of the code can represent.\<close>

definition alphas_fit :: "solution_set \<Rightarrow> bool" where
  "alphas_fit ss \<longleftrightarrow>
     alpha_rows ss < 2 ^ 31 \<and> (\<Sum>i < alpha_rows ss. alpha_width ss i) < 2 ^ 64
     \<and> int (alpha_rows ss) * ss_added_alpha_size ss < 2 ^ 31
     \<and> (\<forall>i < alpha_rows ss. int (alpha_columns ss * alpha_depth ss i) < 2 ^ 31)"

lemma ss_total_nonneg:
  assumes "ss_inv ss" "ss_lro ss \<noteq> []"
  shows "0 \<le> ss_total_alpha_values ss"
proof -
  have r: "0 < ss_rows ss" using assms(2) by (simp add: ss_rows_def)
  note t = ss_inv_tables [OF assms(1) r]
  have "0 \<le> (\<Sum>i < ss_rows ss. op_columns (ss_local_dimensions ss)
      (getOutputDimensionOfSampling (ss_data_sampling_functional ss) (ss_local_dimensions ss)) (ss_lro ss ! i))"
    using t(1,2) by (intro sum_nonneg) (simp add: op_columns_nonneg)
  then show ?thesis using t(8) by simp
qed

lemma alpha_count_value:
  assumes "nl_wf (g_neighbor_lists g)" "ss_neighbor_lists ss = g_neighbor_lists g"
    and "length (g_target_coordinates g) = alpha_rows ss"
    and "0 \<le> ss_added_alpha_size ss" "0 \<le> ss_total_alpha_values ss"
    and "0 \<le> ss_max_evaluation_sites_per_target ss" "alphas_fit ss"
  shows "alpha_count g ss = Inr (of_nat (\<Sum>i < alpha_rows ss. alpha_width ss i))"
proof -
  obtain a tot e where ate: "ss_added_alpha_size ss = int a"
      "ss_total_alpha_values ss = int tot" "ss_max_evaluation_sites_per_target ss = int e"
    using assms(4-6) by (metis nonneg_int_cases)
  have "alpha_rows ss * a < 2 ^ 31"
    using assms(7) ate(1) by (simp add: alphas_fit_def flip: of_nat_mult)
  then have "TO_INT (of_nat (alpha_rows ss) * TO_GLOBAL (int a)) = int (alpha_rows ss * a)"
    using TO_INT_nat [of "alpha_rows ss * a"] by (simp add: TO_GLOBAL_of_nat)
  moreover have "TO_GLOBAL (int a * int (alpha_rows ss)) = of_nat a * of_nat (alpha_rows ss)"
    using TO_GLOBAL_of_nat [of "a * alpha_rows ss"] by simp
  ultimately show ?thesis
    using nl_total_host [OF assms(1)]
    by (simp add: alpha_count_def assms(2,3) ate TO_GLOBAL_of_nat alphas_total alpha_columns_def
        Let_def algebra_simps del: of_nat_sum)
qed

lemma alphas_inv_solved:
  assumes "ss_inv ss" "ss_lro ss \<noteq> []" "nl_wf (ss_neighbor_lists ss)"
    and "0 \<le> ss_added_alpha_size ss" "0 \<le> ss_max_evaluation_sites_per_target ss" "alphas_fit ss"
    and "length alphas = (\<Sum>i < alpha_rows ss. alpha_width ss i)"
  shows "alphas_inv (ss\<lparr>ss_alphas := alphas\<rparr>)"
  using assms ss_total_nonneg [OF assms(1,2)]
  by (auto simp: alphas_inv_def alphas_fit_def ss_inv_def alpha_rows_def alpha_width_def alpha_depth_def
      alpha_columns_def)

lemma solved_from_keeps [simp]:
  "ss_lro (solved_from g) = ss_lro (g_h_ss g)"
  "ss_neighbor_lists (solved_from g) = ss_neighbor_lists (g_h_ss g)"
  "ss_max_evaluation_sites_per_target (solved_from g) = ss_max_evaluation_sites_per_target (g_h_ss g)"
  "ss_total_alpha_values (solved_from g) = ss_total_alpha_values (g_h_ss g)"
  "0 \<le> ss_added_alpha_size (solved_from g)"
  "ss_inv (solved_from g) \<longleftrightarrow> ss_inv (g_h_ss g)"
  by (simp_all add: solved_from_def SolutionSet_copy_def ss_inv_def
      getAdditionalAlphaSizeFromConstraint_def)

lemma solved_set:
  assumes "gmls_inv g" "g_target_coordinates g \<noteq> []" "writes_buffers (pl_dev pl)"
    and "length (g_target_coordinates g) < 2 ^ 31" "alphas_fit (solved_from g)"
    and "generatePolynomialCoefficients pl g nb keep = Inr g'"
  shows "\<exists>alphas. snd (getSolutionSetHost g') = (solved_from g)\<lparr>ss_alphas := alphas\<rparr>
    \<and> map_option ss_alphas (g_d_ss g') = Some alphas
    \<and> ss_neighbor_lists (g_h_ss g) = g_neighbor_lists g
    \<and> alphas_inv ((solved_from g)\<lparr>ss_alphas := alphas\<rparr>)"
proof -
  obtain n d_ss where n: "alpha_count g (solved_from g) = Inr n" and d: "g_d_ss g' = Some d_ss"
    "length (ss_alphas d_ss) = unat n" "d_ss = (solved_from g)\<lparr>ss_alphas := ss_alphas d_ss\<rparr>"
    "g_h_ss g' = SolutionSet_copy (pl_same_space pl) d_ss"
    using generate_result(1) [OF assms(6,3)] by blast
  obtain t where t: "ss_lro (g_h_ss g) \<noteq> []" "g_source_coordinates g \<noteq> []"
    "TO_GLOBAL (getNumberOfTargets (g_neighbor_lists g)) = of_nat (length (g_target_coordinates g))"
    using generate_steps [OF assms(6)] assms(2) by blast
  let ?nl = "g_neighbor_lists g" and ?N = "length (g_target_coordinates g)"
  have core: "nl_ready ?nl" "ss_inv (g_h_ss g)" "connected g"
    "ss_max_evaluation_sites_per_target (g_h_ss g) = max_count (g_additional_evaluation_indices g) + 1"
    using assms(1) by (simp_all add: gmls_inv_def gmls_core_def)
  have ne: "getNumberOfTargets ?nl \<noteq> 0"
  proof
    assume "getNumberOfTargets ?nl = 0"
    then have "of_nat ?N = (of_nat 0 :: u64)" using t(3) by (simp add: TO_GLOBAL_def)
    then show False using of_nat_u64_inj [of ?N 0] assms(2,4) by simp
  qed
  then have wf: "nl_wf ?nl"
    using core(1) by (auto simp: nl_ready_def nl_exact_def NeighborLists_default_def getNumberOfTargets_def)
  have con: "ss_neighbor_lists (g_h_ss g) = ?nl"
    using core(3) ne t(2) assms(2) by (simp add: connected_def)
  have small: "nl_rows ?nl < 2 ^ 64"
    using assms(5) con by (simp add: alphas_fit_def alpha_rows_def)
  have rows: "?N = alpha_rows (solved_from g)"
  proof -
    have "getNumberOfTargets ?nl = int (nl_rows ?nl)"
      using nl_wfD(2) [OF wf] by (simp add: getNumberOfTargets_def nl_rows_def)
    then have "of_nat (nl_rows ?nl) = (of_nat ?N :: u64)" using t(3) by (simp add: TO_GLOBAL_of_nat)
    then show ?thesis using of_nat_u64_inj [OF small, of ?N] assms(4) con by (simp add: alpha_rows_def)
  qed
  have sites: "0 \<le> ss_max_evaluation_sites_per_target (solved_from g)"
    using core(4) by (simp add: max_count_def)
  let ?S = "\<Sum>i < alpha_rows (solved_from g). alpha_width (solved_from g) i"
  have "n = of_nat ?S"
    using n alpha_count_value [OF wf _ rows _ _ sites assms(5)] con ss_total_nonneg [OF core(2) t(1)]
    by (simp del: of_nat_sum)
  moreover have "?S < 2 ^ 64" using assms(5) by (simp add: alphas_fit_def)
  ultimately have "length (ss_alphas d_ss) = ?S"
    using d(2) by (simp add: unat_of_nat take_bit_nat_eq_self del: of_nat_sum)
  then have inv: "alphas_inv ((solved_from g)\<lparr>ss_alphas := ss_alphas d_ss\<rparr>)"
    using alphas_inv_solved [of "solved_from g" "ss_alphas d_ss"] wf con core(2) t(1) sites assms(5)
    by simp
  have "snd (getSolutionSetHost g') = d_ss"
    by (cases d_ss) (simp add: getSolutionSetHost_def d(1,4) copyAlphas_def SolutionSet_copy_eq Let_def)
  then show ?thesis using inv d con by auto
qed

section \<open>A solve ends\<close>

definition device_total :: "platform \<Rightarrow> bool" where
  "device_total pl \<longleftrightarrow> (\<forall>call g. \<exists>g'. pl_dev pl call g = Inr g')"

text \<open>The managers that a solve uses give policies: their scratch sizes add up in \<open>int\<close>.\<close>

definition scratch_ok :: "platform \<Rightarrow> gmls \<Rightarrow> bool" where
  "scratch_ok pl g \<longleftrightarrow>
     (\<exists>pm. ParallelManager_make (pl_use_cuda pl) (pl_env pl) = Inr pm \<and> pm_fits pm)
     \<and> (\<forall>g1. set_multipliers g = Inr g1 \<longrightarrow> pm_fits (g_pm (fst (derive_sizes pl g1))))"

lemma performs_end:
  assumes "device_total pl"
  shows "\<exists>g'. rfold (perform pl) calls g = Inr g'"
proof (induction calls arbitrary: g)
  case Nil
  then show ?case by simp
next
  case (Cons call calls)
  have "\<exists>g1. perform pl call g = Inr g1"
    using assms by (auto simp: perform_def device_total_def split: device_call.splits)
  then show ?case using Cons.IH by auto
qed

lemma one_batch_ends:
  assumes "device_total pl" "g_d_ss g = Some d_ss" "pm_fits (g_pm g)"
    and "ParallelManager_make (pl_use_cuda pl) (pl_env pl) = Inr pm" "pm_fits pm"
  shows "\<exists>g'. one_batch pl sz last_batch g = Inr g'"
proof -
  have z: "g_d_ss (zero_buffers g) = Some d_ss" "g_pm (zero_buffers g) = g_pm g"
    using assms(2) by (simp_all add: zero_buffers_def)
  obtain tp where tp: "TeamPolicyThreadsAndVectors (g_pm g) (this_batch_size g sz)
      (pm_default_threads (g_pm g)) 1 = Inr tp"
    using assms(3) by (simp add: TeamPolicy_eq)
  obtain g1 where g1: "rfold (perform pl) (batch_calls (zero_buffers g) sz (ss_added_alpha_size d_ss)
      (this_batch_size g sz) tp last_batch) (zero_buffers g) = Inr g1"
    using performs_end [OF assms(1)] by blast
  obtain tp2 where tp2: "TeamPolicyThreadsAndVectors pm (this_batch_size g sz)
      (pm_default_threads pm) (pm_default_vector_lanes pm) = Inr tp2"
    using assms(5) by (simp add: TeamPolicy_eq)
  obtain g2 where "perform pl (Launch ApplyTargets tp2) g1 = Inr g2"
    using performs_end [OF assms(1), of "[Launch ApplyTargets tp2]" g1] by (auto simp: rbind_eq_Inr_iff)
  then show ?thesis
    using tp g1 tp2 assms(4) z by (simp add: one_batch_def Let_def device_ss_def)
qed

lemma batch_loop_ends:
  assumes "device_total pl" "writes_buffers (pl_dev pl)"
    and "ParallelManager_make (pl_use_cuda pl) (pl_env pl) = Inr pm" "pm_fits pm"
    and "g_d_ss g \<noteq> None" "pm_fits (g_pm g)"
  shows "\<exists>g'. batch_loop pl sz nb bs g = Inr g'"
  using assms(5,6)
proof (induction bs arbitrary: g)
  case Nil
  then show ?case by simp
next
  case (Cons b bs)
  obtain g1 where g1: "one_batch pl sz (int b = nb - 1) g = Inr g1"
    using one_batch_ends [OF assms(1) _ Cons.prems(2) assms(3,4)] Cons.prems(1) by blast
  have "g_d_ss g1 \<noteq> None" "pm_fits (g_pm g1)"
    using frame_fields(7,9) [OF one_batch_keeps(1) [OF assms(2) g1]] Cons.prems by auto
  then show ?case using Cons.IH g1 by auto
qed

lemma derive_sizes_pm_cong:
  "g_pm (fst (derive_sizes pl (raise_order (store_multipliers
      (g\<lparr>g_qm := q, g_host_operations := h, g_operations := ops, g_d_ss := d, g_prestencil_weights := w\<rparr>)
      bm sm))))
   = g_pm (fst (derive_sizes pl (raise_order (store_multipliers g bm sm))))"
  by (simp add: derive_sizes_def manifold_sizes_def standard_sizes_def raise_order_def
      store_multipliers_def set_scratch_def Let_def)

text \<open>The input that the checks of a solve accept.\<close>

definition solve_accepts :: "gmls \<Rightarrow> int \<Rightarrow> bool \<Rightarrow> bool" where
  "solve_accepts g nb keep \<longleftrightarrow>
     (keep \<longrightarrow> nb = 1) \<and> (\<exists>qm. quadrature_of g = Inr qm) \<and> ss_lro (g_h_ss g) \<noteq> []
     \<and> TO_GLOBAL (getNumberOfTargets (g_neighbor_lists g)) = of_nat (length (g_target_coordinates g))
     \<and> (g_source_coordinates g \<noteq> [] \<or> g_target_coordinates g = [])
     \<and> (g_constraint_type g = NEUMANN_GRAD_SCALAR \<longrightarrow>
          g_dense_solver_type g \<noteq> QR \<and> g_orthonormal_tangent_space_provided g)"

lemma begin_solve_accepts:
  "solve_accepts g nb keep \<Longrightarrow> \<exists>qm. begin_solve pl g nb keep = Inr (begun (pl_same_space pl) qm g)"
  by (auto simp: begin_solve_Inr solve_accepts_def)

text \<open>
  The views on the device whose size depends on the problem, and a solve that ends because
  one of them can not be allocated.
\<close>

definition device_views :: "string list" where
  "device_views = [''alphas'', ''Prestencil weights'', ''tangent approximation'',
     ''manifold curvature coefficients'', ''RHS'', ''P'', ''w'', ''Z'']"

definition out_of_memory :: "platform \<Rightarrow> 'a result \<Rightarrow> bool" where
  "out_of_memory pl r \<longleftrightarrow>
     (\<exists>label \<in> set device_views. r = Inl (Allocation_failure label) \<and> (\<exists>n. \<not> pl_allocates pl label n))"

lemma out_of_memory_rbind: "out_of_memory pl r \<Longrightarrow> out_of_memory pl (rbind r f)"
  by (auto simp: out_of_memory_def)

lemma allocate_cases:
  assumes "label \<in> set device_views"
  shows "allocate pl label n = Inr (replicate n 0) \<or> out_of_memory pl (rbind (allocate pl label n) f)"
  using assms by (auto simp: allocate_def out_of_memory_def)

lemma device_views_simps [simp]:
  "''alphas'' \<in> set device_views" "''Prestencil weights'' \<in> set device_views"
  "''tangent approximation'' \<in> set device_views"
  "''manifold curvature coefficients'' \<in> set device_views"
  "''RHS'' \<in> set device_views" "''P'' \<in> set device_views" "''w'' \<in> set device_views"
  "''Z'' \<in> set device_views"
  by (simp_all add: device_views_def)

lemma allocate_batch_cases:
  "(\<exists>g'. allocate_batch pl g sz d_ss = Inr g') \<or> out_of_memory pl (allocate_batch pl g sz d_ss)"
proof -
  obtain R0 R1 where R: "sz_RHS_dims sz = (R0, R1)" by (cases "sz_RHS_dims sz")
  obtain P0 P1 where P: "sz_P_dims sz = (P0, P1)" by (cases "sz_P_dims sz")
  have "(\<exists>g'. rbind (allocate pl ''RHS'' a) (\<lambda>RHS. rbind (allocate pl ''P'' b) (\<lambda>P.
      rbind (allocate pl ''w'' c) (\<lambda>w. rbind (allocate pl ''Z'' d) (\<lambda>Z.
        Inr (g\<lparr>g_RHS := RHS, g_P := P, g_w := w, g_Z := Z\<rparr>))))) = Inr g')
    \<or> out_of_memory pl (rbind (allocate pl ''RHS'' a) (\<lambda>RHS. rbind (allocate pl ''P'' b) (\<lambda>P.
      rbind (allocate pl ''w'' c) (\<lambda>w. rbind (allocate pl ''Z'' d) (\<lambda>Z.
        Inr (g\<lparr>g_RHS := RHS, g_P := P, g_w := w, g_Z := Z\<rparr>))))))" for a b c d
    by (simp add: allocate_def out_of_memory_def) (metis device_views_simps)
  then show ?thesis by (simp add: allocate_batch_def R P Let_def)
qed

lemma allocate_manifold_cases:
  "(\<exists>g'. allocate_manifold pl g mnp = Inr g') \<or> out_of_memory pl (allocate_manifold pl g mnp)"
  by (simp add: allocate_manifold_def allocate_def out_of_memory_def Let_def)
    (metis device_views_simps)

text \<open>What the preparation of an accepted solve comes to.\<close>

lemma prepare_solve_cases:
  assumes "scratch_ok pl g" "solve_accepts g nb keep"
    and "getTotalNeighborsOverAllListsHost (g_neighbor_lists g) = Inr tot"
  shows "out_of_memory pl (prepare_solve pl g nb keep)
    \<or> (if TO_GLOBAL nb = 0 then prepare_solve pl g nb keep = Inl Division_by_zero
       else \<exists>g1 sz. prepare_solve pl g nb keep = Inr (g1, sz) \<and> g_d_ss g1 \<noteq> None \<and> pm_fits (g_pm g1))"
proof -
  obtain qm where a_begin: "begin_solve pl g nb keep = Inr (begun (pl_same_space pl) qm g)"
    using begin_solve_accepts [OF assms(2)] by blast
  define a where "a = begun (pl_same_space pl) qm g"
  note started = a_begin [folded a_def]
  have "(\<exists>x. allocate_alphas pl a = Inr (a\<lparr>g_d_ss := Some x\<rparr>)) \<or> out_of_memory pl (allocate_alphas pl a)"
    using assms(3) by (simp add: allocate_alphas_def device_ss_def alpha_count_def a_def begun_def Let_def
        allocate_def out_of_memory_def) (metis device_views_simps)
  then consider (fail) "out_of_memory pl (allocate_alphas pl a)"
    | (ok) x where "allocate_alphas pl a = Inr (a\<lparr>g_d_ss := Some x\<rparr>)" by blast
  then show ?thesis
  proof cases
    case fail
    then show ?thesis by (simp add: prepare_solve_def started out_of_memory_rbind)
  next
    case ok
    define b where "b = a\<lparr>g_d_ss := Some x\<rparr>"
    have "(\<exists>w. allocate_prestencil_weights pl b = Inr (b\<lparr>g_prestencil_weights := w\<rparr>))
        \<or> out_of_memory pl (allocate_prestencil_weights pl b)"
      by (simp add: allocate_prestencil_weights_def allocate_def out_of_memory_def)
        (metis device_views_simps)
    then consider (fail) "out_of_memory pl (allocate_prestencil_weights pl b)"
      | (ok) w where "allocate_prestencil_weights pl b = Inr (b\<lparr>g_prestencil_weights := w\<rparr>)" by blast
    then show ?thesis
    proof cases
      case fail
      then show ?thesis
        by (simp add: prepare_solve_def started \<open>allocate_alphas pl a = _\<close> out_of_memory_rbind flip: b_def)
    next
      case weights: ok
      define c where "c = b\<lparr>g_prestencil_weights := w\<rparr>"
      define bm where "bm = (if g_reconstruction_space g = VectorTaylorPolynomial then g_local_dimensions g else 1)"
      define sm where "sm = (let n = getOutputDimensionOfSampling (g_data_sampling_functional g) (g_local_dimensions g)
        in if g_reconstruction_space g = VectorOfScalarClonesTaylorPolynomial then min 1 n else n)"
      have mult: "set_multipliers h = Inr (raise_order (store_multipliers h bm sm))"
        if "g_reconstruction_space h = g_reconstruction_space g" "g_local_dimensions h = g_local_dimensions g"
          "g_data_sampling_functional h = g_data_sampling_functional g" for h
        using that by (simp add: set_multipliers_def calculateSamplingMultiplier_eq bm_def sm_def Let_def)
      define c' where "c' = raise_order (store_multipliers c bm sm)"
      have c': "set_multipliers c = Inr c'"
        unfolding c'_def by (rule mult) (simp_all add: c_def b_def a_def begun_def)
      obtain d cols mnp where d: "derive_sizes pl c' = (d, cols, mnp)" by (cases "derive_sizes pl c'")
      have "pm_fits (g_pm (fst (derive_sizes pl (raise_order (store_multipliers g bm sm)))))"
        using assms(1) mult [of g] by (simp add: scratch_ok_def)
      moreover have "g_pm (fst (derive_sizes pl c')) = g_pm (fst (derive_sizes pl (raise_order (store_multipliers g bm sm))))"
        by (simp add: c'_def c_def b_def a_def begun_def derive_sizes_pm_cong)
      ultimately have fits: "pm_fits (g_pm d)" using d by simp
      have keeps: "g_constraint_type d = g_constraint_type g"
          "g_orthonormal_tangent_space_provided d = g_orthonormal_tangent_space_provided g"
          "g_d_ss d = Some x"
        using derive_sizes_keeps(6,9,11) [OF d]
        by (simp_all add: c'_def c_def b_def a_def begun_def raise_order_def store_multipliers_def)
      have normals: "g_constraint_type g = NEUMANN_GRAD_SCALAR \<longrightarrow> g_orthonormal_tangent_space_provided g"
        using assms(2) by (simp add: solve_accepts_def)
      have upto: "prepare_solve pl g nb keep = rbind (allocate_manifold pl d mnp) (\<lambda>g.
     rbind (max_batch_size (length (g_target_coordinates g)) nb) (\<lambda>mbs.
     let sz = problem_sizes g cols mnp mbs
     in rbind (device_ss g) (\<lambda>d_ss.
        rbind (allocate_batch pl g sz d_ss) (\<lambda>g.
        rbind (compadre_assert_release
          ''Normal vectors are required for solving GMLS problems with the NEUMANN_GRAD_SCALAR constraint.''
          (g_constraint_type g = NEUMANN_GRAD_SCALAR \<longrightarrow> g_orthonormal_tangent_space_provided g)) (\<lambda>_.
          Inr (g\<lparr>g_initial_index_for_batch := 0\<rparr>, sz))))))"
        by (simp add: prepare_solve_def started ok weights c' d flip: b_def c_def)
      show ?thesis
      proof (cases "out_of_memory pl (allocate_manifold pl d mnp)")
        case True
        then show ?thesis by (simp add: upto out_of_memory_rbind)
      next
        case False
        then obtain e where e: "allocate_manifold pl d mnp = Inr e" using allocate_manifold_cases by blast
        then obtain t cf where e_eq: "e = d\<lparr>g_T := t, g_manifold_curvature_coefficients := cf\<rparr>"
          by (rule allocate_manifold_elim)
        have dev: "device_ss e = Inr x" by (simp add: e_eq device_ss_def keeps)
        show ?thesis
        proof (cases "TO_GLOBAL nb = 0")
          case True
          then show ?thesis by (simp add: upto e max_batch_size_def)
        next
          case nz: False
          define mbs where "mbs = (of_nat (length (g_target_coordinates e)) + TO_GLOBAL nb - 1) div TO_GLOBAL nb"
          have mbs: "max_batch_size (length (g_target_coordinates e)) nb = Inr mbs"
            using nz by (simp add: max_batch_size_def mbs_def)
          define sz where "sz = problem_sizes e cols mnp mbs"
          show ?thesis
          proof (cases "out_of_memory pl (allocate_batch pl e sz x)")
            case True
            then show ?thesis by (simp add: upto e mbs dev Let_def out_of_memory_rbind flip: sz_def)
          next
            case False
            then obtain f where f: "allocate_batch pl e sz x = Inr f" using allocate_batch_cases by blast
            then obtain r p w' z where f_eq: "f = e\<lparr>g_RHS := r, g_P := p, g_w := w', g_Z := z\<rparr>"
              by (rule allocate_batch_elim)
            have "g_constraint_type f = NEUMANN_GRAD_SCALAR \<longrightarrow> g_orthonormal_tangent_space_provided f"
              using normals keeps by (simp add: f_eq e_eq)
            then have "prepare_solve pl g nb keep = Inr (f\<lparr>g_initial_index_for_batch := 0\<rparr>, sz)"
              by (simp add: upto e mbs dev f Let_def compadre_assert_release_def flip: sz_def)
            then show ?thesis using nz fits by (simp add: f_eq e_eq keeps)
          qed
        qed
      qed
    qed
  qed
qed

lemma solve_ends:
  assumes "device_total pl" "writes_buffers (pl_dev pl)" "scratch_ok pl g"
    and "solve_accepts g nb keep" "TO_GLOBAL nb \<noteq> 0"
    and "getTotalNeighborsOverAllListsHost (g_neighbor_lists g) = Inr tot"
  shows "(\<exists>g'. generatePolynomialCoefficients pl g nb keep = Inr g')
    \<or> out_of_memory pl (generatePolynomialCoefficients pl g nb keep)"
proof (cases "out_of_memory pl (prepare_solve pl g nb keep)")
  case True
  then show ?thesis by (simp add: generatePolynomialCoefficients_def out_of_memory_rbind)
next
  case False
  obtain pm where pm: "ParallelManager_make (pl_use_cuda pl) (pl_env pl) = Inr pm" "pm_fits pm"
    using assms(3) by (auto simp: scratch_ok_def)
  obtain e sz where e: "prepare_solve pl g nb keep = Inr (e, sz)" "g_d_ss e \<noteq> None" "pm_fits (g_pm e)"
    using prepare_solve_cases [OF assms(3,4,6)] False assms(5) by auto
  obtain g2 where g2: "batch_loop pl sz nb [0..<nat nb] e = Inr g2"
    using batch_loop_ends [OF assms(1,2) pm e(2,3)] by blast
  have "g_d_ss g2 \<noteq> None"
    using frame_fields(7) [OF conjunct1 [OF batch_loop_frame [OF assms(2) g2]]] e(2) by auto
  then obtain g' where "publish pl (end_solve g2 nb keep) = Inr g'"
    by (auto simp: publish_def device_ss_def Let_def)
  then show ?thesis using e(1) g2 by (simp add: generatePolynomialCoefficients_def)
qed

text \<open>A solve leaves an object that can be solved again.\<close>

lemma derive_sizes_fits:
  assumes "pm_scratch_team_level_a (g_pm g) \<noteq> pm_scratch_team_level_b (g_pm g)"
    and "pm_scratch_thread_level_a (g_pm g) \<noteq> pm_scratch_thread_level_b (g_pm g)"
  shows "pm_fits (g_pm (fst (derive_sizes pl g)))"
  using assms
  by (simp add: derive_sizes_def manifold_sizes_def standard_sizes_def set_scratch_def Let_def
      pm_fits_def setThreadScratchSize_def setTeamScratchSize_def)

definition two_levels :: "gmls \<Rightarrow> bool" where
  "two_levels g \<longleftrightarrow>
     pm_scratch_team_level_a (g_pm g) \<noteq> pm_scratch_team_level_b (g_pm g)
     \<and> pm_scratch_thread_level_a (g_pm g) \<noteq> pm_scratch_thread_level_b (g_pm g)"

lemma two_levels_scratch:
  assumes "two_levels g" "\<exists>pm. ParallelManager_make (pl_use_cuda pl) (pl_env pl) = Inr pm \<and> pm_fits pm"
  shows "scratch_ok pl g"
proof -
  have "g_pm g1 = g_pm g" if "set_multipliers g = Inr g1" for g1
    using that by (elim set_multipliers_elim) (simp add: raise_order_def store_multipliers_def)
  then show ?thesis
    using assms derive_sizes_fits by (metis scratch_ok_def two_levels_def)
qed

lemma solve_again:
  assumes "generatePolynomialCoefficients pl g nb keep = Inr g'" "writes_buffers (pl_dev pl)"
    and "two_levels g" "solve_accepts g nb' keep'"
  shows "two_levels g'" "solve_accepts g' nb' keep'" "g_neighbor_lists g' = g_neighbor_lists g"
proof -
  have s: "settings g' = settings g" by (rule generate_result(4) [OF assms(1,2)])
  have "ss_lro (g_h_ss g') = ss_lro (g_h_ss g)"
    using generate_result(1) [OF assms(1,2)]
    by (auto simp: SolutionSet_copy_def) (metis solution_set.select_convs(1) solution_set.surjective solution_set.update_convs(8) solved_from_keeps(1))
  then show "two_levels g'" "solve_accepts g' nb' keep'" "g_neighbor_lists g' = g_neighbor_lists g"
    using s assms(3,4) by (simp_all add: settings_def two_levels_def solve_accepts_def quadrature_of_def)
qed

lemma kept_flag:
  assumes "generatePolynomialCoefficients pl g 1 True = Inr g'"
  shows "g_store_PTWP_inv_PTW g'"
proof -
  obtain g2 where p: "publish pl (end_solve g2 1 True) = Inr g'"
    using generate_steps [OF assms] by blast
  have "g_store_PTWP_inv_PTW (end_solve g2 1 True)" by (simp add: end_solve_def Let_def)
  then show ?thesis using publish_keeps [OF p] by blast
qed

text \<open>The device has no part in the preparation of a solve and in its end.\<close>

lemma platform_device:
  "pl_same_space (pl\<lparr>pl_dev := dev\<rparr>) = pl_same_space pl"
  "pl_shmem_vector (pl\<lparr>pl_dev := dev\<rparr>) = pl_shmem_vector pl"
  "pl_shmem_matrix (pl\<lparr>pl_dev := dev\<rparr>) = pl_shmem_matrix pl"
  by simp_all

lemma allocate_device: "allocate (pl\<lparr>pl_dev := dev\<rparr>) = allocate pl"
  by (intro ext) (simp add: allocate_def)

lemma derive_sizes_device: "derive_sizes (pl\<lparr>pl_dev := dev\<rparr>) = derive_sizes pl"
proof
  fix g
  have "manifold_sizes (pl\<lparr>pl_dev := dev\<rparr>) g = manifold_sizes pl g"
    unfolding manifold_sizes_def platform_device by (rule refl)
  moreover have "standard_sizes (pl\<lparr>pl_dev := dev\<rparr>) g = standard_sizes pl g"
    unfolding standard_sizes_def platform_device by (rule refl)
  ultimately show "derive_sizes (pl\<lparr>pl_dev := dev\<rparr>) g = derive_sizes pl g"
    by (simp add: derive_sizes_def)
qed

lemma allocations_device:
  "allocate_alphas (pl\<lparr>pl_dev := dev\<rparr>) = allocate_alphas pl"
  "allocate_prestencil_weights (pl\<lparr>pl_dev := dev\<rparr>) = allocate_prestencil_weights pl"
  "allocate_manifold (pl\<lparr>pl_dev := dev\<rparr>) = allocate_manifold pl"
  "allocate_batch (pl\<lparr>pl_dev := dev\<rparr>) = allocate_batch pl"
  by (intro ext, simp only: allocate_alphas_def allocate_prestencil_weights_def allocate_manifold_def
      allocate_batch_def allocate_device)+

lemma prepare_solve_device [simp]:
  "prepare_solve (pl\<lparr>pl_dev := dev\<rparr>) g nb keep = prepare_solve pl g nb keep"
proof -
  have "begin_solve (pl\<lparr>pl_dev := dev\<rparr>) g nb keep = begin_solve pl g nb keep"
    unfolding begin_solve_def platform_device by (rule refl)
  then show ?thesis
    unfolding prepare_solve_def allocations_device derive_sizes_device by (rule arg_cong)
qed

lemma publish_device [simp]: "publish (pl\<lparr>pl_dev := dev\<rparr>) g = publish pl g"
  by (simp add: publish_def)

lemma TO_GLOBAL_negative:
  assumes "- (2 ^ 31) \<le> nb" "nb < 0"
  shows "TO_GLOBAL nb \<noteq> 0"
proof
  assume "TO_GLOBAL nb = 0"
  then have "(2 :: int) ^ 64 dvd nb" by (simp add: TO_GLOBAL_def word_of_int_eq_0_iff)
  then show False using assms zdvd_imp_le [of "2 ^ 64" "- nb"] by simp
qed

text \<open>The rounds that a division into batches needs.\<close>

lemma plan_short:
  assumes "N - s \<le> k * m" "s \<le> N" "0 < k" "k \<le> k'"
  shows "length (batch_plan N m s k') \<le> k"
  using assms
proof (induction k' arbitrary: s k)
  case 0
  then show ?case by simp
next
  case (Suc k')
  show ?case
  proof (cases "s + min (N - s) m = N")
    case True
    then show ?thesis using Suc.prems by simp
  next
    case False
    then have m: "min (N - s) m = m" "s + m \<le> N" using Suc.prems by auto
    obtain l where l: "k = Suc l" using Suc.prems(3) by (cases k) auto
    have "N - (s + m) \<le> l * m" "l \<le> k'" using Suc.prems m l by auto
    moreover from this have "0 < l" using False m by (cases l) auto
    ultimately have "length (batch_plan N m (s + m) k') \<le> l" using Suc.IH m(2) by blast
    then show ?thesis using m False l by simp
  qed
qed

section \<open>The example problem\<close>

text \<open>
  Two targets in the plane with two and one neighbors, a value and a gradient, and a device
  that computes nothing.
\<close>

definition idle_platform :: platform where
  "idle_platform = \<lparr>pl_use_cuda = True, pl_same_space = False, pl_env = (\<lambda>_. None),
     pl_shmem_vector = (\<lambda>n. 8 * n), pl_shmem_matrix = (\<lambda>m n. 8 * m * n),
     pl_allocates = (\<lambda>_ _. True), pl_dev = (\<lambda>call g. Inr g)\<rparr>"

lemma idle_platform_facts:
  "device_total idle_platform" "writes_buffers (pl_dev idle_platform)"
  by (simp_all add: idle_platform_def device_total_def writes_buffers_def)

lemma idle_platform_memory: "\<not> out_of_memory idle_platform r"
  by (simp add: idle_platform_def out_of_memory_def)

lemma idle_platform_manager:
  "\<exists>pm. ParallelManager_make (pl_use_cuda idle_platform) (pl_env idle_platform) = Inr pm \<and> pm_fits pm"
  by (simp add: idle_platform_def ParallelManager_make_def pm_fits_def)

definition solve_example :: "gmls \<Rightarrow> gmls" where
  "solve_example g0 =
     (let targets = [[0, 0], [1, 0]]; sources = replicate 8 [0, 0]
      in g0\<lparr>g_neighbor_lists := nl_example, g_h_ss := ss_example\<lparr>ss_alphas := []\<rparr>,
           g_host_number_of_neighbors_list := [2, 1], g_max_num_neighbors := 2,
           g_target_coordinates := targets, g_source_coordinates := sources,
           g_pc := PointConnections_make targets sources nl_example,
           g_additional_pc := PointConnections_make targets
             (g_additional_evaluation_coordinates g0) (g_additional_evaluation_indices g0),
           g_pm := (g_pm g0)\<lparr>pm_scratch_team_level_b := 1, pm_scratch_thread_level_b := 1\<rparr>\<rparr>)"

lemma gmls_example_fields:
  assumes "gmls_example = Inr g0"
  shows "g_dimensions g0 = 2" "g_local_dimensions g0 = 2" "g_problem_type g0 = STANDARD"
    "g_data_sampling_functional g0 = PointSample" "g_constraint_type g0 = NO_CONSTRAINT"
    "g_dense_solver_type g0 = QR" "g_additional_evaluation_indices g0 = NeighborLists_default"
    "pm_scratch_team_level_a (g_pm g0) = 0" "pm_scratch_thread_level_a (g_pm g0) = 0"
    "g_host_T g0 = []" "g_entire_batch_computed_at_once g0"
    "g_dimension_of_quadrature_points g0 = 0" "g_quadrature_type g0 = []"
    "g_host_number_of_additional_evaluation_indices g0 = []"
    "g_poly_order g0 = 2" "g_polynomial_sampling_functional g0 = PointSample"
proof -
  have p: "parseProblemType ''STANDARD'' = STANDARD" "parseConstraintType ''NO_CONSTRAINT'' = NO_CONSTRAINT"
    "parseSolverType ''QR'' = QR"
    by (simp_all add: parseProblemType_def parseConstraintType_def parseSolverType_def to_lower_def
        tolower_def Let_def char_of_def bit_numeral_rec)
  obtain pm rank where "ParallelManager_make False (\<lambda>_. None) = Inr pm" and m:
    "GMLS_make False (\<lambda>_. None) ScalarTaylorPolynomial PointSample PointSample 2 2 ''QR''
       ''STANDARD'' ''NO_CONSTRAINT'' 2 = Inr g0"
    using assms by (auto simp: gmls_example_def GMLS_make_def rbind_eq_Inr_iff Let_def)
  then have pm: "pm_scratch_team_level_a pm = 0" "pm_scratch_thread_level_a pm = 0"
    by (auto simp: ParallelManager_make_def)
  note m = m [unfolded GMLS_make_def Let_def p \<open>ParallelManager_make False (\<lambda>_. None) = Inr pm\<close> rbind_Inr]
  show "g_dimensions g0 = 2" "g_local_dimensions g0 = 2" "g_problem_type g0 = STANDARD"
    "g_data_sampling_functional g0 = PointSample" "g_constraint_type g0 = NO_CONSTRAINT"
    "g_dense_solver_type g0 = QR" "g_additional_evaluation_indices g0 = NeighborLists_default"
    "pm_scratch_team_level_a (g_pm g0) = 0" "pm_scratch_thread_level_a (g_pm g0) = 0"
    "g_host_T g0 = []" "g_entire_batch_computed_at_once g0"
    "g_dimension_of_quadrature_points g0 = 0" "g_quadrature_type g0 = []"
    "g_host_number_of_additional_evaluation_indices g0 = []"
    "g_poly_order g0 = 2" "g_polynomial_sampling_functional g0 = PointSample"
    using m pm by (auto simp: rbind_eq_Inr_iff manifold_sample_def)
qed

lemma solve_example_fields:
  assumes "gmls_example = Inr g0"
  defines "g \<equiv> solve_example g0"
  shows "g_dimensions g = 2" "g_local_dimensions g = 2" "g_problem_type g = STANDARD"
    "g_data_sampling_functional g = PointSample" "g_constraint_type g = NO_CONSTRAINT"
    "g_dense_solver_type g = QR" "g_additional_evaluation_indices g = NeighborLists_default"
    "g_host_T g = []" "g_entire_batch_computed_at_once g"
    "g_neighbor_lists g = nl_example" "g_h_ss g = ss_example\<lparr>ss_alphas := []\<rparr>"
    "length (g_target_coordinates g) = 2" "g_source_coordinates g \<noteq> []"
    "g_target_coordinates g \<noteq> []"
    "g_dimension_of_quadrature_points g = 0" "g_quadrature_type g = []"
  using gmls_example_fields [OF assms(1)] by (simp_all add: g_def solve_example_def Let_def)

lemma no_quadrature:
  "g_dimension_of_quadrature_points g = 0 \<Longrightarrow> g_quadrature_type g = [] \<Longrightarrow>
     quadrature_of g = Inr Quadrature_default"
  by (simp add: quadrature_of_def Quadrature_make_def parseQuadratureType_def to_lower_def
      Quadrature_default_def)

lemma solved_example:
  assumes "gmls_example = Inr g0"
  shows "solved_from (solve_example g0) = ss_example\<lparr>ss_alphas := []\<rparr>"
  by (simp add: solved_from_def solve_example_fields [OF assms] SolutionSet_copy_def
      getAdditionalAlphaSizeFromConstraint_def ss_example_simps)

lemma solve_example_facts:
  assumes "gmls_example = Inr g0"
  shows "keep \<longrightarrow> nb = 1 \<Longrightarrow> solve_accepts (solve_example g0) nb keep"
    "scratch_ok idle_platform (solve_example g0)"
    "getTotalNeighborsOverAllListsHost (g_neighbor_lists (solve_example g0)) = Inr 3"
    "gmls_inv (solve_example g0)" "alphas_fit (solved_from (solve_example g0))"
    "two_levels (solve_example g0)"
proof -
  note f = solve_example_fields [OF assms]
  show "keep \<longrightarrow> nb = 1 \<Longrightarrow> solve_accepts (solve_example g0) nb keep"
    by (simp add: solve_accepts_def f no_quadrature ss_example_simps nl_example_def nl_built_def
        getNumberOfTargets_def TO_GLOBAL_def)
  show two: "two_levels (solve_example g0)"
    using gmls_example_fields(8,9) [OF assms] by (simp add: two_levels_def solve_example_def Let_def)
  show "scratch_ok idle_platform (solve_example g0)"
    by (rule two_levels_scratch [OF two idle_platform_manager])
  show "getTotalNeighborsOverAllListsHost (g_neighbor_lists (solve_example g0)) = Inr 3"
    using nl_total_host [OF nl_example_wf] nl_example_views
    by (simp add: f numeral_2_eq_2 TO_GLOBAL_def)
  show "alphas_fit (solved_from (solve_example g0))"
    using ss_example_views
    by (simp add: solved_example [OF assms] alphas_fit_def alpha_width_def alpha_rows_def alpha_columns_def
        alpha_depth_def sum_below_2 all_below_2)
  have "nl_exact nl_example"
    using nl_exact_built [OF _ nl_example_build] by (simp add: counts_ok_def)
  moreover have "ss_inv (ss_example\<lparr>ss_alphas := []\<rparr>)" using ss_example_inv by (simp add: ss_inv_def)
  ultimately show "gmls_inv (solve_example g0)"
    by (simp add: gmls_inv_def gmls_core_def connected_def f nl_ready_def)
      (simp add: solve_example_def Let_def gmls_example_fields [OF assms] max_count_def nl_example_def
        nl_built_def ss_example_simps NeighborLists_default_def)
qed

lemma example_solve:
  assumes "gmls_example = Inr g0" "keep \<longrightarrow> nb = 1" "TO_GLOBAL nb \<noteq> 0"
  shows "\<exists>g'. generatePolynomialCoefficients idle_platform (solve_example g0) nb keep = Inr g'"
  using solve_ends [OF idle_platform_facts] solve_example_facts(1-3) [OF assms(1)] assms(2,3)
    idle_platform_memory by blast

section \<open>Properties\<close>

text \<open>
  C8: a solve whose input passes the checks, with scratch sizes that policies can be made
  from and on a device whose kernels return, ends for every number of batches but zero: all
  its batches run and it returns, or it throws because the platform can not allocate one of
  the device views (alphas, prestencil weights, tangents and curvature of a manifold, the
  buffers of a batch); it never ends in another failure.
\<close>

theorem solve_completes:
  assumes "device_total pl" "writes_buffers (pl_dev pl)" "scratch_ok pl g"
    and "solve_accepts g nb keep" "TO_GLOBAL nb \<noteq> 0" "nl_wf (g_neighbor_lists g)"
  shows "(\<exists>g'. generateAlphas pl g nb keep = Inr g')
    \<or> (\<exists>label \<in> set device_views. generateAlphas pl g nb keep = Inl (Allocation_failure label)
          \<and> (\<exists>n. \<not> pl_allocates pl label n))"
  using solve_ends [OF assms(1-5)] nl_total_host [OF assms(6)]
  by (simp add: generateAlphas_def out_of_memory_def)

theorem solve_completes_witness:
  "\<exists>g g'. generateAlphas idle_platform g 2 False = Inr g'"
proof -
  obtain g0 where g0: "gmls_example = Inr g0" using gmls_example_built by auto
  have "nl_wf (g_neighbor_lists (solve_example g0))"
    using nl_example_wf by (simp add: solve_example_fields [OF g0])
  moreover have "pl_allocates idle_platform label n" for label n by (simp add: idle_platform_def)
  ultimately show ?thesis
    using solve_completes [OF idle_platform_facts solve_example_facts(2,1) [OF g0], of False 2]
    by (auto simp: TO_GLOBAL_def)
qed

text \<open>
  C3: after a solve of a consistent problem the solution set that the object hands out is
  solved: it holds the operations that were added and the neighbor lists of the problem,
  its alphas are those of the device, and every valid request reads one of them.
\<close>

theorem solve_fills_solution_set:
  assumes "gmls_inv g" "g_target_coordinates g \<noteq> []" "writes_buffers (pl_dev pl)"
    and "length (g_target_coordinates g) < 2 ^ 31" "alphas_fit (solved_from g)"
    and "generateAlphas pl g nb keep = Inr g'"
  shows "let ss = snd (getSolutionSetHost g')
    in alphas_inv ss \<and> ss_lro ss = ss_lro (g_h_ss g) \<and> ss_neighbor_lists ss = g_neighbor_lists g
      \<and> map_option ss_alphas (g_d_ss g') = Some (ss_alphas ss)
      \<and> (\<forall>r. request_valid ss r \<longrightarrow>
            getAlpha_request dbg ss r = Inr (ss_alphas ss ! request_address ss r))"
proof -
  obtain alphas where s: "snd (getSolutionSetHost g') = (solved_from g)\<lparr>ss_alphas := alphas\<rparr>"
    "map_option ss_alphas (g_d_ss g') = Some alphas"
    "ss_neighbor_lists (g_h_ss g) = g_neighbor_lists g"
    "alphas_inv ((solved_from g)\<lparr>ss_alphas := alphas\<rparr>)"
    using solved_set [OF assms(1-5) assms(6) [unfolded generateAlphas_def]] by blast
  then show ?thesis using request_code(1) [OF s(4)] by (simp add: Let_def)
qed

theorem solve_fills_solution_set_witness:
  "\<exists>g g'. generateAlphas idle_platform g 1 True = Inr g'
    \<and> length (ss_alphas (snd (getSolutionSetHost g'))) = 9"
proof -
  obtain g0 where g0: "gmls_example = Inr g0" using gmls_example_built by auto
  obtain g' where g': "generateAlphas idle_platform (solve_example g0) 1 True = Inr g'"
    using example_solve [OF g0, of True 1] by (auto simp: TO_GLOBAL_def generateAlphas_def)
  let ?ss = "snd (getSolutionSetHost g')"
  have "alphas_inv ?ss \<and> ss_neighbor_lists ?ss = nl_example"
    using solve_fills_solution_set [OF solve_example_facts(4) [OF g0] _ idle_platform_facts(2) _
        solve_example_facts(5) [OF g0] g'] solve_example_fields [OF g0]
    by (simp add: Let_def)
  moreover obtain alphas where "?ss = ss_example\<lparr>ss_alphas := alphas\<rparr>"
    using solved_set [OF solve_example_facts(4) [OF g0] _ idle_platform_facts(2) _
        solve_example_facts(5) [OF g0] g' [unfolded generateAlphas_def]] solve_example_fields [OF g0]
    by (auto simp: solved_example [OF g0])
  moreover have "alpha_rows (ss_example\<lparr>ss_alphas := a\<rparr>) = 2"
    "alpha_width (ss_example\<lparr>ss_alphas := a\<rparr>) i = alpha_width ss_example i" for a i
    using ss_example_views
    by (simp_all add: alpha_rows_def alpha_width_def alpha_depth_def alpha_columns_def)
  ultimately have "length (ss_alphas ?ss) = 9"
    by (auto simp: alphas_inv_def sum_below_2 alpha_width_def ss_example_views)
  then show ?thesis using g' by blast
qed

text \<open>
  C29: the number of batches is not checked.  With an input that passes the checks (and
  unless an allocation fails first) zero batches divide by zero in \<open>size_t\<close>, and a negative
  number, which no check refuses either, runs no batch: whatever the device does, the solve
  succeeds with the same object, whose alphas have the extent that the problem asks for and
  are all zero.
\<close>

theorem solve_without_batches:
  assumes "scratch_ok pl g" "solve_accepts g nb False" "nl_wf (g_neighbor_lists g)"
    and "- (2 ^ 31) \<le> nb" "nb < 0"
  shows "(generateAlphas pl g 0 False = Inl Division_by_zero
      \<or> out_of_memory pl (generateAlphas pl g 0 False))
    \<and> ((\<exists>g' ss n. (\<forall>dev. generateAlphas (pl\<lparr>pl_dev := dev\<rparr>) g nb False = Inr g')
          \<and> g_d_ss g' = Some ss \<and> alpha_count g (solved_from g) = Inr n
          \<and> ss_alphas ss = replicate (unat n) 0)
      \<or> out_of_memory pl (generateAlphas pl g nb False))"
proof (intro conjI)
  note tot = nl_total_host [OF assms(3)]
  have acc: "solve_accepts g 0 False" using assms(2) by (simp add: solve_accepts_def)
  show "generateAlphas pl g 0 False = Inl Division_by_zero
      \<or> out_of_memory pl (generateAlphas pl g 0 False)"
    using prepare_solve_cases [OF assms(1) acc tot] out_of_memory_rbind
    by (auto simp: generateAlphas_def generatePolynomialCoefficients_def TO_GLOBAL_def)
  have nz: "TO_GLOBAL nb \<noteq> 0" by (rule TO_GLOBAL_negative [OF assms(4,5)])
  show "(\<exists>g' ss n. (\<forall>dev. generateAlphas (pl\<lparr>pl_dev := dev\<rparr>) g nb False = Inr g')
          \<and> g_d_ss g' = Some ss \<and> alpha_count g (solved_from g) = Inr n
          \<and> ss_alphas ss = replicate (unat n) 0)
      \<or> out_of_memory pl (generateAlphas pl g nb False)"
  proof (cases "out_of_memory pl (prepare_solve pl g nb False)")
    case True
    then show ?thesis
      by (simp add: generateAlphas_def generatePolynomialCoefficients_def out_of_memory_rbind)
  next
    case False
    then obtain g1 sz where p: "prepare_solve pl g nb False = Inr (g1, sz)"
      using prepare_solve_cases [OF assms(1,2) tot] nz by auto
    obtain n where n: "alpha_count g (solved_from g) = Inr n"
      and d: "g_d_ss g1 = Some ((solved_from g)\<lparr>ss_alphas := replicate (unat n) 0\<rparr>)"
      using prepare_solve_steps(1) [OF p] by (auto simp: solving_def)
    define g' where "g' = projr (publish pl (end_solve g1 nb False))"
    have pub: "publish pl (end_solve g1 nb False) = Inr g'"
      by (simp add: g'_def publish_def device_ss_def d Let_def)
    have "generateAlphas (pl\<lparr>pl_dev := dev\<rparr>) g nb False = Inr g'" for dev
      using p pub assms(5) by (simp add: generateAlphas_def generatePolynomialCoefficients_def)
    moreover have "g_d_ss g' = g_d_ss g1" using publish_keeps [OF pub] d by auto
    ultimately show ?thesis using n d by auto
  qed
qed

theorem solve_without_batches_witness:
  "\<exists>g g' ss. generateAlphas idle_platform g 0 False = Inl Division_by_zero
    \<and> (\<forall>dev. generateAlphas (idle_platform\<lparr>pl_dev := dev\<rparr>) g (-1) False = Inr g')
    \<and> g_d_ss g' = Some ss \<and> ss_alphas ss = replicate 9 0"
proof -
  obtain g0 where g0: "gmls_example = Inr g0" using gmls_example_built by auto
  let ?g = "solve_example g0"
  have wf: "nl_wf (g_neighbor_lists ?g)" using nl_example_wf by (simp add: solve_example_fields [OF g0])
  have count: "alpha_count ?g (solved_from ?g) = Inr 9"
    using nl_total_host [OF nl_example_wf] nl_example_views
    by (simp add: alpha_count_def solved_example [OF g0] solve_example_fields [OF g0] ss_example_simps
        Let_def TO_GLOBAL_def TO_INT_def numeral_2_eq_2)
  show ?thesis
    using solve_without_batches [OF solve_example_facts(2,1) [OF g0] wf, of "-1"] count
      idle_platform_memory by fastforce
qed



text \<open>
  C5: for a positive number of batches the loop cuts the targets into at most that many
  consecutive batches, none of which is larger than the storage allocated for one, and
  every target belongs to exactly one of them; the loop ends with all targets done.
\<close>

theorem batches_partition_targets:
  assumes "writes_buffers (pl_dev pl)" "1 \<le> nb" "nb < 2 ^ 31"
    and "length (g_target_coordinates g) = N" "N < 2 ^ 31" "g_initial_index_for_batch g = 0"
    and "max_batch_size N nb = Inr (sz_max_batch_size sz)"
    and "batch_loop pl sz nb [0..<nat nb] g = Inr g'"
  shows "length (batch_trace pl sz nb [0..<nat nb] g) \<le> nat nb
    \<and> (\<forall>(s, n) \<in> set (batch_trace pl sz nb [0..<nat nb] g). n \<le> sz_max_batch_size sz)
    \<and> (\<forall>t < N. \<exists>!(i, a). i < length (batch_trace pl sz nb [0..<nat nb] g)
         \<and> a < unat (snd (batch_trace pl sz nb [0..<nat nb] g ! i))
         \<and> fst (batch_trace pl sz nb [0..<nat nb] g ! i) + int a = int t)
    \<and> g_initial_index_for_batch g' = int N"
proof -
  define m where "m = (N + nat nb - 1) div nat nb"
  note b = max_batch_size_nat [OF assms(2,3,5), folded m_def]
  have nb: "0 < nat nb" using assms(2) by simp
  have sz: "sz_max_batch_size sz = of_nat m" using b(1) assms(7) by simp
  have tr: "batch_trace pl sz nb [0..<nat nb] g = map (\<lambda>(a, n). (int a, of_nat n)) (plan_of (N, nat nb))"
    and last: "g_initial_index_for_batch g' = int N"
    using batch_loop_plan [OF assms(1,4,5) sz b(2) _ _ _ _ assms(8), of 0] assms(2,6) b(3)
    by (simp_all add: plan_of_def m_def)
  note total = plan_total(1,2) [OF nb, of N] plan_total(3) [OF nb, where N = N]
  have small: "plan_width (N, nat nb) i < 2 ^ 32" if "i < plan_rows (N, nat nb)" for i
    using total(3) [OF that] b(2) by (simp add: m_def)
  have at: "unat (snd (batch_trace pl sz nb [0..<nat nb] g ! i)) = plan_width (N, nat nb) i"
    "fst (batch_trace pl sz nb [0..<nat nb] g ! i) = int (plan_offset (N, nat nb) i)"
    if "i < plan_rows (N, nat nb)" for i
    using that small [OF that]
    by (simp_all add: tr plan_rows_def plan_width_def plan_offset_def split_beta unat_of_nat)
  have le: "n \<le> sz_max_batch_size sz" if mem: "(s, n) \<in> set (batch_trace pl sz nb [0..<nat nb] g)" for s n
  proof -
    obtain i where "i < length (batch_trace pl sz nb [0..<nat nb] g)"
      and at_i: "batch_trace pl sz nb [0..<nat nb] g ! i = (s, n)"
      using mem unfolding in_set_conv_nth by blast
    then have i: "i < plan_rows (N, nat nb)" by (simp add: tr plan_rows_def)
    then have "unat n \<le> m" using at(1) [OF i] total(3) [OF i] at_i by (simp add: m_def)
    then show ?thesis using b(2) by (simp add: sz word_le_nat_alt unat_of_nat)
  qed
  have "\<exists>!(i, a). i < length (batch_trace pl sz nb [0..<nat nb] g)
      \<and> a < unat (snd (batch_trace pl sz nb [0..<nat nb] g ! i))
      \<and> fst (batch_trace pl sz nb [0..<nat nb] g ! i) + int a = int t" if t: "t < N" for t
  proof -
    have len: "length (batch_trace pl sz nb [0..<nat nb] g) = plan_rows (N, nat nb)"
      by (simp add: tr plan_rows_def)
    obtain i a where ia: "i < plan_rows (N, nat nb)" "a < plan_width (N, nat nb) i"
        "plan_offset (N, nat nb) i + a = t"
      using batches.slot_surj [of "(N, nat nb)" t] nb t total(1) by auto
    show ?thesis
    proof (rule ex1I [of _ "(i, a)"])
      show "case (i, a) of (i, a) \<Rightarrow> i < length (batch_trace pl sz nb [0..<nat nb] g)
          \<and> a < unat (snd (batch_trace pl sz nb [0..<nat nb] g ! i))
          \<and> fst (batch_trace pl sz nb [0..<nat nb] g ! i) + int a = int t"
        using ia at len by auto
    next
      fix q
      assume q: "case q of (i, a) \<Rightarrow> i < length (batch_trace pl sz nb [0..<nat nb] g)
          \<and> a < unat (snd (batch_trace pl sz nb [0..<nat nb] g ! i))
          \<and> fst (batch_trace pl sz nb [0..<nat nb] g ! i) + int a = int t"
      obtain i' a' where q': "q = (i', a')" by (cases q)
      then have "i' < plan_rows (N, nat nb)" using q len by simp
      moreover from this have "a' < plan_width (N, nat nb) i'" "plan_offset (N, nat nb) i' + a' = t"
        using q q' at by auto
      ultimately show "q = (i, a)"
        using ia batches.slot_inj [of "(N, nat nb)" i' i a' a] nb q' by simp
    qed
  qed
  moreover have "length (batch_trace pl sz nb [0..<nat nb] g) \<le> nat nb"
    using total(2) tr by (simp add: plan_rows_def)
  ultimately show ?thesis using last le by blast
qed

theorem batches_partition_targets_witness:
  "\<exists>g sz g'. length (batch_trace idle_platform sz 2 [0..<2] g) \<le> 2
    \<and> batch_loop idle_platform sz 2 [0..<2] g = Inr g' \<and> g_initial_index_for_batch g' = 2"
proof -
  obtain g0 where g0: "gmls_example = Inr g0" using gmls_example_built by auto
  obtain g' where "generatePolynomialCoefficients idle_platform (solve_example g0) 2 False = Inr g'"
    using example_solve [OF g0, of False 2] by (auto simp: TO_GLOBAL_def)
  then obtain g1 sz g2 where s: "solving (solve_example g0) g1"
    and m: "max_batch_size (length (g_target_coordinates (solve_example g0))) 2 = Inr (sz_max_batch_size sz)"
    and i: "g_initial_index_for_batch g1 = 0"
    and l: "batch_loop idle_platform sz 2 [0..<nat 2] g1 = Inr g2"
    by (rule generate_steps)
  have t: "length (g_target_coordinates g1) = 2"
    using s solve_example_fields(12) [OF g0] by (simp add: solving_def)
  show ?thesis
    using batches_partition_targets [OF idle_platform_facts(2) _ _ t _ i _ l] m l
      solve_example_fields(12) [OF g0]
    by (intro exI [of _ g1] exI [of _ sz] exI [of _ g2]) simp
qed

text \<open>
  C30: on a manifold whose tangents are computed, the host copy of the tangents is taken in
  the batch whose number is the number of batches less one.  When rounding up the size of
  a batch leaves nothing for that batch, the loop ends before it and the copy is never
  taken: \<open>getTangentBundle\<close> reads what was there before the solve.
\<close>

theorem tangents_not_copied:
  assumes "writes_buffers (pl_dev pl)" "1 \<le> nb" "nb < 2 ^ 31" "0 < length (g_target_coordinates g)"
    and "length (g_target_coordinates g) < 2 ^ 31"
    and "length (g_target_coordinates g)
      \<le> (nat nb - 1) * ((length (g_target_coordinates g) + nat nb - 1) div nat nb)"
    and "generateAlphas pl g nb keep = Inr g'"
  shows "g_host_T g' = g_host_T g
    \<and> (g_host_T g = [] \<longrightarrow> (\<nexists>v. getTangentBundle g' i j k = Inr v))"
proof -
  let ?N = "length (g_target_coordinates g)"
  let ?m = "(?N + nat nb - 1) div nat nb"
  obtain g1 sz g2 where s: "solving g g1" and m: "max_batch_size ?N nb = Inr (sz_max_batch_size sz)"
    and i: "g_initial_index_for_batch g1 = 0" and l: "batch_loop pl sz nb [0..<nat nb] g1 = Inr g2"
    and p: "publish pl (end_solve g2 nb keep) = Inr g'"
    using generate_steps [OF assms(7) [unfolded generateAlphas_def]] by blast
  note b = max_batch_size_nat [OF assms(2,3,5)]
  have sz: "sz_max_batch_size sz = of_nat ?m" using b(1) m by simp
  have t: "length (g_target_coordinates g1) = ?N" using s by (simp add: solving_def)
  have "length (batch_plan ?N ?m 0 (nat nb)) \<le> nat nb - 1"
    using plan_short [of ?N 0 "nat nb - 1" ?m "nat nb"] assms(4,6) by (cases "nat nb - 1") auto
  moreover have "g_host_T g2 = g_host_T g1"
    if "\<forall>i < length (batch_plan ?N ?m 0 (nat nb)). int ([0..<nat nb] ! i) \<noteq> nb - 1"
    using batch_loop_plan [OF assms(1) t assms(5) sz b(2) _ _ _ _ l, of 0] i b(3) assms(2) that by simp
  moreover have "int ([0..<nat nb] ! i) \<noteq> nb - 1" if "i < nat nb - 1" for i
    using that by (simp add: nth_upt less_diff_conv)
  ultimately have "g_host_T g2 = g_host_T g1" by (meson less_le_trans)
  then have h: "g_host_T g' = g_host_T g"
    using publish_keeps [OF p] s by (auto simp: solving_def)
  then show ?thesis by (auto simp: getTangentBundle_def view_read_def)
qed

theorem tangents_not_copied_witness:
  "\<exists>g g'. g_problem_type g = MANIFOLD \<and> length (g_target_coordinates g) = 4
    \<and> generateAlphas idle_platform g 3 False = Inr g' \<and> (\<nexists>v. getTangentBundle g' 0 0 0 = Inr v)"
proof -
  obtain g0 where g0: "gmls_example = Inr g0" using gmls_example_built by auto
  define nl where "nl = nl_built False [0, 0, 0, 0] [1, 1, 1, 1]"
  define g where "g = (solve_example g0)\<lparr>g_neighbor_lists := nl, g_problem_type := MANIFOLD,
    g_target_coordinates := replicate 4 [0, 0, 0]\<rparr>"
  have "nl_wf nl" unfolding nl_def by (rule nl_built_wf) (simp_all add: counts_ok_def)
  then have tot: "getTotalNeighborsOverAllListsHost (g_neighbor_lists g)
      = Inr (TO_GLOBAL (int (\<Sum>k<nl_rows nl. nl_count nl k)))"
    using nl_total_host by (simp add: g_def)
  have "two_levels g"
    using solve_example_facts(6) [OF g0] by (simp add: g_def two_levels_def)
  note scratch = two_levels_scratch [OF this idle_platform_manager]
  have "solve_accepts g 3 False"
    by (simp add: solve_accepts_def g_def no_quadrature nl_def nl_built_def solve_example_fields [OF g0]
        ss_example_simps getNumberOfTargets_def TO_GLOBAL_def)
  then obtain g' where g': "generateAlphas idle_platform g 3 False = Inr g'"
    using solve_ends [OF idle_platform_facts scratch _ _ tot, of 3 False] idle_platform_memory
    by (auto simp: TO_GLOBAL_def generateAlphas_def)
  moreover have "g_host_T g = []" by (simp add: g_def solve_example_fields [OF g0])
  moreover have "length (g_target_coordinates g) = 4" "g_problem_type g = MANIFOLD" by (simp_all add: g_def)
  ultimately show ?thesis
    using tangents_not_copied [OF idle_platform_facts(2), of 3 g False g' 0 0 0] by auto
qed

end
