(* ===== verification/Compadre_Manifold_Functions.thy ===== *)
theory Compadre_Manifold_Functions
  imports Compadre_ScalarTaylorPolynomial
begin

text \<open>
  Compadre_Manifold_Functions.hpp: the metric factor, the Gaussian curvature and the
  surface curl on a local chart.  The surface over the tangent plane is the graph of the
  polynomial whose coefficients in the scalar Taylor basis are \<open>a_\<close>; the code writes its
  partial derivatives out, order by order, for orders up to eight.
\<close>

section \<open>Definitions\<close>

text \<open>
  The statements under each label of the two switches: what they add to \<open>q1\<close>, \<open>q2\<close> (and
  \<open>q3\<close>).
\<close>

definition metric_terms :: "nat \<Rightarrow> real list \<Rightarrow> real \<Rightarrow> real \<Rightarrow> real \<Rightarrow> real \<times> real" where
  "metric_terms label a h u1 u2 =
     (if label = 45 then
        ((1 / 5040) * a ! 36 * u1 ^ 7 / h ^ 8 + (1 / 720) * a ! 37 * u1 ^ 6 * u2 / h ^ 8
           + (1 / 240) * a ! 38 * u1 ^ 5 * u2 ^ 2 / h ^ 8
           + (1 / 144) * a ! 39 * u1 ^ 4 * u2 ^ 3 / h ^ 8
           + (1 / 144) * a ! 40 * u1 ^ 3 * u2 ^ 4 / h ^ 8
           + (1 / 240) * a ! 41 * u1 ^ 2 * u2 ^ 5 / h ^ 8
           + (1 / 720) * a ! 42 * u1 * u2 ^ 6 / h ^ 8 + (1 / 5040) * a ! 43 * u2 ^ 7 / h ^ 8,
         (1 / 5040) * a ! 37 * u1 ^ 7 / h ^ 8 + (1 / 720) * a ! 38 * u1 ^ 6 * u2 / h ^ 8
           + (1 / 240) * a ! 39 * u1 ^ 5 * u2 ^ 2 / h ^ 8
           + (1 / 144) * a ! 40 * u1 ^ 4 * u2 ^ 3 / h ^ 8
           + (1 / 144) * a ! 41 * u1 ^ 3 * u2 ^ 4 / h ^ 8
           + (1 / 240) * a ! 42 * u1 ^ 2 * u2 ^ 5 / h ^ 8
           + (1 / 720) * a ! 43 * u1 * u2 ^ 6 / h ^ 8 + (1 / 5040) * a ! 44 * u2 ^ 7 / h ^ 8)
      else if label = 36 then
        ((1 / 720) * a ! 28 * u1 ^ 6 / h ^ 7 + (1 / 120) * a ! 29 * u1 ^ 5 * u2 / h ^ 7
           + (1 / 48) * a ! 30 * u1 ^ 4 * u2 ^ 2 / h ^ 7
           + (1 / 36) * a ! 31 * u1 ^ 3 * u2 ^ 3 / h ^ 7
           + (1 / 48) * a ! 32 * u1 ^ 2 * u2 ^ 4 / h ^ 7
           + (1 / 120) * a ! 33 * u1 * u2 ^ 5 / h ^ 7 + (1 / 720) * a ! 34 * u2 ^ 6 / h ^ 7,
         (1 / 720) * a ! 29 * u1 ^ 6 / h ^ 7 + (1 / 120) * a ! 30 * u1 ^ 5 * u2 / h ^ 7
           + (1 / 48) * a ! 31 * u1 ^ 4 * u2 ^ 2 / h ^ 7
           + (1 / 36) * a ! 32 * u1 ^ 3 * u2 ^ 3 / h ^ 7
           + (1 / 48) * a ! 33 * u1 ^ 2 * u2 ^ 4 / h ^ 7
           + (1 / 120) * a ! 34 * u1 * u2 ^ 5 / h ^ 7 + (1 / 720) * a ! 35 * u2 ^ 6 / h ^ 7)
      else if label = 28 then
        ((1 / 120) * a ! 21 * u1 ^ 5 / h ^ 6 + (1 / 24) * a ! 22 * u1 ^ 4 * u2 / h ^ 6
           + (1 / 12) * a ! 23 * u1 ^ 3 * u2 ^ 2 / h ^ 6
           + (1 / 12) * a ! 24 * u1 ^ 2 * u2 ^ 3 / h ^ 6 + (1 / 24) * a ! 25 * u1 * u2 ^ 4 / h ^ 6
           + (1 / 120) * a ! 26 * u2 ^ 5 / h ^ 6,
         (1 / 120) * a ! 22 * u1 ^ 5 / h ^ 6 + (1 / 24) * a ! 23 * u1 ^ 4 * u2 / h ^ 6
           + (1 / 12) * a ! 24 * u1 ^ 3 * u2 ^ 2 / h ^ 6
           + (1 / 12) * a ! 25 * u1 ^ 2 * u2 ^ 3 / h ^ 6 + (1 / 24) * a ! 26 * u1 * u2 ^ 4 / h ^ 6
           + (1 / 120) * a ! 27 * u2 ^ 5 / h ^ 6)
      else if label = 21 then
        ((1 / 24) * a ! 15 * u1 ^ 4 / h ^ 5 + (1 / 6) * a ! 16 * u1 ^ 3 * u2 / h ^ 5
           + (1 / 4) * a ! 17 * u1 ^ 2 * u2 ^ 2 / h ^ 5 + (1 / 6) * a ! 18 * u1 * u2 ^ 3 / h ^ 5
           + (1 / 24) * a ! 19 * u2 ^ 4 / h ^ 5,
         (1 / 24) * a ! 16 * u1 ^ 4 / h ^ 5 + (1 / 6) * a ! 17 * u1 ^ 3 * u2 / h ^ 5
           + (1 / 4) * a ! 18 * u1 ^ 2 * u2 ^ 2 / h ^ 5 + (1 / 6) * a ! 19 * u1 * u2 ^ 3 / h ^ 5
           + (1 / 24) * a ! 20 * u2 ^ 4 / h ^ 5)
      else if label = 15 then
        ((1 / 6) * a ! 10 * u1 ^ 3 / h ^ 4 + (1 / 2) * a ! 11 * u1 ^ 2 * u2 / h ^ 4
           + (1 / 2) * a ! 12 * u1 * u2 ^ 2 / h ^ 4 + (1 / 6) * a ! 13 * u2 ^ 3 / h ^ 4,
         (1 / 6) * a ! 11 * u1 ^ 3 / h ^ 4 + (1 / 2) * a ! 12 * u1 ^ 2 * u2 / h ^ 4
           + (1 / 2) * a ! 13 * u1 * u2 ^ 2 / h ^ 4 + (1 / 6) * a ! 14 * u2 ^ 3 / h ^ 4)
      else if label = 10 then
        ((1 / 2) * a ! 6 * u1 ^ 2 / h ^ 3 + a ! 7 * u1 * u2 / h ^ 3
           + (1 / 2) * a ! 8 * u2 ^ 2 / h ^ 3,
         (1 / 2) * a ! 7 * u1 ^ 2 / h ^ 3 + a ! 8 * u1 * u2 / h ^ 3
           + (1 / 2) * a ! 9 * u2 ^ 2 / h ^ 3)
      else if label = 6 then
        (a ! 3 * u1 / h ^ 2 + a ! 4 * u2 / h ^ 2,
         a ! 4 * u1 / h ^ 2 + a ! 5 * u2 / h ^ 2)
      else if label = 3 then
        (a ! 1 / h,
         a ! 2 / h)
      else (0, 0))"

definition curvature_terms :: "nat \<Rightarrow> real list \<Rightarrow> real \<Rightarrow> real \<Rightarrow> real \<Rightarrow> real \<times> real \<times> real" where
  "curvature_terms label a h u1 u2 =
     (if label = 45 then
        ((1 / 720) * a ! 36 * u1 ^ 6 / h ^ 8 + (1 / 120) * a ! 37 * u1 ^ 5 * u2 / h ^ 8
           + (1 / 48) * a ! 38 * u1 ^ 4 * u2 ^ 2 / h ^ 8
           + (1 / 36) * a ! 39 * u1 ^ 3 * u2 ^ 3 / h ^ 8
           + (1 / 48) * a ! 40 * u1 ^ 2 * u2 ^ 4 / h ^ 8
           + (1 / 120) * a ! 41 * u1 * u2 ^ 5 / h ^ 8 + (1 / 720) * a ! 42 * u2 ^ 6 / h ^ 8,
         (1 / 720) * a ! 38 * u1 ^ 6 / h ^ 8 + (1 / 120) * a ! 39 * u1 ^ 5 * u2 / h ^ 8
           + (1 / 48) * a ! 40 * u1 ^ 4 * u2 ^ 2 / h ^ 8
           + (1 / 36) * a ! 41 * u1 ^ 3 * u2 ^ 3 / h ^ 8
           + (1 / 48) * a ! 42 * u1 ^ 2 * u2 ^ 4 / h ^ 8
           + (1 / 120) * a ! 43 * u1 * u2 ^ 5 / h ^ 8 + (1 / 720) * a ! 44 * u2 ^ 6 / h ^ 8,
         (1 / 720) * a ! 37 * u1 ^ 6 / h ^ 8 + (1 / 120) * a ! 38 * u1 ^ 5 * u2 / h ^ 8
           + (1 / 48) * a ! 39 * u1 ^ 4 * u2 ^ 2 / h ^ 8
           + (1 / 36) * a ! 40 * u1 ^ 3 * u2 ^ 3 / h ^ 8
           + (1 / 48) * a ! 41 * u1 ^ 2 * u2 ^ 4 / h ^ 8
           + (1 / 120) * a ! 42 * u1 * u2 ^ 5 / h ^ 8 + (1 / 720) * a ! 43 * u2 ^ 6 / h ^ 8)
      else if label = 36 then
        ((1 / 120) * a ! 28 * u1 ^ 5 / h ^ 7 + (1 / 24) * a ! 29 * u1 ^ 4 * u2 / h ^ 7
           + (1 / 12) * a ! 30 * u1 ^ 3 * u2 ^ 2 / h ^ 7
           + (1 / 12) * a ! 31 * u1 ^ 2 * u2 ^ 3 / h ^ 7 + (1 / 24) * a ! 32 * u1 * u2 ^ 4 / h ^ 7
           + (1 / 120) * a ! 33 * u2 ^ 5 / h ^ 7,
         (1 / 120) * a ! 30 * u1 ^ 5 / h ^ 7 + (1 / 24) * a ! 31 * u1 ^ 4 * u2 / h ^ 7
           + (1 / 12) * a ! 32 * u1 ^ 3 * u2 ^ 2 / h ^ 7
           + (1 / 12) * a ! 33 * u1 ^ 2 * u2 ^ 3 / h ^ 7 + (1 / 24) * a ! 34 * u1 * u2 ^ 4 / h ^ 7
           + (1 / 120) * a ! 35 * u2 ^ 5 / h ^ 7,
         (1 / 120) * a ! 29 * u1 ^ 5 / h ^ 7 + (1 / 24) * a ! 30 * u1 ^ 4 * u2 / h ^ 7
           + (1 / 12) * a ! 31 * u1 ^ 3 * u2 ^ 2 / h ^ 7
           + (1 / 12) * a ! 32 * u1 ^ 2 * u2 ^ 3 / h ^ 7 + (1 / 24) * a ! 33 * u1 * u2 ^ 4 / h ^ 7
           + (1 / 120) * a ! 34 * u2 ^ 5 / h ^ 7)
      else if label = 28 then
        ((1 / 24) * a ! 21 * u1 ^ 4 / h ^ 6 + (1 / 6) * a ! 22 * u1 ^ 3 * u2 / h ^ 6
           + (1 / 4) * a ! 23 * u1 ^ 2 * u2 ^ 2 / h ^ 6 + (1 / 6) * a ! 24 * u1 * u2 ^ 3 / h ^ 6
           + (1 / 24) * a ! 25 * u2 ^ 4 / h ^ 6,
         (1 / 24) * a ! 23 * u1 ^ 4 / h ^ 6 + (1 / 6) * a ! 24 * u1 ^ 3 * u2 / h ^ 6
           + (1 / 4) * a ! 25 * u1 ^ 2 * u2 ^ 2 / h ^ 6 + (1 / 6) * a ! 26 * u1 * u2 ^ 3 / h ^ 6
           + (1 / 24) * a ! 27 * u2 ^ 4 / h ^ 6,
         (1 / 24) * a ! 22 * u1 ^ 4 / h ^ 6 + (1 / 6) * a ! 23 * u1 ^ 3 * u2 / h ^ 6
           + (1 / 4) * a ! 24 * u1 ^ 2 * u2 ^ 2 / h ^ 6 + (1 / 6) * a ! 25 * u1 * u2 ^ 3 / h ^ 6
           + (1 / 24) * a ! 26 * u2 ^ 4 / h ^ 6)
      else if label = 21 then
        ((1 / 6) * a ! 15 * u1 ^ 3 / h ^ 5 + (1 / 2) * a ! 16 * u1 ^ 2 * u2 / h ^ 5
           + (1 / 2) * a ! 17 * u1 * u2 ^ 2 / h ^ 5 + (1 / 6) * a ! 18 * u2 ^ 3 / h ^ 5,
         (1 / 6) * a ! 17 * u1 ^ 3 / h ^ 5 + (1 / 2) * a ! 18 * u1 ^ 2 * u2 / h ^ 5
           + (1 / 2) * a ! 19 * u1 * u2 ^ 2 / h ^ 5 + (1 / 6) * a ! 20 * u2 ^ 3 / h ^ 5,
         (1 / 6) * a ! 16 * u1 ^ 3 / h ^ 5 + (1 / 2) * a ! 17 * u1 ^ 2 * u2 / h ^ 5
           + (1 / 2) * a ! 18 * u1 * u2 ^ 2 / h ^ 5 + (1 / 6) * a ! 19 * u2 ^ 3 / h ^ 5)
      else if label = 15 then
        ((1 / 2) * a ! 10 * u1 ^ 2 / h ^ 4 + a ! 11 * u1 * u2 / h ^ 4
           + (1 / 2) * a ! 12 * u2 ^ 2 / h ^ 4,
         (1 / 2) * a ! 12 * u1 ^ 2 / h ^ 4 + a ! 13 * u1 * u2 / h ^ 4
           + (1 / 2) * a ! 14 * u2 ^ 2 / h ^ 4,
         (1 / 2) * a ! 11 * u1 ^ 2 / h ^ 4 + a ! 12 * u1 * u2 / h ^ 4
           + (1 / 2) * a ! 13 * u2 ^ 2 / h ^ 4)
      else if label = 10 then
        (a ! 6 * u1 / h ^ 3 + a ! 7 * u2 / h ^ 3,
         a ! 8 * u1 / h ^ 3 + a ! 9 * u2 / h ^ 3,
         a ! 7 * u1 / h ^ 3 + a ! 8 * u2 / h ^ 3)
      else if label = 6 then
        (a ! 3 / h ^ 2,
         a ! 5 / h ^ 2,
         a ! 4 / h ^ 2)
      else (0, 0, 0))"

text \<open>
  No statement group ends in \<open>break\<close> before \<open>case 1\<close>: execution starts at the label that
  equals the extent of \<open>a_\<close> and runs through all labels after it.
\<close>

definition metric_labels :: "nat list" where
  "metric_labels = [45, 36, 28, 21, 15, 10, 6, 3, 1]"

definition curvature_labels :: "nat list" where
  "curvature_labels = [45, 36, 28, 21, 15, 10, 6, 1]"

definition reached :: "nat list \<Rightarrow> nat \<Rightarrow> nat list" where
  "reached labels extent = dropWhile (\<lambda>l. l \<noteq> extent) labels"

definition MetricFactor :: "real list \<Rightarrow> real \<Rightarrow> real \<Rightarrow> real \<Rightarrow> real result" where
  "MetricFactor a h u1 u2 =
     (let labels = reached metric_labels (length a)
      in rbind (compadre_kernel_assert_release ''curvature polynomial order is greater than 8.''
                  (labels \<noteq> [])) (\<lambda>_.
         let (q1, q2) = foldl (\<lambda>(q1, q2) l. case metric_terms l a h u1 u2 of
                                 (t1, t2) \<Rightarrow> (q1 + t1, q2 + t2)) (0, 0) labels;
             q1 = q1 ^ 2;
             q2 = q2 ^ 2
         in Inr (1 + q1 + q2)))"

definition GaussianCurvature :: "real list \<Rightarrow> real \<Rightarrow> real \<Rightarrow> real \<Rightarrow> real result" where
  "GaussianCurvature a h u1 u2 =
     (let labels = reached curvature_labels (length a)
      in rbind (compadre_kernel_assert_release ''curvature polynomial order is greater than 8.''
                  (labels \<noteq> [])) (\<lambda>_.
         let (q1, q2, q3) = foldl (\<lambda>(q1, q2, q3) l. case curvature_terms l a h u1 u2 of
                                 (t1, t2, t3) \<Rightarrow> (q1 + t1, q2 + t2, q3 + t3)) (0, 0, 0) labels
         in rbind (MetricFactor a h u1 u2) (\<lambda>det_g.
              Inr ((q1 * q2 - q3 ^ 2) / (det_g * det_g)))))"

definition SurfaceCurlOfScalar ::
  "real list \<Rightarrow> real \<Rightarrow> real \<Rightarrow> real \<Rightarrow> int \<Rightarrow> int \<Rightarrow> int \<Rightarrow> real result" where
  "SurfaceCurlOfScalar a h u1 u2 x_pow y_pow out_component =
     rbind (MetricFactor a h u1 u2) (\<lambda>det_g.
     rbind (compadre_kernel_assert_release ''false'' (out_component = 0 \<or> out_component = 1)) (\<lambda>_.
     let partial_direction = (if out_component = 0 then 1 else 0 :: int);
         sign_change = (if out_component = 1 then -1 else 1);
         n_x_pow = (if partial_direction = 0 then x_pow - 1 else x_pow);
         n_y_pow = (if partial_direction = 1 then y_pow - 1 else y_pow)
     in if n_x_pow < 0 \<or> n_y_pow < 0 then Inr 0
        else rbind (view_read factorial n_x_pow) (\<lambda>fx.
             rbind (view_read factorial n_y_pow) (\<lambda>fy.
             let alphaf = fx * fy;
                 return_val = 1 / h * (u1 / h) ^ nat n_x_pow * (u2 / h) ^ nat n_y_pow / alphaf
             in Inr (return_val * sign_change / sqrt det_g)))))"

section \<open>The surface\<close>

text \<open>
  The height over the tangent plane: the coefficients applied to the row of the scalar
  basis.  A basis entry of total degree \<open>n\<close> lies at \<open>n (n + 1) / 2\<close> and behind.
\<close>

definition height :: "real list \<Rightarrow> nat \<Rightarrow> real \<Rightarrow> real \<Rightarrow> real \<Rightarrow> real" where
  "height a m h u1 u2 = (\<Sum>j<length a. a ! j * scalar_row 2 m h [u1, u2, 0] ! j)"

definition layer :: "real list \<Rightarrow> real \<Rightarrow> real \<Rightarrow> nat \<Rightarrow> nat \<Rightarrow> nat \<Rightarrow> real" where
  "layer a x y dx dy n =
     (\<Sum>k\<le>n. a ! (n * (n + 1) div 2 + k) * (tfac x (int (n - k) - int dx) * tfac y (int k - int dy)))"

lemma length_idx2_div: "length (idx2 0 m) = (m + 1) * (m + 2) div 2"
  using length_idx2 [of m] by simp

lemma idx2_Suc: "idx2 0 (Suc m) = idx2 0 m @ map (\<lambda>k. [int (Suc m - k), int k]) [0..<Suc m + 1]"
  by (simp add: idx2_def)

lemma sum_append:
  "(\<Sum>j<length (xs @ ys). f j ((xs @ ys) ! j))
    = (\<Sum>j<length xs. f j (xs ! j)) + (\<Sum>k<length ys. f (length xs + k) (ys ! k))"
  for f :: "nat \<Rightarrow> 'a \<Rightarrow> real"
proof (induction ys rule: rev_induct)
  case Nil
  then show ?case by simp
next
  case (snoc y ys)
  have "(\<Sum>j<length (xs @ ys). f j ((xs @ ys @ [y]) ! j)) = (\<Sum>j<length (xs @ ys). f j ((xs @ ys) ! j))"
    by (intro sum.cong) (auto simp: nth_append)
  moreover have "(\<Sum>k<length ys. f (length xs + k) ((ys @ [y]) ! k))
      = (\<Sum>k<length ys. f (length xs + k) (ys ! k))"
    by (intro sum.cong) (auto simp: nth_append)
  ultimately show ?case using snoc by (simp add: nth_append)
qed

lemma sum_idx2:
  fixes g :: "int list \<Rightarrow> real"
  shows "(\<Sum>j<length (idx2 0 m). a ! j * g (idx2 0 m ! j))
    = (\<Sum>n\<le>m. \<Sum>k\<le>n. a ! (n * (n + 1) div 2 + k) * g [int (n - k), int k])"
proof (induction m)
  case 0
  then show ?case by (simp add: idx2_def)
next
  case (Suc m)
  let ?r = "map (\<lambda>k. [int (Suc m - k), int k]) [0..<Suc m + 1]"
  have l: "length (idx2 0 m) = Suc m * (Suc m + 1) div 2" by (simp add: length_idx2_div algebra_simps)
  have "(\<Sum>j<length (idx2 0 (Suc m)). a ! j * g (idx2 0 (Suc m) ! j))
      = (\<Sum>j<length (idx2 0 m). a ! j * g (idx2 0 m ! j))
        + (\<Sum>k<length ?r. a ! (length (idx2 0 m) + k) * g (?r ! k))"
    unfolding idx2_Suc by (rule sum_append [where f = "\<lambda>j e. a ! j * g e"])
  also have "(\<Sum>k<length ?r. a ! (length (idx2 0 m) + k) * g (?r ! k))
      = (\<Sum>k\<le>Suc m. a ! (Suc m * (Suc m + 1) div 2 + k) * g [int (Suc m - k), int k])"
    unfolding l by (intro sum.cong) (auto simp del: upt_Suc)
  finally show ?case by (simp add: Suc.IH)
qed

text \<open>The terms under a label are those of a layer, differentiated.\<close>

lemma taylor2: "taylor ts [i, k] = tfac (ts ! 0) i * tfac (ts ! 1) k"
  by (simp add: taylor_def numeral_2_eq_2)

definition label_of :: "nat \<Rightarrow> nat" where
  "label_of n = (n + 1) * (n + 2) div 2"

lemma upto_8: "1 \<le> n \<Longrightarrow> n \<le> 8 \<Longrightarrow> n \<in> {1, 2, 3, 4, 5, 6, 7, 8 :: nat}"
  by auto

lemma labels [simp]:
  "label_of 1 = 3" "label_of 2 = 6" "label_of 3 = 10" "label_of 4 = 15" "label_of 5 = 21"
  "label_of 6 = 28" "label_of 7 = 36" "label_of 8 = 45" "label_of 0 = 1" "label_of (Suc 0) = 3"
  by (simp_all add: label_of_def)

lemma tfac_values:
  "tfac x (int n) = x ^ n / fact n" "tfac x (int n - 1) = (if n = 0 then 0 else x ^ (n - 1) / fact (n - 1))"
  "tfac x (int n - 2) = (if n < 2 then 0 else x ^ (n - 2) / fact (n - 2))"
  by (auto simp: tfac_def nat_diff_distrib)

lemma metric_layer:
  assumes "1 \<le> n" "n \<le> 8" "h \<noteq> 0"
  shows "metric_terms (label_of n) a h u1 u2
    = (layer a (u1 / h) (u2 / h) 1 0 n / h, layer a (u1 / h) (u2 / h) 0 1 n / h)"
proof -
  obtain x y where u: "u1 = x * h" "u2 = y * h" using assms(3) by (metis nonzero_eq_divide_eq)
  have p: "h ^ 8 = h ^ 7 * h" "h ^ 7 = h ^ 6 * h" "h ^ 6 = h ^ 5 * h" "h ^ 5 = h ^ 4 * h"
    "h ^ 4 = h ^ 3 * h" "h ^ 3 = h ^ 2 * h" "h ^ 2 = h * h"
    by (simp_all add: eval_nat_numeral)
  show ?thesis
    unfolding u using upto_8 [OF assms(1,2)] assms(3)
    by (elim insertE; (simp add: metric_terms_def layer_def tfac_def numeral_2_eq_2; fail)?;
        simp add: metric_terms_def layer_def tfac_values atMost_nat_numeral fact_numeral
        power_mult_distrib; simp add: divide_simps p; simp add: algebra_simps)
qed

lemma curvature_layer:
  assumes "1 \<le> n" "n \<le> 8" "h \<noteq> 0"
  shows "curvature_terms (label_of n) a h u1 u2
    = (layer a (u1 / h) (u2 / h) 2 0 n / h ^ 2, layer a (u1 / h) (u2 / h) 0 2 n / h ^ 2,
       layer a (u1 / h) (u2 / h) 1 1 n / h ^ 2)"
proof -
  obtain x y where u: "u1 = x * h" "u2 = y * h" using assms(3) by (metis nonzero_eq_divide_eq)
  have p: "h ^ 8 = h ^ 7 * h" "h ^ 7 = h ^ 6 * h" "h ^ 6 = h ^ 5 * h" "h ^ 5 = h ^ 4 * h"
    "h ^ 4 = h ^ 3 * h" "h ^ 3 = h ^ 2 * h" "h ^ 2 = h * h"
    by (simp_all add: eval_nat_numeral)
  show ?thesis
    unfolding u using upto_8 [OF assms(1,2)] assms(3)
    by (elim insertE; (simp add: curvature_terms_def layer_def tfac_def numeral_2_eq_2; fail)?;
        simp add: curvature_terms_def layer_def tfac_values atMost_nat_numeral fact_numeral
        power_mult_distrib; simp add: divide_simps p; simp add: algebra_simps)
qed

definition layers :: "real list \<Rightarrow> nat \<Rightarrow> real \<Rightarrow> nat \<Rightarrow> nat \<Rightarrow> real \<Rightarrow> real \<Rightarrow> real" where
  "layers a m h dx dy u1 u2 = (\<Sum>n\<le>m. layer a (u1 / h) (u2 / h) dx dy n) / h ^ (dx + dy)"

lemma height_layers:
  assumes "m \<le> 14" "length a = label_of m"
  shows "height a m h u1 u2 = layers a m h 0 0 u1 u2"
proof -
  have i: "multi_indices 2 0 m = idx2 0 m" by (simp add: multi_indices_def)
  have l: "length a = length (idx2 0 m)" using assms(2) by (simp add: length_idx2_div label_of_def)
  have "height a m h u1 u2
      = (\<Sum>j<length (idx2 0 m). a ! j * taylor (map (\<lambda>x. x / h) [u1, u2, 0]) (idx2 0 m ! j))"
    using assms(1) l by (simp add: height_def scalar_rows [of 2 m 0 0] i)
  also have "\<dots> = (\<Sum>n\<le>m. \<Sum>k\<le>n. a ! (n * (n + 1) div 2 + k)
      * taylor (map (\<lambda>x. x / h) [u1, u2, 0]) [int (n - k), int k])"
    by (rule sum_idx2)
  finally show ?thesis by (simp add: layers_def layer_def taylor2)
qed

lemma layers_derivative:
  shows "((\<lambda>t. layers a m h dx dy t u2) has_real_derivative layers a m h (Suc dx) dy u1 u2) (at u1)"
    and "((\<lambda>t. layers a m h dx dy u1 t) has_real_derivative layers a m h dx (Suc dy) u1 u2) (at u2)"
proof -
  have 1: "((\<lambda>t. layer a (t / h) y dx dy n) has_real_derivative layer a (t / h) y (Suc dx) dy n / h) (at t)"
    for y n t
    unfolding layer_def sum_divide_distrib
    using tfac_derivative [of h]
    by (auto intro!: derivative_eq_intros simp: algebra_simps)
  have 2: "((\<lambda>t. layer a x (t / h) dx dy n) has_real_derivative layer a x (t / h) dx (Suc dy) n / h) (at t)"
    for x n t
    unfolding layer_def sum_divide_distrib
    using tfac_derivative [of h]
    by (auto intro!: derivative_eq_intros simp: algebra_simps)
  have "((\<lambda>t. \<Sum>n\<le>m. layer a (t / h) (u2 / h) dx dy n) has_real_derivative
      (\<Sum>n\<le>m. layer a (u1 / h) (u2 / h) (Suc dx) dy n / h)) (at u1)"
    by (rule DERIV_sum) (rule 1)
  from DERIV_cdivide [OF this, of "h ^ (dx + dy)"]
  show "((\<lambda>t. layers a m h dx dy t u2) has_real_derivative layers a m h (Suc dx) dy u1 u2) (at u1)"
    by (simp add: layers_def mult.commute flip: sum_divide_distrib)
  have "((\<lambda>t. \<Sum>n\<le>m. layer a (u1 / h) (t / h) dx dy n) has_real_derivative
      (\<Sum>n\<le>m. layer a (u1 / h) (u2 / h) dx (Suc dy) n / h)) (at u2)"
    by (rule DERIV_sum) (rule 2)
  from DERIV_cdivide [OF this, of "h ^ (dx + dy)"]
  show "((\<lambda>t. layers a m h dx dy u1 t) has_real_derivative layers a m h dx (Suc dy) u1 u2) (at u2)"
    by (simp add: layers_def mult.commute flip: sum_divide_distrib)
qed

lemma upto_8': "m \<le> 8 \<Longrightarrow> m \<in> {0, 1, 2, 3, 4, 5, 6, 7, 8 :: nat}"
  by auto

lemma metric_value:
  assumes "m \<le> 8" "length a = label_of m" "h \<noteq> 0"
  shows "MetricFactor a h u1 u2
    = Inr (1 + layers a m h 1 0 u1 u2 ^ 2 + layers a m h 0 1 u1 u2 ^ 2)"
proof -
  have t: "metric_terms 1 a h u1 u2 = (0, 0)" "metric_terms (Suc 0) a h u1 u2 = (0, 0)"
    "layer a x y 1 0 0 = 0" "layer a x y 0 1 0 = 0" "layer a x y (Suc 0) 0 0 = 0" "layer a x y 0 (Suc 0) 0 = 0"
    for x y
    by (simp_all add: metric_terms_def layer_def tfac_def)
  note layers = metric_layer [of 1, simplified] metric_layer [of 2, simplified] metric_layer [of 3, simplified]
    metric_layer [of 4, simplified] metric_layer [of 5, simplified] metric_layer [of 6, simplified]
    metric_layer [of 7, simplified] metric_layer [of 8, simplified]
  show ?thesis
    using upto_8' [OF assms(1)] assms(2,3)
    by (elim insertE; simp add: MetricFactor_def reached_def metric_labels_def layers t layers_def
        atMost_nat_numeral add_divide_distrib add_ac)
qed

lemma curvature_value:
  assumes "m \<le> 8" "m \<noteq> 1" "length a = label_of m" "h \<noteq> 0"
  shows "GaussianCurvature a h u1 u2
    = Inr ((layers a m h 2 0 u1 u2 * layers a m h 0 2 u1 u2 - layers a m h 1 1 u1 u2 ^ 2)
        / (1 + layers a m h 1 0 u1 u2 ^ 2 + layers a m h 0 1 u1 u2 ^ 2) ^ 2)"
proof -
  have t: "curvature_terms 1 a h u1 u2 = (0, 0, 0)" "curvature_terms (Suc 0) a h u1 u2 = (0, 0, 0)"
    "n < dx + dy \<Longrightarrow> layer a x y dx dy n = 0" for x y dx dy n
    by (auto simp: curvature_terms_def layer_def tfac_def intro!: sum.neutral)
  note layers = curvature_layer [of 2, simplified] curvature_layer [of 3, simplified]
    curvature_layer [of 4, simplified] curvature_layer [of 5, simplified] curvature_layer [of 6, simplified]
    curvature_layer [of 7, simplified] curvature_layer [of 8, simplified]
  have fold: "foldl (\<lambda>(q1, q2, q3) l. case curvature_terms l a h u1 u2 of
      (t1, t2, t3) \<Rightarrow> (q1 + t1, q2 + t2, q3 + t3)) (0, 0, 0) (reached curvature_labels (length a))
    = (layers a m h 2 0 u1 u2, layers a m h 0 2 u1 u2, layers a m h 1 1 u1 u2)"
    using upto_8' [OF assms(1)] assms(2-4)
    by (elim insertE; simp add: reached_def curvature_labels_def layers t layers_def
        atMost_nat_numeral add_divide_distrib add_ac flip: power2_eq_square)
  have "reached curvature_labels (length a) \<noteq> []"
    using upto_8' [OF assms(1)] assms(2,3) by (elim insertE; simp add: reached_def curvature_labels_def)
  then show ?thesis
    by (simp add: GaussianCurvature_def fold metric_value [OF assms(1,3,4)] power2_eq_square)
qed

section \<open>Properties\<close>

text \<open>The first and second partial derivatives of a function of two variables.\<close>

definition gradient_of ::
  "(real \<Rightarrow> real \<Rightarrow> real) \<Rightarrow> (real \<Rightarrow> real \<Rightarrow> real) \<Rightarrow> (real \<Rightarrow> real \<Rightarrow> real) \<Rightarrow> bool" where
  "gradient_of f f1 f2 \<longleftrightarrow>
     (\<forall>u1 u2. ((\<lambda>t. f t u2) has_real_derivative f1 u1 u2) (at u1)
            \<and> ((\<lambda>t. f u1 t) has_real_derivative f2 u1 u2) (at u2))"

lemma gradient_layers: "gradient_of (layers a m h dx dy) (layers a m h (Suc dx) dy) (layers a m h dx (Suc dy))"
  using layers_derivative by (simp add: gradient_of_def)

lemma height_eq:
  assumes "m \<le> 8" "length a = label_of m"
  shows "height a m h = layers a m h 0 0"
  using assms by (intro ext height_layers) simp_all

text \<open>
  For orders up to eight, with one coefficient for every entry of the scalar basis,
  the metric factor is the determinant of the first fundamental form of the surface: the
  graph of the reconstructed height.
\<close>

theorem metric_factor_is_determinant:
  assumes "m \<le> 8" "length a = label_of m" "h \<noteq> 0"
  shows "\<exists>f1 f2. gradient_of (height a m h) f1 f2
    \<and> (\<forall>u1 u2. MetricFactor a h u1 u2
         = Inr ((1 + f1 u1 u2 ^ 2) * (1 + f2 u1 u2 ^ 2) - (f1 u1 u2 * f2 u1 u2) ^ 2))"
  using gradient_layers [of a m h 0 0] metric_value [OF assms]
  by (intro exI [of _ "layers a m h 1 0"] exI [of _ "layers a m h 0 1"])
    (simp add: height_eq [OF assms(1,2)] algebra_simps power_mult_distrib)

theorem metric_factor_is_determinant_witness:
  "\<exists>f1 f2. gradient_of (height [5, 3, 4] 1 2) f1 f2
    \<and> MetricFactor [5, 3, 4] 2 0 0
        = Inr ((1 + f1 0 0 ^ 2) * (1 + f2 0 0 ^ 2) - (f1 0 0 * f2 0 0) ^ 2)
    \<and> MetricFactor [5, 3, 4] 2 0 0 = Inr (1 + (3 / 2) ^ 2 + 2 ^ 2)"
proof -
  have "MetricFactor [5, 3, 4] 2 0 0 = Inr (1 + (3 / 2) ^ 2 + 2 ^ 2)"
    by (simp add: MetricFactor_def reached_def metric_labels_def metric_terms_def)
  moreover obtain f1 f2 where "gradient_of (height [5, 3, 4] 1 2) f1 f2"
    and "\<forall>u1 u2. MetricFactor [5, 3, 4] 2 u1 u2
      = Inr ((1 + f1 u1 u2 ^ 2) * (1 + f2 u1 u2 ^ 2) - (f1 u1 u2 * f2 u1 u2) ^ 2)"
    using metric_factor_is_determinant [of 1 "[5, 3, 4]" 2] by fastforce
  ultimately show ?thesis by blast
qed

text \<open>
  C37: the Gaussian curvature is that of the reconstructed surface, the determinant of the
  second fundamental form over that of the first.  The switch has no label for the three
  coefficients of order one: there the code aborts, although the surface is a plane.
\<close>

theorem gaussian_curvature_of_surface:
  assumes "m \<le> 8" "length a = label_of m" "h \<noteq> 0"
  shows "\<exists>f1 f2 f11 f12 f22. gradient_of (height a m h) f1 f2
    \<and> gradient_of f1 f11 f12 \<and> gradient_of f2 f12 f22
    \<and> (\<forall>u1 u2. GaussianCurvature a h u1 u2 =
         (if m = 1 then Inl (Kokkos_abort ''curvature polynomial order is greater than 8.'')
          else Inr ((f11 u1 u2 * f22 u1 u2 - f12 u1 u2 ^ 2)
                 / (1 + f1 u1 u2 ^ 2 + f2 u1 u2 ^ 2) ^ 2)))"
proof -
  have one: "GaussianCurvature a h u1 u2
      = Inl (Kokkos_abort ''curvature polynomial order is greater than 8.'')" if "m = 1" for u1 u2
    using that assms(2)
    by (simp add: GaussianCurvature_def reached_def curvature_labels_def)
  show ?thesis
    using gradient_layers [of a m h 0 0] gradient_layers [of a m h 1 0] gradient_layers [of a m h 0 1]
      curvature_value [OF assms(1) _ assms(2,3)] one
    by (intro exI [of _ "layers a m h 1 0"] exI [of _ "layers a m h 0 1"] exI [of _ "layers a m h 2 0"]
        exI [of _ "layers a m h 1 1"] exI [of _ "layers a m h 0 2"])
      (simp add: height_eq [OF assms(1,2)] numeral_2_eq_2)
qed

theorem gaussian_curvature_of_surface_witness:
  "GaussianCurvature [5, 3, 4] 2 0 0 = Inl (Kokkos_abort ''curvature polynomial order is greater than 8.'')
   \<and> (\<exists>f1 f2. gradient_of (height [0, 0, 0, 2, 0, 2] 2 1) f1 f2)
   \<and> GaussianCurvature [0, 0, 0, 2, 0, 2] 1 0 0 = Inr 4"
proof -
  have "GaussianCurvature [0, 0, 0, 2, 0, 2] 1 0 0 = Inr 4"
    by (simp add: GaussianCurvature_def MetricFactor_def reached_def metric_labels_def
        curvature_labels_def metric_terms_def curvature_terms_def)
  then show ?thesis
    using gaussian_curvature_of_surface [of 1 "[5, 3, 4]" 2]
      gaussian_curvature_of_surface [of 2 "[0, 0, 0, 2, 0, 2]" 1] by auto
qed

text \<open>
  C38: the surface curl of a basis function is its gradient, rotated by a right angle and
  divided by the root of the metric factor.
\<close>

theorem surface_curl_is_rotated_gradient:
  assumes "m \<le> 8" "length a = label_of m" "h \<noteq> 0" "i \<le> 14" "j \<le> 14"
  shows "\<exists>f1 f2 g. gradient_of (\<lambda>u1 u2. (u1 / h) ^ i / fact i * ((u2 / h) ^ j / fact j)) f1 f2
    \<and> (\<forall>u1 u2. MetricFactor a h u1 u2 = Inr (g u1 u2)
         \<and> SurfaceCurlOfScalar a h u1 u2 (int i) (int j) 0 = Inr (f2 u1 u2 / sqrt (g u1 u2))
         \<and> SurfaceCurlOfScalar a h u1 u2 (int i) (int j) 1 = Inr (- f1 u1 u2 / sqrt (g u1 u2)))"
proof -
  define f1 where "f1 u1 u2 = tfac (u1 / h) (int i - 1) / h * tfac (u2 / h) (int j)" for u1 u2
  define f2 where "f2 u1 u2 = tfac (u1 / h) (int i) * (tfac (u2 / h) (int j - 1) / h)" for u1 u2
  define g where "g u1 u2 = 1 + layers a m h 1 0 u1 u2 ^ 2 + layers a m h 0 1 u1 u2 ^ 2" for u1 u2
  have "gradient_of (\<lambda>u1 u2. tfac (u1 / h) (int i) * tfac (u2 / h) (int j)) f1 f2"
    unfolding gradient_of_def f1_def f2_def using tfac_derivative [of h]
    by (auto intro!: derivative_eq_intros)
  moreover have "MetricFactor a h u1 u2 = Inr (g u1 u2)" for u1 u2
    using metric_value [OF assms(1-3)] by (simp add: g_def)
  moreover from this have
    "SurfaceCurlOfScalar a h u1 u2 (int i) (int j) 0 = Inr (f2 u1 u2 / sqrt (g u1 u2))"
    "SurfaceCurlOfScalar a h u1 u2 (int i) (int j) 1 = Inr (- f1 u1 u2 / sqrt (g u1 u2))" for u1 u2
    using assms(4,5) factorial_read [of "int i"] factorial_read [of "int j"]
      factorial_read [of "int i - 1"] factorial_read [of "int j - 1"]
    by (auto simp: SurfaceCurlOfScalar_def f1_def f2_def tfac_def nat_diff_distrib mult_ac)
  ultimately show ?thesis by (intro exI [of _ f1] exI [of _ f2] exI [of _ g]) (simp add: tfac_def)
qed

theorem surface_curl_is_rotated_gradient_witness:
  "\<exists>f1 f2 g. gradient_of (\<lambda>u1 u2. (u1 / 2) ^ 1 / fact 1 * ((u2 / 2) ^ 0 / fact 0)) f1 f2
    \<and> SurfaceCurlOfScalar [5, 3, 4] 2 0 0 1 0 1 = Inr (- f1 0 0 / sqrt g)"
  using surface_curl_is_rotated_gradient [of 1 "[5, 3, 4]" 2 1 0] by force

end
