(* ===== verification/Compadre_QuadratureRules.thy ===== *)
theory Compadre_QuadratureRules
  imports Compadre_Quadrature
begin

text \<open>
  What the rules of Compadre_Quadrature.hpp integrate.  The rules on the interval are
  Gauss rules, exact in real arithmetic.  The rules on the triangle are decimal numbers: a
  check in integers, evaluated in the kernel, bounds what their moments differ by.
\<close>

section \<open>The rules on the interval\<close>

text \<open>The sum of a rule over a function, and the sum that a user of the class forms.\<close>

definition line_sum :: "line_rule \<Rightarrow> (real \<Rightarrow> real) \<Rightarrow> real" where
  "line_sum points f = (\<Sum>(x, w)\<leftarrow>points. w * f x)"

definition quadrature_sum :: "quadrature \<Rightarrow> (real list \<Rightarrow> real) \<Rightarrow> real" where
  "quadrature_sum q f = (\<Sum>(w, s)\<leftarrow>zip (q_quadrature_weights q) (q_parameterized_quadrature_sites q). w * f s)"

lemma small_exponents: "k \<le> 9 \<Longrightarrow> k \<in> {0, 1, 2, 3, 4, 5, 6, 7, 8, 9 :: nat}"
  by auto

text \<open>A pair of points that lie symmetrically contributes the even powers only.\<close>

definition pair :: "nat \<Rightarrow> real \<Rightarrow> real" where
  "pair k r = ((1 - r) / 2) ^ k + ((1 + r) / 2) ^ k"

definition even_part :: "nat \<Rightarrow> real \<Rightarrow> real" where
  "even_part k s =
     ([2, 1, (1 + s) / 2, (1 + 3 * s) / 4, (1 + 6 * s + s ^ 2) / 8, (1 + 10 * s + 5 * s ^ 2) / 16,
       (1 + 15 * s + 15 * s ^ 2 + s ^ 3) / 32, (1 + 21 * s + 35 * s ^ 2 + 7 * s ^ 3) / 64,
       (1 + 28 * s + 70 * s ^ 2 + 28 * s ^ 3 + s ^ 4) / 128,
       (1 + 36 * s + 126 * s ^ 2 + 84 * s ^ 3 + 9 * s ^ 4) / 256] ! k)"

lemma pair_even:
  assumes "k \<le> 9" "r ^ 2 = s"
  shows "pair k r = even_part k s"
  unfolding assms(2) [symmetric] using small_exponents [OF assms(1)]
  by (elim insertE; simp add: pair_def even_part_def power_divide eval_nat_numeral field_simps)

lemma line_2_exact: "k \<le> 3 \<Longrightarrow> line_sum line_2 (\<lambda>x. x ^ k) = 1 / (real k + 1)"
proof -
  assume k: "k \<le> 3"
  then have k9: "k \<le> 9" by simp
  have "line_sum line_2 (\<lambda>x. x ^ k) = pair k (sqrt (1 / 3)) / 2"
    by (simp add: line_sum_def line_2_def pair_def field_simps)
  also have "\<dots> = even_part k (1 / 3) / 2" using k by (subst pair_even) simp_all
  also have "\<dots> = 1 / (real k + 1)"
    using small_exponents [OF k9] k by (elim insertE; simp add: even_part_def)
  finally show ?thesis .
qed

lemma line_3_exact: "k \<le> 5 \<Longrightarrow> line_sum line_3 (\<lambda>x. x ^ k) = 1 / (real k + 1)"
proof -
  assume k: "k \<le> 5"
  then have k9: "k \<le> 9" by simp
  have "line_sum line_3 (\<lambda>x. x ^ k) = 5 / 18 * pair k (sqrt (3 / 5)) + 4 / 9 * (1 / 2) ^ k"
    by (simp add: line_sum_def line_3_def pair_def field_simps)
  also have "pair k (sqrt (3 / 5)) = even_part k (3 / 5)" using k by (subst pair_even) simp_all
  also have "5 / 18 * \<dots> + 4 / 9 * (1 / 2) ^ k = 1 / (real k + 1)"
    using small_exponents [OF k9] k by (elim insertE; simp add: even_part_def power_divide)
  finally show ?thesis .
qed

lemma line_4_exact: "k \<le> 7 \<Longrightarrow> line_sum line_4 (\<lambda>x. x ^ k) = 1 / (real k + 1)"
proof -
  assume k: "k \<le> 7"
  then have k9: "k \<le> 9" by simp
  define u where "u = sqrt (6 / 5)"
  have u: "u ^ 2 = 6 / 5" "0 \<le> u" by (simp_all add: u_def)
  have "u \<le> 3 / 2" unfolding u_def by (rule real_le_lsqrt) (simp_all add: power2_eq_square)
  then have nonneg: "0 \<le> 3 / 7 - 2 / 7 * u" "0 \<le> 3 / 7 + 2 / 7 * u" using u by simp_all
  have "sqrt 30 = 5 * u"
    using u by (intro real_sqrt_unique) (simp_all add: power_mult_distrib)
  then have "line_sum line_4 (\<lambda>x. x ^ k) = (18 + 5 * u) / 72 * pair k (sqrt (3 / 7 - 2 / 7 * u))
      + (18 - 5 * u) / 72 * pair k (sqrt (3 / 7 + 2 / 7 * u))"
    by (simp add: line_sum_def line_4_def pair_def u_def field_simps)
  also have "\<dots> = (18 + 5 * u) / 72 * even_part k (3 / 7 - 2 / 7 * u)
      + (18 - 5 * u) / 72 * even_part k (3 / 7 + 2 / 7 * u)"
    using k nonneg by (simp add: pair_even)
  also have "\<dots> = 1 / (real k + 1)"
  proof -
    have uu: "u * u = 6 / 5" "u * (u * v) = 6 / 5 * v" for v using u(1) by (simp_all add: power2_eq_square flip: mult.assoc)
    show ?thesis
      using small_exponents [OF k9] k
      by (elim insertE; simp add: uu even_part_def power2_eq_square power3_eq_cube algebra_simps add_divide_distrib diff_divide_distrib)
  qed
  finally show ?thesis .
qed

lemma line_5_exact: "k \<le> 9 \<Longrightarrow> line_sum line_5 (\<lambda>x. x ^ k) = 1 / (real k + 1)"
proof -
  assume k: "k \<le> 9"
  note k9 = k
  define u where "u = sqrt (10 / 7)"
  have u: "u ^ 2 = 10 / 7" "0 \<le> u" by (simp_all add: u_def)
  have "u \<le> 5 / 2" unfolding u_def by (rule real_le_lsqrt) (simp_all add: power2_eq_square)
  then have nonneg: "0 \<le> 5 - 2 * u" "0 \<le> 5 + 2 * u" using u by simp_all
  then have sq: "(1 / 3 * sqrt (5 - 2 * u)) ^ 2 = (5 - 2 * u) / 9" "(1 / 3 * sqrt (5 + 2 * u)) ^ 2 = (5 + 2 * u) / 9"
    by (simp_all only: power_mult_distrib real_sqrt_pow2) (simp_all add: power2_eq_square)
  have "sqrt 70 = 7 * u"
    using u by (intro real_sqrt_unique) (simp_all add: power_mult_distrib)
  then have "line_sum line_5 (\<lambda>x. x ^ k) = 128 / 450 * (1 / 2) ^ k
      + (322 + 91 * u) / 1800 * pair k (1 / 3 * sqrt (5 - 2 * u))
      + (322 - 91 * u) / 1800 * pair k (1 / 3 * sqrt (5 + 2 * u))"
    by (simp add: line_sum_def line_5_def pair_def u_def field_simps)
  also have "\<dots> = 128 / 450 * (1 / 2) ^ k + (322 + 91 * u) / 1800 * even_part k ((5 - 2 * u) / 9)
      + (322 - 91 * u) / 1800 * even_part k ((5 + 2 * u) / 9)"
    using k by (simp only: pair_even [OF _ sq(1)] pair_even [OF _ sq(2)])
  also have "\<dots> = 1 / (real k + 1)"
  proof -
    have uu: "u * u = 10 / 7" "u * (u * v) = 10 / 7 * v" for v using u(1) by (simp_all add: power2_eq_square flip: mult.assoc)
    show ?thesis
      using small_exponents [OF k9] k
      by (elim insertE; simp add: uu even_part_def power2_eq_square power3_eq_cube power4_eq_xxxx power_divide
          algebra_simps add_divide_distrib diff_divide_distrib)
  qed
  finally show ?thesis .
qed

section \<open>Moments of a rule on the triangle\<close>

text \<open>
  The sum of a rule over a function, and the integral of \<open>x ^ a * y ^ b\<close> over the
  reference triangle.
\<close>

definition triangle_sum :: "rule \<Rightarrow> (real \<Rightarrow> real \<Rightarrow> real) \<Rightarrow> real" where
  "triangle_sum points f = (\<Sum>(x, y, w)\<leftarrow>points. w * f x y)"

definition triangle_integral :: "nat \<Rightarrow> nat \<Rightarrow> real" where
  "triangle_integral a b = fact a * fact b / fact (a + b + 2)"

definition near_exact :: "rule \<Rightarrow> nat \<Rightarrow> real \<Rightarrow> bool" where
  "near_exact points q e \<longleftrightarrow> (\<forall>a b. a + b \<le> q \<longrightarrow>
     \<bar>triangle_sum points (\<lambda>x y. x ^ a * y ^ b) - triangle_integral a b\<bar> \<le> e)"

text \<open>
  The check of a table in integers.  The sums of \<open>w x^a y^b\<close> are formed by multiplying the
  weights once per step; \<open>s\<close> is the power of ten by which such a sum is scaled.
\<close>

definition weight_sum :: "points \<Rightarrow> int" where
  "weight_sum points = sum_list (map (\<lambda>(x, y, w). w) points)"

definition times_x :: "points \<Rightarrow> points" where
  "times_x points = map (\<lambda>(x, y, w). (x, y, w * x)) points"

definition times_y :: "points \<Rightarrow> points" where
  "times_y points = map (\<lambda>(x, y, w). (x, y, w * y)) points"

text \<open>The factorial, by its recursion in integers.\<close>

primrec ifact :: "nat \<Rightarrow> int" where
  "ifact 0 = 1"
| "ifact (Suc n) = (1 + int n) * ifact n"

lemma ifact: "ifact n = fact n"
  by (induction n) simp_all

definition close :: "int \<Rightarrow> nat \<Rightarrow> nat \<Rightarrow> int \<Rightarrow> bool" where
  "close s a b m \<longleftrightarrow>
     \<bar>ifact (a + b + 2) * m - ifact a * ifact b * s\<bar> * (2 * 10 ^ 14) \<le> ifact (a + b + 2) * s"

fun y_ok :: "int \<Rightarrow> int \<Rightarrow> nat \<Rightarrow> nat \<Rightarrow> points \<Rightarrow> nat \<Rightarrow> bool" where
  "y_ok k s a b points 0 = close s a b (weight_sum points)"
| "y_ok k s a b points (Suc n) =
     (close s a b (weight_sum points) \<and> y_ok k (s * k) a (Suc b) (times_y points) n)"

definition moment :: "points \<Rightarrow> nat \<Rightarrow> nat \<Rightarrow> int" where
  "moment points a b = sum_list (map (\<lambda>(x, y, w). w * (x ^ a * y ^ b)) points)"

lemma moment_step [simp]:
  "moment points 0 0 = weight_sum points"
  "moment (times_x points) a b = moment points (Suc a) b"
  "moment (times_y points) a b = moment points a (Suc b)"
  unfolding moment_def weight_sum_def times_x_def times_y_def
  by (induction points) (auto simp: algebra_simps)

lemma y_ok_sound: "y_ok k s a b points n \<Longrightarrow> j \<le> n \<Longrightarrow> close (s * k ^ j) a (b + j) (moment points 0 j)"
proof (induction n arbitrary: s b points j)
  case 0
  then show ?case by simp
next
  case (Suc n)
  show ?case
  proof (cases j)
    case 0
    then show ?thesis using Suc.prems by simp
  next
    case (Suc i)
    then show ?thesis using Suc.IH [of "s * k" "Suc b" "times_y points" i] Suc.prems by (simp add: mult_ac)
  qed
qed

text \<open>One row of the check: a power of \<open>x\<close> with every power of \<open>y\<close>.\<close>

definition row_ok :: "nat \<Rightarrow> points \<Rightarrow> nat \<Rightarrow> nat \<Rightarrow> bool" where
  "row_ok k points q a = y_ok (10 ^ k) ((10 ^ k) ^ (a + 1)) a 0 ((times_x ^^ a) points) (q - a)"

lemma moment_times_x: "moment ((times_x ^^ a) points) 0 b = moment points a b"
proof -
  have "moment ((times_x ^^ a) points) c b = moment points (a + c) b" for c
    by (induction a arbitrary: c) simp_all
  then show ?thesis by (metis add.right_neutral)
qed

lemma row_ok_sound:
  assumes "row_ok k points q a" "a + b \<le> q"
  shows "close ((10 ^ k) ^ (a + b + 1)) a b (moment points a b)"
  using y_ok_sound [OF assms(1) [unfolded row_ok_def], of b] assms(2)
  by (simp add: moment_times_x power_add mult_ac)

lemma scaled_moment:
  "triangle_sum (scaled k points) (\<lambda>x y. x ^ a * y ^ b) = of_int (moment points a b) / (10 ^ k) ^ (a + b + 1)"
proof -
  define K where "K = (10 ^ k :: real)"
  have e: "of_int w / K * ((of_int x / K) ^ a * (of_int y / K) ^ b)
      = of_int (w * (x ^ a * y ^ b)) / K ^ (a + b + 1)" for x y w :: int
    by (simp add: power_divide power_add)
  have "triangle_sum (scaled k points) (\<lambda>x y. x ^ a * y ^ b) =
      sum_list (map (\<lambda>(x, y, w). of_int w / K * ((of_int x / K) ^ a * (of_int y / K) ^ b)) points)"
    by (induction points) (auto simp: triangle_sum_def scaled_def K_def)
  also have "\<dots> = of_int (moment points a b) / K ^ (a + b + 1)"
    unfolding moment_def e by (induction points) (auto simp: add_divide_distrib)
  finally show ?thesis by (simp add: K_def)
qed

definition rows_ok :: "nat \<Rightarrow> points \<Rightarrow> nat \<Rightarrow> nat list \<Rightarrow> bool" where
  "rows_ok k points q rows \<longleftrightarrow> list_all (row_ok k points q) rows"

lemma rows_ok_join:
  "rows_ok k points q [a..<b] \<Longrightarrow> rows_ok k points q [b..<c] \<Longrightarrow> rows_ok k points q [a..<c]"
  by (auto simp: rows_ok_def list_all_iff)

lemma certified:
  assumes "rows_ok k points q [0..<n]" "n = Suc q"
  shows "near_exact (scaled k points) q (1 / (2 * 10 ^ 14))"
  unfolding near_exact_def
proof (intro allI impI)
  fix a b :: nat assume "a + b \<le> q"
  then have c: "close ((10 ^ k) ^ (a + b + 1)) a b (moment points a b)"
    using assms by (intro row_ok_sound) (simp_all add: rows_ok_def list_all_iff del: upt_Suc)
  define s f m where "s = (10 ^ k :: real) ^ (a + b + 1)" and "f = (fact (a + b + 2) :: real)"
    and "m = real_of_int (moment points a b)"
  have pos: "0 < s" "0 < f" by (simp_all add: s_def f_def)
  have "\<bar>f * m - fact a * fact b * s\<bar> * (2 * 10 ^ 14) \<le> f * s"
    using c [unfolded close_def ifact, THEN of_int_le_iff [where 'a = real, THEN iffD2]]
    by (simp only: of_int_mult of_int_abs of_int_diff of_int_fact of_int_power of_int_numeral s_def f_def m_def)
  moreover have "f * m - fact a * fact b * s = (m / s - fact a * fact b / f) * (f * s)"
    using pos by (simp add: field_simps)
  ultimately have "\<bar>m / s - fact a * fact b / f\<bar> * (2 * 10 ^ 14) * (f * s) \<le> 1 * (f * s)"
    using pos by (simp add: abs_mult mult_ac)
  then have "\<bar>m / s - fact a * fact b / f\<bar> * (2 * 10 ^ 14) \<le> 1"
    using pos by (simp only: mult_le_cancel_right_pos mult_pos_pos)
  then show "\<bar>triangle_sum (scaled k points) (\<lambda>x y. x ^ a * y ^ b) - triangle_integral a b\<bar> \<le> 1 / (2 * 10 ^ 14)"
    unfolding scaled_moment triangle_integral_def s_def [symmetric] f_def [symmetric] m_def [symmetric]
    by (simp add: field_simps)
qed

text \<open>A table with more digits than matter is checked after it has been cut.\<close>

definition cut :: "int \<Rightarrow> points \<Rightarrow> points" where
  "cut d points = map (\<lambda>(x, y, w). (x div d, y div d, w div d)) points"

definition unit_points :: "int \<Rightarrow> points \<Rightarrow> bool" where
  "unit_points s points = list_all (\<lambda>(x, y, w). 0 \<le> x \<and> x \<le> s \<and> 0 \<le> y \<and> y \<le> s \<and> 0 \<le> w \<and> w \<le> s) points"

lemma cut_bound:
  fixes n :: int
  assumes "0 \<le> n" "n \<le> 10 ^ (k + l)"
  shows "\<bar>of_int n / 10 ^ (k + l)\<bar> \<le> (1 :: real)" "\<bar>of_int (n div 10 ^ l) / 10 ^ k\<bar> \<le> (1 :: real)"
    "\<bar>of_int n / 10 ^ (k + l) - of_int (n div 10 ^ l) / 10 ^ k\<bar> \<le> (1 / 10 ^ k :: real)"
proof -
  have d: "(0 :: int) < 10 ^ l" by simp
  define q r where "q = n div 10 ^ l" and "r = n mod 10 ^ l"
  have n: "n = q * 10 ^ l + r" unfolding q_def r_def by (rule div_mult_mod_eq [symmetric])
  have r: "0 \<le> r" "r < 10 ^ l" using d by (simp_all add: r_def)
  have q: "0 \<le> q" "q \<le> 10 ^ k"
    using assms zdiv_mono1 [OF assms(2) d] by (simp_all add: q_def pos_imp_zdiv_nonneg_iff power_add)
  have R: "real_of_int r < 10 ^ l" "real_of_int q \<le> 10 ^ k" "0 \<le> real_of_int r" "0 \<le> real_of_int q"
    "0 \<le> real_of_int n" "real_of_int n \<le> 10 ^ (k + l)"
    using r q assms
      of_int_less_iff [where 'a = real, of r "10 ^ l"] of_int_le_iff [where 'a = real, of q "10 ^ k"]
      of_int_le_iff [where 'a = real, of n "10 ^ (k + l)"] by simp_all
  show "\<bar>of_int n / 10 ^ (k + l)\<bar> \<le> (1 :: real)" "\<bar>of_int (n div 10 ^ l) / 10 ^ k\<bar> \<le> (1 :: real)"
    using R by (simp_all flip: q_def)
  have "of_int n / 10 ^ (k + l) - of_int q / 10 ^ k = (of_int r / 10 ^ (k + l) :: real)"
    by (simp add: n power_add field_simps)
  moreover have "(of_int r / 10 ^ (k + l) :: real) \<le> 1 / 10 ^ k"
    using R by (simp add: power_add field_simps)
  ultimately show "\<bar>of_int n / 10 ^ (k + l) - of_int (n div 10 ^ l) / 10 ^ k\<bar> \<le> (1 / 10 ^ k :: real)"
    using R by (simp flip: q_def)
qed

lemma product_close:
  fixes w x y w' x' y' e :: real
  assumes "\<bar>w\<bar> \<le> 1" "\<bar>x\<bar> \<le> 1" "\<bar>y\<bar> \<le> 1" "\<bar>w'\<bar> \<le> 1" "\<bar>x'\<bar> \<le> 1" "\<bar>y'\<bar> \<le> 1"
    and "\<bar>w - w'\<bar> \<le> e" "\<bar>x - x'\<bar> \<le> e" "\<bar>y - y'\<bar> \<le> e"
  shows "\<bar>w * (x ^ a * y ^ b) - w' * (x' ^ a * y' ^ b)\<bar> \<le> (real a + real b + 1) * e"
proof -
  have mult: "\<bar>p * q - p' * q'\<bar> \<le> \<bar>p - p'\<bar> + \<bar>q - q'\<bar>" if "\<bar>q\<bar> \<le> 1" "\<bar>p'\<bar> \<le> 1" for p q p' q' :: real
  proof -
    have "p * q - p' * q' = (p - p') * q + p' * (q - q')" by (simp add: algebra_simps)
    also have "\<bar>\<dots>\<bar> \<le> \<bar>p - p'\<bar> * \<bar>q\<bar> + \<bar>p'\<bar> * \<bar>q - q'\<bar>" by (metis abs_mult abs_triangle_ineq)
    also have "\<dots> \<le> \<bar>p - p'\<bar> * 1 + 1 * \<bar>q - q'\<bar>" using that by (intro add_mono mult_mono) simp_all
    finally show ?thesis by simp
  qed
  have power: "\<bar>z ^ n - z' ^ n\<bar> \<le> n * e" if "\<bar>z\<bar> \<le> 1" "\<bar>z'\<bar> \<le> 1" "\<bar>z - z'\<bar> \<le> e" for z z' :: real and n
    using norm_power_diff [of z z' n] that mult_left_mono [OF that(3), of "real n"] by simp
  have small: "\<bar>z ^ n\<bar> \<le> 1" if "\<bar>z\<bar> \<le> 1" for z :: real and n
    using that by (simp add: power_abs power_le_one)
  have "\<bar>w * (x ^ a * y ^ b) - w' * (x' ^ a * y' ^ b)\<bar> \<le> \<bar>w - w'\<bar> + \<bar>x ^ a * y ^ b - x' ^ a * y' ^ b\<bar>"
    using small [OF assms(2), of a] small [OF assms(3), of b] assms(4)
    by (intro mult) (simp_all add: abs_mult mult_le_one)
  also have "\<dots> \<le> e + (a * e + b * e)"
  proof -
    have "\<bar>x ^ a * y ^ b - x' ^ a * y' ^ b\<bar> \<le> \<bar>x ^ a - x' ^ a\<bar> + \<bar>y ^ b - y' ^ b\<bar>"
      using small [OF assms(3)] small [OF assms(5)] by (intro mult)
    also have "\<dots> \<le> a * e + b * e" using assms by (intro add_mono power)
    finally show ?thesis using assms(7) by simp
  qed
  finally show ?thesis by (simp add: algebra_simps)
qed

lemma cut_sum:
  assumes "unit_points (10 ^ (k + l)) points"
  shows "\<bar>triangle_sum (scaled (k + l) points) (\<lambda>x y. x ^ a * y ^ b)
      - triangle_sum (scaled k (cut (10 ^ l) points)) (\<lambda>x y. x ^ a * y ^ b)\<bar>
    \<le> real (length points) * ((real a + real b + 1) * (1 / 10 ^ k))"
  using assms
proof (induction points)
  case Nil
  then show ?case by (simp add: triangle_sum_def scaled_def cut_def)
next
  case (Cons p points)
  obtain x y w where p: "p = (x, y, w)" by (cases p)
  have bounds: "0 \<le> x" "x \<le> 10 ^ (k + l)" "0 \<le> y" "y \<le> 10 ^ (k + l)" "0 \<le> w" "w \<le> 10 ^ (k + l)"
    using Cons.prems by (simp_all add: p unit_points_def)
  define big small where "big n = (of_int n / 10 ^ (k + l) :: real)"
    and "small n = (of_int (n div 10 ^ l) / 10 ^ k :: real)" for n :: int
  have "\<bar>big w * (big x ^ a * big y ^ b) - small w * (small x ^ a * small y ^ b)\<bar>
      \<le> (real a + real b + 1) * (1 / 10 ^ k)"
    unfolding big_def small_def by (intro product_close cut_bound bounds)
  moreover have "\<bar>triangle_sum (scaled (k + l) points) (\<lambda>x y. x ^ a * y ^ b)
      - triangle_sum (scaled k (cut (10 ^ l) points)) (\<lambda>x y. x ^ a * y ^ b)\<bar>
    \<le> real (length points) * ((real a + real b + 1) * (1 / 10 ^ k))"
    using Cons by (simp add: p unit_points_def)
  moreover have "triangle_sum (scaled (k + l) (p # points)) (\<lambda>x y. x ^ a * y ^ b)
      = big w * (big x ^ a * big y ^ b) + triangle_sum (scaled (k + l) points) (\<lambda>x y. x ^ a * y ^ b)"
    "triangle_sum (scaled k (cut (10 ^ l) (p # points))) (\<lambda>x y. x ^ a * y ^ b)
      = small w * (small x ^ a * small y ^ b)
        + triangle_sum (scaled k (cut (10 ^ l) points)) (\<lambda>x y. x ^ a * y ^ b)"
    by (simp_all add: p triangle_sum_def scaled_def cut_def big_def small_def)
  moreover have "real (length (p # points)) * ((real a + real b + 1) * (1 / 10 ^ k))
      = (real a + real b + 1) * (1 / 10 ^ k) + real (length points) * ((real a + real b + 1) * (1 / 10 ^ k))"
    by (simp add: distrib_right add_divide_distrib)
  ultimately show ?case by linarith
qed

lemma certified_cut:
  assumes "rows_ok k (cut (10 ^ l) points) q [0..<n]" "n = Suc q" and "unit_points (10 ^ (k + l)) points"
    and "int (length points) * (int q + 1) * (2 * 10 ^ 14) \<le> 10 ^ k"
  shows "near_exact (scaled (k + l) points) q (1 / 10 ^ 14)"
  unfolding near_exact_def
proof (intro allI impI)
  fix a b :: nat assume ab: "a + b \<le> q"
  let ?s = "triangle_sum (scaled (k + l) points) (\<lambda>x y. x ^ a * y ^ b)"
  let ?t = "triangle_sum (scaled k (cut (10 ^ l) points)) (\<lambda>x y. x ^ a * y ^ b)"
  have "real (length points) * (real q + 1) * (2 * 10 ^ 14) \<le> 10 ^ k"
    using assms(4) [THEN of_int_le_iff [where 'a = real, THEN iffD2]] by simp
  then have "real (length points) * ((real q + 1) * (1 / 10 ^ k)) \<le> 1 / (2 * 10 ^ 14)"
    by (simp add: field_simps)
  moreover have "real (length points) * ((real a + real b + 1) * (1 / 10 ^ k))
      \<le> real (length points) * ((real q + 1) * (1 / 10 ^ k))"
    using ab by (intro mult_left_mono mult_right_mono) (simp_all flip: of_nat_add)
  ultimately have "\<bar>?s - ?t\<bar> \<le> 1 / (2 * 10 ^ 14)"
    using cut_sum [OF assms(3), of a b] by linarith
  moreover have "\<bar>?t - triangle_integral a b\<bar> \<le> 1 / (2 * 10 ^ 14)"
    using certified [OF assms(1,2)] ab by (simp add: near_exact_def)
  ultimately have "\<bar>?s - triangle_integral a b\<bar> \<le> 1 / (2 * 10 ^ 14) + 1 / (2 * 10 ^ 14)"
    by linarith
  then show "\<bar>?s - triangle_integral a b\<bar> \<le> 1 / 10 ^ 14" by simp
qed

lemma near_exact_mono: "near_exact points q e \<Longrightarrow> e \<le> e' \<Longrightarrow> q' \<le> q \<Longrightarrow> near_exact points q' e'"
  unfolding near_exact_def by (meson order_trans)

section \<open>The tables of the triangle\<close>

text \<open>Up to rounding in the last digits, the sites lie in the reference triangle.\<close>

definition points_inside :: "nat \<Rightarrow> points \<Rightarrow> bool" where
  "points_inside k points \<longleftrightarrow>
     list_all (\<lambda>(x, y, w). 0 \<le> x \<and> 0 \<le> y \<and> (x + y) * 10 ^ 16 \<le> 10 ^ k * (10 ^ 16 + 1)) points"

definition sites_inside :: "rule \<Rightarrow> bool" where
  "sites_inside points \<longleftrightarrow>
     (\<forall>(x, y, w) \<in> set points. 0 \<le> x \<and> 0 \<le> y \<and> x + y \<le> 1 + 1 / 10 ^ 16)"

lemma scaled_inside: "points_inside k points \<Longrightarrow> sites_inside (scaled k points)"
proof -
  assume inside: "points_inside k points"
  have "of_int x / 10 ^ k + of_int y / 10 ^ k \<le> (1 + 1 / 10 ^ 16 :: real)"
    if "(x + y) * 10 ^ 16 \<le> 10 ^ k * (10 ^ 16 + 1)" for x y :: int
  proof -
    have "(of_int x + of_int y) * 10 ^ 16 \<le> (10 ^ k * (10 ^ 16 + 1) :: real)"
      using that [THEN of_int_le_iff [where 'a = real, THEN iffD2]] by simp
    then have "of_int x + of_int y \<le> (10 ^ k * (1 + 1 / 10 ^ 16) :: real)" by (simp add: field_simps)
    then show ?thesis by (simp add: field_simps flip: add_divide_distrib)
  qed
  then show ?thesis
    using inside unfolding sites_inside_def points_inside_def scaled_def list_all_iff by force
qed

text \<open>
  The evaluations of the check.  Up to order eight every moment up to the order is checked
  (the tables with more than twenty digits after a cut to seventeen), above it every moment
  up to degree two: the cost of a row grows with the fourth power of the degree.
\<close>

lemma rows_6: "rows_ok 17 (cut (10 ^ 25) triangle_6) 4 [0..<5]"
  by code_simp

lemma rows_7_a: "rows_ok 17 (cut (10 ^ 25) triangle_7) 5 [0..<3]"
  by code_simp

lemma rows_7_b: "rows_ok 17 (cut (10 ^ 25) triangle_7) 5 [3..<6]"
  by code_simp

lemma rows_12_a: "rows_ok 17 (cut (10 ^ 25) triangle_12) 6 [0..<2]"
  by code_simp

lemma rows_12_b: "rows_ok 17 (cut (10 ^ 25) triangle_12) 6 [2..<4]"
  by code_simp

lemma rows_12_c: "rows_ok 17 (cut (10 ^ 25) triangle_12) 6 [4..<7]"
  by code_simp

lemma rows_13_a: "rows_ok 16 triangle_13 7 [0..<2]"
  by code_simp

lemma rows_13_b: "rows_ok 16 triangle_13 7 [2..<4]"
  by code_simp

lemma rows_13_c: "rows_ok 16 triangle_13 7 [4..<8]"
  by code_simp

lemma rows_16_a: "rows_ok 17 triangle_16 8 [0..<2]"
  by code_simp

lemma rows_16_b: "rows_ok 17 triangle_16 8 [2..<4]"
  by code_simp

lemma rows_16_c: "rows_ok 17 triangle_16 8 [4..<6]"
  by code_simp

lemma rows_16_d: "rows_ok 17 triangle_16 8 [6..<9]"
  by code_simp

lemma rows_19: "rows_ok 16 triangle_19 2 [0..<3]"
  by code_simp

lemma rows_24: "rows_ok 19 triangle_24 2 [0..<3]"
  by code_simp

lemma rows_27: "rows_ok 19 triangle_27 2 [0..<3]"
  by code_simp

lemma rows_32: "rows_ok 19 triangle_32 2 [0..<3]"
  by code_simp

lemma rows_36: "rows_ok 19 triangle_36 2 [0..<3]"
  by code_simp

lemma rows_42: "rows_ok 17 triangle_42 2 [0..<3]"
  by code_simp

lemma rows_55: "rows_ok 20 triangle_55 2 [0..<3]"
  by code_simp

lemma rows_61: "rows_ok 17 triangle_61 2 [0..<3]"
  by code_simp

lemma rows_66: "rows_ok 20 triangle_66 2 [0..<3]"
  by code_simp

lemma rows_73: "rows_ok 17 triangle_73 2 [0..<3]"
  by code_simp

lemma rows_78: "rows_ok 20 triangle_78 2 [0..<3]"
  by code_simp

lemma points_inside:
  "points_inside 42 triangle_6"
  "points_inside 42 triangle_7"
  "points_inside 42 triangle_12"
  "points_inside 16 triangle_13"
  "points_inside 17 triangle_16"
  "points_inside 16 triangle_19"
  "points_inside 19 triangle_24"
  "points_inside 19 triangle_27"
  "points_inside 19 triangle_32"
  "points_inside 19 triangle_36"
  "points_inside 17 triangle_42"
  "points_inside 20 triangle_55"
  "points_inside 17 triangle_61"
  "points_inside 20 triangle_66"
  "points_inside 17 triangle_73"
  "points_inside 20 triangle_78"
  by code_simp+

lemma unit_tables:
  "unit_points (10 ^ 42) triangle_6" "unit_points (10 ^ 42) triangle_7" "unit_points (10 ^ 42) triangle_12"
  by code_simp+

text \<open>The three tables of fractions are exact.\<close>

lemma fractions_1:
  assumes "a + b \<le> 1"
  shows "triangle_sum triangle_1 (\<lambda>x y. x ^ a * y ^ b) = triangle_integral a b"
proof -
  have small: "a \<in> {0, 1}" "b \<in> {0, 1}" using assms by auto
  have "(a, b) \<in> {(0, 0), (0, 1), (1, 0)}"
    using assms small by auto
  then show ?thesis
    by (elim insertE; simp add: triangle_sum_def triangle_1_def triangle_integral_def fact_numeral
        power_divide)
qed

lemma fractions_3:
  assumes "a + b \<le> 2"
  shows "triangle_sum triangle_3 (\<lambda>x y. x ^ a * y ^ b) = triangle_integral a b"
proof -
  have small: "a \<in> {0, 1, 2}" "b \<in> {0, 1, 2}" using assms by auto
  have "(a, b) \<in> {(0, 0), (0, 1), (0, 2), (1, 0), (1, 1), (2, 0)}"
    using assms small by auto
  then show ?thesis
    by (elim insertE; simp add: triangle_sum_def triangle_3_def triangle_integral_def fact_numeral
        power_divide)
qed

lemma fractions_4:
  assumes "a + b \<le> 3"
  shows "triangle_sum triangle_4 (\<lambda>x y. x ^ a * y ^ b) = triangle_integral a b"
proof -
  have small: "a \<in> {0, 1, 2, 3}" "b \<in> {0, 1, 2, 3}" using assms by auto
  have "(a, b) \<in> {(0, 0), (0, 1), (0, 2), (0, 3), (1, 0), (1, 1), (1, 2), (2, 0), (2, 1), (3, 0)}"
    using assms small by auto
  then show ?thesis
    by (elim insertE; simp add: triangle_sum_def triangle_4_def triangle_integral_def fact_numeral
        power_divide)
qed

lemma fraction_tables:
  "near_exact triangle_1 1 0" "near_exact triangle_3 2 0" "near_exact triangle_4 3 0"
  "sites_inside triangle_1" "sites_inside triangle_3" "sites_inside triangle_4"
proof -
  show "near_exact triangle_1 1 0" "near_exact triangle_3 2 0" "near_exact triangle_4 3 0"
    using fractions_1 fractions_3 fractions_4 by (simp_all add: near_exact_def)
  show "sites_inside triangle_1" "sites_inside triangle_3" "sites_inside triangle_4"
    by (simp_all add: sites_inside_def triangle_1_def triangle_3_def triangle_4_def)
qed

lemma near_exact_6: "near_exact (scaled 42 triangle_6) 4 (1 / 10 ^ 14)"
  using certified_cut [where k = 17 and l = 25, OF rows_6] unit_tables
  by (simp add: triangle_6_def)

lemma near_exact_7: "near_exact (scaled 42 triangle_7) 5 (1 / 10 ^ 14)"
  using certified_cut [where k = 17 and l = 25, OF rows_ok_join [OF rows_7_a rows_7_b]] unit_tables
  by (simp add: triangle_7_def)

lemma near_exact_12: "near_exact (scaled 42 triangle_12) 6 (1 / 10 ^ 14)"
  using certified_cut [where k = 17 and l = 25, OF rows_ok_join [OF rows_ok_join [OF rows_12_a rows_12_b] rows_12_c]] unit_tables
  by (simp add: triangle_12_def)

lemma near_exact_13: "near_exact (scaled 16 triangle_13) 7 (1 / 10 ^ 14)"
  by (rule near_exact_mono [OF certified [OF rows_ok_join [OF rows_ok_join [OF rows_13_a rows_13_b] rows_13_c]]]) simp_all

lemma near_exact_16: "near_exact (scaled 17 triangle_16) 8 (1 / 10 ^ 14)"
  by (rule near_exact_mono [OF certified [OF rows_ok_join [OF rows_ok_join [OF rows_ok_join [OF rows_16_a rows_16_b] rows_16_c] rows_16_d]]]) simp_all

lemma near_exact_19: "near_exact (scaled 16 triangle_19) 2 (1 / 10 ^ 14)"
  by (rule near_exact_mono [OF certified [OF rows_19]]) simp_all

lemma near_exact_24: "near_exact (scaled 19 triangle_24) 2 (1 / 10 ^ 14)"
  by (rule near_exact_mono [OF certified [OF rows_24]]) simp_all

lemma near_exact_27: "near_exact (scaled 19 triangle_27) 2 (1 / 10 ^ 14)"
  by (rule near_exact_mono [OF certified [OF rows_27]]) simp_all

lemma near_exact_32: "near_exact (scaled 19 triangle_32) 2 (1 / 10 ^ 14)"
  by (rule near_exact_mono [OF certified [OF rows_32]]) simp_all

lemma near_exact_36: "near_exact (scaled 19 triangle_36) 2 (1 / 10 ^ 14)"
  by (rule near_exact_mono [OF certified [OF rows_36]]) simp_all

lemma near_exact_42: "near_exact (scaled 17 triangle_42) 2 (1 / 10 ^ 14)"
  by (rule near_exact_mono [OF certified [OF rows_42]]) simp_all

lemma near_exact_55: "near_exact (scaled 20 triangle_55) 2 (1 / 10 ^ 14)"
  by (rule near_exact_mono [OF certified [OF rows_55]]) simp_all

lemma near_exact_61: "near_exact (scaled 17 triangle_61) 2 (1 / 10 ^ 14)"
  by (rule near_exact_mono [OF certified [OF rows_61]]) simp_all

lemma near_exact_66: "near_exact (scaled 20 triangle_66) 2 (1 / 10 ^ 14)"
  by (rule near_exact_mono [OF certified [OF rows_66]]) simp_all

lemma near_exact_73: "near_exact (scaled 17 triangle_73) 2 (1 / 10 ^ 14)"
  by (rule near_exact_mono [OF certified [OF rows_73]]) simp_all

lemma near_exact_78: "near_exact (scaled 20 triangle_78) 2 (1 / 10 ^ 14)"
  by (rule near_exact_mono [OF certified [OF rows_78]]) simp_all

section \<open>What the class provides\<close>

lemma triangle_quadrature_sum:
  "quadrature_sum (q\<lparr>q_quadrature_weights := map (\<lambda>(x, y, w). w) points,
     q_parameterized_quadrature_sites := map (\<lambda>(x, y, w). [x, y]) points,
     q_is_initialized := i\<rparr>) (\<lambda>s. f (s ! 0) (s ! 1)) = triangle_sum points f"
  by (induction points) (auto simp: quadrature_sum_def triangle_sum_def)

lemma line_quadrature_sum:
  "quadrature_sum (q\<lparr>q_quadrature_weights := map snd points,
     q_parameterized_quadrature_sites := map (\<lambda>(x, w). [x]) points,
     q_is_initialized := i\<rparr>) (\<lambda>s. f (s ! 0)) = line_sum points f"
  by (induction points) (auto simp: quadrature_sum_def line_sum_def)

lemma line_make:
  assumes "parseQuadratureType name = Inr qt" "number_of_points order 1 = Inr n" "line_table n = Inr points"
  shows "Quadrature_make order 1 name =
    Inr (Quadrature_default\<lparr>q_qt := qt, q_number_of_quadrature_points := n,
      q_quadrature_weights := map snd points,
      q_parameterized_quadrature_sites := map (\<lambda>(x, w). [x]) points, q_is_initialized := True\<rparr>)"
  using assms by (simp add: Quadrature_make_def generateQuadrature_def)

lemma triangle_make:
  assumes "parseQuadratureType name = Inr qt" "number_of_points order 2 = Inr n" "triangle_table n = Inr points"
  shows "Quadrature_make order 2 name =
    Inr (Quadrature_default\<lparr>q_qt := qt, q_number_of_quadrature_points := n,
      q_quadrature_weights := map (\<lambda>(x, y, w). w) points,
      q_parameterized_quadrature_sites := map (\<lambda>(x, y, w). [x, y]) points, q_is_initialized := True\<rparr>)"
  using assms by (simp add: Quadrature_make_def generateQuadrature_def)

text \<open>The tables by order.\<close>

lemma line_orders:
  assumes "0 \<le> order" "order < 10"
  shows "\<exists>n points. number_of_points order 1 = Inr n \<and> line_table n = Inr points
    \<and> n = int (length points)
    \<and> (\<forall>k. int k \<le> order \<longrightarrow> line_sum points (\<lambda>x. x ^ k) = 1 / (real k + 1))"
proof -
  have one: "line_sum line_1 (\<lambda>x. x ^ k) = 1 / (real k + 1)" if "k \<le> 1" for k
  proof -
    have "k = 0 \<or> k = 1" using that by auto
    then show ?thesis by (auto simp: line_sum_def line_1_def)
  qed
  have tables: "line_table 1 = Inr line_1" "line_table 2 = Inr line_2" "line_table 3 = Inr line_3"
    "line_table 4 = Inr line_4" "line_table 5 = Inr line_5"
    "length line_1 = 1" "length line_2 = 2" "length line_3 = 3" "length line_4 = 4" "length line_5 = 5"
    by (simp_all add: line_table_def line_1_def line_2_def line_3_def line_4_def line_5_def)
  have "order \<in> {0, 1, 2, 3, 4, 5, 6, 7, 8, 9}" using assms by simp presburger
  then show ?thesis
    by (elim insertE; simp add: number_of_points_def oneDNumPointsFromOrder_def view_read_def tables
        one one [of 0, simplified] line_2_exact line_3_exact line_4_exact line_5_exact)
qed

text \<open>The degree up to which the table of an order is checked.\<close>

definition checked_degree :: "int \<Rightarrow> nat" where
  "checked_degree order = (if order \<le> 8 then nat order else 2)"

lemma length_scaled [simp]: "length (scaled k points) = length points"
  by (simp add: scaled_def)

lemma triangle_lengths:
  "length triangle_6 = 6" "length triangle_7 = 7" "length triangle_12 = 12" "length triangle_13 = 13"
  "length triangle_16 = 16" "length triangle_19 = 19" "length triangle_24 = 24" "length triangle_27 = 27"
  "length triangle_32 = 32" "length triangle_36 = 36" "length triangle_42 = 42" "length triangle_55 = 55"
  "length triangle_61 = 61" "length triangle_66 = 66" "length triangle_73 = 73" "length triangle_78 = 78"
  by code_simp+

lemma triangle_tables:
  "triangle_table 1 = Inr triangle_1" "triangle_table 3 = Inr triangle_3"
  "triangle_table 4 = Inr triangle_4" "triangle_table 6 = Inr (scaled 42 triangle_6)"
  "triangle_table 7 = Inr (scaled 42 triangle_7)" "triangle_table 12 = Inr (scaled 42 triangle_12)"
  "triangle_table 13 = Inr (scaled 16 triangle_13)" "triangle_table 16 = Inr (scaled 17 triangle_16)"
  "triangle_table 19 = Inr (scaled 16 triangle_19)" "triangle_table 24 = Inr (scaled 19 triangle_24)"
  "triangle_table 27 = Inr (scaled 19 triangle_27)" "triangle_table 32 = Inr (scaled 19 triangle_32)"
  "triangle_table 36 = Inr (scaled 19 triangle_36)" "triangle_table 42 = Inr (scaled 17 triangle_42)"
  "triangle_table 55 = Inr (scaled 20 triangle_55)" "triangle_table 61 = Inr (scaled 17 triangle_61)"
  "triangle_table 66 = Inr (scaled 20 triangle_66)" "triangle_table 73 = Inr (scaled 17 triangle_73)"
  "triangle_table 78 = Inr (scaled 20 triangle_78)"
  by (simp_all add: triangle_table_def)

lemma triangle_orders:
  assumes "0 \<le> order" "order < 20"
  shows "\<exists>n points. number_of_points order 2 = Inr n \<and> triangle_table n = Inr points
    \<and> n = int (length points) \<and> near_exact points (checked_degree order) (1 / 10 ^ 14)
    \<and> sites_inside points"
proof -
  have exact: "near_exact triangle_1 0 (1 / 10 ^ 14)" "near_exact triangle_1 1 (1 / 10 ^ 14)"
    "near_exact triangle_3 2 (1 / 10 ^ 14)" "near_exact triangle_4 3 (1 / 10 ^ 14)"
    by (rule near_exact_mono [OF fraction_tables(1)] near_exact_mono [OF fraction_tables(2)]
        near_exact_mono [OF fraction_tables(3)]; simp)+
  have few: "length triangle_1 = 1" "length triangle_3 = 3" "length triangle_4 = 4"
    by (simp_all add: triangle_1_def triangle_3_def triangle_4_def)
  note near = near_exact_6 near_exact_7 near_exact_12 near_exact_13 near_exact_16 near_exact_19
    near_exact_24 near_exact_27 near_exact_32 near_exact_36 near_exact_42 near_exact_55 near_exact_61
    near_exact_66 near_exact_73 near_exact_78
  note points = number_of_points_def twoDNumPointsFromOrder_def view_read_def
  have "order \<in> {0, 1, 2, 3, 4, 5, 6, 7, 8, 9, 10, 11, 12, 13, 14, 15, 16, 17, 18, 19}"
    using assms by simp presburger
  then show ?thesis
    by (elim insertE;
        simp add: points triangle_tables checked_degree_def few triangle_lengths
          exact [simplified] near [simplified] fraction_tables points_inside [THEN scaled_inside])
qed

section \<open>Properties\<close>

text \<open>
  C39: a quadrature on the unit interval of an order from zero to nine is exact: the sum of
  the weights times the sites to the power \<open>k\<close> is the integral of that power, for every
  \<open>k\<close> up to the order.
\<close>

theorem line_quadrature_exact:
  assumes "0 \<le> order" "order < 10" "parseQuadratureType name = Inr qt"
  shows "\<exists>q. Quadrature_make order 1 name = Inr q \<and> validQuadrature q
    \<and> getNumberOfQuadraturePoints q = int (length (q_quadrature_weights q))
    \<and> (\<forall>k. int k \<le> order \<longrightarrow> quadrature_sum q (\<lambda>s. (s ! 0) ^ k) = 1 / (real k + 1))"
proof -
  obtain n points where t: "number_of_points order 1 = Inr n" "line_table n = Inr points"
    "n = int (length points)"
    "\<forall>k. int k \<le> order \<longrightarrow> line_sum points (\<lambda>x. x ^ k) = 1 / (real k + 1)"
    using line_orders [OF assms(1,2)] by blast
  show ?thesis
    unfolding line_make [OF assms(3) t(1,2)] using t(3,4)
    by (simp add: validQuadrature_def getNumberOfQuadraturePoints_def
        line_quadrature_sum [where f = "\<lambda>x. x ^ k" for k])
qed

theorem line_quadrature_exact_witness:
  "\<exists>q. Quadrature_make 4 1 ''LINE'' = Inr q \<and> quadrature_sum q (\<lambda>s. (s ! 0) ^ 4) = 1 / 5"
proof -
  have "parseQuadratureType ''LINE'' = Inr LINE" by code_simp
  from line_quadrature_exact [OF _ _ this, of 4] show ?thesis by fastforce
qed

text \<open>
  C40: a quadrature on the reference triangle of an order from zero to nineteen integrates
  the monomials up to its order (from order nine on: up to degree two) with an error of at
  most 1/10^14, and its sites lie in the triangle up to 1/10^16.
\<close>

theorem triangle_quadrature_near_exact:
  assumes "0 \<le> order" "order < 20" "parseQuadratureType name = Inr qt"
  shows "\<exists>q. Quadrature_make order 2 name = Inr q \<and> validQuadrature q
    \<and> getNumberOfQuadraturePoints q = int (length (q_quadrature_weights q))
    \<and> (\<forall>a b. a + b \<le> checked_degree order \<longrightarrow>
         \<bar>quadrature_sum q (\<lambda>s. (s ! 0) ^ a * (s ! 1) ^ b) - triangle_integral a b\<bar> \<le> 1 / 10 ^ 14)
    \<and> (\<forall>s \<in> set (q_parameterized_quadrature_sites q).
         0 \<le> s ! 0 \<and> 0 \<le> s ! 1 \<and> s ! 0 + s ! 1 \<le> 1 + 1 / 10 ^ 16)"
proof -
  obtain n points where t: "number_of_points order 2 = Inr n" "triangle_table n = Inr points"
    "n = int (length points)" "near_exact points (checked_degree order) (1 / 10 ^ 14)" "sites_inside points"
    using triangle_orders [OF assms(1,2)] by blast
  have "\<forall>s \<in> set (map (\<lambda>(x, y, w). [x, y]) points).
      0 \<le> s ! 0 \<and> 0 \<le> s ! 1 \<and> s ! 0 + s ! 1 \<le> 1 + 1 / 10 ^ 16"
    using t(5) by (auto simp: sites_inside_def)
  then show ?thesis
    unfolding triangle_make [OF assms(3) t(1,2)] using t(3,4)
    by (simp add: validQuadrature_def getNumberOfQuadraturePoints_def near_exact_def
        triangle_quadrature_sum [where f = "\<lambda>x y. x ^ a * y ^ b" for a b, simplified])
qed

theorem triangle_quadrature_near_exact_witness:
  "\<exists>q. Quadrature_make 7 2 ''tri'' = Inr q
    \<and> \<bar>quadrature_sum q (\<lambda>s. (s ! 0) ^ 3 * (s ! 1) ^ 4) - triangle_integral 3 4\<bar> \<le> 1 / 10 ^ 14"
proof -
  have "parseQuadratureType ''tri'' = Inr TRI" by code_simp
  from triangle_quadrature_near_exact [OF _ _ this, of 7] show ?thesis
    by (fastforce simp: checked_degree_def)
qed

text \<open>
  The constructor of a quadrature rejects an unknown type; without a dimension it
  leaves the object empty and not valid; beyond two dimensions it throws; and an order
  outside the list of numbers of points is read out of bounds.  Otherwise it succeeds.
\<close>

theorem quadrature_construction:
  "case parseQuadratureType name of
     Inl e \<Rightarrow> Quadrature_make order dimension name = Inl (Logic_error ''Quadrature type not available.'')
   | Inr qt \<Rightarrow>
       if dimension \<le> 0 then
         Quadrature_make order dimension name = Inr (Quadrature_default\<lparr>q_qt := qt\<rparr>)
       else if 2 < dimension then
         Quadrature_make order dimension name
           = Inl (Logic_error ''Higher than 2D quadrature not currently supported.'')
       else if order < 0 \<or> 10 * dimension \<le> order then
         Quadrature_make order dimension name = Inl Out_of_bounds
       else \<exists>q. Quadrature_make order dimension name = Inr q \<and> validQuadrature q \<and> q_qt q = qt"
proof (cases "parseQuadratureType name")
  case (Inl e)
  then show ?thesis by (auto simp: Quadrature_make_def parseQuadratureType_def Let_def split: if_splits)
next
  case (Inr qt)
  note defs = Quadrature_make_def generateQuadrature_def number_of_points_def view_read_def Quadrature_default_def
  consider "dimension \<le> 0" | "2 < dimension" | "dimension = 1" | "dimension = 2" by linarith
  then show ?thesis
  proof cases
    case 3
    have "\<exists>q. Quadrature_make order 1 name = Inr q \<and> validQuadrature q \<and> q_qt q = qt"
      if "0 \<le> order" "order < 10"
      using line_orders [OF that] line_make [OF Inr] by (auto simp: validQuadrature_def)
    then show ?thesis using 3 Inr by (auto simp: defs oneDNumPointsFromOrder_def)
  next
    case 4
    have "\<exists>q. Quadrature_make order 2 name = Inr q \<and> validQuadrature q \<and> q_qt q = qt"
      if "0 \<le> order" "order < 20"
      using triangle_orders [OF that] triangle_make [OF Inr] by (auto simp: validQuadrature_def)
    then show ?thesis using 4 Inr by (auto simp: defs twoDNumPointsFromOrder_def)
  qed (use Inr in \<open>simp_all add: defs\<close>)
qed

text \<open>
  The class forgets what it was built with: after every construction the order and the
  dimension that it reports are zero (the accessor of the dimension reads the order).
\<close>

theorem quadrature_forgets_order:
  assumes "Quadrature_make order dimension name = Inr q"
  shows "getOrderOfQuadraturePoints q = 0 \<and> getDimensionOfQuadraturePoints q = 0"
  using assms
  by (auto simp: Quadrature_make_def generateQuadrature_def rbind_eq_Inr_iff Quadrature_default_def Let_def
      getOrderOfQuadraturePoints_def getDimensionOfQuadraturePoints_def split: if_splits)

theorem quadrature_forgets_order_witness:
  "\<exists>q. Quadrature_make 4 1 ''LINE'' = Inr q \<and> getOrderOfQuadraturePoints q = 0"
proof -
  have "parseQuadratureType ''LINE'' = Inr LINE" by code_simp
  then have "\<exists>q. Quadrature_make 4 1 ''LINE'' = Inr q"
    by (simp add: Quadrature_make_def generateQuadrature_def number_of_points_def view_read_def
        oneDNumPointsFromOrder_def line_table_def)
  then show ?thesis using quadrature_forgets_order by blast
qed

end
