(* ===== verification/Compadre_FunctorData.thy ===== *)
theory Compadre_FunctorData
  imports Compadre_GMLS_Driver
begin

text \<open>
  The data that the functors of Compadre_Functors.hpp carry to the device, and the views
  they lay over it.  Every functor works on one target: the team with number
  \<open>local_index\<close> takes the tile with that number of each buffer of the batch, as a matrix
  with rows of consecutive entries.

  A pointer into a buffer is the place where it points; the buffers themselves stay in the
  state.  A product of two \<open>int\<close>s that gives the size of a tile is checked to be an
  \<open>int\<close>.
\<close>

section \<open>Matrices over a buffer\<close>

record matrix_view =
  mv_base :: int
  mv_rows :: int
  mv_cols :: int

definition matrix_place :: "matrix_view \<Rightarrow> int \<Rightarrow> int \<Rightarrow> int result" where
  "matrix_place mv i j =
     (if 0 \<le> i \<and> i < mv_rows mv \<and> 0 \<le> j \<and> j < mv_cols mv
      then Inr (mv_base mv + i * mv_cols mv + j) else Inl Out_of_bounds)"

definition matrix_read :: "'a list \<Rightarrow> matrix_view \<Rightarrow> int \<Rightarrow> int \<Rightarrow> 'a result" where
  "matrix_read buf mv i j = rbind (matrix_place mv i j) (view_read buf)"

definition matrix_write :: "'a list \<Rightarrow> matrix_view \<Rightarrow> int \<Rightarrow> int \<Rightarrow> 'a \<Rightarrow> 'a list result" where
  "matrix_write buf mv i j x = rbind (matrix_place mv i j) (\<lambda>p. view_write buf p x)"

text \<open>The view over the tile of a team, and of a vector of that team.\<close>

definition team_tile :: "int \<Rightarrow> int \<Rightarrow> int \<Rightarrow> matrix_view result" where
  "team_tile local_index dim_0 dim_1 =
     rbind (int_checked (dim_0 * dim_1)) (\<lambda>size.
       Inr \<lparr>mv_base = uint (TO_GLOBAL local_index * TO_GLOBAL size), mv_rows = dim_0, mv_cols = dim_1\<rparr>)"

section \<open>Data of the functors\<close>

text \<open>
  \<open>GMLSBasisData\<close>: first the copies of members of \<open>GMLS\<close>, then the variables derived
  from them.  The constructor leaves \<open>max_manifold_NP\<close>, \<open>max_poly_order\<close> and \<open>ref_N_dim\<close>
  indeterminate, and only a problem on a manifold sets them.
\<close>

record basis_data =
  bd_source_extra_data :: "real list list"
  bd_target_extra_data :: "real list list"
  bd_epsilons :: "real list"
  bd_prestencil_weights :: rank5
  bd_curvature_support_operations :: "TargetOperation list"
  bd_operations :: "TargetOperation list"
  bd_poly_order :: int
  bd_curvature_poly_order :: int
  bd_NP :: int
  bd_global_dimensions :: int
  bd_local_dimensions :: int
  bd_dimensions :: int
  bd_reconstruction_space_rank :: int
  bd_weighting_p :: int
  bd_weighting_n :: int
  bd_curvature_weighting_p :: int
  bd_curvature_weighting_n :: int
  bd_basis_multiplier :: int
  bd_sampling_multiplier :: int
  bd_data_sampling_multiplier :: "int option"
  bd_initial_index_for_batch :: int
  bd_max_num_neighbors :: int
  bd_order_of_quadrature_points :: int
  bd_dimension_of_quadrature_points :: int
  bd_pc :: point_connections
  bd_additional_pc :: point_connections
  bd_pm :: parallel_manager
  bd_reconstruction_space :: ReconstructionSpace
  bd_dense_solver_type :: DenseSolverType
  bd_problem_type :: ProblemType
  bd_constraint_type :: ConstraintType
  bd_polynomial_sampling_functional :: SamplingFunctional
  bd_data_sampling_functional :: SamplingFunctional
  bd_weighting_type :: WeightingFunctionType
  bd_curvature_weighting_type :: WeightingFunctionType
  bd_qm :: quadrature
  bd_d_ss :: solution_set
  bd_RHS_dims :: "int \<times> int"
  bd_P_dims :: "int \<times> int"
  bd_P_target_row_dim_0 :: int
  bd_P_target_row_dim_1 :: int
  bd_Coeffs_data :: buffer
  bd_Coeffs_dim_0 :: int
  bd_Coeffs_dim_1 :: int
  bd_max_num_rows :: int
  bd_manifold_NP :: int
  bd_max_manifold_NP :: "int option"
  bd_this_num_cols :: int
  bd_max_poly_order :: "int option"
  bd_ref_N_dim :: "int option"
  bd_thread_workspace_dim :: int
  bd_manifold_gradient_dim :: int

record solution_data =
  sd_sampling_multiplier :: int
  sd_initial_index_for_batch :: int
  sd_d_ss :: solution_set
  sd_this_num_cols :: int
  sd_Coeffs_data :: buffer
  sd_Coeffs_dim_0 :: int
  sd_Coeffs_dim_1 :: int
  sd_P_target_row_dim_0 :: int
  sd_P_target_row_dim_1 :: int
  sd_operations_size :: nat
  sd_number_of_neighbors_list :: "int list"
  sd_additional_number_of_neighbors_list :: "int list"

text \<open>
  Where the solve leaves the polynomial coefficients: in \<open>_RHS\<close> after a QR, in the
  transposed \<open>_P\<close> otherwise.
\<close>

definition Coeffs_place :: "gmls \<Rightarrow> int \<times> int \<Rightarrow> int \<times> int \<Rightarrow> buffer \<times> int \<times> int" where
  "Coeffs_place g RHS_dims P_dims =
     (if g_constraint_type g = NO_CONSTRAINT \<and> g_dense_solver_type g \<noteq> LU
      then (Buffer_RHS, RHS_dims) else (Buffer_P, snd P_dims, fst P_dims))"

definition createGMLSSolutionData :: "gmls \<Rightarrow> solution_data result" where
  "createGMLSSolutionData g =
     rbind (device_ss g) (\<lambda>d_ss.
     let max_num_rows = g_sampling_multiplier g * g_max_num_neighbors g;
         this_num_cols = g_basis_multiplier g * g_NP g;
         RHS_dims = getRHSDims (g_dense_solver_type g) (g_constraint_type g)
           (g_reconstruction_space g) (g_dimensions g) max_num_rows this_num_cols;
         P_dims = getPDims (g_dense_solver_type g) (g_constraint_type g)
           (g_reconstruction_space g) (g_dimensions g) max_num_rows this_num_cols;
         (coeffs, dim_0, dim_1) = Coeffs_place g RHS_dims P_dims
     in Inr \<lparr>sd_sampling_multiplier = g_sampling_multiplier g,
             sd_initial_index_for_batch = g_initial_index_for_batch g, sd_d_ss = d_ss,
             sd_this_num_cols = this_num_cols,
             sd_Coeffs_data = coeffs, sd_Coeffs_dim_0 = dim_0, sd_Coeffs_dim_1 = dim_1,
             sd_P_target_row_dim_0 =
               ss_total_alpha_values d_ss * ss_max_evaluation_sites_per_target d_ss,
             sd_P_target_row_dim_1 = this_num_cols,
             sd_operations_size = length (g_operations g),
             sd_number_of_neighbors_list = nl_number_of_neighbors_list (pc_nla (g_pc g)),
             sd_additional_number_of_neighbors_list =
               nl_number_of_neighbors_list (pc_nla (g_additional_pc g))\<rparr>)"

definition createGMLSBasisData :: "gmls \<Rightarrow> basis_data result" where
  "createGMLSBasisData g =
     rbind (device_ss g) (\<lambda>d_ss.
     let max_num_rows = g_sampling_multiplier g * g_max_num_neighbors g;
         manifold = g_problem_type g = MANIFOLD;
         manifold_NP = (if manifold
           then getNP (g_curvature_poly_order g) (g_dimensions g - 1) ScalarTaylorPolynomial else 0);
         max_manifold_NP = (if manifold_NP > g_NP g then manifold_NP else g_NP g);
         this_num_cols = g_basis_multiplier g * (if manifold then max_manifold_NP else g_NP g);
         max_poly_order = (if g_poly_order g > g_curvature_poly_order g then g_poly_order g
                           else g_curvature_poly_order g);
         RHS_dims = getRHSDims (g_dense_solver_type g) (g_constraint_type g)
           (g_reconstruction_space g) (g_dimensions g) max_num_rows this_num_cols;
         P_dims = getPDims (g_dense_solver_type g) (g_constraint_type g)
           (g_reconstruction_space g) (g_dimensions g) max_num_rows this_num_cols;
         (coeffs, dim_0, dim_1) = Coeffs_place g RHS_dims P_dims
     in Inr \<lparr>bd_source_extra_data = g_source_extra_data g,
            bd_target_extra_data = g_target_extra_data g, bd_epsilons = g_epsilons g,
            bd_prestencil_weights = g_prestencil_weights g,
            bd_curvature_support_operations = g_curvature_support_operations g,
            bd_operations = g_operations g, bd_poly_order = g_poly_order g,
            bd_curvature_poly_order = g_curvature_poly_order g, bd_NP = g_NP g,
            bd_global_dimensions = g_global_dimensions g, bd_local_dimensions = g_local_dimensions g,
            bd_dimensions = g_dimensions g,
            bd_reconstruction_space_rank = g_reconstruction_space_rank g,
            bd_weighting_p = g_weighting_p g, bd_weighting_n = g_weighting_n g,
            bd_curvature_weighting_p = g_curvature_weighting_p g,
            bd_curvature_weighting_n = g_curvature_weighting_n g,
            bd_basis_multiplier = g_basis_multiplier g,
            bd_sampling_multiplier = g_sampling_multiplier g,
            bd_data_sampling_multiplier = g_data_sampling_multiplier g,
            bd_initial_index_for_batch = g_initial_index_for_batch g,
            bd_max_num_neighbors = g_max_num_neighbors g,
            bd_order_of_quadrature_points = g_order_of_quadrature_points g,
            bd_dimension_of_quadrature_points = g_dimension_of_quadrature_points g,
            bd_pc = g_pc g, bd_additional_pc = g_additional_pc g, bd_pm = g_pm g,
            bd_reconstruction_space = g_reconstruction_space g,
            bd_dense_solver_type = g_dense_solver_type g, bd_problem_type = g_problem_type g,
            bd_constraint_type = g_constraint_type g,
            bd_polynomial_sampling_functional = g_polynomial_sampling_functional g,
            bd_data_sampling_functional = g_data_sampling_functional g,
            bd_weighting_type = g_weighting_type g,
            bd_curvature_weighting_type = g_curvature_weighting_type g,
            bd_qm = g_qm g, bd_d_ss = d_ss,
            bd_RHS_dims = RHS_dims, bd_P_dims = P_dims,
            bd_P_target_row_dim_0 =
              ss_total_alpha_values d_ss * ss_max_evaluation_sites_per_target d_ss,
            bd_P_target_row_dim_1 = this_num_cols,
            bd_Coeffs_data = coeffs, bd_Coeffs_dim_0 = dim_0, bd_Coeffs_dim_1 = dim_1,
            bd_max_num_rows = max_num_rows, bd_manifold_NP = manifold_NP,
            bd_max_manifold_NP = (if manifold then Some max_manifold_NP else None),
            bd_this_num_cols = this_num_cols,
            bd_max_poly_order = (if manifold then Some max_poly_order else None),
            bd_ref_N_dim = (if manifold then Some (g_dimensions g) else None),
            bd_thread_workspace_dim = (if manifold
              then (max_poly_order + 1) * g_global_dimensions g
              else (g_poly_order g + 1) * g_global_dimensions g),
            bd_manifold_gradient_dim = (if manifold
              then (g_dimensions g - 1) * g_max_num_neighbors g else 0)\<rparr>)"

text \<open>A buffer by its name.\<close>

definition buffer_of :: "gmls \<Rightarrow> buffer \<Rightarrow> real list" where
  "buffer_of g b = (case b of Buffer_P \<Rightarrow> g_P g | Buffer_RHS \<Rightarrow> g_RHS g)"

section \<open>Reading within a matrix\<close>

text \<open>The matrix lies in a buffer of \<open>n\<close> entries.\<close>

definition matrix_in :: "nat \<Rightarrow> matrix_view \<Rightarrow> bool" where
  "matrix_in n mv \<longleftrightarrow>
     0 \<le> mv_base mv \<and> 0 \<le> mv_rows mv \<and> 0 \<le> mv_cols mv
     \<and> mv_base mv + mv_rows mv * mv_cols mv \<le> int n"

definition matrix_addr :: "matrix_view \<Rightarrow> nat \<Rightarrow> nat \<Rightarrow> nat" where
  "matrix_addr mv i j = nat (mv_base mv) + (i * nat (mv_cols mv) + j)"

definition matrix_entry :: "'a list \<Rightarrow> matrix_view \<Rightarrow> nat \<Rightarrow> nat \<Rightarrow> 'a" where
  "matrix_entry buf mv i j = buf ! matrix_addr mv i j"

lemma matrix_addr_bound:
  assumes "matrix_in n mv" "int i < mv_rows mv" "int j < mv_cols mv"
  shows "matrix_addr mv i j < n"
proof -
  obtain b r c where m: "mv_base mv = int b" "mv_rows mv = int r" "mv_cols mv = int c"
    using assms(1) unfolding matrix_in_def by (metis nonneg_int_cases)
  have "i * c + j < r * c" using assms(2,3) by (intro tile_bound) (simp_all add: m)
  moreover have "b + r * c \<le> n" using assms(1) by (simp add: matrix_in_def m flip: of_nat_mult of_nat_add)
  ultimately show ?thesis by (simp add: matrix_addr_def m)
qed

lemma matrix_place_in:
  assumes "matrix_in n mv" "int i < mv_rows mv" "int j < mv_cols mv"
  shows "matrix_place mv (int i) (int j) = Inr (int (matrix_addr mv i j))"
  using assms by (simp add: matrix_place_def matrix_addr_def matrix_in_def)

lemma matrix_read_in:
  assumes "matrix_in (length buf) mv" "int i < mv_rows mv" "int j < mv_cols mv"
  shows "matrix_read buf mv (int i) (int j) = Inr (matrix_entry buf mv i j)"
  using matrix_addr_bound [OF assms]
  by (simp add: matrix_read_def matrix_place_in [OF assms] matrix_entry_def)

lemma matrix_write_in:
  assumes "matrix_in (length buf) mv" "int i < mv_rows mv" "int j < mv_cols mv"
  shows "matrix_write buf mv (int i) (int j) x = Inr (buf[matrix_addr mv i j := x])"
  using matrix_addr_bound [OF assms] by (simp add: matrix_write_def matrix_place_in [OF assms])

section \<open>The tiles of the teams\<close>

text \<open>
  A buffer for \<open>n\<close> teams, each with a matrix of the given extents: the tiles are one more
  layout of rows behind each other.
\<close>

definition tiling_ok :: "nat \<times> nat \<times> nat \<Rightarrow> bool" where
  "tiling_ok s \<longleftrightarrow> (case s of (teams, width, extent) \<Rightarrow>
     teams * width \<le> extent \<and> extent < 2 ^ 64 \<and> width < 2 ^ 31)"

interpretation tiles: scan_store tiling_ok fst "\<lambda>s _. fst (snd s)" "\<lambda>s l. l * fst (snd s)" "\<lambda>s. snd (snd s)"
  by unfold_locales (auto simp: tiling_ok_def)

lemma uint_of_nat_u64: "n < 2 ^ 64 \<Longrightarrow> uint (of_nat n :: u64) = int n"
  by (simp add: uint_nat unat_of_nat take_bit_nat_eq_self)

lemma team_tile_in:
  assumes "tiling_ok (teams, d0 * d1, n)" "l < teams"
  shows "\<exists>mv. team_tile (int l) (int d0) (int d1) = Inr mv \<and> matrix_in n mv
     \<and> mv = \<lparr>mv_base = int (l * (d0 * d1)), mv_rows = int d0, mv_cols = int d1\<rparr>"
proof -
  have s: "teams * (d0 * d1) \<le> n" "n < 2 ^ 64" "d0 * d1 < 2 ^ 31"
    using assms(1) by (simp_all add: tiling_ok_def)
  have "Suc l * (d0 * d1) \<le> teams * (d0 * d1)" using assms(2) by (intro mult_le_mono1) simp
  then have b: "l * (d0 * d1) + d0 * d1 \<le> n" using s(1) by simp
  have "int d0 * int d1 < 2 ^ 31" using s(3) by (simp flip: of_nat_mult)
  moreover have "0 \<le> int d0 * int d1" by simp
  ultimately have fit: "fits_int (int d0 * int d1)" unfolding fits_int_def by linarith
  have "TO_GLOBAL (int l) * TO_GLOBAL (int d0 * int d1) = (of_nat (l * (d0 * d1)) :: u64)"
    by (metis TO_GLOBAL_of_nat of_nat_mult)
  moreover have "uint (of_nat (l * (d0 * d1)) :: u64) = int (l * (d0 * d1))"
    by (rule uint_of_nat_u64) (use b s(2) in linarith)
  ultimately have "team_tile (int l) (int d0) (int d1) = Inr
      \<lparr>mv_base = int (l * (d0 * d1)), mv_rows = int d0, mv_cols = int d1\<rparr>"
    using fit by (simp add: team_tile_def del: of_nat_mult)
  moreover have "int (l * (d0 * d1)) + int d0 * int d1 \<le> int n"
    using b by (metis of_nat_add of_nat_le_iff of_nat_mult)
  ultimately show ?thesis by (simp add: matrix_in_def del: of_nat_mult)
qed

end
