(* ===== verification/Compadre_ApplyTargetEvaluations.thy ===== *)
theory Compadre_ApplyTargetEvaluations
  imports Compadre_FunctorData Compadre_TaylorTables
begin

text \<open>
  Compadre_ApplyTargetEvaluations.hpp and the functor \<open>ApplyTargets\<close> of
  Compadre_Functors.hpp: the products of the rows of the target functionals with the
  polynomial coefficients, stored as the alphas.  There is one form for the CPU and one for
  the GPU; a sum over a team is a sum in the order of the indices.
\<close>

section \<open>The products\<close>

text \<open>The innermost statement of both forms, for one column \<open>l\<close>.\<close>

definition add_product :: "real list \<Rightarrow> matrix_view \<Rightarrow> real list \<Rightarrow> matrix_view \<Rightarrow> int \<Rightarrow> int
    \<Rightarrow> nat \<Rightarrow> real \<Rightarrow> real result" where
  "add_product Z P_target_row C Q offset_index_jmke column l alpha_ij =
     rbind (matrix_read Z P_target_row offset_index_jmke (int l)) (\<lambda>p.
     rbind (matrix_read C Q (int l) column) (\<lambda>q. Inr (alpha_ij + p * q)))"

text \<open>The coefficient of one place: the CPU tests the multiplier in every round.\<close>

definition alpha_ij_cpu :: "solution_data \<Rightarrow> real list \<Rightarrow> matrix_view \<Rightarrow> real list \<Rightarrow> matrix_view
    \<Rightarrow> int \<Rightarrow> int \<Rightarrow> nat \<Rightarrow> nat \<Rightarrow> real result" where
  "alpha_ij_cpu data Z P_target_row C Q nn offset_index_jmke m i =
     (let Q_col = int i + int m * nn
      in rfold (\<lambda>l alpha_ij.
           if sd_sampling_multiplier data > 1 \<and> int m < sd_sampling_multiplier data
           then add_product Z P_target_row C Q offset_index_jmke Q_col l alpha_ij
           else if sd_sampling_multiplier data = 1
           then add_product Z P_target_row C Q offset_index_jmke (int i) l alpha_ij
           else Inr (alpha_ij + 0)) [0..<nat (sd_this_num_cols data)] 0)"

definition alpha_ij_gpu :: "solution_data \<Rightarrow> real list \<Rightarrow> matrix_view \<Rightarrow> real list \<Rightarrow> matrix_view
    \<Rightarrow> int \<Rightarrow> int \<Rightarrow> nat \<Rightarrow> nat \<Rightarrow> real result" where
  "alpha_ij_gpu data Z P_target_row C Q nn offset_index_jmke m i =
     (let columns = [0..<nat (sd_this_num_cols data)]
      in if sd_sampling_multiplier data > 1 \<and> int m < sd_sampling_multiplier data
         then rfold (add_product Z P_target_row C Q offset_index_jmke (int i + int m * nn)) columns 0
         else if sd_sampling_multiplier data = 1
         then rfold (add_product Z P_target_row C Q offset_index_jmke (int i)) columns 0
         else Inr 0)"

section \<open>The loops\<close>

text \<open>
  \<open>applyTargetsToCoefficients\<close> on the CPU.  The tile sizes are read when their loop starts;
  the alphas are the buffer that is written.
\<close>

definition applyTargetsToCoefficients_cpu ::
  "solution_data \<Rightarrow> int \<Rightarrow> real list \<Rightarrow> matrix_view \<Rightarrow> real list \<Rightarrow> matrix_view \<Rightarrow> real list
     \<Rightarrow> real list result" where
  "applyTargetsToCoefficients_cpu data league_rank C Q Z P_target_row alphas =
     (let ss = sd_d_ss data; target_index = sd_initial_index_for_batch data + league_rank
      in rbind (view_read (sd_number_of_neighbors_list data) target_index) (\<lambda>nn.
         let alphas_per_tile_per_target = nn + ss_added_alpha_size ss
         in rbind (getTargetOffsetIndex_device ss 0 0 0 0) (\<lambda>base_offset_index_jmke.
         rbind (getAlphaIndex_device ss target_index base_offset_index_jmke) (\<lambda>base_alphas_index.
         rbind (int_checked (ss_total_alpha_values ss * ss_max_evaluation_sites_per_target ss)) (\<lambda>rows.
         let this_alphas = \<lparr>mv_base = uint base_alphas_index, mv_rows = rows,
               mv_cols = alphas_per_tile_per_target\<rparr>
         in rbind (view_read (sd_additional_number_of_neighbors_list data) target_index) (\<lambda>additional.
         rfold (\<lambda>e. rfold (\<lambda>j alphas.
           rbind (view_read (ss_lro_output_tile_size ss) (int j)) (\<lambda>output_tile.
           rfold (\<lambda>k alphas.
             rbind (view_read (ss_lro_input_tile_size ss) (int j)) (\<lambda>input_tile.
             rfold (\<lambda>m alphas.
               rbind (getTargetOffsetIndex_device ss (int j) (int m) (int k) (int e))
                 (\<lambda>offset_index_jmke.
               rfold (\<lambda>i alphas.
                 rbind (alpha_ij_cpu data Z P_target_row C Q nn offset_index_jmke m i) (\<lambda>alpha_ij.
                 matrix_write alphas this_alphas offset_index_jmke (int i) alpha_ij))
                 [0..<nat (nn + ss_added_alpha_size ss)] alphas))
               [0..<nat input_tile] alphas))
             [0..<nat output_tile] alphas))
           [0..<sd_operations_size data])
         [0..<nat (additional + 1)] alphas))))))"

text \<open>
  On the GPU the threads of the team share the loop over the places, in any order (the
  list \<open>order\<close>).  \<open>alphas_index\<close> is an \<open>int\<close> there.
\<close>

definition applyTargetsToCoefficients_gpu ::
  "nat list \<Rightarrow> solution_data \<Rightarrow> int \<Rightarrow> real list \<Rightarrow> matrix_view \<Rightarrow> real list \<Rightarrow> matrix_view
     \<Rightarrow> real list \<Rightarrow> real list result" where
  "applyTargetsToCoefficients_gpu order data league_rank C Q Z P_target_row alphas =
     (let ss = sd_d_ss data; target_index = sd_initial_index_for_batch data + league_rank
      in rbind (view_read (sd_additional_number_of_neighbors_list data) target_index) (\<lambda>additional.
         rbind (view_read (sd_number_of_neighbors_list data) target_index) (\<lambda>nn.
         rfold (\<lambda>i. rfold (\<lambda>e. rfold (\<lambda>j alphas.
           rbind (view_read (ss_lro_output_tile_size ss) (int j)) (\<lambda>output_tile.
           rfold (\<lambda>k alphas.
             rbind (view_read (ss_lro_input_tile_size ss) (int j)) (\<lambda>input_tile.
             rfold (\<lambda>m alphas.
               rbind (getTargetOffsetIndex_device ss (int j) (int m) (int k) (int e))
                 (\<lambda>offset_index_jmke.
               rbind (getAlphaIndex_device ss target_index offset_index_jmke) (\<lambda>index.
               let alphas_index = TO_INT index
               in rbind (alpha_ij_gpu data Z P_target_row C Q nn offset_index_jmke m i) (\<lambda>alpha_ij.
                  view_write alphas (alphas_index + int i) alpha_ij)))) [0..<nat input_tile] alphas))
             [0..<nat output_tile] alphas))
           [0..<sd_operations_size data]) [0..<nat (additional + 1)])
         order alphas)))"

text \<open>
  The functor.  On a GPU \<open>order\<close> is the order of the places, on a CPU it is not used.
\<close>

definition ApplyTargets_functor ::
  "bool \<Rightarrow> nat list \<Rightarrow> solution_data \<Rightarrow> int \<Rightarrow> gmls \<Rightarrow> gmls result" where
  "ApplyTargets_functor use_cuda order data local_index g =
     rbind (team_tile local_index (sd_Coeffs_dim_0 data) (sd_Coeffs_dim_1 data)) (\<lambda>Coeffs.
     rbind (team_tile local_index (sd_P_target_row_dim_0 data) (sd_P_target_row_dim_1 data))
       (\<lambda>P_target_row.
     rbind (device_ss g) (\<lambda>ss.
     let C = buffer_of g (sd_Coeffs_data data); Z = g_Z g
     in rbind (if use_cuda
          then applyTargetsToCoefficients_gpu order data local_index C Coeffs Z P_target_row (ss_alphas ss)
          else applyTargetsToCoefficients_cpu data local_index C Coeffs Z P_target_row (ss_alphas ss))
        (\<lambda>alphas. Inr (g\<lparr>g_d_ss := Some (ss\<lparr>ss_alphas := alphas\<rparr>)\<rparr>)))))"

section \<open>Loops that write a view\<close>

text \<open>
  A loop that writes \<open>val x\<close> at \<open>addr x\<close>, within the view, and the same value wherever
  two rounds write the same place: whatever its order, it sets exactly those places.
\<close>

lemma length_fold_update [simp]: "length (fold (\<lambda>x s. s[addr x := val x]) xs s) = length s"
  by (induction xs arbitrary: s) simp_all

lemma fold_update_other:
  "a \<notin> addr ` set xs \<Longrightarrow> fold (\<lambda>x s. s[addr x := val x]) xs s ! a = s ! a"
  by (induction xs arbitrary: s) auto

lemma fold_update_written:
  assumes "x \<in> set xs" "\<And>x. x \<in> set xs \<Longrightarrow> addr x < length s"
    and "\<And>x y. x \<in> set xs \<Longrightarrow> y \<in> set xs \<Longrightarrow> addr x = addr y \<Longrightarrow> val x = val y"
  shows "fold (\<lambda>x s. s[addr x := val x]) xs s ! addr x = val x"
  using assms
proof (induction xs arbitrary: x s)
  case Nil
  then show ?case by simp
next
  case (Cons y ys)
  have inj: "val a = val b" if "a \<in> set (y # ys)" "b \<in> set (y # ys)" "addr a = addr b" for a b
    using that by (rule Cons.prems(3))
  show ?case
  proof (cases "addr x \<in> addr ` set ys")
    case True
    then obtain z where z: "z \<in> set ys" "addr x = addr z" by blast
    then have "fold (\<lambda>x s. s[addr x := val x]) ys (s[addr y := val y]) ! addr z = val z"
      by (intro Cons.IH) (use Cons.prems(2) inj in simp_all)
    moreover have "val z = val x" using z Cons.prems(1) by (intro inj) simp_all
    ultimately show ?thesis using z(2) by simp
  next
    case False
    then have "x = y \<or> addr x = addr y" using Cons.prems(1) by auto
    then have "addr x = addr y" by auto
    moreover from this have "val x = val y" using Cons.prems(1) by (intro inj) simp_all
    ultimately show ?thesis using False Cons.prems(2) [of y] by (simp add: fold_update_other)
  qed
qed

lemma fold_update_same:
  assumes "set xs = set ys" "\<And>x. x \<in> set xs \<Longrightarrow> addr x < length s"
    and "\<And>x y. x \<in> set xs \<Longrightarrow> y \<in> set xs \<Longrightarrow> addr x = addr y \<Longrightarrow> val x = val y"
  shows "fold (\<lambda>x s. s[addr x := val x]) xs s = fold (\<lambda>x s. s[addr x := val x]) ys s"
proof (rule nth_equalityI)
  fix a assume "a < length (fold (\<lambda>x s. s[addr x := val x]) xs s)"
  show "fold (\<lambda>x s. s[addr x := val x]) xs s ! a = fold (\<lambda>x s. s[addr x := val x]) ys s ! a"
  proof (cases "a \<in> addr ` set xs")
    case True
    then obtain x where x: "x \<in> set xs" "a = addr x" by blast
    have "fold (\<lambda>x s. s[addr x := val x]) xs s ! a = val x"
      unfolding x(2) by (rule fold_update_written [OF x(1) assms(2,3)])
    moreover have "fold (\<lambda>x s. s[addr x := val x]) ys s ! a = val x"
      unfolding x(2)
      by (rule fold_update_written [OF x(1) [unfolded assms(1)] assms(2,3) [unfolded assms(1)]])
    ultimately show ?thesis by simp
  next
    case False
    then show ?thesis using assms(1) by (simp add: fold_update_other)
  qed
qed simp

lemma rfold_updates:
  assumes "\<And>x s. x \<in> set xs \<Longrightarrow> length s = n \<Longrightarrow> f x s = Inr (s[addr x := val x])"
    and "length s = n"
  shows "rfold f xs s = Inr (fold (\<lambda>x s. s[addr x := val x]) xs s)"
  using rfold_Inr [of xs "\<lambda>s. length s = n" f "\<lambda>x s. s[addr x := val x]" s] assms by simp

section \<open>The places of one target\<close>

text \<open>
  A place is given by the site, the operation, the output and the input component, and the
  neighbor.
\<close>

type_synonym cell = "nat \<times> nat \<times> nat \<times> nat \<times> nat"

definition cells_of_column :: "solution_set \<Rightarrow> nat \<Rightarrow> nat list \<Rightarrow> cell list" where
  "cells_of_column ss sites is =
     concat (map (\<lambda>e. concat (map (\<lambda>j. concat (map (\<lambda>k. concat (map (\<lambda>m.
       map (\<lambda>i. (e, j, k, m, i)) is)
       [0..<nat (ss_lro_input_tile_size ss ! j)])) [0..<nat (ss_lro_output_tile_size ss ! j)]))
       [0..<ss_rows ss])) [0..<sites])"

definition cell_ok :: "solution_set \<Rightarrow> nat \<Rightarrow> nat \<Rightarrow> cell \<Rightarrow> bool" where
  "cell_ok ss t sites c \<longleftrightarrow> (case c of (e, j, k, m, i) \<Rightarrow>
     e < sites \<and> j < ss_rows ss \<and> k < nat (ss_lro_output_tile_size ss ! j)
     \<and> m < nat (ss_lro_input_tile_size ss ! j) \<and> i < alpha_depth ss t)"

definition cell_column :: "solution_set \<Rightarrow> cell \<Rightarrow> nat" where
  "cell_column ss c = (case c of (e, j, k, m, i) \<Rightarrow> alpha_column ss j m k e)"

definition cell_addr :: "solution_set \<Rightarrow> nat \<Rightarrow> cell \<Rightarrow> nat" where
  "cell_addr ss t c = (case c of (e, j, k, m, i) \<Rightarrow>
     alpha_offset ss t + (cell_column ss c * alpha_depth ss t + i))"

lemma cells_of_column_mem:
  "(e, j, k, m, i) \<in> set (cells_of_column ss sites is) \<longleftrightarrow>
     e < sites \<and> j < ss_rows ss \<and> k < nat (ss_lro_output_tile_size ss ! j)
     \<and> m < nat (ss_lro_input_tile_size ss ! j) \<and> i \<in> set is"
  by (clarsimp simp: cells_of_column_def image_iff, blast?)

lemma cells_of_column_set:
  "set (cells_of_column ss sites [0..<alpha_depth ss t]) = {c. cell_ok ss t sites c}"
  by (auto simp: cells_of_column_mem cell_ok_def)

lemma cell_column_facts:
  assumes "ss_inv ss" "cell_ok ss t sites (e, j, k, m, i)"
  shows "m * nat (ss_lro_output_tile_size ss ! j) + k < col_width ss j"
    "col_offset ss j + (m * nat (ss_lro_output_tile_size ss ! j) + k) < col_extent ss"
proof -
  have c: "j < ss_rows ss" "k < nat (ss_lro_output_tile_size ss ! j)"
    "m < nat (ss_lro_input_tile_size ss ! j)"
    using assms(2) by (simp_all add: cell_ok_def)
  note t = ss_inv_tables [OF assms(1) c(1)]
  show "m * nat (ss_lro_output_tile_size ss ! j) + k < col_width ss j"
    using tile_bound [OF c(3,2)] t(2,7) by (simp add: col_width_def nat_mult_distrib)
  then show "col_offset ss j + (m * nat (ss_lro_output_tile_size ss ! j) + k) < col_extent ss"
    by (rule cols.slot_in_extent [OF assms(1) c(1)])
qed

lemma cell_column_bound:
  assumes "ss_inv ss" "cell_ok ss t sites c" "sites \<le> nat (ss_max_evaluation_sites_per_target ss)"
  shows "cell_column ss c < alpha_columns ss"
proof -
  obtain e j k m i where c: "c = (e, j, k, m, i)" by (cases c)
  have "e < nat (ss_max_evaluation_sites_per_target ss)"
    using assms(2,3) by (auto simp: c cell_ok_def)
  from tile_bound [OF this cell_column_facts(2) [OF assms(1) assms(2) [unfolded c]]]
  show ?thesis
    by (simp add: c cell_column_def alpha_column_def alpha_columns_def col_extent_def mult.commute)
qed

lemma cell_addr_bound:
  assumes "alphas_inv ss" "t < alpha_rows ss" "cell_ok ss t sites c"
    and "sites \<le> nat (ss_max_evaluation_sites_per_target ss)"
  shows "cell_addr ss t c < length (ss_alphas ss)" "cell_addr ss t c < alpha_offset ss t + alpha_width ss t"
    "alpha_offset ss t \<le> cell_addr ss t c"
proof -
  obtain e j k m i where c: "c = (e, j, k, m, i)" by (cases c)
  have inv: "ss_inv ss" using assms(1) by (simp add: alphas_inv_def)
  have "i < alpha_depth ss t" using assms(3) by (simp add: c cell_ok_def)
  from tile_bound [OF cell_column_bound [OF inv assms(3,4)] this]
  have w: "cell_column ss c * alpha_depth ss t + i < alpha_width ss t"
    by (simp add: alpha_width_def mult.commute)
  show "cell_addr ss t c < length (ss_alphas ss)"
    using alphas.slot_in_extent [OF assms(1,2) w] by (simp add: cell_addr_def c alpha_extent_def)
  show "cell_addr ss t c < alpha_offset ss t + alpha_width ss t" "alpha_offset ss t \<le> cell_addr ss t c"
    using w by (simp_all add: cell_addr_def c)
qed

lemma cell_inj:
  assumes "alphas_inv ss" "t < alpha_rows ss" "t' < alpha_rows ss"
    and "cell_ok ss t sites c" "cell_ok ss t' sites' c'"
    and "sites \<le> nat (ss_max_evaluation_sites_per_target ss)"
    and "sites' \<le> nat (ss_max_evaluation_sites_per_target ss)"
    and "cell_addr ss t c = cell_addr ss t' c'"
  shows "t = t' \<and> c = c'"
proof -
  obtain e j k m i where c: "c = (e, j, k, m, i)" by (cases c)
  obtain e' j' k' m' i' where c': "c' = (e', j', k', m', i')" by (cases c')
  have inv: "ss_inv ss" using assms(1) by (simp add: alphas_inv_def)
  have i: "i < alpha_depth ss t" "i' < alpha_depth ss t'"
    and j: "j < ss_rows ss" "j' < ss_rows ss"
    and k: "k < nat (ss_lro_output_tile_size ss ! j)" "k' < nat (ss_lro_output_tile_size ss ! j')"
    using assms(4,5) by (simp_all add: c c' cell_ok_def)
  have "cell_column ss c * alpha_depth ss t + i < alpha_width ss t"
    "cell_column ss c' * alpha_depth ss t' + i' < alpha_width ss t'"
    using tile_bound [OF cell_column_bound [OF inv assms(4,6)] i(1)]
      tile_bound [OF cell_column_bound [OF inv assms(5,7)] i(2)]
    by (simp_all add: alpha_width_def mult.commute)
  with alphas.slot_inj [OF assms(1-3)] have 1: "t = t' \<and>
      cell_column ss c * alpha_depth ss t + i = cell_column ss c' * alpha_depth ss t' + i'"
    using assms(8) by (simp add: cell_addr_def c c')
  then have 2: "cell_column ss c = cell_column ss c' \<and> i = i'"
    using tile_inj [of _ "alpha_depth ss t" i _ i'] i by auto
  note f = cell_column_facts [OF inv assms(4) [unfolded c]]
    and f' = cell_column_facts [OF inv assms(5) [unfolded c']]
  have 3: "e = e' \<and> col_offset ss j + (m * nat (ss_lro_output_tile_size ss ! j) + k)
      = col_offset ss j' + (m' * nat (ss_lro_output_tile_size ss ! j') + k')"
    using tile_inj [OF _ f(2) f'(2), of e e'] 2
    by (simp add: c c' cell_column_def alpha_column_def mult.commute)
  then have 4: "j = j' \<and> m * nat (ss_lro_output_tile_size ss ! j) + k
      = m' * nat (ss_lro_output_tile_size ss ! j') + k'"
    using cols.slot_inj [OF inv j f(1) f'(1)] by blast
  then have "m = m' \<and> k = k'"
    using tile_inj [of m "nat (ss_lro_output_tile_size ss ! j)" k m' k'] k by auto
  with 1 2 3 4 show ?thesis by (simp add: c c')
qed

section \<open>The coefficients that are stored\<close>

definition target_product :: "solution_data \<Rightarrow> real list \<Rightarrow> matrix_view \<Rightarrow> real list \<Rightarrow> matrix_view
    \<Rightarrow> nat \<Rightarrow> nat \<Rightarrow> nat \<Rightarrow> nat \<Rightarrow> real" where
  "target_product data Z P_target_row C Q nn column m i =
     (if sd_sampling_multiplier data = 1 \<or> int m < sd_sampling_multiplier data
      then \<Sum>l<nat (sd_this_num_cols data). matrix_entry Z P_target_row column l
             * matrix_entry C Q l (if sd_sampling_multiplier data = 1 then i else i + m * nn)
      else 0)"

lemma add_products:
  assumes "matrix_in (length Z) P" "matrix_in (length C) Q"
    and "int column < mv_rows P" "int n \<le> mv_cols P" "int n \<le> mv_rows Q" "int q < mv_cols Q"
  shows "rfold (add_product Z P C Q (int column) (int q)) [0..<n] x
    = Inr (x + (\<Sum>l<n. matrix_entry Z P column l * matrix_entry C Q l q))"
  using assms(4,5)
proof (induction n)
  case 0
  then show ?case by simp
next
  case (Suc n)
  then have "matrix_read Z P (int column) (int n) = Inr (matrix_entry Z P column n)"
    "matrix_read C Q (int n) (int q) = Inr (matrix_entry C Q n q)"
    using assms(1-3,6) by (simp_all add: matrix_read_in)
  then show ?case using Suc by (simp add: rfold_append add_product_def)
qed

lemma rfold_const: "rfold (\<lambda>l x. Inr (x + 0)) xs (x :: real) = Inr x"
  by (induction xs) simp_all

lemma alpha_ij_value:
  assumes "matrix_in (length Z) P" "matrix_in (length C) Q"
    and "int column < mv_rows P" "sd_this_num_cols data \<le> mv_cols P"
    and "sd_this_num_cols data \<le> mv_rows Q" "1 \<le> sd_sampling_multiplier data"
    and "i < nn + a" "sd_sampling_multiplier data * int nn + int a \<le> mv_cols Q"
  shows "alpha_ij_cpu data Z P C Q (int nn) (int column) m i = Inr (target_product data Z P C Q nn column m i)"
    and "alpha_ij_gpu data Z P C Q (int nn) (int column) m i = Inr (target_product data Z P C Q nn column m i)"
proof -
  let ?n = "nat (sd_this_num_cols data)" and ?sm = "sd_sampling_multiplier data"
  have n: "int ?n \<le> mv_cols P" "int ?n \<le> mv_rows Q"
    using assms(1,2,4,5) by (simp_all add: matrix_in_def)
  have sum: "rfold (add_product Z P C Q (int column) (int q)) [0..<?n] 0
      = Inr (\<Sum>l<?n. matrix_entry Z P column l * matrix_entry C Q l q)" if "int q < mv_cols Q" for q
    using add_products [OF assms(1-3) n that, of 0] by simp
  have one: "int i < mv_cols Q" if "?sm = 1" using that assms(7,8) by simp
  have many: "int (i + m * nn) < mv_cols Q" if "int m < ?sm"
  proof -
    have "(int m + 1) * int nn \<le> ?sm * int nn" using that by (intro mult_right_mono) simp_all
    then show ?thesis using assms(7,8) by (simp add: algebra_simps)
  qed
  consider "?sm = 1" | "1 < ?sm" "int m < ?sm" | "1 < ?sm" "\<not> int m < ?sm"
    using assms(6) by linarith
  then show "alpha_ij_cpu data Z P C Q (int nn) (int column) m i = Inr (target_product data Z P C Q nn column m i)"
    "alpha_ij_gpu data Z P C Q (int nn) (int column) m i = Inr (target_product data Z P C Q nn column m i)"
  proof (atomize (full), cases)
    case 1
    then show "alpha_ij_cpu data Z P C Q (int nn) (int column) m i = Inr (target_product data Z P C Q nn column m i)
      \<and> alpha_ij_gpu data Z P C Q (int nn) (int column) m i = Inr (target_product data Z P C Q nn column m i)"
      using sum [OF one] by (simp add: alpha_ij_cpu_def alpha_ij_gpu_def target_product_def)
  next
    case 2
    then show "alpha_ij_cpu data Z P C Q (int nn) (int column) m i = Inr (target_product data Z P C Q nn column m i)
      \<and> alpha_ij_gpu data Z P C Q (int nn) (int column) m i = Inr (target_product data Z P C Q nn column m i)"
      using sum [OF many] by (simp add: alpha_ij_cpu_def alpha_ij_gpu_def target_product_def)
  next
    case 3
    then show "alpha_ij_cpu data Z P C Q (int nn) (int column) m i = Inr (target_product data Z P C Q nn column m i)
      \<and> alpha_ij_gpu data Z P C Q (int nn) (int column) m i = Inr (target_product data Z P C Q nn column m i)"
      using rfold_const [of "[0..<?n]" 0]
      by (simp add: alpha_ij_cpu_def alpha_ij_gpu_def target_product_def)
  qed
qed

text \<open>
  The data of a batch of \<open>teams\<close> targets that fits its buffers: \<open>nC\<close> and \<open>nZ\<close> are the
  extents of the coefficients and of the target rows.
\<close>

definition apply_ready :: "solution_data \<Rightarrow> nat \<Rightarrow> nat \<Rightarrow> nat \<Rightarrow> bool" where
  "apply_ready data nC nZ teams \<longleftrightarrow>
     alphas_inv (sd_d_ss data) \<and> 0 < ss_rows (sd_d_ss data)
     \<and> alpha_columns (sd_d_ss data) < 2 ^ 31
     \<and> sd_operations_size data = ss_rows (sd_d_ss data)
     \<and> 0 \<le> sd_initial_index_for_batch data
     \<and> nat (sd_initial_index_for_batch data) + teams \<le> alpha_rows (sd_d_ss data)
     \<and> sd_number_of_neighbors_list data = nl_number_of_neighbors_list (ss_neighbor_lists (sd_d_ss data))
     \<and> length (sd_additional_number_of_neighbors_list data) = alpha_rows (sd_d_ss data)
     \<and> (\<forall>n \<in> set (sd_additional_number_of_neighbors_list data).
          0 \<le> n \<and> n < ss_max_evaluation_sites_per_target (sd_d_ss data))
     \<and> sd_P_target_row_dim_0 data = int (alpha_columns (sd_d_ss data))
     \<and> sd_P_target_row_dim_1 data = sd_this_num_cols data \<and> 0 \<le> sd_this_num_cols data
     \<and> sd_this_num_cols data \<le> sd_Coeffs_dim_0 data \<and> 0 \<le> sd_Coeffs_dim_1 data
     \<and> 1 \<le> sd_sampling_multiplier data
     \<and> (\<forall>t < alpha_rows (sd_d_ss data). sd_sampling_multiplier data
           * int (nl_count (ss_neighbor_lists (sd_d_ss data)) t)
           + ss_added_alpha_size (sd_d_ss data) \<le> sd_Coeffs_dim_1 data)
     \<and> tiling_ok (teams, nat (sd_Coeffs_dim_0 data) * nat (sd_Coeffs_dim_1 data), nC)
     \<and> tiling_ok (teams, alpha_columns (sd_d_ss data) * nat (sd_this_num_cols data), nZ)"

text \<open>The number of evaluation sites of a target: itself and the additional ones.\<close>

definition sites_of :: "solution_data \<Rightarrow> nat \<Rightarrow> nat" where
  "sites_of data t = nat (sd_additional_number_of_neighbors_list data ! t + 1)"

definition Coeffs_tile :: "solution_data \<Rightarrow> nat \<Rightarrow> matrix_view" where
  "Coeffs_tile data l = \<lparr>mv_base = int (l * (nat (sd_Coeffs_dim_0 data) * nat (sd_Coeffs_dim_1 data))),
     mv_rows = sd_Coeffs_dim_0 data, mv_cols = sd_Coeffs_dim_1 data\<rparr>"

definition target_tile :: "solution_data \<Rightarrow> nat \<Rightarrow> matrix_view" where
  "target_tile data l = \<lparr>mv_base = int (l * (alpha_columns (sd_d_ss data) * nat (sd_this_num_cols data))),
     mv_rows = int (alpha_columns (sd_d_ss data)), mv_cols = sd_this_num_cols data\<rparr>"

text \<open>The target of a team, and the value of a cell of it.\<close>

definition team_target :: "solution_data \<Rightarrow> nat \<Rightarrow> nat" where
  "team_target data l = nat (sd_initial_index_for_batch data) + l"

definition cell_value :: "solution_data \<Rightarrow> real list \<Rightarrow> real list \<Rightarrow> nat \<Rightarrow> cell \<Rightarrow> real" where
  "cell_value data C Z l c = (case c of (e, j, k, m, i) \<Rightarrow>
     target_product data Z (target_tile data l) C (Coeffs_tile data l)
       (nl_count (ss_neighbor_lists (sd_d_ss data)) (team_target data l))
       (cell_column (sd_d_ss data) c) m i)"

lemma apply_tiles:
  assumes "apply_ready data nC nZ teams" "l < teams"
  shows "team_tile (int l) (sd_Coeffs_dim_0 data) (sd_Coeffs_dim_1 data) = Inr (Coeffs_tile data l)"
    and "team_tile (int l) (sd_P_target_row_dim_0 data) (sd_P_target_row_dim_1 data) = Inr (target_tile data l)"
    and "matrix_in nC (Coeffs_tile data l)" "matrix_in nZ (target_tile data l)"
proof -
  obtain d0 d1 cols where d: "sd_Coeffs_dim_0 data = int d0" "sd_Coeffs_dim_1 data = int d1"
      "sd_this_num_cols data = int cols"
    using assms(1) unfolding apply_ready_def by (metis nonneg_int_cases order_trans)
  have t: "tiling_ok (teams, d0 * d1, nC)" "tiling_ok (teams, alpha_columns (sd_d_ss data) * cols, nZ)"
    "sd_P_target_row_dim_0 data = int (alpha_columns (sd_d_ss data))" "sd_P_target_row_dim_1 data = int cols"
    using assms(1) by (simp_all add: apply_ready_def d)
  show "team_tile (int l) (sd_Coeffs_dim_0 data) (sd_Coeffs_dim_1 data) = Inr (Coeffs_tile data l)"
    "matrix_in nC (Coeffs_tile data l)"
    using team_tile_in [OF t(1) assms(2)] by (simp_all add: Coeffs_tile_def d del: of_nat_mult)
  show "team_tile (int l) (sd_P_target_row_dim_0 data) (sd_P_target_row_dim_1 data) = Inr (target_tile data l)"
    "matrix_in nZ (target_tile data l)"
    using team_tile_in [OF t(2) assms(2)] by (simp_all add: target_tile_def d t(3,4) del: of_nat_mult)
qed

text \<open>What the reads at the head of the loops give.\<close>

lemma target_offset_code:
  assumes "ss_inv ss" "j < ss_rows ss" "0 \<le> ss_total_alpha_values ss"
  shows "getTargetOffsetIndex_device ss (int j) (int m) (int k) (int e) = Inr (int (alpha_column ss j m k e))"
proof -
  note t = ss_inv_tables [OF assms(1,2)]
  have tot: "ss_total_alpha_values ss = int (col_extent ss)" using assms(3) by (simp add: col_extent_def)
  have "view_read (ss_lro_total_offsets ss) (int j) = Inr (int (col_offset ss j))"
      "view_read (ss_lro_output_tile_size ss) (int j) = Inr (int (nat (ss_lro_output_tile_size ss ! j)))"
    using assms(2) t(1,3,4,6) col_offset_eq(1) [OF assms(1,2)] by simp_all
  then show ?thesis
    by (simp add: getTargetOffsetIndex_device_def tot alpha_column_def del: int_nat_eq nat_int)
qed

lemma tile_reads:
  assumes "ss_inv ss" "j < ss_rows ss"
  shows "view_read (ss_lro_output_tile_size ss) (int j) = Inr (ss_lro_output_tile_size ss ! j)"
    "view_read (ss_lro_input_tile_size ss) (int j) = Inr (ss_lro_input_tile_size ss ! j)"
proof -
  have "length (ss_lro_input_tile_size ss) = ss_rows ss"
    using assms by (auto simp: ss_inv_def ss_rows_def Let_def)
  then show "view_read (ss_lro_output_tile_size ss) (int j) = Inr (ss_lro_output_tile_size ss ! j)"
    "view_read (ss_lro_input_tile_size ss) (int j) = Inr (ss_lro_input_tile_size ss ! j)"
    using ss_inv_tables(4) [OF assms] assms(2) by simp_all
qed

lemma apply_reads:
  assumes "apply_ready data nC nZ teams" "l < teams"
  defines "ss \<equiv> sd_d_ss data" and "t \<equiv> team_target data l"
  shows "t < alpha_rows ss" "alphas_inv ss" "ss_inv ss" "0 < alpha_columns ss"
    "sd_initial_index_for_batch data + int l = int t"
    "view_read (sd_number_of_neighbors_list data) (int t) = Inr (int (nl_count (ss_neighbor_lists ss) t))"
    "view_read (sd_additional_number_of_neighbors_list data) (int t)
       = Inr (sd_additional_number_of_neighbors_list data ! t)"
    "sites_of data t \<le> nat (ss_max_evaluation_sites_per_target ss)"
    "int (nl_count (ss_neighbor_lists ss) t) + ss_added_alpha_size ss = int (alpha_depth ss t)"
    "sd_operations_size data = ss_rows ss"
proof -
  note r = assms(1) [unfolded apply_ready_def, folded ss_def]
  show t: "t < alpha_rows ss" using r assms(2) by (simp add: t_def team_target_def)
  show inv: "alphas_inv ss" using r by simp
  then show si: "ss_inv ss" by (simp add: alphas_inv_def)
  show "sd_initial_index_for_batch data + int l = int t" using r by (simp add: t_def team_target_def)
  have wf: "nl_wf (ss_neighbor_lists ss)" using inv by (simp add: alphas_inv_def)
  have row: "t < nl_rows (ss_neighbor_lists ss)" using t by (simp add: alpha_rows_def)
  have nl: "sd_number_of_neighbors_list data = nl_number_of_neighbors_list (ss_neighbor_lists ss)" using r by simp
  show "view_read (sd_number_of_neighbors_list data) (int t) = Inr (int (nl_count (ss_neighbor_lists ss) t))"
    using nl_count_device [OF wf row] by (simp add: getNumberOfNeighborsDevice_def nl)
  have len: "length (sd_additional_number_of_neighbors_list data) = alpha_rows ss" using r by simp
  show "view_read (sd_additional_number_of_neighbors_list data) (int t)
       = Inr (sd_additional_number_of_neighbors_list data ! t)"
    using t len by simp
  have add: "0 \<le> sd_additional_number_of_neighbors_list data ! t"
    "sd_additional_number_of_neighbors_list data ! t < ss_max_evaluation_sites_per_target ss"
    using r t len by auto
  then show "sites_of data t \<le> nat (ss_max_evaluation_sites_per_target ss)"
    by (simp add: sites_of_def)
  show "int (nl_count (ss_neighbor_lists ss) t) + ss_added_alpha_size ss = int (alpha_depth ss t)"
    using inv by (simp add: alpha_depth_def alphas_inv_def)
  show "sd_operations_size data = ss_rows ss" using r by simp
  have rows: "0 < ss_rows ss" using r by simp
  have "0 < col_width ss 0" by (rule col_width_pos [OF si rows])
  then have "0 < nat (ss_total_alpha_values ss)"
    using cols.slot_in_extent [OF si rows, of 0] by (simp add: col_extent_def)
  moreover have "0 < nat (ss_max_evaluation_sites_per_target ss)" using add by linarith
  ultimately show "0 < alpha_columns ss" by (simp add: alpha_columns_def)
qed

lemma loops_as_cells:
  assumes "ss_inv ss" "\<And>e j k m. j < ss_rows ss \<Longrightarrow> m < nat (ss_lro_input_tile_size ss ! j)
      \<Longrightarrow> k < nat (ss_lro_output_tile_size ss ! j) \<Longrightarrow> e < sites \<Longrightarrow>
      body e j k m = rfold (\<lambda>i. step (e, j, k, m, i)) is"
  shows "rfold (\<lambda>e. rfold (\<lambda>j s. rbind (view_read (ss_lro_output_tile_size ss) (int j)) (\<lambda>output_tile.
       rfold (\<lambda>k s. rbind (view_read (ss_lro_input_tile_size ss) (int j)) (\<lambda>input_tile.
         rfold (\<lambda>m. body e j k m) [0..<nat input_tile] s)) [0..<nat output_tile] s))
       [0..<ss_rows ss]) [0..<sites] s = rfold step (cells_of_column ss sites is) s"
  unfolding cells_of_column_def rfold_concat rfold_map
proof (intro rfold_cong)
  fix e j s assume e: "e \<in> set [0..<sites]" and j: "j \<in> set [0..<ss_rows ss]"
  show "rbind (view_read (ss_lro_output_tile_size ss) (int j)) (\<lambda>output_tile.
       rfold (\<lambda>k s. rbind (view_read (ss_lro_input_tile_size ss) (int j)) (\<lambda>input_tile.
         rfold (\<lambda>m. body e j k m) [0..<nat input_tile] s)) [0..<nat output_tile] s)
    = rfold (\<lambda>k. rfold (\<lambda>m. rfold (\<lambda>i. step (e, j, k, m, i)) is)
         [0..<nat (ss_lro_input_tile_size ss ! j)]) [0..<nat (ss_lro_output_tile_size ss ! j)] s"
    using e j by (simp add: tile_reads [OF assms(1)]) (intro rfold_cong, simp add: assms(2))
qed

text \<open>The writes of one team, in a given order of the places.\<close>

definition team_cells :: "solution_data \<Rightarrow> nat \<Rightarrow> cell list" where
  "team_cells data l = cells_of_column (sd_d_ss data) (sites_of data (team_target data l))
     [0..<alpha_depth (sd_d_ss data) (team_target data l)]"

definition write_cell :: "solution_data \<Rightarrow> real list \<Rightarrow> real list \<Rightarrow> nat \<times> cell \<Rightarrow> real list \<Rightarrow> real list" where
  "write_cell data C Z lc s =
     s[cell_addr (sd_d_ss data) (team_target data (fst lc)) (snd lc) := cell_value data C Z (fst lc) (snd lc)]"

lemma team_cells_set:
  "set (team_cells data l) = {c. cell_ok (sd_d_ss data) (team_target data l) (sites_of data (team_target data l)) c}"
  by (simp add: team_cells_def cells_of_column_set)

lemma cell_alpha_value:
  assumes "apply_ready data (length C) (length Z) teams" "l < teams"
    and "cell_ok (sd_d_ss data) (team_target data l) (sites_of data (team_target data l)) (e, j, k, m, i)"
  defines "nn \<equiv> nl_count (ss_neighbor_lists (sd_d_ss data)) (team_target data l)"
  shows "alpha_ij_cpu data Z (target_tile data l) C (Coeffs_tile data l) (int nn)
      (int (alpha_column (sd_d_ss data) j m k e)) m i = Inr (cell_value data C Z l (e, j, k, m, i))"
    and "alpha_ij_gpu data Z (target_tile data l) C (Coeffs_tile data l) (int nn)
      (int (alpha_column (sd_d_ss data) j m k e)) m i = Inr (cell_value data C Z l (e, j, k, m, i))"
proof -
  note rd = apply_reads [OF assms(1,2)]
  note r = assms(1) [unfolded apply_ready_def]
  have col: "cell_column (sd_d_ss data) (e, j, k, m, i) < alpha_columns (sd_d_ss data)"
    by (rule cell_column_bound [OF rd(3) assms(3) rd(8)])
  obtain a where a: "ss_added_alpha_size (sd_d_ss data) = int a"
    using rd(2) by (auto simp: alphas_inv_def elim: nonneg_int_cases)
  have i: "i < nn + a"
    using assms(3) by (simp add: cell_ok_def nn_def alpha_depth_def a)
  have w: "sd_sampling_multiplier data * int nn + int a \<le> mv_cols (Coeffs_tile data l)"
    using r rd(1) by (simp add: Coeffs_tile_def nn_def flip: a)
  have c: "int (cell_column (sd_d_ss data) (e, j, k, m, i)) < mv_rows (target_tile data l)"
    "sd_this_num_cols data \<le> mv_cols (target_tile data l)"
    "sd_this_num_cols data \<le> mv_rows (Coeffs_tile data l)" "1 \<le> sd_sampling_multiplier data"
    using col r by (simp_all add: target_tile_def Coeffs_tile_def)
  note v = alpha_ij_value [OF apply_tiles(4,3) [OF assms(1,2)] c i w, of m]
  show "alpha_ij_cpu data Z (target_tile data l) C (Coeffs_tile data l) (int nn)
      (int (alpha_column (sd_d_ss data) j m k e)) m i = Inr (cell_value data C Z l (e, j, k, m, i))"
    and "alpha_ij_gpu data Z (target_tile data l) C (Coeffs_tile data l) (int nn)
      (int (alpha_column (sd_d_ss data) j m k e)) m i = Inr (cell_value data C Z l (e, j, k, m, i))"
    using v by (simp_all add: cell_value_def cell_column_def nn_def)
qed

lemma cpu_cells:
  assumes "apply_ready data (length C) (length Z) teams" "l < teams"
    and "length alphas = length (ss_alphas (sd_d_ss data))"
  shows "applyTargetsToCoefficients_cpu data (int l) C (Coeffs_tile data l) Z (target_tile data l) alphas
    = Inr (fold (\<lambda>c. write_cell data C Z (l, c)) (team_cells data l) alphas)"
proof -
  let ?ss = "sd_d_ss data" and ?t = "team_target data l"
  let ?nn = "nl_count (ss_neighbor_lists ?ss) ?t"
  note rd = apply_reads [OF assms(1,2)]
  have cols: "alpha_columns ?ss < 2 ^ 31" "0 < ss_rows ?ss" using assms(1) by (simp_all add: apply_ready_def)
  have nonneg: "0 \<le> ss_total_alpha_values ?ss" "0 \<le> ss_max_evaluation_sites_per_target ?ss"
    "length (ss_alphas ?ss) < 2 ^ 64"
    using rd(2) by (simp_all add: alphas_inv_def)
  have off0: "getTargetOffsetIndex_device ?ss 0 0 0 0 = Inr 0"
    using target_offset_code [OF rd(3) cols(2) nonneg(1), of 0 0 0] cols.offset_0 [OF rd(3) cols(2)]
    by (simp add: alpha_column_def)
  have end_: "alpha_offset ?ss ?t + alpha_width ?ss ?t \<le> length (ss_alphas ?ss)"
    using alphas.row_in_extent [OF rd(2,1)] by (simp add: alpha_extent_def)
  have base: "getAlphaIndex_device ?ss (int ?t) 0 = Inr (of_nat (alpha_offset ?ss ?t))"
    "uint (of_nat (alpha_offset ?ss ?t) :: u64) = int (alpha_offset ?ss ?t)"
    using getAlphaIndex_eq(2) [OF rd(2,1,4)] end_ nonneg(3) by (simp_all add: uint_of_nat_u64)
  have prod: "ss_total_alpha_values ?ss * ss_max_evaluation_sites_per_target ?ss = int (alpha_columns ?ss)"
    using nonneg by (simp add: alpha_columns_def)
  have fit: "int_checked (int (alpha_columns ?ss)) = Inr (int (alpha_columns ?ss))"
    using cols(1) by (simp add: int_checked_def fits_int_def)
  define view where "view = \<lparr>mv_base = int (alpha_offset ?ss ?t), mv_rows = int (alpha_columns ?ss),
      mv_cols = int (alpha_depth ?ss ?t)\<rparr>"
  have view: "matrix_in (length (ss_alphas ?ss)) view"
    using end_ by (simp add: matrix_in_def view_def alpha_width_def mult.commute flip: of_nat_mult of_nat_add)
  define step where "step = (\<lambda>c alphas. case c of (e, j, k, m, i) \<Rightarrow>
      rbind (alpha_ij_cpu data Z (target_tile data l) C (Coeffs_tile data l) (int ?nn)
        (int (alpha_column ?ss j m k e)) m i)
      (matrix_write alphas view (int (alpha_column ?ss j m k e)) (int i)))"
  have step: "step c s = Inr (write_cell data C Z (l, c) s)"
    if "c \<in> set (team_cells data l)" "length s = length (ss_alphas ?ss)" for c s
  proof -
    obtain e j k m i where c: "c = (e, j, k, m, i)" by (cases c)
    have ok: "cell_ok ?ss ?t (sites_of data ?t) (e, j, k, m, i)"
      using that(1) by (simp add: team_cells_set c)
    have "alpha_column ?ss j m k e < alpha_columns ?ss" "i < alpha_depth ?ss ?t"
      using cell_column_bound [OF rd(3) ok rd(8)] ok by (simp_all add: cell_column_def cell_ok_def)
    then have "matrix_write s view (int (alpha_column ?ss j m k e)) (int i) x
        = Inr (s[cell_addr ?ss ?t c := x])" for x
      using matrix_write_in [of s view "alpha_column ?ss j m k e" i x] view that(2)
      by (simp add: view_def matrix_addr_def cell_addr_def c cell_column_def)
    then show ?thesis
      using cell_alpha_value(1) [OF assms(1,2) ok] by (simp add: step_def c write_cell_def)
  qed
  have loop: "rfold step (team_cells data l) alphas = Inr (fold (\<lambda>c. write_cell data C Z (l, c)) (team_cells data l) alphas)"
    using rfold_updates [of "team_cells data l" "length (ss_alphas ?ss)" step "cell_addr ?ss ?t"
        "cell_value data C Z l" alphas] step assms(3) by (simp add: write_cell_def [abs_def])
  have "applyTargetsToCoefficients_cpu data (int l) C (Coeffs_tile data l) Z (target_tile data l) alphas
      = rfold step (team_cells data l) alphas"
    unfolding team_cells_def applyTargetsToCoefficients_cpu_def Let_def rd(5-7,10) rbind_Inr off0 base prod fit rd(9)
      view_def [symmetric]
    unfolding sites_of_def nat_int
    by (rule loops_as_cells [OF rd(3)])
      (simp add: target_offset_code [OF rd(3) _ nonneg(1)] step_def)
  then show ?thesis by (simp only: loop)
qed

text \<open>On the GPU the places come in another nesting, and the index has to fit an \<open>int\<close>.\<close>

definition team_cells_gpu :: "solution_data \<Rightarrow> nat list \<Rightarrow> nat \<Rightarrow> cell list" where
  "team_cells_gpu data order l =
     concat (map (\<lambda>i. cells_of_column (sd_d_ss data) (sites_of data (team_target data l)) [i]) order)"

lemma team_cells_gpu_set:
  assumes "set order = {0..<alpha_depth (sd_d_ss data) (team_target data l)}"
  shows "set (team_cells_gpu data order l) = set (team_cells data l)"
  using assms by (auto simp: team_cells_gpu_def team_cells_def cells_of_column_mem)

lemma rfold_single: "rfold f [x] = f x"
proof
  fix s show "rfold f [x] s = f x s" by (cases "f x s") simp_all
qed

lemma gpu_cells:
  assumes "apply_ready data (length C) (length Z) teams" "l < teams"
    and "length alphas = length (ss_alphas (sd_d_ss data))"
    and "set order = {0..<alpha_depth (sd_d_ss data) (team_target data l)}"
    and "length (ss_alphas (sd_d_ss data)) < 2 ^ 31"
  shows "applyTargetsToCoefficients_gpu order data (int l) C (Coeffs_tile data l) Z (target_tile data l) alphas
    = Inr (fold (\<lambda>c. write_cell data C Z (l, c)) (team_cells_gpu data order l) alphas)"
proof -
  let ?ss = "sd_d_ss data" and ?t = "team_target data l"
  let ?nn = "nl_count (ss_neighbor_lists ?ss) ?t"
  note rd = apply_reads [OF assms(1,2)]
  have nonneg: "0 \<le> ss_total_alpha_values ?ss" using rd(2) by (simp add: alphas_inv_def)
  define step where "step = (\<lambda>c alphas. case c of (e, j, k, m, i) \<Rightarrow>
      rbind (getAlphaIndex_device ?ss (int ?t) (int (alpha_column ?ss j m k e))) (\<lambda>index.
      rbind (alpha_ij_gpu data Z (target_tile data l) C (Coeffs_tile data l) (int ?nn)
        (int (alpha_column ?ss j m k e)) m i)
      (view_write alphas (TO_INT index + int i))))"
  have step: "step c s = Inr (write_cell data C Z (l, c) s)"
    if "c \<in> set (team_cells_gpu data order l)" "length s = length (ss_alphas ?ss)" for c s
  proof -
    obtain e j k m i where c: "c = (e, j, k, m, i)" by (cases c)
    have ok: "cell_ok ?ss ?t (sites_of data ?t) (e, j, k, m, i)"
      using that(1) by (simp add: team_cells_gpu_set [OF assms(4)] team_cells_set c)
    have col: "alpha_column ?ss j m k e < alpha_columns ?ss"
      using cell_column_bound [OF rd(3) ok rd(8)] by (simp add: cell_column_def)
    have addr: "cell_addr ?ss ?t c < length (ss_alphas ?ss)"
      using cell_addr_bound(1) [OF rd(2,1) ok rd(8)] by (simp add: c)
    have eq: "int (alpha_offset ?ss ?t + alpha_column ?ss j m k e * alpha_depth ?ss ?t) + int i
        = int (cell_addr ?ss ?t c)"
      by (simp add: cell_addr_def c cell_column_def)
    have "TO_INT (of_nat (alpha_offset ?ss ?t + alpha_column ?ss j m k e * alpha_depth ?ss ?t))
        = int (alpha_offset ?ss ?t + alpha_column ?ss j m k e * alpha_depth ?ss ?t)"
      by (rule TO_INT_nat) (use addr assms(5) in \<open>simp add: cell_addr_def c cell_column_def\<close>)
    then show ?thesis
      using cell_alpha_value(2) [OF assms(1,2) ok] getAlphaIndex_eq(2) [OF rd(2,1) col] that(2) addr
      by (simp add: step_def c write_cell_def eq [unfolded c] del: of_nat_add of_nat_mult)
  qed
  have loop: "rfold step (team_cells_gpu data order l) alphas
      = Inr (fold (\<lambda>c. write_cell data C Z (l, c)) (team_cells_gpu data order l) alphas)"
    using rfold_updates [of "team_cells_gpu data order l" "length (ss_alphas ?ss)" step "cell_addr ?ss ?t"
        "cell_value data C Z l" alphas] step assms(3) by (simp add: write_cell_def [abs_def])
  have "applyTargetsToCoefficients_gpu order data (int l) C (Coeffs_tile data l) Z (target_tile data l) alphas
      = rfold step (team_cells_gpu data order l) alphas"
    unfolding team_cells_gpu_def rfold_concat rfold_map applyTargetsToCoefficients_gpu_def Let_def rd(5-7,10) rbind_Inr
    unfolding sites_of_def
    by (intro rfold_cong loops_as_cells [OF rd(3)])
      (simp add: target_offset_code [OF rd(3) _ nonneg] step_def rfold_single)
  then show ?thesis by (simp only: loop)
qed

section \<open>A batch\<close>

text \<open>
  The functor over a batch: the teams run in the order of \<open>ranks\<close>, and \<open>places\<close> gives the
  order of the places of each team.
\<close>

definition apply_batch :: "bool \<Rightarrow> (nat \<Rightarrow> nat list) \<Rightarrow> solution_data \<Rightarrow> nat list \<Rightarrow> gmls \<Rightarrow> gmls result" where
  "apply_batch use_cuda places data ranks g =
     rfold (\<lambda>l. ApplyTargets_functor use_cuda (places l) data (int l)) ranks g"

text \<open>What a schedule has to do, and the size it may have.\<close>

definition schedule_ok :: "bool \<Rightarrow> (nat \<Rightarrow> nat list) \<Rightarrow> solution_data \<Rightarrow> nat \<Rightarrow> bool" where
  "schedule_ok use_cuda places data teams \<longleftrightarrow>
     (use_cuda \<longrightarrow> length (ss_alphas (sd_d_ss data)) < 2 ^ 31
        \<and> (\<forall>l < teams. set (places l) = {0..<alpha_depth (sd_d_ss data) (team_target data l)}))"

definition rank_cells :: "bool \<Rightarrow> (nat \<Rightarrow> nat list) \<Rightarrow> solution_data \<Rightarrow> nat \<Rightarrow> (nat \<times> cell) list" where
  "rank_cells use_cuda places data l =
     map (Pair l) (if use_cuda then team_cells_gpu data (places l) l else team_cells data l)"

lemma rank_cells_set:
  assumes "schedule_ok use_cuda places data teams" "l < teams"
  shows "set (rank_cells use_cuda places data l) = {(l, c) |c.
     cell_ok (sd_d_ss data) (team_target data l) (sites_of data (team_target data l)) c}"
proof (cases use_cuda)
  case True
  with assms have "set (places l) = {0..<alpha_depth (sd_d_ss data) (team_target data l)}"
    by (simp add: schedule_ok_def)
  from team_cells_gpu_set [OF this] True show ?thesis by (auto simp: rank_cells_def team_cells_set)
next
  case False
  then show ?thesis by (auto simp: rank_cells_def team_cells_set)
qed

lemma functor_writes:
  assumes "apply_ready data (length (buffer_of g (sd_Coeffs_data data))) (length (g_Z g)) teams"
    and "schedule_ok use_cuda places data teams" "l < teams"
    and "g_d_ss g = Some ss" "length (ss_alphas ss) = length (ss_alphas (sd_d_ss data))"
  shows "ApplyTargets_functor use_cuda (places l) data (int l) g = Inr (g\<lparr>g_d_ss := Some (ss\<lparr>ss_alphas :=
     fold (write_cell data (buffer_of g (sd_Coeffs_data data)) (g_Z g)) (rank_cells use_cuda places data l)
       (ss_alphas ss)\<rparr>)\<rparr>)"
proof -
  note t = apply_tiles [OF assms(1,3)]
  have s: "device_ss g = Inr ss" by (simp add: device_ss_def assms(4))
  show ?thesis
  proof (cases use_cuda)
    case True
    with assms(2,3) have o: "set (places l) = {0..<alpha_depth (sd_d_ss data) (team_target data l)}"
      "length (ss_alphas (sd_d_ss data)) < 2 ^ 31" by (simp_all add: schedule_ok_def)
    show ?thesis
      using gpu_cells [OF assms(1,3,5) o] True
      by (simp add: ApplyTargets_functor_def t s Let_def rank_cells_def fold_map comp_def)
  next
    case False
    then show ?thesis
      using cpu_cells [OF assms(1,3,5)]
      by (simp add: ApplyTargets_functor_def t s Let_def rank_cells_def fold_map comp_def)
  qed
qed

lemma batch_writes:
  assumes "apply_ready data (length (buffer_of g (sd_Coeffs_data data))) (length (g_Z g)) teams"
    and "schedule_ok use_cuda places data teams" "set ranks \<subseteq> {..<teams}"
    and "g_d_ss g = Some ss" "length (ss_alphas ss) = length (ss_alphas (sd_d_ss data))"
  shows "apply_batch use_cuda places data ranks g = Inr (g\<lparr>g_d_ss := Some (ss\<lparr>ss_alphas :=
     fold (write_cell data (buffer_of g (sd_Coeffs_data data)) (g_Z g))
       (concat (map (rank_cells use_cuda places data) ranks)) (ss_alphas ss)\<rparr>)\<rparr>)"
  using assms
proof (induction ranks arbitrary: g ss)
  case Nil
  then show ?case by (simp add: apply_batch_def)
next
  case (Cons l ranks)
  let ?w = "write_cell data (buffer_of g (sd_Coeffs_data data)) (g_Z g)"
  define ss1 where "ss1 = ss\<lparr>ss_alphas := fold ?w (rank_cells use_cuda places data l) (ss_alphas ss)\<rparr>"
  define g1 where "g1 = g\<lparr>g_d_ss := Some ss1\<rparr>"
  have first: "ApplyTargets_functor use_cuda (places l) data (int l) g = Inr g1"
    using functor_writes [OF Cons.prems(1,2) _ Cons.prems(4,5), of l] Cons.prems(3)
    by (simp add: g1_def ss1_def)
  have len: "length (fold ?w xs s) = length s" for xs s
    by (simp add: write_cell_def [abs_def])
  have buf: "buffer_of g1 = buffer_of g" "g_Z g1 = g_Z g" "g_d_ss g1 = Some ss1"
    by (simp_all add: g1_def buffer_of_def [abs_def])
  have "apply_batch use_cuda places data ranks g1 = Inr (g1\<lparr>g_d_ss := Some (ss1\<lparr>ss_alphas :=
     fold ?w (concat (map (rank_cells use_cuda places data) ranks)) (ss_alphas ss1)\<rparr>)\<rparr>)"
    using Cons.IH [of g1 ss1, unfolded buf] Cons.prems len by (simp add: ss1_def)
  then show ?case using first by (simp add: apply_batch_def g1_def ss1_def)
qed

text \<open>The cells of a batch do not share a place.\<close>

definition batch_addr :: "solution_data \<Rightarrow> nat \<times> cell \<Rightarrow> nat" where
  "batch_addr data lc = cell_addr (sd_d_ss data) (team_target data (fst lc)) (snd lc)"

definition batch_cells :: "solution_data \<Rightarrow> nat \<Rightarrow> (nat \<times> cell) set" where
  "batch_cells data teams = {(l, c) |l c. l < teams
     \<and> cell_ok (sd_d_ss data) (team_target data l) (sites_of data (team_target data l)) c}"

lemma batch_cells_set:
  assumes "schedule_ok use_cuda places data teams" "set ranks = {0..<teams}"
  shows "set (concat (map (rank_cells use_cuda places data) ranks)) = batch_cells data teams"
  using rank_cells_set [OF assms(1)] assms(2) by (auto simp: batch_cells_def)

lemma batch_addr_bound:
  assumes "apply_ready data nC nZ teams" "x \<in> batch_cells data teams"
  shows "batch_addr data x < length (ss_alphas (sd_d_ss data))"
proof -
  obtain l c where x: "x = (l, c)" "l < teams"
    "cell_ok (sd_d_ss data) (team_target data l) (sites_of data (team_target data l)) c"
    using assms(2) by (auto simp: batch_cells_def)
  note rd = apply_reads [OF assms(1) x(2)]
  show ?thesis using cell_addr_bound(1) [OF rd(2,1) x(3) rd(8)] by (simp add: batch_addr_def x(1))
qed

lemma batch_addr_inj:
  assumes "apply_ready data nC nZ teams" "x \<in> batch_cells data teams" "y \<in> batch_cells data teams"
    and "batch_addr data x = batch_addr data y"
  shows "x = y"
proof -
  obtain l c where x: "x = (l, c)" "l < teams"
    "cell_ok (sd_d_ss data) (team_target data l) (sites_of data (team_target data l)) c"
    using assms(2) by (auto simp: batch_cells_def)
  obtain l' c' where y: "y = (l', c')" "l' < teams"
    "cell_ok (sd_d_ss data) (team_target data l') (sites_of data (team_target data l')) c'"
    using assms(3) by (auto simp: batch_cells_def)
  note rd = apply_reads [OF assms(1) x(2)] and rd' = apply_reads [OF assms(1) y(2)]
  have "team_target data l = team_target data l' \<and> c = c'"
    using cell_inj [OF rd(2,1) rd'(1) x(3) y(3) rd(8) rd'(8)] assms(4) by (simp add: batch_addr_def x y)
  then show ?thesis by (simp add: x y team_target_def)
qed

text \<open>The cell that a request reads.\<close>

definition request_cell :: "solution_set \<Rightarrow> alpha_request \<Rightarrow> cell" where
  "request_cell ss r = (rq_site r, lro_place ss (rq_lro r),
     output_index (rq_lro r) (nat (ss_local_dimensions ss)) (rq_out1 r) (rq_out2 r), rq_in1 r, rq_neighbor r)"

lemma request_cell:
  assumes "alphas_inv ss" "request_valid ss r"
  shows "cell_ok ss (rq_target r) sites (request_cell ss r) \<longleftrightarrow> rq_site r < sites"
    and "cell_addr ss (rq_target r) (request_cell ss r) = request_address ss r"
    and "cell_column ss (request_cell ss r) = request_column ss r"
proof -
  note l = request_lookup [OF assms]
  have r: "output_valid (rq_lro r) (nat (ss_local_dimensions ss)) (rq_out1 r) (rq_out2 r)"
      "input_valid (ss_data_sampling_functional ss) (nat (ss_local_dimensions ss)) (rq_in1 r) (rq_in2 r)"
      "rq_neighbor r < alpha_depth ss (rq_target r)"
    using assms(2) by (simp_all add: request_valid_def)
  note t = ss_inv_tables [OF l(1,2)]
  have "rq_in1 r < nat (ss_lro_input_tile_size ss ! lro_place ss (rq_lro r))"
    using sampling_index_bound [OF r(2)] t(1,2,7) by simp
  moreover have "output_index (rq_lro r) (nat (ss_local_dimensions ss)) (rq_out1 r) (rq_out2 r)
      < nat (ss_lro_output_tile_size ss ! lro_place ss (rq_lro r))"
    using alpha_column_facts(1) [OF l(1,2), of "rq_out1 r" "rq_out2 r" "rq_in1 r" "rq_in2 r"] r l(3)
    by simp
  ultimately show "cell_ok ss (rq_target r) sites (request_cell ss r) \<longleftrightarrow> rq_site r < sites"
    using l(2) r(3) by (simp add: cell_ok_def request_cell_def)
  show "cell_column ss (request_cell ss r) = request_column ss r"
    by (simp add: cell_column_def request_cell_def request_column_def)
  then show "cell_addr ss (rq_target r) (request_cell ss r) = request_address ss r"
    by (simp add: cell_addr_def request_cell_def request_address_def)
qed

section \<open>Specification\<close>

text \<open>
  The coefficients as a function of the requests.  A batch sets those of its targets, at the
  evaluation sites these have, to the products of the target rows with the polynomial
  coefficients; it keeps all others.
\<close>

definition in_batch :: "solution_data \<Rightarrow> nat \<Rightarrow> alpha_request \<Rightarrow> bool" where
  "in_batch data teams r \<longleftrightarrow>
     nat (sd_initial_index_for_batch data) \<le> rq_target r
     \<and> rq_target r < nat (sd_initial_index_for_batch data) + teams
     \<and> rq_site r < sites_of data (rq_target r)"

definition request_product :: "solution_data \<Rightarrow> real list \<Rightarrow> real list \<Rightarrow> alpha_request \<Rightarrow> real" where
  "request_product data C Z r =
     (let l = rq_target r - nat (sd_initial_index_for_batch data); ss = sd_d_ss data
      in target_product data Z (target_tile data l) C (Coeffs_tile data l)
           (nl_count (ss_neighbor_lists ss) (rq_target r)) (request_column ss r) (rq_in1 r) (rq_neighbor r))"

definition apply_spec :: "solution_data \<Rightarrow> nat \<Rightarrow> real list \<Rightarrow> real list \<Rightarrow> (alpha_request \<Rightarrow> real)
    \<Rightarrow> alpha_request \<Rightarrow> real" where
  "apply_spec data teams C Z f r = (if in_batch data teams r then request_product data C Z r else f r)"

definition alpha_of :: "solution_set \<Rightarrow> alpha_request \<Rightarrow> real" where
  "alpha_of ss r = ss_alphas ss ! request_address ss r"

lemma batch_request:
  assumes "apply_ready data nC nZ teams" "request_valid (sd_d_ss data) r"
    and "set xs = batch_cells data teams"
  shows "fold (write_cell data C Z) xs (ss_alphas (sd_d_ss data)) ! request_address (sd_d_ss data) r
    = apply_spec data teams C Z (alpha_of (sd_d_ss data)) r"
proof -
  let ?ss = "sd_d_ss data" and ?i = "nat (sd_initial_index_for_batch data)"
  have inv: "alphas_inv ?ss" using assms(1) by (simp add: apply_ready_def)
  note rc = request_cell [OF inv assms(2)]
  have w: "write_cell data C Z = (\<lambda>x s. s[batch_addr data x := cell_value data C Z (fst x) (snd x)])"
    by (simp add: write_cell_def [abs_def] batch_addr_def)
  show ?thesis
  proof (cases "in_batch data teams r")
    case True
    define l where "l = rq_target r - ?i"
    have l: "l < teams" "team_target data l = rq_target r"
      using True by (auto simp: in_batch_def l_def team_target_def)
    have "cell_ok ?ss (team_target data l) (sites_of data (team_target data l)) (request_cell ?ss r)"
      using True by (simp add: l rc(1) in_batch_def)
    then have x: "(l, request_cell ?ss r) \<in> set xs"
      using l(1) unfolding assms(3) batch_cells_def by blast
    have "fold (write_cell data C Z) xs (ss_alphas ?ss) ! batch_addr data (l, request_cell ?ss r)
        = cell_value data C Z l (request_cell ?ss r)"
      unfolding w using fold_update_written [OF x, of "batch_addr data" "ss_alphas ?ss"
          "\<lambda>x. cell_value data C Z (fst x) (snd x)"]
        batch_addr_bound [OF assms(1)] batch_addr_inj [OF assms(1)] by (simp add: assms(3)) blast
    moreover have "batch_addr data (l, request_cell ?ss r) = request_address ?ss r"
      by (simp add: batch_addr_def l rc(2))
    moreover have "cell_value data C Z l (request_cell ?ss r) = request_product data C Z r"
      using rc(3) l(2) by (simp add: cell_value_def request_cell_def request_product_def Let_def l_def)
    ultimately show ?thesis using True by (simp add: apply_spec_def)
  next
    case False
    have "request_address ?ss r \<notin> batch_addr data ` set xs"
    proof
      assume "request_address ?ss r \<in> batch_addr data ` set xs"
      then obtain l c where c: "l < teams" "cell_ok ?ss (team_target data l) (sites_of data (team_target data l)) c"
        "request_address ?ss r = cell_addr ?ss (team_target data l) c"
        by (auto simp: assms(3) batch_cells_def batch_addr_def)
      note rd = apply_reads [OF assms(1) c(1)]
      have v: "rq_target r < alpha_rows ?ss" "rq_site r < nat (ss_max_evaluation_sites_per_target ?ss)"
        using assms(2) by (simp_all add: request_valid_def)
      have "cell_addr ?ss (rq_target r) (request_cell ?ss r) = cell_addr ?ss (team_target data l) c"
        using rc(2) c(3) by simp
      from cell_inj [OF inv v(1) rd(1) rc(1) [THEN iffD2, OF v(2)] c(2) order_refl rd(8) this]
      have "rq_target r = team_target data l \<and> request_cell ?ss r = c" .
      then have "in_batch data teams r"
        using c(1,2) rc(1) [of "sites_of data (team_target data l)"]
        by (auto simp: in_batch_def team_target_def)
      with False show False by simp
    qed
    then show ?thesis
      using False by (simp add: w fold_update_other apply_spec_def alpha_of_def)
  qed
qed

section \<open>The storage of a solve\<close>

text \<open>
  The buffers as \<open>generatePolynomialCoefficients\<close> allocates them for batches of \<open>n\<close>
  targets and \<open>cols\<close> columns, within the range of the integers.
\<close>

definition batch_storage :: "gmls \<Rightarrow> solution_set \<Rightarrow> nat \<Rightarrow> int \<Rightarrow> bool" where
  "batch_storage g ss n cols \<longleftrightarrow>
     (let M = g_sampling_multiplier g * g_max_num_neighbors g;
          (R0, R1) = getRHSDims (g_dense_solver_type g) (g_constraint_type g) (g_reconstruction_space g)
            (g_dimensions g) M cols;
          (P0, P1) = getPDims (g_dense_solver_type g) (g_constraint_type g) (g_reconstruction_space g)
            (g_dimensions g) M cols
      in length (g_RHS g) = n * (nat R0 * nat R1) \<and> length (g_P g) = n * (nat P1 * nat P0)
         \<and> length (g_Z g) = n * (alpha_columns ss * nat cols)
         \<and> nat R0 * nat R1 < 2 ^ 31 \<and> nat P1 * nat P0 < 2 ^ 31 \<and> alpha_columns ss * nat cols < 2 ^ 31
         \<and> length (g_RHS g) < 2 ^ 64 \<and> length (g_P g) < 2 ^ 64 \<and> length (g_Z g) < 2 ^ 64)"

text \<open>The state of a problem at the start of a batch.\<close>

definition batch_state :: "gmls \<Rightarrow> solution_set \<Rightarrow> bool" where
  "batch_state g ss \<longleftrightarrow>
     g_d_ss g = Some ss \<and> alphas_inv ss \<and> ss_lro ss \<noteq> [] \<and> alpha_columns ss < 2 ^ 31
     \<and> g_operations g = ss_lro ss \<and> pc_nla (g_pc g) = ss_neighbor_lists ss
     \<and> (\<forall>t < alpha_rows ss. int (nl_count (ss_neighbor_lists ss) t) \<le> g_max_num_neighbors g)
     \<and> ss_added_alpha_size ss
         = getAdditionalAlphaSizeFromConstraint (g_dense_solver_type g) (g_constraint_type g)
     \<and> length (nl_number_of_neighbors_list (pc_nla (g_additional_pc g))) = alpha_rows ss
     \<and> (\<forall>n \<in> set (nl_number_of_neighbors_list (pc_nla (g_additional_pc g))).
          0 \<le> n \<and> n < ss_max_evaluation_sites_per_target ss)
     \<and> 1 \<le> g_sampling_multiplier g \<and> 0 \<le> g_basis_multiplier g * g_NP g \<and> 0 \<le> g_dimensions g
     \<and> 0 \<le> g_initial_index_for_batch g \<and> 0 \<le> g_max_num_neighbors g"

lemma solution_data_ready:
  assumes "createGMLSSolutionData g = Inr data" "batch_state g ss"
    and "batch_storage g ss n (g_basis_multiplier g * g_NP g)" "teams \<le> n"
    and "nat (g_initial_index_for_batch g) + teams \<le> alpha_rows ss"
  shows "apply_ready data (length (buffer_of g (sd_Coeffs_data data))) (length (g_Z g)) teams"
    and "sd_d_ss data = ss"
proof -
  let ?cols = "g_basis_multiplier g * g_NP g" and ?M = "g_sampling_multiplier g * g_max_num_neighbors g"
  let ?added = "getAdditionalAlphaSizeFromConstraint (g_dense_solver_type g) (g_constraint_type g)"
  obtain R0 R1 where R: "getRHSDims (g_dense_solver_type g) (g_constraint_type g)
      (g_reconstruction_space g) (g_dimensions g) ?M ?cols = (R0, R1)" by fastforce
  obtain P0 P1 where P: "getPDims (g_dense_solver_type g) (g_constraint_type g)
      (g_reconstruction_space g) (g_dimensions g) ?M ?cols = (P0, P1)" by fastforce
  obtain b d0 d1 where C: "Coeffs_place g (R0, R1) (P0, P1) = (b, d0, d1)" by (metis prod_cases3)
  note st = assms(2) [unfolded batch_state_def]
  have data: "data = \<lparr>sd_sampling_multiplier = g_sampling_multiplier g,
      sd_initial_index_for_batch = g_initial_index_for_batch g, sd_d_ss = ss, sd_this_num_cols = ?cols,
      sd_Coeffs_data = b, sd_Coeffs_dim_0 = d0, sd_Coeffs_dim_1 = d1,
      sd_P_target_row_dim_0 = ss_total_alpha_values ss * ss_max_evaluation_sites_per_target ss,
      sd_P_target_row_dim_1 = ?cols, sd_operations_size = length (ss_lro ss),
      sd_number_of_neighbors_list = nl_number_of_neighbors_list (ss_neighbor_lists ss),
      sd_additional_number_of_neighbors_list = nl_number_of_neighbors_list (pc_nla (g_additional_pc g))\<rparr>"
    using assms(1) st by (simp add: createGMLSSolutionData_def device_ss_def Let_def R P C)
  then show "sd_d_ss data = ss" by simp
  note sto = assms(3) [unfolded batch_storage_def Let_def R P prod.case]
  have M: "0 \<le> ?M" using st by simp
  have dims: "?cols \<le> d0" "0 \<le> d1" "?M + ?added \<le> d1"
    using C R P st M by (auto simp: Coeffs_place_def dims_defs split: if_splits)
  have size_: "length (buffer_of g b) = n * (nat d0 * nat d1)" "nat d0 * nat d1 < 2 ^ 31"
    "length (buffer_of g b) < 2 ^ 64"
    using C sto by (auto simp: Coeffs_place_def buffer_of_def split: if_splits)
  have tiling: "tiling_ok (teams, w, n * w)" if "w < 2 ^ 31" "n * w < 2 ^ 64" for w
    using that assms(4) by (simp add: tiling_ok_def)
  have rows: "g_sampling_multiplier g * int (nl_count (ss_neighbor_lists ss) t) + ss_added_alpha_size ss \<le> d1"
    if "t < alpha_rows ss" for t
  proof -
    have "g_sampling_multiplier g * int (nl_count (ss_neighbor_lists ss) t) \<le> ?M"
      using st that by (intro mult_left_mono) simp_all
    moreover have "ss_added_alpha_size ss = ?added" using st by simp
    ultimately show ?thesis using dims(3) by linarith
  qed
  have "ss_total_alpha_values ss * ss_max_evaluation_sites_per_target ss = int (alpha_columns ss)"
    using st by (simp add: alpha_columns_def alphas_inv_def)
  then show "apply_ready data (length (buffer_of g (sd_Coeffs_data data))) (length (g_Z g)) teams"
    using st dims rows assms(5) sto size_ tiling [of "nat d0 * nat d1"] tiling [of "alpha_columns ss * nat ?cols"]
    by (simp add: apply_ready_def data ss_rows_def)
qed

section \<open>Properties\<close>

text \<open>
  The batch of the two targets of the example set, with three columns: rows and
  coefficients are numbered through.
\<close>

definition apply_example :: "gmls \<Rightarrow> gmls" where
  "apply_example g0 =
     g0\<lparr>g_d_ss := Some ss_example, g_operations := ss_lro ss_example,
        g_pc := (g_pc g0)\<lparr>pc_nla := nl_example\<rparr>,
        g_additional_pc := (g_additional_pc g0)\<lparr>pc_nla :=
          NeighborLists_default\<lparr>nl_number_of_neighbors_list := [0, 0]\<rparr>\<rparr>,
        g_max_num_neighbors := 2, g_basis_multiplier := 1, g_NP := 3, g_sampling_multiplier := 1,
        g_initial_index_for_batch := 0, g_RHS := map real [0..<12], g_P := replicate 12 0,
        g_Z := map real [0..<18], g_constraint_type := NO_CONSTRAINT, g_dense_solver_type := QR,
        g_dimensions := 2\<rparr>"

lemma apply_example_facts:
  "batch_state (apply_example g0) ss_example"
  "batch_storage (apply_example g0) ss_example 2 (g_basis_multiplier (apply_example g0) * g_NP (apply_example g0))"
  "nat (g_initial_index_for_batch (apply_example g0)) = 0"
  by (simp_all add: batch_state_def batch_storage_def apply_example_def ss_example_alphas ss_example_views
      nl_example_views all_below_2 dims_defs)

definition apply_data :: solution_data where
  "apply_data =
     \<lparr>sd_sampling_multiplier = 1, sd_initial_index_for_batch = 0, sd_d_ss = ss_example,
      sd_this_num_cols = 3, sd_Coeffs_data = Buffer_RHS, sd_Coeffs_dim_0 = 3, sd_Coeffs_dim_1 = 2,
      sd_P_target_row_dim_0 = 3, sd_P_target_row_dim_1 = 3, sd_operations_size = 2,
      sd_number_of_neighbors_list = [2, 1], sd_additional_number_of_neighbors_list = [0, 0]\<rparr>"

lemma apply_example_data: "createGMLSSolutionData (apply_example g0) = Inr apply_data"
  by (simp add: createGMLSSolutionData_def apply_example_def device_ss_def dims_defs Coeffs_place_def
      ss_example_views nl_example_def nl_built_def apply_data_def)

lemma apply_example_schedules:
  "schedule_ok False (\<lambda>_. []) apply_data 2"
  "schedule_ok True (\<lambda>l. if l = 0 then [1, 0] else [0]) apply_data 2"
  by (auto simp: schedule_ok_def apply_data_def team_target_def all_below_2 ss_example_views)

lemma apply_example_product:
  "apply_spec apply_data 2 (map real [0..<12]) (map real [0..<18]) f (rq_example 1 1) = 67"
proof -
  have "request_column ss_example (rq_example 1 1) = 2"
    by (simp add: request_column_def alpha_column_def rq_example_def lro_place_def output_index_def
        col_extent_def col_offset_def ss_example_simps)
  moreover have "in_batch apply_data 2 (rq_example 1 1)"
    by (simp add: in_batch_def rq_example_def apply_data_def sites_of_def)
  ultimately show ?thesis
    by (simp add: apply_spec_def request_product_def target_product_def apply_data_def rq_example_def
        Let_def matrix_entry_def matrix_addr_def target_tile_def Coeffs_tile_def ss_example_views
        numeral_3_eq_3)
qed

lemma ranks_subset: "set ranks = {0..<teams} \<Longrightarrow> set ranks \<subseteq> {..<(teams :: nat)}"
  by auto

lemma apply_batch_reads:
  assumes ready: "apply_ready data (length (buffer_of g (sd_Coeffs_data data))) (length (g_Z g)) teams"
    and g: "g_d_ss g = Some ss" "sd_d_ss data = ss"
    and sched: "schedule_ok use_cuda places data teams" "set ranks = {0..<teams}"
  shows "\<exists>ss'. apply_batch use_cuda places data ranks g = Inr (g\<lparr>g_d_ss := Some ss'\<rparr>)
    \<and> ss' = ss\<lparr>ss_alphas := ss_alphas ss'\<rparr> \<and> alphas_inv ss'
    \<and> (\<forall>r. request_valid ss r \<longrightarrow> getAlpha_request_device dbg ss' r
          = Inr (apply_spec data teams (buffer_of g (sd_Coeffs_data data)) (g_Z g) (alpha_of ss) r))"
proof -
  let ?cells = "concat (map (rank_cells use_cuda places data) ranks)"
  let ?alphas = "fold (write_cell data (buffer_of g (sd_Coeffs_data data)) (g_Z g)) ?cells (ss_alphas ss)"
  let ?ss' = "ss\<lparr>ss_alphas := ?alphas\<rparr>"
  have inv: "alphas_inv ss" using ready g(2) by (simp add: apply_ready_def)
  have run: "apply_batch use_cuda places data ranks g = Inr (g\<lparr>g_d_ss := Some ?ss'\<rparr>)"
    using batch_writes [OF ready sched(1) ranks_subset [OF sched(2)] g(1)] g(2) by simp
  have len: "length ?alphas = length (ss_alphas ss)" by (simp add: write_cell_def [abs_def])
  have same: "alphas_inv ?ss'" "request_valid ?ss' r = request_valid ss r"
    "request_address ?ss' r = request_address ss r" for r
    using inv len
    by (auto simp: alphas_inv_def ss_inv_def alpha_rows_def alpha_width_def alpha_depth_def
        alpha_columns_def request_valid_def index_dims_ok_def request_address_def request_column_def
        alpha_column_def alpha_offset_def col_extent_def col_offset_def lro_place_def)
  have "getAlpha_request_device dbg ?ss' r
      = Inr (apply_spec data teams (buffer_of g (sd_Coeffs_data data)) (g_Z g) (alpha_of ss) r)"
    if "request_valid ss r" for r
    using request_code(2) [OF same(1), of r] batch_request [OF ready] that g(2) same(2,3)
      batch_cells_set [OF sched] by simp
  with run same(1) show ?thesis by (intro exI [of _ ?ss']) simp
qed

lemma ranks_of_two: "set [0, 1] = {0..<2::nat}" "set [1, 0] = {0..<2::nat}"
  by auto

text \<open>
  C10: applying the targets of a batch refines the abstract operation on coefficients.  The
  buffers are those of a solve whose polynomials have \<open>_basis_multiplier*_NP\<close> columns, that
  is of every solve but one on a manifold whose curvature basis is larger (there the data of
  the functor do not match the buffers, \<open>functor_data_matches_sizes\<close>); on the GPU the alphas are fewer than 2^31 (the
  functor numbers them with an \<open>int\<close>), on the CPU there is no such bound.  Then, whatever the
  order of the teams and of their places, it succeeds, changes nothing but the alphas, and
  afterwards every valid request (in the sense of \<open>alpha_requests_disjoint\<close>) reads: the product of its target row
  with the column of its neighbor among the polynomial coefficients when it belongs to the
  batch, and what it read before otherwise.
\<close>

theorem apply_targets_refines:
  assumes "createGMLSSolutionData g = Inr data" "batch_state g ss"
    and "batch_storage g ss n (g_basis_multiplier g * g_NP g)" "teams \<le> n"
    and "nat (g_initial_index_for_batch g) + teams \<le> alpha_rows ss"
    and "schedule_ok use_cuda places data teams" "set ranks = {0..<teams}"
  shows "\<exists>ss'. apply_batch use_cuda places data ranks g = Inr (g\<lparr>g_d_ss := Some ss'\<rparr>)
    \<and> ss' = ss\<lparr>ss_alphas := ss_alphas ss'\<rparr> \<and> alphas_inv ss'
    \<and> (\<forall>r. request_valid ss r \<longrightarrow> getAlpha_request_device dbg ss' r
          = Inr (apply_spec data teams (buffer_of g (sd_Coeffs_data data)) (g_Z g) (alpha_of ss) r))"
proof -
  have "g_d_ss g = Some ss" using assms(2) by (simp add: batch_state_def)
  from apply_batch_reads [OF solution_data_ready(1) [OF assms(1-5)] this solution_data_ready(2) [OF assms(1-5)] assms(6,7)]
  show ?thesis .
qed

theorem apply_targets_refines_witness:
  "\<exists>g ss'. apply_batch False (\<lambda>_. []) apply_data [1, 0] g = Inr (g\<lparr>g_d_ss := Some ss'\<rparr>)
    \<and> getAlpha_request_device True ss' (rq_example 1 1) = Inr 67"
proof -
  define g where "g = apply_example undefined"
  note d = apply_example_data [of undefined, folded g_def]
  note e = apply_example_facts [of undefined, folded g_def]
  obtain ss' where s': "apply_batch False (\<lambda>_. []) apply_data [1, 0] g = Inr (g\<lparr>g_d_ss := Some ss'\<rparr>)"
    and r: "\<And>r. request_valid ss_example r \<Longrightarrow> getAlpha_request_device True ss' r
      = Inr (apply_spec apply_data 2 (buffer_of g (sd_Coeffs_data apply_data)) (g_Z g) (alpha_of ss_example) r)"
    using apply_targets_refines [OF d e(1,2) order_refl _ apply_example_schedules(1) ranks_of_two(2), of True] e(3)
    by (auto simp: ss_example_views)
  have "buffer_of g (sd_Coeffs_data apply_data) = map real [0..<12]" "g_Z g = map real [0..<18]"
    by (simp_all add: g_def apply_example_def apply_data_def buffer_of_def)
  then have "getAlpha_request_device True ss' (rq_example 1 1) = Inr 67"
    using r [OF rq_example_valid, of 1 1] by (simp only: apply_example_product)
  with s' show ?thesis by blast
qed

text \<open>
  C21: the CPU and the GPU form, and all orders of the teams and of the places, give the
  same result, as long as the alphas can be numbered with an \<open>int\<close> where the GPU form is
  used and the buffers have \<open>_basis_multiplier*_NP\<close> columns (as for \<open>apply_targets_refines\<close>).
\<close>

theorem apply_targets_schedule_independent:
  assumes "createGMLSSolutionData g = Inr data" "batch_state g ss"
    and "batch_storage g ss n (g_basis_multiplier g * g_NP g)" "teams \<le> n"
    and "nat (g_initial_index_for_batch g) + teams \<le> alpha_rows ss"
    and "schedule_ok c places data teams" "set ranks = {0..<teams}"
    and "schedule_ok c' places' data teams" "set ranks' = {0..<teams}"
  shows "apply_batch c places data ranks g = apply_batch c' places' data ranks' g"
proof -
  note ready = solution_data_ready [OF assms(1-5)]
  let ?C = "buffer_of g (sd_Coeffs_data data)" and ?cs = "\<lambda>c places ranks. concat (map (rank_cells c places data) ranks)"
  have g: "g_d_ss g = Some ss" using assms(2) by (simp add: batch_state_def)
  note sets = batch_cells_set [OF assms(6,7)] batch_cells_set [OF assms(8,9)]
  have w: "write_cell data ?C (g_Z g) = (\<lambda>x s. s[batch_addr data x := cell_value data ?C (g_Z g) (fst x) (snd x)])"
    by (simp add: write_cell_def [abs_def] batch_addr_def)
  have "fold (write_cell data ?C (g_Z g)) (?cs c places ranks) (ss_alphas ss)
      = fold (write_cell data ?C (g_Z g)) (?cs c' places' ranks') (ss_alphas ss)"
    unfolding w
  proof (rule fold_update_same)
    show "set (?cs c places ranks) = set (?cs c' places' ranks')" using sets by simp
    show "batch_addr data x < length (ss_alphas ss)" if "x \<in> set (?cs c places ranks)" for x
      using batch_addr_bound [OF ready(1)] that sets(1) ready(2) by blast
    show "cell_value data ?C (g_Z g) (fst x) (snd x) = cell_value data ?C (g_Z g) (fst y) (snd y)"
      if "x \<in> set (?cs c places ranks)" "y \<in> set (?cs c places ranks)" "batch_addr data x = batch_addr data y"
      for x y
      using batch_addr_inj [OF ready(1)] that sets(1) by blast
  qed
  then show ?thesis
    using batch_writes [OF ready(1) assms(6) ranks_subset [OF assms(7)] g]
      batch_writes [OF ready(1) assms(8) ranks_subset [OF assms(9)] g] ready(2) by simp
qed

theorem apply_targets_schedule_independent_witness:
  "\<exists>g. createGMLSSolutionData g = Inr apply_data \<and> apply_batch False (\<lambda>_. []) apply_data [0, 1] g
     = apply_batch True (\<lambda>l. if l = 0 then [1, 0] else [0]) apply_data [1, 0] g"
proof -
  define g where "g = apply_example undefined"
  note d = apply_example_data [of undefined, folded g_def]
  note e = apply_example_facts [of undefined, folded g_def]
  show ?thesis
    using apply_targets_schedule_independent [OF d e(1,2) order_refl _ apply_example_schedules(1)
        ranks_of_two(1) apply_example_schedules(2) ranks_of_two(2)] e(3) d
    by (auto simp: ss_example_views)
qed

text \<open>
  On the GPU the index of a tile is cut to an \<open>int\<close>: from \<open>2 ^ 31\<close> on it is negative.
\<close>

lemma gpu_index_truncated:
  assumes "2 ^ 31 \<le> v" "v < 2 ^ 32"
  shows "TO_INT (of_nat v) = int v - 2 ^ 32"
proof -
  have "unat (ucast (of_nat v :: u64) :: 32 word) = v"
    using assms(2) by (simp add: unsigned_ucast_eq unsigned_of_nat take_bit_nat_eq_self)
  then have "uint (ucast (of_nat v :: u64) :: 32 word) = int v" by (metis uint_nat)
  moreover have "(int v + 2 ^ 31) mod 2 ^ 32 = int v + 2 ^ 31 - 2 ^ 32"
    using assms mod_add_self2 [of "int v - 2 ^ 31" "2 ^ 32 :: int"]
      mod_pos_pos_trivial [of "int v - 2 ^ 31" "2 ^ 32"] by (simp add: add.commute)
  ultimately show ?thesis
    by (simp add: TO_INT_def sint_uint signed_take_bit_eq_take_bit_shift take_bit_eq_mod)
qed

text \<open>
  C22: the data of the functors agree with the sizes of the driver for the functors that
  assemble the problem and evaluate the targets, and for the functor that applies them
  except on a manifold where the curvature polynomials outnumber the others: there it takes
  the rows of the target functionals, and the coefficients, to be narrower than they are.
\<close>

theorem functor_data_matches_sizes:
  assumes "derive_sizes pl g0 = (g, cols, mnp)" "0 < g_basis_multiplier g"
    and "createGMLSBasisData g = Inr bd" "createGMLSSolutionData g = Inr sd"
  shows "bd_this_num_cols bd = cols \<and> bd_P_target_row_dim_1 bd = cols \<and> bd_manifold_NP bd = mnp
    \<and> bd_RHS_dims bd = sz_RHS_dims (problem_sizes g cols mnp mbs)
    \<and> bd_P_dims bd = sz_P_dims (problem_sizes g cols mnp mbs)
    \<and> (if g_problem_type g = MANIFOLD \<and> g_NP g < mnp
       then sd_this_num_cols sd < cols \<and> sd_P_target_row_dim_1 sd < bd_P_target_row_dim_1 bd
       else sd_this_num_cols sd = cols \<and> sd_P_target_row_dim_1 sd = bd_P_target_row_dim_1 bd
         \<and> sd_Coeffs_data sd = bd_Coeffs_data bd \<and> sd_Coeffs_dim_0 sd = bd_Coeffs_dim_0 bd
         \<and> sd_Coeffs_dim_1 sd = bd_Coeffs_dim_1 bd)"
proof (cases "g_problem_type g0 = MANIFOLD")
  case True
  then have "derive_sizes pl g0 = manifold_sizes pl g0" by (simp add: derive_sizes_def)
  then have d: "g_problem_type g = MANIFOLD" "mnp = getNP (g_curvature_poly_order g) (g_dimensions g - 1) ScalarTaylorPolynomial"
    "cols = g_basis_multiplier g * (if mnp > g_NP g then mnp else g_NP g)"
    using assms(1) True by (auto simp: manifold_sizes_def Let_def set_scratch_def)
  show ?thesis
    using assms(2-4) d by (auto simp: createGMLSBasisData_def createGMLSSolutionData_def device_ss_def
        problem_sizes_def Let_def split: option.splits prod.splits if_splits)
next
  case False
  then have "derive_sizes pl g0 = standard_sizes pl g0" by (simp add: derive_sizes_def)
  then have d: "g_problem_type g \<noteq> MANIFOLD" "mnp = 0" "cols = g_basis_multiplier g * g_NP g"
    using assms(1) False by (auto simp: standard_sizes_def Let_def set_scratch_def)
  show ?thesis
    using assms(3,4) d by (auto simp: createGMLSBasisData_def createGMLSSolutionData_def device_ss_def
        problem_sizes_def Let_def split: option.splits prod.splits if_splits)
qed

text \<open>A surface in space whose curvature is reconstructed with a higher order.\<close>

theorem functor_data_matches_sizes_witness:
  "\<exists>g sd bd. createGMLSBasisData g = Inr bd \<and> createGMLSSolutionData g = Inr sd
    \<and> bd_P_target_row_dim_1 bd = 10 \<and> sd_P_target_row_dim_1 sd < 10"
proof -
  define g0 where "g0 = (apply_example undefined)\<lparr>g_problem_type := MANIFOLD, g_dimensions := 3,
    g_poly_order := 2, g_curvature_poly_order := 3, g_reconstruction_space := ScalarTaylorPolynomial\<rparr>"
  have np: "getNP 2 2 ScalarTaylorPolynomial = 6" "getNP 3 2 ScalarTaylorPolynomial = 10"
    by (simp_all add: getNP_def ScalarTaylor_getSize_def)
  obtain g cols mnp where d: "derive_sizes undefined g0 = (g, cols, mnp)"
    by (cases "derive_sizes undefined g0")
  moreover have "derive_sizes undefined g0 = manifold_sizes undefined g0"
    by (simp add: derive_sizes_def g0_def)
  ultimately have g: "g_NP g = 6" "mnp = 10" "cols = 10" "g_problem_type g = MANIFOLD"
    "g_basis_multiplier g = 1" "g_d_ss g = Some ss_example"
    by (auto simp: manifold_sizes_def Let_def set_scratch_def g0_def np apply_example_def)
  obtain bd sd where data: "createGMLSBasisData g = Inr bd" "createGMLSSolutionData g = Inr sd"
    using g(6) by (simp add: createGMLSBasisData_def createGMLSSolutionData_def device_ss_def Let_def
        case_prod_unfold)
  have "bd_P_target_row_dim_1 bd = 10 \<and> sd_P_target_row_dim_1 sd < 10"
    using functor_data_matches_sizes [OF d _ data, where mbs = 0] g by auto
  with data show ?thesis by blast
qed

end
