(* ===== verification/Compadre_Utilities.thy ===== *)
theory Compadre_Utilities
  imports Compadre_Prelude
begin

text \<open>
  Compadre_Utilities.hpp: the midpoint and the area used by the cell averages, the filter
  of a view by a value and the extraction of entries or rows by index.  A copy between
  memory spaces is the identity on the contents.
\<close>

section \<open>Cells\<close>

text \<open>
  \<open>getMidpointFromCellVertices\<close>: row \<open>cell_num\<close> of \<open>cell_coordinates\<close> holds the vertices of a
  cell behind each other; the extents are those of the whole view.
\<close>

definition getMidpointFromCellVertices ::
  "real list \<Rightarrow> real list list \<Rightarrow> nat \<Rightarrow> int \<Rightarrow> nat \<Rightarrow> real list result" where
  "getMidpointFromCellVertices midpoint_storage cell_coordinates extent_1 cell_num dm =
     (if dm = 0 then Inl Division_by_zero
      else let num_nodes = extent_1 div dm
      in rfold (\<lambda>j midpoint_storage.
           rbind (view_write midpoint_storage (int j) 0) (\<lambda>midpoint_storage.
           rfold (\<lambda>i midpoint_storage.
             rbind (view_read midpoint_storage (int j)) (\<lambda>old.
             rbind (view_read2 cell_coordinates cell_num (int (i * dm + j))) (\<lambda>c.
             view_write midpoint_storage (int j) (old + c / real num_nodes))))
             [0..<num_nodes] midpoint_storage)) [0..<dm] midpoint_storage)"

text \<open>Half of this is the area of the triangle that the two vectors span.\<close>

definition getAreaFromVectors :: "bool \<Rightarrow> real list \<Rightarrow> real list \<Rightarrow> real result" where
  "getAreaFromVectors dbg v1 v2 =
     (if length v1 = 3 then
        rbind (rmap (view_read v1) [0, 1, 2]) (\<lambda>a. rbind (rmap (view_read v2) [0, 1, 2]) (\<lambda>b.
        let area = 0;
            val = a ! 1 * b ! 2 - a ! 2 * b ! 1;
            area = area + val * val;
            val = a ! 2 * b ! 0 - a ! 0 * b ! 2;
            area = area + val * val;
            val = a ! 0 * b ! 1 - a ! 1 * b ! 0;
            area = area + val * val
        in Inr (sqrt area)))
      else if length v1 = 2 then
        rbind (rmap (view_read v1) [0, 1]) (\<lambda>a. rbind (rmap (view_read v2) [0, 1]) (\<lambda>b.
        let area = 0;
            val = a ! 0 * b ! 1 - a ! 1 * b ! 0;
            area = area + val * val
        in Inr (sqrt area)))
      else rbind (compadre_kernel_assert_debug dbg ''v1 in getAreaFromVectors has length != 2 or 3'' False)
             (\<lambda>_. Inr 0))"

section \<open>Filter and extraction\<close>

text \<open>The count of the matches gives the extent; the second loop stores their indices.\<close>

definition filterViewByID :: "int list \<Rightarrow> int \<Rightarrow> int list result" where
  "filterViewByID input_data filtered_value =
     (let num_count = fold (\<lambda>x c. if x = filtered_value then c + 1 else c) input_data 0
      in rbind (rfold (\<lambda>i (filtered_view, filtered_index).
           rbind (view_read input_data (int i)) (\<lambda>x.
           if x = filtered_value
           then rbind (view_write filtered_view filtered_index (int i)) (\<lambda>filtered_view.
                  Inr (filtered_view, filtered_index + 1))
           else Inr (filtered_view, filtered_index)))
           [0..<length input_data] (replicate num_count 0, 0))
         (\<lambda>(filtered_view, filtered_index). Inr filtered_view))"

definition extractViewByIndex_1d :: "real list \<Rightarrow> int list \<Rightarrow> real list result" where
  "extractViewByIndex_1d input_data index_data =
     rfold (\<lambda>i extracted_view.
       rbind (view_read index_data (int i)) (\<lambda>k.
       rbind (view_read input_data k) (\<lambda>x.
       view_write extracted_view (int i) x))) [0..<length index_data] (replicate (length index_data) 0)"

definition extractViewByIndex_2d :: "real list list \<Rightarrow> nat \<Rightarrow> int list \<Rightarrow> real list list result" where
  "extractViewByIndex_2d input_data extent_1 index_data =
     rfold (\<lambda>i extracted_view. rfold (\<lambda>j extracted_view.
       rbind (view_read index_data (int i)) (\<lambda>k.
       rbind (view_read2 input_data k (int j)) (\<lambda>x.
       rbind (view_read extracted_view (int i)) (\<lambda>row.
       rbind (view_write row (int j) x) (\<lambda>row.
       view_write extracted_view (int i) row)))))
       [0..<extent_1] extracted_view)
     [0..<length index_data] (replicate (length index_data) (replicate extent_1 0))"

section \<open>What they compute\<close>

lemma rfold_sum_at:
  assumes "j < length s" "\<And>i. i < n \<Longrightarrow> c i = Inr (v i)"
  shows "rfold (\<lambda>i s. rbind (view_read s (int j)) (\<lambda>old. rbind (c i) (\<lambda>x.
      view_write s (int j) (old + x / d)))) [0..<n] s
    = Inr (s[j := s ! j + (\<Sum>i<n. v i / d)])"
  using assms(2)
proof (induction n)
  case 0
  then show ?case by simp
next
  case (Suc n)
  then show ?case using assms(1) by (simp add: rfold_append algebra_simps)
qed

lemma midpoint_eq:
  assumes "0 < dm" "cell < length cells" "length (cells ! cell) = extent_1" "dm \<le> length m"
  shows "getMidpointFromCellVertices m cells extent_1 (int cell) dm
    = Inr (map (\<lambda>j. \<Sum>i<extent_1 div dm. cells ! cell ! (i * dm + j) / real (extent_1 div dm)) [0..<dm]
           @ drop dm m)"
proof -
  let ?n = "extent_1 div dm"
  let ?row = "\<lambda>j. \<Sum>i<?n. cells ! cell ! (i * dm + j) / real ?n"
  have read: "view_read2 cells (int cell) (int (i * dm + j)) = Inr (cells ! cell ! (i * dm + j))"
    if "i < ?n" "j < dm" for i j
  proof -
    have "i * dm + j < ?n * dm" by (rule tile_bound [OF that])
    also have "\<dots> \<le> extent_1" by simp
    finally show ?thesis using assms(2,3) by (simp add: view_read2_def del: of_nat_add of_nat_mult)
  qed
  define step where "step = (\<lambda>j m. rbind (view_write m (int j) 0) (\<lambda>m.
      rfold (\<lambda>i m. rbind (view_read m (int j)) (\<lambda>old.
        rbind (view_read2 cells (int cell) (int (i * dm + j))) (\<lambda>c.
        view_write m (int j) (old + c / real ?n)))) [0..<?n] m))"
  have step: "step j s = Inr (s[j := ?row j])" if "j < dm" "length s = length m" for j s
    using that assms(4) rfold_sum_at [of j "s[j := 0]" ?n "\<lambda>i. view_read2 cells (int cell) (int (i * dm + j))"
        "\<lambda>i. cells ! cell ! (i * dm + j)" "real ?n"] read
    by (simp add: step_def)
  have "rfold step [0..<k] m = Inr (map ?row [0..<k] @ drop k m)" if "k \<le> dm" for k
    using that
  proof (induction k)
    case 0
    then show ?case by simp
  next
    case (Suc k)
    have "drop k m = m ! k # drop (Suc k) m" using Suc.prems assms(4) by (simp add: Cons_nth_drop_Suc)
    then show ?case using Suc step [of k "map ?row [0..<k] @ drop k m"] assms(4)
      by (simp add: rfold_append list_update_append)
  qed
  from this [OF order_refl] show ?thesis
    using assms(1) by (simp add: getMidpointFromCellVertices_def Let_def step_def)
qed

lemma count_matches: "fold (\<lambda>x c. if x = v then c + 1 else c) xs c = c + length (filter (\<lambda>x. x = v) xs)"
  for c :: nat
  by (induction xs arbitrary: c) auto

lemma filter_indices_length:
  "length (filter (\<lambda>i. xs ! i = v) [0..<length xs]) = length (filter (\<lambda>x. x = v) xs)"
proof -
  have "length (filter (\<lambda>x. x = v) (map ((!) xs) [0..<length xs])) = length (filter (\<lambda>i. xs ! i = v) [0..<length xs])"
    by (simp only: filter_map comp_def length_map)
  then show ?thesis by (simp add: map_nth)
qed

lemma filter_eq:
  "filterViewByID xs v = Inr (map int (filter (\<lambda>i. xs ! i = v) [0..<length xs]))"
proof -
  let ?hits = "\<lambda>k. map int (filter (\<lambda>i. xs ! i = v) [0..<k])"
  let ?c = "length (filter (\<lambda>x. x = v) xs)"
  define step where "step = (\<lambda>i (view :: int list, k). rbind (view_read xs (int i)) (\<lambda>x.
      if x = v then rbind (view_write view k (int i)) (\<lambda>view. Inr (view, k + 1)) else Inr (view, k)))"
  have "rfold step [0..<k] (replicate ?c 0, 0)
      = Inr (?hits k @ replicate (?c - length (?hits k)) 0, int (length (?hits k)))"
    if "k \<le> length xs" for k
    using that
  proof (induction k)
    case 0
    then show ?case by simp
  next
    case (Suc k)
    have le: "length (?hits (Suc k)) \<le> ?c"
    proof -
      have "[0..<length xs] = [0..<Suc k] @ [Suc k..<length xs]"
        by (metis Suc.prems le0 le_add_diff_inverse upt_add_eq_append)
      then have "?c = length (filter (\<lambda>i. xs ! i = v) [0..<Suc k]) + length (filter (\<lambda>i. xs ! i = v) [Suc k..<length xs])"
        unfolding filter_indices_length [of xs v, symmetric] by (simp only: filter_append length_append)
      then show ?thesis by simp
    qed
    have "step k (?hits k @ replicate (?c - length (?hits k)) 0, int (length (?hits k)))
        = Inr (?hits (Suc k) @ replicate (?c - length (?hits (Suc k))) 0, int (length (?hits (Suc k))))"
    proof (cases "xs ! k = v")
      case True
      then have pos: "length (?hits k) < ?c" using le by simp
      then have "replicate (?c - length (?hits k)) (0 :: int) = 0 # replicate (?c - Suc (length (?hits k))) 0"
        by (metis Suc_diff_Suc replicate_Suc)
      then show ?thesis
        using True Suc.prems pos view_write_nat [of "length (?hits k)" "?hits k @ replicate (?c - length (?hits k)) 0" "int k"]
        by (simp add: step_def list_update_append)
    next
      case False
      then show ?thesis using Suc.prems by (simp add: step_def)
    qed
    then show ?case using Suc by (simp add: rfold_append)
  qed
  from this [OF order_refl] filter_indices_length [of xs v] show ?thesis
    by (simp add: filterViewByID_def count_matches Let_def step_def [symmetric])
qed

lemma extract_1d_eq:
  assumes "\<forall>k \<in> set index. 0 \<le> k \<and> k < int (length xs)"
  shows "extractViewByIndex_1d xs index = Inr (map (\<lambda>k. xs ! nat k) index)"
proof -
  have "rfold (\<lambda>i s. rbind (view_read index (int i)) (\<lambda>k. rbind (view_read xs k) (\<lambda>x.
      view_write s (int i) x))) [0..<n] (replicate (length index) 0)
      = Inr (map (\<lambda>k. xs ! nat k) (take n index) @ replicate (length index - n) 0)"
    if "n \<le> length index" for n
    using that
  proof (induction n)
    case 0
    then show ?case by simp
  next
    case (Suc n)
    then have k: "0 \<le> index ! n" "index ! n < int (length xs)" using assms by simp_all
    then have read: "view_read xs (index ! n) = Inr (xs ! nat (index ! n))" by (simp add: view_read_def)
    have "replicate (length index - n) (0 :: real) = 0 # replicate (length index - Suc n) 0"
      using Suc.prems by (metis Suc_diff_Suc Suc_le_lessD replicate_Suc)
    then show ?case
      using Suc read view_write_nat [of n "map (\<lambda>k. xs ! nat k) (take n index) @ replicate (length index - n) 0"]
      by (simp add: rfold_append take_Suc_conv_app_nth list_update_append)
  qed
  from this [OF order_refl] show ?thesis by (simp add: extractViewByIndex_1d_def)
qed

section \<open>Properties\<close>

text \<open>
  C27: filtering a view of identifiers and extracting with the result gives, in order, the
  entries whose identifier matches.
\<close>

theorem filter_then_extract:
  assumes "length ids \<le> length xs"
  shows "rbind (filterViewByID ids v) (extractViewByIndex_1d xs)
    = Inr (map snd (filter (\<lambda>(k, x). k = v) (zip ids xs)))"
proof -
  let ?hits = "filter (\<lambda>i. ids ! i = v) [0..<length ids]"
  have "extractViewByIndex_1d xs (map int ?hits) = Inr (map ((!) xs) ?hits)"
    using assms by (subst extract_1d_eq) auto
  moreover have "filter (\<lambda>(k, x). k = v) (zip ids xs) = map (\<lambda>i. (ids ! i, xs ! i)) ?hits"
  proof -
    have "zip ids xs = map (\<lambda>i. (ids ! i, xs ! i)) [0..<length ids]"
      using assms by (intro nth_equalityI) simp_all
    then show ?thesis by (simp add: filter_map comp_def)
  qed
  ultimately show ?thesis by (simp add: filter_eq comp_def)
qed

theorem filter_then_extract_witness:
  "rbind (filterViewByID [7, 3, 7] 7) (extractViewByIndex_1d [1, 2, 5]) = Inr [1, 5]"
  using filter_then_extract [of "[7, 3, 7]" "[1, 2, 5]" 7] by simp

text \<open>
  The area routine computes the area of the parallelogram of its two vectors: the
  square root of \<open>|v|\<^sup>2 |w|\<^sup>2 - (v . w)\<^sup>2\<close>.
\<close>

theorem area_is_gram_determinant:
  assumes "length v \<in> {2, 3}" "length w = length v"
  shows "getAreaFromVectors dbg v w = Inr (sqrt ((\<Sum>i<length v. v ! i * v ! i) * (\<Sum>i<length v. w ! i * w ! i)
    - (\<Sum>i<length v. v ! i * w ! i) ^ 2))"
proof -
  have reads: "rmap (view_read u) [0, 1] = Inr [u ! 0, u ! 1]" if "2 \<le> length u" for u :: "real list"
    using that by (auto simp: view_read_def)
  have reads3: "rmap (view_read u) [0, 1, 2] = Inr [u ! 0, u ! 1, u ! 2]" if "length u = 3" for u :: "real list"
    using that by (simp add: view_read_def)
  consider "length v = 2" | "length v = 3" using assms(1) by auto
  then show ?thesis
  proof cases
    case 1
    then show ?thesis using assms(2) reads [of v] reads [of w]
      by (simp add: getAreaFromVectors_def numeral_2_eq_2 algebra_simps power2_eq_square)
  next
    case 2
    then show ?thesis using assms(2) reads3 [of v] reads3 [of w]
      by (simp add: getAreaFromVectors_def numeral_3_eq_3 numeral_2_eq_2 algebra_simps power2_eq_square)
  qed
qed

theorem area_is_gram_determinant_witness:
  "getAreaFromVectors True [3, 0] [1, 4] = Inr 12"
  using area_is_gram_determinant [of "[3, 0]" "[1, 4]" True]
  by (simp add: numeral_2_eq_2 real_sqrt_unique)

end
