(* ===== verification/Compadre_Basis.thy ===== *)
theory Compadre_Basis
  imports Compadre_FunctorData Compadre_Utilities Compadre_DivergenceFreePolynomial
begin

text \<open>
  Compadre_Basis.hpp: the value of a sampling functional on every polynomial of the basis,
  for a neighbor or a site of a target, and the rows that these values fill in the
  matrix of the least-squares problem with their weights.

  The scratch buffers \<open>delta\<close> and \<open>thread_workspace\<close> are lists that a function takes and
  returns; \<open>V\<close> is \<open>None\<close> for the null pointer.  A polynomial degree is a natural number.
\<close>

section \<open>The place of the evaluation\<close>

text \<open>
  A neighbor number beyond the neighbors carries the component; a negative number stands
  for a site of the target and carries the component as well.
\<close>

definition split_neighbor :: "basis_data \<Rightarrow> int \<Rightarrow> int \<Rightarrow> (int \<times> int) result" where
  "split_neighbor data target_index neighbor_index =
     rbind (getNumberOfNeighborsDevice (pc_nla (bd_pc data)) target_index) (\<lambda>my_num_neighbors.
     if neighbor_index \<ge> my_num_neighbors then
       (if my_num_neighbors = 0 then Inl Division_by_zero
        else Inr (neighbor_index sdiv my_num_neighbors, neighbor_index smod my_num_neighbors))
     else if neighbor_index < 0 then Inr (- (neighbor_index + 1), neighbor_index)
     else Inr (0, neighbor_index))"

definition relative_coord ::
  "bool \<Rightarrow> basis_data \<Rightarrow> int \<Rightarrow> int \<Rightarrow> real \<Rightarrow> int \<Rightarrow> real list list option \<Rightarrow> int \<Rightarrow> XYZ result" where
  "relative_coord dbg data target_index neighbor_index alpha dimension V evaluation_site_local_index =
     (if neighbor_index > -1 then
        rfold (\<lambda>i c.
          rbind (getTargetCoordinate dbg (bd_pc data) target_index (int i) V) (\<lambda>t.
          rbind (getNeighborCoordinate dbg (bd_pc data) target_index neighbor_index (int i) V) (\<lambda>n.
          let c = XYZ_index_set c (int i) ((alpha - 1) * t)
          in Inr (XYZ_index_set c (int i) (XYZ_index c (int i) + (1 - alpha) * n)))))
          [0..<nat dimension] (XYZ_make 0 0 0)
      else if evaluation_site_local_index > 0 then
        rfold (\<lambda>i c.
          rbind (getNeighborCoordinate dbg (bd_additional_pc data) target_index
                   (evaluation_site_local_index - 1) (int i) V) (\<lambda>n.
          rbind (getTargetCoordinate dbg (bd_pc data) target_index (int i) V) (\<lambda>t.
          let c = XYZ_index_set c (int i) n
          in Inr (XYZ_index_set c (int i) (XYZ_index c (int i) - t)))))
          [0..<nat dimension] (XYZ_make 0 0 0)
      else Inr (XYZ_make 0 0 0))"

section \<open>Loops over the monomials\<close>

text \<open>
  The loops over the exponents in two and three dimensions, in the order of the basis.
  In other dimensions the code has no loop.
\<close>

definition for_exponents ::
  "int \<Rightarrow> nat \<Rightarrow> nat \<Rightarrow> (int list \<Rightarrow> 's \<Rightarrow> 's result) \<Rightarrow> 's \<Rightarrow> 's result" where
  "for_exponents dimension start_index poly_order body =
     (if dimension = 3 then
        rfold (\<lambda>n. rfold (\<lambda>alphaz. rfold (\<lambda>alphay.
            body [int (n - alphaz - alphay), int alphay, int alphaz])
          [0..<n - alphaz + 1]) [0..<n + 1]) [start_index..<poly_order + 1]
      else if dimension = 2 then
        rfold (\<lambda>n. rfold (\<lambda>alphay. body [int (n - alphay), int alphay]) [0..<n + 1])
          [start_index..<poly_order + 1]
      else Inr)"

text \<open>\<open>c * pow(x/cutoff_p, alphax) * pow(y/cutoff_p, alphay) * .. / alphaf\<close>.\<close>

definition pow_product :: "real \<Rightarrow> XYZ \<Rightarrow> real \<Rightarrow> int list \<Rightarrow> real result" where
  "pow_product c p cutoff_p alphas =
     rbind (rmap (view_read factorial) alphas) (\<lambda>fs.
     Inr (foldl (*) c (map (\<lambda>k. (XYZ_index p (int k) / cutoff_p) ^ nat (alphas ! k)) [0..<length alphas])
            / foldl (*) 1 fs))"

text \<open>The first contribution overwrites an entry, the others add to it; then \<open>i++\<close>.\<close>

definition accumulate :: "bool \<Rightarrow> real \<Rightarrow> real list \<times> int \<Rightarrow> (real list \<times> int) result" where
  "accumulate first v = (\<lambda>(delta, i).
     rbind (if first then view_write delta i v
            else rbind (view_read delta i) (\<lambda>old. view_write delta i (old + v))) (\<lambda>delta.
     Inr (delta, i + 1)))"

text \<open>
  The vector with the value \<open>p\<close> in component \<open>j\<close>.  With two components every \<open>j\<close> other
  than 0 (on a manifold and on faces) or other than 1 (else) takes the remaining place.
\<close>

definition component_vector :: "bool \<Rightarrow> int \<Rightarrow> nat \<Rightarrow> real \<Rightarrow> XYZ" where
  "component_vector surface dimension j p =
     (if surface then (if j = 0 then XYZ_make p 0 0 else XYZ_make 0 p 0)
      else if j = 1 then XYZ_make 0 p 0
      else if j = 2 \<and> dimension = 3 then XYZ_make 0 0 p
      else XYZ_make p 0 0)"

section \<open>Sampling on edges\<close>

text \<open>The quadrature point of an edge relative to the target, and the edge itself.\<close>

definition edge_point ::
  "bool \<Rightarrow> basis_data \<Rightarrow> int \<Rightarrow> int \<Rightarrow> int \<Rightarrow> int \<Rightarrow> real list list option \<Rightarrow> (XYZ \<times> XYZ) result" where
  "edge_point dbg data target_index neighbor_index dimension quadrature V =
     rfold (\<lambda>j (quadrature_coord, tangent).
       rbind (getSite (bd_qm data) quadrature 0) (\<lambda>site.
       rbind (getTargetCoordinate dbg (bd_pc data) target_index (int j) V) (\<lambda>t.
       rbind (getNeighborCoordinate dbg (bd_pc data) target_index neighbor_index (int j) V) (\<lambda>n.
       let quadrature_coord = XYZ_index_set quadrature_coord (int j) ((site - 1) * t);
           quadrature_coord = XYZ_index_set quadrature_coord (int j)
             (XYZ_index quadrature_coord (int j) + (1 - site) * n);
           tangent = XYZ_index_set tangent (int j) t;
           tangent = XYZ_index_set tangent (int j) (XYZ_index tangent (int j) - n)
       in Inr (quadrature_coord, tangent)))))
       [0..<nat dimension] (XYZ_make 0 0 0, XYZ_make 0 0 0)"

definition StaggeredEdgeIntegral_sample ::
  "bool \<Rightarrow> basis_data \<Rightarrow> real list \<Rightarrow> int \<Rightarrow> int \<Rightarrow> int \<Rightarrow> nat \<Rightarrow> nat \<Rightarrow> real list list option
     \<Rightarrow> real list result" where
  "StaggeredEdgeIntegral_sample dbg data delta target_index neighbor_index dimension poly_order start_index V =
     (let manifold = bd_problem_type data = MANIFOLD;
          V = (if manifold then V else None);
          loops = (if manifold then 2 else dimension)
      in rbind (view_read (bd_epsilons data) target_index) (\<lambda>cutoff_p.
         rfold (\<lambda>quadrature delta.
           rbind (edge_point dbg data target_index neighbor_index dimension (int quadrature) V)
             (\<lambda>(quadrature_coord, tangent).
           rbind (rfold (\<lambda>j. for_exponents loops start_index poly_order (\<lambda>alphas st.
               rbind (pow_product 1 quadrature_coord cutoff_p alphas) (\<lambda>p.
               rbind (getWeight (bd_qm data) (int quadrature)) (\<lambda>weight.
               let v = component_vector manifold loops j p;
                   dot_product = x_coord tangent * x_coord v + y_coord tangent * y_coord v
                     + (if loops = 3 then z_coord tangent * z_coord v else 0)
               in accumulate (quadrature = 0) (dot_product * weight) st))))
             [0..<nat (bd_basis_multiplier data)] (delta, 0)) (\<lambda>(delta, i).
           Inr delta)))
         [0..<nat (getNumberOfQuadraturePoints (bd_qm data))] delta))"

section \<open>Sampling on faces\<close>

text \<open>
  The rows of \<open>_source_extra_data\<close> hold the end points of an edge, its normal and its
  tangent.  Both point samples take one round, without the weight.
\<close>

definition face_point ::
  "bool \<Rightarrow> basis_data \<Rightarrow> int \<Rightarrow> int \<Rightarrow> int \<Rightarrow> XYZ \<Rightarrow> bool \<Rightarrow> bool \<Rightarrow> int \<Rightarrow> (XYZ \<times> XYZ) result" where
  "face_point dbg data target_index neighbor_index_in_source dimension relative integral normal quadrature =
     rfold (\<lambda>j (quadrature_coord, direction).
       rbind (if integral
              then rbind (getSite (bd_qm data) quadrature 0) (\<lambda>site.
                rbind (view_read2 (bd_source_extra_data data) neighbor_index_in_source (int j)) (\<lambda>e0.
                rbind (view_read2 (bd_source_extra_data data) neighbor_index_in_source (int j + 2)) (\<lambda>e1.
                rbind (getTargetCoordinate dbg (bd_pc data) target_index (int j) None) (\<lambda>t.
                Inr (site * e0 + (1 - site) * e1 - t)))))
              else Inr (XYZ_index relative (int j))) (\<lambda>q.
       rbind (view_read2 (bd_source_extra_data data) neighbor_index_in_source
                ((if normal then 4 else 6) + int j)) (\<lambda>d.
       Inr (XYZ_index_set quadrature_coord (int j) q, XYZ_index_set direction (int j) d))))
       [0..<nat dimension] (XYZ_make 0 0 0, XYZ_make 0 0 0)"

definition Face_sample ::
  "bool \<Rightarrow> basis_data \<Rightarrow> real list \<Rightarrow> int \<Rightarrow> int \<Rightarrow> int \<Rightarrow> nat \<Rightarrow> nat \<Rightarrow> XYZ
     \<Rightarrow> SamplingFunctional \<Rightarrow> real list result" where
  "Face_sample dbg data delta target_index neighbor_index dimension poly_order start_index relative
      polynomial_sampling_functional =
     (let integral = sf_eq polynomial_sampling_functional FaceNormalIntegralSample
            \<or> sf_eq polynomial_sampling_functional FaceTangentIntegralSample;
          normal = sf_eq polynomial_sampling_functional FaceNormalIntegralSample
            \<or> sf_eq polynomial_sampling_functional FaceNormalPointSample
      in rbind (view_read (bd_epsilons data) target_index) (\<lambda>cutoff_p.
         rbind (compadre_kernel_assert_debug dbg ''Only written for 2D'' (bd_dimensions data = 2)) (\<lambda>_.
         rbind (compadre_kernel_assert_debug dbg ''Extra data used but not set.''
                  (length (bd_source_extra_data data) > 0)) (\<lambda>_.
         rbind (getNeighborIndex (bd_pc data) target_index neighbor_index) (\<lambda>neighbor_index_in_source.
         rbind (rfold (\<lambda>j d.
             rbind (view_read2 (bd_source_extra_data data) neighbor_index_in_source (int j)) (\<lambda>e0.
             rbind (view_read2 (bd_source_extra_data data) neighbor_index_in_source (int j + 2)) (\<lambda>e1.
             Inr (XYZ_index_set d (int j) (e0 - e1)))))
           [0..<nat dimension] (XYZ_make 0 0 0)) (\<lambda>endpoints_difference.
         let magnitude = EuclideanVectorLength endpoints_difference 2
         in rfold (\<lambda>quadrature delta.
           rbind (face_point dbg data target_index neighbor_index_in_source dimension relative
                    integral normal (int quadrature)) (\<lambda>(quadrature_coord, direction).
           rbind (rfold (\<lambda>j. for_exponents 2 start_index poly_order (\<lambda>alphas st.
               rbind (pow_product 1 quadrature_coord cutoff_p alphas) (\<lambda>p.
               let v = component_vector True 2 j p;
                   dot_product = x_coord direction * x_coord v + y_coord direction * y_coord v
               in if quadrature = 0 \<and> \<not> integral then accumulate True dot_product st
                  else rbind (getWeight (bd_qm data) (int quadrature)) (\<lambda>weight.
                       accumulate (quadrature = 0) (dot_product * weight * magnitude) st))))
             [0..<nat (bd_basis_multiplier data)] (delta, 0)) (\<lambda>(delta, i).
           Inr delta)))
         [0..<(if integral then nat (getNumberOfQuadraturePoints (bd_qm data)) else 1)] delta))))))"

section \<open>Average over a cell\<close>

text \<open>
  The columns 1 and 2 of \<open>triangle_coords_matrix\<close>: two consecutive vertices of the cell as
  seen from the midpoint, which is column 0.
\<close>

definition triangle_edges ::
  "real list list \<Rightarrow> int \<Rightarrow> nat \<Rightarrow> nat \<Rightarrow> nat \<Rightarrow> real list \<Rightarrow> (real list \<times> real list) result" where
  "triangle_edges cells cell global_dimensions num_vertices v midpoint =
     (let v1 = v; v2 = (v + 1) mod num_vertices;
          edge = (\<lambda>v. rmap (\<lambda>j.
            rbind (view_read2 cells cell (int (v * global_dimensions + j))) (\<lambda>x.
            rbind (view_read midpoint (int j)) (\<lambda>m. Inr (x - m)))) [0..<global_dimensions])
      in rbind (edge v1) (\<lambda>T1. rbind (edge v2) (\<lambda>T2. Inr (T1, T2))))"

text \<open>The quadrature point of a triangle, with a zero for a missing third coordinate.\<close>

definition transformed_point ::
  "basis_data \<Rightarrow> nat \<Rightarrow> real list \<Rightarrow> real list \<Rightarrow> real list \<Rightarrow> int \<Rightarrow> XYZ result" where
  "transformed_point data global_dimensions midpoint T1 T2 quadrature =
     rfold (\<lambda>j qp.
       rbind (view_read T1 (int j)) (\<lambda>t1. rbind (getSite (bd_qm data) quadrature 0) (\<lambda>s0.
       rbind (view_read T2 (int j)) (\<lambda>t2. rbind (getSite (bd_qm data) quadrature 1) (\<lambda>s1.
       rbind (view_read midpoint (int j)) (\<lambda>t0.
       Inr (XYZ_index_set qp (int j) (t1 * s0 + t2 * s1 + t0))))))))
       [0..<global_dimensions] (XYZ_make 0 0 0)"

definition relative_to_target ::
  "bool \<Rightarrow> basis_data \<Rightarrow> int \<Rightarrow> int \<Rightarrow> XYZ \<Rightarrow> real list list option \<Rightarrow> XYZ result" where
  "relative_to_target dbg data target_index dimension qp V =
     (if bd_problem_type data = MANIFOLD then
        (case V of None \<Rightarrow> Inl Out_of_bounds
         | Some V1 \<Rightarrow> rfold (\<lambda>j c.
             rbind (convertGlobalToLocalCoordinate dbg qp (int j) V1) (\<lambda>q.
             rbind (getTargetCoordinate dbg (bd_pc data) target_index (int j) V) (\<lambda>t.
             Inr (XYZ_index_set (XYZ_index_set c (int j) (q - t)) 2 0))))
             [0..<2] (XYZ_make 0 0 0))
      else rfold (\<lambda>j c.
             rbind (getTargetCoordinate dbg (bd_pc data) target_index (int j) V) (\<lambda>t.
             Inr (XYZ_index_set c (int j) (XYZ_index qp (int j) - t))))
             [0..<nat dimension] (XYZ_make 0 0 0))"

definition ScalarFaceAverage_sample ::
  "bool \<Rightarrow> basis_data \<Rightarrow> real list \<Rightarrow> int \<Rightarrow> int \<Rightarrow> int \<Rightarrow> nat \<Rightarrow> nat \<Rightarrow> real list list option
     \<Rightarrow> real list result" where
  "ScalarFaceAverage_sample dbg data delta target_index neighbor_index dimension poly_order start_index V =
     rbind (getNeighborIndex (bd_pc data) target_index neighbor_index) (\<lambda>global_neighbor_index.
     rbind (view_read (bd_epsilons data) target_index) (\<lambda>cutoff_p.
     let global_dimensions = nat (bd_global_dimensions data);
         extent_1 = nat (columns (bd_source_extra_data data))
     in rbind (getMidpointFromCellVertices delta (bd_source_extra_data data) extent_1
                 global_neighbor_index global_dimensions) (\<lambda>delta.
     rbind (rmap (\<lambda>j. view_read delta (int j)) [0..<global_dimensions]) (\<lambda>midpoint.
     let num_vertices = extent_1 div global_dimensions;
         reference_cell_area = 1 / 2
     in rbind (rfold (\<lambda>v entire_cell_area.
           rbind (triangle_edges (bd_source_extra_data data) global_neighbor_index global_dimensions num_vertices v midpoint) (\<lambda>(T1, T2).
           rbind (getAreaFromVectors dbg T1 T2) (\<lambda>area. Inr (entire_cell_area + 1 / 2 * area))))
         [0..<num_vertices] 0) (\<lambda>entire_cell_area.
     rfold (\<lambda>v delta.
       rbind (triangle_edges (bd_source_extra_data data) global_neighbor_index global_dimensions num_vertices v midpoint) (\<lambda>(T1, T2).
       rfold (\<lambda>quadrature delta.
         rbind (transformed_point data global_dimensions midpoint T1 T2 (int quadrature)) (\<lambda>qp.
         rbind (getAreaFromVectors dbg T1 T2) (\<lambda>area.
         let sub_cell_area = 1 / 2 * area;
             scaling_factor = sub_cell_area / reference_cell_area
         in rbind (relative_to_target dbg data target_index dimension qp V) (\<lambda>relative.
         rbind (for_exponents dimension start_index poly_order (\<lambda>alphas st.
             rbind (getWeight (bd_qm data) (int quadrature)) (\<lambda>weight.
             rbind (pow_product (scaling_factor * weight) relative cutoff_p alphas) (\<lambda>p.
             let val_to_sum = p / entire_cell_area
             in accumulate (quadrature = 0 \<and> v = 0) val_to_sum st)))
           (delta, 0)) (\<lambda>(delta, k).
         Inr delta)))))
       [0..<nat (getNumberOfQuadraturePoints (bd_qm data))] delta))
     [0..<num_vertices] delta)))))"

section \<open>The samples of the basis\<close>

definition traditional_sample :: "SamplingFunctional \<Rightarrow> bool" where
  "traditional_sample sf \<longleftrightarrow> sf_eq sf PointSample \<or> sf_eq sf VectorPointSample
     \<or> sf_eq sf ManifoldVectorPointSample \<or> sf_eq sf VaryingManifoldVectorPointSample"

definition scalar_space :: "ReconstructionSpace \<Rightarrow> bool" where
  "scalar_space r \<longleftrightarrow> r = ScalarTaylorPolynomial \<or> r = VectorOfScalarClonesTaylorPolynomial"

definition undefined_combination :: "'a result" where
  "undefined_combination = rbind (compadre_kernel_assert_release
     ''Sampling and basis space combination not defined.'' False) (\<lambda>_. Inl Indeterminate_value)"

text \<open>
  The vector basis: the block of the component holds the scalar basis, the other blocks
  are zero.  \<open>delta + component * dimension_offset\<close> is the buffer from that place on.
\<close>

definition VectorTaylor_sample ::
  "basis_data \<Rightarrow> real list \<Rightarrow> real list \<Rightarrow> int \<Rightarrow> int \<Rightarrow> int \<Rightarrow> nat \<Rightarrow> nat \<Rightarrow> XYZ \<Rightarrow> ReconstructionSpace
     \<Rightarrow> (real list \<times> real list) result" where
  "VectorTaylor_sample data delta thread_workspace target_index component dimension poly_order
      start_index p reconstruction_space =
     (let dimension_offset = nat (getNP (bd_poly_order data) dimension reconstruction_space)
      in rbind (view_read (bd_epsilons data) target_index) (\<lambda>cutoff_p.
         rfold (\<lambda>d (delta, workspace).
           if int d = component then
             rbind (ScalarTaylor_evaluate (drop (d * dimension_offset) delta) workspace dimension
                      poly_order cutoff_p (x_coord p) (y_coord p) (z_coord p) start_index 0 1)
               (\<lambda>(rest, workspace). Inr (take (d * dimension_offset) delta @ rest, workspace))
           else rbind (rfold (\<lambda>n delta. view_write delta (int (d * dimension_offset + n)) 0)
                         [0..<dimension_offset] delta) (\<lambda>delta. Inr (delta, workspace)))
           [0..<nat dimension] (delta, thread_workspace)))"

definition StaggeredEdgeAnalytic_sample ::
  "basis_data \<Rightarrow> real list \<Rightarrow> real list \<Rightarrow> int \<Rightarrow> int \<Rightarrow> nat \<Rightarrow> nat \<Rightarrow> XYZ
     \<Rightarrow> (real list \<times> real list) result" where
  "StaggeredEdgeAnalytic_sample data delta thread_workspace target_index dimension poly_order start_index p =
     rbind (view_read (bd_epsilons data) target_index) (\<lambda>cutoff_p.
     rbind (ScalarTaylor_evaluate delta thread_workspace dimension poly_order cutoff_p
              (x_coord p) (y_coord p) (z_coord p) start_index 0 (- 1)) (\<lambda>(delta, workspace).
     ScalarTaylor_evaluate delta workspace dimension poly_order cutoff_p 0 0 0 start_index 1 1))"

definition calcPij ::
  "bool \<Rightarrow> basis_data \<Rightarrow> real list \<Rightarrow> real list \<Rightarrow> int \<Rightarrow> int \<Rightarrow> real \<Rightarrow> int \<Rightarrow> nat \<Rightarrow> bool
     \<Rightarrow> real list list option \<Rightarrow> ReconstructionSpace \<Rightarrow> SamplingFunctional \<Rightarrow> int
     \<Rightarrow> (real list \<times> real list) result" where
  "calcPij dbg data delta thread_workspace target_index neighbor_index alpha dimension poly_order
      specific_order_only V reconstruction_space polynomial_sampling_functional
      evaluation_site_local_index =
     rbind (split_neighbor data target_index neighbor_index) (\<lambda>(component, neighbor_index).
     rbind (relative_coord dbg data target_index neighbor_index alpha dimension V
              evaluation_site_local_index) (\<lambda>p.
     let start_index = (if specific_order_only then poly_order else 0);
         keep_workspace = (\<lambda>delta. Inr (delta, thread_workspace))
     in if traditional_sample polynomial_sampling_functional \<and> scalar_space reconstruction_space then
          rbind (view_read (bd_epsilons data) target_index) (\<lambda>cutoff_p.
          ScalarTaylor_evaluate delta thread_workspace dimension poly_order cutoff_p
            (x_coord p) (y_coord p) (z_coord p) start_index 0 1)
        else if (sf_eq polynomial_sampling_functional VectorPointSample
              \<or> sf_eq polynomial_sampling_functional ManifoldVectorPointSample
              \<or> sf_eq polynomial_sampling_functional VaryingManifoldVectorPointSample)
            \<and> reconstruction_space = VectorTaylorPolynomial then
          VectorTaylor_sample data delta thread_workspace target_index component dimension poly_order
            start_index p reconstruction_space
        else if sf_eq polynomial_sampling_functional VectorPointSample
            \<and> reconstruction_space = DivergenceFreeVectorTaylorPolynomial then
          rbind (view_read (bd_epsilons data) target_index) (\<lambda>cutoff_p.
          DivFree_evaluate delta thread_workspace dimension poly_order component cutoff_p
            (x_coord p) (y_coord p) (z_coord p) 0 0 1)
        else if sf_eq polynomial_sampling_functional StaggeredEdgeAnalyticGradientIntegralSample
            \<and> reconstruction_space = ScalarTaylorPolynomial then
          StaggeredEdgeAnalytic_sample data delta thread_workspace target_index dimension poly_order
            start_index p
        else if sf_eq polynomial_sampling_functional StaggeredEdgeIntegralSample then
          rbind (StaggeredEdgeIntegral_sample dbg data delta target_index neighbor_index dimension
                   poly_order start_index V) keep_workspace
        else if sf_eq polynomial_sampling_functional FaceNormalIntegralSample
            \<or> sf_eq polynomial_sampling_functional FaceTangentIntegralSample
            \<or> sf_eq polynomial_sampling_functional FaceNormalPointSample
            \<or> sf_eq polynomial_sampling_functional FaceTangentPointSample then
          rbind (Face_sample dbg data delta target_index neighbor_index dimension poly_order
                   start_index p polynomial_sampling_functional) keep_workspace
        else if sf_eq polynomial_sampling_functional ScalarFaceAverageSample then
          rbind (ScalarFaceAverage_sample dbg data delta target_index neighbor_index dimension
                   poly_order start_index V) keep_workspace
        else undefined_combination))"

section \<open>Its gradient and Hessian\<close>

definition calcGradientPij ::
  "bool \<Rightarrow> basis_data \<Rightarrow> real list \<Rightarrow> real list \<Rightarrow> int \<Rightarrow> int \<Rightarrow> real \<Rightarrow> int \<Rightarrow> int \<Rightarrow> nat \<Rightarrow> bool
     \<Rightarrow> real list list option \<Rightarrow> ReconstructionSpace \<Rightarrow> SamplingFunctional \<Rightarrow> int
     \<Rightarrow> (real list \<times> real list) result" where
  "calcGradientPij dbg data delta thread_workspace target_index neighbor_index alpha partial_direction
      dimension poly_order specific_order_only V reconstruction_space polynomial_sampling_functional
      evaluation_site_local_index =
     rbind (split_neighbor data target_index neighbor_index) (\<lambda>(component, neighbor_index).
     rbind (relative_coord dbg data target_index neighbor_index alpha dimension V
              evaluation_site_local_index) (\<lambda>p.
     rbind (view_read (bd_epsilons data) target_index) (\<lambda>cutoff_p.
     let start_index = (if specific_order_only then poly_order else 0)
     in if traditional_sample polynomial_sampling_functional \<and> scalar_space reconstruction_space then
          ScalarTaylor_evaluatePartialDerivative delta thread_workspace dimension poly_order
            partial_direction cutoff_p (x_coord p) (y_coord p) (z_coord p) start_index 0 1
        else if sf_eq polynomial_sampling_functional VectorPointSample
            \<and> reconstruction_space = DivergenceFreeVectorTaylorPolynomial then
          DivFree_evaluatePartialDerivative delta thread_workspace dimension poly_order component
            partial_direction cutoff_p (x_coord p) (y_coord p) (z_coord p) 0 0 1
        else undefined_combination)))"

definition calcHessianPij ::
  "bool \<Rightarrow> basis_data \<Rightarrow> real list \<Rightarrow> real list \<Rightarrow> int \<Rightarrow> int \<Rightarrow> real \<Rightarrow> int \<Rightarrow> int \<Rightarrow> int \<Rightarrow> nat \<Rightarrow> bool
     \<Rightarrow> real list list option \<Rightarrow> ReconstructionSpace \<Rightarrow> SamplingFunctional \<Rightarrow> int
     \<Rightarrow> (real list \<times> real list) result" where
  "calcHessianPij dbg data delta thread_workspace target_index neighbor_index alpha
      partial_direction_1 partial_direction_2 dimension poly_order specific_order_only V
      reconstruction_space polynomial_sampling_functional evaluation_site_local_index =
     rbind (split_neighbor data target_index neighbor_index) (\<lambda>(component, neighbor_index).
     rbind (relative_coord dbg data target_index neighbor_index alpha dimension V
              evaluation_site_local_index) (\<lambda>p.
     rbind (view_read (bd_epsilons data) target_index) (\<lambda>cutoff_p.
     if traditional_sample polynomial_sampling_functional \<and> scalar_space reconstruction_space then
       ScalarTaylor_evaluateSecondPartialDerivative delta thread_workspace dimension poly_order
         partial_direction_1 partial_direction_2 cutoff_p (x_coord p) (y_coord p) (z_coord p) 0 0 1
     else if sf_eq polynomial_sampling_functional VectorPointSample
         \<and> reconstruction_space = DivergenceFreeVectorTaylorPolynomial then
       DivFree_evaluateSecondPartialDerivative delta thread_workspace dimension poly_order component
         partial_direction_1 partial_direction_2 cutoff_p (x_coord p) (y_coord p) (z_coord p) 0 0 1
     else undefined_combination)))"

section \<open>The weighted matrix of a target\<close>

text \<open>
  The threads of the team take the neighbors; each writes its own rows of \<open>P\<close> and its own
  entries of \<open>w\<close>, and overwrites the scratch buffers, so the loop over the neighbors is
  written in their order.  \<open>P\<close> is a matrix over the buffer of the batch.
\<close>

definition write_row ::
  "real list \<Rightarrow> matrix_view \<Rightarrow> int \<Rightarrow> int \<Rightarrow> (real \<Rightarrow> real) \<Rightarrow> real list \<Rightarrow> real list result" where
  "write_row delta P row storage_size weighted buf =
     rfold (\<lambda>j buf. rbind (view_read delta (int j)) (\<lambda>x.
       matrix_write buf P row (int j) (weighted x))) [0..<nat storage_size] buf"

definition createWeightsAndP ::
  "bool \<Rightarrow> basis_data \<Rightarrow> int \<Rightarrow> real list \<Rightarrow> real list \<Rightarrow> matrix_view \<Rightarrow> int \<Rightarrow> nat \<Rightarrow> bool
     \<Rightarrow> real list list option \<Rightarrow> ReconstructionSpace \<Rightarrow> SamplingFunctional
     \<Rightarrow> real list \<times> real list \<Rightarrow> (real list \<times> real list) result" where
  "createWeightsAndP dbg data league_rank delta thread_workspace P dimension polynomial_order weight_p V
      reconstruction_space polynomial_sampling_functional = (\<lambda>(buf, w).
     (let target_index = bd_initial_index_for_batch data + league_rank
      in rbind (getNumberOfNeighborsDevice (pc_nla (bd_pc data)) target_index) (\<lambda>my_num_neighbors.
     let storage_size = getNP (int polynomial_order) dimension reconstruction_space
           * bd_basis_multiplier data;
         delta = map (\<lambda>_. 0) delta;
         thread_workspace = map (\<lambda>_. 0) thread_workspace
     in rbind (rfold (\<lambda>i. rfold (\<lambda>d (delta, thread_workspace, buf, w).
          let alpha_weight =
                (if sf_eq (bd_polynomial_sampling_functional data) StaggeredEdgeIntegralSample
                    \<or> sf_eq (bd_polynomial_sampling_functional data)
                        StaggeredEdgeAnalyticGradientIntegralSample then 5 / 10 else 1)
          in rbind (getRelativeCoord dbg (bd_pc data) target_index (int i) dimension V) (\<lambda>c.
          let r = EuclideanVectorLength (XYZ_member_scale c alpha_weight) dimension
          in rbind (view_read (bd_epsilons data) target_index) (\<lambda>epsilon.
          rbind (Wab r epsilon (bd_weighting_type data) (bd_weighting_p data) (bd_weighting_n data)) (\<lambda>wab.
          rbind (view_write w (int i + my_num_neighbors * int d) wab) (\<lambda>w.
          rbind (calcPij dbg data delta thread_workspace target_index (int i + int d * my_num_neighbors) 0
                   dimension polynomial_order False V reconstruction_space
                   polynomial_sampling_functional 0) (\<lambda>(delta, thread_workspace).
          rbind (view_read w (int i + my_num_neighbors * int d)) (\<lambda>wi.
          rbind (write_row delta P (int i + my_num_neighbors * int d) storage_size
                   (\<lambda>x. if weight_p then x * sqrt wi else x) buf) (\<lambda>buf.
          Inr (delta, thread_workspace, buf, w)))))))))
          [0..<nat (bd_sampling_multiplier data)]) [0..<nat my_num_neighbors]
          (delta, thread_workspace, buf, w)) (\<lambda>(delta, thread_workspace, buf, w).
        Inr (buf, w)))))"

definition createWeightsAndPForCurvature ::
  "bool \<Rightarrow> basis_data \<Rightarrow> int \<Rightarrow> real list \<Rightarrow> real list \<Rightarrow> matrix_view \<Rightarrow> int \<Rightarrow> bool
     \<Rightarrow> real list list option \<Rightarrow> real list \<times> real list \<Rightarrow> (real list \<times> real list) result" where
  "createWeightsAndPForCurvature dbg data league_rank delta thread_workspace P dimension
      only_specific_order V = (\<lambda>(buf, w).
     (let target_index = bd_initial_index_for_batch data + league_rank;
          storage_size = (if only_specific_order
            then getNP 1 dimension ScalarTaylorPolynomial - getNP 0 dimension ScalarTaylorPolynomial
            else getNP (bd_curvature_poly_order data) dimension ScalarTaylorPolynomial);
          delta = map (\<lambda>_. 0) delta;
          thread_workspace = map (\<lambda>_. 0) thread_workspace
      in rbind (getNumberOfNeighborsDevice (pc_nla (bd_pc data)) target_index) (\<lambda>my_num_neighbors.
     rbind (rfold (\<lambda>i (delta, thread_workspace, buf, w).
          rbind (getRelativeCoord dbg (bd_pc data) target_index (int i) dimension V) (\<lambda>c.
          let r = EuclideanVectorLength c dimension
          in rbind (view_read (bd_epsilons data) target_index) (\<lambda>epsilon.
          rbind (Wab r epsilon (bd_curvature_weighting_type data) (bd_curvature_weighting_p data)
                   (bd_curvature_weighting_n data)) (\<lambda>wab.
          rbind (view_write w (int i) wab) (\<lambda>w.
          rbind (if only_specific_order
                 then calcPij dbg data delta thread_workspace target_index (int i) 0 dimension 1 True
                        None ScalarTaylorPolynomial PointSample 0
                 else calcPij dbg data delta thread_workspace target_index (int i) 0 dimension
                        (nat (bd_curvature_poly_order data)) False V ScalarTaylorPolynomial PointSample 0)
            (\<lambda>(delta, thread_workspace).
          rbind (view_read w (int i)) (\<lambda>wi.
          rbind (write_row delta P (int i) storage_size (\<lambda>x. x * sqrt wi) buf) (\<lambda>buf.
          Inr (delta, thread_workspace, buf, w)))))))))
          [0..<nat my_num_neighbors] (delta, thread_workspace, buf, w))
          (\<lambda>(delta, thread_workspace, buf, w).
        Inr (buf, w)))))"

end
