(* ===== verification/Compadre_Targets.thy ===== *)
theory Compadre_Targets
  imports Compadre_Basis
begin

text \<open>
  Compadre_Targets.hpp, the part for problems in Euclidean space and the curvature: every
  registered target operation is applied to the basis, and the values fill one row of
  \<open>P_target_row\<close> for each input component, output component and evaluation site.

  The state of a thread is its scratch \<open>delta\<close>, its \<open>thread_workspace\<close> and the buffer of
  the target rows of the batch; \<open>P\<close> is the tile of the target.  The loop over the
  evaluation sites is written in their order: each site has rows of its own.
\<close>

type_synonym scratch = "real list \<times> real list \<times> real list"

section \<open>Writing rows\<close>

definition target_write :: "matrix_view \<Rightarrow> int \<Rightarrow> int \<Rightarrow> real \<Rightarrow> scratch \<Rightarrow> scratch result" where
  "target_write P row k v = (\<lambda>(delta, workspace, Z).
     rbind (matrix_write Z P row k v) (\<lambda>Z. Inr (delta, workspace, Z)))"

definition target_writes :: "matrix_view \<Rightarrow> int \<Rightarrow> int list \<Rightarrow> real \<Rightarrow> scratch \<Rightarrow> scratch result" where
  "target_writes P row ks v = rfold (\<lambda>k. target_write P row k v) ks"

definition target_zero :: "matrix_view \<Rightarrow> int \<Rightarrow> int \<Rightarrow> scratch \<Rightarrow> scratch result" where
  "target_zero P row n = rfold (\<lambda>j. target_write P row (int j) 0) [0..<nat n]"

text \<open>
  \<open>P_target_row(row, start + j) = f(P_target_row(row, start + j), delta(j))\<close> for the first
  \<open>n\<close> entries: an assignment, \<open>+=\<close> or \<open>-=\<close>.
\<close>

definition target_combine ::
  "(real \<Rightarrow> real \<Rightarrow> real) \<Rightarrow> matrix_view \<Rightarrow> int \<Rightarrow> int \<Rightarrow> int \<Rightarrow> scratch \<Rightarrow> scratch result" where
  "target_combine f P row start n = (\<lambda>(delta, workspace, Z).
     rbind (rfold (\<lambda>j Z.
         rbind (view_read delta (int j)) (\<lambda>x.
         rbind (matrix_read Z P row (start + int j)) (\<lambda>old.
         matrix_write Z P row (start + int j) (f old x)))) [0..<nat n] Z) (\<lambda>Z.
     Inr (delta, workspace, Z)))"

definition target_store :: "matrix_view \<Rightarrow> int \<Rightarrow> int \<Rightarrow> int \<Rightarrow> scratch \<Rightarrow> scratch result" where
  "target_store = target_combine (\<lambda>old x. x)"

text \<open>The sum of signed values: the first assigns, the others are added.\<close>

fun target_signed_sum ::
  "('a \<Rightarrow> scratch \<Rightarrow> scratch result) \<Rightarrow> matrix_view \<Rightarrow> int \<Rightarrow> int \<Rightarrow> bool \<Rightarrow> (real \<times> 'a) list
     \<Rightarrow> scratch \<Rightarrow> scratch result" where
  "target_signed_sum eval P row n first [] st = Inr st"
| "target_signed_sum eval P row n first ((s, a) # terms) st =
     rbind (eval a st) (\<lambda>st.
     rbind (target_combine (\<lambda>old x. if first then s * x else old + s * x) P row 0 n st)
       (target_signed_sum eval P row n False terms))"

section \<open>The basis at the sites of a target\<close>

text \<open>The neighbor number \<open>-(c+1)\<close> stands for a site of the target and the component \<open>c\<close>.\<close>

definition target_point ::
  "bool \<Rightarrow> basis_data \<Rightarrow> int \<Rightarrow> ReconstructionSpace \<Rightarrow> SamplingFunctional \<Rightarrow> int \<Rightarrow> int
     \<Rightarrow> scratch \<Rightarrow> scratch result" where
  "target_point dbg data target_index space sampling c site = (\<lambda>(delta, workspace, Z).
     rbind (calcPij dbg data delta workspace target_index (- (c + 1)) 1 (bd_dimensions data)
              (nat (bd_poly_order data)) False None space sampling site) (\<lambda>(delta, workspace).
     Inr (delta, workspace, Z)))"

definition target_gradient ::
  "bool \<Rightarrow> basis_data \<Rightarrow> int \<Rightarrow> ReconstructionSpace \<Rightarrow> SamplingFunctional \<Rightarrow> int \<Rightarrow> int \<Rightarrow> int
     \<Rightarrow> scratch \<Rightarrow> scratch result" where
  "target_gradient dbg data target_index space sampling c partial_direction site =
     (\<lambda>(delta, workspace, Z).
     rbind (calcGradientPij dbg data delta workspace target_index (- (c + 1)) 1 partial_direction
              (bd_dimensions data) (nat (bd_poly_order data)) False None space sampling site)
       (\<lambda>(delta, workspace).
     Inr (delta, workspace, Z)))"

definition target_hessian ::
  "bool \<Rightarrow> basis_data \<Rightarrow> int \<Rightarrow> ReconstructionSpace \<Rightarrow> SamplingFunctional \<Rightarrow> int \<Rightarrow> int \<Rightarrow> int \<Rightarrow> int
     \<Rightarrow> scratch \<Rightarrow> scratch result" where
  "target_hessian dbg data target_index space sampling c direction_1 direction_2 site =
     (\<lambda>(delta, workspace, Z).
     rbind (calcHessianPij dbg data delta workspace target_index (- (c + 1)) 1 direction_1 direction_2
              (bd_dimensions data) (nat (bd_poly_order data)) False None space sampling site)
       (\<lambda>(delta, workspace).
     Inr (delta, workspace, Z)))"

text \<open>
  \<open>calcGradientPij\<close> with the row itself in the place of \<open>delta\<close>: \<open>row.data()\<close> is a pointer
  into the buffer.
\<close>

definition target_gradient_row ::
  "bool \<Rightarrow> basis_data \<Rightarrow> int \<Rightarrow> matrix_view \<Rightarrow> int \<Rightarrow> int \<Rightarrow> int \<Rightarrow> scratch \<Rightarrow> scratch result" where
  "target_gradient_row dbg data target_index P row partial_direction site = (\<lambda>(delta, workspace, Z).
     rbind (matrix_place P row 0) (\<lambda>p.
     rbind (calcGradientPij dbg data (drop (nat p) Z) workspace target_index (- 1) 1 partial_direction
              (bd_dimensions data) (nat (bd_poly_order data)) False None ScalarTaylorPolynomial
              PointSample site) (\<lambda>(rest, workspace).
     Inr (delta, workspace, take (nat p) Z @ rest))))"

section \<open>Branches\<close>

text \<open>
  A branch tells whether it handles additional evaluation sites.  The body of a parallel
  loop over the sites takes the number of the site.
\<close>

definition at_sites ::
  "int \<Rightarrow> (int \<Rightarrow> scratch \<Rightarrow> scratch result) \<Rightarrow> scratch \<Rightarrow> (bool \<times> scratch) result" where
  "at_sites num_evaluation_sites body st =
     rbind (rfold (\<lambda>e. body (int e)) [0..<nat num_evaluation_sites] st) (\<lambda>st. Inr (True, st))"

definition at_target :: "(scratch \<Rightarrow> scratch result) \<Rightarrow> scratch \<Rightarrow> (bool \<times> scratch) result" where
  "at_target body st = rbind (body st) (\<lambda>st. Inr (False, st))"

definition not_available :: "(bool \<times> scratch) result" where
  "not_available = rbind (compadre_kernel_assert_release ''Functionality not yet available.'' False)
     (\<lambda>_. Inl Indeterminate_value)"

definition for_upto :: "int \<Rightarrow> (int \<Rightarrow> scratch \<Rightarrow> scratch result) \<Rightarrow> scratch \<Rightarrow> scratch result" where
  "for_upto n body = rfold (\<lambda>j. body (int j)) [0..<nat n]"

text \<open>The row of an operation for an input, an output and a site, and what is done with it.\<close>

definition with_row ::
  "basis_data \<Rightarrow> int \<Rightarrow> int \<Rightarrow> int \<Rightarrow> int \<Rightarrow> (int \<Rightarrow> scratch \<Rightarrow> scratch result) \<Rightarrow> scratch \<Rightarrow> scratch result" where
  "with_row data i inp out e body st =
     rbind (getTargetOffsetIndex_device (bd_d_ss data) i inp out e) (\<lambda>row. body row st)"

definition epsilon_power :: "basis_data \<Rightarrow> int \<Rightarrow> int \<Rightarrow> real result" where
  "epsilon_power data target_index e = rbind (view_read (bd_epsilons data) target_index) (\<lambda>h. pow_int h e)"

text \<open>Branches that several spaces share.\<close>

definition scalar_point_target ::
  "bool \<Rightarrow> basis_data \<Rightarrow> int \<Rightarrow> int \<Rightarrow> int \<Rightarrow> int \<Rightarrow> matrix_view \<Rightarrow> scratch \<Rightarrow> (bool \<times> scratch) result" where
  "scalar_point_target dbg data target_index i sites target_NP P =
     at_sites sites (\<lambda>e st.
       rbind (target_point dbg data target_index ScalarTaylorPolynomial PointSample 0 e st)
         (with_row data i 0 0 e (\<lambda>row. target_store P row 0 target_NP)))"

definition laplacian_target ::
  "basis_data \<Rightarrow> int \<Rightarrow> int \<Rightarrow> matrix_view \<Rightarrow> scratch \<Rightarrow> (bool \<times> scratch) result" where
  "laplacian_target data target_index i P =
     at_target (with_row data i 0 0 0 (\<lambda>row st.
       rbind (epsilon_power data target_index (- 2)) (\<lambda>v.
         target_writes P row
           (if bd_dimensions data = 3 then [4, 6, 9]
            else if bd_dimensions data = 2 then [3, 5] else [2]) v st)))"

definition gradient_target ::
  "bool \<Rightarrow> basis_data \<Rightarrow> int \<Rightarrow> int \<Rightarrow> int \<Rightarrow> matrix_view \<Rightarrow> scratch \<Rightarrow> (bool \<times> scratch) result" where
  "gradient_target dbg data target_index i sites P =
     at_sites sites (\<lambda>e. for_upto (bd_dimensions data) (\<lambda>d.
       with_row data i 0 d e (\<lambda>row. target_gradient_row dbg data target_index P row d e)))"

definition partial_target ::
  "bool \<Rightarrow> basis_data \<Rightarrow> int \<Rightarrow> int \<Rightarrow> int \<Rightarrow> matrix_view \<Rightarrow> int \<Rightarrow> scratch \<Rightarrow> (bool \<times> scratch) result" where
  "partial_target dbg data target_index i sites P d =
     at_sites sites (\<lambda>e. with_row data i 0 0 e (\<lambda>row. target_gradient_row dbg data target_index P row d e))"

section \<open>Scalar space\<close>

text \<open>
  \<open>ScalarFaceAverageEvaluation\<close>: sums over the triangles between the midpoint and two
  consecutive vertices of the cell, in three dimensions.  The first quadrature point of
  every triangle overwrites the row.
\<close>

definition face_average_target ::
  "bool \<Rightarrow> basis_data \<Rightarrow> int \<Rightarrow> int \<Rightarrow> matrix_view \<Rightarrow> scratch \<Rightarrow> (bool \<times> scratch) result" where
  "face_average_target dbg data target_index i P =
     at_target (with_row data i 0 0 0 (\<lambda>row (delta, workspace, Z).
       rbind (view_read (bd_epsilons data) target_index) (\<lambda>cutoff_p.
       let extent_1 = nat (columns (bd_target_extra_data data))
       in rbind (getMidpointFromCellVertices delta (bd_target_extra_data data) extent_1 target_index 3) (\<lambda>delta.
       rbind (rmap (\<lambda>j. view_read delta (int j)) [0..<3]) (\<lambda>midpoint.
       let num_vertices = extent_1 div 3
       in rbind (rfold (\<lambda>v Z.
            rbind (triangle_edges (bd_target_extra_data data) target_index 3 num_vertices v midpoint) (\<lambda>(T1, T2).
            rfold (\<lambda>quadrature Z.
              rbind (transformed_point data 3 midpoint T1 T2 (int quadrature)) (\<lambda>qp.
              rbind (getAreaFromVectors dbg T1 T2) (\<lambda>area_scaling.
              rbind (rfold (\<lambda>j c.
                  rbind (getTargetCoordinate dbg (bd_pc data) target_index (int j) None) (\<lambda>t.
                  Inr (XYZ_index_set c (int j) (XYZ_index qp (int j) - t)))) [0..<3] (XYZ_make 0 0 0)) (\<lambda>relative.
              rbind (for_exponents 3 0 (nat (bd_poly_order data)) (\<lambda>alphas (Z, k).
                  rbind (getWeight (bd_qm data) (int quadrature)) (\<lambda>weight.
                  rbind (pow_product (area_scaling * weight) relative cutoff_p alphas) (\<lambda>p.
                  let val_to_sum = p / (5 / 10 * area_scaling)
                  in rbind (if quadrature = 0 then matrix_write Z P row k val_to_sum
                            else rbind (matrix_read Z P row k) (\<lambda>old.
                                 matrix_write Z P row k (old + val_to_sum))) (\<lambda>Z.
                     Inr (Z, k + 1))))) (Z, 0)) (\<lambda>(Z, k).
              Inr Z)))))
            [0..<nat (getNumberOfQuadraturePoints (bd_qm data))] Z))
          [0..<num_vertices] Z) (\<lambda>Z. Inr (delta, workspace, Z)))))))"

definition is_scalar_point :: "basis_data \<Rightarrow> TargetOperation \<Rightarrow> bool" where
  "is_scalar_point data op \<longleftrightarrow> op = ScalarPointEvaluation
     \<or> op = VectorPointEvaluation \<and> bd_dimensions data = 1"

definition ScalarTaylor_target ::
  "bool \<Rightarrow> basis_data \<Rightarrow> int \<Rightarrow> int \<Rightarrow> int \<Rightarrow> int \<Rightarrow> matrix_view \<Rightarrow> TargetOperation
     \<Rightarrow> scratch \<Rightarrow> (bool \<times> scratch) result" where
  "ScalarTaylor_target dbg data target_index i sites target_NP P op st =
     (if is_scalar_point data op then scalar_point_target dbg data target_index i sites target_NP P st
      else if op = LaplacianOfScalarPointEvaluation then laplacian_target data target_index i P st
      else if op = GradientOfScalarPointEvaluation then gradient_target dbg data target_index i sites P st
      else if op = PartialXOfScalarPointEvaluation then partial_target dbg data target_index i sites P 0 st
      else if op = PartialYOfScalarPointEvaluation then
        rbind (compadre_kernel_assert_release ''PartialYOfScalarPointEvaluation requested for dim < 2''
                 (bd_dimensions data > 1)) (\<lambda>_.
        partial_target dbg data target_index i sites P 1 st)
      else if op = PartialZOfScalarPointEvaluation then
        rbind (compadre_kernel_assert_release ''PartialZOfScalarPointEvaluation requested for dim < 3''
                 (bd_dimensions data > 2)) (\<lambda>_.
        partial_target dbg data target_index i sites P 2 st)
      else if op = DivergenceOfVectorPointEvaluation
          \<and> sf_eq (bd_polynomial_sampling_functional data) StaggeredEdgeAnalyticGradientIntegralSample then
        laplacian_target data target_index i P st
      else if op = ScalarFaceAverageEvaluation then face_average_target dbg data target_index i P st
      else not_available)"

section \<open>Vector space\<close>

definition vector_point_target ::
  "bool \<Rightarrow> basis_data \<Rightarrow> int \<Rightarrow> int \<Rightarrow> int \<Rightarrow> int \<Rightarrow> matrix_view \<Rightarrow> scratch \<Rightarrow> (bool \<times> scratch) result" where
  "vector_point_target dbg data target_index i sites target_NP P =
     at_sites sites (\<lambda>e st.
       rbind (target_point dbg data target_index ScalarTaylorPolynomial PointSample 0 e st)
         (for_upto (bd_sampling_multiplier data) (\<lambda>m. for_upto (bd_basis_multiplier data) (\<lambda>c.
            with_row data i m c e (\<lambda>row. target_store P row (c * target_NP) target_NP)))))"

text \<open>
  The components of a curl: input, output, place in the row and sign of an entry
  \<open>1 / epsilon\<close>.
\<close>

definition vector_curl :: "int \<Rightarrow> int \<Rightarrow> (int \<times> int \<times> int \<times> real) list" where
  "vector_curl dimension target_NP =
     (if dimension = 3 then
        [(1, 0, target_NP + 3, - 1), (2, 0, 2 * target_NP + 2, 1), (0, 1, 3, 1),
         (2, 1, 2 * target_NP + 1, - 1), (0, 2, 2, - 1), (1, 2, target_NP + 1, 1)]
      else if dimension = 2 then [(1, 0, target_NP + 2, 1), (0, 1, 1, - 1)]
      else [])"

definition VectorTaylor_target ::
  "bool \<Rightarrow> basis_data \<Rightarrow> int \<Rightarrow> int \<Rightarrow> int \<Rightarrow> int \<Rightarrow> matrix_view \<Rightarrow> TargetOperation
     \<Rightarrow> scratch \<Rightarrow> (bool \<times> scratch) result" where
  "VectorTaylor_target dbg data target_index i sites target_NP P op st =
     (let staggered = sf_eq (bd_polynomial_sampling_functional data) StaggeredEdgeIntegralSample;
          gradient = target_gradient dbg data target_index ScalarTaylorPolynomial PointSample 0
      in if is_scalar_point data op then scalar_point_target dbg data target_index i sites target_NP P st
         else if op = VectorPointEvaluation \<or> op = GradientOfScalarPointEvaluation \<and> staggered then
           vector_point_target dbg data target_index i sites target_NP P st
         else if op = GradientOfScalarPointEvaluation then
           at_sites sites (\<lambda>e. for_upto (bd_basis_multiplier data) (\<lambda>m2.
             with_row data i 0 m2 e (\<lambda>row st. rbind (gradient m2 e st) (target_store P row 0 target_NP)))) st
         else if op = GradientOfVectorPointEvaluation then
           at_sites sites (\<lambda>e. for_upto (bd_sampling_multiplier data) (\<lambda>m0.
             for_upto (bd_basis_multiplier data) (\<lambda>m1. for_upto (bd_basis_multiplier data) (\<lambda>m2.
             with_row data i m0 (m1 * bd_basis_multiplier data + m2) e (\<lambda>row st.
               rbind (gradient m2 e st) (target_store P row (m1 * target_NP) target_NP)))))) st
         else if op = DivergenceOfVectorPointEvaluation then
           (if staggered then
              at_target (with_row data i 0 0 0 (\<lambda>row st.
                rbind (epsilon_power data target_index (- 1)) (\<lambda>v.
                  target_writes P row
                    (if bd_dimensions data = 3 then [1, target_NP + 2, 2 * target_NP + 3]
                     else if bd_dimensions data = 2 then [1, target_NP + 2] else [1]) v st))) st
            else
              at_sites sites (\<lambda>e. for_upto (bd_sampling_multiplier data) (\<lambda>m st.
                rbind (gradient m e st) (with_row data i m 0 e (\<lambda>row.
                  target_store P row (m * target_NP) target_NP)))) st)
         else if op = CurlOfVectorPointEvaluation then
           at_target (rfold (\<lambda>(inp, out, k, sign). with_row data i inp out 0 (\<lambda>row st.
             rbind (epsilon_power data target_index (- 1)) (\<lambda>v. target_write P row k (sign * v) st)))
             (vector_curl (bd_dimensions data) target_NP)) st
         else not_available)"

section \<open>Space of scalar clones\<close>

text \<open>Every row of a curl is cleared; the ones with a contribution get their entry.\<close>

definition clones_curl :: "int \<Rightarrow> (int \<times> int \<times> (int \<times> real) option) list" where
  "clones_curl dimension =
     (if dimension = 3 then
        [(0, 0, None), (1, 0, Some (3, - 1)), (2, 0, Some (2, 1)),
         (0, 1, Some (3, 1)), (1, 1, None), (2, 1, Some (1, - 1)),
         (0, 2, Some (2, - 1)), (1, 2, Some (1, 1)), (2, 2, None)]
      else if dimension = 2 then
        [(0, 0, None), (1, 0, Some (2, 1)), (0, 1, Some (1, - 1)), (1, 1, None)]
      else [])"

definition cleared_row ::
  "basis_data \<Rightarrow> int \<Rightarrow> int \<Rightarrow> int \<Rightarrow> matrix_view \<Rightarrow> int \<Rightarrow> int \<Rightarrow> (int \<times> real) option
     \<Rightarrow> scratch \<Rightarrow> scratch result" where
  "cleared_row data target_index i target_NP P inp out entry =
     with_row data i inp out 0 (\<lambda>row st.
       rbind (target_zero P row target_NP st) (\<lambda>st.
       case entry of
         None \<Rightarrow> Inr st
       | Some (k, sign) \<Rightarrow> rbind (epsilon_power data target_index (- 1)) (\<lambda>v.
           target_write P row k (sign * v) st)))"

definition ScalarClones_target ::
  "bool \<Rightarrow> basis_data \<Rightarrow> int \<Rightarrow> int \<Rightarrow> int \<Rightarrow> int \<Rightarrow> matrix_view \<Rightarrow> TargetOperation
     \<Rightarrow> scratch \<Rightarrow> (bool \<times> scratch) result" where
  "ScalarClones_target dbg data target_index i sites target_NP P op st =
     (let dimensions = bd_dimensions data
      in if is_scalar_point data op then scalar_point_target dbg data target_index i sites target_NP P st
         else if op = VectorPointEvaluation then
           at_sites sites (\<lambda>e st.
             rbind (target_point dbg data target_index ScalarTaylorPolynomial PointSample 0 e st) (\<lambda>st.
             for_upto (bd_sampling_multiplier data) (\<lambda>m st.
               case bd_data_sampling_multiplier data of
                 None \<Rightarrow> Inl Indeterminate_value
               | Some n \<Rightarrow> for_upto n (\<lambda>c. with_row data i c c e (\<lambda>row. target_store P row 0 target_NP)) st) st)) st
         else if op = LaplacianOfScalarPointEvaluation then laplacian_target data target_index i P st
         else if op = GradientOfScalarPointEvaluation then gradient_target dbg data target_index i sites P st
         else if op = GradientOfVectorPointEvaluation then
           at_sites sites (\<lambda>e. for_upto dimensions (\<lambda>m0. for_upto dimensions (\<lambda>m1. for_upto dimensions (\<lambda>m2.
             with_row data i m0 (m1 * dimensions + m2) e (\<lambda>row.
               target_gradient_row dbg data target_index P row m2 e))))) st
         else if op = PartialXOfScalarPointEvaluation then partial_target dbg data target_index i sites P 0 st
         else if op = PartialYOfScalarPointEvaluation then
           (if dimensions > 1 then partial_target dbg data target_index i sites P 1 st else Inr (False, st))
         else if op = PartialZOfScalarPointEvaluation then
           (if dimensions > 2 then partial_target dbg data target_index i sites P 2 st else Inr (False, st))
         else if op = DivergenceOfVectorPointEvaluation then
           at_target (\<lambda>st.
             rbind (cleared_row data target_index i target_NP P 0 0 (Some (1, 1)) st) (\<lambda>st.
             rbind (if dimensions > 1 then cleared_row data target_index i target_NP P 1 0 (Some (2, 1)) st
                    else Inr st) (\<lambda>st.
             if dimensions > 2 then cleared_row data target_index i target_NP P 2 0 (Some (3, 1)) st
             else Inr st))) st
         else if op = CurlOfVectorPointEvaluation then
           at_target (rfold (\<lambda>(inp, out, entry). cleared_row data target_index i target_NP P inp out entry)
             (clones_curl dimensions)) st
         else not_available)"

section \<open>Divergence-free space\<close>

text \<open>The terms of a component of the curl and of the curl of the curl: sign, component and directions.\<close>

definition curl_terms :: "int \<Rightarrow> (real \<times> int \<times> int) list" where
  "curl_terms m1 =
     (if m1 = 0 then [(1, 2, 1), (- 1, 1, 2)]
      else if m1 = 1 then [(- 1, 2, 0), (1, 0, 2)]
      else [(1, 1, 0), (- 1, 0, 1)])"

definition curl_curl_terms_3d :: "int \<Rightarrow> (real \<times> int \<times> int \<times> int) list" where
  "curl_curl_terms_3d m1 =
     (if m1 = 0 then [(1, 1, 0, 1), (- 1, 0, 1, 1), (1, 2, 0, 2), (- 1, 0, 2, 2)]
      else if m1 = 1 then [(- 1, 1, 0, 0), (1, 0, 1, 0), (1, 2, 1, 2), (- 1, 1, 2, 2)]
      else [(- 1, 2, 0, 0), (1, 0, 2, 0), (- 1, 2, 1, 1), (1, 1, 2, 1)])"

definition curl_curl_terms_2d :: "int \<Rightarrow> (real \<times> int \<times> int \<times> int) list" where
  "curl_curl_terms_2d m1 =
     (if m1 = 0 then [(1, 0, 0, 0), (1, 1, 1, 0), (- 1, 0, 0, 0), (- 1, 0, 1, 1)]
      else if m1 = 1 then [(1, 0, 0, 1), (1, 1, 1, 1), (- 1, 1, 0, 0), (- 1, 1, 1, 1)]
      else [])"

text \<open>An operation without a branch is not rejected here.\<close>

definition DivergenceFree_target ::
  "bool \<Rightarrow> basis_data \<Rightarrow> int \<Rightarrow> int \<Rightarrow> int \<Rightarrow> int \<Rightarrow> matrix_view \<Rightarrow> TargetOperation
     \<Rightarrow> scratch \<Rightarrow> (bool \<times> scratch) result" where
  "DivergenceFree_target dbg data target_index i sites target_NP P op st =
     (let sm = bd_sampling_multiplier data;
          point = target_point dbg data target_index DivergenceFreeVectorTaylorPolynomial VectorPointSample;
          gradient = target_gradient dbg data target_index DivergenceFreeVectorTaylorPolynomial VectorPointSample;
          hessian = target_hessian dbg data target_index DivergenceFreeVectorTaylorPolynomial VectorPointSample;
          curl = (\<lambda>e row. target_signed_sum (\<lambda>(c, d). gradient c d e) P row target_NP True);
          curl_curl = (\<lambda>e row. target_signed_sum (\<lambda>(c, d1, d2). hessian c d1 d2 e) P row target_NP True)
      in if op = VectorPointEvaluation then
           at_sites sites (\<lambda>e. for_upto sm (\<lambda>m0. for_upto sm (\<lambda>m1 st.
             rbind (point m1 e st) (with_row data i m0 m1 e (\<lambda>row. target_store P row 0 target_NP))))) st
         else if op = CurlOfVectorPointEvaluation then
           at_sites sites (\<lambda>e. for_upto sm (\<lambda>m0. for_upto sm (\<lambda>m1. with_row data i m0 m1 e (\<lambda>row st.
             if bd_dimensions data = 3 then curl e row (curl_terms m1) st
             else if m1 = 0 then
               rbind (epsilon_power data target_index (- 1)) (\<lambda>v.
               rbind (target_write P row 2 (- v) st) (\<lambda>st.
               rbind (target_write P row 3 v st)
               (curl e row (curl_terms 2))))
             else Inr st)))) st
         else if op = CurlCurlOfVectorPointEvaluation then
           at_sites sites (\<lambda>e. for_upto sm (\<lambda>m0. for_upto sm (\<lambda>m1. with_row data i m0 m1 e (\<lambda>row st.
             if bd_dimensions data = 3 then curl_curl e row (curl_curl_terms_3d m1) st
             else if bd_dimensions data = 2 then curl_curl e row (curl_curl_terms_2d m1) st
             else Inr st)))) st
         else if op = GradientOfVectorPointEvaluation then
           at_sites sites (\<lambda>e. for_upto sm (\<lambda>m0. for_upto sm (\<lambda>m1. for_upto sm (\<lambda>m2.
             with_row data i m0 (m1 * sm + m2) e (\<lambda>row st.
               rbind (gradient m1 m2 e st) (target_store P row 0 target_NP)))))) st
         else Inr (False, st))"

section \<open>All operations of a target\<close>

definition zero_tile :: "matrix_view \<Rightarrow> real list \<Rightarrow> real list result" where
  "zero_tile P = rfold (\<lambda>j. rfold (\<lambda>k Z. matrix_write Z P (int j) (int k) 0) [0..<nat (mv_cols P)])
     [0..<nat (mv_rows P)]"

text \<open>The check of the scalar clones, which only a debug build makes.\<close>

definition check_clones :: "bool \<Rightarrow> basis_data \<Rightarrow> unit result" where
  "check_clones dbg data =
     (if dbg \<and> bd_dimensions data > 1
          \<and> bd_reconstruction_space data = VectorOfScalarClonesTaylorPolynomial then
        (case bd_data_sampling_multiplier data of
           None \<Rightarrow> Inl Indeterminate_value
         | Some n \<Rightarrow> compadre_kernel_assert_debug dbg
             ''data._reconstruction_space(VectorOfScalar clones incompatible with scalar output sampling functional which is not a PointSample''
             (n \<noteq> 0 \<or> sf_eq (bd_polynomial_sampling_functional data) PointSample))
      else Inr ())"

definition space_target ::
  "bool \<Rightarrow> basis_data \<Rightarrow> int \<Rightarrow> int \<Rightarrow> int \<Rightarrow> int \<Rightarrow> matrix_view \<Rightarrow> TargetOperation
     \<Rightarrow> scratch \<Rightarrow> (bool \<times> scratch) result" where
  "space_target dbg data target_index i sites target_NP P op st =
     (case bd_reconstruction_space data of
        ScalarTaylorPolynomial \<Rightarrow> ScalarTaylor_target dbg data target_index i sites target_NP P op st
      | VectorTaylorPolynomial \<Rightarrow> VectorTaylor_target dbg data target_index i sites target_NP P op st
      | VectorOfScalarClonesTaylorPolynomial \<Rightarrow>
          ScalarClones_target dbg data target_index i sites target_NP P op st
      | DivergenceFreeVectorTaylorPolynomial \<Rightarrow>
          DivergenceFree_target dbg data target_index i sites target_NP P op st)"

definition computeTargetFunctionals ::
  "bool \<Rightarrow> basis_data \<Rightarrow> int \<Rightarrow> matrix_view \<Rightarrow> scratch \<Rightarrow> scratch result" where
  "computeTargetFunctionals dbg data league_rank P = (\<lambda>(delta, thread_workspace, Z).
     rbind (check_clones dbg data) (\<lambda>_.
     let additional_evaluation_sites_need_handled = length (pc_source_coordinates (bd_additional_pc data)) > 0;
         target_index = bd_initial_index_for_batch data + league_rank
     in rbind (zero_tile P Z) (\<lambda>Z.
     let st = (map (\<lambda>_. 0) delta, map (\<lambda>_. 0) thread_workspace, Z);
         target_NP = getNP (bd_poly_order data) (bd_dimensions data) (bd_reconstruction_space data)
     in rbind (getNumberOfNeighborsDevice (pc_nla (bd_additional_pc data)) target_index) (\<lambda>additional.
        rfold (\<lambda>i st.
          rbind (space_target dbg data target_index (int i) (additional + 1) target_NP P
                   (bd_operations data ! i) st) (\<lambda>(additional_evaluation_sites_handled, st).
          rbind (compadre_kernel_assert_release
                   ''Auxiliary evaluation coordinates are specified by user, but are calling a target operation that can not handle evaluating additional sites.''
                   (additional_evaluation_sites_need_handled \<longrightarrow> additional_evaluation_sites_handled)) (\<lambda>_.
          Inr st))) [0..<length (bd_operations data)] st))))"

section \<open>Curvature\<close>

definition computeCurvatureFunctionals ::
  "bool \<Rightarrow> basis_data \<Rightarrow> int \<Rightarrow> matrix_view \<Rightarrow> real list list option \<Rightarrow> int \<Rightarrow> scratch \<Rightarrow> scratch result" where
  "computeCurvatureFunctionals dbg data league_rank P V local_neighbor_index = (\<lambda>(delta, thread_workspace, Z).
     rbind (compadre_kernel_assert_release ''Workspace thread_workspace not large enough.''
              (int (length thread_workspace) \<ge> (bd_curvature_poly_order data + 1) * bd_local_dimensions data)) (\<lambda>_.
     let target_index = bd_initial_index_for_batch data + league_rank;
         order = nat (bd_curvature_poly_order data);
         manifold_NP = getNP (bd_curvature_poly_order data) (bd_dimensions data - 1) ScalarTaylorPolynomial;
         gradient = (\<lambda>d (delta, workspace, Z).
           rbind (calcGradientPij dbg data delta workspace target_index local_neighbor_index 0 d
                    (bd_dimensions data - 1) order False V ScalarTaylorPolynomial PointSample 0)
             (\<lambda>(delta, workspace). Inr (delta, workspace, Z)))
     in rbind (zero_tile P Z) (\<lambda>Z.
        rfold (\<lambda>i. let op = bd_curvature_support_operations data ! i
          in if op = ScalarPointEvaluation then
               with_row data (int i) 0 0 0 (\<lambda>row (delta, workspace, Z).
                 rbind (calcPij dbg data delta workspace target_index local_neighbor_index 0
                          (bd_dimensions data - 1) order False V ScalarTaylorPolynomial PointSample 0)
                   (\<lambda>(delta, workspace).
                 target_store P row 0 manifold_NP (delta, workspace, Z)))
             else if op = GradientOfScalarPointEvaluation then
               (\<lambda>st. rbind (with_row data (int i) 0 0 0 (\<lambda>row st.
                  rbind (gradient 0 st) (target_store P row 0 manifold_NP)) st) (\<lambda>st.
                if bd_dimensions data > 2 then
                  with_row data (int i) 0 1 0 (\<lambda>row st.
                    rbind (gradient 1 st) (target_store P row 0 manifold_NP)) st
                else Inr st))
             else (\<lambda>st. rbind not_available (\<lambda>(handled, st). Inr st)))
          [0..<length (bd_curvature_support_operations data)]
          (map (\<lambda>_. 0) delta, map (\<lambda>_. 0) thread_workspace, Z))))"

end
