(* ===== verification/Compadre_BasisSamples.thy ===== *)
theory Compadre_BasisSamples
  imports Compadre_Basis Compadre_QuadratureRules
begin

text \<open>
  What the samples of Compadre_Basis.hpp are: the point sample evaluates the basis at the
  neighbor as seen from the target, the two staggered samples agree on gradients, the
  average over a cell preserves constants, and the combinations that the code does not
  define abort.
\<close>

section \<open>The place of the evaluation\<close>

text \<open>The components of a vector in the frame, zero beyond the dimension.\<close>

definition local_vector :: "nat \<Rightarrow> nat \<Rightarrow> real list list option \<Rightarrow> XYZ \<Rightarrow> XYZ" where
  "local_vector d nd V p = XYZ_make (frame_component d V 0 p)
     (if 1 < nd then frame_component d V 1 p else 0) (if 2 < nd then frame_component d V 2 p else 0)"

definition neighbor_difference :: "point_connections \<Rightarrow> nat \<Rightarrow> nat \<Rightarrow> XYZ" where
  "neighbor_difference pc i j = XYZ_sub (row_point (pc_source_coordinates pc ! neighbor_of pc i j))
     (row_point (pc_target_coordinates pc ! i))"

text \<open>The neighbor as seen from the target.\<close>

definition neighbor_offset :: "nat \<Rightarrow> nat \<Rightarrow> basis_data \<Rightarrow> nat \<Rightarrow> nat \<Rightarrow> real list list option \<Rightarrow> XYZ" where
  "neighbor_offset d nd data i j V = local_vector d nd V (neighbor_difference (bd_pc data) i j)"

text \<open>
  Data that fit together: \<open>d\<close> is the number of coordinates of a point, \<open>nd\<close> the dimension
  of the basis, and the frame, if any, is a square matrix.
\<close>

definition basis_ready :: "nat \<Rightarrow> nat \<Rightarrow> basis_data \<Rightarrow> real list list option \<Rightarrow> bool" where
  "basis_ready d nd data V \<longleftrightarrow> pc_valid d (bd_pc data) \<and> 0 < nd \<and> nd \<le> d \<and> d \<le> 3
     \<and> length (bd_epsilons data) = nl_rows (pc_nla (bd_pc data))
     \<and> (\<forall>V'. V = Some V' \<longrightarrow> is_frame d V')"

lemma split_neighbor_eq:
  assumes "nl_wf (pc_nla (bd_pc data))" "i < nl_rows (pc_nla (bd_pc data))"
    and "j < nl_count (pc_nla (bd_pc data)) i"
  shows "split_neighbor data (int i) (int j + int d * int (nl_count (pc_nla (bd_pc data)) i))
    = Inr (int d, int j)"
proof -
  define n where "n = nl_count (pc_nla (bd_pc data)) i"
  have j: "j < n" using assms(3) by (simp add: n_def)
  show ?thesis
  proof (cases "d = 0")
    case True
    then show ?thesis using nl_count_device [OF assms(1,2)] j by (simp add: split_neighbor_def n_def [symmetric])
  next
    case False
    then have "n \<le> j + d * n" by (cases d) simp_all
    moreover have "int j + int d * int n = int (j + d * n)" by simp
    moreover have "int (j + d * n) sdiv int n = int d" "int (j + d * n) smod int n = int j"
      using j by (simp_all add: signed_divide_int_def signed_modulo_int_def sgn_if flip: of_nat_mult of_nat_add zdiv_int zmod_int)
    ultimately show ?thesis
      using nl_count_device [OF assms(1,2)] j
      by (simp add: split_neighbor_def n_def [symmetric] del: of_nat_add of_nat_mult)
  qed
qed

lemma split_site:
  assumes "nl_wf (pc_nla (bd_pc data))" "i < nl_rows (pc_nla (bd_pc data))"
  shows "split_neighbor data (int i) (- int d - 1) = Inr (int d, - int d - 1)"
  using nl_count_device [OF assms] by (simp add: split_neighbor_def)

lemma xyz_loop:
  assumes "nd \<le> 3" "\<And>k c. k < nd \<Longrightarrow> g k c = Inr (XYZ_index_set c (int k) (v k))"
  shows "rfold g [0..<nd] (XYZ_make 0 0 0)
    = Inr (XYZ_make (if 0 < nd then v 0 else 0) (if 1 < nd then v 1 else 0) (if 2 < nd then v 2 else 0))"
proof -
  consider "nd = 0" | "nd = 1" | "nd = 2" | "nd = 3" using assms(1) by linarith
  then show ?thesis
    by cases (simp_all add: assms(2) upt_rec XYZ_defs numeral_2_eq_2 [symmetric])
qed

lemma index_set_set: "XYZ_index_set (XYZ_index_set c k a) k (XYZ_index (XYZ_index_set c k a) k + b)
    = XYZ_index_set c k (a + b)"
  "XYZ_index_set (XYZ_index_set c k a) k (XYZ_index (XYZ_index_set c k a) k - b)
    = XYZ_index_set c k (a - b)"
  by (simp_all add: XYZ_defs)

lemma relative_coord_neighbor:
  assumes "basis_ready d nd data V" "i < nl_rows (pc_nla (bd_pc data))"
    and "j < nl_count (pc_nla (bd_pc data)) i"
  shows "relative_coord dbg data (int i) (int j) alpha (int nd) V site
    = Inr (XYZ_const_scale (1 - alpha) (neighbor_offset d nd data i j V))"
proof -
  note r = assms(1) [unfolded basis_ready_def]
  define t where "t k = frame_component d V k (row_point (pc_target_coordinates (bd_pc data) ! i))" for k
  define n where "n k = frame_component d V k
      (row_point (pc_source_coordinates (bd_pc data) ! neighbor_of (bd_pc data) i j))" for k
  have coords: "getTargetCoordinate dbg (bd_pc data) (int i) (int k) V = Inr (t k)"
      "getNeighborCoordinate dbg (bd_pc data) (int i) (int j) (int k) V = Inr (n k)" if "k < nd" for k
    using target_coordinate_eq [of d "bd_pc data" i k V dbg] neighbor_coordinate_eq [of d "bd_pc data" i j k V dbg]
      r assms(2,3) that by (simp_all add: t_def n_def)
  have diff: "n k - t k = frame_component d V k (neighbor_difference (bd_pc data) i j)" for k
    by (simp add: n_def t_def neighbor_difference_def frame_component_sub)
  have "(alpha - 1) * t k + (1 - alpha) * n k
      = (1 - alpha) * frame_component d V k (neighbor_difference (bd_pc data) i j)" for k
    by (simp add: algebra_simps flip: diff)
  then show ?thesis
    using r by (simp add: relative_coord_def coords Let_def index_set_set
        xyz_loop [where v = "\<lambda>k. (1 - alpha) * frame_component d V k (neighbor_difference (bd_pc data) i j)"])
      (simp add: neighbor_offset_def local_vector_def XYZ_const_scale_def XYZ_make_def XYZ_scale_def XYZ_mult_def)
qed

section \<open>Rows of the scalar basis\<close>

definition coords :: "XYZ \<Rightarrow> real list" where
  "coords p = [x_coord p, y_coord p, z_coord p]"

definition scalar_size :: "nat \<Rightarrow> nat \<Rightarrow> nat" where
  "scalar_size nd m = nat (ScalarTaylor_getSize (int m) (int nd))"

text \<open>Buffers that are large enough for a basis of degree \<open>m\<close> with \<open>blocks\<close> blocks.\<close>

definition buffers_fit :: "nat \<Rightarrow> nat \<Rightarrow> nat \<Rightarrow> real list \<Rightarrow> real list \<Rightarrow> bool" where
  "buffers_fit nd m blocks delta workspace \<longleftrightarrow>
     blocks * scalar_size nd m \<le> length delta \<and> nd * (m + 1) \<le> length workspace"

lemma scalar_size_indices: "nd \<in> {1, 2, 3} \<Longrightarrow> scalar_size nd m = length (multi_indices nd 0 m)"
  using length_multi_indices [of nd m] by (simp add: scalar_size_def)

lemma length_scalar_row:
  "nd \<in> {1, 2, 3} \<Longrightarrow> m \<le> 14 \<Longrightarrow> length ps = 3 \<Longrightarrow> length (scalar_row nd m h ps) = scalar_size nd m"
  using scalar_rows(1) [of nd m 0 0 ps h] by (auto simp: scalar_size_indices)

lemma scalar_fill:
  assumes "nd \<in> {1, 2, 3}" "m \<le> 14" "buffers_fit nd m 1 delta workspace"
  shows "\<exists>ws. ScalarTaylor_evaluate delta workspace (int nd) m h (x_coord p) (y_coord p) (z_coord p) 0 w0 w1
    = Inr (overlay w0 0 (map (\<lambda>v. w1 * v) (scalar_row nd m h (coords p))) delta, ws)
    \<and> length ws = length workspace"
proof -
  have "scalar_row nd m h (coords p) = map (taylor [x_coord p / h, y_coord p / h, z_coord p / h]) (multi_indices nd 0 m)"
    using scalar_rows(1) [of nd m 0 0 "coords p" h] assms(1,2) by (auto simp: coords_def)
  then show ?thesis
    using evaluate_closed [OF assms(1,2), of 0 workspace delta h "x_coord p" "y_coord p" "z_coord p" w0 w1] assms
    by (auto simp: buffers_fit_def scalar_size_indices comp_def)
qed

lemma partial_fill:
  assumes "nd \<in> {1, 2, 3}" "m \<le> 14" "dir < nd" "buffers_fit nd m 1 delta workspace"
  shows "\<exists>ws. ScalarTaylor_evaluatePartialDerivative delta workspace (int nd) m (int dir) h
      (x_coord p) (y_coord p) (z_coord p) 0 0 1
    = Inr (overlay 0 0 (scalar_partial_row nd m dir h (coords p)) delta, ws) \<and> length ws = length workspace"
proof -
  have "scalar_partial_row nd m dir h (coords p) =
      map (\<lambda>vp. 1 / h * taylor [x_coord p / h, y_coord p / h, z_coord p / h] (vp[dir := vp ! dir - 1])) (multi_indices nd 0 m)"
    using scalar_rows(2) [of nd m dir dir "coords p" h] assms(1,2,3) by (auto simp: coords_def)
  then show ?thesis
    using derivative_closed(1) [OF assms(1,2,3,3), of workspace 0 delta h "x_coord p" "y_coord p" "z_coord p" 0 1] assms
    by (auto simp: buffers_fit_def scalar_size_indices)
qed

lemma epsilon_read:
  "basis_ready d nd data V \<Longrightarrow> i < nl_rows (pc_nla (bd_pc data))
    \<Longrightarrow> view_read (bd_epsilons data) (int i) = Inr (bd_epsilons data ! i)"
  by (simp add: basis_ready_def)

lemma ready_wf: "basis_ready d nd data V \<Longrightarrow> nl_wf (pc_nla (bd_pc data))"
  by (simp add: basis_ready_def pc_valid_def)

lemma ready_dim: "basis_ready d nd data V \<Longrightarrow> nd \<in> {1, 2, 3}"
  unfolding basis_ready_def by auto

text \<open>The four point samples of a scalar basis evaluate it at the place, for every neighbor and site.\<close>

lemma point_sample_at:
  assumes "basis_ready d nd data V" "i < nl_rows (pc_nla (bd_pc data))" "m \<le> 14"
    and "traditional_sample sf" "scalar_space space" "buffers_fit nd m 1 delta workspace"
    and "split_neighbor data (int i) neighbor = Inr (c, k)"
    and "relative_coord dbg data (int i) k alpha (int nd) V site = Inr p"
  shows "\<exists>ws. calcPij dbg data delta workspace (int i) neighbor alpha (int nd) m False V space sf site
    = Inr (overlay 0 0 (scalar_row nd m (bd_epsilons data ! i) (coords p)) delta, ws)
    \<and> length ws = length workspace"
  using scalar_fill [OF ready_dim [OF assms(1)] assms(3,6), of "bd_epsilons data ! i" p 0 1] assms
  by (simp add: calcPij_def epsilon_read)

lemma gradient_at:
  assumes "basis_ready d nd data V" "i < nl_rows (pc_nla (bd_pc data))" "m \<le> 14" "dir < nd"
    and "traditional_sample sf" "scalar_space space" "buffers_fit nd m 1 delta workspace"
    and "split_neighbor data (int i) neighbor = Inr (c, k)"
    and "relative_coord dbg data (int i) k alpha (int nd) V site = Inr p"
  shows "\<exists>ws. calcGradientPij dbg data delta workspace (int i) neighbor alpha (int dir) (int nd) m False V space sf site
    = Inr (overlay 0 0 (scalar_partial_row nd m dir (bd_epsilons data ! i) (coords p)) delta, ws)
    \<and> length ws = length workspace"
  using partial_fill [OF ready_dim [OF assms(1)] assms(3,4,7), of "bd_epsilons data ! i" p] assms
  by (simp add: calcGradientPij_def epsilon_read)

text \<open>The staggered sample subtracts the value at the neighbor from the value at the target.\<close>

lemma overlay_map_minus:
  assumes "length vs = length us" "length us \<le> length delta"
  shows "overlay 1 0 vs (overlay 0 0 (map (\<lambda>v. - 1 * v) us) delta)
    = overlay 0 0 (map (\<lambda>(a, b). a - b) (zip vs us)) delta"
  using assms by (intro nth_equalityI) (auto simp: nth_overlay)

lemma staggered_analytic_at:
  assumes "basis_ready d nd data V" "i < nl_rows (pc_nla (bd_pc data))" "m \<le> 14"
    and "buffers_fit nd m 1 delta workspace"
    and "split_neighbor data (int i) neighbor = Inr (c, k)"
    and "relative_coord dbg data (int i) k alpha (int nd) V site = Inr p"
  shows "\<exists>ws. calcPij dbg data delta workspace (int i) neighbor alpha (int nd) m False V
      ScalarTaylorPolynomial StaggeredEdgeAnalyticGradientIntegralSample site
    = Inr (overlay 0 0 (map (\<lambda>(a, b). a - b)
        (zip (scalar_row nd m (bd_epsilons data ! i) [0, 0, 0])
             (scalar_row nd m (bd_epsilons data ! i) (coords p)))) delta, ws)
    \<and> length ws = length workspace"
proof -
  let ?h = "bd_epsilons data ! i"
  note nd = ready_dim [OF assms(1)]
  let ?us = "scalar_row nd m ?h (coords p)" and ?vs = "scalar_row nd m ?h [0, 0, 0]"
  have len: "length ?us = scalar_size nd m" "length ?vs = scalar_size nd m"
    using length_scalar_row [OF nd assms(3)] by (simp_all add: coords_def)
  obtain ws where ws: "ScalarTaylor_evaluate delta workspace (int nd) m ?h (x_coord p) (y_coord p) (z_coord p) 0 0 (- 1)
      = Inr (overlay 0 0 (map (\<lambda>v. - 1 * v) ?us) delta, ws)" "length ws = length workspace"
    using scalar_fill [OF nd assms(3,4)] by blast
  let ?d = "overlay 0 0 (map (\<lambda>v. - 1 * v) ?us) delta"
  have "buffers_fit nd m 1 ?d ws" using assms(4) ws(2) by (simp add: buffers_fit_def)
  then obtain ws' where ws': "ScalarTaylor_evaluate ?d ws (int nd) m ?h 0 0 0 0 1 1
      = Inr (overlay 1 0 ?vs ?d, ws')" "length ws' = length ws"
    using scalar_fill [OF nd assms(3), of ?d ws ?h "XYZ_make 0 0 0" 1 1]
    by (auto simp: XYZ_make_def coords_def)
  have "overlay 1 0 ?vs ?d = overlay 0 0 (map (\<lambda>(a, b). a - b) (zip ?vs ?us)) delta"
    using assms(4) by (intro overlay_map_minus) (simp_all add: len buffers_fit_def)
  moreover have "\<not> traditional_sample StaggeredEdgeAnalyticGradientIntegralSample"
    by (simp add: traditional_sample_def sf_eq_def sampling_functional_defs)
  ultimately show ?thesis
    using ws ws' assms by (simp add: calcPij_def StaggeredEdgeAnalytic_sample_def epsilon_read sf_eq_def)
qed

section \<open>Sums over quadrature points\<close>

text \<open>
  The first round overwrites and the later ones add: after all rounds an entry is the sum
  of what the rounds compute for it.
\<close>

lemma accumulate_is_store: "accumulate first v st = store (if first then 0 else 1) v st"
  by (cases st) (auto simp: accumulate_def store_def view_read_def view_write_def)

lemma overlay_add:
  assumes "length es \<le> length delta"
  shows "overlay 1 0 (map g es) (overlay 0 0 (map f es) delta) = overlay 0 0 (map (\<lambda>e. f e + g e) es) delta"
  using assms by (intro nth_equalityI) (auto simp: nth_overlay)

lemma accumulate_rounds:
  assumes entry: "\<And>q e. q < n \<Longrightarrow> e \<in> set es \<Longrightarrow> g q e = Inr (f q e)"
    and "length es \<le> length delta" "0 < n"
  shows "rfold (\<lambda>q delta. rbind (rfold (\<lambda>e st. rbind (g q e) (\<lambda>v. accumulate (q = 0) v st)) es (delta, 0))
        (\<lambda>(delta, i). Inr delta)) [0..<n] delta
    = Inr (overlay 0 0 (map (\<lambda>e. \<Sum>q<n. f q e) es) delta)"
proof -
  define round where "round = (\<lambda>q delta. rbind (rfold (\<lambda>e st. rbind (g q e) (\<lambda>v. accumulate (q = 0) v st)) es (delta, 0))
        (\<lambda>(delta, i). Inr delta))"
  have one: "round q d = Inr (overlay (if q = 0 then 0 else 1) 0 (map (f q) es) d)"
    if "q < n" "length d = length delta" for q d
  proof -
    have "rfold (\<lambda>e st. rbind (g q e) (\<lambda>v. accumulate (q = 0) v st)) es (d, int 0)
        = Inr (overlay (if q = 0 then 0 else 1) 0 (map (f q) es) d, int (0 + length es))"
      using store_loop [of es "g q" "f q" 0 d "if q = 0 then 0 else 1"] entry [OF that(1)] assms(2) that(2)
      by (simp add: accumulate_is_store add_entry_def [abs_def])
    then show ?thesis by (simp add: round_def)
  qed
  have "rfold round [0..<Suc k] delta = Inr (overlay 0 0 (map (\<lambda>e. \<Sum>q<Suc k. f q e) es) delta)" if "k < n" for k
    using that
  proof (induction k)
    case 0
    then show ?case using one [of 0 delta] by simp
  next
    case (Suc k)
    then have "rfold round [0..<Suc k] delta = Inr (overlay 0 0 (map (\<lambda>e. \<Sum>q<Suc k. f q e) es) delta)" by simp
    moreover have "[0..<Suc (Suc k)] = [0..<Suc k] @ [Suc k]" by simp
    ultimately show ?case
      using one [of "Suc k" "overlay 0 0 (map (\<lambda>e. \<Sum>q<Suc k. f q e) es) delta"] Suc.prems
        overlay_add [OF assms(2), of "f (Suc k)" "\<lambda>e. \<Sum>q<Suc k. f q e"]
      by (simp only: rfold_append rbind_Inr rfold.simps sum.lessThan_Suc [of _ "Suc k"]) simp
  qed
  from this [of "n - 1"] show ?thesis using assms(3) by (simp add: round_def)
qed

lemma for_exponents_loop:
  "for_exponents 2 0 m body s = rfold body (multi_indices 2 0 m) s"
  "for_exponents 3 0 m body s = rfold body (multi_indices 3 0 m) s"
  using idx_loops(2,3) [of body 0 m s]
  by (simp_all add: for_exponents_def multi_indices_def del: upt_Suc)

text \<open>The blocks of a vector basis: every component runs through the exponents.\<close>

definition blocks :: "nat \<Rightarrow> nat \<Rightarrow> nat \<Rightarrow> (nat \<times> int list) list" where
  "blocks b nd m = concat (map (\<lambda>j. map (Pair j) (multi_indices nd 0 m)) [0..<b])"

lemma blocks_loop:
  assumes "nd \<in> {2, 3}"
  shows "rfold (\<lambda>j. for_exponents (int nd) 0 m (\<lambda>vp. body (j, vp))) [0..<b] s = rfold body (blocks b nd m) s"
proof -
  have "for_exponents (int nd) 0 m (\<lambda>vp. body (j, vp)) = rfold (\<lambda>vp. body (j, vp)) (multi_indices nd 0 m)" for j
    using assms for_exponents_loop [where body = "\<lambda>vp. body (j, vp)"] by (auto simp: fun_eq_iff)
  then show ?thesis by (simp add: blocks_def rfold_concat rfold_map)
qed

lemma length_blocks: "length (blocks b nd m) = b * length (multi_indices nd 0 m)"
  by (simp add: blocks_def length_concat comp_def sum_list_triv)

lemma pow_product_ok:
  assumes "m \<le> 14" "length vp \<le> 3" "\<forall>a \<in> set vp. 0 \<le> a \<and> a \<le> int m"
  shows "pow_product c p h vp = Inr (c * taylor (map (\<lambda>x. x / h) (coords p)) vp)"
proof -
  have fs: "rmap (view_read factorial) vp = Inr (map (\<lambda>a. fact (nat a)) vp)"
    using assms(1,3) by (intro rmap_Inr factorial_read) force+
  have "map (\<lambda>a. fact (nat a)) vp = map (\<lambda>k. fact (nat (vp ! k)) :: real) [0..<length vp]"
    by (rule nth_equalityI) simp_all
  moreover have "taylor (map (\<lambda>x. x / h) (coords p)) vp
      = (\<Prod>k<length vp. (XYZ_index p (int k) / h) ^ nat (vp ! k) / fact (nat (vp ! k)))"
    unfolding taylor_def
  proof (rule prod.cong [OF refl])
    fix k assume "k \<in> {..<length vp}"
    then have k: "k < length vp" by simp
    have "map (\<lambda>x. x / h) (coords p) ! k = XYZ_index p (int k) / h"
    proof -
      consider "k = 0" | "k = 1" | "k = 2" using k assms(2) by linarith
      then show ?thesis by cases (simp_all add: coords_def XYZ_index_def)
    qed
    then show "tfac (map (\<lambda>x. x / h) (coords p) ! k) (vp ! k)
        = (XYZ_index p (int k) / h) ^ nat (vp ! k) / fact (nat (vp ! k))"
      using assms(3) nth_mem [OF k] by (simp add: tfac_def not_less)
  qed
  ultimately show ?thesis
    using fs by (simp add: pow_product_def foldl_times prod_list_upt prod_dividef)
qed

section \<open>The staggered integral\<close>

definition quadrature_ok :: "nat \<Rightarrow> quadrature \<Rightarrow> bool" where
  "quadrature_ok k q \<longleftrightarrow> q_number_of_quadrature_points q = int (length (q_quadrature_weights q))
     \<and> length (q_parameterized_quadrature_sites q) = length (q_quadrature_weights q)
     \<and> q_quadrature_weights q \<noteq> [] \<and> (\<forall>s \<in> set (q_parameterized_quadrature_sites q). length s = k)"

definition points_of :: "quadrature \<Rightarrow> nat" where
  "points_of q = length (q_quadrature_weights q)"

definition site_of :: "quadrature \<Rightarrow> nat \<Rightarrow> nat \<Rightarrow> real" where
  "site_of q k c = q_parameterized_quadrature_sites q ! k ! c"

definition weight_of :: "quadrature \<Rightarrow> nat \<Rightarrow> real" where
  "weight_of q k = q_quadrature_weights q ! k"

lemma quadrature_reads:
  assumes "quadrature_ok k q" "n < points_of q"
  shows "getWeight q (int n) = Inr (weight_of q n)"
    and "c < k \<Longrightarrow> getSite q (int n) (int c) = Inr (site_of q n c)"
  using assms by (auto simp: quadrature_ok_def points_of_def getWeight_def getSite_def weight_of_def
      site_of_def view_read2_nat)

lemma quadrature_points: "quadrature_ok k q \<Longrightarrow> getNumberOfQuadraturePoints q = int (points_of q) \<and> 0 < points_of q"
  by (simp add: quadrature_ok_def points_of_def getNumberOfQuadraturePoints_def)

lemma quadrature_sum_index:
  assumes "quadrature_ok k q"
  shows "quadrature_sum q f = (\<Sum>n<points_of q. weight_of q n * f (q_parameterized_quadrature_sites q ! n))"
  using assms by (simp add: quadrature_sum_def quadrature_ok_def points_of_def weight_of_def
      sum_list_sum_nth lessThan_atLeast0)

lemma xyz_pair_loop:
  assumes "nd \<le> 3"
    and "\<And>k c t. k < nd \<Longrightarrow> g k (c, t) = Inr (XYZ_index_set c (int k) (v k), XYZ_index_set t (int k) (u k))"
  shows "rfold g [0..<nd] (XYZ_make 0 0 0, XYZ_make 0 0 0)
    = Inr (XYZ_make (if 0 < nd then v 0 else 0) (if 1 < nd then v 1 else 0) (if 2 < nd then v 2 else 0),
           XYZ_make (if 0 < nd then u 0 else 0) (if 1 < nd then u 1 else 0) (if 2 < nd then u 2 else 0))"
proof -
  consider "nd = 0" | "nd = 1" | "nd = 2" | "nd = 3" using assms(1) by linarith
  then show ?thesis
    by cases (simp_all add: assms(2) upt_rec XYZ_defs numeral_2_eq_2 [symmetric])
qed

lemma edge_point_eq:
  assumes "basis_ready d nd data V" "i < nl_rows (pc_nla (bd_pc data))"
    and "j < nl_count (pc_nla (bd_pc data)) i" "quadrature_ok 1 (bd_qm data)" "q < points_of (bd_qm data)"
  shows "edge_point dbg data (int i) (int j) (int nd) (int q) V
    = Inr (XYZ_const_scale (1 - site_of (bd_qm data) q 0) (neighbor_offset d nd data i j V),
           XYZ_const_scale (- 1) (neighbor_offset d nd data i j V))"
proof -
  note r = assms(1) [unfolded basis_ready_def]
  define t where "t k = frame_component d V k (row_point (pc_target_coordinates (bd_pc data) ! i))" for k
  define n where "n k = frame_component d V k
      (row_point (pc_source_coordinates (bd_pc data) ! neighbor_of (bd_pc data) i j))" for k
  have coordinates: "getTargetCoordinate dbg (bd_pc data) (int i) (int k) V = Inr (t k)"
      "getNeighborCoordinate dbg (bd_pc data) (int i) (int j) (int k) V = Inr (n k)" if "k < nd" for k
    using target_coordinate_eq [of d "bd_pc data" i k V dbg] neighbor_coordinate_eq [of d "bd_pc data" i j k V dbg]
      r assms(2,3) that by (simp_all add: t_def n_def)
  define o' where "o' k = frame_component d V k (neighbor_difference (bd_pc data) i j)" for k
  define s where "s = site_of (bd_qm data) q 0"
  have diff: "o' k = n k - t k" for k
    by (simp add: o'_def n_def t_def neighbor_difference_def frame_component_sub)
  have site: "getSite (bd_qm data) (int q) 0 = Inr s"
    using quadrature_reads(2) [OF assms(4,5), of 0] by (simp add: s_def)
  have vals: "(s - 1) * t k + (1 - s) * n k = o' k * (1 - s)" "t k - n k = o' k * - 1" for k
    by (simp_all add: diff algebra_simps)
  show ?thesis
    unfolding edge_point_def nat_int
    using r by (subst xyz_pair_loop [where v = "\<lambda>k. o' k * (1 - s)" and u = "\<lambda>k. o' k * - 1"])
      (auto simp: coordinates site index_set_set vals Let_def s_def [symmetric] neighbor_offset_def
        local_vector_def o'_def [symmetric] XYZ_defs)
qed

lemma component_dot:
  assumes "nd \<in> {2, 3}" "j < nd" "surface \<longrightarrow> nd = 2"
  shows "x_coord t * x_coord (component_vector surface (int nd) j v)
    + y_coord t * y_coord (component_vector surface (int nd) j v)
    + (if int nd = 3 then z_coord t * z_coord (component_vector surface (int nd) j v) else 0)
    = XYZ_index t (int j) * v"
proof -
  consider "j = 0" | "j = 1" | "j = 2" using assms(1,2) by fastforce
  then show ?thesis
    using assms by cases (auto simp: component_vector_def XYZ_defs)
qed

text \<open>The frame is used on a manifold only.\<close>

definition edge_frame :: "basis_data \<Rightarrow> real list list option \<Rightarrow> real list list option" where
  "edge_frame data V = (if bd_problem_type data = MANIFOLD then V else None)"

definition edge_term :: "basis_data \<Rightarrow> nat \<Rightarrow> XYZ \<Rightarrow> nat \<times> int list \<Rightarrow> nat \<Rightarrow> real" where
  "edge_term data i off e q =
     XYZ_index (XYZ_const_scale (- 1) off) (int (fst e))
       * taylor (map (\<lambda>x. x / bd_epsilons data ! i)
           (coords (XYZ_const_scale (1 - site_of (bd_qm data) q 0) off))) (snd e)
       * weight_of (bd_qm data) q"

lemma ready_no_frame: "basis_ready d nd data V \<Longrightarrow> basis_ready d nd data (edge_frame data V)"
  by (simp add: basis_ready_def edge_frame_def)

lemma blocks_member:
  assumes "nd \<in> {2, 3}" "e \<in> set (blocks b nd m)"
  shows "fst e < b" "length (snd e) = nd" "\<forall>a \<in> set (snd e). 0 \<le> a \<and> a \<le> int m"
  using assms multi_indices_dim [of nd "snd e" 0 m] by (auto simp: blocks_def)

lemma staggered_integral_eq:
  assumes "basis_ready d nd data V" "i < nl_rows (pc_nla (bd_pc data))"
    and "j < nl_count (pc_nla (bd_pc data)) i" "nd \<in> {2, 3}" "m \<le> 14"
    and "bd_problem_type data = MANIFOLD \<longrightarrow> nd = 2" "bd_basis_multiplier data = int nd"
    and "quadrature_ok 1 (bd_qm data)" "nd * scalar_size nd m \<le> length delta"
  shows "StaggeredEdgeIntegral_sample dbg data delta (int i) (int j) (int nd) m 0 V
    = Inr (overlay 0 0 (map (\<lambda>e. \<Sum>q<points_of (bd_qm data).
        edge_term data i (neighbor_offset d nd data i j (edge_frame data V)) e q) (blocks nd nd m)) delta)"
proof -
  let ?off = "neighbor_offset d nd data i j (edge_frame data V)"
  let ?h = "bd_epsilons data ! i"
  let ?man = "bd_problem_type data = MANIFOLD"
  define g where "g q = (\<lambda>(j, alphas). rbind (pow_product 1 (XYZ_const_scale (1 - site_of (bd_qm data) q 0) ?off) ?h alphas) (\<lambda>p.
      rbind (getWeight (bd_qm data) (int q)) (\<lambda>weight.
        let v = component_vector ?man (int nd) j p; t = XYZ_const_scale (- 1) ?off
        in Inr ((x_coord t * x_coord v + y_coord t * y_coord v + (if int nd = 3 then z_coord t * z_coord v else 0)) * weight))))" for q
  have entry: "g q e = Inr (edge_term data i ?off e q)"
    if "q < points_of (bd_qm data)" "e \<in> set (blocks nd nd m)" for q e
    using blocks_member [OF assms(4) that(2)] assms(4-6) pow_product_ok [OF assms(5)]
      component_dot [OF assms(4)] quadrature_reads(1) [OF assms(8) that(1)]
    by (auto simp: g_def edge_term_def case_prod_unfold Let_def)
  have len: "length (blocks nd nd m) \<le> length delta"
    using assms(4,9) by (simp add: length_blocks scalar_size_indices)
  define round where "round q delta = rbind (rfold (\<lambda>e st. rbind (g q e) (\<lambda>v. accumulate (q = 0) v st)) (blocks nd nd m) (delta, 0))
      (\<lambda>(delta, i). Inr delta)" for q delta
  have loops: "(if ?man then 2 else int nd) = int nd" using assms(6) by simp
  have body: "rfold (\<lambda>j. for_exponents (int nd) 0 m (\<lambda>alphas st.
        rbind (pow_product 1 (XYZ_const_scale (1 - site_of (bd_qm data) q 0) ?off) ?h alphas) (\<lambda>p.
        rbind (getWeight (bd_qm data) (int q)) (\<lambda>weight.
        let v = component_vector ?man (int nd) j p;
            dot_product = x_coord (XYZ_const_scale (- 1) ?off) * x_coord v + y_coord (XYZ_const_scale (- 1) ?off) * y_coord v
              + (if int nd = 3 then z_coord (XYZ_const_scale (- 1) ?off) * z_coord v else 0)
        in accumulate (q = 0) (dot_product * weight) st)))) [0..<nd] st
    = rfold (\<lambda>e st. rbind (g q e) (\<lambda>v. accumulate (q = 0) v st)) (blocks nd nd m) st" for q st
    using blocks_loop [OF assms(4), where body = "\<lambda>e st. rbind (g q e) (\<lambda>v. accumulate (q = 0) v st)" and b = nd and m = m]
    by (simp add: g_def rbind_assoc Let_def)
  have "StaggeredEdgeIntegral_sample dbg data delta (int i) (int j) (int nd) m 0 V
      = rfold round [0..<points_of (bd_qm data)] delta"
    unfolding StaggeredEdgeIntegral_sample_def Let_def edge_frame_def [symmetric] loops
      epsilon_read [OF assms(1,2)] rbind_Inr assms(7) nat_int
      quadrature_points [OF assms(8), THEN conjunct1]
  proof (rule rfold_cong)
    fix q s assume "q \<in> set [0..<points_of (bd_qm data)]"
    then have "q < points_of (bd_qm data)" by simp
    then show "rbind (edge_point dbg data (int i) (int j) (int nd) (int q) (edge_frame data V))
        (\<lambda>(quadrature_coord, tangent).
           rbind (rfold (\<lambda>j. for_exponents (int nd) 0 m (\<lambda>alphas st.
               rbind (pow_product 1 quadrature_coord ?h alphas) (\<lambda>p.
               rbind (getWeight (bd_qm data) (int q)) (\<lambda>weight.
               accumulate (q = 0) ((x_coord tangent * x_coord (component_vector ?man (int nd) j p)
                 + y_coord tangent * y_coord (component_vector ?man (int nd) j p)
                 + (if int nd = 3 then z_coord tangent * z_coord (component_vector ?man (int nd) j p) else 0)) * weight) st))))
             [0..<nd] (s, 0)) (\<lambda>(delta, i). Inr delta)) = round q s"
      by (simp only: edge_point_eq [OF ready_no_frame [OF assms(1)] assms(2,3,8)] rbind_Inr prod.case
          body [unfolded Let_def] round_def)
  qed
  also have "\<dots> = Inr (overlay 0 0 (map (\<lambda>e. \<Sum>q<points_of (bd_qm data). edge_term data i ?off e q) (blocks nd nd m)) delta)"
    unfolding round_def using quadrature_points [OF assms(8)] by (intro accumulate_rounds entry len) auto
  finally show ?thesis .
qed

section \<open>Exact integrals along an edge\<close>

lemma binomial_reciprocal: "(\<Sum>i\<le>k. of_nat (k choose i) * (- 1) ^ i / (real i + 1)) = 1 / (real k + 1)"
proof -
  have binom: "of_nat (k choose i) * (- 1) ^ i / (real i + 1)
      = - ((- 1) ^ Suc i * of_nat (Suc k choose Suc i)) / (real k + 1)" for i
  proof -
    have "real (Suc k * (k choose i)) = real ((Suc k choose Suc i) * Suc i)"
      by (simp only: Suc_times_binomial_eq)
    then have "(real k + 1) * real (k choose i) = real (Suc k choose Suc i) * (real i + 1)"
      by (simp only: of_nat_mult of_nat_Suc add.commute)
    then show ?thesis by (simp add: divide_simps mult.commute del: binomial_Suc_Suc)
  qed
  have "(\<Sum>i\<le>Suc k. (- 1) ^ i * of_nat (Suc k choose i)) = (0 :: real)"
    by (rule choose_alternating_sum) simp
  then have "1 + (\<Sum>i\<le>k. (- 1) ^ Suc i * of_nat (Suc k choose Suc i)) = (0 :: real)"
    by (simp only: sum.atMost_Suc_shift power_0 binomial_n_0 of_nat_1 mult_1_left)
  then have "(\<Sum>i\<le>k. (- 1) ^ Suc i * of_nat (Suc k choose Suc i)) = (- 1 :: real)"
    by linarith
  moreover have "(\<Sum>i\<le>k. of_nat (k choose i) * (- 1) ^ i / (real i + 1))
      = - (\<Sum>i\<le>k. (- 1) ^ Suc i * of_nat (Suc k choose Suc i)) / (real k + 1)"
    unfolding binom by (simp only: sum_negf [symmetric] sum_divide_distrib)
  ultimately show ?thesis by simp
qed

lemma made_line:
  assumes "Quadrature_make order 1 name = Inr q" "0 \<le> order" "order < 10"
  shows "quadrature_ok 1 q"
    and "int k \<le> order \<Longrightarrow> (\<Sum>n<points_of q. weight_of q n * site_of q n 0 ^ k) = 1 / (real k + 1)"
proof -
  obtain qt where qt: "parseQuadratureType name = Inr qt"
    using assms(1) by (cases "parseQuadratureType name") (auto simp: Quadrature_make_def)
  obtain n points where t: "number_of_points order 1 = Inr n" "line_table n = Inr points" "n = int (length points)"
      "\<forall>k. int k \<le> order \<longrightarrow> line_sum points (\<lambda>x. x ^ k) = 1 / (real k + 1)"
    using line_orders [OF assms(2,3)] by blast
  have ne: "points \<noteq> []" using t(4) assms(2) by (auto simp: line_sum_def dest!: spec [of _ 0])
  show ok: "quadrature_ok 1 q"
    using line_make [OF qt t(1,2)] assms(1) t(3) ne by (auto simp: quadrature_ok_def)
  show "(\<Sum>n<points_of q. weight_of q n * site_of q n 0 ^ k) = 1 / (real k + 1)" if "int k \<le> order"
  proof -
    have "quadrature_sum q (\<lambda>s. (s ! 0) ^ k) = line_sum points (\<lambda>x. x ^ k)"
      using line_make [OF qt t(1,2)] assms(1)
      by (auto simp: line_quadrature_sum [where f = "\<lambda>x. x ^ k"])
    then show ?thesis
      using t(4) that quadrature_sum_index [OF ok, of "\<lambda>s. (s ! 0) ^ k"] by (simp add: site_of_def)
  qed
qed

lemma reversed_line:
  assumes "Quadrature_make order 1 name = Inr q" "0 \<le> order" "order < 10" "int k \<le> order"
  shows "(\<Sum>n<points_of q. weight_of q n * (1 - site_of q n 0) ^ k) = 1 / (real k + 1)"
proof -
  have power: "(1 - s) ^ k = (\<Sum>i\<le>k. of_nat (k choose i) * (- 1) ^ i * s ^ i)" for s :: real
    using binomial_ring [of "- s" 1 k] by (simp add: power_minus [of s] ac_simps)
  have "(\<Sum>n<points_of q. weight_of q n * (1 - site_of q n 0) ^ k)
      = (\<Sum>n<points_of q. \<Sum>i\<le>k. of_nat (k choose i) * (- 1) ^ i * (weight_of q n * site_of q n 0 ^ i))"
    unfolding power sum_distrib_left by (simp add: ac_simps)
  also have "\<dots> = (\<Sum>i\<le>k. of_nat (k choose i) * (- 1) ^ i * (\<Sum>n<points_of q. weight_of q n * site_of q n 0 ^ i))"
    by (subst sum.swap) (simp only: sum_distrib_left)
  also have "\<dots> = (\<Sum>i\<le>k. of_nat (k choose i) * (- 1) ^ i / (real i + 1))"
    using assms(4) by (intro sum.cong) (simp_all add: made_line(2) [OF assms(1-3)])
  finally show ?thesis by (simp only: binomial_reciprocal)
qed

lemma taylor_scaled:
  assumes "\<forall>a \<in> set vp. 0 \<le> a" "length vp \<le> length ts"
  shows "taylor (map (\<lambda>x. c * x) ts) vp = c ^ nat (sum_list vp) * taylor ts vp"
proof -
  have "taylor (map (\<lambda>x. c * x) ts) vp = (\<Prod>k<length vp. c ^ nat (vp ! k) * tfac (ts ! k) (vp ! k))"
    unfolding taylor_def using assms nth_mem
    by (intro prod.cong) (force simp: tfac_def power_mult_distrib not_less)+
  also have "\<dots> = c ^ (\<Sum>k<length vp. nat (vp ! k)) * taylor ts vp"
    by (simp add: prod.distrib taylor_def power_sum)
  also have "(\<Sum>k<length vp. nat (vp ! k)) = nat (sum_list vp)"
  proof -
    have "int (\<Sum>k<length vp. nat (vp ! k)) = (\<Sum>k<length vp. vp ! k)"
      unfolding of_nat_sum using assms(1) by (intro sum.cong) auto
    then show ?thesis unfolding sum_list_sum_nth lessThan_atLeast0 by linarith
  qed
  finally show ?thesis .
qed

lemma tfac_euler: "0 \<le> a \<Longrightarrow> t * tfac t (a - 1) = of_int a * tfac t a"
proof (cases "a = 0")
  case False
  assume "0 \<le> a"
  then obtain n where "a = int (Suc n)" using False by (metis gr0_implies_Suc nat_eq_iff2 int_nat_eq less_le zero_less_nat_eq)
  then show ?thesis by (simp add: tfac_def nat_add_distrib fact_Suc divide_simps)
qed (simp add: tfac_def)

text \<open>Euler's identity for a scaled monomial.\<close>

lemma taylor_euler:
  assumes "\<forall>a \<in> set vp. 0 \<le> a" "length vp \<le> length ts"
  shows "(\<Sum>k<length vp. ts ! k * taylor ts (vp[k := vp ! k - 1])) = of_int (sum_list vp) * taylor ts vp"
proof -
  have "ts ! k * taylor ts (vp[k := vp ! k - 1]) = of_int (vp ! k) * taylor ts vp" if k: "k < length vp" for k
  proof -
    let ?rest = "\<Prod>l \<in> {..<length vp} - {k}. tfac (ts ! l) (vp ! l)"
    have split: "taylor ts (vp[k := a]) = tfac (ts ! k) a * ?rest" for a
    proof -
      have "taylor ts (vp[k := a]) = tfac (ts ! k) a * (\<Prod>l \<in> {..<length vp} - {k}. tfac (ts ! l) (vp[k := a] ! l))"
        using k by (simp add: taylor_def prod.remove [of _ k])
      also have "(\<Prod>l \<in> {..<length vp} - {k}. tfac (ts ! l) (vp[k := a] ! l)) = ?rest"
        by (intro prod.cong) auto
      finally show ?thesis .
    qed
    have "0 \<le> vp ! k" using assms(1) k by auto
    then show ?thesis using tfac_euler [of "vp ! k" "ts ! k"] split [of "vp ! k - 1"] split [of "vp ! k"] by simp
  qed
  then have "(\<Sum>k<length vp. ts ! k * taylor ts (vp[k := vp ! k - 1])) = (\<Sum>k<length vp. of_int (vp ! k) * taylor ts vp)"
    by simp
  also have "\<dots> = of_int (sum_list vp) * taylor ts vp"
    by (simp add: sum_list_sum_nth lessThan_atLeast0 sum_distrib_right)
  finally show ?thesis .
qed

lemma edge_term_sum:
  assumes "Quadrature_make order 1 name = Inr (bd_qm data)" "0 \<le> order" "order < 10" "int m \<le> order"
    and "length (snd e) \<le> 3" "\<forall>a \<in> set (snd e). 0 \<le> a" "sum_list (snd e) \<le> int m"
  shows "(\<Sum>q<points_of (bd_qm data). edge_term data i off e q)
    = - XYZ_index off (int (fst e)) * taylor (map (\<lambda>x. x / bd_epsilons data ! i) (coords off)) (snd e)
        / (of_int (sum_list (snd e)) + 1)"
proof -
  let ?ts = "map (\<lambda>x. x / bd_epsilons data ! i) (coords off)"
  let ?k = "nat (sum_list (snd e))"
  have nn: "0 \<le> sum_list (snd e)" using assms(6) by (intro sum_list_nonneg) auto
  have "edge_term data i off e q = - XYZ_index off (int (fst e)) * taylor ?ts (snd e)
      * (weight_of (bd_qm data) q * (1 - site_of (bd_qm data) q 0) ^ ?k)" for q
  proof -
    have "map (\<lambda>x. x / bd_epsilons data ! i) (coords (XYZ_const_scale (1 - site_of (bd_qm data) q 0) off))
        = map (\<lambda>x. (1 - site_of (bd_qm data) q 0) * x) ?ts"
      by (simp add: coords_def XYZ_defs)
    moreover have "taylor (map (\<lambda>x. (1 - site_of (bd_qm data) q 0) * x) ?ts) (snd e)
        = (1 - site_of (bd_qm data) q 0) ^ ?k * taylor ?ts (snd e)"
      using assms(5) by (intro taylor_scaled [OF assms(6)]) (simp add: coords_def)
    ultimately have "taylor (map (\<lambda>x. x / bd_epsilons data ! i) (coords (XYZ_const_scale (1 - site_of (bd_qm data) q 0) off))) (snd e)
        = (1 - site_of (bd_qm data) q 0) ^ ?k * taylor ?ts (snd e)" by (simp only:)
    moreover have "XYZ_index (XYZ_const_scale (- 1) off) k = - XYZ_index off k" for k by (simp add: XYZ_defs)
    ultimately show ?thesis by (simp add: edge_term_def)
  qed
  then have "(\<Sum>q<points_of (bd_qm data). edge_term data i off e q)
      = - XYZ_index off (int (fst e)) * taylor ?ts (snd e) * (1 / (real ?k + 1))"
    using reversed_line [OF assms(1-3), of ?k] assms(4,7) nn by (simp only: sum_distrib_left [symmetric])
  then show ?thesis using nn by simp
qed

lemma nth_blocks:
  assumes "j < b" "l < length (multi_indices nd 0 m)"
  shows "blocks b nd m ! (j * length (multi_indices nd 0 m) + l) = (j, multi_indices nd 0 m ! l)"
  using assms(1)
proof (induction b)
  case (Suc b)
  let ?n = "length (multi_indices nd 0 m)"
  have app: "blocks (Suc b) nd m = blocks b nd m @ map (Pair b) (multi_indices nd 0 m)"
    by (simp add: blocks_def)
  show ?case
  proof (cases "j = b")
    case True
    then show ?thesis using assms(2) by (simp add: app nth_append length_blocks)
  next
    case False
    then have "j < b" using Suc.prems by simp
    moreover from this have "j * ?n + l < b * ?n" using assms(2) by (intro tile_bound)
    ultimately show ?thesis using Suc.IH by (simp add: app nth_append length_blocks)
  qed
qed simp

text \<open>The place of a list of exponents in the basis.\<close>

definition place :: "'a list \<Rightarrow> 'a \<Rightarrow> nat" where
  "place xs x = length (takeWhile (\<lambda>y. y \<noteq> x) xs)"

lemma nth_place: "x \<in> set xs \<Longrightarrow> place xs x < length xs \<and> xs ! place xs x = x"
  by (induction xs) (auto simp: place_def)

text \<open>
  The entry that a row of the vector basis gives for the gradient of the scalar monomial
  with the exponents \<open>vp\<close>: in direction \<open>j\<close> the exponent goes down by one.
\<close>

definition gradient_entry :: "nat \<Rightarrow> nat \<Rightarrow> real \<Rightarrow> real list \<Rightarrow> int list \<Rightarrow> real" where
  "gradient_entry nd m h row vp =
     (\<Sum>j<nd. if vp ! j = 0 then 0
        else row ! (j * scalar_size nd m + place (multi_indices nd 0 m) (vp[j := vp ! j - 1]))) / h"

lemma sum_list_update_int: "k < length xs \<Longrightarrow> sum_list (xs[k := x]) = sum_list xs + x - xs ! k"
  for x :: int
  by (induction xs arbitrary: k) (auto split: nat.split)

lemma lowered_index:
  assumes "nd \<in> {1, 2, 3}" "vp \<in> set (multi_indices nd 0 (Suc m))" "j < nd" "vp ! j \<noteq> 0"
  shows "vp[j := vp ! j - 1] \<in> set (multi_indices nd 0 m)"
    and "sum_list (vp[j := vp ! j - 1]) = sum_list vp - 1"
proof -
  note vp = multi_indices_dim [OF assms(1,2)]
  show sum: "sum_list (vp[j := vp ! j - 1]) = sum_list vp - 1"
    using vp assms(3) sum_list_update_int [of j vp "vp ! j - 1"] by simp
  have pos: "0 < vp ! j" using vp assms(3,4) by (metis le_less nth_mem)
  have bound: "sum_list vp \<le> int (Suc m)"
    using assms(2) set_multi_indices [OF assms(1), of 0 "Suc m"] by auto
  have nn: "\<forall>e \<in> set (vp[j := vp ! j - 1]). 0 \<le> e"
    using vp pos by (auto dest!: set_update_subset_insert [THEN subsetD])
  show "vp[j := vp ! j - 1] \<in> set (multi_indices nd 0 m)"
    using vp sum bound nn sum_list_nonneg [of "vp[j := vp ! j - 1]"]
    by (subst set_multi_indices [OF assms(1)]) auto
qed

text \<open>The integral of the gradient along an edge is the difference of the values at its ends.\<close>

lemma gradient_of_integral:
  assumes "Quadrature_make order 1 name = Inr (bd_qm data)" "int m \<le> order" "order < 10"
    and "nd \<in> {2, 3}" "k < scalar_size nd (Suc m)" "bd_epsilons data ! i \<noteq> 0"
    and "row = overlay 0 0 (map (\<lambda>e. \<Sum>q<points_of (bd_qm data). edge_term data i off e q) (blocks nd nd m)) delta"
    and "nd * scalar_size nd m \<le> length delta" "length row = length delta"
  shows "gradient_entry nd m (bd_epsilons data ! i) row (multi_indices nd 0 (Suc m) ! k)
    = taylor [0, 0, 0] (multi_indices nd 0 (Suc m) ! k)
      - taylor (map (\<lambda>x. x / bd_epsilons data ! i) (coords off)) (multi_indices nd 0 (Suc m) ! k)"
proof -
  let ?h = "bd_epsilons data ! i"
  let ?ts = "map (\<lambda>x. x / ?h) (coords off)"
  define vp where "vp = multi_indices nd 0 (Suc m) ! k"
  have nd: "nd \<in> {1, 2, 3}" using assms(4) by auto
  have mem: "vp \<in> set (multi_indices nd 0 (Suc m))"
    using assms(5) nth_mem by (simp add: vp_def scalar_size_indices [OF nd])
  note vp = multi_indices_dim [OF nd mem]
  define n where "n = sum_list vp"
  have n: "0 \<le> n" using vp by (auto simp: n_def intro: sum_list_nonneg)
  have entry: "(if vp ! j = 0 then 0 else row ! (j * scalar_size nd m + place (multi_indices nd 0 m) (vp[j := vp ! j - 1]))) / ?h
      = - (?ts ! j * taylor ?ts (vp[j := vp ! j - 1])) / of_int n" if j: "j < nd" for j
  proof (cases "vp ! j = 0")
    case True
    then have "\<exists>a \<in> set (vp[j := vp ! j - 1]). a < 0"
      using j vp by (intro bexI [of _ "-1"]) (auto simp: set_update_memI)
    then show ?thesis using True by (simp add: taylor_negative)
  next
    case False
    let ?low = "vp[j := vp ! j - 1]"
    note low = lowered_index [OF nd mem j False]
    let ?l = "place (multi_indices nd 0 m) ?low"
    have l: "?l < scalar_size nd m" "multi_indices nd 0 m ! ?l = ?low"
      using nth_place [OF low(1)] by (simp_all add: scalar_size_indices [OF nd])
    then have "j * scalar_size nd m + ?l < nd * scalar_size nd m" using j by (intro tile_bound)
    then have "row ! (j * scalar_size nd m + ?l) = (\<Sum>q<points_of (bd_qm data). edge_term data i off (j, ?low) q)"
      using assms(7,8) l nth_blocks [of j nd ?l nd m] j
      by (simp add: nth_overlay length_blocks scalar_size_indices [OF nd])
    also have "\<dots> = - XYZ_index off (int j) * taylor ?ts ?low / of_int n"
      using edge_term_sum [OF assms(1) _ assms(3,2), of "(j, ?low)" i off]
        multi_indices_dim [OF nd low(1)] low assms(2) assms(4)
        set_multi_indices [OF nd, of 0 m] by (auto simp: n_def)
    finally have "row ! (j * scalar_size nd m + ?l) = - XYZ_index off (int j) * taylor ?ts ?low / of_int n" .
    moreover have "?ts ! j = XYZ_index off (int j) / ?h"
    proof -
      consider "j = 0" | "j = 1" | "j = 2" using j assms(4) by fastforce
      then show ?thesis by cases (simp_all add: coords_def XYZ_index_def)
    qed
    ultimately show ?thesis using False by (simp add: ac_simps)
  qed
  have "gradient_entry nd m ?h row vp = (\<Sum>j<nd. - (?ts ! j * taylor ?ts (vp[j := vp ! j - 1])) / of_int n)"
    unfolding gradient_entry_def sum_divide_distrib using entry by (intro sum.cong) auto
  also have "\<dots> = - (\<Sum>j<length vp. ?ts ! j * taylor ?ts (vp[j := vp ! j - 1])) / of_int n"
    using vp by (simp only: sum_negf [symmetric] sum_divide_distrib)
  also have "\<dots> = - (of_int n * taylor ?ts vp) / of_int n"
    using vp assms(4) by (subst taylor_euler) (auto simp: n_def coords_def)
  also have "\<dots> = taylor [0, 0, 0] vp - taylor ?ts vp"
  proof (cases "n = 0")
    case True
    then have "\<forall>a \<in> set vp. a = 0"
      using vp by (subst sum_list_nonneg_eq_0_iff [symmetric]) (auto simp: n_def)
    then have "taylor ts vp = 1" for ts
      unfolding taylor_def by (intro prod.neutral ballI) (use nth_mem in \<open>fastforce simp: tfac_def\<close>)
    then show ?thesis using True by simp
  next
    case False
    then obtain j where "j < nd" "vp ! j \<noteq> 0"
      using vp by (metis n_def in_set_conv_nth sum_list_0 sum_list.eq_foldr map_cong list.map_ident sum_list_nonneg_eq_0_iff)
    moreover have "0 \<le> vp ! j" using \<open>j < nd\<close> vp by auto
    ultimately have "taylor [0, 0, 0] vp = 0"
      unfolding taylor_def using vp assms(4)
      by (intro prod_zero) (auto simp: tfac_def nth_Cons' intro!: bexI [of _ j])
    then show ?thesis using False by simp
  qed
  finally show ?thesis by (simp add: vp_def)
qed

section \<open>Data for the witnesses\<close>

text \<open>Two targets and their neighbors in the plane, window sizes 2, and a line quadrature.\<close>

definition example_quadrature :: quadrature where
  "example_quadrature = Quadrature_default\<lparr>q_qt := LINE, q_number_of_quadrature_points := 2,
     q_quadrature_weights := map snd line_2,
     q_parameterized_quadrature_sites := map (\<lambda>(x, w). [x]) line_2, q_is_initialized := True\<rparr>"

definition basis_example :: "basis_data \<Rightarrow> basis_data" where
  "basis_example data = data\<lparr>bd_pc := pc_example, bd_epsilons := [2, 2], bd_basis_multiplier := 2,
     bd_sampling_multiplier := 1, bd_problem_type := STANDARD, bd_qm := example_quadrature,
     bd_weighting_type := Power, bd_weighting_p := 2, bd_weighting_n := 1,
     bd_polynomial_sampling_functional := PointSample, bd_initial_index_for_batch := 0\<rparr>"

lemma basis_example_ready:
  "basis_ready 2 2 (basis_example data) None" "0 < nl_rows (pc_nla (bd_pc (basis_example data)))"
  "1 < nl_count (pc_nla (bd_pc (basis_example data))) 0" "bd_epsilons (basis_example data) ! 0 = 2"
  "bd_pc (basis_example data) = pc_example"
  using pc_example_valid nl_example_views
  by (simp_all add: basis_ready_def basis_example_def pc_example_def PointConnections_make_def)

lemma example_quadrature_made: "Quadrature_make 2 1 ''LINE'' = Inr example_quadrature"
proof -
  have "parseQuadratureType ''LINE'' = Inr LINE" by code_simp
  from line_make [OF this, of 2] show ?thesis
    by (simp add: number_of_points_def oneDNumPointsFromOrder_def line_table_def view_read_def example_quadrature_def)
qed

section \<open>Properties\<close>

text \<open>
  C26: a point sample of a scalar basis, or of one of its clones, fills the row with the
  basis evaluated at the neighbor as seen from the target, whatever the component in the
  neighbor number; for the site of the target itself it is evaluated at the origin.
  Nothing else of the buffer changes.
\<close>

theorem point_sample_is_basis:
  assumes "basis_ready d nd data V" "i < nl_rows (pc_nla (bd_pc data))"
    and "j < nl_count (pc_nla (bd_pc data)) i" "m \<le> 14"
    and "traditional_sample sf" "scalar_space space" "buffers_fit nd m 1 delta workspace"
  shows "(\<exists>ws. calcPij dbg data delta workspace (int i) (int j + int c * int (nl_count (pc_nla (bd_pc data)) i))
        0 (int nd) m False V space sf site
      = Inr (overlay 0 0 (scalar_row nd m (bd_epsilons data ! i) (coords (neighbor_offset d nd data i j V))) delta, ws))
    \<and> (\<exists>ws. calcPij dbg data delta workspace (int i) (- int c - 1) alpha (int nd) m False V space sf 0
      = Inr (overlay 0 0 (scalar_row nd m (bd_epsilons data ! i) [0, 0, 0]) delta, ws))"
proof
  have "XYZ_const_scale (1 - 0) p = p" for p by (cases p) (simp add: XYZ_defs)
  then show "\<exists>ws. calcPij dbg data delta workspace (int i) (int j + int c * int (nl_count (pc_nla (bd_pc data)) i))
        0 (int nd) m False V space sf site
      = Inr (overlay 0 0 (scalar_row nd m (bd_epsilons data ! i) (coords (neighbor_offset d nd data i j V))) delta, ws)"
    using point_sample_at [OF assms(1,2,4-7) split_neighbor_eq [OF ready_wf [OF assms(1)] assms(2,3)]
        relative_coord_neighbor [OF assms(1-3), where alpha = 0 and site = site and dbg = dbg], of c] by auto
  have "relative_coord dbg data (int i) (- int c - 1) alpha (int nd) V 0 = Inr (XYZ_make 0 0 0)"
    by (simp add: relative_coord_def)
  from point_sample_at [OF assms(1,2,4-7) split_site [OF ready_wf [OF assms(1)] assms(2)] this]
  show "\<exists>ws. calcPij dbg data delta workspace (int i) (- int c - 1) alpha (int nd) m False V space sf 0
      = Inr (overlay 0 0 (scalar_row nd m (bd_epsilons data ! i) [0, 0, 0]) delta, ws)"
    by (auto simp: coords_def XYZ_make_def)
qed

theorem point_sample_is_basis_witness:
  "\<forall>data. \<exists>row ws. calcPij True (basis_example data) [7, 7, 7, 7] [0, 0, 0, 0, 0, 0] 0 1 0 2 1 False None
      ScalarTaylorPolynomial PointSample 0 = Inr (row, ws) \<and> length row = 4 \<and> row ! 3 = 7"
proof
  fix data
  have "buffers_fit 2 1 1 [7, 7, 7, 7] [0, 0, 0, 0, 0, 0]" "scalar_size 2 1 = 3"
    by (simp_all add: buffers_fit_def scalar_size_def ScalarTaylor_getSize_def signed_divide_int_def)
  moreover have "traditional_sample PointSample" "scalar_space ScalarTaylorPolynomial"
    by (simp_all add: traditional_sample_def scalar_space_def sf_eq_def)
  ultimately obtain ws where r: "calcPij True (basis_example data) [7, 7, 7, 7] [0, 0, 0, 0, 0, 0] 0 1 0 2 1 False None
      ScalarTaylorPolynomial PointSample 0
      = Inr (overlay 0 0 (scalar_row 2 1 2 (coords (neighbor_offset 2 2 (basis_example data) 0 1 None))) [7, 7, 7, 7], ws)"
    using point_sample_is_basis [OF basis_example_ready(1-3), of 1 PointSample ScalarTaylorPolynomial
        "[7, 7, 7, 7]" "[0, 0, 0, 0, 0, 0]" True data 0 0 0] basis_example_ready(4,5) by auto
  have "length (scalar_row 2 1 2 (coords (neighbor_offset 2 2 (basis_example data) 0 1 None))) = 3"
    using \<open>scalar_size 2 1 = 3\<close> by (subst length_scalar_row) (simp_all add: coords_def)
  with r show "\<exists>row ws. calcPij True (basis_example data) [7, 7, 7, 7] [0, 0, 0, 0, 0, 0] 0 1 0 2 1 False None
      ScalarTaylorPolynomial PointSample 0 = Inr (row, ws) \<and> length row = 4 \<and> row ! 3 = 7"
    by (simp add: nth_overlay)
qed

text \<open>
  C25: the two ways to sample an edge between a target and its neighbor agree on gradients.
  The analytic sample of a scalar polynomial is the difference of its values at the two
  ends; the integral sample of a vector polynomial is its integral along the edge by the
  quadrature.  If the quadrature is one of the constructor's and its order reaches the
  degree, then every entry of the analytic row is the integral of the gradient, formed
  from the entries of the integral row.
\<close>

theorem staggered_samples_agree:
  assumes "basis_ready d nd data V" "i < nl_rows (pc_nla (bd_pc data))"
    and "j < nl_count (pc_nla (bd_pc data)) i" "nd \<in> {2, 3}" "Suc m \<le> 14"
    and "bd_problem_type data = MANIFOLD \<longrightarrow> nd = 2" "bd_problem_type data \<noteq> MANIFOLD \<longrightarrow> V = None"
    and "bd_basis_multiplier data = int nd" "bd_epsilons data ! i \<noteq> 0"
    and "Quadrature_make order 1 name = Inr (bd_qm data)" "int m \<le> order" "order < 10"
    and "buffers_fit nd (Suc m) 1 delta workspace" "nd * scalar_size nd m \<le> length delta'"
  shows "\<exists>analytic ws integral ws'.
      calcPij dbg data delta workspace (int i) (int j) 0 (int nd) (Suc m) False V
        ScalarTaylorPolynomial StaggeredEdgeAnalyticGradientIntegralSample 0 = Inr (analytic, ws)
    \<and> calcPij dbg data delta' workspace' (int i) (int j) 0 (int nd) m False V
        VectorTaylorPolynomial StaggeredEdgeIntegralSample 0 = Inr (integral, ws')
    \<and> (\<forall>k < scalar_size nd (Suc m). analytic ! k
        = gradient_entry nd m (bd_epsilons data ! i) integral (multi_indices nd 0 (Suc m) ! k))"
proof -
  let ?h = "bd_epsilons data ! i"
  let ?off = "neighbor_offset d nd data i j V"
  note nd = ready_dim [OF assms(1)]
  have frame: "edge_frame data V = V" using assms(7) by (simp add: edge_frame_def)
  have split: "split_neighbor data (int i) (int j) = Inr (0, int j)"
    using split_neighbor_eq [OF ready_wf [OF assms(1)] assms(2,3), of 0] by simp
  have "XYZ_const_scale (1 - 0) ?off = ?off" by (cases ?off) (simp add: XYZ_defs)
  then have rel: "relative_coord dbg data (int i) (int j) 0 (int nd) V 0 = Inr ?off"
    using relative_coord_neighbor [OF assms(1-3), of dbg 0 0] by simp
  let ?a = "overlay 0 0 (map (\<lambda>(a, b). a - b) (zip (scalar_row nd (Suc m) ?h [0, 0, 0])
      (scalar_row nd (Suc m) ?h (coords ?off)))) delta"
  obtain ws where a: "calcPij dbg data delta workspace (int i) (int j) 0 (int nd) (Suc m) False V
      ScalarTaylorPolynomial StaggeredEdgeAnalyticGradientIntegralSample 0 = Inr (?a, ws)"
    using staggered_analytic_at [OF assms(1,2,5,13) split rel] by blast
  define row where "row = overlay 0 0 (map (\<lambda>e. \<Sum>q<points_of (bd_qm data). edge_term data i ?off e q) (blocks nd nd m)) delta'"
  have "0 \<le> order" "m \<le> 14" using assms(5,11) by simp_all
  then have "StaggeredEdgeIntegral_sample dbg data delta' (int i) (int j) (int nd) m 0 V = Inr row"
    using staggered_integral_eq [OF assms(1-4) _ assms(6,8) made_line(1) [OF assms(10) _ assms(12)] assms(14)]
    by (simp add: row_def frame)
  then have b: "calcPij dbg data delta' workspace' (int i) (int j) 0 (int nd) m False V
      VectorTaylorPolynomial StaggeredEdgeIntegralSample 0 = Inr (row, workspace')"
    using split rel by (simp add: calcPij_def traditional_sample_def sf_eq_def sampling_functional_defs)
  have "?a ! k = gradient_entry nd m ?h row (multi_indices nd 0 (Suc m) ! k)" if k: "k < scalar_size nd (Suc m)" for k
  proof -
    have rows: "scalar_row nd (Suc m) ?h ps = map (taylor (map (\<lambda>x. x / ?h) ps)) (multi_indices nd 0 (Suc m))"
      if "length ps = 3" for ps
      using scalar_rows(1) [OF nd assms(5), of 0 0 ps ?h] that nd by auto
    have "?a ! k = taylor [0, 0, 0] (multi_indices nd 0 (Suc m) ! k)
        - taylor (map (\<lambda>x. x / ?h) (coords ?off)) (multi_indices nd 0 (Suc m) ! k)"
      using k assms(13) by (simp add: nth_overlay rows coords_def scalar_size_indices [OF nd] buffers_fit_def)
    then show ?thesis
      using gradient_of_integral [OF assms(10,11,12,4) k assms(9) row_def assms(14)] by (simp add: row_def)
  qed
  then show ?thesis using a b by blast
qed

theorem staggered_samples_agree_witness:
  "\<forall>data. \<exists>analytic ws integral ws'.
      calcPij True (basis_example data) (replicate 10 0) (replicate 8 0) 0 1 0 2 3 False None
        ScalarTaylorPolynomial StaggeredEdgeAnalyticGradientIntegralSample 0 = Inr (analytic, ws)
    \<and> calcPij True (basis_example data) (replicate 12 0) [] 0 1 0 2 2 False None
        VectorTaylorPolynomial StaggeredEdgeIntegralSample 0 = Inr (integral, ws')
    \<and> analytic ! 9 = gradient_entry 2 2 2 integral [0, 3]"
proof
  fix data
  have sizes: "scalar_size 2 3 = 10" "scalar_size 2 2 = 6"
    by (simp_all add: scalar_size_def ScalarTaylor_getSize_def signed_divide_int_def)
  have qm: "Quadrature_make 2 1 ''LINE'' = Inr (bd_qm (basis_example data))" "bd_basis_multiplier (basis_example data) = int 2"
      "bd_problem_type (basis_example data) = STANDARD"
    using example_quadrature_made by (simp_all add: basis_example_def)
  have "multi_indices 2 0 3 ! 9 = [0, 3]" by (simp add: multi_indices_def idx2_def numeral_3_eq_3 numeral_2_eq_2)
  then show "\<exists>analytic ws integral ws'.
      calcPij True (basis_example data) (replicate 10 0) (replicate 8 0) 0 1 0 2 3 False None
        ScalarTaylorPolynomial StaggeredEdgeAnalyticGradientIntegralSample 0 = Inr (analytic, ws)
    \<and> calcPij True (basis_example data) (replicate 12 0) [] 0 1 0 2 2 False None
        VectorTaylorPolynomial StaggeredEdgeIntegralSample 0 = Inr (integral, ws')
    \<and> analytic ! 9 = gradient_entry 2 2 2 integral [0, 3]"
    using staggered_samples_agree [OF basis_example_ready(1-3) _ _ _ _ qm(2) _ qm(1), of 2
        "replicate 10 0" "replicate 8 0" "replicate 12 0" True "[]"] qm(3) basis_example_ready(4) sizes
    by (fastforce simp: buffers_fit_def)
qed

text \<open>
  C28: a combination of sampling functional and space that the basis does not define ends
  in an abort, for every target, neighbor and order.
\<close>

theorem undefined_samples_abort:
  assumes "basis_ready d nd data V" "i < nl_rows (pc_nla (bd_pc data))"
    and "j < nl_count (pc_nla (bd_pc data)) i"
    and "(sf, space) \<in> {(PointSample, VectorTaylorPolynomial), (PointSample, DivergenceFreeVectorTaylorPolynomial),
      (ManifoldVectorPointSample, DivergenceFreeVectorTaylorPolynomial),
      (VaryingManifoldVectorPointSample, DivergenceFreeVectorTaylorPolynomial),
      (StaggeredEdgeAnalyticGradientIntegralSample, VectorTaylorPolynomial),
      (StaggeredEdgeAnalyticGradientIntegralSample, VectorOfScalarClonesTaylorPolynomial),
      (StaggeredEdgeAnalyticGradientIntegralSample, DivergenceFreeVectorTaylorPolynomial)}"
  shows "calcPij dbg data delta workspace (int i) (int j) alpha (int nd) m only V space sf site
    = Inl (Kokkos_abort ''Sampling and basis space combination not defined.'')"
proof -
  have split: "split_neighbor data (int i) (int j) = Inr (0, int j)"
    using split_neighbor_eq [OF ready_wf [OF assms(1)] assms(2,3), of 0] by simp
  note rel = relative_coord_neighbor [OF assms(1-3), of dbg alpha site]
  show ?thesis
    using assms(4) unfolding calcPij_def split rel rbind_Inr prod.case Let_def
    by (elim insertE emptyE; simp add: traditional_sample_def scalar_space_def sf_eq_def
        sampling_functional_defs undefined_combination_def)
qed

theorem undefined_samples_abort_witness:
  "\<forall>data. calcPij False (basis_example data) [] [] 0 1 0 2 3 False None VectorTaylorPolynomial PointSample 0
    = Inl (Kokkos_abort ''Sampling and basis space combination not defined.'')"
proof
  fix data
  show "calcPij False (basis_example data) [] [] 0 1 0 2 3 False None VectorTaylorPolynomial PointSample 0
    = Inl (Kokkos_abort ''Sampling and basis space combination not defined.'')"
    using undefined_samples_abort [OF basis_example_ready(1-3), of PointSample VectorTaylorPolynomial False data "[]" "[]" 0 3 False 0]
    by simp
qed

end
