(* ===== verification/Compadre_Assembly.thy ===== *)
theory Compadre_Assembly
  imports Compadre_Targets Compadre_BasisSamples
begin

text \<open>
  The functors of Compadre_Functors.hpp that set up the least-squares problem of a target
  and the rows of its target operations, with the constraints of
  constraints/Compadre_CreateConstraints.hpp.

  \<open>gemm\<close> stands for \<open>KokkosBatched::TeamVectorGemm\<close>, which multiplies the transposed of its
  first matrix with its second one.
\<close>

section \<open>Constraints\<close>

text \<open>
  \<open>evaluateConstraints\<close>: \<open>buf_M\<close> and \<open>buf_P\<close> are the buffers that hold the matrices \<open>M\<close>
  and \<open>PsqrtW\<close>, \<open>buf_T\<close> the one of the tangent bundle.
\<close>

definition evaluateConstraints ::
  "real list \<Rightarrow> matrix_view \<Rightarrow> real list \<Rightarrow> matrix_view \<Rightarrow> ConstraintType \<Rightarrow> ReconstructionSpace \<Rightarrow> int
     \<Rightarrow> real \<Rightarrow> int \<Rightarrow> int \<Rightarrow> real list \<Rightarrow> matrix_view \<Rightarrow> (real list \<times> real list) result" where
  "evaluateConstraints buf_M M buf_P PsqrtW constraint_type reconstruction_space NP cutoff_p dimension
      num_neighbors buf_T T =
     (if constraint_type = NEUMANN_GRAD_SCALAR then
        (if scalar_space reconstruction_space then
           rbind (matrix_write buf_P PsqrtW num_neighbors (mv_cols PsqrtW - 1) 1) (\<lambda>buf_P.
           rbind (rfold (\<lambda>i buf_M.
               rbind (matrix_read buf_T T (dimension - 1) (int i)) (\<lambda>t.
               rbind (matrix_write buf_M M (mv_rows M - 1) (int i + 1) (1 / cutoff_p * t)) (\<lambda>buf_M.
               matrix_write buf_M M (int i + 1) (mv_rows M - 1) (1 / cutoff_p * t))))
             [0..<nat dimension] buf_M) (\<lambda>buf_M.
           Inr (buf_M, buf_P)))
         else if reconstruction_space = VectorTaylorPolynomial then
           rbind (rfold (\<lambda>i buf_P. matrix_write buf_P PsqrtW num_neighbors (mv_cols PsqrtW - 1 - int i) 1)
                   [0..<nat dimension] buf_P) (\<lambda>buf_P.
           rbind (rfold (\<lambda>i. rfold (\<lambda>j buf_M.
               rbind (matrix_read buf_T T (dimension - 1) (int i)) (\<lambda>t.
               rbind (matrix_write buf_M M (int i * NP) (mv_rows M - 1 - int j) t) (\<lambda>buf_M.
               matrix_write buf_M M (mv_rows M - 1 - int j) (int i * NP) t)))
             [0..<nat dimension]) [0..<nat dimension] buf_M) (\<lambda>buf_M.
           Inr (buf_M, buf_P)))
         else Inr (buf_M, buf_P))
      else Inr (buf_M, buf_P))"

section \<open>The functors\<close>

text \<open>A vector of \<open>n\<close> entries within a buffer, and the buffer with another vector in its place.\<close>

definition buffer_vector :: "'a list \<Rightarrow> int \<Rightarrow> int \<Rightarrow> 'a list result" where
  "buffer_vector buf base n =
     (if 0 \<le> base \<and> 0 \<le> n \<and> base + n \<le> int (length buf)
      then Inr (take (nat n) (drop (nat base) buf)) else Inl Out_of_bounds)"

definition replace_vector :: "'a list \<Rightarrow> int \<Rightarrow> 'a list \<Rightarrow> 'a list" where
  "replace_vector buf base v = take (nat base) buf @ v @ drop (nat base + length v) buf"

text \<open>
  \<open>AssembleStandardPsqrtW\<close>: the scratch of a thread has the extents of the data and is
  cleared before it is used.  The right-hand side is a diagonal matrix, and the functor
  stores its diagonal.
\<close>

definition AssembleStandardPsqrtW ::
  "bool \<Rightarrow> (real list \<Rightarrow> matrix_view \<Rightarrow> real list \<Rightarrow> matrix_view \<Rightarrow> real list result)
     \<Rightarrow> basis_data \<Rightarrow> int \<Rightarrow> gmls \<Rightarrow> gmls result" where
  "AssembleStandardPsqrtW dbg gemm data local_index g =
     (let target_index = bd_initial_index_for_batch data + local_index
      in rbind (getNumberOfNeighborsDevice (pc_nla (bd_pc data)) target_index) (\<lambda>neighbors.
     let this_num_rows = bd_sampling_multiplier data * neighbors
     in rbind (team_tile local_index (fst (bd_P_dims data)) (snd (bd_P_dims data))) (\<lambda>PsqrtW.
     rbind (team_tile local_index (fst (bd_RHS_dims data)) (snd (bd_RHS_dims data))) (\<lambda>RHS.
     let w_base = uint (TO_GLOBAL local_index * TO_GLOBAL (bd_max_num_rows data))
     in rbind (buffer_vector (g_w g) w_base (bd_max_num_rows data)) (\<lambda>w.
     let delta = replicate (nat (bd_this_num_cols data)) 0;
         thread_workspace = replicate (nat (bd_thread_workspace_dim data)) 0
     in rbind (createWeightsAndP dbg data local_index delta thread_workspace PsqrtW (bd_dimensions data)
                 (nat (bd_poly_order data)) True None (bd_reconstruction_space data)
                 (bd_polynomial_sampling_functional data) (g_P g, w)) (\<lambda>(P, w).
     let g = g\<lparr>g_P := P, g_w := replace_vector (g_w g) w_base w\<rparr>
     in if bd_constraint_type data = NO_CONSTRAINT \<and> bd_dense_solver_type data \<noteq> LU then
          rbind (rfold (\<lambda>i rhs. rbind (view_read w (int i)) (\<lambda>wi.
              view_write rhs (mv_base RHS + int i) (sqrt wi))) [0..<nat this_num_rows] (g_RHS g)) (\<lambda>rhs.
          Inr (g\<lparr>g_RHS := rhs\<rparr>))
        else
          rbind (gemm (g_P g) PsqrtW (g_RHS g) RHS) (\<lambda>buf_M.
          rbind (rfold (\<lambda>i. rfold (\<lambda>j P.
              rbind (matrix_read P PsqrtW (int i) (int j)) (\<lambda>p.
              rbind (view_read w (int i)) (\<lambda>wi.
              matrix_write P PsqrtW (int i) (int j) (p * sqrt wi))))
            [0..<nat (bd_this_num_cols data)]) [0..<nat (bd_max_num_rows data)] (g_P g)) (\<lambda>P.
          if bd_constraint_type data = NEUMANN_GRAD_SCALAR then
            rbind (int_checked (bd_dimensions data * bd_dimensions data)) (\<lambda>dd.
            let T = \<lparr>mv_base = uint (TO_GLOBAL target_index * TO_GLOBAL dd),
                     mv_rows = bd_dimensions data, mv_cols = bd_dimensions data\<rparr>
            in rbind (view_read (bd_epsilons data) target_index) (\<lambda>cutoff_p.
            rbind (evaluateConstraints buf_M RHS P PsqrtW (bd_constraint_type data)
                     (bd_reconstruction_space data) (bd_NP data) cutoff_p (bd_dimensions data) neighbors
                     (g_T g) T) (\<lambda>(buf_M, P).
            Inr (g\<lparr>g_RHS := buf_M, g_P := P\<rparr>))))
          else Inr (g\<lparr>g_RHS := buf_M, g_P := P\<rparr>)))))))))"

text \<open>\<open>EvaluateStandardTargets\<close>.\<close>

definition EvaluateStandardTargets :: "bool \<Rightarrow> basis_data \<Rightarrow> int \<Rightarrow> gmls \<Rightarrow> gmls result" where
  "EvaluateStandardTargets dbg data local_index g =
     rbind (team_tile local_index (bd_P_target_row_dim_0 data) (bd_P_target_row_dim_1 data)) (\<lambda>P_target_row.
     rbind (computeTargetFunctionals dbg data local_index P_target_row
              (replicate (nat (bd_this_num_cols data)) 0,
               replicate (nat (bd_thread_workspace_dim data)) 0, g_Z g)) (\<lambda>(delta, workspace, Z).
     Inr (g\<lparr>g_Z := Z\<rparr>)))"

section \<open>Rows of a matrix\<close>

text \<open>A row of a matrix is one stretch of its buffer.\<close>

lemma matrix_addr_row: "matrix_addr mv i (j + k) = matrix_addr mv i j + k"
  by (simp add: matrix_addr_def)

lemma matrix_addr_inj:
  assumes "matrix_addr mv i j = matrix_addr mv i' j'" "int j < mv_cols mv" "int j' < mv_cols mv"
  shows "i = i' \<and> j = j'"
proof -
  have "i * nat (mv_cols mv) + j = i' * nat (mv_cols mv) + j'" using assms(1) by (simp add: matrix_addr_def)
  moreover have "j < nat (mv_cols mv)" "j' < nat (mv_cols mv)" using assms(2,3) by linarith+
  ultimately show ?thesis by (intro tile_inj)
qed

lemma rfold_row_writes:
  assumes "matrix_in (length buf) P" "int row < mv_rows P" "int s \<le> mv_cols P" "s \<le> length delta"
  shows "write_row delta P (int row) (int s) f buf
    = Inr (overlay 0 (matrix_addr P row 0) (map f (take s delta)) buf)"
proof -
  have "rfold (\<lambda>j buf. rbind (view_read delta (int j)) (\<lambda>x. matrix_write buf P (int row) (int j) (f x))) [0..<n] buf
      = Inr (overlay 0 (matrix_addr P row 0) (map f (take n delta)) buf)" if "n \<le> s" for n
    using that
  proof (induction n)
    case 0
    then show ?case by simp
  next
    case (Suc n)
    let ?b = "overlay 0 (matrix_addr P row 0) (map f (take n delta)) buf"
    have snoc: "take (Suc n) delta = take n delta @ [delta ! n]"
      using Suc.prems assms(4) by (simp add: take_Suc_conv_app_nth)
    have addr: "matrix_addr P row n < length buf"
      using assms Suc.prems by (intro matrix_addr_bound) auto
    have "matrix_write ?b P (int row) (int n) (f (delta ! n)) = Inr (?b[matrix_addr P row n := f (delta ! n)])"
      using assms Suc.prems by (intro matrix_write_in) auto
    moreover have "?b[matrix_addr P row n := f (delta ! n)]
        = overlay 0 (matrix_addr P row 0) (map f (take (Suc n) delta)) buf"
    proof (rule nth_equalityI)
      show "length (?b[matrix_addr P row n := f (delta ! n)])
          = length (overlay 0 (matrix_addr P row 0) (map f (take (Suc n) delta)) buf)" by simp
      show "?b[matrix_addr P row n := f (delta ! n)] ! k
          = overlay 0 (matrix_addr P row 0) (map f (take (Suc n) delta)) buf ! k"
        if "k < length (?b[matrix_addr P row n := f (delta ! n)])" for k
        using that Suc.prems assms(4) addr matrix_addr_row [of P row 0 n]
        by (auto simp: nth_overlay nth_list_update nth_append snoc)
    qed
    ultimately show ?case using Suc assms(4) by (simp add: rfold_append)
  qed
  from this [OF order_refl] show ?thesis by (simp add: write_row_def)
qed

text \<open>What a row holds after it was laid over the buffer, and what it leaves alone.\<close>

lemma overlay_row_entry:
  assumes "matrix_in (length buf) P" "int row < mv_rows P" "int (length vs) \<le> mv_cols P"
    and "int row' < mv_rows P" "int k < mv_cols P"
  shows "matrix_entry (overlay 0 (matrix_addr P row 0) vs buf) P row' k
    = (if row' = row \<and> k < length vs then vs ! k else matrix_entry buf P row' k)"
proof -
  have b: "matrix_addr P row' k < length buf" using assms by (intro matrix_addr_bound)
  show ?thesis
  proof (cases "row' = row \<and> k < length vs")
    case True
    then show ?thesis using b matrix_addr_row [of P row 0 k] by (simp add: matrix_entry_def nth_overlay)
  next
    case False
    have notin: "\<not> (matrix_addr P row 0 \<le> matrix_addr P row' k \<and> matrix_addr P row' k < matrix_addr P row 0 + length vs)"
    proof
      assume a: "matrix_addr P row 0 \<le> matrix_addr P row' k \<and> matrix_addr P row' k < matrix_addr P row 0 + length vs"
      define j where "j = matrix_addr P row' k - matrix_addr P row 0"
      have "matrix_addr P row' k = matrix_addr P row j"
        using a matrix_addr_row [of P row 0 j] by (simp add: j_def)
      moreover have "j < length vs" using a by (auto simp: j_def)
      ultimately show False using matrix_addr_inj [of P row' k row j] assms(3,5) False by auto
    qed
    show ?thesis
      unfolding matrix_entry_def nth_overlay [OF b] if_not_P [OF notin] if_not_P [OF False] by (rule refl)
  qed
qed

end
