(* ===== verification/Compadre_Rows.thy ===== *)
theory Compadre_Rows
  imports Compadre_Assembly Compadre_ApplyTargetEvaluations
begin

text \<open>
  What the functors of Compadre_Assembly leave in the buffers for a scalar basis: the rows
  of the weighted matrix and their weights, and the rows of the target operations.
\<close>

section \<open>Loops over rows\<close>

text \<open>A loop with an invariant on the part of the list that is done.\<close>

lemma rfold_steps:
  assumes step: "\<And>ys x zs s. xs = ys @ x # zs \<Longrightarrow> I ys s \<Longrightarrow> \<exists>s'. f x s = Inr s' \<and> I (ys @ [x]) s'"
    and start: "I [] s"
  shows "\<exists>s'. rfold f xs s = Inr s' \<and> I xs s'"
proof -
  have "\<exists>s'. rfold f (take n xs) s = Inr s' \<and> I (take n xs) s'" if "n \<le> length xs" for n
    using that
  proof (induction n)
    case 0
    then show ?case using start by simp
  next
    case (Suc n)
    then obtain s' where s': "rfold f (take n xs) s = Inr s'" "I (take n xs) s'" by auto
    have "xs = take n xs @ xs ! n # drop (Suc n) xs" using Suc.prems by (simp add: id_take_nth_drop)
    from step [OF this s'(2)] show ?case
      using s'(1) Suc.prems by (auto simp: take_Suc_conv_app_nth rfold_append)
  qed
  from this [of "length xs"] show ?thesis by simp
qed

text \<open>One more entry behind those that were laid over a row.\<close>

lemma overlay_snoc_row:
  assumes "k < length delta" "matrix_addr P row (start + k) < length Z"
  shows "(overlay 0 (matrix_addr P row start) (take k delta) Z)[matrix_addr P row (start + k) := delta ! k]
    = overlay 0 (matrix_addr P row start) (take (Suc k) delta) Z"
proof (rule nth_equalityI)
  fix a assume "a < length ((overlay 0 (matrix_addr P row start) (take k delta) Z)[matrix_addr P row (start + k) := delta ! k])"
  then show "(overlay 0 (matrix_addr P row start) (take k delta) Z)[matrix_addr P row (start + k) := delta ! k] ! a
      = overlay 0 (matrix_addr P row start) (take (Suc k) delta) Z ! a"
    using assms matrix_addr_row [of P row start k]
    by (auto simp: nth_overlay nth_list_update nth_append take_Suc_conv_app_nth)
qed simp

text \<open>Rows that are laid over a matrix one after the other.\<close>

definition lay_rows ::
  "matrix_view \<Rightarrow> ('a \<Rightarrow> nat) \<Rightarrow> ('a \<Rightarrow> real list) \<Rightarrow> 'a list \<Rightarrow> real list \<Rightarrow> real list" where
  "lay_rows P row vals xs buf = fold (\<lambda>x buf. overlay 0 (matrix_addr P (row x) 0) (vals x) buf) xs buf"

lemma lay_rows_simps [simp]:
  "lay_rows P row vals [] buf = buf" "length (lay_rows P row vals xs buf) = length buf"
  "lay_rows P row vals (xs @ [x]) buf
    = overlay 0 (matrix_addr P (row x) 0) (vals x) (lay_rows P row vals xs buf)"
proof -
  show "length (lay_rows P row vals xs buf) = length buf"
    unfolding lay_rows_def by (induction xs arbitrary: buf) simp_all
qed (simp_all add: lay_rows_def)

lemma lay_rows_entry:
  assumes "matrix_in (length buf) P" "\<And>x. x \<in> set xs \<Longrightarrow> int (row x) < mv_rows P \<and> int (length (vals x)) \<le> mv_cols P"
    and "inj_on row (set xs)" "distinct xs" "int r < mv_rows P" "int k < mv_cols P"
  shows "x \<in> set xs \<Longrightarrow> row x = r \<Longrightarrow> k < length (vals x) \<Longrightarrow> matrix_entry (lay_rows P row vals xs buf) P r k = vals x ! k"
    and "r \<notin> row ` set xs \<Longrightarrow> matrix_entry (lay_rows P row vals xs buf) P r k = matrix_entry buf P r k"
  using assms
proof (induction xs rule: rev_induct)
  case Nil
  { case 1 then show ?case by simp }
  { case 2 then show ?case by simp }
next
  case (snoc y xs)
  have last: "matrix_entry (lay_rows P row vals (xs @ [y]) buf) P r k
      = (if r = row y \<and> k < length (vals y) then vals y ! k
         else matrix_entry (lay_rows P row vals xs buf) P r k)"
    if "matrix_in (length buf) P" "\<And>x. x \<in> set (xs @ [y]) \<Longrightarrow> int (row x) < mv_rows P \<and> int (length (vals x)) \<le> mv_cols P"
      "int r < mv_rows P" "int k < mv_cols P"
    using that overlay_row_entry [of "lay_rows P row vals xs buf" P "row y" "vals y" r k] by simp
  { case 1
    note IH = snoc.IH(1)
    show ?case
    proof (cases "x = y")
      case True
      then show ?thesis using 1 last by simp
    next
      case False
      then have "row x \<noteq> row y" using 1 by (auto simp: inj_on_def)
      then show ?thesis using IH 1 False last by (simp add: inj_on_def)
    qed }
  { case 2 then show ?case using snoc.IH(2) last by (simp add: inj_on_def) }
qed

text \<open>Nothing outside the tile of the matrix changes.\<close>

definition in_tile :: "matrix_view \<Rightarrow> nat \<Rightarrow> bool" where
  "in_tile P a \<longleftrightarrow> nat (mv_base P) \<le> a \<and> a < nat (mv_base P) + nat (mv_rows P) * nat (mv_cols P)"

lemma overlay_row_outside:
  assumes "a < length buf" "\<not> in_tile P a" "int row < mv_rows P" "int (length vs) \<le> mv_cols P"
  shows "overlay 0 (matrix_addr P row 0) vs buf ! a = buf ! a"
proof -
  have "Suc row * nat (mv_cols P) \<le> nat (mv_rows P) * nat (mv_cols P)"
    using assms(3) by (intro mult_le_mono1) linarith
  then have "row * nat (mv_cols P) + length vs \<le> nat (mv_rows P) * nat (mv_cols P)" using assms(4) by simp
  then have "\<not> (matrix_addr P row 0 \<le> a \<and> a < matrix_addr P row 0 + length vs)"
    using assms(2) by (auto simp: in_tile_def matrix_addr_def)
  then show ?thesis unfolding nth_overlay [OF assms(1)] by (rule if_not_P)
qed

lemma lay_rows_outside:
  assumes "a < length buf" "\<not> in_tile P a"
    and "\<And>x. x \<in> set xs \<Longrightarrow> int (row x) < mv_rows P \<and> int (length (vals x)) \<le> mv_cols P"
  shows "lay_rows P row vals xs buf ! a = buf ! a"
  using assms(3)
proof (induction xs rule: rev_induct)
  case Nil
  then show ?case by simp
next
  case (snoc y xs)
  then show ?case using overlay_row_outside [of a "lay_rows P row vals xs buf" P "row y" "vals y"] assms(1,2) by simp
qed

section \<open>The weighted matrix\<close>

lemma scalar_size_pos: "d \<in> {1, 2, 3} \<Longrightarrow> 0 < scalar_size d m"
  by (auto simp: scalar_size_indices multi_indices_def idx1_def idx2_def idx3_def)

text \<open>The distance that a weight is made of; a staggered sample takes the middle of the edge.\<close>

definition sample_distance :: "nat \<Rightarrow> basis_data \<Rightarrow> nat \<Rightarrow> nat \<Rightarrow> real list list option \<Rightarrow> real" where
  "sample_distance d data i j V = EuclideanVectorLength (XYZ_member_scale (relative_point d (bd_pc data) i j V)
     (if sf_eq (bd_polynomial_sampling_functional data) StaggeredEdgeIntegralSample
        \<or> sf_eq (bd_polynomial_sampling_functional data) StaggeredEdgeAnalyticGradientIntegralSample
      then 5 / 10 else 1)) (int d)"

definition samples :: "nat \<Rightarrow> nat \<Rightarrow> (nat \<times> nat) list" where
  "samples n sm = concat (map (\<lambda>j. map (Pair j) [0..<sm]) [0..<n])"

definition sample_row :: "nat \<Rightarrow> nat \<times> nat \<Rightarrow> nat" where
  "sample_row n x = fst x + n * snd x"

lemma samples_set: "(j, c) \<in> set (samples n sm) \<longleftrightarrow> j < n \<and> c < sm"
  by (auto simp: samples_def image_iff Bex_def)

lemma samples_distinct: "distinct (samples n sm)"
  unfolding samples_def by (induction n) (auto simp: distinct_map inj_on_def)

lemma sample_row_inj: "inj_on (sample_row n) (set (samples n sm))"
proof (rule inj_onI)
  fix x y assume a: "x \<in> set (samples n sm)" "y \<in> set (samples n sm)" "sample_row n x = sample_row n y"
  obtain j c j' c' where xy: "x = (j, c)" "y = (j', c')" by (cases x, cases y)
  have "c * n + j = c' * n + j'" using a(3) by (simp add: sample_row_def xy ac_simps)
  moreover have "j < n" "j' < n" using a(1,2) by (simp_all add: xy samples_set)
  ultimately show "x = y" using tile_inj [of c n j c' j'] by (simp add: xy)
qed

lemma sample_row_bound: "x \<in> set (samples n sm) \<Longrightarrow> sample_row n x < sm * n"
  using tile_bound [of "snd x" sm "fst x" n] by (cases x) (simp add: samples_set sample_row_def ac_simps)

definition write_weights :: "nat \<Rightarrow> (nat \<Rightarrow> real) \<Rightarrow> (nat \<times> nat) list \<Rightarrow> real list \<Rightarrow> real list" where
  "write_weights n wt xs w = fold (\<lambda>x w. w[sample_row n x := wt (fst x)]) xs w"

lemma length_write_weights [simp]: "length (write_weights n wt xs w) = length w"
  unfolding write_weights_def by (induction xs arbitrary: w) simp_all

lemma nth_write_weights:
  assumes "sm * n \<le> length w" "j < n" "c < sm"
  shows "write_weights n wt (samples n sm) w ! (j + n * c) = wt j"
proof -
  have x: "(j, c) \<in> set (samples n sm)" using assms(2,3) by (simp add: samples_set)
  have "write_weights n wt (samples n sm) w ! sample_row n (j, c) = wt (fst (j, c))"
    unfolding write_weights_def
  proof (rule fold_update_written [OF x])
    show "sample_row n y < length w" if "y \<in> set (samples n sm)" for y
      using sample_row_bound [OF that] assms(1) by linarith
    show "wt (fst y) = wt (fst z)"
      if "y \<in> set (samples n sm)" "z \<in> set (samples n sm)" "sample_row n y = sample_row n z" for y z
      using sample_row_inj [of n sm] that by (auto dest: inj_onD)
  qed
  then show ?thesis by (simp add: sample_row_def)
qed

definition basis_row :: "nat \<Rightarrow> nat \<Rightarrow> basis_data \<Rightarrow> nat \<Rightarrow> real list list option \<Rightarrow> nat \<Rightarrow> real list" where
  "basis_row d m data i V j
     = scalar_row d m (bd_epsilons data ! i) (coords (neighbor_offset d d data i j V))"

definition weighted_row :: "bool \<Rightarrow> real list \<Rightarrow> real \<Rightarrow> real list" where
  "weighted_row weight_p vs wt = map (\<lambda>v. if weight_p then v * sqrt wt else v) vs"

text \<open>
  Each row holds the basis at its neighbor, times the root of the weight when \<open>weight_p\<close>
  is set; the components of a neighbor have the same row and the same weight.
\<close>

lemma weighted_rows:
  assumes ready: "basis_ready d d data V" and i: "i < nl_rows (pc_nla (bd_pc data))"
    and target: "bd_initial_index_for_batch data + league_rank = int i"
    and deg: "m \<le> 14" and sf: "traditional_sample sf" and space: "scalar_space space"
    and fit: "buffers_fit d m 1 delta workspace"
    and size: "getNP (int m) (int d) space * bd_basis_multiplier data = int (scalar_size d m)"
    and sm: "bd_sampling_multiplier data = int sm" and n: "n = nl_count (pc_nla (bd_pc data)) i"
    and wt: "\<And>j. j < n \<Longrightarrow> Wab (sample_distance d data i j V) (bd_epsilons data ! i)
        (bd_weighting_type data) (bd_weighting_p data) (bd_weighting_n data) = Inr (wt j)"
    and P: "matrix_in (length buf) P" "int (sm * n) \<le> mv_rows P" "int (scalar_size d m) \<le> mv_cols P"
    and w: "sm * n \<le> length w"
  shows "createWeightsAndP dbg data league_rank delta workspace P (int d) m weight_p V space sf (buf, w)
    = Inr (lay_rows P (sample_row n) (\<lambda>x. weighted_row weight_p (basis_row d m data i V (fst x)) (wt (fst x)))
        (samples n sm) buf, write_weights n wt (samples n sm) w)"
proof -
  note r = ready [unfolded basis_ready_def]
  let ?h = "bd_epsilons data ! i"
  define weighted where "weighted x = weighted_row weight_p (basis_row d m data i V (fst x)) (wt (fst x))" for x :: "nat \<times> nat"
  define step where "step = (\<lambda>(j, c) (delta, thread_workspace, buf, w).
          let alpha_weight =
                (if sf_eq (bd_polynomial_sampling_functional data) StaggeredEdgeIntegralSample
                    \<or> sf_eq (bd_polynomial_sampling_functional data)
                        StaggeredEdgeAnalyticGradientIntegralSample then 5 / 10 else 1)
          in rbind (getRelativeCoord dbg (bd_pc data) (int i) (int j) (int d) V) (\<lambda>p.
          let r = EuclideanVectorLength (XYZ_member_scale p alpha_weight) (int d)
          in rbind (view_read (bd_epsilons data) (int i)) (\<lambda>epsilon.
          rbind (Wab r epsilon (bd_weighting_type data) (bd_weighting_p data) (bd_weighting_n data)) (\<lambda>wab.
          rbind (view_write w (int j + int n * int c) wab) (\<lambda>w.
          rbind (calcPij dbg data delta thread_workspace (int i) (int j + int c * int n) 0
                   (int d) m False V space sf 0) (\<lambda>(delta, thread_workspace).
          rbind (view_read w (int j + int n * int c)) (\<lambda>wi.
          rbind (write_row delta P (int j + int n * int c) (int (scalar_size d m))
                   (\<lambda>x. if weight_p then x * sqrt wi else x) buf) (\<lambda>buf.
          Inr (delta, thread_workspace, buf, w)))))))))"
  define I where "I = (\<lambda>xs (delta' :: real list, ws' :: real list, buf', w'). length delta' = length delta \<and> length ws' = length workspace
      \<and> buf' = lay_rows P (sample_row n) weighted xs buf \<and> w' = write_weights n wt xs w)"
  have round_: "\<exists>s'. step x s = Inr s' \<and> I (ys @ [x]) s'"
    if dec: "samples n sm = ys @ x # zs" and inv: "I ys s"
    for ys x zs and s :: "real list \<times> real list \<times> real list \<times> real list"
  proof -
    obtain j c where x: "x = (j, c)" by (cases x)
    obtain delta' ws' buf' w' where s: "s = (delta', ws', buf', w')" by (cases s)
    have jc: "j < n" "c < sm" using arg_cong [OF dec, of set] samples_set [of j c n sm] by (auto simp: x)
    have mem: "x \<in> set (samples n sm)" using dec by simp
    have row: "int j + int n * int c = int (sample_row n x)" "sample_row n x < sm * n"
      using sample_row_bound [OF mem] by (simp_all add: sample_row_def x)
    have len: "length delta' = length delta" "length ws' = length workspace" "length w' = length w"
      "length buf' = length buf"
      using inv by (simp_all add: I_def s)
    have dist: "rbind (getRelativeCoord dbg (bd_pc data) (int i) (int j) (int d) V) g
        = g (relative_point d (bd_pc data) i j V)" for g :: "XYZ \<Rightarrow> (real list \<times> real list \<times> real list \<times> real list) result"
      using relative_coord_eq [of d "bd_pc data" i j V dbg] r i jc(1) by (simp add: n)
    have fit': "buffers_fit d m 1 delta' ws'" using fit len by (simp add: buffers_fit_def)
    have place: "split_neighbor data (int i) (int j + int c * int n) = Inr (int c, int j)"
      using split_neighbor_eq [OF ready_wf [OF ready] i, of j c] jc(1) by (simp add: n)
    have at: "relative_coord dbg data (int i) (int j) 0 (int d) V 0 = Inr (neighbor_offset d d data i j V)"
      using relative_coord_neighbor [OF ready i, of j dbg 0 0] jc(1)
      by (simp add: n XYZ_const_scale_def XYZ_scale_def XYZ_mult_def XYZ_make_def)
    obtain ws'' where val: "calcPij dbg data delta' ws' (int i) (int j + int c * int n) 0 (int d) m False V space sf 0
        = Inr (overlay 0 0 (scalar_row d m ?h (coords (neighbor_offset d d data i j V))) delta', ws'')"
        "length ws'' = length ws'"
      using point_sample_at [OF ready i deg sf space fit' place at] by blast
    let ?vs = "scalar_row d m ?h (coords (neighbor_offset d d data i j V))"
    have lvs: "length ?vs = scalar_size d m"
      using length_scalar_row [OF ready_dim [OF ready] deg] by (simp add: coords_def)
    have pre: "take (scalar_size d m) (overlay 0 0 ?vs delta') = ?vs"
      using fit' lvs by (intro nth_equalityI) (auto simp: nth_overlay buffers_fit_def)
    have wr: "view_write w' (int j + int n * int c) (wt j) = Inr (w'[sample_row n x := wt j])"
      "view_read (w'[sample_row n x := wt j]) (int j + int n * int c) = Inr (wt j)"
      using row w len by simp_all
    have rw: "write_row (overlay 0 0 ?vs delta') P (int j + int n * int c) (int (scalar_size d m))
        (\<lambda>v. if weight_p then v * sqrt (wt j) else v) buf'
      = Inr (overlay 0 (matrix_addr P (sample_row n x) 0) (weighted x) buf')"
    proof -
      have "int (sample_row n x) < mv_rows P" using row(2) P(2) by linarith
      then show ?thesis
        using rfold_row_writes [of buf' P "sample_row n x" "scalar_size d m" "overlay 0 0 ?vs delta'"
            "\<lambda>v. if weight_p then v * sqrt (wt j) else v"] P(1,3) len fit' unfolding row(1) pre
        by (simp add: weighted_def weighted_row_def basis_row_def x buffers_fit_def)
    qed
    have "step x s = Inr (overlay 0 0 ?vs delta', ws'',
        overlay 0 (matrix_addr P (sample_row n x) 0) (weighted x) buf', w'[sample_row n x := wt j])"
      using wt [OF jc(1)] by (simp add: step_def x s Let_def dist epsilon_read [OF ready i]
          sample_distance_def wr [unfolded x] val rw [unfolded x])
    moreover have "I (ys @ [x]) (overlay 0 0 ?vs delta', ws'',
        overlay 0 (matrix_addr P (sample_row n x) 0) (weighted x) buf', w'[sample_row n x := wt j])"
      using inv val(2) by (simp add: I_def s write_weights_def x)
    ultimately show ?thesis by blast
  qed
  have "I [] (map (\<lambda>_. 0) delta, map (\<lambda>_. 0) workspace, buf, w)"
    by (simp add: I_def write_weights_def)
  with round_ have "\<exists>s'. rfold step (samples n sm) (map (\<lambda>_. 0) delta, map (\<lambda>_. 0) workspace, buf, w) = Inr s'
      \<and> I (samples n sm) s'"
    by (rule rfold_steps)
  then obtain s' where s': "rfold step (samples n sm) (map (\<lambda>_. 0) delta, map (\<lambda>_. 0) workspace, buf, w) = Inr s'"
    "I (samples n sm) s'" by blast
  have count: "getNumberOfNeighborsDevice (pc_nla (bd_pc data)) (int i) = Inr (int n)"
    using nl_count_device [OF ready_wf [OF ready] i] by (simp add: n)
  show ?thesis
    using s' unfolding samples_def rfold_concat rfold_map
    by (auto simp: createWeightsAndP_def target count Let_def sm size step_def I_def samples_def weighted_def [abs_def])
qed

section \<open>Rows of the target operations\<close>

lemma combine_at:
  assumes "matrix_in (length Z) P" "int row < mv_rows P" "int (start + n) \<le> mv_cols P" "n \<le> length delta"
  shows "target_store P (int row) (int start) (int n) (delta, workspace, Z)
    = Inr (delta, workspace, overlay 0 (matrix_addr P row start) (take n delta) Z)"
proof -
  have "rfold (\<lambda>j Z. rbind (view_read delta (int j)) (\<lambda>x.
         rbind (matrix_read Z P (int row) (int start + int j)) (\<lambda>old.
         matrix_write Z P (int row) (int start + int j) x))) [0..<k] Z
      = Inr (overlay 0 (matrix_addr P row start) (take k delta) Z)" if "k \<le> n" for k
    using that
  proof (induction k)
    case 0
    then show ?case by simp
  next
    case (Suc k)
    have col: "int start + int k = int (start + k)" "int (start + k) < mv_cols P" using Suc.prems assms(3) by simp_all
    let ?b = "overlay 0 (matrix_addr P row start) (take k delta) Z"
    have snoc: "?b[matrix_addr P row (start + k) := delta ! k]
        = overlay 0 (matrix_addr P row start) (take (Suc k) delta) Z"
      using Suc.prems assms matrix_addr_bound [OF assms(1,2) col(2)] by (intro overlay_snoc_row) simp_all
    have old: "matrix_read ?b P (int row) (int (start + k)) = Inr (matrix_entry ?b P row (start + k))"
      using assms(1,2) col(2) by (intro matrix_read_in) simp_all
    have new: "matrix_write ?b P (int row) (int (start + k)) (delta ! k) = Inr (?b[matrix_addr P row (start + k) := delta ! k])"
      using assms(1,2) col(2) by (intro matrix_write_in) simp_all
    have x: "view_read delta (int k) = Inr (delta ! k)" using Suc.prems assms(4) by simp
    show ?case
      using Suc.IH Suc.prems unfolding upt_Suc_append [OF le0] rfold_append
      by (simp only: rbind_Inr rfold.simps Suc_leD x col(1) old new snoc)
  qed
  from this [OF order_refl] show ?thesis by (simp add: target_store_def target_combine_def)
qed


text \<open>The sites of a target: the target itself, and the additional ones.\<close>

definition site_offset :: "nat \<Rightarrow> nat \<Rightarrow> basis_data \<Rightarrow> nat \<Rightarrow> nat \<Rightarrow> XYZ" where
  "site_offset d nd data i e =
     (if e = 0 then XYZ_make 0 0 0
      else local_vector d nd None (XYZ_sub
        (row_point (pc_source_coordinates (bd_additional_pc data) ! neighbor_of (bd_additional_pc data) i (e - 1)))
        (row_point (pc_target_coordinates (bd_pc data) ! i))))"

text \<open>A number of sites for which the additional connections have coordinates.\<close>

definition sites_valid :: "nat \<Rightarrow> basis_data \<Rightarrow> nat \<Rightarrow> nat \<Rightarrow> bool" where
  "sites_valid d data i sites \<longleftrightarrow>
     (1 < sites \<longrightarrow> pc_valid d (bd_additional_pc data) \<and> i < nl_rows (pc_nla (bd_additional_pc data))
        \<and> sites - 1 \<le> nl_count (pc_nla (bd_additional_pc data)) i)"

lemma relative_coord_site:
  assumes "basis_ready d nd data None" "i < nl_rows (pc_nla (bd_pc data))" "sites_valid d data i sites" "e < sites"
  shows "relative_coord dbg data (int i) (- int c - 1) alpha (int nd) None (int e) = Inr (site_offset d nd data i e)"
proof (cases "e = 0")
  case True
  then show ?thesis by (simp add: relative_coord_def site_offset_def)
next
  case False
  note r = assms(1) [unfolded basis_ready_def]
  have s: "pc_valid d (bd_additional_pc data)" "i < nl_rows (pc_nla (bd_additional_pc data))"
    "e - 1 < nl_count (pc_nla (bd_additional_pc data)) i"
    using assms(3,4) False by (auto simp: sites_valid_def)
  define p where "p = row_point (pc_source_coordinates (bd_additional_pc data) ! neighbor_of (bd_additional_pc data) i (e - 1))"
  define q where "q = row_point (pc_target_coordinates (bd_pc data) ! i)"
  have coords: "getTargetCoordinate dbg (bd_pc data) (int i) (int k) None = Inr (XYZ_index q (int k))"
      "getNeighborCoordinate dbg (bd_additional_pc data) (int i) (int e - 1) (int k) None = Inr (XYZ_index p (int k))"
    if "k < nd" for k
    using target_coordinate_eq [of d "bd_pc data" i k None dbg] r assms(2) that
      neighbor_coordinate_eq [OF s, of k None dbg] False
    by (simp_all add: frame_component_def p_def q_def of_nat_diff)
  show ?thesis
    using r False by (simp add: relative_coord_def coords Let_def index_set_set
        xyz_loop [where v = "\<lambda>k. XYZ_index p (int k) - XYZ_index q (int k)"])
      (simp add: site_offset_def local_vector_def frame_component_def XYZ_index_sub p_def q_def)
qed

text \<open>
  A scalar problem in \<open>d\<close> dimensions, with a basis of degree \<open>m\<close> and \<open>sites\<close> evaluation
  sites for target \<open>i\<close>.
\<close>

definition scalar_target_ready :: "nat \<Rightarrow> nat \<Rightarrow> basis_data \<Rightarrow> nat \<Rightarrow> nat \<Rightarrow> bool" where
  "scalar_target_ready d m data i sites \<longleftrightarrow>
     basis_ready d d data None \<and> i < nl_rows (pc_nla (bd_pc data)) \<and> m \<le> 14
     \<and> sites_valid d data i sites \<and> bd_epsilons data ! i \<noteq> 0
     \<and> bd_dimensions data = int d \<and> bd_poly_order data = int m
     \<and> ss_inv (bd_d_ss data) \<and> 0 \<le> ss_total_alpha_values (bd_d_ss data)"

text \<open>Scratch that is large enough, and a tile that lies in the buffer.\<close>

definition scratch_fits :: "nat \<Rightarrow> nat \<Rightarrow> matrix_view \<Rightarrow> scratch \<Rightarrow> bool" where
  "scratch_fits d m P st \<longleftrightarrow> (case st of (delta, workspace, Z) \<Rightarrow>
     buffers_fit d m 1 delta workspace \<and> matrix_in (length Z) P \<and> int (scalar_size d m) \<le> mv_cols P)"

definition same_scratch :: "scratch \<Rightarrow> scratch \<Rightarrow> bool" where
  "same_scratch st st' \<longleftrightarrow> (case st of (delta, workspace, Z) \<Rightarrow> case st' of (delta', workspace', Z') \<Rightarrow>
     length delta' = length delta \<and> length workspace' = length workspace \<and> length Z' = length Z)"

lemma same_scratch_fits: "same_scratch st st' \<Longrightarrow> scratch_fits d m P st \<Longrightarrow> scratch_fits d m P st'"
  by (auto simp: same_scratch_def scratch_fits_def buffers_fit_def)

lemma same_scratch_refl [simp]: "same_scratch st st"
  by (simp add: same_scratch_def split: prod.splits)

lemma same_scratch_trans: "same_scratch st st' \<Longrightarrow> same_scratch st' st'' \<Longrightarrow> same_scratch st st''"
  by (auto simp: same_scratch_def split: prod.splits)

lemma point_samples_traditional: "traditional_sample PointSample" "scalar_space ScalarTaylorPolynomial"
  by (simp_all add: traditional_sample_def scalar_space_def sf_eq_def)

lemma split_site_0:
  "scalar_target_ready d m data i sites \<Longrightarrow> split_neighbor data (int i) (- 1) = Inr (0, - 1)"
  using split_site [of data i 0] ready_wf [of d d data None] by (simp add: scalar_target_ready_def)

text \<open>A point evaluation stores the basis at the site, a gradient its derivative.\<close>

lemma point_row:
  assumes "scalar_target_ready d m data i sites" "scratch_fits d m P (delta, workspace, Z)"
    and "int row < mv_rows P" "e < sites"
  shows "\<exists>delta' workspace'. rbind (target_point dbg data (int i) ScalarTaylorPolynomial PointSample 0 (int e) (delta, workspace, Z))
      (target_store P (int row) 0 (int (scalar_size d m)))
    = Inr (delta', workspace', overlay 0 (matrix_addr P row 0)
        (scalar_row d m (bd_epsilons data ! i) (coords (site_offset d d data i e))) Z)
    \<and> length delta' = length delta \<and> length workspace' = length workspace"
proof -
  note r = assms(1) [unfolded scalar_target_ready_def] and f = assms(2) [unfolded scratch_fits_def prod.case]
  let ?vs = "scalar_row d m (bd_epsilons data ! i) (coords (site_offset d d data i e))"
  have at: "relative_coord dbg data (int i) (- 1) 1 (int d) None (int e) = Inr (site_offset d d data i e)"
    using relative_coord_site [of d d data i sites e dbg 0 1] r assms(4) by simp
  have split0: "split_neighbor data (int i) (- 1) = Inr (0, - 1)" using assms(1) by (rule split_site_0)
  obtain ws where ws: "calcPij dbg data delta workspace (int i) (- 1) 1 (int d) m False None
      ScalarTaylorPolynomial PointSample (int e) = Inr (overlay 0 0 ?vs delta, ws)" "length ws = length workspace"
    using point_sample_at [OF _ _ _ point_samples_traditional _ split0 at] r f by blast
  have len: "length ?vs = scalar_size d m"
    using length_scalar_row [OF ready_dim, of d d data None m] r by (simp add: coords_def)
  have pre: "take (scalar_size d m) (overlay 0 0 ?vs delta) = ?vs"
    using f len by (intro nth_equalityI) (auto simp: nth_overlay buffers_fit_def)
  have "target_store P (int row) (int 0) (int (scalar_size d m)) (overlay 0 0 ?vs delta, ws, Z)
      = Inr (overlay 0 0 ?vs delta, ws, overlay 0 (matrix_addr P row 0) (take (scalar_size d m) (overlay 0 0 ?vs delta)) Z)"
    using f assms(3) by (intro combine_at) (simp_all add: buffers_fit_def)
  then show ?thesis using ws r by (simp add: target_point_def pre)
qed

lemma tile_end:
  assumes "matrix_in n P"
  shows "nat (mv_base P) + nat (mv_rows P) * nat (mv_cols P) \<le> n"
proof -
  obtain b r c where m: "mv_base P = int b" "mv_rows P = int r" "mv_cols P = int c"
    using assms unfolding matrix_in_def by (metis nonneg_int_cases)
  then show ?thesis using assms by (simp add: matrix_in_def flip: of_nat_mult of_nat_add)
qed

lemma overlay_drop:
  assumes "p \<le> length Z"
  shows "take p Z @ overlay 0 0 vs (drop p Z) = overlay 0 p vs Z"
proof (rule nth_equalityI)
  fix a assume "a < length (take p Z @ overlay 0 0 vs (drop p Z))"
  then have a: "a < length Z" using assms by simp
  then have "a - p < length (drop p Z)" if "p \<le> a" using that by simp
  with a show "(take p Z @ overlay 0 0 vs (drop p Z)) ! a = overlay 0 p vs Z ! a"
    using assms by (auto simp: nth_append nth_overlay min_def)
qed (use assms in simp)

lemma gradient_row:
  assumes "scalar_target_ready d m data i sites" "scratch_fits d m P (delta, workspace, Z)"
    and "int row < mv_rows P" "0 < mv_cols P" "e < sites" "dir < d"
  shows "\<exists>workspace'. target_gradient_row dbg data (int i) P (int row) (int dir) (int e) (delta, workspace, Z)
    = Inr (delta, workspace', overlay 0 (matrix_addr P row 0)
        (scalar_partial_row d m dir (bd_epsilons data ! i) (coords (site_offset d d data i e))) Z)
    \<and> length workspace' = length workspace"
proof -
  note r = assms(1) [unfolded scalar_target_ready_def] and f = assms(2) [unfolded scratch_fits_def prod.case]
  let ?p = "matrix_addr P row 0"
  let ?vs = "scalar_partial_row d m dir (bd_epsilons data ! i) (coords (site_offset d d data i e))"
  have at: "relative_coord dbg data (int i) (- 1) 1 (int d) None (int e) = Inr (site_offset d d data i e)"
    using relative_coord_site [of d d data i sites e dbg 0 1] r assms(5) by simp
  have split0: "split_neighbor data (int i) (- 1) = Inr (0, - 1)" using assms(1) by (rule split_site_0)
  have place: "matrix_place P (int row) 0 = Inr (int ?p)"
    using matrix_place_in [of "length Z" P row 0] f assms(3,4) by simp
  have p: "?p + scalar_size d m \<le> length Z"
  proof -
    have "?p + nat (mv_cols P) \<le> length Z"
    proof -
      have "Suc row * nat (mv_cols P) \<le> nat (mv_rows P) * nat (mv_cols P)"
        using assms(3) by (intro mult_le_mono1) linarith
      moreover have "nat (mv_base P) + nat (mv_rows P) * nat (mv_cols P) \<le> length Z"
        using f tile_end by blast
      ultimately show ?thesis by (simp add: matrix_addr_def)
    qed
    then show ?thesis using f by linarith
  qed
  have "buffers_fit d m 1 (drop ?p Z) workspace" using f p by (simp add: buffers_fit_def)
  then obtain ws where ws: "calcGradientPij dbg data (drop ?p Z) workspace (int i) (- 1) 1 (int dir) (int d) m False None
      ScalarTaylorPolynomial PointSample (int e) = Inr (overlay 0 0 ?vs (drop ?p Z), ws)" "length ws = length workspace"
    using gradient_at [OF _ _ _ assms(6) point_samples_traditional _ split0 at] r by blast
  show ?thesis
    using ws r p overlay_drop [of ?p Z ?vs] by (simp add: target_gradient_row_def place)
qed

section \<open>Rows of an operation\<close>

lemma rows_loop:
  assumes step: "\<And>x st. x \<in> set xs \<Longrightarrow> scratch_fits d m P st \<Longrightarrow> \<exists>st'. f x st = Inr st' \<and> same_scratch st st'
      \<and> snd (snd st') = overlay 0 (matrix_addr P (row x) 0) (vals x) (snd (snd st))"
    and fits: "scratch_fits d m P st"
  shows "\<exists>st'. rfold f xs st = Inr st' \<and> same_scratch st st'
    \<and> snd (snd st') = lay_rows P row vals xs (snd (snd st))"
proof (rule rfold_steps [where I = "\<lambda>ys st'. same_scratch st st' \<and> snd (snd st') = lay_rows P row vals ys (snd (snd st))"])
  fix ys x zs st'
  assume "xs = ys @ x # zs" and inv: "same_scratch st st' \<and> snd (snd st') = lay_rows P row vals ys (snd (snd st))"
  then have "x \<in> set xs" "scratch_fits d m P st'" using same_scratch_fits [OF _ fits] by simp_all
  from step [OF this] inv show "\<exists>st''. f x st' = Inr st''
      \<and> same_scratch st st'' \<and> snd (snd st'') = lay_rows P row vals (ys @ [x]) (snd (snd st))"
    using same_scratch_trans by fastforce
qed simp

text \<open>
  The value of an operation on each polynomial of the basis, for a component of its result
  and a place.
\<close>

definition laplacian_places :: "nat \<Rightarrow> nat set" where
  "laplacian_places d = (if d = 3 then {4, 6, 9} else if d = 2 then {3, 5} else {2})"

definition functional_row :: "nat \<Rightarrow> nat \<Rightarrow> TargetOperation \<Rightarrow> nat \<Rightarrow> real \<Rightarrow> real list \<Rightarrow> real list" where
  "functional_row d m op out h p =
     (if op = GradientOfScalarPointEvaluation then scalar_partial_row d m out h p
      else if op = PartialXOfScalarPointEvaluation then scalar_partial_row d m 0 h p
      else if op = PartialYOfScalarPointEvaluation then scalar_partial_row d m 1 h p
      else if op = PartialZOfScalarPointEvaluation then scalar_partial_row d m 2 h p
      else if op = LaplacianOfScalarPointEvaluation then
        map (\<lambda>k. if k \<in> laplacian_places d then 1 / h ^ 2 else 0) [0..<scalar_size d m]
      else scalar_row d m h p)"

text \<open>The operations that a scalar problem has and the components of their results.\<close>

definition scalar_operation :: "nat \<Rightarrow> nat \<Rightarrow> TargetOperation \<Rightarrow> bool" where
  "scalar_operation d m op \<longleftrightarrow>
     op \<in> {ScalarPointEvaluation, GradientOfScalarPointEvaluation, PartialXOfScalarPointEvaluation}
     \<or> op = PartialYOfScalarPointEvaluation \<and> 1 < d \<or> op = PartialZOfScalarPointEvaluation \<and> 2 < d
     \<or> op = LaplacianOfScalarPointEvaluation \<and> 2 \<le> m"

definition op_outs :: "nat \<Rightarrow> TargetOperation \<Rightarrow> nat" where
  "op_outs d op = (if op = GradientOfScalarPointEvaluation then d else 1)"

definition op_sites :: "nat \<Rightarrow> TargetOperation \<Rightarrow> nat" where
  "op_sites sites op = (if op = LaplacianOfScalarPointEvaluation then 1 else sites)"

definition op_places :: "nat \<Rightarrow> nat \<Rightarrow> TargetOperation \<Rightarrow> (nat \<times> nat) list" where
  "op_places d sites op = concat (map (\<lambda>e. map (\<lambda>out. (out, e)) [0..<op_outs d op]) [0..<op_sites sites op])"

lemma op_places_set: "(out, e) \<in> set (op_places d sites op) \<longleftrightarrow> out < op_outs d op \<and> e < op_sites sites op"
  by (auto simp: op_places_def image_iff Bex_def)

definition place_row :: "basis_data \<Rightarrow> nat \<Rightarrow> nat \<times> nat \<Rightarrow> nat" where
  "place_row data j x = alpha_column (bd_d_ss data) j 0 (fst x) (snd x)"

definition place_values :: "nat \<Rightarrow> nat \<Rightarrow> basis_data \<Rightarrow> nat \<Rightarrow> TargetOperation \<Rightarrow> nat \<times> nat \<Rightarrow> real list" where
  "place_values d m data i op x
     = functional_row d m op (fst x) (bd_epsilons data ! i) (coords (site_offset d d data i (snd x)))"

lemma length_place_values:
  assumes "scalar_target_ready d m data i sites" "scalar_operation d m op" "fst x < op_outs d op"
  shows "length (place_values d m data i op x) = scalar_size d m"
proof -
  have d: "d \<in> {1, 2, 3}" "m \<le> 14" using assms(1) ready_dim by (auto simp: scalar_target_ready_def)
  have "length (scalar_partial_row d m k h (coords p)) = scalar_size d m" if "k < d" for k h p
    using scalar_rows(2) [OF d that that, of "coords p" h] d by (simp add: coords_def scalar_size_indices)
  then show ?thesis
    using length_scalar_row [OF d] assms(2,3) d
    by (auto simp: place_values_def functional_row_def scalar_operation_def op_outs_def coords_def)
qed

lemma with_row_at:
  assumes "scalar_target_ready d m data i sites" "j < ss_rows (bd_d_ss data)"
  shows "with_row data (int j) 0 (int out) (int e) body st = body (int (place_row data j (out, e))) st"
  using target_offset_code [of "bd_d_ss data" j 0 out e] assms
  by (simp add: with_row_def scalar_target_ready_def place_row_def)

text \<open>Values at some places of a row of zeros.\<close>

lemma scattered_writes:
  assumes "matrix_in (length Z) P" "int row < mv_rows P" "\<forall>k \<in> set ks. int k < mv_cols P \<and> k < n"
    and "int n \<le> mv_cols P" "\<forall>k < n. matrix_entry Z P row k = (if k \<in> A then v else 0)"
  shows "target_writes P (int row) (map int ks) v (delta, workspace, Z)
    = Inr (delta, workspace, overlay 0 (matrix_addr P row 0) (map (\<lambda>k. if k \<in> A \<union> set ks then v else 0) [0..<n]) Z)"
  using assms(1,3,5)
proof (induction ks arbitrary: Z A)
  case Nil
  have "overlay 0 (matrix_addr P row 0) (map (\<lambda>k. if k \<in> A then v else 0) [0..<n]) Z = Z"
  proof (rule nth_equalityI)
    fix a assume "a < length (overlay 0 (matrix_addr P row 0) (map (\<lambda>k. if k \<in> A then v else 0) [0..<n]) Z)"
    then have a: "a < length Z" by simp
    let ?k = "a - matrix_addr P row 0"
    have "Z ! a = (if ?k \<in> A then v else 0)" if "matrix_addr P row 0 \<le> a" "?k < n"
      using Nil(3) that matrix_addr_row [of P row 0 ?k] by (auto simp: matrix_entry_def)
    then show "overlay 0 (matrix_addr P row 0) (map (\<lambda>k. if k \<in> A then v else 0) [0..<n]) Z ! a = Z ! a"
      using a by (auto simp: nth_overlay)
  qed simp
  then show ?case by (simp add: target_writes_def)
next
  case (Cons k ks)
  let ?Z = "Z[matrix_addr P row k := v]"
  have k: "int k < mv_cols P" "k < n" using Cons.prems(2) by simp_all
  have b: "matrix_addr P row k < length Z" using matrix_addr_bound [OF Cons.prems(1) assms(2) k(1)] .
  have entries: "\<forall>l < n. matrix_entry ?Z P row l = (if l \<in> insert k A then v else 0)"
  proof (intro allI impI)
    fix l assume l: "l < n"
    have "matrix_addr P row l = matrix_addr P row 0 + l" "matrix_addr P row k = matrix_addr P row 0 + k"
      using matrix_addr_row [of P row 0 l] matrix_addr_row [of P row 0 k] by simp_all
    then show "matrix_entry ?Z P row l = (if l \<in> insert k A then v else 0)"
      using Cons.prems(3) l b by (auto simp: matrix_entry_def nth_list_update)
  qed
  have "target_writes P (int row) (map int ks) v (delta, workspace, ?Z) = Inr (delta, workspace,
      overlay 0 (matrix_addr P row 0) (map (\<lambda>l. if l \<in> insert k A \<union> set ks then v else 0) [0..<n]) ?Z)"
    using Cons.prems by (intro Cons.IH entries) simp_all
  moreover have "overlay 0 (matrix_addr P row 0) vs ?Z = overlay 0 (matrix_addr P row 0) vs Z"
    if "length vs = n" for vs
  proof (rule nth_equalityI)
    fix a assume "a < length (overlay 0 (matrix_addr P row 0) vs ?Z)"
    then show "overlay 0 (matrix_addr P row 0) vs ?Z ! a = overlay 0 (matrix_addr P row 0) vs Z ! a"
      using that k(2) matrix_addr_row [of P row 0 k] by (auto simp: nth_overlay nth_list_update)
  qed simp
  moreover have "matrix_write Z P (int row) (int k) v = Inr ?Z"
    using Cons.prems(1) assms(2) k(1) by (rule matrix_write_in)
  ultimately show ?case by (simp add: target_writes_def target_write_def)
qed

text \<open>
  An operation lays its rows over the tile; the Laplacian needs its row to be zero before.
\<close>

lemma point_operation:
  assumes "scalar_target_ready d m data i sites" "scratch_fits d m P st" "j < ss_rows (bd_d_ss data)"
    and "\<And>x. x \<in> set (op_places d sites op) \<Longrightarrow> int (place_row data j x) < mv_rows P"
    and "op = ScalarPointEvaluation"
  shows "\<exists>st'. scalar_point_target dbg data (int i) (int j) (int sites) (int (scalar_size d m)) P st = Inr (True, st')
    \<and> same_scratch st st'
    \<and> snd (snd st') = lay_rows P (place_row data j) (place_values d m data i op) (op_places d sites op) (snd (snd st))"
proof -
  define step where "step = (\<lambda>x st. rbind (target_point dbg data (int i) ScalarTaylorPolynomial PointSample 0 (int (snd x)) st)
      (with_row data (int j) 0 (int (fst x)) (int (snd x)) (\<lambda>row. target_store P row 0 (int (scalar_size d m)))))"
  have ok: "\<exists>st'. step x st = Inr st' \<and> same_scratch st st'
      \<and> snd (snd st') = overlay 0 (matrix_addr P (place_row data j x) 0) (place_values d m data i op x) (snd (snd st))"
    if "x \<in> set (op_places d sites op)" "scratch_fits d m P st" for x st
  proof -
    obtain delta ws Z where st: "st = (delta, ws, Z)" by (cases st)
    have x: "fst x = 0" "snd x < sites"
      using that(1) op_places_set [of "fst x" "snd x"] assms(5) by (auto simp: op_outs_def op_sites_def)
    have "step x st = rbind (target_point dbg data (int i) ScalarTaylorPolynomial PointSample 0 (int (snd x)) st)
        (target_store P (int (place_row data j x)) 0 (int (scalar_size d m)))"
      unfolding step_def with_row_at [OF assms(1,3)] by simp
    then show ?thesis
      using point_row [OF assms(1) that(2) [unfolded st] assms(4) [OF that(1)] x(2), of dbg] assms(5)
      by (auto simp: st same_scratch_def place_values_def functional_row_def)
  qed
  have run: "\<exists>st'. rfold step (op_places d sites op) st = Inr st' \<and> same_scratch st st'
      \<and> snd (snd st') = lay_rows P (place_row data j) (place_values d m data i op) (op_places d sites op) (snd (snd st))"
    by (rule rows_loop [OF _ assms(2)]) (rule ok)
  have "rfold step (op_places d sites op) st = rfold (\<lambda>e. step (0, e)) [0..<sites] st"
    using assms(5) by (simp add: op_places_def op_outs_def op_sites_def rfold_concat rfold_map rfold_single)
  then show ?thesis using run by (auto simp: scalar_point_target_def at_sites_def step_def)
qed

lemma derivative_step:
  assumes "scalar_target_ready d m data i sites" "scratch_fits d m P st" "j < ss_rows (bd_d_ss data)"
    and "int (place_row data j x) < mv_rows P" "snd x < sites" "dir < d"
    and "place_values d m data i op x = scalar_partial_row d m dir (bd_epsilons data ! i)
      (coords (site_offset d d data i (snd x)))"
  shows "\<exists>st'. with_row data (int j) 0 (int (fst x)) (int (snd x))
        (\<lambda>row. target_gradient_row dbg data (int i) P row (int dir) (int (snd x))) st = Inr st'
      \<and> same_scratch st st'
      \<and> snd (snd st') = overlay 0 (matrix_addr P (place_row data j x) 0) (place_values d m data i op x) (snd (snd st))"
proof -
  obtain delta ws Z where st: "st = (delta, ws, Z)" by (cases st)
  have "0 < scalar_size d m"
    using assms(1) ready_dim [of d d data None] by (intro scalar_size_pos) (simp add: scalar_target_ready_def)
  then have "0 < mv_cols P" using assms(2) by (simp add: scratch_fits_def st)
  from gradient_row [OF assms(1) assms(2) [unfolded st] assms(4) this assms(5,6), of dbg]
  show ?thesis
    by (auto simp: with_row_at [OF assms(1,3)] st same_scratch_def assms(7))
qed

lemma gradient_operation:
  assumes "scalar_target_ready d m data i sites" "scratch_fits d m P st" "j < ss_rows (bd_d_ss data)"
    and "\<And>x. x \<in> set (op_places d sites op) \<Longrightarrow> int (place_row data j x) < mv_rows P"
    and "op = GradientOfScalarPointEvaluation"
  shows "\<exists>st'. gradient_target dbg data (int i) (int j) (int sites) P st = Inr (True, st')
    \<and> same_scratch st st'
    \<and> snd (snd st') = lay_rows P (place_row data j) (place_values d m data i op) (op_places d sites op) (snd (snd st))"
proof -
  define step where "step = (\<lambda>x. with_row data (int j) 0 (int (fst x)) (int (snd x))
        (\<lambda>row. target_gradient_row dbg data (int i) P row (int (fst x)) (int (snd x))))"
  have ok: "\<exists>st'. step x st = Inr st' \<and> same_scratch st st'
      \<and> snd (snd st') = overlay 0 (matrix_addr P (place_row data j x) 0) (place_values d m data i op x) (snd (snd st))"
    if "x \<in> set (op_places d sites op)" "scratch_fits d m P st" for x st
  proof -
    have x: "fst x < d" "snd x < sites"
      using that(1) op_places_set [of "fst x" "snd x"] assms(5) by (auto simp: op_outs_def op_sites_def)
    show ?thesis
      unfolding step_def
      by (rule derivative_step [OF assms(1) that(2) assms(3) assms(4) [OF that(1)] x(2,1)])
        (simp add: place_values_def functional_row_def assms(5))
  qed
  have run: "\<exists>st'. rfold step (op_places d sites op) st = Inr st' \<and> same_scratch st st'
      \<and> snd (snd st') = lay_rows P (place_row data j) (place_values d m data i op) (op_places d sites op) (snd (snd st))"
    by (rule rows_loop [OF _ assms(2)]) (rule ok)
  have "rfold step (op_places d sites op) st = rfold (\<lambda>e. rfold (\<lambda>k. step (k, e)) [0..<d]) [0..<sites] st"
    using assms(5) by (simp add: op_places_def op_outs_def op_sites_def rfold_concat rfold_map)
  then show ?thesis
    using run assms(1) by (auto simp: gradient_target_def at_sites_def for_upto_def step_def scalar_target_ready_def)
qed

lemma partial_operation:
  assumes "scalar_target_ready d m data i sites" "scratch_fits d m P st" "j < ss_rows (bd_d_ss data)"
    and "\<And>x. x \<in> set (op_places d sites op) \<Longrightarrow> int (place_row data j x) < mv_rows P"
    and "dir < d" "op_outs d op = 1" "op_sites sites op = sites"
    and "\<And>h p. functional_row d m op 0 h p = scalar_partial_row d m dir h p"
  shows "\<exists>st'. partial_target dbg data (int i) (int j) (int sites) P (int dir) st = Inr (True, st')
    \<and> same_scratch st st'
    \<and> snd (snd st') = lay_rows P (place_row data j) (place_values d m data i op) (op_places d sites op) (snd (snd st))"
proof -
  define step where "step = (\<lambda>x. with_row data (int j) 0 (int (fst x)) (int (snd x))
        (\<lambda>row. target_gradient_row dbg data (int i) P row (int dir) (int (snd x))))"
  have ok: "\<exists>st'. step x st = Inr st' \<and> same_scratch st st'
      \<and> snd (snd st') = overlay 0 (matrix_addr P (place_row data j x) 0) (place_values d m data i op x) (snd (snd st))"
    if "x \<in> set (op_places d sites op)" "scratch_fits d m P st" for x st
  proof -
    have x: "fst x = 0" "snd x < sites"
      using that(1) op_places_set [of "fst x" "snd x"] assms(6,7) by auto
    show ?thesis
      unfolding step_def
      by (rule derivative_step [OF assms(1) that(2) assms(3) assms(4) [OF that(1)] x(2) assms(5)])
        (simp add: place_values_def assms(8) x(1))
  qed
  have run: "\<exists>st'. rfold step (op_places d sites op) st = Inr st' \<and> same_scratch st st'
      \<and> snd (snd st') = lay_rows P (place_row data j) (place_values d m data i op) (op_places d sites op) (snd (snd st))"
    by (rule rows_loop [OF _ assms(2)]) (rule ok)
  have "rfold step (op_places d sites op) st = rfold (\<lambda>e. step (0, e)) [0..<sites] st"
    using assms(6,7) by (simp add: op_places_def rfold_concat rfold_map rfold_single)
  then show ?thesis using run by (auto simp: partial_target_def at_sites_def step_def)
qed

lemma laplacian_room: "2 \<le> m \<Longrightarrow> 2 < scalar_size 1 m \<and> 5 < scalar_size 2 m \<and> 9 < scalar_size 3 m"
proof -
  assume m: "2 \<le> m"
  have "3 * 4 \<le> (m + 1) * (m + 2)" "3 * 4 * 5 \<le> (m + 1) * (m + 2) * (m + 3)"
    using m by (intro mult_le_mono; simp)+
  then show ?thesis
    using m length_idx1 [of m] length_idx2 [of m] length_idx3 [of m] by (simp add: scalar_size_indices multi_indices_def)
qed

lemma laplacian_operation:
  assumes "scalar_target_ready d m data i sites" "scratch_fits d m P st" "j < ss_rows (bd_d_ss data)"
    and "int (place_row data j (0, 0)) < mv_rows P" "2 \<le> m"
    and "\<forall>k < scalar_size d m. matrix_entry (snd (snd st)) P (place_row data j (0, 0)) k = 0"
    and "op = LaplacianOfScalarPointEvaluation"
  shows "\<exists>st'. laplacian_target data (int i) (int j) P st = Inr (False, st')
    \<and> same_scratch st st'
    \<and> snd (snd st') = lay_rows P (place_row data j) (place_values d m data i op) (op_places d sites op) (snd (snd st))"
proof -
  obtain delta ws Z where st: "st = (delta, ws, Z)" by (cases st)
  note r = assms(1) [unfolded scalar_target_ready_def]
  let ?h = "bd_epsilons data ! i" and ?row = "place_row data j (0, 0)"
  define ks where "ks = (if d = 3 then [4, 6, 9] else if d = 2 then [3, 5] else [2 :: nat])"
  have d: "d = 1 \<or> d = 2 \<or> d = 3" using r ready_dim [of d d data None] by simp
  have size_: "\<forall>k \<in> set ks. k < scalar_size d m"
    using laplacian_room [OF assms(5)] d assms(5) by (auto simp: ks_def)
  have ks: "set ks = laplacian_places d" by (simp add: ks_def laplacian_places_def)
  have v: "epsilon_power data (int i) (- 2) = Inr (1 / ?h ^ 2)"
    using r epsilon_read [of d d data None i]
    by (simp add: epsilon_power_def pow_int_def power_int_def divide_inverse power_inverse)
  have "target_writes P (int ?row) (map int ks) (1 / ?h ^ 2) (delta, ws, Z) = Inr (delta, ws,
      overlay 0 (matrix_addr P ?row 0) (map (\<lambda>k. if k \<in> {} \<union> set ks then 1 / ?h ^ 2 else 0) [0..<scalar_size d m]) Z)"
    using assms(2,4,6) size_ by (intro scattered_writes) (auto simp: st scratch_fits_def)
  moreover have "(if bd_dimensions data = 3 then [4, 6, 9] else if bd_dimensions data = 2 then [3, 5] else [2])
      = map int ks"
    using r by (simp add: ks_def)
  moreover have "op_places d sites op = [(0, 0)]" by (simp add: op_places_def op_outs_def op_sites_def assms(7))
  ultimately show ?thesis
    using v by (simp add: laplacian_target_def at_target_def with_row_at [OF assms(1,3), of 0 0, simplified] st
        same_scratch_def lay_rows_def place_values_def functional_row_def assms(7) ks)
qed

lemma scalar_operation_rows:
  assumes "scalar_target_ready d m data i sites" "scratch_fits d m P st" "j < ss_rows (bd_d_ss data)"
    and "\<And>x. x \<in> set (op_places d sites op) \<Longrightarrow> int (place_row data j x) < mv_rows P"
    and "scalar_operation d m op" "1 \<le> sites"
    and "\<And>x k. x \<in> set (op_places d sites op) \<Longrightarrow> k < scalar_size d m
      \<Longrightarrow> matrix_entry (snd (snd st)) P (place_row data j x) k = 0"
  shows "\<exists>st'. ScalarTaylor_target dbg data (int i) (int j) (int sites) (int (scalar_size d m)) P op st
      = Inr (op \<noteq> LaplacianOfScalarPointEvaluation, st')
    \<and> same_scratch st st'
    \<and> snd (snd st') = lay_rows P (place_row data j) (place_values d m data i op) (op_places d sites op) (snd (snd st))"
proof -
  have d: "bd_dimensions data = int d" "0 < d"
    using assms(1) by (auto simp: scalar_target_ready_def basis_ready_def)
  note partial = partial_operation [OF assms(1-4), where dbg = dbg]
  consider "op = ScalarPointEvaluation" | "op = GradientOfScalarPointEvaluation"
    | "op = PartialXOfScalarPointEvaluation" | "op = PartialYOfScalarPointEvaluation" "1 < d"
    | "op = PartialZOfScalarPointEvaluation" "2 < d" | "op = LaplacianOfScalarPointEvaluation" "2 \<le> m"
    using assms(5) by (auto simp: scalar_operation_def)
  then show ?thesis
  proof cases
    case 1
    then show ?thesis
      using point_operation [OF assms(1-4), where dbg = dbg] by (simp add: ScalarTaylor_target_def is_scalar_point_def)
  next
    case 2
    then show ?thesis
      using gradient_operation [OF assms(1-4), where dbg = dbg] by (simp add: ScalarTaylor_target_def is_scalar_point_def)
  next
    case 3
    then show ?thesis
      using partial [where dir = 0] d by (simp add: ScalarTaylor_target_def is_scalar_point_def op_outs_def op_sites_def functional_row_def)
  next
    case 4
    then show ?thesis
      using partial [where dir = 1] d by (simp add: ScalarTaylor_target_def is_scalar_point_def op_outs_def op_sites_def functional_row_def)
  next
    case 5
    then show ?thesis
      using partial [where dir = 2] d by (simp add: ScalarTaylor_target_def is_scalar_point_def op_outs_def op_sites_def functional_row_def)
  next
    case 6
    have "(0, 0) \<in> set (op_places d sites op)"
      using 6 op_places_set [of 0 0 d sites op] by (simp add: op_outs_def op_sites_def)
    then show ?thesis
      using laplacian_operation [OF assms(1-3) assms(4) 6(2)] assms(7) 6(1)
      by (simp add: ScalarTaylor_target_def is_scalar_point_def)
  qed
qed

section \<open>All operations of a target\<close>

lemma zero_tile_rows:
  assumes "matrix_in (length Z) P"
  shows "zero_tile P Z = Inr (lay_rows P (\<lambda>j. j) (\<lambda>_. replicate (nat (mv_cols P)) 0) [0..<nat (mv_rows P)] Z)"
proof -
  define c where "c = nat (mv_cols P)"
  have c: "mv_cols P = int c" using assms by (simp add: c_def matrix_in_def)
  have row: "rfold (\<lambda>k Z. matrix_write Z P (int j) (int k) 0) [0..<c] Z'
      = Inr (overlay 0 (matrix_addr P j 0) (replicate c 0) Z')"
    if "j < nat (mv_rows P)" "length Z' = length Z" for j Z'
  proof -
    have "rfold (\<lambda>k Z. matrix_write Z P (int j) (int k) 0) [0..<c] Z'
        = write_row (replicate c 0) P (int j) (int c) (\<lambda>x. x) Z'"
      by (simp add: write_row_def) (rule rfold_cong, simp)
    also have "\<dots> = Inr (overlay 0 (matrix_addr P j 0) (map (\<lambda>x. x) (take c (replicate c 0))) Z')"
      using assms that c by (intro rfold_row_writes) simp_all
    finally show ?thesis by simp
  qed
  have "\<exists>s'. rfold (\<lambda>j. rfold (\<lambda>k Z. matrix_write Z P (int j) (int k) 0) [0..<c]) [0..<nat (mv_rows P)] Z = Inr s'
      \<and> s' = lay_rows P (\<lambda>j. j) (\<lambda>_. replicate c 0) [0..<nat (mv_rows P)] Z"
  proof (rule rfold_steps [where I = "\<lambda>ys s'. s' = lay_rows P (\<lambda>j. j) (\<lambda>_. replicate c 0) ys Z"])
    fix ys x zs s
    assume dec: "[0..<nat (mv_rows P)] = ys @ x # zs" and s: "s = lay_rows P (\<lambda>j. j) (\<lambda>_. replicate c 0) ys Z"
    have "x < nat (mv_rows P)" using arg_cong [OF dec, of set] by auto
    then show "\<exists>s'. rfold (\<lambda>k Z. matrix_write Z P (int x) (int k) 0) [0..<c] s = Inr s'
        \<and> s' = lay_rows P (\<lambda>j. j) (\<lambda>_. replicate c 0) (ys @ [x]) Z"
      using row s by simp
  qed simp
  then show ?thesis by (simp add: zero_tile_def c_def)
qed

lemma zero_tile_at:
  assumes "matrix_in (length Z) P"
  shows "\<exists>Z'. zero_tile P Z = Inr Z' \<and> length Z' = length Z
    \<and> (\<forall>r k. int r < mv_rows P \<longrightarrow> int k < mv_cols P \<longrightarrow> matrix_entry Z' P r k = 0)
    \<and> (\<forall>a < length Z. \<not> in_tile P a \<longrightarrow> Z' ! a = Z ! a)"
proof -
  let ?Z = "lay_rows P (\<lambda>j. j) (\<lambda>_. replicate (nat (mv_cols P)) 0) [0..<nat (mv_rows P)] Z"
  have "0 \<le> mv_cols P" using assms by (simp add: matrix_in_def)
  then have "matrix_entry ?Z P r k = 0" if "int r < mv_rows P" "int k < mv_cols P" for r k
    using lay_rows_entry(1) [OF assms, of "[0..<nat (mv_rows P)]" "\<lambda>j. j" "\<lambda>_. replicate (nat (mv_cols P)) 0" r k r] that
    by simp
  moreover have "?Z ! a = Z ! a" if "a < length Z" "\<not> in_tile P a" for a
    using that \<open>0 \<le> mv_cols P\<close> by (intro lay_rows_outside) auto
  ultimately show ?thesis using zero_tile_rows [OF assms] by simp
qed

text \<open>The rows of all operations, and the conditions under which they do not meet.\<close>

definition scalar_targets :: "nat \<Rightarrow> nat \<Rightarrow> basis_data \<Rightarrow> bool" where
  "scalar_targets d m data \<longleftrightarrow>
     bd_operations data = ss_lro (bd_d_ss data) \<and> ss_local_dimensions (bd_d_ss data) = int d
     \<and> bd_reconstruction_space data = ScalarTaylorPolynomial
     \<and> (\<forall>op \<in> set (bd_operations data). scalar_operation d m op)
     \<and> (pc_source_coordinates (bd_additional_pc data) \<noteq> []
          \<longrightarrow> LaplacianOfScalarPointEvaluation \<notin> set (bd_operations data))"

definition all_places :: "nat \<Rightarrow> nat \<Rightarrow> TargetOperation list \<Rightarrow> (nat \<times> nat \<times> nat) list" where
  "all_places d sites ops = concat (map (\<lambda>j. map (Pair j) (op_places d sites (ops ! j))) [0..<length ops])"

lemma all_places_set:
  "(j, out, e) \<in> set (all_places d sites ops) \<longleftrightarrow>
     j < length ops \<and> out < op_outs d (ops ! j) \<and> e < op_sites sites (ops ! j)"
  by (auto simp: all_places_def image_iff Bex_def op_places_set)

lemma all_places_mem:
  "(j, x) \<in> set (all_places d sites ops) \<longleftrightarrow> j < length ops \<and> x \<in> set (op_places d sites (ops ! j))"
  by (cases x) (simp add: all_places_set op_places_set)

lemma all_places_distinct:
  "distinct (concat (map (\<lambda>j. map (Pair j) (op_places d sites (ops ! j))) [0..<n]))" "distinct (all_places d sites ops)"
proof -
  have "distinct (concat (map (\<lambda>e. map (\<lambda>out. (out, e)) [0..<k]) [0..<n]))" for k n
    by (induction n) (auto simp: distinct_map inj_on_def)
  then show *: "distinct (concat (map (\<lambda>j. map (Pair j) (op_places d sites (ops ! j))) [0..<n]))" for n
    by (induction n) (auto simp: distinct_map inj_on_def op_places_def)
  show "distinct (all_places d sites ops)" using * by (simp add: all_places_def)
qed

lemma op_outs_tile:
  assumes "scalar_targets d m data" "ss_inv (bd_d_ss data)" "j < ss_rows (bd_d_ss data)"
  shows "op_outs d (bd_operations data ! j) = nat (ss_lro_output_tile_size (bd_d_ss data) ! j)"
    and "op_outs d (bd_operations data ! j) \<le> col_width (bd_d_ss data) j"
proof -
  note t = ss_inv_tables [OF assms(2,3)]
  have op: "scalar_operation d m (bd_operations data ! j)" "bd_operations data ! j = ss_lro (bd_d_ss data) ! j"
    using assms(1,3) by (auto simp: scalar_targets_def ss_rows_def)
  have "op_outs d (bd_operations data ! j) = d ^ target_output_rank (bd_operations data ! j)"
    using op(1) by (auto simp: scalar_operation_def op_outs_def)
  then show eq: "op_outs d (bd_operations data ! j) = nat (ss_lro_output_tile_size (bd_d_ss data) ! j)"
    using t(6) assms(1) op(2) by (simp add: scalar_targets_def nat_power_eq)
  have "nat (ss_lro_output_tile_size (bd_d_ss data) ! j)
      \<le> nat (ss_lro_input_tile_size (bd_d_ss data) ! j) * nat (ss_lro_output_tile_size (bd_d_ss data) ! j)"
  proof -
    have "1 \<le> nat (ss_lro_input_tile_size (bd_d_ss data) ! j)" using t(2,7) by linarith
    from mult_le_mono1 [OF this, of "nat (ss_lro_output_tile_size (bd_d_ss data) ! j)"]
    show ?thesis by (simp only: mult_1)
  qed
  then show "op_outs d (bd_operations data ! j) \<le> col_width (bd_d_ss data) j"
    using t(2,7) unfolding eq col_width_def by (simp add: nat_mult_distrib)
qed

definition any_row :: "basis_data \<Rightarrow> nat \<times> nat \<times> nat \<Rightarrow> nat" where
  "any_row data x = place_row data (fst x) (snd x)"

definition any_values :: "nat \<Rightarrow> nat \<Rightarrow> basis_data \<Rightarrow> nat \<Rightarrow> nat \<times> nat \<times> nat \<Rightarrow> real list" where
  "any_values d m data i x = place_values d m data i (bd_operations data ! fst x) (snd x)"

lemma any_row_column:
  assumes "scalar_targets d m data" "ss_inv (bd_d_ss data)"
    and "(j, out, e) \<in> set (all_places d sites (bd_operations data))"
  shows "j < ss_rows (bd_d_ss data)" "out < col_width (bd_d_ss data) j"
    "col_offset (bd_d_ss data) j + out < col_extent (bd_d_ss data)"
    "any_row data (j, out, e) = e * col_extent (bd_d_ss data) + (col_offset (bd_d_ss data) j + out)"
proof -
  have "length (bd_operations data) = ss_rows (bd_d_ss data)"
    using assms(1) by (simp add: scalar_targets_def ss_rows_def)
  then show j: "j < ss_rows (bd_d_ss data)" using assms(3) by (simp add: all_places_set)
  show w: "out < col_width (bd_d_ss data) j"
    using op_outs_tile(2) [OF assms(1,2) j] assms(3) by (simp add: all_places_set)
  show "col_offset (bd_d_ss data) j + out < col_extent (bd_d_ss data)"
    by (rule cols.slot_in_extent [OF assms(2) j w])
  show "any_row data (j, out, e) = e * col_extent (bd_d_ss data) + (col_offset (bd_d_ss data) j + out)"
    by (simp add: any_row_def place_row_def alpha_column_def)
qed

lemma any_row_inj:
  assumes "scalar_targets d m data" "ss_inv (bd_d_ss data)"
  shows "inj_on (any_row data) (set (all_places d sites (bd_operations data)))"
proof (rule inj_onI)
  fix x y assume a: "x \<in> set (all_places d sites (bd_operations data))"
    "y \<in> set (all_places d sites (bd_operations data))" "any_row data x = any_row data y"
  obtain j out e j' out' e' where xy: "x = (j, out, e)" "y = (j', out', e')" by (cases x, cases y)
  note f = any_row_column [OF assms a(1) [unfolded xy]] and f' = any_row_column [OF assms a(2) [unfolded xy]]
  have "e = e' \<and> col_offset (bd_d_ss data) j + out = col_offset (bd_d_ss data) j' + out'"
    using a(3) f(3) f'(3) unfolding xy f(4) f'(4) by (intro tile_inj)
  then show "x = y" using cols.slot_inj [OF assms(2) f(1) f'(1) f(2) f'(2)] by (simp add: xy)
qed

lemma any_row_bound:
  assumes "scalar_targets d m data" "ss_inv (bd_d_ss data)"
    and "x \<in> set (all_places d sites (bd_operations data))" "1 \<le> sites"
    and "sites \<le> nat (ss_max_evaluation_sites_per_target (bd_d_ss data))"
  shows "any_row data x < alpha_columns (bd_d_ss data)"
proof -
  obtain j out e where x: "x = (j, out, e)" by (cases x)
  note f = any_row_column [OF assms(1,2) assms(3) [unfolded x]]
  have "e < nat (ss_max_evaluation_sites_per_target (bd_d_ss data))"
    using assms(3-5) by (auto simp: x all_places_set op_sites_def split: if_splits)
  from tile_bound [OF this f(3)] show ?thesis
    by (simp add: x f(4) alpha_columns_def col_extent_def mult.commute)
qed

lemma lay_rows_pairs:
  "lay_rows P (\<lambda>x. row (fst x) (snd x)) (\<lambda>x. vals (fst x) (snd x)) (map (Pair j) xs) buf
    = lay_rows P (row j) (vals j) xs buf"
  unfolding lay_rows_def by (induction xs arbitrary: buf) simp_all

lemma lay_rows_append: "lay_rows P row vals (xs @ ys) buf = lay_rows P row vals ys (lay_rows P row vals xs buf)"
  by (simp add: lay_rows_def)

text \<open>
  The row of each operation, component and site holds the values of the operation on the
  basis; the other rows of the tile are zero, and nothing outside the tile changes.
\<close>

lemma getNP_scalar: "scalar_target_ready d m data i sites \<Longrightarrow> getNP (int m) (int d) ScalarTaylorPolynomial = int (scalar_size d m)"
proof -
  assume "scalar_target_ready d m data i sites"
  then have "d \<in> {1, 2, 3}" using ready_dim by (auto simp: scalar_target_ready_def)
  then show ?thesis
    using length_multi_indices [of d m] by (simp add: getNP_def scalar_size_indices)
qed

lemma scalar_functionals:
  assumes ready: "scalar_target_ready d m data i sites" and targets: "scalar_targets d m data"
    and fits: "scratch_fits d m P (delta, workspace, Z)"
    and i: "bd_initial_index_for_batch data + league_rank = int i"
    and rows: "mv_rows P = int (alpha_columns (bd_d_ss data))"
    and add: "getNumberOfNeighborsDevice (pc_nla (bd_additional_pc data)) (int i) = Inr (int sites - 1)"
    and sites: "1 \<le> sites" "sites \<le> nat (ss_max_evaluation_sites_per_target (bd_d_ss data))"
  shows "\<exists>st'. computeTargetFunctionals dbg data league_rank P (delta, workspace, Z) = Inr st'
    \<and> same_scratch (delta, workspace, Z) st'
    \<and> (\<forall>j out e. (j, out, e) \<in> set (all_places d sites (bd_operations data)) \<longrightarrow> (\<forall>k < scalar_size d m.
         matrix_entry (snd (snd st')) P (any_row data (j, out, e)) k = any_values d m data i (j, out, e) ! k))
    \<and> (\<forall>a < length Z. \<not> in_tile P a \<longrightarrow> snd (snd st') ! a = Z ! a)"
proof -
  let ?ops = "bd_operations data" and ?row = "any_row data" and ?vals = "any_values d m data i"
  let ?places = "\<lambda>n. concat (map (\<lambda>j. map (Pair j) (op_places d sites (?ops ! j))) [0..<n])"
  have inv: "ss_inv (bd_d_ss data)" using ready by (simp add: scalar_target_ready_def)
  have nrows: "length ?ops = ss_rows (bd_d_ss data)" using targets by (simp add: scalar_targets_def ss_rows_def)
  have fit: "matrix_in (length Z) P" "int (scalar_size d m) \<le> mv_cols P"
    using fits by (simp_all add: scratch_fits_def)
  obtain Z0 where Z0: "zero_tile P Z = Inr Z0" "length Z0 = length Z"
      "\<And>r k. int r < mv_rows P \<Longrightarrow> int k < mv_cols P \<Longrightarrow> matrix_entry Z0 P r k = 0"
      "\<And>a. a < length Z \<Longrightarrow> \<not> in_tile P a \<Longrightarrow> Z0 ! a = Z ! a"
    using zero_tile_at [OF fit(1)] by blast
  let ?st0 = "(map (\<lambda>_. 0) delta, map (\<lambda>_. 0) workspace, Z0) :: scratch"
  have bound: "int (?row x) < mv_rows P \<and> int (length (?vals x)) \<le> mv_cols P \<and> length (?vals x) = scalar_size d m"
    if "x \<in> set (all_places d sites ?ops)" for x
  proof -
    obtain j out e where x: "x = (j, out, e)" by (cases x)
    have "scalar_operation d m (?ops ! j)" "out < op_outs d (?ops ! j)"
      using that targets by (auto simp: x all_places_set scalar_targets_def)
    then have "length (?vals x) = scalar_size d m"
      using length_place_values [OF ready, of "?ops ! j" "(out, e)"] by (simp add: any_values_def x)
    then show ?thesis using any_row_bound [OF targets inv that sites] fit(2) rows by simp
  qed
  have sub: "set (?places n) \<subseteq> set (all_places d sites ?ops)" if "n \<le> length ?ops" for n
    using that by (fastforce simp: all_places_def)
  define body where "body = (\<lambda>j st. rbind (space_target dbg data (int i) (int j) (int sites) (int (scalar_size d m)) P (?ops ! j) st)
      (\<lambda>(handled, st). rbind (compadre_kernel_assert_release
         ''Auxiliary evaluation coordinates are specified by user, but are calling a target operation that can not handle evaluating additional sites.''
         (length (pc_source_coordinates (bd_additional_pc data)) > 0 \<longrightarrow> handled)) (\<lambda>_. Inr st)))"
  have "\<exists>st'. rfold body [0..<length ?ops] ?st0 = Inr st' \<and> (same_scratch ?st0 st'
      \<and> snd (snd st') = lay_rows P ?row ?vals (?places (length ?ops)) Z0)"
  proof (rule rfold_upt_inv [where P = "\<lambda>n st'. same_scratch ?st0 st' \<and> snd (snd st') = lay_rows P ?row ?vals (?places n) Z0"])
    fix j st assume j: "j < length ?ops"
      and st: "same_scratch ?st0 st \<and> snd (snd st) = lay_rows P ?row ?vals (?places j) Z0"
    let ?op = "?ops ! j"
    have op: "scalar_operation d m ?op" using targets j by (simp add: scalar_targets_def)
    have fits': "scratch_fits d m P st"
      using st fits Z0(2) by (auto simp: scratch_fits_def same_scratch_def buffers_fit_def)
    have here: "(j, x) \<in> set (all_places d sites ?ops)" if "x \<in> set (op_places d sites ?op)" for x
      using that j by (simp add: all_places_mem)
    have zero: "matrix_entry (snd (snd st)) P (place_row data j x) k = 0"
      if "x \<in> set (op_places d sites ?op)" "k < scalar_size d m" for x k
    proof -
      have "?row (j, x) \<notin> ?row ` set (?places j)"
      proof
        assume "?row (j, x) \<in> ?row ` set (?places j)"
        then obtain y where y: "y \<in> set (?places j)" "?row (j, x) = ?row y" by blast
        then have "y = (j, x)"
          using any_row_inj [OF targets inv, of sites] here [OF that(1)] sub [of j] j by (auto dest: inj_onD)
        then show False using y(1) by auto
      qed
      moreover have before: "int (?row y) < mv_rows P \<and> int (length (?vals y)) \<le> mv_cols P" if "y \<in> set (?places j)" for y
        using bound sub [of j] j that by (meson less_imp_le subsetD)
      moreover have "inj_on ?row (set (?places j))"
        using any_row_inj [OF targets inv, of sites] sub [of j] j by (auto intro: inj_on_subset)
      moreover have "distinct (?places j)"
        by (rule all_places_distinct(1))
      ultimately have "matrix_entry (lay_rows P ?row ?vals (?places j) Z0) P (?row (j, x)) k = matrix_entry Z0 P (?row (j, x)) k"
        using fit Z0(2) before that(2) bound [OF here [OF that(1)]]
        by (intro lay_rows_entry(2)) simp_all
      then show ?thesis
        using st Z0(3) [of "?row (j, x)" k] bound [OF here [OF that(1)]] that(2) fit(2) by (simp add: any_row_def)
    qed
    have "int (place_row data j x) < mv_rows P" if "x \<in> set (op_places d sites ?op)" for x
      using bound [OF here [OF that]] by (simp add: any_row_def)
    from scalar_operation_rows [OF ready fits' _ this op sites(1) zero, where dbg = dbg] j nrows
    obtain st' where st': "ScalarTaylor_target dbg data (int i) (int j) (int sites) (int (scalar_size d m)) P ?op st
        = Inr (?op \<noteq> LaplacianOfScalarPointEvaluation, st')" "same_scratch st st'"
        "snd (snd st') = lay_rows P (place_row data j) (place_values d m data i ?op) (op_places d sites ?op) (snd (snd st))"
      by auto
    have "length (pc_source_coordinates (bd_additional_pc data)) > 0 \<longrightarrow> ?op \<noteq> LaplacianOfScalarPointEvaluation"
      using targets nth_mem [OF j] by (auto simp: scalar_targets_def)
    then have "body j st = Inr st'"
      using st'(1) targets by (simp add: body_def space_target_def scalar_targets_def)
    moreover have "snd (snd st') = lay_rows P ?row ?vals (?places (Suc j)) Z0"
      using st st'(3) lay_rows_pairs [of P "place_row data" "\<lambda>j. place_values d m data i (?ops ! j)" j]
      by (simp add: lay_rows_append any_row_def [abs_def] any_values_def [abs_def])
    ultimately show "\<exists>s'. body j st = Inr s' \<and> same_scratch ?st0 s' \<and> snd (snd s') = lay_rows P ?row ?vals (?places (Suc j)) Z0"
      using st st'(2) same_scratch_trans by blast
  qed simp_all
  then obtain st' where st': "rfold body [0..<length ?ops] ?st0 = Inr st'" "same_scratch ?st0 st'"
      "snd (snd st') = lay_rows P ?row ?vals (all_places d sites ?ops) Z0"
    by (auto simp: all_places_def)
  have "computeTargetFunctionals dbg data league_rank P (delta, workspace, Z) = Inr st'"
    using st'(1) Z0(1) add targets ready getNP_scalar [OF ready]
    by (simp add: computeTargetFunctionals_def check_clones_def scalar_targets_def i body_def scalar_target_ready_def Let_def)
  moreover have "same_scratch (delta, workspace, Z) st'"
    using st'(2) Z0(2) by (simp add: same_scratch_def)
  moreover have "matrix_entry (snd (snd st')) P (?row (j, out, e)) k = ?vals (j, out, e) ! k"
    if "(j, out, e) \<in> set (all_places d sites ?ops)" "k < scalar_size d m" for j out e k
    unfolding st'(3)
    using that bound bound [OF that(1)] fit Z0(2) any_row_inj [OF targets inv, of sites] all_places_distinct(2)
    by (intro lay_rows_entry(1) [where x = "(j, out, e)"]) auto
  moreover have "snd (snd st') ! a = Z ! a" if "a < length Z" "\<not> in_tile P a" for a
    unfolding st'(3) using that Z0(2,4) bound fit(2) by (subst lay_rows_outside) auto
  ultimately show ?thesis by blast
qed

end
