(* ===== verification/Compadre_LeastSquares.thy ===== *)
theory Compadre_LeastSquares
  imports Compadre_Prelude
begin

text \<open>
  Weighted least squares on their own: the normal equations, the condition that a set of
  neighbors determines the polynomials, and the exactness of the coefficients that follows
  from both.
\<close>

section \<open>Weighted least squares\<close>

text \<open>
  \<open>R i k\<close> is the \<open>k\<close>th function of the basis at neighbor \<open>i\<close>, \<open>w\<close> are the weights and the
  columns of \<open>X\<close> solve the normal equations for the columns of the diagonal matrix of the
  roots of the weights.
\<close>

definition normal_equations ::
  "nat \<Rightarrow> nat \<Rightarrow> (nat \<Rightarrow> nat \<Rightarrow> real) \<Rightarrow> (nat \<Rightarrow> real) \<Rightarrow> (nat \<Rightarrow> nat \<Rightarrow> real) \<Rightarrow> bool" where
  "normal_equations n N A rhs X \<longleftrightarrow>
     (\<forall>j < n. \<forall>k < N. (\<Sum>i<n. A i k * (\<Sum>l<N. A i l * X l j)) = A j k * rhs j)"

text \<open>Only the zero function of the space vanishes at every neighbor with a positive weight.\<close>

definition unisolvent :: "nat \<Rightarrow> nat \<Rightarrow> (nat \<Rightarrow> nat \<Rightarrow> real) \<Rightarrow> (nat \<Rightarrow> real) \<Rightarrow> bool" where
  "unisolvent n N R w \<longleftrightarrow>
     (\<forall>c. (\<forall>i < n. 0 < w i \<longrightarrow> (\<Sum>l<N. c l * R i l) = 0) \<longrightarrow> (\<forall>l < N. c l = 0))"

lemma weighted_square_zero:
  fixes n N :: nat
  assumes "\<forall>i < n. 0 \<le> w i" "\<forall>m < N. (\<Sum>i<n. w i * R i m * (\<Sum>l<N. v l * R i l)) = 0"
  shows "\<forall>i < n. 0 < w i \<longrightarrow> (\<Sum>l<N. v l * R i l) = (0 :: real)"
proof -
  let ?f = "\<lambda>i. \<Sum>l<N. v l * R i l"
  have "(\<Sum>i<n. w i * (?f i)\<^sup>2) = (\<Sum>i<n. \<Sum>m<N. v m * (w i * R i m * ?f i))"
    by (intro sum.cong refl) (simp add: power2_eq_square sum_distrib_left sum_distrib_right mult_ac)
  also have "\<dots> = (\<Sum>m<N. v m * (\<Sum>i<n. w i * R i m * ?f i))"
    by (subst sum.swap) (simp add: sum_distrib_left)
  also have "\<dots> = 0" using assms(2) by simp
  finally have "\<forall>i \<in> {..<n}. w i * (?f i)\<^sup>2 = 0"
    using assms(1) sum_nonneg_eq_0_iff [of "{..<n}" "\<lambda>i. w i * (?f i)\<^sup>2", OF finite_lessThan] by simp
  then show ?thesis by (metis lessThan_iff less_irrefl mult_eq_0_iff zero_eq_power2)
qed

lemma normal_equations_inverse:
  assumes "normal_equations n N (\<lambda>i k. sqrt (w i) * R i k) (\<lambda>j. sqrt (w j)) X"
    and "\<forall>i < n. 0 \<le> w i" "unisolvent n N R w" "l < N" "k < N"
  shows "(\<Sum>j<n. X l j * R j k) = (if l = k then 1 else 0)"
proof -
  define Y where "Y l = (\<Sum>j<n. X l j * R j k)" for l
  define v where "v l = Y l - (if l = k then 1 else 0)" for l
  have normal: "(\<Sum>i<n. w i * R i m * (\<Sum>l<N. R i l * X l j)) = w j * R j m" if "j < n" "m < N" for j m
  proof -
    have "(\<Sum>i<n. w i * R i m * (\<Sum>l<N. R i l * X l j))
        = (\<Sum>i<n. sqrt (w i) * R i m * (\<Sum>l<N. sqrt (w i) * R i l * X l j))"
    proof (intro sum.cong refl)
      fix i assume "i \<in> {..<n}"
      then have w: "w i = sqrt (w i) * sqrt (w i)" using assms(2) by simp
      have "(\<Sum>l<N. sqrt (w i) * R i l * X l j) = sqrt (w i) * (\<Sum>l<N. R i l * X l j)"
        by (simp add: sum_distrib_left mult.assoc)
      then show "w i * R i m * (\<Sum>l<N. R i l * X l j) = sqrt (w i) * R i m * (\<Sum>l<N. sqrt (w i) * R i l * X l j)"
        by (subst w) (simp only: mult_ac)
    qed
    also have "\<dots> = sqrt (w j) * R j m * sqrt (w j)" using assms(1) that by (simp add: normal_equations_def)
    also have "\<dots> = w j * R j m" using assms(2) that(1) by simp
    finally show ?thesis .
  qed
  have "(\<Sum>i<n. w i * R i m * (\<Sum>l<N. v l * R i l)) = 0" if m: "m < N" for m
  proof -
    have v: "(\<Sum>l<N. v l * R i l) = (\<Sum>j<n. R j k * (\<Sum>l<N. R i l * X l j)) - R i k" for i
    proof -
      have "(\<Sum>l<N. v l * R i l) = (\<Sum>l<N. Y l * R i l) - (\<Sum>l<N. (if l = k then 1 else 0) * R i l)"
        by (simp add: v_def left_diff_distrib sum_subtractf)
      moreover have "(\<Sum>l<N. (if l = k then 1 else 0) * R i l) = (\<Sum>l<N. if l = k then R i l else 0)"
        by (intro sum.cong) simp_all
      moreover have "(\<Sum>l<N. Y l * R i l) = (\<Sum>j<n. R j k * (\<Sum>l<N. R i l * X l j))"
        unfolding Y_def sum_distrib_left sum_distrib_right by (subst sum.swap) (simp add: mult_ac)
      ultimately show ?thesis using assms(5) by simp
    qed
    have "(\<Sum>i<n. w i * R i m * (\<Sum>l<N. v l * R i l))
        = (\<Sum>i<n. w i * R i m * (\<Sum>j<n. R j k * (\<Sum>l<N. R i l * X l j))) - (\<Sum>i<n. w i * R i m * R i k)"
      by (simp add: v right_diff_distrib sum_subtractf)
    also have "(\<Sum>i<n. w i * R i m * (\<Sum>j<n. R j k * (\<Sum>l<N. R i l * X l j)))
        = (\<Sum>j<n. R j k * (\<Sum>i<n. w i * R i m * (\<Sum>l<N. R i l * X l j)))"
      unfolding sum_distrib_left by (subst sum.swap) (simp add: mult_ac)
    also have "\<dots> = (\<Sum>j<n. R j k * (w j * R j m))" using normal m by simp
    finally show ?thesis by (simp add: mult_ac)
  qed
  with weighted_square_zero [OF assms(2)] have "\<forall>i < n. 0 < w i \<longrightarrow> (\<Sum>l<N. v l * R i l) = 0" by blast
  with assms(3,4) have "v l = 0" by (simp add: unisolvent_def)
  then show ?thesis by (simp add: v_def Y_def)
qed

text \<open>Hence a row of target values applied to the solution reproduces what it gives on the space.\<close>

lemma reproduce:
  assumes "normal_equations n N (\<lambda>i k. sqrt (w i) * R i k) (\<lambda>j. sqrt (w j)) X"
    and "\<forall>i < n. 0 \<le> w i" "unisolvent n N R w"
  shows "(\<Sum>j<n. (\<Sum>l<N. z l * X l j) * (\<Sum>k<N. c k * R j k)) = (\<Sum>l<N. z l * c l)"
proof -
  have "(\<Sum>j<n. (\<Sum>l<N. z l * X l j) * (\<Sum>k<N. c k * R j k))
      = (\<Sum>l<N. \<Sum>k<N. \<Sum>j<n. z l * c k * (X l j * R j k))"
  proof -
    have "(\<Sum>l<N. z l * X l j) * (\<Sum>k<N. c k * R j k) = (\<Sum>l<N. \<Sum>k<N. z l * c k * (X l j * R j k))" for j
      unfolding sum_product by (intro sum.cong refl) (simp only: mult_ac)
    then have "(\<Sum>j<n. (\<Sum>l<N. z l * X l j) * (\<Sum>k<N. c k * R j k))
        = (\<Sum>j<n. \<Sum>l<N. \<Sum>k<N. z l * c k * (X l j * R j k))" by (rule sum.cong [OF refl])
    also have "\<dots> = (\<Sum>l<N. \<Sum>j<n. \<Sum>k<N. z l * c k * (X l j * R j k))" by (rule sum.swap)
    also have "\<dots> = (\<Sum>l<N. \<Sum>k<N. \<Sum>j<n. z l * c k * (X l j * R j k))" by (intro sum.cong refl sum.swap)
    finally show ?thesis .
  qed
  also have "\<dots> = (\<Sum>l<N. \<Sum>k<N. z l * c k * (if l = k then 1 else 0))"
    using normal_equations_inverse [OF assms] by (simp flip: sum_distrib_left)
  also have "\<dots> = (\<Sum>l<N. z l * c l)" by (intro sum.cong refl) (simp add: if_distrib cong: if_cong)
  finally show ?thesis .
qed

end
