(* ===== verification/Compadre_Reproduction.thy ===== *)
theory Compadre_Reproduction
  imports Compadre_Rows Compadre_LeastSquares Compadre_GMLS_Solve
begin

text \<open>
  The coefficients of a scalar problem are exact on polynomials.  The theory follows one batch
  from the record of the problem through the four steps of the driver in Compadre_GMLS.cpp
  (assembly of P and the weights, the solver, the target functionals, their application) to
  what the accessors of the solution set return.
\<close>

section \<open>Derivatives of the polynomials\<close>

text \<open>A polynomial by its coefficients in the basis of the target, and its value at a place.\<close>

definition polynomial :: "nat \<Rightarrow> nat \<Rightarrow> real \<Rightarrow> (nat \<Rightarrow> real) \<Rightarrow> real list \<Rightarrow> real" where
  "polynomial d m h c p = (\<Sum>k < scalar_size d m. c k * scalar_row d m h p ! k)"

definition polynomial_partial :: "nat \<Rightarrow> nat \<Rightarrow> real \<Rightarrow> (nat \<Rightarrow> real) \<Rightarrow> nat \<Rightarrow> real list \<Rightarrow> real" where
  "polynomial_partial d m h c dir p = (\<Sum>k < scalar_size d m. c k * scalar_partial_row d m dir h p ! k)"

lemma row_entries:
  assumes "d \<in> {1, 2, 3}" "m \<le> 14" "dir < d" "length p = 3" "k < scalar_size d m"
  shows "scalar_row d m h p ! k = taylor (map (\<lambda>x. x / h) p) (multi_indices d 0 m ! k)"
    and "scalar_partial_row d m dir h p ! k = taylor (map (\<lambda>x. x / h) p)
      ((multi_indices d 0 m ! k)[dir := multi_indices d 0 m ! k ! dir - 1]) / h"
  using scalar_rows(1,2) [OF assms(1-3,3,4), of h] assms(5) by (simp_all add: scalar_size_indices [OF assms(1)])

lemma index_length: "d \<in> {1, 2, 3} \<Longrightarrow> k < scalar_size d m \<Longrightarrow> length (multi_indices d 0 m ! k) = d"
  using multi_indices_dim [OF _ nth_mem] by (simp add: scalar_size_indices)

lemma polynomial_derivative:
  assumes "d \<in> {1, 2, 3}" "m \<le> 14" "dir < d" "length p = 3" "h \<noteq> 0"
  shows "((\<lambda>t. polynomial d m h c (p[dir := t])) has_real_derivative polynomial_partial d m h c dir (p[dir := t])) (at t)"
  unfolding polynomial_def polynomial_partial_def
proof (intro DERIV_sum DERIV_cmult)
  fix k assume "k \<in> {..<scalar_size d m}"
  then have k: "k < scalar_size d m" by simp
  show "((\<lambda>t. scalar_row d m h (p[dir := t]) ! k) has_real_derivative scalar_partial_row d m dir h (p[dir := t]) ! k) (at t)"
    using taylor_derivative [of dir "multi_indices d 0 m ! k" p h t] assms index_length [OF assms(1) k]
      row_entries [OF assms(1-3) _ k, of "p[dir := _]" h] by auto
qed

text \<open>The second derivative along one direction, at the target.\<close>

definition target_second :: "nat \<Rightarrow> nat \<Rightarrow> real \<Rightarrow> (nat \<Rightarrow> real) \<Rightarrow> nat \<Rightarrow> real" where
  "target_second d m h c dir = (\<Sum>k < scalar_size d m. c k *
     (taylor [0, 0, 0] ((multi_indices d 0 m ! k)[dir := multi_indices d 0 m ! k ! dir - 2]) / h ^ 2))"

lemma polynomial_second:
  assumes "d \<in> {1, 2, 3}" "m \<le> 14" "dir < d" "h \<noteq> 0"
  shows "((\<lambda>t. polynomial_partial d m h c dir ([0, 0, 0][dir := t])) has_real_derivative target_second d m h c dir) (at 0)"
  unfolding polynomial_partial_def target_second_def
proof (intro DERIV_sum DERIV_cmult)
  fix k assume "k \<in> {..<scalar_size d m}"
  then have k: "k < scalar_size d m" by simp
  let ?vp = "multi_indices d 0 m ! k"
  note len = index_length [OF assms(1) k]
  define q :: "real list" where "q = [0, 0, 0]"
  have q: "length q = 3" "map (\<lambda>x. x / h) (q[dir := 0]) = [0, 0, 0]"
    using assms(1,3) by (auto simp: q_def less_Suc_eq numeral_3_eq_3 numeral_2_eq_2)
  have "((\<lambda>t. taylor (map (\<lambda>x. x / h) (q[dir := t])) (?vp[dir := ?vp ! dir - 1]) / h) has_real_derivative
      taylor [0, 0, 0] (?vp[dir := ?vp ! dir - 2]) / h / h) (at 0)"
    using taylor_derivative [of dir "?vp[dir := ?vp ! dir - 1]" q h 0] assms(1,3,4) len q
    by (intro DERIV_cdivide) auto
  then have "((\<lambda>t. scalar_partial_row d m dir h (q[dir := t]) ! k) has_real_derivative
      taylor [0, 0, 0] (?vp[dir := ?vp ! dir - 2]) / h ^ 2) (at 0)"
    using row_entries(2) [OF assms(1-3) _ k, of "q[dir := _]" h] q(1) by (simp add: power2_eq_square)
  then show "((\<lambda>t. scalar_partial_row d m dir h ([0, 0, 0][dir := t]) ! k) has_real_derivative
      taylor [0, 0, 0] (?vp[dir := ?vp ! dir - 2]) / h ^ 2) (at 0)"
    by (simp only: q_def)
qed

lemma idx_split: "2 \<le> m \<Longrightarrow> idx1 0 m = idx1 0 2 @ idx1 3 m" "2 \<le> m \<Longrightarrow> idx2 0 m = idx2 0 2 @ idx2 3 m"
  "2 \<le> m \<Longrightarrow> idx3 0 m = idx3 0 2 @ idx3 3 m"
  using upt_add_eq_append [of 0 3 "m - 2"] by (simp_all add: idx1_def idx2_def idx3_def)

lemma high_degree: "vp \<in> set (idx1 3 m) \<union> set (idx2 3 m) \<union> set (idx3 3 m) \<Longrightarrow> 3 \<le> sum_list vp"
  by (auto simp: idx1_def idx2_def idx3_def)

lemma taylor_zero: "taylor [0, 0, 0] vp = (if \<forall>a \<in> set vp. a = 0 then 1 else 0)" if "length vp \<le> 3"
proof -
  have "tfac ([0, 0, 0] ! k) a = (if a = 0 then 1 else 0)" if "k < 3" for k a
    using that by (auto simp: tfac_def less_Suc_eq numeral_3_eq_3)
  then have "taylor [0, 0, 0] vp = (\<Prod>k<length vp. if vp ! k = 0 then 1 else 0)"
    using that unfolding taylor_def by (intro prod.cong) auto
  also have "\<dots> = (if \<forall>a \<in> set vp. a = 0 then 1 else 0)"
    by (auto simp: all_set_conv_all_nth)
  finally show ?thesis .
qed

lemma sum_list_zero: "\<forall>a \<in> set vp. a = 0 \<Longrightarrow> sum_list vp = 0" for vp :: "int list"
  by (induction vp) simp_all

lemma low_indices:
  "idx1 0 2 = [[0], [1], [2]]" "idx2 0 2 = [[0, 0], [1, 0], [0, 1], [2, 0], [1, 1], [0, 2]]"
  "idx3 0 2 = [[0, 0, 0], [1, 0, 0], [0, 1, 0], [0, 0, 1], [2, 0, 0], [1, 1, 0], [0, 2, 0], [1, 0, 1], [0, 1, 1], [0, 0, 2]]"
  by (simp_all add: idx1_def idx2_def idx3_def upt_rec)

lemma square_places_low:
  assumes "d \<in> {1, 2, 3}" "k < (if d = 3 then 10 else if d = 2 then 6 else 3)"
  shows "(\<Sum>dir<d. taylor [0, 0, 0] ((multi_indices d 0 2 ! k)[dir := multi_indices d 0 2 ! k ! dir - 2]))
    = (if k \<in> laplacian_places d then 1 else 0)"
proof -
  consider "d = 1" "k \<in> {0, 1, 2}" | "d = 2" "k \<in> {0, 1, 2, 3, 4, 5}" | "d = 3" "k \<in> {0, 1, 2, 3, 4, 5, 6, 7, 8, 9}"
  proof -
    have "k < 10 \<Longrightarrow> k \<in> {0, 1, 2, 3, 4, 5, 6, 7, 8, 9}" "k < 6 \<Longrightarrow> k \<in> {0, 1, 2, 3, 4, 5}" "k < 3 \<Longrightarrow> k \<in> {0, 1, 2}"
      unfolding insert_iff empty_iff by presburger+
    then show thesis using that assms by (elim insertE emptyE) (simp_all only: if_True if_False numeral_eq_iff, simp_all)
  qed
  moreover have below: "{..<2} = {0, 1 :: nat}" "{..<3} = {0, 1, 2 :: nat}" by auto
  ultimately show ?thesis
  proof cases
    case 1
    then show ?thesis
      by (auto simp: multi_indices_def low_indices laplacian_places_def taylor_zero)
  next
    case 2
    then show ?thesis
      by (auto simp: multi_indices_def low_indices laplacian_places_def taylor_zero below)
  next
    case 3
    then show ?thesis
      by (auto simp: multi_indices_def low_indices laplacian_places_def taylor_zero below)
  qed
qed

text \<open>The places of the squares: one for each direction.\<close>

lemma square_places:
  assumes "d \<in> {1, 2, 3}" "2 \<le> m" "k < scalar_size d m"
  shows "(\<Sum>dir<d. taylor [0, 0, 0] ((multi_indices d 0 m ! k)[dir := multi_indices d 0 m ! k ! dir - 2]))
    = (if k \<in> laplacian_places d then 1 else 0)"
proof -
  have low: "length (idx1 0 2) = 3" "length (idx2 0 2) = 6" "length (idx3 0 2) = 10"
    by (simp_all add: idx1_def idx2_def idx3_def upt_rec)
  define n where "n = (if d = 3 then 10 else if d = 2 then 6 else 3 :: nat)"
  show ?thesis
  proof (cases "k < n")
    case True
    have "multi_indices d 0 m ! k = multi_indices d 0 2 ! k"
      using True assms(1) idx_split [OF assms(2)] low by (auto simp: multi_indices_def n_def nth_append)
    moreover have "(\<Sum>dir<d. taylor [0, 0, 0] ((multi_indices d 0 2 ! k)[dir := multi_indices d 0 2 ! k ! dir - 2]))
        = (if k \<in> laplacian_places d then 1 else 0)"
      using square_places_low [OF assms(1), of k] True by (simp add: n_def)
    ultimately show ?thesis by simp
  next
    case False
    let ?vp = "multi_indices d 0 m ! k"
    have "k - n < length (if d = 3 then idx3 3 m else if d = 2 then idx2 3 m else idx1 3 m)"
      using False assms idx_split [OF assms(2)] low scalar_size_indices [OF assms(1), of m]
      by (auto simp: multi_indices_def n_def)
    then have "?vp \<in> set (idx1 3 m) \<union> set (idx2 3 m) \<union> set (idx3 3 m)"
      using False assms(1) idx_split [OF assms(2)] low by (auto simp: multi_indices_def n_def nth_append)
    then have high: "3 \<le> sum_list ?vp" by (rule high_degree)
    have "taylor [0, 0, 0] (?vp[dir := ?vp ! dir - 2]) = 0" if "dir < d" for dir
    proof -
      have "sum_list (?vp[dir := ?vp ! dir - 2]) = sum_list ?vp - 2"
        using that index_length [OF assms(1,3)] by (simp add: sum_list_update_int)
      then have "\<not> (\<forall>a \<in> set (?vp[dir := ?vp ! dir - 2]). a = 0)"
        using high sum_list_zero [of "?vp[dir := ?vp ! dir - 2]"] by auto
      moreover have "length (?vp[dir := ?vp ! dir - 2]) \<le> 3" using index_length [OF assms(1,3)] assms(1) by auto
      ultimately show ?thesis by (simp only: taylor_zero if_False)
    qed
    moreover have "k \<notin> laplacian_places d" using False by (auto simp: n_def laplacian_places_def)
    ultimately show ?thesis by simp
  qed
qed

lemma laplacian_sum:
  assumes "d \<in> {1, 2, 3}" "2 \<le> m"
  shows "(\<Sum>k < scalar_size d m. functional_row d m LaplacianOfScalarPointEvaluation out h p ! k * c k)
    = (\<Sum>dir<d. target_second d m h c dir)"
proof -
  have "(\<Sum>dir<d. target_second d m h c dir) = (\<Sum>k < scalar_size d m. \<Sum>dir<d. c k *
     (taylor [0, 0, 0] ((multi_indices d 0 m ! k)[dir := multi_indices d 0 m ! k ! dir - 2]) / h ^ 2))"
    unfolding target_second_def by (rule sum.swap)
  also have "\<dots> = (\<Sum>k < scalar_size d m. c k * ((if k \<in> laplacian_places d then 1 else 0) / h ^ 2))"
    using square_places [OF assms] by (intro sum.cong refl) (simp flip: sum_distrib_left sum_divide_distrib)
  also have "\<dots> = (\<Sum>k < scalar_size d m. functional_row d m LaplacianOfScalarPointEvaluation out h p ! k * c k)"
    by (intro sum.cong refl) (simp add: functional_row_def)
  finally show ?thesis by simp
qed

text \<open>The direction in which an operation differentiates.\<close>

definition partial_direction_of :: "TargetOperation \<Rightarrow> nat \<Rightarrow> nat" where
  "partial_direction_of op out =
     (if op = GradientOfScalarPointEvaluation then out
      else if op = PartialYOfScalarPointEvaluation then 1
      else if op = PartialZOfScalarPointEvaluation then 2 else 0)"

text \<open>
  \<open>v\<close> is what the operation is of the polynomial: its value, its derivative in a direction,
  or the sum of its second derivatives at the target.
\<close>

definition exact_value ::
  "nat \<Rightarrow> nat \<Rightarrow> TargetOperation \<Rightarrow> nat \<Rightarrow> nat \<Rightarrow> real \<Rightarrow> (nat \<Rightarrow> real) \<Rightarrow> real list \<Rightarrow> real \<Rightarrow> bool" where
  "exact_value d m op out e h c p v \<longleftrightarrow>
     (if op = ScalarPointEvaluation then v = polynomial d m h c p
      else if op = LaplacianOfScalarPointEvaluation then
        e = 0 \<longrightarrow> (\<exists>f f'. (\<forall>dir<d. (\<forall>t. ((\<lambda>t. polynomial d m h c ([0, 0, 0][dir := t])) has_real_derivative f dir t) (at t))
          \<and> (f dir has_real_derivative f' dir) (at 0)) \<and> v = (\<Sum>dir<d. f' dir))
      else ((\<lambda>t. polynomial d m h c (p[partial_direction_of op out := t])) has_real_derivative v)
             (at (p ! partial_direction_of op out)))"

lemma functional_exact:
  assumes "d \<in> {1, 2, 3}" "m \<le> 14" "h \<noteq> 0" "length p = 3" "scalar_operation d m op" "out < op_outs d op"
  shows "exact_value d m op out e h c p (\<Sum>k < scalar_size d m. functional_row d m op out h p ! k * c k)"
proof -
  have partial: "exact_value d m op out e h c p (\<Sum>k < scalar_size d m. functional_row d m op out h p ! k * c k)"
    if "partial_direction_of op out < d" "op \<noteq> ScalarPointEvaluation" "op \<noteq> LaplacianOfScalarPointEvaluation"
      "functional_row d m op out h p = scalar_partial_row d m (partial_direction_of op out) h p"
  proof -
    let ?dir = "partial_direction_of op out"
    have "(\<Sum>k < scalar_size d m. functional_row d m op out h p ! k * c k) = polynomial_partial d m h c ?dir (p[?dir := p ! ?dir])"
      by (simp add: that(4) polynomial_partial_def mult.commute)
    then show ?thesis
      using polynomial_derivative [OF assms(1,2) that(1) assms(4,3), of c "p ! ?dir"] that(2,3)
      by (simp add: exact_value_def)
  qed
  consider "op = ScalarPointEvaluation" | "op = LaplacianOfScalarPointEvaluation" "2 \<le> m"
    | "partial_direction_of op out < d" "op \<noteq> ScalarPointEvaluation" "op \<noteq> LaplacianOfScalarPointEvaluation"
      "functional_row d m op out h p = scalar_partial_row d m (partial_direction_of op out) h p"
    using assms(1,5,6)
    by (auto simp: scalar_operation_def partial_direction_of_def functional_row_def op_outs_def)
  then show ?thesis
  proof cases
    case 1
    then show ?thesis by (simp add: exact_value_def polynomial_def functional_row_def mult.commute)
  next
    case 2
    have "\<forall>dir<d. (\<forall>t. ((\<lambda>t. polynomial d m h c ([0, 0, 0][dir := t])) has_real_derivative
          polynomial_partial d m h c dir ([0, 0, 0][dir := t])) (at t))
        \<and> ((\<lambda>t. polynomial_partial d m h c dir ([0, 0, 0][dir := t])) has_real_derivative target_second d m h c dir) (at 0)"
      using polynomial_derivative [OF assms(1,2) _ _ assms(3), of _ "[0, 0, 0]" c] polynomial_second [OF assms(1,2) _ assms(3)]
      by simp
    then have "\<exists>f f'. (\<forall>dir<d. (\<forall>t. ((\<lambda>t. polynomial d m h c ([0, 0, 0][dir := t])) has_real_derivative f dir t) (at t))
          \<and> (f dir has_real_derivative f' dir) (at 0)) \<and> (\<Sum>dir<d. target_second d m h c dir) = (\<Sum>dir<d. f' dir)"
      by (intro exI [of _ "\<lambda>dir t. polynomial_partial d m h c dir ([0, 0, 0][dir := t])"]
          exI [of _ "target_second d m h c"]) simp
    then show ?thesis
      unfolding exact_value_def 2(1) laplacian_sum [OF assms(1) 2(2)] by simp
  next
    case 3
    then show ?thesis by (rule partial)
  qed
qed

section \<open>A scalar problem\<close>

text \<open>
  The problems for which the coefficients are shown to be exact: point samples of a scalar
  function in Euclidean space, without constraint, solved by a QR factorisation.
\<close>

definition scalar_problem :: "nat \<Rightarrow> nat \<Rightarrow> gmls \<Rightarrow> solution_set \<Rightarrow> bool" where
  "scalar_problem d m g ss \<longleftrightarrow>
     pc_valid d (g_pc g) \<and> 0 < d \<and> d \<le> 3 \<and> m \<le> 14
     \<and> g_dimensions g = int d \<and> g_global_dimensions g = int d \<and> g_poly_order g = int m
     \<and> g_NP g = int (scalar_size d m) \<and> g_basis_multiplier g = 1 \<and> g_sampling_multiplier g = 1
     \<and> g_reconstruction_space g = ScalarTaylorPolynomial \<and> g_polynomial_sampling_functional g = PointSample
     \<and> g_problem_type g = STANDARD \<and> g_constraint_type g = NO_CONSTRAINT \<and> g_dense_solver_type g = QR
     \<and> length (g_epsilons g) = nl_rows (pc_nla (g_pc g)) \<and> (\<forall>h \<in> set (g_epsilons g). 0 < h)
     \<and> g_weighting_type g \<noteq> Cosine \<and> 0 \<le> g_weighting_p g
     \<and> (g_weighting_type g = Gaussian \<longrightarrow> g_weighting_p g \<noteq> 0) \<and> (g_weighting_type g = Sigmoid \<longrightarrow> 0 \<le> g_weighting_n g)
     \<and> ss_local_dimensions ss = int d \<and> ss_data_sampling_functional ss = PointSample
     \<and> (\<forall>op \<in> set (ss_lro ss). scalar_operation d m op)
     \<and> (pc_source_coordinates (g_additional_pc g) \<noteq> [] \<longrightarrow> LaplacianOfScalarPointEvaluation \<notin> set (ss_lro ss))"

definition additional_sites :: "gmls \<Rightarrow> nat \<Rightarrow> nat" where
  "additional_sites g t = nat (nl_number_of_neighbors_list (pc_nla (g_additional_pc g)) ! t)"

text \<open>The buffers of a batch as they are when it starts: cleared, and large enough.\<close>

definition batch_cleared :: "gmls \<Rightarrow> nat \<Rightarrow> bool" where
  "batch_cleared g n \<longleftrightarrow>
     (\<forall>x \<in> set (g_P g). x = 0) \<and> length (g_w g) = n * nat (g_max_num_neighbors g) \<and> length (g_w g) < 2 ^ 64"

lemma scalar_basis_data:
  assumes "createGMLSBasisData g = Inr data" "scalar_problem d m g ss" "g_d_ss g = Some ss"
  shows "bd_pc data = g_pc g" "bd_additional_pc data = g_additional_pc g" "bd_epsilons data = g_epsilons g"
    "bd_dimensions data = int d" "bd_poly_order data = int m" "bd_d_ss data = ss"
    "bd_operations data = g_operations g" "bd_reconstruction_space data = ScalarTaylorPolynomial"
    "bd_polynomial_sampling_functional data = PointSample" "bd_basis_multiplier data = 1"
    "bd_sampling_multiplier data = 1" "bd_initial_index_for_batch data = g_initial_index_for_batch g"
    "bd_max_num_rows data = g_max_num_neighbors g" "bd_this_num_cols data = int (scalar_size d m)"
    "bd_thread_workspace_dim data = (int m + 1) * int d" "bd_constraint_type data = NO_CONSTRAINT"
    "bd_dense_solver_type data = QR"
    "bd_P_dims data = (g_max_num_neighbors g, int (scalar_size d m))"
    "bd_RHS_dims data = (int (scalar_size d m), g_max_num_neighbors g)"
    "bd_P_target_row_dim_0 data = ss_total_alpha_values ss * ss_max_evaluation_sites_per_target ss"
    "bd_P_target_row_dim_1 data = int (scalar_size d m)"
    "bd_weighting_type data = g_weighting_type g" "bd_weighting_p data = g_weighting_p g"
    "bd_weighting_n data = g_weighting_n g"
  using assms
  by (auto simp: createGMLSBasisData_def scalar_problem_def device_ss_def dims_defs Coeffs_place_def Let_def
      split: prod.splits if_splits)

lemma scalar_solution_data:
  assumes "createGMLSSolutionData g = Inr data" "scalar_problem d m g ss" "g_d_ss g = Some ss"
  shows "sd_d_ss data = ss" "sd_sampling_multiplier data = 1" "sd_this_num_cols data = int (scalar_size d m)"
    "sd_Coeffs_data data = Buffer_RHS" "sd_Coeffs_dim_0 data = int (scalar_size d m)"
    "sd_Coeffs_dim_1 data = g_max_num_neighbors g" "sd_initial_index_for_batch data = g_initial_index_for_batch g"
    "sd_additional_number_of_neighbors_list data = nl_number_of_neighbors_list (pc_nla (g_additional_pc g))"
  using assms
  by (auto simp: createGMLSSolutionData_def scalar_problem_def device_ss_def dims_defs Coeffs_place_def Let_def
      split: prod.splits if_splits)

text \<open>The weight of a neighbor.\<close>

definition weight_at :: "nat \<Rightarrow> basis_data \<Rightarrow> nat \<Rightarrow> nat \<Rightarrow> real" where
  "weight_at d data i j = (case Wab (sample_distance d data i j None) (bd_epsilons data ! i)
     (bd_weighting_type data) (bd_weighting_p data) (bd_weighting_n data) of Inl e \<Rightarrow> 0 | Inr v \<Rightarrow> v)"

lemma weight_at_Wab:
  assumes "0 < bd_epsilons data ! i" "bd_weighting_type data \<noteq> Cosine" "0 \<le> bd_weighting_p data"
    and "bd_weighting_type data = Gaussian \<longrightarrow> bd_weighting_p data \<noteq> 0"
    and "bd_weighting_type data = Sigmoid \<longrightarrow> 0 \<le> bd_weighting_n data"
  shows "Wab (sample_distance d data i j None) (bd_epsilons data ! i) (bd_weighting_type data)
      (bd_weighting_p data) (bd_weighting_n data) = Inr (weight_at d data i j)" "0 \<le> weight_at d data i j"
proof -
  have "\<exists>v \<ge> 0. Wab (sample_distance d data i j None) (bd_epsilons data ! i) (bd_weighting_type data)
      (bd_weighting_p data) (bd_weighting_n data) = Inr v"
  proof (cases "\<bar>sample_distance d data i j None\<bar> < bd_epsilons data ! i")
    case True
    then show ?thesis using Wab_positive [OF assms(1) True assms(3,2,4,5)] by fastforce
  next
    case False
    then show ?thesis using Wab_support [OF assms(1) _ assms(3,4)] by auto
  qed
  then show "Wab (sample_distance d data i j None) (bd_epsilons data ! i) (bd_weighting_type data)
      (bd_weighting_p data) (bd_weighting_n data) = Inr (weight_at d data i j)" "0 \<le> weight_at d data i j"
    by (auto simp: weight_at_def)
qed

section \<open>The assembly of a target\<close>

definition P_tile :: "gmls \<Rightarrow> nat \<Rightarrow> nat \<Rightarrow> matrix_view" where
  "P_tile g N l = \<lparr>mv_base = int (l * (nat (g_max_num_neighbors g) * N)),
     mv_rows = g_max_num_neighbors g, mv_cols = int N\<rparr>"

lemma batch_tiles:
  assumes "scalar_problem d m g ss" "batch_state g ss" "l < n"
    and "batch_storage g ss n (g_basis_multiplier g * g_NP g)"
  shows "team_tile (int l) (g_max_num_neighbors g) (int (scalar_size d m)) = Inr (P_tile g (scalar_size d m) l)"
    "matrix_in (length (g_P g)) (P_tile g (scalar_size d m) l)"
    "length (g_RHS g) = n * (nat (g_max_num_neighbors g) * scalar_size d m)"
    "team_tile (int l) (int (scalar_size d m)) (g_max_num_neighbors g) = Inr
      \<lparr>mv_base = int (l * (nat (g_max_num_neighbors g) * scalar_size d m)), mv_rows = int (scalar_size d m),
       mv_cols = g_max_num_neighbors g\<rparr>"
proof -
  let ?N = "scalar_size d m"
  obtain M where M: "g_max_num_neighbors g = int M"
    using assms(2) unfolding batch_state_def by (metis nonneg_int_cases)
  have s: "length (g_P g) = n * (M * ?N)" "length (g_RHS g) = n * (M * ?N)" "M * ?N < 2 ^ 31" "n * (M * ?N) < 2 ^ 64"
    using assms(1,4) unfolding batch_storage_def scalar_problem_def
    by (auto simp: dims_defs M Let_def mult.commute mult.left_commute)
  have t: "tiling_ok (n, M * ?N, length (g_P g))" "tiling_ok (n, ?N * M, length (g_P g))"
    using s by (simp_all add: tiling_ok_def mult.commute)
  show "team_tile (int l) (g_max_num_neighbors g) (int ?N) = Inr (P_tile g ?N l)"
    "matrix_in (length (g_P g)) (P_tile g ?N l)"
    using team_tile_in [OF t(1) assms(3)] by (simp_all add: P_tile_def M del: of_nat_mult)
  show "length (g_RHS g) = n * (nat (g_max_num_neighbors g) * ?N)" using s(2) by (simp add: M)
  show "team_tile (int l) (int ?N) (g_max_num_neighbors g) = Inr
      \<lparr>mv_base = int (l * (nat (g_max_num_neighbors g) * ?N)), mv_rows = int ?N, mv_cols = g_max_num_neighbors g\<rparr>"
    using team_tile_in [OF t(2) assms(3)] by (simp add: M mult.commute del: of_nat_mult)
qed

text \<open>What the assembly of one target leaves in the buffers.\<close>

definition assembled_target :: "nat \<Rightarrow> nat \<Rightarrow> basis_data \<Rightarrow> gmls \<Rightarrow> nat \<Rightarrow> nat \<Rightarrow> real list \<Rightarrow> real list \<Rightarrow> bool" where
  "assembled_target d m data g l t P R \<longleftrightarrow>
     (\<forall>j < nl_count (pc_nla (g_pc g)) t.
        (\<forall>k < scalar_size d m. matrix_entry P (P_tile g (scalar_size d m) l) j k
           = sqrt (weight_at d data t j) * basis_row d m data t None j ! k)
        \<and> R ! (l * (nat (g_max_num_neighbors g) * scalar_size d m) + j) = sqrt (weight_at d data t j))"

lemma write_range:
  assumes "b + n \<le> length R"
  shows "\<exists>R'. rfold (\<lambda>i rhs. view_write rhs (int b + int i) (v i)) [0..<n] R = Inr R' \<and> length R' = length R
    \<and> (\<forall>a < length R. R' ! a = (if b \<le> a \<and> a < b + n then v (a - b) else R ! a))"
  using assms
proof (induction n)
  case 0
  then show ?case by auto
next
  case (Suc n)
  then obtain R' where R': "rfold (\<lambda>i rhs. view_write rhs (int b + int i) (v i)) [0..<n] R = Inr R'" "length R' = length R"
    "\<forall>a < length R. R' ! a = (if b \<le> a \<and> a < b + n then v (a - b) else R ! a)" by auto
  have "view_write R' (int b + int n) (v n) = Inr (R'[b + n := v n])"
    using Suc.prems R'(2) view_write_nat [of "b + n" R' "v n"] by simp
  then show ?case
    using R' Suc.prems by (auto simp: rfold_append nth_list_update)
qed

lemma basis_row_length:
  "d \<in> {1, 2, 3} \<Longrightarrow> m \<le> 14 \<Longrightarrow> length (basis_row d m data i V j) = scalar_size d m"
  using length_scalar_row by (simp add: basis_row_def coords_def)

lemma assemble_one:
  assumes data: "createGMLSBasisData g = Inr data" and prob: "scalar_problem d m g ss"
    and state: "batch_state g ss" "batch_storage g ss n (g_basis_multiplier g * g_NP g)" "batch_cleared g n"
    and l: "l < n" and t: "t = nat (g_initial_index_for_batch g) + l" "t < alpha_rows ss"
    and bufs: "length P = length (g_P g)" "length w = length (g_w g)" "length R = length (g_RHS g)"
  shows "\<exists>P' w' R'. AssembleStandardPsqrtW dbg gemm data (int l) (g\<lparr>g_P := P, g_w := w, g_RHS := R\<rparr>)
      = Inr (g\<lparr>g_P := P', g_w := w', g_RHS := R'\<rparr>)
    \<and> length P' = length P \<and> length w' = length w \<and> length R' = length R
    \<and> assembled_target d m data g l t P' R'
    \<and> (\<forall>j k. nl_count (pc_nla (g_pc g)) t \<le> j \<longrightarrow> int j < g_max_num_neighbors g \<longrightarrow> k < scalar_size d m \<longrightarrow>
         matrix_entry P' (P_tile g (scalar_size d m) l) j k = matrix_entry P (P_tile g (scalar_size d m) l) j k)
    \<and> (\<forall>a < length P. \<not> in_tile (P_tile g (scalar_size d m) l) a \<longrightarrow> P' ! a = P ! a)
    \<and> (\<forall>a < length R. a \<notin> {l * (nat (g_max_num_neighbors g) * scalar_size d m) ..<
         l * (nat (g_max_num_neighbors g) * scalar_size d m) + nat (g_max_num_neighbors g) * scalar_size d m} \<longrightarrow> R' ! a = R ! a)"
proof -
  let ?N = "scalar_size d m" and ?tile = "P_tile g (scalar_size d m) l"
  have gss: "g_d_ss g = Some ss" using state(1) by (simp add: batch_state_def)
  note f = scalar_basis_data [OF data prob gss] and p = prob [unfolded scalar_problem_def]
    and st = state(1) [unfolded batch_state_def]
  obtain M where M: "g_max_num_neighbors g = int M" using st by (metis nonneg_int_cases)
  define nn where "nn = nl_count (pc_nla (g_pc g)) t"
  have rows: "nl_rows (pc_nla (g_pc g)) = alpha_rows ss" using st by (simp add: alpha_rows_def)
  have d: "d \<in> {1, 2, 3}" using p by auto
  have nM: "nn \<le> M" using st t(2) M by (simp add: nn_def)
  have ready: "basis_ready d d data None" using p f by (simp add: basis_ready_def)
  have i: "t < nl_rows (pc_nla (bd_pc data))" using t(2) rows f by simp
  have idx: "bd_initial_index_for_batch data + int l = int t" using t(1) st f by simp
  have N: "1 \<le> ?N" using scalar_size_pos [OF d, of m] by simp
  note tiles = batch_tiles [OF prob state(1) l state(2)]
  have eps: "0 < bd_epsilons data ! t" using p f(3) t(2) rows nth_mem [of t "g_epsilons g"] by auto
  have wt: "Wab (sample_distance d data t j None) (bd_epsilons data ! t) (bd_weighting_type data)
      (bd_weighting_p data) (bd_weighting_n data) = Inr (weight_at d data t j)" for j
    using weight_at_Wab(1) [OF eps] p f by simp
  have wlen: "length w = n * M" "n * M < 2 ^ 64" using bufs(2) state(3) by (simp_all add: batch_cleared_def M)
  have "Suc l * M \<le> n * M" using l by (intro mult_le_mono1) simp
  then have lM: "l * M + M \<le> n * M" by simp
  have wbase: "uint (TO_GLOBAL (int l) * TO_GLOBAL (g_max_num_neighbors g)) = int (l * M)"
  proof -
    have "TO_GLOBAL (int l) * TO_GLOBAL (g_max_num_neighbors g) = (of_nat (l * M) :: u64)"
      by (simp add: TO_GLOBAL_of_nat M)
    then show ?thesis using uint_of_nat_u64 [of "l * M"] lM wlen(2) by simp
  qed
  define wv where "wv = take M (drop (l * M) w)"
  have wv: "buffer_vector w (int (l * M)) (g_max_num_neighbors g) = Inr wv" "length wv = M"
    using lM wlen(1) by (simp_all add: buffer_vector_def M wv_def nat_mult_distrib flip: of_nat_mult of_nat_add)
  let ?rows = "lay_rows ?tile (sample_row nn) (\<lambda>x. weighted_row True (basis_row d m data t None (fst x)) (weight_at d data t (fst x)))
        (samples nn 1) P"
  let ?w = "write_weights nn (weight_at d data t) (samples nn 1) wv"
  have fit: "buffers_fit d m 1 (replicate ?N 0) (replicate (nat ((int m + 1) * int d)) 0)"
  proof -
    have "nat ((int m + 1) * int d) = d * (m + 1)" by (simp add: nat_mult_distrib nat_add_distrib mult.commute)
    then show ?thesis by (simp add: buffers_fit_def)
  qed
  have cw: "createWeightsAndP dbg data (int l) (replicate ?N 0) (replicate (nat ((int m + 1) * int d)) 0) ?tile (int d) m True None
      ScalarTaylorPolynomial PointSample (P, wv) = Inr (?rows, ?w)"
  proof (rule weighted_rows [OF ready i idx _ point_samples_traditional fit])
    show "m \<le> 14" using p by simp
    show "getNP (int m) (int d) ScalarTaylorPolynomial * bd_basis_multiplier data = int ?N"
      using length_multi_indices [OF d, of m] f(10) by (simp add: getNP_def scalar_size_indices [OF d])
    show "bd_sampling_multiplier data = int 1" using f(11) by simp
    show "nn = nl_count (pc_nla (bd_pc data)) t" using f(1) by (simp add: nn_def)
    show "matrix_in (length P) ?tile" using tiles(2) bufs(1) by simp
    show "int (1 * nn) \<le> mv_rows ?tile" "int ?N \<le> mv_cols ?tile" "1 * nn \<le> length wv"
      using nM wv(2) by (simp_all add: P_tile_def M)
  qed (rule wt)
  have wval: "?w ! j = weight_at d data t j" if "j < nn" for j
    using nth_write_weights [of 1 nn wv j 0 "weight_at d data t"] that nM wv(2) by simp
  let ?b = "l * (M * ?N)"
  have Rroom: "?b + M * ?N \<le> length R"
  proof -
    have "Suc l * (M * ?N) \<le> n * (M * ?N)" using l by (intro mult_le_mono1) simp
    then show ?thesis using tiles(3) bufs(3) by (simp add: M)
  qed
  have "M \<le> M * ?N" using N by simp
  then have Rnn: "?b + nn \<le> length R" "nn \<le> M * ?N" using Rroom nM by linarith+
  obtain R' where R': "rfold (\<lambda>i rhs. view_write rhs (int ?b + int i) (sqrt (?w ! i))) [0..<nn] R = Inr R'"
    "length R' = length R" "\<forall>a < length R. R' ! a = (if ?b \<le> a \<and> a < ?b + nn then sqrt (?w ! (a - ?b)) else R ! a)"
    using write_range [OF Rnn(1), of "\<lambda>i. sqrt (?w ! i)"] by blast
  have loop: "rfold (\<lambda>i rhs. rbind (view_read ?w (int i)) (\<lambda>wi. view_write rhs (int ?b + int i) (sqrt wi))) [0..<nn] R = Inr R'"
    unfolding R'(1) [symmetric] using nM wv(2) by (intro rfold_cong) simp
  have count: "getNumberOfNeighborsDevice (pc_nla (g_pc g)) (int t) = Inr (int nn)"
    using nl_count_device [of "pc_nla (g_pc g)" t] ready_wf [OF ready] f(1) i by (simp add: nn_def)
  have code: "AssembleStandardPsqrtW dbg gemm data (int l) (g\<lparr>g_P := P, g_w := w, g_RHS := R\<rparr>)
      = Inr (g\<lparr>g_P := ?rows, g_w := replace_vector w (int (l * M)) ?w, g_RHS := R'\<rparr>)"
    using cw loop tiles(1,4)
    by (simp add: AssembleStandardPsqrtW_def idx [unfolded f(12)] count f Let_def wbase [unfolded M] wv(1) [unfolded M] M
        del: of_nat_mult)
  have bound: "int (sample_row nn x) < mv_rows ?tile \<and> int (length (weighted_row True (basis_row d m data t None (fst x))
      (weight_at d data t (fst x)))) \<le> mv_cols ?tile" if "x \<in> set (samples nn 1)" for x
    using sample_row_bound [OF that] nM basis_row_length [OF d, of m] p by (simp add: weighted_row_def P_tile_def M)
  have entry: "matrix_entry ?rows ?tile j k = sqrt (weight_at d data t j) * basis_row d m data t None j ! k"
    if "j < nn" "k < ?N" for j k
  proof -
    have "matrix_entry ?rows ?tile j k
        = weighted_row True (basis_row d m data t None (fst (j, 0 :: nat))) (weight_at d data t (fst (j, 0 :: nat))) ! k"
      using that nM bound tiles(2) bufs(1) sample_row_inj samples_distinct basis_row_length [OF d, of m] p
      by (intro lay_rows_entry(1)) (simp_all add: samples_set sample_row_def weighted_row_def P_tile_def M)
    then show ?thesis using that basis_row_length [OF d, of m] p by (simp add: weighted_row_def)
  qed
  have keep: "matrix_entry ?rows ?tile j k = matrix_entry P ?tile j k" if "nn \<le> j" "int j < g_max_num_neighbors g" "k < ?N" for j k
  proof (rule lay_rows_entry(2))
    show "j \<notin> sample_row nn ` set (samples nn 1)" using that(1) sample_row_bound by fastforce
  qed (use that bound tiles(2) bufs(1) sample_row_inj samples_distinct in \<open>simp_all add: P_tile_def\<close>)
  have outside: "?rows ! a = P ! a" if "a < length P" "\<not> in_tile ?tile a" for a
    using that bound by (rule lay_rows_outside)
  have wlen': "length (replace_vector w (int (l * M)) ?w) = length w"
    using lM wlen wv(2) by (simp add: replace_vector_def del: of_nat_mult)
  have asm: "assembled_target d m data g l t ?rows R'"
    using entry wval R'(3) Rnn by (auto simp: assembled_target_def M simp flip: nn_def)
  have Rout: "R' ! a = R ! a" if "a < length R" "a \<notin> {?b ..< ?b + M * ?N}" for a
    using that R'(3) Rnn(2) by auto
  show ?thesis
    by (intro exI [of _ ?rows] exI [of _ "replace_vector w (int (l * M)) ?w"] exI [of _ R'])
      (use code wlen' asm keep outside Rout R'(2) in \<open>simp add: M nn_def [symmetric]\<close>)
qed

section \<open>The batch\<close>

definition assemble_batch ::
  "bool \<Rightarrow> (real list \<Rightarrow> matrix_view \<Rightarrow> real list \<Rightarrow> matrix_view \<Rightarrow> real list result)
     \<Rightarrow> basis_data \<Rightarrow> nat list \<Rightarrow> gmls \<Rightarrow> gmls result" where
  "assemble_batch dbg gemm data ranks g = rfold (\<lambda>l. AssembleStandardPsqrtW dbg gemm data (int l)) ranks g"

definition evaluate_batch :: "bool \<Rightarrow> basis_data \<Rightarrow> nat list \<Rightarrow> gmls \<Rightarrow> gmls result" where
  "evaluate_batch dbg data ranks g = rfold (\<lambda>l. EvaluateStandardTargets dbg data (int l)) ranks g"

lemma stripe_unique:
  fixes l l' w a :: nat
  assumes "l * w \<le> a" "a < l * w + w" "l' * w \<le> a" "a < l' * w + w"
  shows "l = l'"
proof -
  have "a - l * w < w" "l * w + (a - l * w) = a" using assms by auto
  moreover have "a - l' * w < w" "l' * w + (a - l' * w) = a" using assms by auto
  ultimately show ?thesis using tile_inj [of l w "a - l * w" l' "a - l' * w"] by simp
qed

lemma P_tile_addr:
  assumes "int j < g_max_num_neighbors g" "k < N"
  shows "l * (nat (g_max_num_neighbors g) * N) \<le> matrix_addr (P_tile g N l) j k"
    "matrix_addr (P_tile g N l) j k < l * (nat (g_max_num_neighbors g) * N) + nat (g_max_num_neighbors g) * N"
  using tile_bound [of j "nat (g_max_num_neighbors g)" k N] assms by (simp_all add: matrix_addr_def P_tile_def nat_mult_distrib)

lemma other_tile:
  assumes "int j < g_max_num_neighbors g" "k < N" "l \<noteq> l'"
  shows "\<not> in_tile (P_tile g N l) (matrix_addr (P_tile g N l') j k)"
  using P_tile_addr [OF assms(1,2), of l'] assms(3) stripe_unique [of l' "nat (g_max_num_neighbors g) * N" _ l]
  by (auto simp: in_tile_def P_tile_def nat_mult_distrib)

lemma assemble_all:
  assumes data: "createGMLSBasisData g = Inr data" and prob: "scalar_problem d m g ss"
    and state: "batch_state g ss" "batch_storage g ss n (g_basis_multiplier g * g_NP g)" "batch_cleared g n"
    and teams: "teams \<le> n" "nat (g_initial_index_for_batch g) + teams \<le> alpha_rows ss"
    and ranks: "set ranks = {0..<teams}"
  shows "\<exists>P w R. assemble_batch dbg gemm data ranks g = Inr (g\<lparr>g_P := P, g_w := w, g_RHS := R\<rparr>)
    \<and> length P = length (g_P g) \<and> length R = length (g_RHS g)
    \<and> (\<forall>l < teams. assembled_target d m data g l (nat (g_initial_index_for_batch g) + l) P R
        \<and> (\<forall>j k. nl_count (pc_nla (g_pc g)) (nat (g_initial_index_for_batch g) + l) \<le> j
             \<longrightarrow> int j < g_max_num_neighbors g \<longrightarrow> k < scalar_size d m
             \<longrightarrow> matrix_entry P (P_tile g (scalar_size d m) l) j k = 0))"
proof -
  let ?N = "scalar_size d m" and ?i = "nat (g_initial_index_for_batch g)"
  let ?nn = "\<lambda>l. nl_count (pc_nla (g_pc g)) (?i + l)"
  have nM: "int (?nn l) \<le> g_max_num_neighbors g" if "l < teams" for l
    using state(1) teams(2) that by (simp add: batch_state_def)
  have N: "0 < ?N"
    using prob by (intro scalar_size_pos) (auto simp: scalar_problem_def)
  define I where "I ls s \<longleftrightarrow> (\<exists>P w R. s = g\<lparr>g_P := P, g_w := w, g_RHS := R\<rparr>
      \<and> length P = length (g_P g) \<and> length w = length (g_w g) \<and> length R = length (g_RHS g)
      \<and> (\<forall>l < teams. (l \<in> set ls \<longrightarrow> assembled_target d m data g l (?i + l) P R)
         \<and> (\<forall>j k. ?nn l \<le> j \<longrightarrow> int j < g_max_num_neighbors g \<longrightarrow> k < ?N
              \<longrightarrow> matrix_entry P (P_tile g ?N l) j k = 0)))" for ls s
  have "\<exists>s'. rfold (\<lambda>l. AssembleStandardPsqrtW dbg gemm data (int l)) ranks g = Inr s' \<and> I ranks s'"
  proof (rule rfold_steps [where I = I])
    show "I [] g"
    proof -
      have "matrix_entry (g_P g) (P_tile g ?N l) j k = 0"
        if "l < teams" "int j < g_max_num_neighbors g" "k < ?N" for l j k
      proof -
        have "matrix_addr (P_tile g ?N l) j k < length (g_P g)"
          using batch_tiles(2) [OF prob state(1) _ state(2), of l] that teams(1)
          by (intro matrix_addr_bound) (simp_all add: P_tile_def)
        then show ?thesis using state(3) nth_mem by (auto simp: batch_cleared_def matrix_entry_def)
      qed
      then show ?thesis
        unfolding I_def by (intro exI [of _ "g_P g"] exI [of _ "g_w g"] exI [of _ "g_RHS g"]) simp
    qed
  next
    fix ls l zs s
    assume dec: "ranks = ls @ l # zs" and inv: "I ls s"
    have l: "l < teams" using ranks dec by auto
    obtain P w R where s: "s = g\<lparr>g_P := P, g_w := w, g_RHS := R\<rparr>"
      "length P = length (g_P g)" "length w = length (g_w g)" "length R = length (g_RHS g)"
      and all: "\<And>l. l < teams \<Longrightarrow> (l \<in> set ls \<longrightarrow> assembled_target d m data g l (?i + l) P R)
         \<and> (\<forall>j k. ?nn l \<le> j \<longrightarrow> int j < g_max_num_neighbors g \<longrightarrow> k < ?N
              \<longrightarrow> matrix_entry P (P_tile g ?N l) j k = 0)"
      using inv unfolding I_def by blast
    obtain P' w' R' where n: "AssembleStandardPsqrtW dbg gemm data (int l) s = Inr (g\<lparr>g_P := P', g_w := w', g_RHS := R'\<rparr>)"
      "length P' = length P" "length w' = length w" "length R' = length R" "assembled_target d m data g l (?i + l) P' R'"
      and keep: "\<And>j k. ?nn l \<le> j \<Longrightarrow> int j < g_max_num_neighbors g \<Longrightarrow> k < ?N \<Longrightarrow>
         matrix_entry P' (P_tile g ?N l) j k = matrix_entry P (P_tile g ?N l) j k"
      and out: "\<And>a. a < length P \<Longrightarrow> \<not> in_tile (P_tile g ?N l) a \<Longrightarrow> P' ! a = P ! a"
        "\<And>a. a < length R \<Longrightarrow> a \<notin> {l * (nat (g_max_num_neighbors g) * ?N) ..<
         l * (nat (g_max_num_neighbors g) * ?N) + nat (g_max_num_neighbors g) * ?N} \<Longrightarrow> R' ! a = R ! a"
      using assemble_one [OF data prob state _ refl _ s(2-4), of l dbg gemm] l teams unfolding s(1) by auto
    have other: "matrix_entry P' (P_tile g ?N l') j k = matrix_entry P (P_tile g ?N l') j k"
      if "l' < teams" "l' \<noteq> l" "int j < g_max_num_neighbors g" "k < ?N" for l' j k
    proof -
      have "matrix_addr (P_tile g ?N l') j k < length P"
        using batch_tiles(2) [OF prob state(1) _ state(2), of l'] that teams(1) s(2)
        by (intro matrix_addr_bound) (simp_all add: P_tile_def)
      then show ?thesis using out(1) other_tile [OF that(3,4)] that(2) by (simp add: matrix_entry_def)
    qed
    have otherR: "R' ! (l' * (nat (g_max_num_neighbors g) * ?N) + j) = R ! (l' * (nat (g_max_num_neighbors g) * ?N) + j)"
      if "l' < teams" "l' \<noteq> l" "j < ?nn l'" for l' j
    proof -
      let ?w = "nat (g_max_num_neighbors g) * ?N"
      have "j < nat (g_max_num_neighbors g)" using nM [OF that(1)] that(3) by linarith
      moreover have "nat (g_max_num_neighbors g) \<le> ?w" using N by simp
      ultimately have j: "j < ?w" by linarith
      have "Suc l' * ?w \<le> n * ?w" using that(1) teams(1) by (intro mult_le_mono1) simp
      then have "l' * ?w + j < length R"
        using j s(4) batch_tiles(3) [OF prob state(1) _ state(2), of l'] that(1) teams(1) by simp
      moreover have "l' * ?w + j \<notin> {l * ?w ..< l * ?w + ?w}"
        using stripe_unique [of l ?w "l' * ?w + j" l'] that(2) j by auto
      ultimately show ?thesis by (rule out(2))
    qed
    have "assembled_target d m data g l' (?i + l') P' R'" if "l' < teams" "l' \<in> set (ls @ [l])" for l'
    proof (cases "l' = l")
      case True
      then show ?thesis using n(5) by simp
    next
      case False
      moreover have "int j < g_max_num_neighbors g" if "j < ?nn l'" for j
        using nM [OF \<open>l' < teams\<close>] that by linarith
      ultimately show ?thesis
        using all [OF that(1)] that other [OF that(1) False] otherR [OF that(1) False] by (simp add: assembled_target_def)
    qed
    moreover have "matrix_entry P' (P_tile g ?N l') j k = 0"
      if "l' < teams" "?nn l' \<le> j" "int j < g_max_num_neighbors g" "k < ?N" for l' j k
      using all [OF that(1)] keep [of j k] other [OF that(1) _ that(3,4)] that by (cases "l' = l") auto
    ultimately show "\<exists>s'. AssembleStandardPsqrtW dbg gemm data (int l) s = Inr s' \<and> I (ls @ [l]) s'"
      unfolding n(1) I_def using n(2-4) s(2-4)
      by (intro exI [of _ "g\<lparr>g_P := P', g_w := w', g_RHS := R'\<rparr>"] conjI refl exI [of _ P'] exI [of _ w'] exI [of _ R']) auto
  qed
  then show ?thesis unfolding I_def assemble_batch_def ranks by auto
qed

definition evaluated_target :: "nat \<Rightarrow> nat \<Rightarrow> gmls \<Rightarrow> basis_data \<Rightarrow> solution_data \<Rightarrow> nat \<Rightarrow> nat \<Rightarrow> real list \<Rightarrow> bool" where
  "evaluated_target d m g bdata sdata l t Z \<longleftrightarrow>
     (\<forall>x \<in> set (all_places d (additional_sites g t + 1) (bd_operations bdata)). \<forall>k < scalar_size d m.
        matrix_entry Z (target_tile sdata l) (any_row bdata x) k = any_values d m bdata t x ! k)"

text \<open>The data of both kinds of functors, made from the same problem, and the sizes of a batch.\<close>

definition scalar_batch :: "nat \<Rightarrow> nat \<Rightarrow> gmls \<Rightarrow> solution_set \<Rightarrow> basis_data \<Rightarrow> solution_data \<Rightarrow> nat \<Rightarrow> nat \<Rightarrow> bool" where
  "scalar_batch d m g ss bdata sdata n teams \<longleftrightarrow>
     createGMLSBasisData g = Inr bdata \<and> createGMLSSolutionData g = Inr sdata
     \<and> scalar_problem d m g ss \<and> batch_state g ss \<and> batch_storage g ss n (g_basis_multiplier g * g_NP g)
     \<and> batch_cleared g n \<and> teams \<le> n \<and> nat (g_initial_index_for_batch g) + teams \<le> alpha_rows ss
     \<and> (\<forall>l < teams. sites_valid d bdata (nat (g_initial_index_for_batch g) + l)
          (additional_sites g (nat (g_initial_index_for_batch g) + l) + 1))"

lemma scalar_batch_ready:
  assumes "scalar_batch d m g ss bdata sdata n teams" "l < teams"
  defines "t \<equiv> nat (g_initial_index_for_batch g) + l"
  shows "scalar_target_ready d m bdata t (additional_sites g t + 1)" "scalar_targets d m bdata"
    "bd_initial_index_for_batch bdata + int l = int t"
    "getNumberOfNeighborsDevice (pc_nla (bd_additional_pc bdata)) (int t) = Inr (int (additional_sites g t + 1) - 1)"
    "additional_sites g t + 1 \<le> nat (ss_max_evaluation_sites_per_target (bd_d_ss bdata))"
    "team_tile (int l) (bd_P_target_row_dim_0 bdata) (bd_P_target_row_dim_1 bdata) = Inr (target_tile sdata l)"
    "matrix_in (length (g_Z g)) (target_tile sdata l)"
    "mv_rows (target_tile sdata l) = int (alpha_columns (bd_d_ss bdata))"
    "mv_cols (target_tile sdata l) = int (scalar_size d m)"
    "t < alpha_rows ss"
proof -
  note b = assms(1) [unfolded scalar_batch_def]
  have prob: "scalar_problem d m g ss" and state: "batch_state g ss" using b by simp_all
  have gss: "g_d_ss g = Some ss" using state by (simp add: batch_state_def)
  note f = scalar_basis_data [OF _ prob gss, of bdata] and s = scalar_solution_data [OF _ prob gss, of sdata]
  note p = prob [unfolded scalar_problem_def] and st = state [unfolded batch_state_def]
  show t: "t < alpha_rows ss" using b assms(2) by (simp add: t_def)
  have rows: "nl_rows (pc_nla (g_pc g)) = alpha_rows ss" using st by (simp add: alpha_rows_def)
  have eps: "bd_epsilons bdata ! t \<noteq> 0"
  proof -
    have "t < length (g_epsilons g)" using p t rows by simp
    then have "0 < g_epsilons g ! t" using p nth_mem by blast
    then show ?thesis using f(3) b by simp
  qed
  show "scalar_target_ready d m bdata t (additional_sites g t + 1)"
    using b p st f t rows eps assms(2)
    by (simp add: scalar_target_ready_def basis_ready_def alphas_inv_def t_def)
  show "scalar_targets d m bdata" using b p st f by (simp add: scalar_targets_def)
  show "bd_initial_index_for_batch bdata + int l = int t" using b st f by (simp add: t_def)
  have len: "t < length (nl_number_of_neighbors_list (pc_nla (g_additional_pc g)))" using st t by simp
  have add: "0 \<le> nl_number_of_neighbors_list (pc_nla (g_additional_pc g)) ! t"
    "nl_number_of_neighbors_list (pc_nla (g_additional_pc g)) ! t < ss_max_evaluation_sites_per_target ss"
    using st nth_mem [OF len] by auto
  then show "getNumberOfNeighborsDevice (pc_nla (bd_additional_pc bdata)) (int t) = Inr (int (additional_sites g t + 1) - 1)"
    using b f len by (simp add: getNumberOfNeighborsDevice_def additional_sites_def)
  show "additional_sites g t + 1 \<le> nat (ss_max_evaluation_sites_per_target (bd_d_ss bdata))"
    using b f add by (simp add: additional_sites_def)
  have ready: "apply_ready sdata (length (buffer_of g (sd_Coeffs_data sdata))) (length (g_Z g)) teams"
    using solution_data_ready(1) [of g sdata ss n teams] b by simp
  note tiles = apply_tiles(2,4) [OF ready assms(2)]
  show "matrix_in (length (g_Z g)) (target_tile sdata l)" by (rule tiles(2))
  have "sd_P_target_row_dim_0 sdata = int (alpha_columns ss)" "sd_P_target_row_dim_1 sdata = int (scalar_size d m)"
    "ss_total_alpha_values ss * ss_max_evaluation_sites_per_target ss = int (alpha_columns ss)"
    using ready b s st by (simp_all add: apply_ready_def alpha_columns_def alphas_inv_def)
  then show "team_tile (int l) (bd_P_target_row_dim_0 bdata) (bd_P_target_row_dim_1 bdata) = Inr (target_tile sdata l)"
    using tiles(1) b f by simp
  show "mv_rows (target_tile sdata l) = int (alpha_columns (bd_d_ss bdata))"
    "mv_cols (target_tile sdata l) = int (scalar_size d m)"
    using b f s by (simp_all add: target_tile_def)
qed

lemma scalar_batch_fields:
  assumes "scalar_batch d m g ss bdata sdata n teams"
  shows "bd_this_num_cols bdata = int (scalar_size d m)" "bd_thread_workspace_dim bdata = (int m + 1) * int d"
    "bd_d_ss bdata = ss" "bd_operations bdata = ss_lro ss" "ss_inv ss" "sd_d_ss sdata = ss"
    "sd_this_num_cols sdata = int (scalar_size d m)" "bd_pc bdata = g_pc g"
proof -
  note b = assms [unfolded scalar_batch_def]
  have prob: "scalar_problem d m g ss" and state: "batch_state g ss" using b by simp_all
  have gss: "g_d_ss g = Some ss" using state by (simp add: batch_state_def)
  show "bd_this_num_cols bdata = int (scalar_size d m)" "bd_thread_workspace_dim bdata = (int m + 1) * int d"
    "bd_d_ss bdata = ss" "bd_operations bdata = ss_lro ss" "ss_inv ss" "sd_d_ss sdata = ss"
    "sd_this_num_cols sdata = int (scalar_size d m)" "bd_pc bdata = g_pc g"
    using scalar_basis_data [OF _ prob gss, of bdata] scalar_solution_data [OF _ prob gss, of sdata] b state
    by (simp_all add: batch_state_def alphas_inv_def)
qed

lemma evaluate_one:
  assumes "scalar_batch d m g ss bdata sdata n teams" "l < teams" "length (g_Z s) = length (g_Z g)"
  defines "t \<equiv> nat (g_initial_index_for_batch g) + l"
  shows "\<exists>Z. EvaluateStandardTargets dbg bdata (int l) s = Inr (s\<lparr>g_Z := Z\<rparr>) \<and> length Z = length (g_Z s)
    \<and> evaluated_target d m g bdata sdata l t Z
    \<and> (\<forall>a < length (g_Z s). \<not> in_tile (target_tile sdata l) a \<longrightarrow> Z ! a = g_Z s ! a)"
proof -
  note r = scalar_batch_ready [OF assms(1,2), folded t_def] and f = scalar_batch_fields [OF assms(1)]
  have "nat ((int m + 1) * int d) = d * (m + 1)" by (simp add: nat_mult_distrib nat_add_distrib mult.commute)
  then have fits: "scratch_fits d m (target_tile sdata l) (replicate (nat (bd_this_num_cols bdata)) 0,
      replicate (nat (bd_thread_workspace_dim bdata)) 0, g_Z s)"
    using r(7,9) f(1,2) assms(3) by (simp add: scratch_fits_def buffers_fit_def)
  obtain st' where st': "computeTargetFunctionals dbg bdata (int l) (target_tile sdata l) (replicate (nat (bd_this_num_cols bdata)) 0,
      replicate (nat (bd_thread_workspace_dim bdata)) 0, g_Z s) = Inr st'"
    "same_scratch (replicate (nat (bd_this_num_cols bdata)) 0, replicate (nat (bd_thread_workspace_dim bdata)) 0, g_Z s) st'"
    "\<And>j out e k. (j, out, e) \<in> set (all_places d (additional_sites g t + 1) (bd_operations bdata)) \<Longrightarrow> k < scalar_size d m \<Longrightarrow>
         matrix_entry (snd (snd st')) (target_tile sdata l) (any_row bdata (j, out, e)) k = any_values d m bdata t (j, out, e) ! k"
    "\<And>a. a < length (g_Z s) \<Longrightarrow> \<not> in_tile (target_tile sdata l) a \<Longrightarrow> snd (snd st') ! a = g_Z s ! a"
    using scalar_functionals [OF r(1,2) fits r(3,8,4) _ r(5), of dbg] by auto
  have "EvaluateStandardTargets dbg bdata (int l) s = Inr (s\<lparr>g_Z := snd (snd st')\<rparr>)"
    using st'(1) r(6) by (simp add: EvaluateStandardTargets_def split: prod.splits)
  moreover have "length (snd (snd st')) = length (g_Z s)" using st'(2) by (auto simp: same_scratch_def split: prod.splits)
  ultimately show ?thesis using st'(3,4) by (auto simp: evaluated_target_def)
qed

lemma evaluate_all:
  assumes batch: "scalar_batch d m g ss bdata sdata n teams" and len: "length (g_Z s) = length (g_Z g)"
    and ranks: "set ranks = {0..<teams}"
  shows "\<exists>Z. evaluate_batch dbg bdata ranks s = Inr (s\<lparr>g_Z := Z\<rparr>) \<and> length Z = length (g_Z s)
    \<and> (\<forall>l < teams. evaluated_target d m g bdata sdata l (nat (g_initial_index_for_batch g) + l) Z)"
proof -
  let ?i = "nat (g_initial_index_for_batch g)" and ?N = "scalar_size d m"
  note f = scalar_batch_fields [OF batch]
  define I where "I ls s' \<longleftrightarrow> (\<exists>Z. s' = s\<lparr>g_Z := Z\<rparr> \<and> length Z = length (g_Z s)
      \<and> (\<forall>l < teams. l \<in> set ls \<longrightarrow> evaluated_target d m g bdata sdata l (?i + l) Z))" for ls s'
  have "\<exists>s'. rfold (\<lambda>l. EvaluateStandardTargets dbg bdata (int l)) ranks s = Inr s' \<and> I ranks s'"
  proof (rule rfold_steps [where I = I])
    show "I [] s" unfolding I_def by (rule exI [of _ "g_Z s"]) simp
  next
    fix ls l zs s'
    assume dec: "ranks = ls @ l # zs" and inv: "I ls s'"
    have l: "l < teams" using ranks dec by auto
    obtain Z where s': "s' = s\<lparr>g_Z := Z\<rparr>" "length Z = length (g_Z s)"
      and all: "\<And>l. l < teams \<Longrightarrow> l \<in> set ls \<Longrightarrow> evaluated_target d m g bdata sdata l (?i + l) Z"
      using inv unfolding I_def by blast
    obtain Z' where Z': "EvaluateStandardTargets dbg bdata (int l) s' = Inr (s'\<lparr>g_Z := Z'\<rparr>)" "length Z' = length Z"
      "evaluated_target d m g bdata sdata l (?i + l) Z'"
      and out: "\<And>a. a < length Z \<Longrightarrow> \<not> in_tile (target_tile sdata l) a \<Longrightarrow> Z' ! a = Z ! a"
      using evaluate_one [OF batch l, of s' dbg] s' len by auto
    have "evaluated_target d m g bdata sdata l' (?i + l') Z'" if l': "l' < teams" "l' \<in> set (ls @ [l])" for l'
    proof (cases "l' = l")
      case True
      then show ?thesis using Z'(3) by simp
    next
      case False
      let ?cols = "alpha_columns ss"
      note r = scalar_batch_ready [OF batch l'(1)]
      have tile: "target_tile sdata l'' = \<lparr>mv_base = int (l'' * (?cols * ?N)), mv_rows = int ?cols, mv_cols = int ?N\<rparr>" for l''
        by (simp add: target_tile_def f(6,7))
      have "matrix_entry Z' (target_tile sdata l') (any_row bdata x) k = matrix_entry Z (target_tile sdata l') (any_row bdata x) k"
        if x: "x \<in> set (all_places d (additional_sites g (?i + l') + 1) (bd_operations bdata))" and k: "k < ?N" for x k
      proof -
        have row: "any_row bdata x < ?cols"
          using any_row_bound [OF r(2) _ x _ r(5)] f(3,5) by simp
        have addr: "matrix_addr (target_tile sdata l') (any_row bdata x) k < length Z"
          using r(7) row k s'(2) len by (intro matrix_addr_bound) (simp_all add: tile)
        have "any_row bdata x * ?N + k < ?cols * ?N" using tile_bound [OF row k] .
        then have "\<not> in_tile (target_tile sdata l) (matrix_addr (target_tile sdata l') (any_row bdata x) k)"
          using stripe_unique [of l' "?cols * ?N" "matrix_addr (target_tile sdata l') (any_row bdata x) k" l] False
          by (auto simp: in_tile_def matrix_addr_def tile simp del: of_nat_mult)
        then show ?thesis using out [OF addr] by (simp add: matrix_entry_def)
      qed
      then show ?thesis using all [OF l'(1)] l'(2) False by (simp add: evaluated_target_def)
    qed
    then show "\<exists>s''. EvaluateStandardTargets dbg bdata (int l) s' = Inr s'' \<and> I (ls @ [l]) s''"
      unfolding Z'(1) I_def using s' Z'(2)
      by (intro exI [of _ "s'\<lparr>g_Z := Z'\<rparr>"] conjI refl exI [of _ Z']) simp_all
  qed
  then show ?thesis unfolding I_def evaluate_batch_def ranks by auto
qed

text \<open>
  The solver: \<open>batchQRPivotingSolve\<close> takes the matrices and the diagonals of the right-hand
  sides of a batch and leaves solutions of the least-squares problems, which are
  characterised by the normal equations.
\<close>

definition solves_batch ::
  "gmls \<Rightarrow> nat \<Rightarrow> solution_data \<Rightarrow> nat \<Rightarrow> (real list \<Rightarrow> real list \<Rightarrow> real list \<times> real list) \<Rightarrow> bool" where
  "solves_batch g N data teams solve \<longleftrightarrow>
     (\<forall>P R. length P = length (g_P g) \<longrightarrow> length R = length (g_RHS g) \<longrightarrow>
        length (fst (solve P R)) = length P \<and> length (snd (solve P R)) = length R
        \<and> (\<forall>l < teams. normal_equations (nat (g_max_num_neighbors g)) N
             (\<lambda>i k. matrix_entry P (P_tile g N l) i k)
             (\<lambda>j. R ! (l * (nat (g_max_num_neighbors g) * N) + j))
             (\<lambda>r j. matrix_entry (snd (solve P R)) (Coeffs_tile data l) r j)))"

lemma sum_zero_tail: "n \<le> m \<Longrightarrow> (\<And>i. n \<le> i \<Longrightarrow> i < m \<Longrightarrow> f i = 0) \<Longrightarrow> (\<Sum>i<m. f i) = (\<Sum>i<n. f i)"
  for f :: "nat \<Rightarrow> real"
  by (rule sum.mono_neutral_right) auto

text \<open>The normal equations of a target, without the rows that no neighbor fills.\<close>

lemma target_normal_equations:
  assumes "normal_equations M N A r X" "n \<le> M"
    and "\<And>i k. n \<le> i \<Longrightarrow> i < M \<Longrightarrow> k < N \<Longrightarrow> A i k = 0"
    and "\<And>i k. i < n \<Longrightarrow> k < N \<Longrightarrow> A i k = sqrt (w i) * R i k" "\<And>j. j < n \<Longrightarrow> r j = sqrt (w j)"
  shows "normal_equations n N (\<lambda>i k. sqrt (w i) * R i k) (\<lambda>j. sqrt (w j)) X"
  unfolding normal_equations_def
proof (intro allI impI)
  fix j k assume j: "j < n" and k: "k < N"
  have "(\<Sum>i<n. sqrt (w i) * R i k * (\<Sum>l<N. sqrt (w i) * R i l * X l j)) = (\<Sum>i<n. A i k * (\<Sum>l<N. A i l * X l j))"
    using assms(4) k by simp
  also have "\<dots> = (\<Sum>i<M. A i k * (\<Sum>l<N. A i l * X l j))"
    using assms(2,3) k by (intro sum_zero_tail [symmetric]) simp_all
  also have "\<dots> = A j k * r j" using assms(1,2) j k by (simp add: normal_equations_def)
  also have "\<dots> = sqrt (w j) * R j k * sqrt (w j)" using assms(4,5) j k by simp
  finally show "(\<Sum>i<n. sqrt (w i) * R i k * (\<Sum>l<N. sqrt (w i) * R i l * X l j)) = sqrt (w j) * R j k * sqrt (w j)" .
qed

text \<open>The request for the coefficient of a neighbor, and the condition on the neighborhood.\<close>

definition scalar_request :: "TargetOperation \<Rightarrow> nat \<Rightarrow> nat \<Rightarrow> nat \<Rightarrow> nat \<Rightarrow> alpha_request" where
  "scalar_request op t out e j = \<lparr>rq_lro = op, rq_target = t, rq_out1 = out, rq_out2 = 0, rq_neighbor = j,
     rq_in1 = 0, rq_in2 = 0, rq_site = e\<rparr>"

definition unisolvent_target :: "nat \<Rightarrow> nat \<Rightarrow> basis_data \<Rightarrow> nat \<Rightarrow> bool" where
  "unisolvent_target d m data t \<longleftrightarrow>
     unisolvent (nl_count (pc_nla (bd_pc data)) t) (scalar_size d m)
       (\<lambda>j k. basis_row d m data t None j ! k) (weight_at d data t)"

text \<open>
  The coefficients of a target reproduce the operation on the polynomials: the sum of the
  values of a polynomial at the neighbors, each times its coefficient, is what the
  operation is of the polynomial.
\<close>

definition reproduces_polynomials ::
  "bool \<Rightarrow> nat \<Rightarrow> nat \<Rightarrow> basis_data \<Rightarrow> solution_set \<Rightarrow> nat \<Rightarrow> TargetOperation \<Rightarrow> nat \<Rightarrow> nat \<Rightarrow> bool" where
  "reproduces_polynomials dbg d m data ss t op out e \<longleftrightarrow>
     (\<exists>alpha. (\<forall>j < nl_count (pc_nla (bd_pc data)) t.
          getAlpha_request_device dbg ss (scalar_request op t out e j) = Inr (alpha j))
      \<and> (\<forall>c. exact_value d m op out e (bd_epsilons data ! t) c (coords (site_offset d d data t e))
          (\<Sum>j < nl_count (pc_nla (bd_pc data)) t. alpha j
             * polynomial d m (bd_epsilons data ! t) c (coords (neighbor_offset d d data t j None)))))"

lemma scalar_request_facts:
  assumes "scalar_batch d m g ss bdata sdata n teams" "l < teams" "op \<in> set (ss_lro ss)" "out < op_outs d op"
    and "e \<le> additional_sites g t" "j < nl_count (pc_nla (bd_pc bdata)) t"
    and t: "t = nat (g_initial_index_for_batch g) + l"
  shows "request_valid ss (scalar_request op t out e j)" "in_batch sdata teams (scalar_request op t out e j)"
    "request_column ss (scalar_request op t out e j) = any_row bdata (lro_place ss op, out, e)"
    "lro_place ss op < length (bd_operations bdata)" "bd_operations bdata ! lro_place ss op = op"
    "scalar_operation d m op"
proof -
  note b = assms(1) [unfolded scalar_batch_def] and r = scalar_batch_ready [OF assms(1,2), folded t]
    and f = scalar_batch_fields [OF assms(1)]
  have prob: "scalar_problem d m g ss" and state: "batch_state g ss" using b by simp_all
  have gss: "g_d_ss g = Some ss" using state by (simp add: batch_state_def)
  note p = prob [unfolded scalar_problem_def] and st = state [unfolded batch_state_def]
    and s = scalar_solution_data [OF _ prob gss, of sdata]
  note place = lro_place [OF f(5) assms(3)]
  show op: "scalar_operation d m op" using p assms(3) by simp
  show "lro_place ss op < length (bd_operations bdata)" "bd_operations bdata ! lro_place ss op = op"
    using place(1,2) f(4) by (simp_all add: ss_rows_def)
  have rank: "target_output_rank op = (if op = GradientOfScalarPointEvaluation then 1 else 0)"
    using op by (auto simp: scalar_operation_def)
  have depth: "j < alpha_depth ss t" using assms(6) st f(8) by (simp add: alpha_depth_def)
  have site: "e < nat (ss_max_evaluation_sites_per_target ss)" using r(5) f(3) assms(5) by simp
  have out: "output_valid op d out 0" using rank assms(4) by (auto simp: output_valid_def op_outs_def split: if_splits)
  have inp: "input_valid (ss_data_sampling_functional ss) d 0 0" using p by (simp add: input_valid_def sampling_functional_defs)
  show "request_valid ss (scalar_request op t out e j)"
    using assms(3) r(10) depth site out inp p rank by (simp add: request_valid_def scalar_request_def index_dims_ok_def)
  have "0 \<le> nl_number_of_neighbors_list (pc_nla (g_additional_pc g)) ! t" using st r(10) nth_mem by simp
  then have "sites_of sdata t = additional_sites g t + 1"
    using b s by (simp add: sites_of_def additional_sites_def nat_add_distrib)
  then show "in_batch sdata teams (scalar_request op t out e j)"
    using b s assms(2,5) by (simp add: in_batch_def scalar_request_def t)
  have "output_index op d out 0 = out" using rank by (simp add: output_index_def)
  then show "request_column ss (scalar_request op t out e j) = any_row bdata (lro_place ss op, out, e)"
    using p f(3) by (simp add: request_column_def scalar_request_def any_row_def place_row_def)
qed

text \<open>One target whose buffers are filled, solved and evaluated reproduces the polynomials.\<close>

lemma target_reproduces:
  assumes batch: "scalar_batch d m g ss bdata sdata n teams" and l: "l < teams"
    and t: "t = nat (g_initial_index_for_batch g) + l"
    and filled: "assembled_target d m bdata g l t P R"
      "\<And>j k. nl_count (pc_nla (g_pc g)) t \<le> j \<Longrightarrow> int j < g_max_num_neighbors g \<Longrightarrow> k < scalar_size d m \<Longrightarrow>
         matrix_entry P (P_tile g (scalar_size d m) l) j k = 0"
    and solved: "normal_equations (nat (g_max_num_neighbors g)) (scalar_size d m)
        (\<lambda>i k. matrix_entry P (P_tile g (scalar_size d m) l) i k)
        (\<lambda>j. R ! (l * (nat (g_max_num_neighbors g) * scalar_size d m) + j))
        (\<lambda>r j. matrix_entry C (Coeffs_tile sdata l) r j)"
    and evaluated: "evaluated_target d m g bdata sdata l t Z"
    and read: "\<And>r. request_valid ss r \<Longrightarrow> getAlpha_request_device dbg ss' r
        = Inr (apply_spec sdata teams C Z (alpha_of ss) r)"
    and uni: "unisolvent_target d m bdata t" and op: "op \<in> set (ss_lro ss)" "out < op_outs d op"
    and e: "e \<le> additional_sites g t"
  shows "reproduces_polynomials dbg d m bdata ss' t op out e"
proof -
  note b = batch [unfolded scalar_batch_def] and r = scalar_batch_ready [OF batch l, folded t]
    and f = scalar_batch_fields [OF batch]
  have prob: "scalar_problem d m g ss" and state: "batch_state g ss" using b by simp_all
  have gss: "g_d_ss g = Some ss" using state by (simp add: batch_state_def)
  note p = prob [unfolded scalar_problem_def] and st = state [unfolded batch_state_def]
    and s = scalar_solution_data [OF _ prob gss, of sdata] and bf = scalar_basis_data [OF _ prob gss, of bdata]
  let ?N = "scalar_size d m" and ?nn = "nl_count (pc_nla (bd_pc bdata)) t" and ?h = "bd_epsilons bdata ! t"
  let ?X = "\<lambda>r j. matrix_entry C (Coeffs_tile sdata l) r j" and ?R = "\<lambda>j k. basis_row d m bdata t None j ! k"
  note facts = scalar_request_facts [OF batch l op e _ t]
  have d: "d \<in> {1, 2, 3}" "m \<le> 14" using p by auto
  have h: "?h \<noteq> 0" using r(1) by (simp add: scalar_target_ready_def)
  have nM: "?nn \<le> nat (g_max_num_neighbors g)" using st r(10) f(8) by auto
  have normal: "normal_equations ?nn ?N (\<lambda>i k. sqrt (weight_at d bdata t i) * ?R i k) (\<lambda>j. sqrt (weight_at d bdata t j)) ?X"
    using filled nM f(8) by (intro target_normal_equations [OF solved nM]) (simp_all add: assembled_target_def)
  have eps: "0 < bd_epsilons bdata ! t"
  proof -
    have "t < length (g_epsilons g)" using p st r(10) by (simp add: alpha_rows_def)
    then have "0 < g_epsilons g ! t" using p nth_mem by blast
    then show ?thesis using bf(3) b by simp
  qed
  have wt: "\<forall>i < ?nn. 0 \<le> weight_at d bdata t i" using weight_at_Wab(2) [OF eps] p bf b by simp
  define z where "z k = functional_row d m op out ?h (coords (site_offset d d bdata t e)) ! k" for k
  define alpha where "alpha j = apply_spec sdata teams C Z (alpha_of ss) (scalar_request op t out e j)" for j
  have requests: "getAlpha_request_device dbg ss' (scalar_request op t out e j) = Inr (alpha j)" if "j < ?nn" for j
    using read [OF facts(1)] that by (simp add: alpha_def)
  have exact: "exact_value d m op out e ?h c (coords (site_offset d d bdata t e)) (\<Sum>j < ?nn. alpha j
      * polynomial d m ?h c (coords (neighbor_offset d d bdata t j None)))" for c
  proof (cases "op = LaplacianOfScalarPointEvaluation \<and> e \<noteq> 0")
    case True
    then show ?thesis by (simp add: exact_value_def)
  next
    case False
    then have site: "e < op_sites (additional_sites g t + 1) op" using e by (simp add: op_sites_def)
    have alpha: "alpha j = (\<Sum>k < ?N. z k * ?X k j)" if j: "j < ?nn" for j
    proof -
      let ?x = "(lro_place ss op, out, e)"
      have mem: "?x \<in> set (all_places d (additional_sites g t + 1) (bd_operations bdata))"
        using facts(4,5) j op(2) site by (simp add: all_places_set)
      have "alpha j = request_product sdata C Z (scalar_request op t out e j)"
        using facts(2) j by (simp add: alpha_def apply_spec_def)
      also have "\<dots> = (\<Sum>k < ?N. matrix_entry Z (target_tile sdata l) (any_row bdata ?x) k * ?X k j)"
        using facts(3) j b s st t f
        by (simp add: request_product_def target_product_def Let_def scalar_request_def)
      also have "\<dots> = (\<Sum>k < ?N. z k * ?X k j)"
        using evaluated mem facts(5) j
        by (intro sum.cong) (simp_all add: evaluated_target_def any_values_def place_values_def z_def)
      finally show ?thesis .
    qed
    have "(\<Sum>j < ?nn. alpha j * polynomial d m ?h c (coords (neighbor_offset d d bdata t j None)))
        = (\<Sum>j < ?nn. (\<Sum>k < ?N. z k * ?X k j) * (\<Sum>k < ?N. c k * ?R j k))"
      using alpha by (intro sum.cong) (simp_all add: polynomial_def basis_row_def)
    also have "\<dots> = (\<Sum>k < ?N. z k * c k)"
      using reproduce [OF normal wt] uni by (simp add: unisolvent_target_def)
    finally show ?thesis
      using functional_exact [OF d h, of "coords (site_offset d d bdata t e)" op out e c] op p
      unfolding z_def by (simp add: coords_def)
  qed
  then show ?thesis using requests by (auto simp: reproduces_polynomials_def)
qed

text \<open>The four steps of a batch, one after the other.\<close>

lemma batch_reproduces:
  assumes batch: "scalar_batch d m g ss bdata sdata n teams"
    and solver: "solves_batch g (scalar_size d m) sdata teams solve"
    and schedules: "schedule_ok use_cuda places sdata teams" "set ranks1 = {0..<teams}" "set ranks2 = {0..<teams}"
      "set ranks3 = {0..<teams}"
  shows "\<exists>g1 g2 ss'. assemble_batch dbg gemm bdata ranks1 g = Inr g1
    \<and> evaluate_batch dbg bdata ranks2 (g1\<lparr>g_P := fst (solve (g_P g1) (g_RHS g1)), g_RHS := snd (solve (g_P g1) (g_RHS g1))\<rparr>)
        = Inr g2
    \<and> apply_batch use_cuda places sdata ranks3 g2 = Inr (g2\<lparr>g_d_ss := Some ss'\<rparr>)
    \<and> g2 = g\<lparr>g_P := g_P g2, g_w := g_w g2, g_RHS := g_RHS g2, g_Z := g_Z g2\<rparr>
    \<and> ss' = ss\<lparr>ss_alphas := ss_alphas ss'\<rparr> \<and> alphas_inv ss'
    \<and> (\<forall>t op out e. t \<in> {nat (g_initial_index_for_batch g) ..< nat (g_initial_index_for_batch g) + teams}
         \<longrightarrow> unisolvent_target d m bdata t \<longrightarrow> op \<in> set (ss_lro ss) \<longrightarrow> out < op_outs d op \<longrightarrow> e \<le> additional_sites g t
         \<longrightarrow> reproduces_polynomials dbg d m bdata ss' t op out e)"
proof -
  let ?i = "nat (g_initial_index_for_batch g)" and ?N = "scalar_size d m"
  note b = batch [unfolded scalar_batch_def] and f = scalar_batch_fields [OF batch]
  have prob: "scalar_problem d m g ss" and state: "batch_state g ss" using b by simp_all
  have gss: "g_d_ss g = Some ss" using state by (simp add: batch_state_def)
  have s: "sd_Coeffs_data sdata = Buffer_RHS" using scalar_solution_data(4) [OF _ prob gss, of sdata] b by simp
  obtain P w R where g1: "assemble_batch dbg gemm bdata ranks1 g = Inr (g\<lparr>g_P := P, g_w := w, g_RHS := R\<rparr>)"
    "length P = length (g_P g)" "length R = length (g_RHS g)"
    and filled: "\<And>l. l < teams \<Longrightarrow> assembled_target d m bdata g l (?i + l) P R"
      "\<And>l j k. l < teams \<Longrightarrow> nl_count (pc_nla (g_pc g)) (?i + l) \<le> j \<Longrightarrow> int j < g_max_num_neighbors g
        \<Longrightarrow> k < ?N \<Longrightarrow> matrix_entry P (P_tile g ?N l) j k = 0"
    using assemble_all [of g bdata d m ss n teams ranks1 dbg gemm] b schedules(2) by blast
  define P' C where "P' = fst (solve P R)" and "C = snd (solve P R)"
  have solved: "length C = length R" "\<And>l. l < teams \<Longrightarrow> normal_equations (nat (g_max_num_neighbors g)) ?N
        (\<lambda>i k. matrix_entry P (P_tile g ?N l) i k) (\<lambda>j. R ! (l * (nat (g_max_num_neighbors g) * ?N) + j))
        (\<lambda>r j. matrix_entry C (Coeffs_tile sdata l) r j)"
    using solver g1(2,3) by (auto simp: solves_batch_def C_def)
  let ?s = "g\<lparr>g_P := P', g_w := w, g_RHS := C\<rparr>"
  obtain Z where Z: "evaluate_batch dbg bdata ranks2 ?s = Inr (?s\<lparr>g_Z := Z\<rparr>)" "length Z = length (g_Z g)"
    "\<And>l. l < teams \<Longrightarrow> evaluated_target d m g bdata sdata l (?i + l) Z"
    using evaluate_all [OF batch _ schedules(3), of ?s dbg] by auto
  let ?g2 = "?s\<lparr>g_Z := Z\<rparr>"
  have buf: "buffer_of ?g2 (sd_Coeffs_data sdata) = C" "g_Z ?g2 = Z" "g_d_ss ?g2 = Some ss"
    using s gss by (simp_all add: buffer_of_def)
  have "apply_ready sdata (length (buffer_of g (sd_Coeffs_data sdata))) (length (g_Z g)) teams"
    using solution_data_ready(1) [of g sdata ss n teams] b by simp
  then have ready: "apply_ready sdata (length (buffer_of ?g2 (sd_Coeffs_data sdata))) (length (g_Z ?g2)) teams"
    using s g1(3) solved(1) Z(2) by (simp add: buffer_of_def)
  from apply_batch_reads [OF ready buf(3) f(6) schedules(1,4), of dbg]
  obtain ss' where ss': "apply_batch use_cuda places sdata ranks3 ?g2 = Inr (?g2\<lparr>g_d_ss := Some ss'\<rparr>)"
      "ss' = ss\<lparr>ss_alphas := ss_alphas ss'\<rparr>" "alphas_inv ss'"
    and read: "\<And>r. request_valid ss r \<Longrightarrow> getAlpha_request_device dbg ss' r = Inr (apply_spec sdata teams C Z (alpha_of ss) r)"
    unfolding buf(1,2) by blast
  have rep: "reproduces_polynomials dbg d m bdata ss' t op out e"
    if t: "t \<in> {?i ..< ?i + teams}" and rest: "unisolvent_target d m bdata t" "op \<in> set (ss_lro ss)" "out < op_outs d op"
      "e \<le> additional_sites g t" for t op out e
  proof -
    define l where "l = t - ?i"
    have l: "l < teams" "t = ?i + l" using t by (auto simp: l_def)
    show ?thesis
      by (rule target_reproduces [OF batch l filled(1) [OF l(1), folded l(2)] filled(2) [OF l(1), folded l(2)]
            solved(2) [OF l(1)] Z(3) [OF l(1), folded l(2)] read rest])
  qed
  define g1 where "g1 = g\<lparr>g_P := P, g_w := w, g_RHS := R\<rparr>"
  have "g1\<lparr>g_P := fst (solve (g_P g1) (g_RHS g1)), g_RHS := snd (solve (g_P g1) (g_RHS g1))\<rparr> = ?s"
    by (simp add: g1_def P'_def C_def)
  with g1(1) [folded g1_def] Z(1) have run: "assemble_batch dbg gemm bdata ranks1 g = Inr g1"
    "evaluate_batch dbg bdata ranks2 (g1\<lparr>g_P := fst (solve (g_P g1) (g_RHS g1)), g_RHS := snd (solve (g_P g1) (g_RHS g1))\<rparr>)
      = Inr ?g2" by simp_all
  have "?g2 = g\<lparr>g_P := g_P ?g2, g_w := g_w ?g2, g_RHS := g_RHS ?g2, g_Z := g_Z ?g2\<rparr>" by simp
  with run ss' rep show ?thesis by blast
qed


section \<open>An example\<close>

text \<open>
  Two targets with two and one neighbors and constants as polynomials, so that a solver
  can be written down: it projects on the single column of each matrix.
\<close>

definition reproduction_example :: "gmls \<Rightarrow> gmls" where
  "reproduction_example g0 =
     g0\<lparr>g_d_ss := Some ss_example, g_operations := ss_lro ss_example, g_pc := pc_example,
        g_additional_pc := PointConnections_make [] []
          (NeighborLists_default\<lparr>nl_number_of_neighbors_list := [0, 0]\<rparr>),
        g_epsilons := [10, 10], g_max_num_neighbors := 2, g_basis_multiplier := 1, g_NP := 1,
        g_sampling_multiplier := 1, g_initial_index_for_batch := 0, g_poly_order := 0,
        g_dimensions := 2, g_global_dimensions := 2, g_reconstruction_space := ScalarTaylorPolynomial,
        g_polynomial_sampling_functional := PointSample, g_problem_type := STANDARD,
        g_constraint_type := NO_CONSTRAINT, g_dense_solver_type := QR, g_weighting_type := Power,
        g_weighting_p := 2, g_weighting_n := 1, g_local_dimensions := 2,
        g_data_sampling_functional := PointSample,
        g_RHS := [0, 0, 0, 0], g_P := [0, 0, 0, 0], g_w := [0, 0, 0, 0], g_Z := [0, 0, 0, 0, 0, 0]\<rparr>"

definition example_solve :: "real list \<Rightarrow> real list \<Rightarrow> real list \<times> real list" where
  "example_solve P R =
     (let square = (\<lambda>l. P ! (2 * l) ^ 2 + P ! (2 * l + 1) ^ 2)
      in (P, map (\<lambda>a. if square (a div 2) = 0 then 0 else P ! a * R ! a / square (a div 2)) [0..<4]))"

lemma example_size: "scalar_size 2 0 = 1" "multi_indices 2 0 0 = [[0, 0]]"
  by (simp_all add: scalar_size_def ScalarTaylor_getSize_def signed_divide_int_def multi_indices_def idx2_def)

lemma example_batch:
  "\<exists>bdata sdata. scalar_batch 2 0 (reproduction_example g0) ss_example bdata sdata 2 2"
proof -
  let ?g = "reproduction_example g0"
  obtain bdata where b: "createGMLSBasisData ?g = Inr bdata"
    by (cases "createGMLSBasisData ?g")
      (auto simp: createGMLSBasisData_def reproduction_example_def device_ss_def Let_def split: prod.splits)
  obtain sdata where s: "createGMLSSolutionData ?g = Inr sdata"
    by (cases "createGMLSSolutionData ?g")
      (auto simp: createGMLSSolutionData_def reproduction_example_def device_ss_def Let_def split: prod.splits)
  have "scalar_problem 2 0 ?g ss_example"
    using pc_example_valid
    by (simp add: scalar_problem_def reproduction_example_def example_size ss_example_views scalar_operation_def
        PointConnections_make_def pc_example_def nl_example_views)
  moreover have "batch_state ?g ss_example" "batch_storage ?g ss_example 2 (g_basis_multiplier ?g * g_NP ?g)"
    "batch_cleared ?g 2" "nat (g_initial_index_for_batch ?g) + 2 \<le> alpha_rows ss_example"
    by (simp_all add: batch_state_def batch_storage_def batch_cleared_def reproduction_example_def ss_example_alphas
        ss_example_views nl_example_views all_below_2 dims_defs PointConnections_make_def pc_example_def)
  moreover have "sites_valid 2 bdata t (additional_sites ?g t + 1)" if "t < 2" for t
    using that by (auto simp: sites_valid_def additional_sites_def reproduction_example_def PointConnections_make_def less_2_cases_iff)
  moreover have "nat (g_initial_index_for_batch ?g) = 0" by (simp add: reproduction_example_def)
  ultimately have "scalar_batch 2 0 ?g ss_example bdata sdata 2 2"
    using b s by (simp add: scalar_batch_def)
  then show ?thesis by blast
qed

lemma example_solves:
  assumes "scalar_batch 2 0 (reproduction_example g0) ss_example bdata sdata 2 2"
  shows "solves_batch (reproduction_example g0) (scalar_size 2 0) sdata 2 example_solve"
proof -
  let ?g = "reproduction_example g0"
  have g: "length (g_P ?g) = 4" "length (g_RHS ?g) = 4" "nat (g_max_num_neighbors ?g) = 2" "g_max_num_neighbors ?g = 2"
    by (simp_all add: reproduction_example_def)
  have s: "sd_Coeffs_dim_0 sdata = 1" "sd_Coeffs_dim_1 sdata = 2"
    using assms scalar_solution_data [of ?g sdata 2 0 ss_example] example_size g
    by (simp_all add: scalar_batch_def batch_state_def)
  have "normal_equations 2 1 (\<lambda>i k. matrix_entry P (P_tile ?g 1 l) i k) (\<lambda>j. R ! (l * 2 + j))
      (\<lambda>r j. matrix_entry (snd (example_solve P R)) (Coeffs_tile sdata l) r j)" if l: "l < 2" for P R l
  proof -
    have p: "matrix_entry P (P_tile ?g 1 l) i 0 = P ! (2 * l + i)" for i
      by (simp add: matrix_entry_def matrix_addr_def P_tile_def g mult.commute nat_mult_distrib)
    let ?S = "P ! (2 * l) ^ 2 + P ! (2 * l + 1) ^ 2"
    have c: "matrix_entry (snd (example_solve P R)) (Coeffs_tile sdata l) 0 j
        = (if ?S = 0 then 0 else P ! (2 * l + j) * R ! (2 * l + j) / ?S)" if "j < 2" for j
      using that l by (simp add: matrix_entry_def matrix_addr_def Coeffs_tile_def s example_solve_def Let_def mult.commute nat_mult_distrib)
    have "?S = 0 \<Longrightarrow> P ! (2 * l) = 0 \<and> P ! (2 * l + 1) = 0" by (simp add: add_nonneg_eq_0_iff)
    then have zero: "?S = 0 \<Longrightarrow> j < 2 \<Longrightarrow> P ! (2 * l + j) = 0" for j by (auto simp: less_2_cases_iff)
    have "P ! (2 * l) * (P ! (2 * l) * x) + P ! (2 * l + 1) * (P ! (2 * l + 1) * x) = ?S * x" for x
      by (simp add: power2_eq_square algebra_simps)
    then show ?thesis
      using p p [of 1] p [of 0] c zero by (simp add: normal_equations_def sum_below_2 mult.commute [of l])
  qed
  then show ?thesis
    unfolding solves_batch_def by (simp add: g example_size) (simp add: example_solve_def Let_def)
qed

lemma example_unisolvent:
  assumes "scalar_batch 2 0 (reproduction_example g0) ss_example bdata sdata 2 2"
  shows "unisolvent_target 2 0 bdata 0" "nl_count (pc_nla (bd_pc bdata)) 0 = 2"
proof -
  let ?g = "reproduction_example g0"
  have "scalar_problem 2 0 ?g ss_example" "createGMLSBasisData ?g = Inr bdata" "g_d_ss ?g = Some ss_example"
    using assms by (simp_all add: scalar_batch_def batch_state_def)
  then have f: "bd_pc bdata = pc_example" "bd_epsilons bdata = [10, 10]" "bd_weighting_type bdata = Power"
    "bd_weighting_p bdata = 2" "bd_weighting_n bdata = 1" "bd_polynomial_sampling_functional bdata = PointSample"
    using scalar_basis_data [of ?g bdata 2 0 ss_example] by (simp_all add: reproduction_example_def)
  have "sample_distance 2 bdata 0 0 None = sqrt 26"
    by (simp add: sample_distance_def f relative_point_def frame_component_def pc_example_def PointConnections_make_def
        neighbor_of_def nl_example_def nl_built_def nl_view_defs row_point_def XYZ_defs EuclideanVectorLength_def sf_eq_def
        sampling_functional_defs)
  moreover have "sqrt 26 < 10" by (rule real_less_lsqrt) simp_all
  ultimately have "0 < weight_at 2 bdata 0 0"
    using Wab_positive [of 10 "sqrt 26" 2 Power 1] by (auto simp: weight_at_def f)
  moreover have "basis_row 2 0 bdata 0 None 0 ! 0 = 1"
  proof -
    have "scalar_row 2 0 h p ! 0 = 1" if "length p = 3" for h p
      using row_entries(1) [of 2 0 0 p 0 h] that
      by (simp add: example_size taylor_def tfac_def lessThan_nat_numeral)
    then show ?thesis by (simp add: basis_row_def coords_def)
  qed
  ultimately show "unisolvent_target 2 0 bdata 0"
    by (auto simp: unisolvent_target_def unisolvent_def example_size f pc_example_def PointConnections_make_def
        nl_example_views dest: spec [of _ "0 :: nat"])
  show "nl_count (pc_nla (bd_pc bdata)) 0 = 2"
    by (simp add: f pc_example_def PointConnections_make_def nl_example_views)
qed


end
