(* ===== verification/Compadre_Evaluator.thy ===== *)
theory Compadre_Evaluator
  imports Compadre_Reproduction
begin

text \<open>
  Compadre_Evaluator.hpp: the columns of the data that are read and written, and the
  application of the alphas, or of the polynomial coefficients, to sampled data.

  A view of data has one or two dimensions.  Copies between host and device are the
  identity on the contents, so \<open>SubviewND\<close> is the view and its flag, and a column of it is
  the number of the column.  The kernels run over the targets in the order \<open>ranks\<close>; the
  sums over the neighbors are sums of reals and do not depend on an order.
\<close>

section \<open>Columns of data\<close>

datatype data_view = Rank1 "real list" | Rank2 nat "real list list"

fun dv_extent_0 :: "data_view \<Rightarrow> nat" where
  "dv_extent_0 (Rank1 xs) = length xs"
| "dv_extent_0 (Rank2 n rows) = length rows"

fun dv_extent_1 :: "data_view \<Rightarrow> nat" where
  "dv_extent_1 (Rank1 xs) = 1"
| "dv_extent_1 (Rank2 n rows) = n"

fun dv_read :: "data_view \<Rightarrow> int \<Rightarrow> int \<Rightarrow> real result" where
  "dv_read (Rank1 xs) i c = (if c = 0 then view_read xs i else Inl Out_of_bounds)"
| "dv_read (Rank2 n rows) i c =
     (if 0 \<le> c \<and> c < int n then view_read2 rows i c else Inl Out_of_bounds)"

fun dv_write :: "data_view \<Rightarrow> int \<Rightarrow> int \<Rightarrow> real \<Rightarrow> data_view result" where
  "dv_write (Rank1 xs) i c x =
     (if c = 0 then rbind (view_write xs i x) (\<lambda>xs. Inr (Rank1 xs)) else Inl Out_of_bounds)"
| "dv_write (Rank2 n rows) i c x =
     (if 0 \<le> c \<and> c < int n then
        rbind (view_read rows i) (\<lambda>row. rbind (view_write row c x) (\<lambda>row.
        rbind (view_write rows i row) (\<lambda>rows. Inr (Rank2 n rows))))
      else Inl Out_of_bounds)"

record subview_nd =
  sv_data_in :: data_view
  sv_scalar_as_vector_if_needed :: bool

definition CreateNDSliceOnDeviceView :: "data_view \<Rightarrow> bool \<Rightarrow> subview_nd" where
  "CreateNDSliceOnDeviceView sampling_input_data scalar_as_vector_if_needed =
     \<lparr>sv_data_in = sampling_input_data, sv_scalar_as_vector_if_needed = scalar_as_vector_if_needed\<rparr>"

definition get1DView :: "bool \<Rightarrow> subview_nd \<Rightarrow> int \<Rightarrow> int result" where
  "get1DView dbg s column_num =
     (case sv_data_in s of
        Rank1 xs \<Rightarrow>
          rbind (if \<not> sv_scalar_as_vector_if_needed s
                 then compadre_assert_debug dbg
                   ''Subview asked for column column_num!=0, but _data_in is rank 1.'' (column_num = 0)
                 else Inr ()) (\<lambda>_. Inr 0)
      | Rank2 n rows \<Rightarrow>
          rbind (if \<not> sv_scalar_as_vector_if_needed s
                 then compadre_assert_debug dbg
                   ''Subview asked for column > second dimension of input data.''
                   (uint (TO_GLOBAL column_num) < int n)
                 else Inr ()) (\<lambda>_.
          Inr (if uint (TO_GLOBAL column_num) < int n then column_num else 0)))"

text \<open>A block of columns is its first column and their number.\<close>

definition get2DView :: "bool \<Rightarrow> subview_nd \<Rightarrow> int \<Rightarrow> int \<Rightarrow> (int \<times> int) result" where
  "get2DView dbg s column_num block_size =
     (case sv_data_in s of
        Rank1 xs \<Rightarrow>
          rbind (compadre_assert_release ''2D subview requested not compatible with one column.''
                   (block_size = 1)) (\<lambda>_. Inr (0, 1))
      | Rank2 n rows \<Rightarrow>
          rbind (int_checked ((column_num + 1) * block_size)) (\<lambda>last.
          rbind (if \<not> sv_scalar_as_vector_if_needed s
                 then compadre_assert_debug dbg
                   ''Subview asked for column > second dimension of input data.''
                   (uint (TO_GLOBAL (last - 1)) < int n)
                 else Inr ()) (\<lambda>_.
          if uint (TO_GLOBAL (last - 1)) < int n then Inr (column_num * block_size, block_size)
          else rbind (compadre_assert_debug dbg
                 ''Subview asked for column > second dimension of input data.''
                 (uint (TO_GLOBAL (block_size - 1)) < int n)) (\<lambda>_. Inr (0, block_size)))))"

definition copyToAndReturnOriginalView :: "subview_nd \<Rightarrow> data_view" where
  "copyToAndReturnOriginalView s = sv_data_in s"

section \<open>Alphas applied to data\<close>

definition parallel_sum :: "int \<Rightarrow> (int \<Rightarrow> real result) \<Rightarrow> real result" where
  "parallel_sum n f = rfold (\<lambda>i t_value. rbind (f (int i)) (\<lambda>v. Inr (t_value + v))) [0..<nat n] 0"

definition applyAlphasToDataSingleComponentSingleTargetSite ::
  "bool \<Rightarrow> gmls \<Rightarrow> data_view \<Rightarrow> int \<Rightarrow> TargetOperation \<Rightarrow> int \<Rightarrow> int \<Rightarrow> int \<Rightarrow> int \<Rightarrow> int \<Rightarrow> int \<Rightarrow> bool
     \<Rightarrow> real result" where
  "applyAlphasToDataSingleComponentSingleTargetSite dbg g sampling_input_data column_of_input lro
       target_index evaluation_site_local_index output_component_axis_1 output_component_axis_2
       input_component_axis_1 input_component_axis_2 scalar_as_vector_if_needed =
     rbind (getAlphaColumnOffset_host dbg (g_h_ss g) lro output_component_axis_1 output_component_axis_2
              input_component_axis_1 input_component_axis_2 evaluation_site_local_index)
       (\<lambda>alpha_input_output_component_index.
     let sampling_subview_maker = CreateNDSliceOnDeviceView sampling_input_data scalar_as_vector_if_needed;
         nla = pc_nla (g_pc g)
     in rbind (device_ss g) (\<lambda>d_ss.
     let alphas = getAlphas d_ss
     in rbind (get1DView dbg sampling_subview_maker column_of_input) (\<lambda>c.
     rbind (getAlphaIndex_host (g_h_ss g) target_index alpha_input_output_component_index) (\<lambda>alpha_index.
     rbind (getNumberOfNeighborsHost nla target_index) (\<lambda>n.
     parallel_sum n (\<lambda>i.
       rbind (getNeighborDevice nla target_index i) (\<lambda>s.
       rbind (dv_read (sv_data_in sampling_subview_maker) s c) (\<lambda>v.
       rbind (view_read alphas (uint (alpha_index + TO_GLOBAL i))) (\<lambda>a.
       Inr (v * a))))))))))"

text \<open>
  The weights of a neighbor (\<open>which\<close> is 0) or of the target (1), and the weight that is
  common to all neighbors.
\<close>

definition neighbor_varying_pre_T ::
  "gmls \<Rightarrow> int \<Rightarrow> bool \<Rightarrow> bool \<Rightarrow> int \<Rightarrow> int \<Rightarrow> int \<Rightarrow> int \<Rightarrow> real result" where
  "neighbor_varying_pre_T g which weight_with_pre_T vary_on_neighbor target_index i local_index global_index =
     (if weight_with_pre_T \<and> vary_on_neighbor
      then rank5_read (g_prestencil_weights g) [which, target_index, i, local_index, global_index]
      else Inr 1)"

definition pre_T :: "gmls \<Rightarrow> int \<Rightarrow> bool \<Rightarrow> bool \<Rightarrow> bool \<Rightarrow> int \<Rightarrow> int \<Rightarrow> int \<Rightarrow> real result" where
  "pre_T g which weight_with_pre_T vary_on_target vary_on_neighbor target_index local_index global_index =
     (if weight_with_pre_T then
        if \<not> vary_on_neighbor \<and> vary_on_target
        then rank5_read (g_prestencil_weights g) [which, target_index, 0, local_index, global_index]
        else if \<not> vary_on_target
        then rank5_read (g_prestencil_weights g) [which, 0, 0, local_index, global_index]
        else Inr 1
      else Inr 1)"

text \<open>
  The sums of a team: \<open>coefficient i\<close> is the entry of the alphas, or of the polynomial
  coefficients, for neighbor \<open>i\<close>.
\<close>

definition transformed_sums ::
  "gmls \<Rightarrow> data_view \<Rightarrow> int \<Rightarrow> SamplingFunctional \<Rightarrow> (int \<Rightarrow> real result) \<Rightarrow> int \<Rightarrow> int \<Rightarrow> bool \<Rightarrow> bool \<Rightarrow> int
     \<Rightarrow> real result" where
  "transformed_sums g sampling_data c sro coefficient pre_transform_local_index pre_transform_global_index
       vary_on_target vary_on_neighbor target_index =
     (let nla = pc_nla (g_pc g);
          weight_with_pre_T = (0 \<le> pre_transform_local_index \<and> 0 \<le> pre_transform_global_index);
          weighted = (\<lambda>which n place. parallel_sum n (\<lambda>i.
            rbind (neighbor_varying_pre_T g which weight_with_pre_T vary_on_neighbor target_index i
                     pre_transform_local_index pre_transform_global_index) (\<lambda>T.
            rbind (getNeighborDevice nla target_index (place i)) (\<lambda>s.
            rbind (dv_read sampling_data s c) (\<lambda>v.
            rbind (coefficient i) (\<lambda>a. Inr (T * v * a)))))))
      in rbind (getNumberOfNeighborsDevice nla target_index) (\<lambda>n.
     rbind (weighted 0 n (\<lambda>i. i)) (\<lambda>gmls_value.
     rbind (pre_T g 0 weight_with_pre_T vary_on_target vary_on_neighbor target_index
              pre_transform_local_index pre_transform_global_index) (\<lambda>T.
     rbind (if use_target_site_weights sro then
              rbind (weighted 1 n (\<lambda>i. 0)) (\<lambda>staggered_value_from_targets.
              rbind (pre_T g 1 weight_with_pre_T vary_on_target vary_on_neighbor target_index
                       pre_transform_local_index pre_transform_global_index) (\<lambda>pre_T_staggered.
              Inr (staggered_value_from_targets, pre_T_staggered)))
            else Inr (0, 1)) (\<lambda>(staggered_value_from_targets, pre_T_staggered).
     Inr (T * gmls_value + pre_T_staggered * staggered_value_from_targets))))))"

definition applyAlphasToDataSingleComponentAllTargetSitesWithPreAndPostTransform ::
  "bool \<Rightarrow> nat list \<Rightarrow> gmls \<Rightarrow> int \<Rightarrow> data_view \<Rightarrow> int \<Rightarrow> TargetOperation \<Rightarrow> SamplingFunctional
     \<Rightarrow> int \<Rightarrow> int \<Rightarrow> int \<Rightarrow> int \<Rightarrow> int \<Rightarrow> int \<Rightarrow> int \<Rightarrow> bool \<Rightarrow> bool \<Rightarrow> data_view \<Rightarrow> data_view result" where
  "applyAlphasToDataSingleComponentAllTargetSitesWithPreAndPostTransform dbg ranks g out_c
       sampling_data c lro sro evaluation_site_local_index output_component_axis_1 output_component_axis_2
       input_component_axis_1 input_component_axis_2 pre_transform_local_index
       pre_transform_global_index vary_on_target vary_on_neighbor output_data =
     rbind (getAlphaColumnOffset_host dbg (g_h_ss g) lro output_component_axis_1 output_component_axis_2
              input_component_axis_1 input_component_axis_2 evaluation_site_local_index)
       (\<lambda>alpha_input_output_component_index.
     rbind (device_ss g) (\<lambda>solution_set.
     rfold (\<lambda>target_index output_data.
         rbind (dv_read output_data (int target_index) out_c) (\<lambda>previous_value.
         rbind (getAlphaIndex_device solution_set (int target_index) alpha_input_output_component_index)
           (\<lambda>alpha_index.
         rbind (transformed_sums g sampling_data c sro
                  (\<lambda>i. view_read (ss_alphas solution_set) (uint (alpha_index + TO_GLOBAL i)))
                  pre_transform_local_index pre_transform_global_index vary_on_target vary_on_neighbor
                  (int target_index)) (\<lambda>added_value.
         dv_write output_data (int target_index) out_c (previous_value + added_value)))))
       ranks output_data))"

definition applyLocalChartToAmbientSpaceTransform ::
  "nat list \<Rightarrow> gmls \<Rightarrow> int \<Rightarrow> data_view \<Rightarrow> int \<Rightarrow> int \<Rightarrow> int \<Rightarrow> data_view \<Rightarrow> data_view result" where
  "applyLocalChartToAmbientSpaceTransform ranks g out_c sampling_data c local_dim_index global_dim_index
       output_data =
     (let global_dimensions = g_global_dimensions g
      in rfold (\<lambda>target_index output_data.
           let T = \<lparr>mv_base = uint (TO_GLOBAL (int target_index) * TO_GLOBAL global_dimensions
                      * TO_GLOBAL global_dimensions),
                    mv_rows = global_dimensions, mv_cols = global_dimensions\<rparr>
           in rbind (dv_read output_data (int target_index) out_c) (\<lambda>previous_value.
              rbind (matrix_read (g_T g) T local_dim_index global_dim_index) (\<lambda>t.
              rbind (dv_read sampling_data (int target_index) c) (\<lambda>v.
              dv_write output_data (int target_index) out_c (previous_value + t * v)))))
         ranks output_data)"

text \<open>\<open>int x = std::sqrt(n)\<close>.\<close>

definition int_sqrt :: "int \<Rightarrow> int" where
  "int_sqrt n = int (length (filter (\<lambda>k. int (k * k) \<le> n) [1..<Suc (nat n)]))"

text \<open>How a sampling functional varies: with the target, and with the neighbor.\<close>

definition vary_on :: "SamplingFunctional \<Rightarrow> bool \<times> bool" where
  "vary_on sro = (case transform_type sro of
       Identity \<Rightarrow> (False, False)
     | SameForAll \<Rightarrow> (False, False)
     | DifferentEachTarget \<Rightarrow> (True, False)
     | DifferentEachNeighbor \<Rightarrow> (True, True))"

text \<open>
  The calls for one component of the input: each is given by the column of the data and
  the two indices into the prestencil weights (\<open>-1\<close> for none), and by whether the
  flags on variation are passed.
\<close>

definition input_calls :: "gmls \<Rightarrow> SamplingFunctional \<Rightarrow> int \<Rightarrow> (int \<times> int \<times> int \<times> bool \<times> bool) list" where
  "input_calls g sro j =
     (let (vary_on_target, vary_on_neighbor) = vary_on sro;
          loop_global_dimensions = (0 < input_rank sro \<and> transform_type sro \<noteq> Identity)
      in if loop_global_dimensions
         then map (\<lambda>k. (int k, j, int k, vary_on_target, vary_on_neighbor)) [0..<nat (g_global_dimensions g)]
         else if transform_type sro \<noteq> Identity then [(j, 0, 0, vary_on_target, vary_on_neighbor)]
         else [(j, -1, -1, False, False)])"

definition applyAlphasToDataAllComponentsAllTargetSites ::
  "bool \<Rightarrow> (int \<Rightarrow> int \<Rightarrow> int \<Rightarrow> int \<Rightarrow> nat list) \<Rightarrow> (int \<Rightarrow> int \<Rightarrow> nat list) \<Rightarrow> gmls
     \<Rightarrow> data_view \<Rightarrow> data_view \<Rightarrow> data_view \<Rightarrow> TargetOperation \<Rightarrow> SamplingFunctional \<Rightarrow> bool \<Rightarrow> int
     \<Rightarrow> (data_view \<times> data_view) result" where
  "applyAlphasToDataAllComponentsAllTargetSites dbg ranks ranks_ambient g target_output
       ambient_target_output sampling_data lro sro_in scalar_as_vector_if_needed evaluation_site_local_index =
     rbind (getOutputDimensionOfOperation lro (g_local_dimensions g)) (\<lambda>output_dimensions.
     rbind (getTargetOutputTensorRank (target_op_num lro)) (\<lambda>rank.
     let problem_type = g_problem_type g;
         global_dimensions = g_global_dimensions g;
         output_dimension1_of_operator = (if rank < 2 then output_dimensions else int_sqrt output_dimensions);
         output_dimension2_of_operator = (if rank < 2 then 1 else int_sqrt output_dimensions);
         num_targets = getNumberOfTargets (pc_nla (g_pc g));
         sro = (if problem_type = MANIFOLD \<and> sf_eq sro_in VectorPointSample
                then ManifoldVectorPointSample else sro_in);
         input_dimension_of_operator =
           getInputDimensionOfOperation lro (g_data_sampling_functional g) (g_local_dimensions g)
     in rbind (compadre_assert_debug dbg ''First dimension of target_output is incorrect size.''
                 (int (dv_extent_0 target_output) = num_targets)) (\<lambda>_.
     rbind (compadre_assert_debug dbg ''Second dimension of target_output is incorrect size.''
              (int (dv_extent_1 target_output) = output_dimensions)) (\<lambda>_.
     rbind (compadre_assert_debug dbg
              ''Output view is requested as rank 1, but the target requires a rank larger than 1. Try double** as template argument.''
              (case target_output of Rank1 xs \<Rightarrow> output_dimensions = 1 | Rank2 n rows \<Rightarrow> True)) (\<lambda>_.
     let sampling_subview_maker = CreateNDSliceOnDeviceView sampling_data scalar_as_vector_if_needed
     in rbind (compadre_assert_release
          ''SamplingFunctional requested for Evaluator does not match GMLS data sampling functional or is not of type 'Identity'.''
          (sf_eq (g_data_sampling_functional g) sro \<or> transform_type sro = Identity)) (\<lambda>_.
     rbind (rfold (\<lambda>axes1. rfold (\<lambda>axes2. rfold (\<lambda>j. rfold
           (\<lambda>(column, local_index, global_index, vary_on_target, vary_on_neighbor) output.
         rbind (get1DView dbg (CreateNDSliceOnDeviceView output False)
                  (int axes1 * output_dimension2_of_operator + int axes2)) (\<lambda>out_c.
         rbind (get1DView dbg sampling_subview_maker column) (\<lambda>c.
         applyAlphasToDataSingleComponentAllTargetSitesWithPreAndPostTransform dbg
           (ranks (int axes1) (int axes2) (int j) column) g out_c sampling_data c lro sro
           evaluation_site_local_index (int axes1) (int axes2) (int j) 0 local_index global_index
           vary_on_target vary_on_neighbor output)))
         (input_calls g sro (int j)))
       [0..<nat input_dimension_of_operator]) [0..<nat output_dimension2_of_operator])
       [0..<nat output_dimension1_of_operator] target_output) (\<lambda>target_output.
     rbind (if problem_type = MANIFOLD \<and> rank = 1 then
              rbind (compadre_assert_debug dbg ''First dimension of target_output is incorrect size.''
                       (int (dv_extent_0 ambient_target_output) = num_targets)) (\<lambda>_.
              rbind (compadre_assert_debug dbg ''Second dimension of target_output is incorrect size.''
                       (int (dv_extent_1 ambient_target_output) = global_dimensions)) (\<lambda>_.
              rfold (\<lambda>i. rfold (\<lambda>j ambient.
                  rbind (get1DView dbg (CreateNDSliceOnDeviceView ambient False) (int i)) (\<lambda>out_c.
                  rbind (get1DView dbg (CreateNDSliceOnDeviceView target_output False) (int j)) (\<lambda>c.
                  applyLocalChartToAmbientSpaceTransform (ranks_ambient (int i) (int j)) g out_c
                    target_output c (int j) (int i) ambient)))
                [0..<nat output_dimensions]) [0..<nat global_dimensions] ambient_target_output))
            else Inr ambient_target_output) (\<lambda>ambient_target_output.
     Inr (target_output, ambient_target_output)))))))))"

text \<open>
  The form that allocates its output: a view of one or two dimensions, filled with zeros.
\<close>

definition createView :: "bool \<Rightarrow> int \<Rightarrow> int \<Rightarrow> data_view" where
  "createView flat dim_0 dim_1 =
     (if flat then Rank1 (replicate (nat dim_0) 0)
      else Rank2 (nat dim_1) (replicate (nat dim_0) (replicate (nat dim_1) 0)))"

definition allocate_applyAlphasToDataAllComponentsAllTargetSites ::
  "bool \<Rightarrow> bool \<Rightarrow> (int \<Rightarrow> int \<Rightarrow> int \<Rightarrow> int \<Rightarrow> nat list) \<Rightarrow> (int \<Rightarrow> int \<Rightarrow> nat list) \<Rightarrow> gmls
     \<Rightarrow> data_view \<Rightarrow> TargetOperation \<Rightarrow> SamplingFunctional \<Rightarrow> bool \<Rightarrow> int \<Rightarrow> data_view result" where
  "allocate_applyAlphasToDataAllComponentsAllTargetSites dbg flat ranks ranks_ambient g
       sampling_data lro sro_in scalar_as_vector_if_needed evaluation_site_local_index =
     rbind (getOutputDimensionOfOperation lro (g_local_dimensions g)) (\<lambda>output_dimensions.
     rbind (getTargetOutputTensorRank (target_op_num lro)) (\<lambda>rank.
     let num_targets = getNumberOfTargets (pc_nla (g_pc g));
         target_output = createView flat num_targets output_dimensions;
         transform_gmls_output_to_ambient = (g_problem_type g = MANIFOLD \<and> rank = 1);
         ambient_target_output =
           (if transform_gmls_output_to_ambient
            then createView flat num_targets (g_global_dimensions g) else createView flat 0 0)
     in rbind (applyAlphasToDataAllComponentsAllTargetSites dbg ranks ranks_ambient g target_output
                 ambient_target_output sampling_data lro sro_in scalar_as_vector_if_needed
                 evaluation_site_local_index) (\<lambda>(target_output, ambient_target_output).
     Inr (if transform_gmls_output_to_ambient then ambient_target_output else target_output))))"

section \<open>Polynomial coefficients applied to data\<close>

definition block_column :: "int \<times> int \<Rightarrow> int \<Rightarrow> int result" where
  "block_column block j = (if 0 \<le> j \<and> j < snd block then Inr (fst block + j) else Inl Out_of_bounds)"

definition applyFullPolynomialCoefficientsBasisToDataSingleComponent ::
  "bool \<Rightarrow> (int \<Rightarrow> nat list) \<Rightarrow> gmls \<Rightarrow> int \<times> int \<Rightarrow> data_view \<Rightarrow> int \<Rightarrow> SamplingFunctional
     \<Rightarrow> int \<Rightarrow> int \<Rightarrow> int \<Rightarrow> int \<Rightarrow> int \<Rightarrow> int \<Rightarrow> bool \<Rightarrow> bool \<Rightarrow> data_view \<Rightarrow> data_view result" where
  "applyFullPolynomialCoefficientsBasisToDataSingleComponent dbg ranks g block sampling_data c sro
       output_component_axis_1 output_component_axis_2 input_component_axis_1 input_component_axis_2
       pre_transform_local_index pre_transform_global_index vary_on_target vary_on_neighbor output_data =
     rbind (getPolynomialCoefficientsDomainRangeSize dbg g) (\<lambda>(coefficient_matrix_dims_0, _).
     rbind (getPolynomialCoefficientsMemorySize dbg g) (\<lambda>(dim_0, dim_1).
     rbind (getFullPolynomialCoefficientsBasis g) (\<lambda>coeffs.
     rfold (\<lambda>j. rfold (\<lambda>target_index output_data.
         let Coeffs = \<lparr>mv_base = uint (TO_GLOBAL (int target_index) * TO_GLOBAL dim_0 * TO_GLOBAL dim_1),
                       mv_rows = dim_0, mv_cols = dim_1\<rparr>
         in rbind (block_column block (int j)) (\<lambda>out_c.
            rbind (dv_read output_data (int target_index) out_c) (\<lambda>previous_value.
            rbind (transformed_sums g sampling_data c sro
                     (\<lambda>i. rbind (getNumberOfNeighborsDevice (pc_nla (g_pc g)) (int target_index)) (\<lambda>n.
                        matrix_read coeffs Coeffs (int j) (i + input_component_axis_1 * n)))
                     pre_transform_local_index pre_transform_global_index vary_on_target vary_on_neighbor
                     (int target_index)) (\<lambda>added_value.
            dv_write output_data (int target_index) out_c (previous_value + added_value)))))
         (ranks (int j))) [0..<nat coefficient_matrix_dims_0] output_data)))"

definition applyFullPolynomialCoefficientsBasisToDataAllComponents ::
  "bool \<Rightarrow> (int \<Rightarrow> int \<Rightarrow> int \<Rightarrow> int \<Rightarrow> nat list) \<Rightarrow> gmls \<Rightarrow> data_view \<Rightarrow> data_view \<Rightarrow> bool
     \<Rightarrow> data_view result" where
  "applyFullPolynomialCoefficientsBasisToDataAllComponents dbg ranks g coefficient_output sampling_data
       scalar_as_vector_if_needed =
     rbind (calculateBasisMultiplier (g_reconstruction_space g) (g_local_dimensions g))
       (\<lambda>output_dimension_of_reconstruction_space.
     rbind (calculateSamplingMultiplier (g_reconstruction_space g) (g_polynomial_sampling_functional g)
              (g_local_dimensions g)) (\<lambda>input_dimension_of_reconstruction_space.
     rbind (getPolynomialCoefficientsSize dbg g) (\<lambda>coefficients_size.
     let sro = g_data_sampling_functional g
     in rbind (compadre_assert_debug dbg ''First dimension of coefficient_output is incorrect size.''
                 (int (dv_extent_0 coefficient_output) = getNumberOfTargets (pc_nla (g_pc g)))) (\<lambda>_.
     rbind (compadre_assert_debug dbg ''Second dimension of coefficient_output is incorrect size.''
              (int (dv_extent_1 coefficient_output)
               = output_dimension_of_reconstruction_space * coefficients_size)) (\<lambda>_.
     rbind (compadre_assert_debug dbg
              ''Output view is requested as rank 1, but the target requires a rank larger than 1. Try double** as template argument.''
              (case coefficient_output of Rank1 xs \<Rightarrow> output_dimension_of_reconstruction_space = 1
               | Rank2 n rows \<Rightarrow> True)) (\<lambda>_.
     let sampling_subview_maker = CreateNDSliceOnDeviceView sampling_data scalar_as_vector_if_needed
     in rfold (\<lambda>i. rfold (\<lambda>j. rfold
           (\<lambda>(column, local_index, global_index, vary_on_target, vary_on_neighbor) output.
         rbind (get2DView dbg (CreateNDSliceOnDeviceView output False) (int i) coefficients_size) (\<lambda>block.
         rbind (get1DView dbg sampling_subview_maker column) (\<lambda>c.
         applyFullPolynomialCoefficientsBasisToDataSingleComponent dbg
           (ranks (int i) (int j) column) g block sampling_data c sro
           (int i) 0 (int j) 0 local_index global_index vary_on_target vary_on_neighbor output)))
         (input_calls g sro (int j)))
       [0..<nat input_dimension_of_reconstruction_space])
       [0..<nat output_dimension_of_reconstruction_space] coefficient_output))))))"

definition allocate_applyFullPolynomialCoefficientsBasisToDataAllComponents ::
  "bool \<Rightarrow> (int \<Rightarrow> int \<Rightarrow> int \<Rightarrow> int \<Rightarrow> nat list) \<Rightarrow> gmls \<Rightarrow> data_view \<Rightarrow> bool \<Rightarrow> data_view result" where
  "allocate_applyFullPolynomialCoefficientsBasisToDataAllComponents dbg ranks g sampling_data
       scalar_as_vector_if_needed =
     rbind (calculateBasisMultiplier (g_reconstruction_space g) (g_local_dimensions g)) (\<lambda>output_dimensions.
     rbind (getPolynomialCoefficientsSize dbg g) (\<lambda>coefficients_size.
     applyFullPolynomialCoefficientsBasisToDataAllComponents dbg ranks g
       (createView False (getNumberOfTargets (pc_nla (g_pc g))) (output_dimensions * coefficients_size))
       sampling_data scalar_as_vector_if_needed))"

section \<open>Adding to a view\<close>

text \<open>
  All that the kernels do to their output is add to its entries: \<open>dv_adds dv f\<close> adds
  \<open>f t c\<close> to the entry in row \<open>t\<close> and column \<open>c\<close>.
\<close>

fun data_at :: "data_view \<Rightarrow> nat \<Rightarrow> nat \<Rightarrow> real" where
  "data_at (Rank1 xs) t c = xs ! t"
| "data_at (Rank2 n rows) t c = rows ! t ! c"

fun dv_ok :: "data_view \<Rightarrow> bool" where
  "dv_ok (Rank1 xs) = True"
| "dv_ok (Rank2 n rows) = (\<forall>row \<in> set rows. length row = n)"

fun dv_adds :: "data_view \<Rightarrow> (nat \<Rightarrow> nat \<Rightarrow> real) \<Rightarrow> data_view" where
  "dv_adds (Rank1 xs) f = Rank1 (map (\<lambda>t. xs ! t + f t 0) [0..<length xs])"
| "dv_adds (Rank2 n rows) f =
     Rank2 n (map (\<lambda>t. map (\<lambda>c. rows ! t ! c + f t c) [0..<n]) [0..<length rows])"

lemma dv_adds_shape [simp]:
  "dv_extent_0 (dv_adds dv f) = dv_extent_0 dv" "dv_extent_1 (dv_adds dv f) = dv_extent_1 dv"
  "dv_ok (dv_adds dv f)"
  by (cases dv; simp)+

lemma dv_adds_case [simp]:
  "(case dv_adds dv f of Rank1 xs \<Rightarrow> P | Rank2 n rows \<Rightarrow> Q) = (case dv of Rank1 xs \<Rightarrow> P | Rank2 n rows \<Rightarrow> Q)"
  by (cases dv) simp_all

lemma data_at_adds:
  assumes "t < dv_extent_0 dv" "c < dv_extent_1 dv"
  shows "data_at (dv_adds dv f) t c = data_at dv t c + f t c"
  using assms by (cases dv) simp_all

lemma dv_adds_0: "dv_ok dv \<Longrightarrow> dv_adds dv (\<lambda>_ _. 0) = dv"
  by (cases dv) (auto simp: map_nth intro!: nth_equalityI)

lemma dv_adds_cong:
  assumes "\<And>t c. t < dv_extent_0 dv \<Longrightarrow> c < dv_extent_1 dv \<Longrightarrow> f t c = g t c"
  shows "dv_adds dv f = dv_adds dv g"
  using assms by (cases dv) simp_all

lemma dv_read_at:
  assumes "dv_ok dv" "t < dv_extent_0 dv" "c < dv_extent_1 dv"
  shows "dv_read dv (int t) (int c) = Inr (data_at dv t c)"
  using assms by (cases dv) (auto simp: view_read2_def)

text \<open>A read followed by a write of the sum.\<close>

lemma dv_write_add:
  assumes "t < dv_extent_0 dv" "c < dv_extent_1 dv"
  shows "dv_write (dv_adds dv F) (int t) (int c) (data_at dv t c + F t c + x)
    = Inr (dv_adds dv (\<lambda>t' c'. F t' c' + (if t' = t \<and> c' = c then x else 0)))"
proof (cases dv)
  case (Rank1 xs)
  have "(map (\<lambda>t. xs ! t + F t 0) [0..<length xs])[t := xs ! t + F t 0 + x]
      = map (\<lambda>t'. xs ! t' + (F t' 0 + (if t' = t then x else 0))) [0..<length xs]"
    by (rule nth_equalityI) (simp_all add: nth_list_update)
  then show ?thesis using assms Rank1 by simp
next
  case (Rank2 n rows)
  let ?rows = "map (\<lambda>t. map (\<lambda>c. rows ! t ! c + F t c) [0..<n]) [0..<length rows]"
  have "?rows[t := (?rows ! t)[c := rows ! t ! c + F t c + x]]
      = map (\<lambda>t'. map (\<lambda>c'. rows ! t' ! c' + (F t' c' + (if t' = t \<and> c' = c then x else 0))) [0..<n])
          [0..<length rows]"
    using assms Rank2 by (intro nth_equalityI) (auto simp: nth_list_update intro!: nth_equalityI)
  then show ?thesis using assms Rank2 by simp
qed

lemma rfold_adds:
  assumes "\<And>x F. x \<in> set xs \<Longrightarrow> f x (dv_adds dv F) = Inr (dv_adds dv (\<lambda>t c. F t c + G x t c))"
  shows "rfold f xs (dv_adds dv F) = Inr (dv_adds dv (\<lambda>t c. F t c + (\<Sum>x \<leftarrow> xs. G x t c)))"
  using assms
proof (induction xs arbitrary: F)
  case Nil
  then show ?case by simp
next
  case (Cons x xs)
  from Cons.prems [of x] Cons.IH [of "\<lambda>t c. F t c + G x t c"] Cons.prems show ?case
    by (simp add: add.assoc)
qed

lemma sum_list_delta:
  "distinct ranks \<Longrightarrow> (\<Sum>t' \<leftarrow> ranks. if t = t' \<and> P then f t' else 0) = (if t \<in> set ranks \<and> P then f t else (0 :: real))"
  by (induction ranks) auto

section \<open>Sums over neighbors\<close>

lemma parallel_sum_eq:
  assumes "\<And>i. i < n \<Longrightarrow> f (int i) = Inr (v i)"
  shows "parallel_sum (int n) f = Inr (\<Sum>i < n. v i)"
proof -
  have "rfold (\<lambda>i t. rbind (f (int i)) (\<lambda>v. Inr (t + v))) [0..<k] s = Inr (s + (\<Sum>i < k. v i))" if "k \<le> n" for k s
    using that assms by (induction k) (simp_all add: rfold_append add.assoc)
  then show ?thesis by (simp add: parallel_sum_def)
qed

definition nl_neighbor :: "neighbor_lists \<Rightarrow> nat \<Rightarrow> nat \<Rightarrow> nat" where
  "nl_neighbor nl t i = nat (nl_cr_neighbor_lists nl ! (nl_offset nl t + i))"

text \<open>Data that have a row for every neighbor of every target.\<close>

definition data_covers :: "neighbor_lists \<Rightarrow> data_view \<Rightarrow> bool" where
  "data_covers nl data \<longleftrightarrow> dv_ok data \<and> 0 < dv_extent_1 data
     \<and> (\<forall>t < nl_rows nl. \<forall>i < nl_count nl t. 0 \<le> nl_cr_neighbor_lists nl ! (nl_offset nl t + i)
          \<and> nl_cr_neighbor_lists nl ! (nl_offset nl t + i) < int (dv_extent_0 data))"

lemma neighbor_data:
  assumes "nl_wf nl" "data_covers nl data" "t < nl_rows nl" "i < nl_count nl t" "c < dv_extent_1 data"
  shows "rbind (getNeighborDevice nl (int t) (int i)) (\<lambda>s. rbind (dv_read data s (int c)) k)
    = k (data_at data (nl_neighbor nl t i) c)"
proof -
  let ?s = "nl_cr_neighbor_lists nl ! (nl_offset nl t + i)"
  have s: "0 \<le> ?s" "nat ?s < dv_extent_0 data" "dv_ok data"
    using assms by (auto simp: data_covers_def nat_less_iff)
  then have "dv_read data ?s (int c) = Inr (data_at data (nat ?s) c)"
    using dv_read_at [of data "nat ?s" c] assms(5) by simp
  then show ?thesis using nl_device_read [OF assms(1,3,4)] by (simp add: nl_neighbor_def)
qed

lemma untransformed_sums:
  assumes "nl_wf (pc_nla (g_pc g))" "data_covers (pc_nla (g_pc g)) data" "t < nl_rows (pc_nla (g_pc g))"
    and "c < dv_extent_1 data" "\<not> use_target_site_weights sro"
    and "\<And>i. i < nl_count (pc_nla (g_pc g)) t \<Longrightarrow> coefficient (int i) = Inr (a i)"
  shows "transformed_sums g data (int c) sro coefficient (-1) (-1) vt vn (int t)
    = Inr (\<Sum>i < nl_count (pc_nla (g_pc g)) t. data_at data (nl_neighbor (pc_nla (g_pc g)) t i) c * a i)"
proof -
  have "parallel_sum (int (nl_count (pc_nla (g_pc g)) t)) (\<lambda>i.
      rbind (neighbor_varying_pre_T g 0 False vn (int t) i (-1) (-1)) (\<lambda>T.
      rbind (getNeighborDevice (pc_nla (g_pc g)) (int t) i) (\<lambda>s.
      rbind (dv_read data s (int c)) (\<lambda>v. rbind (coefficient i) (\<lambda>a. Inr (T * v * a))))))
    = Inr (\<Sum>i < nl_count (pc_nla (g_pc g)) t. data_at data (nl_neighbor (pc_nla (g_pc g)) t i) c * a i)"
    by (rule parallel_sum_eq)
      (simp add: neighbor_varying_pre_T_def neighbor_data [OF assms(1-3) _ assms(4)] assms(6))
  then show ?thesis
    using nl_count_device [OF assms(1,3)] assms(5)
    by (simp add: transformed_sums_def Let_def pre_T_def)
qed

section \<open>The evaluation of alphas\<close>

text \<open>
  A problem after its solve: the host and the device hold the same tables, over the same
  neighbor lists as the connections.
\<close>

definition evaluator_ready :: "gmls \<Rightarrow> solution_set \<Rightarrow> bool" where
  "evaluator_ready g ss \<longleftrightarrow>
     g_d_ss g = Some ss \<and> alphas_inv ss \<and> (g_h_ss g)\<lparr>ss_alphas := []\<rparr> = ss\<lparr>ss_alphas := []\<rparr>
     \<and> pc_nla (g_pc g) = ss_neighbor_lists ss
     \<and> ss_data_sampling_functional ss = g_data_sampling_functional g
     \<and> ss_local_dimensions ss = g_local_dimensions g"

definition evaluation_request :: "TargetOperation \<Rightarrow> nat \<Rightarrow> nat \<Rightarrow> nat \<Rightarrow> nat \<Rightarrow> nat \<Rightarrow> nat \<Rightarrow> alpha_request" where
  "evaluation_request op o1 o2 j e t i = \<lparr>rq_lro = op, rq_target = t, rq_out1 = o1, rq_out2 = o2, rq_neighbor = i,
     rq_in1 = j, rq_in2 = 0, rq_site = e\<rparr>"

text \<open>The sum over the neighbors of a target, by the alphas that the accessors return.\<close>

definition component_sum ::
  "solution_set \<Rightarrow> data_view \<Rightarrow> TargetOperation \<Rightarrow> nat \<Rightarrow> nat \<Rightarrow> nat \<Rightarrow> nat \<Rightarrow> nat \<Rightarrow> nat \<Rightarrow> real" where
  "component_sum ss data op o1 o2 j e c t =
     (\<Sum>i < nl_count (ss_neighbor_lists ss) t. data_at data (nl_neighbor (ss_neighbor_lists ss) t i) c
        * alpha_of ss (evaluation_request op o1 o2 j e t i))"

lemma host_tables:
  assumes "s\<lparr>ss_alphas := []\<rparr> = ss\<lparr>ss_alphas := []\<rparr>"
  shows "getAlphaColumnOffset_host dbg s = getAlphaColumnOffset_host dbg ss"
    "getAlphaIndex_host s = getAlphaIndex_host ss"
proof -
  have c: "getAlphaColumnOffset_host dbg u = getAlphaColumnOffset_host dbg (u\<lparr>ss_alphas := []\<rparr>)"
    and i: "getAlphaIndex_host u = getAlphaIndex_host (u\<lparr>ss_alphas := []\<rparr>)" for u
    by (intro ext; simp add: getAlphaColumnOffset_host_def getTargetOffsetIndex_host_def getAlphaIndex_host_def)+
  show "getAlphaColumnOffset_host dbg s = getAlphaColumnOffset_host dbg ss"
    using c [of s] c [of ss] assms by simp
  show "getAlphaIndex_host s = getAlphaIndex_host ss"
    using i [of s] i [of ss] assms by simp
qed

lemma evaluation_column:
  "column_valid ss (evaluation_request op o1 o2 j e t i) = column_valid ss (evaluation_request op o1 o2 j e 0 0)"
  "request_column ss (evaluation_request op o1 o2 j e t i) = request_column ss (evaluation_request op o1 o2 j e 0 0)"
  by (simp_all add: column_valid_def request_column_def evaluation_request_def)

lemma evaluation_alpha:
  assumes inv: "alphas_inv ss" and col: "column_valid ss (evaluation_request op o1 o2 j e 0 0)"
    and t: "t < alpha_rows ss"
  shows "getAlphaColumnOffset_host dbg ss op (int o1) (int o2) (int j) 0 (int e)
      = Inr (int (request_column ss (evaluation_request op o1 o2 j e 0 0)))"
    and "\<exists>idx. getAlphaIndex_host ss (int t) (int (request_column ss (evaluation_request op o1 o2 j e 0 0))) = Inr idx \<and> getAlphaIndex_device ss (int t) (int (request_column ss (evaluation_request op o1 o2 j e 0 0))) = Inr idx
      \<and> (\<forall>i < nl_count (ss_neighbor_lists ss) t. view_read (ss_alphas ss) (uint (idx + TO_GLOBAL (int i)))
           = Inr (alpha_of ss (evaluation_request op o1 o2 j e t i)))"
proof -
  let ?r = "evaluation_request op o1 o2 j e t" and ?c = "request_column ss (evaluation_request op o1 o2 j e 0 0)"
  note code = column_code [OF inv col]
  show "getAlphaColumnOffset_host dbg ss op (int o1) (int o2) (int j) 0 (int e) = Inr (int ?c)"
    using code(1) [of dbg] by (simp add: evaluation_request_def)
  have "?c < alpha_columns ss" by (rule column_bound [OF inv col])
  note idx = getAlphaIndex_eq [OF inv t this]
  have "view_read (ss_alphas ss) (uint (of_nat (alpha_offset ss t + ?c * alpha_depth ss t) + TO_GLOBAL (int i)))
      = Inr (alpha_of ss (?r i))" if i: "i < nl_count (ss_neighbor_lists ss) t" for i
  proof -
    have "request_valid ss (?r i)"
      using col t i by (simp add: request_valid_def column_valid_def evaluation_request_def alpha_depth_def)
    from request_code(2) [OF inv this, of False] column_code(2) [OF inv request_valid_column [OF this], of False]
    show ?thesis
      using idx(2) evaluation_column(2) [of ss op o1 o2 j e t i]
      by (simp add: getAlpha_request_device_def getAlpha_device_def evaluation_request_def alpha_of_def
          del: of_nat_add of_nat_mult)
  qed
  with idx show "\<exists>idx. getAlphaIndex_host ss (int t) (int ?c) = Inr idx \<and> getAlphaIndex_device ss (int t) (int ?c) = Inr idx
      \<and> (\<forall>i < nl_count (ss_neighbor_lists ss) t. view_read (ss_alphas ss) (uint (idx + TO_GLOBAL (int i)))
           = Inr (alpha_of ss (evaluation_request op o1 o2 j e t i)))"
    by blast
qed

text \<open>One component of the input, for every target.\<close>

lemma component_kernel:
  assumes ready: "evaluator_ready g ss" and col: "column_valid ss (evaluation_request op o1 o2 j e 0 0)"
    and data: "data_covers (ss_neighbor_lists ss) data" "c < dv_extent_1 data"
    and sro: "\<not> use_target_site_weights sro"
    and out: "out_c < dv_extent_1 out" "dv_extent_0 out = alpha_rows ss"
    and ranks: "distinct ranks" "set ranks = {0..<alpha_rows ss}"
  shows "applyAlphasToDataSingleComponentAllTargetSitesWithPreAndPostTransform dbg ranks g (int out_c)
      data (int c) op sro (int e) (int o1) (int o2) (int j) 0 (-1) (-1) vt vn (dv_adds out F)
    = Inr (dv_adds out (\<lambda>t c'. F t c' + (if c' = out_c then component_sum ss data op o1 o2 j e c t else 0)))"
proof -
  let ?nl = "ss_neighbor_lists ss" and ?S = "component_sum ss data op o1 o2 j e c"
  let ?G = "\<lambda>x t c'. if t = x \<and> c' = out_c then ?S x else 0"
  let ?c = "request_column ss (evaluation_request op o1 o2 j e 0 0)"
  note r = ready [unfolded evaluator_ready_def]
  have inv: "alphas_inv ss" and wf: "nl_wf ?nl" using r by (simp_all add: alphas_inv_def)
  have rows: "alpha_rows ss = nl_rows ?nl" by (simp add: alpha_rows_def)
  let ?step = "\<lambda>target_index output_data.
         rbind (dv_read output_data (int target_index) (int out_c)) (\<lambda>previous_value.
         rbind (getAlphaIndex_device ss (int target_index) (int ?c)) (\<lambda>alpha_index.
         rbind (transformed_sums g data (int c) sro
                  (\<lambda>i. view_read (ss_alphas ss) (uint (alpha_index + TO_GLOBAL i))) (-1) (-1) vt vn
                  (int target_index)) (\<lambda>added_value.
         dv_write output_data (int target_index) (int out_c) (previous_value + added_value))))"
  have step: "?step x (dv_adds out F) = Inr (dv_adds out (\<lambda>t c'. F t c' + ?G x t c'))"
    if x: "x \<in> set ranks" for x F
  proof -
    have t: "x < alpha_rows ss" using x ranks(2) by simp
    from evaluation_alpha(2) [OF inv col t] obtain idx where idx: "getAlphaIndex_device ss (int x) (int ?c) = Inr idx"
      and a: "\<And>i. i < nl_count ?nl x \<Longrightarrow> view_read (ss_alphas ss) (uint (idx + TO_GLOBAL (int i)))
           = Inr (alpha_of ss (evaluation_request op o1 o2 j e x i))"
      by blast
    have sum: "transformed_sums g data (int c) sro (\<lambda>i. view_read (ss_alphas ss) (uint (idx + TO_GLOBAL i)))
        (-1) (-1) vt vn (int x) = Inr (?S x)"
      using untransformed_sums [where g = g and data = data and t = x and c = c and sro = sro,
          where a = "\<lambda>i. alpha_of ss (evaluation_request op o1 o2 j e x i)"] wf data sro t r a rows
      by (simp add: component_sum_def)
    have x': "x < dv_extent_0 (dv_adds out F)" "out_c < dv_extent_1 (dv_adds out F)" using t out by simp_all
    then have "dv_read (dv_adds out F) (int x) (int out_c) = Inr (data_at out x out_c + F x out_c)"
      using dv_read_at [OF _ x'] data_at_adds [of x out out_c F] by simp
    then show ?thesis
      using dv_write_add [of x out out_c F "?S x"] x' idx sum by simp
  qed
  have "rfold ?step ranks (dv_adds out F) = Inr (dv_adds out (\<lambda>t c'. F t c' + (\<Sum>x \<leftarrow> ranks. ?G x t c')))"
    using step by (intro rfold_adds)
  also have "\<dots> = Inr (dv_adds out (\<lambda>t c'. F t c' + (if c' = out_c then ?S t else 0)))"
    using ranks out(2) by (intro arg_cong [where f = Inr] dv_adds_cong) (simp add: sum_list_delta)
  finally show ?thesis
    using r host_tables(1) [of "g_h_ss g" ss] evaluation_alpha(1) [OF inv col, of _ dbg] ranks(2)
    by (cases "alpha_rows ss = 0")
      (auto simp: applyAlphasToDataSingleComponentAllTargetSitesWithPreAndPostTransform_def device_ss_def
        column_code [OF inv col, unfolded evaluation_request_def, simplified])
qed

text \<open>The numbers of output components along both axes, and of input components.\<close>

definition axis_1 :: "TargetOperation \<Rightarrow> nat \<Rightarrow> nat" where
  "axis_1 op d = (if target_output_rank op = 0 then 1 else d)"

definition axis_2 :: "TargetOperation \<Rightarrow> nat \<Rightarrow> nat" where
  "axis_2 op d = (if target_output_rank op = 2 then d else 1)"

definition input_components :: "SamplingFunctional \<Rightarrow> nat \<Rightarrow> nat" where
  "input_components sf d = (if output_rank sf = 0 then 1 else d)"

text \<open>The column of the data that a component is read from.\<close>

definition input_column :: "data_view \<Rightarrow> nat \<Rightarrow> nat" where
  "input_column data j = (if j < dv_extent_1 data then j else 0)"

lemma output_rank_cases: "target_output_rank op \<in> {0, 1, 2}"
  by (cases op) simp_all

lemma int_sqrt_square: "d \<in> {1, 2, 3} \<Longrightarrow> int_sqrt (int d ^ 2) = int d"
proof -
  have "int_sqrt 1 = 1" "int_sqrt 4 = 2" "int_sqrt 9 = 3" by code_simp+
  then show "d \<in> {1, 2, 3} \<Longrightarrow> int_sqrt (int d ^ 2) = int d" by auto
qed

lemma axes:
  assumes "d \<in> {1, 2, 3}"
  shows "(if int (target_output_rank op) < 2 then int d ^ target_output_rank op else int_sqrt (int d ^ target_output_rank op))
      = int (axis_1 op d)"
    and "(if int (target_output_rank op) < 2 then 1 else int_sqrt (int d ^ target_output_rank op)) = int (axis_2 op d)"
    and "d ^ target_output_rank op = axis_1 op d * axis_2 op d" "0 < axis_2 op d"
    "axis_1 op d * axis_2 op d < 2 ^ 31"
  using output_rank_cases [of op] int_sqrt_square [OF assms] assms
  by (auto simp: axis_1_def axis_2_def power2_eq_square)

lemma input_components_eq:
  "output_rank sf \<in> {0, 1} \<Longrightarrow> nat (getInputDimensionOfOperation op sf (int d)) = input_components sf d"
  by (auto simp: getInputDimensionOfOperation_def getOutputDimensionOfSampling_def input_components_def)

lemma small_column: "j < 2 ^ 31 \<Longrightarrow> uint (TO_GLOBAL (int j)) = int j"
  by (simp add: TO_GLOBAL_of_nat uint_nat unat_of_nat take_bit_nat_eq_self)

lemma get1DView_column:
  assumes "j < 2 ^ 31" "dbg \<longrightarrow> flag \<or> j < dv_extent_1 data"
  shows "get1DView dbg (CreateNDSliceOnDeviceView data flag) (int j) = Inr (int (input_column data j))"
  using assms small_column [OF assms(1)]
  by (cases data) (auto simp: get1DView_def CreateNDSliceOnDeviceView_def input_column_def)

lemma sum_list_upt: "(\<Sum>x \<leftarrow> [0..<n]. f x) = (\<Sum>x < n. f x :: real)"
  by (simp add: interv_sum_list_conv_sum_set_nat atLeast0LessThan)

lemma axes_sum:
  fixes c d1 d2 n :: nat
  assumes "c < d1 * d2" "0 < d2"
  shows "(\<Sum>a < d1. \<Sum>b < d2. \<Sum>j < n. if c = a * d2 + b then f a b j else 0) = (\<Sum>j < n. f (c div d2) (c mod d2) j :: real)"
proof -
  have place: "c = a * d2 + b \<longleftrightarrow> b = c mod d2 \<and> a = c div d2" if "b < d2" for a b
    using that by auto
  have "(\<Sum>a < d1. \<Sum>b < d2. \<Sum>j < n. if c = a * d2 + b then f a b j else 0)
      = (\<Sum>a < d1. \<Sum>b < d2. if b = c mod d2 then if a = c div d2 then \<Sum>j < n. f a b j else 0 else 0)"
    by (intro sum.cong refl) (auto simp: place)
  also have "\<dots> = (\<Sum>a < d1. if a = c div d2 then \<Sum>j < n. f a (c mod d2) j else 0)"
    using assms(2) by (intro sum.cong refl) (simp add: sum.delta')
  finally show ?thesis using assms by (simp add: less_mult_imp_div_less sum.delta')
qed

text \<open>What the evaluation adds to column \<open>o\<close> of the output at target \<open>t\<close>.\<close>

definition evaluation_sum ::
  "solution_set \<Rightarrow> data_view \<Rightarrow> TargetOperation \<Rightarrow> nat \<Rightarrow> nat \<Rightarrow> nat \<Rightarrow> real" where
  "evaluation_sum ss data op e t c =
     (let d = nat (ss_local_dimensions ss)
      in \<Sum>j < input_components (ss_data_sampling_functional ss) d.
           component_sum ss data op (c div axis_2 op d) (c mod axis_2 op d) j e (input_column data j) t)"

text \<open>The arguments of an evaluation outside of manifolds, of data that need no transformation.\<close>

definition evaluation_valid ::
  "bool \<Rightarrow> gmls \<Rightarrow> solution_set \<Rightarrow> data_view \<Rightarrow> TargetOperation \<Rightarrow> SamplingFunctional \<Rightarrow> bool \<Rightarrow> nat \<Rightarrow> bool" where
  "evaluation_valid dbg g ss data op sro flag e \<longleftrightarrow>
     evaluator_ready g ss \<and> g_problem_type g \<noteq> MANIFOLD
     \<and> transform_type sro = Identity \<and> \<not> use_target_site_weights sro
     \<and> op \<in> set (ss_lro ss) \<and> index_dims_ok ss op \<and> e < nat (ss_max_evaluation_sites_per_target ss)
     \<and> g_local_dimensions g \<in> {1, 2, 3} \<and> output_rank (g_data_sampling_functional g) \<in> {0, 1}
     \<and> data_covers (ss_neighbor_lists ss) data
     \<and> (dbg \<longrightarrow> flag \<or> input_components (g_data_sampling_functional g) (nat (g_local_dimensions g)) \<le> dv_extent_1 data)"

lemma evaluation_adds:
  assumes valid: "evaluation_valid dbg g ss data op sro flag e"
    and out: "dv_ok out" "dv_extent_0 out = alpha_rows ss"
      "dv_extent_1 out = nat (g_local_dimensions g) ^ target_output_rank op"
    and ranks: "\<And>a b j k. distinct (ranks a b j k) \<and> set (ranks a b j k) = {0..<alpha_rows ss}"
  shows "applyAlphasToDataAllComponentsAllTargetSites dbg ranks ranks' g out ambient data op sro flag (int e)
    = Inr (dv_adds out (evaluation_sum ss data op e), ambient)"
proof -
  note v = valid [unfolded evaluation_valid_def]
  have ready: "evaluator_ready g ss" and data: "data_covers (ss_neighbor_lists ss) data" using v by simp_all
  note r = ready [unfolded evaluator_ready_def]
  have nla: "pc_nla (g_pc g) = ss_neighbor_lists ss" "nl_wf (ss_neighbor_lists ss)"
    using r by (simp_all add: alphas_inv_def)
  obtain d where d: "g_local_dimensions g = int d" "d \<in> {1, 2, 3}"
    using v by (cases "g_local_dimensions g") auto
  note ax = axes [OF d(2), of op]
  let ?sf = "g_data_sampling_functional g" and ?d1 = "axis_1 op d" and ?d2 = "axis_2 op d"
  let ?n = "input_components ?sf d"
  let ?S = "\<lambda>a b j. component_sum ss data op a b j e (input_column data j)"
  let ?step = "\<lambda>axes1 axes2 j (column, local_index, global_index, vary_on_target, vary_on_neighbor) output.
         rbind (get1DView dbg (CreateNDSliceOnDeviceView output False) (int axes1 * int ?d2 + int axes2)) (\<lambda>out_c.
         rbind (get1DView dbg (CreateNDSliceOnDeviceView data flag) column) (\<lambda>c.
         applyAlphasToDataSingleComponentAllTargetSitesWithPreAndPostTransform dbg
           (ranks (int axes1) (int axes2) (int j) column) g out_c data c op sro
           (int e) (int axes1) (int axes2) (int j) 0 local_index global_index
           vary_on_target vary_on_neighbor output))"
  have n: "?n \<le> 3" using d(2) by (auto simp: input_components_def)
  have rows: "dv_extent_0 out = alpha_rows ss" by (rule out(2))
  have step: "rfold (?step a b j) (input_calls g sro (int j)) (dv_adds out F)
      = Inr (dv_adds out (\<lambda>t c. F t c + (if c = a * ?d2 + b then ?S a b j t else 0)))"
    if a: "a < ?d1" and b: "b < ?d2" and j: "j < ?n" for a b j F
  proof -
    have c: "a * ?d2 + b < dv_extent_1 out" using tile_bound [OF a b] d out(3) ax(3) by simp
    then have small: "a * ?d2 + b < 2 ^ 31" using ax(3,5) d out(3) by simp
    have "get1DView dbg (CreateNDSliceOnDeviceView (dv_adds out F) False) (int (a * ?d2 + b)) = Inr (int (a * ?d2 + b))"
      using c by (subst get1DView_column [OF small]) (simp_all add: input_column_def)
    then have out_c: "get1DView dbg (CreateNDSliceOnDeviceView (dv_adds out F) False) (int a * int ?d2 + int b)
        = Inr (int (a * ?d2 + b))" by simp
    have in_c: "get1DView dbg (CreateNDSliceOnDeviceView data flag) (int j) = Inr (int (input_column data j))"
      using v d j n by (intro get1DView_column) auto
    have sites: "column_valid ss (evaluation_request op a b j e 0 0)"
      using v d a b j output_rank_cases [of op] r
      by (auto simp: column_valid_def evaluation_request_def output_valid_def input_valid_def axis_1_def axis_2_def
          input_components_def split: if_splits)
    have col: "input_column data j < dv_extent_1 data"
      using data by (auto simp: input_column_def data_covers_def)
    have "input_calls g sro (int j) = [(int j, -1, -1, False, False)]"
      using v by (simp add: input_calls_def vary_on_def)
    then show ?thesis
      using component_kernel [OF ready sites data col _ c rows, of sro] v ranks out_c in_c by simp
  qed
  have "rfold (\<lambda>axes1. rfold (\<lambda>axes2. rfold (\<lambda>j. rfold (?step axes1 axes2 j) (input_calls g sro (int j))) [0..<?n])
      [0..<?d2]) [0..<?d1] (dv_adds out (\<lambda>_ _. 0))
    = Inr (dv_adds out (\<lambda>t c. 0 + (\<Sum>a \<leftarrow> [0..<?d1]. \<Sum>b \<leftarrow> [0..<?d2]. \<Sum>j \<leftarrow> [0..<?n].
        if c = a * ?d2 + b then ?S a b j t else 0)))"
    using step by (intro rfold_adds) simp
  also have "\<dots> = Inr (dv_adds out (evaluation_sum ss data op e))"
  proof (intro arg_cong [where f = Inr] dv_adds_cong)
    fix t c
    assume "c < dv_extent_1 out"
    then have c: "c < ?d1 * ?d2" using out(3) d(1) ax(3) by simp
    have "ss_data_sampling_functional ss = ?sf" "nat (ss_local_dimensions ss) = d" using r d(1) by simp_all
    then show "0 + (\<Sum>a \<leftarrow> [0..<?d1]. \<Sum>b \<leftarrow> [0..<?d2]. \<Sum>j \<leftarrow> [0..<?n]. if c = a * ?d2 + b then ?S a b j t else 0)
        = evaluation_sum ss data op e t c"
      using axes_sum [OF c ax(4)] by (simp only: sum_list_upt evaluation_sum_def Let_def add_0)
  qed
  finally have loop: "rfold (\<lambda>axes1. rfold (\<lambda>axes2. rfold (\<lambda>j. rfold (?step axes1 axes2 j) (input_calls g sro (int j)))
      [0..<?n]) [0..<?d2]) [0..<?d1] out = Inr (dv_adds out (evaluation_sum ss data op e))"
    by (simp only: dv_adds_0 [OF out(1)])
  have targets: "getNumberOfTargets (pc_nla (g_pc g)) = int (alpha_rows ss)"
    using nla nl_wfD(2) [OF nla(2)] by (simp add: getNumberOfTargets_def alpha_rows_def nl_rows_def)
  have rank1: "int d ^ target_output_rank op = 1" if "out = Rank1 xs" for xs
  proof -
    have "d ^ target_output_rank op = 1" using that out(3) d(1) by simp
    then show ?thesis by (simp only: of_nat_power [symmetric] of_nat_1)
  qed
  have dims: "nat (int ?d1) = ?d1" "nat (int ?d2) = ?d2" "nat (getInputDimensionOfOperation op ?sf (int d)) = ?n"
    using v input_components_eq [of ?sf op d] by simp_all
  have shape: "int (dv_extent_0 out) = int (alpha_rows ss)" "int (dv_extent_1 out) = int d ^ target_output_rank op"
    "case out of Rank1 xs \<Rightarrow> int d ^ target_output_rank op = 1 | Rank2 n rows \<Rightarrow> True"
    using out(2,3) d(1) rank1 by (simp_all only: nat_int of_nat_power split: data_view.split) auto
  have std: "g_problem_type g \<noteq> MANIFOLD" "transform_type sro = Identity" using v by simp_all
  show ?thesis
    unfolding applyAlphasToDataAllComponentsAllTargetSites_def Let_def d(1) getOutputDimensionOfOperation_eq
      getTargetOutputTensorRank_enum rbind_Inr ax(1,2) targets
    using std shape loop by (simp add: dims)
qed

text \<open>The value at one target, and the form that allocates its output.\<close>

lemma single_site:
  assumes ready: "evaluator_ready g ss" and col: "column_valid ss (evaluation_request op o1 o2 j e 0 0)"
    and data: "data_covers (ss_neighbor_lists ss) data" and t: "t < alpha_rows ss"
    and c: "c < 2 ^ 31" "dbg \<longrightarrow> flag \<or> c < dv_extent_1 data"
  shows "applyAlphasToDataSingleComponentSingleTargetSite dbg g data (int c) op (int t) (int e)
      (int o1) (int o2) (int j) 0 flag
    = Inr (component_sum ss data op o1 o2 j e (input_column data c) t)"
proof -
  let ?nl = "ss_neighbor_lists ss" and ?c = "request_column ss (evaluation_request op o1 o2 j e 0 0)"
  note r = ready [unfolded evaluator_ready_def]
  have inv: "alphas_inv ss" and nla: "pc_nla (g_pc g) = ?nl" "nl_wf ?nl" and d: "g_d_ss g = Some ss"
    using r by (simp_all add: alphas_inv_def)
  have h: "getAlphaColumnOffset_host dbg (g_h_ss g) = getAlphaColumnOffset_host dbg ss"
    "getAlphaIndex_host (g_h_ss g) = getAlphaIndex_host ss" using r host_tables by blast+
  have rows: "t < nl_rows ?nl" using t by (simp add: alpha_rows_def)
  have in_c: "input_column data c < dv_extent_1 data" using data by (auto simp: input_column_def data_covers_def)
  from evaluation_alpha(2) [OF inv col t] obtain idx where idx: "getAlphaIndex_host ss (int t) (int ?c) = Inr idx"
    and a: "\<And>i. i < nl_count ?nl t \<Longrightarrow> view_read (ss_alphas ss) (uint (idx + TO_GLOBAL (int i)))
         = Inr (alpha_of ss (evaluation_request op o1 o2 j e t i))"
    by blast
  have "parallel_sum (int (nl_count ?nl t)) (\<lambda>i. rbind (getNeighborDevice ?nl (int t) i) (\<lambda>s.
      rbind (dv_read data s (int (input_column data c))) (\<lambda>v.
      rbind (view_read (ss_alphas ss) (uint (idx + TO_GLOBAL i))) (\<lambda>a. Inr (v * a)))))
    = Inr (component_sum ss data op o1 o2 j e (input_column data c) t)"
    unfolding component_sum_def
    by (rule parallel_sum_eq) (simp add: neighbor_data [OF nla(2) data rows _ in_c] a)
  then show ?thesis
    using get1DView_column [OF c] nl_count_host [OF nla(2) rows] idx evaluation_alpha(1) [OF inv col t]
    by (simp add: applyAlphasToDataSingleComponentSingleTargetSite_def h nla(1) device_ss_def d getAlphas_def Let_def
        CreateNDSliceOnDeviceView_def)
qed

lemma createView_shape:
  assumes "flag \<longrightarrow> n = 1"
  shows "dv_ok (createView flag (int m) (int n))" "dv_extent_0 (createView flag (int m) (int n)) = m"
    "dv_extent_1 (createView flag (int m) (int n)) = n"
    "t < m \<Longrightarrow> c < n \<Longrightarrow> data_at (createView flag (int m) (int n)) t c = 0"
  using assms by (simp_all add: createView_def)

lemma evaluation_allocated:
  assumes valid: "evaluation_valid dbg g ss data op sro flag e"
    and flat: "flat \<longrightarrow> nat (g_local_dimensions g) ^ target_output_rank op = 1"
    and ranks: "\<And>a b j k. distinct (ranks a b j k) \<and> set (ranks a b j k) = {0..<alpha_rows ss}"
  obtains out where "allocate_applyAlphasToDataAllComponentsAllTargetSites dbg flat ranks ranks' g data op sro
      flag (int e) = Inr out"
    "dv_extent_0 out = alpha_rows ss" "dv_extent_1 out = nat (g_local_dimensions g) ^ target_output_rank op"
    "\<And>t c. t < alpha_rows ss \<Longrightarrow> c < nat (g_local_dimensions g) ^ target_output_rank op
      \<Longrightarrow> data_at out t c = evaluation_sum ss data op e t c"
proof -
  note v = valid [unfolded evaluation_valid_def]
  note r = v [THEN conjunct1, unfolded evaluator_ready_def]
  obtain d where d: "g_local_dimensions g = int d" using v by (cases "g_local_dimensions g") auto
  have nla: "pc_nla (g_pc g) = ss_neighbor_lists ss" "nl_wf (ss_neighbor_lists ss)"
    using r by (simp_all add: alphas_inv_def)
  have targets: "getNumberOfTargets (pc_nla (g_pc g)) = int (alpha_rows ss)"
    using nla nl_wfD(2) [OF nla(2)] by (simp add: getNumberOfTargets_def alpha_rows_def nl_rows_def)
  let ?n = "d ^ target_output_rank op"
  let ?out = "createView flat (int (alpha_rows ss)) (int ?n)"
  note shape = createView_shape(1-3) [of flat ?n "alpha_rows ss"] createView_shape(4) [of flat ?n _ "alpha_rows ss"]
  have "allocate_applyAlphasToDataAllComponentsAllTargetSites dbg flat ranks ranks' g data op sro flag (int e)
      = Inr (dv_adds ?out (evaluation_sum ss data op e))"
    using evaluation_adds [OF valid _ _ _ ranks, where out = ?out and ambient = "createView flat 0 0" and ranks' = ranks']
      shape flat d targets v
    by (simp add: allocate_applyAlphasToDataAllComponentsAllTargetSites_def Let_def)
  moreover have "data_at (dv_adds ?out (evaluation_sum ss data op e)) t c = evaluation_sum ss data op e t c"
    if "t < alpha_rows ss" "c < ?n" for t c
    using that shape flat d by (simp add: data_at_adds)
  ultimately show thesis using shape(2,3) flat d by (intro that [of "dv_adds ?out (evaluation_sum ss data op e)"]) simp_all
qed

text \<open>The component of the output with the numbers \<open>o1\<close> and \<open>o2\<close>, written out.\<close>

lemma evaluation_sum_entry:
  assumes "o2 < axis_2 op (nat (ss_local_dimensions ss))"
  shows "evaluation_sum ss data op e t (o1 * axis_2 op (nat (ss_local_dimensions ss)) + o2)
    = (\<Sum>j < input_components (ss_data_sampling_functional ss) (nat (ss_local_dimensions ss)).
        component_sum ss data op o1 o2 j e (input_column data j) t)"
  using assms by (simp add: evaluation_sum_def Let_def)

lemma evaluation_columns:
  assumes valid: "evaluation_valid dbg g ss data op sro flag e"
    and "o1 < axis_1 op (nat (g_local_dimensions g))" "o2 < axis_2 op (nat (g_local_dimensions g))"
    and "j < input_components (g_data_sampling_functional g) (nat (g_local_dimensions g))"
  shows "column_valid ss (evaluation_request op o1 o2 j e 0 0)"
    "o1 * axis_2 op (nat (g_local_dimensions g)) + o2 < nat (g_local_dimensions g) ^ target_output_rank op"
proof -
  note v = valid [unfolded evaluation_valid_def]
  note r = v [THEN conjunct1, unfolded evaluator_ready_def]
  show "column_valid ss (evaluation_request op o1 o2 j e 0 0)"
    using v assms(2-4) output_rank_cases [of op] r
    by (auto simp: column_valid_def evaluation_request_def output_valid_def input_valid_def axis_1_def axis_2_def
        input_components_def split: if_splits)
  show "o1 * axis_2 op (nat (g_local_dimensions g)) + o2 < nat (g_local_dimensions g) ^ target_output_rank op"
    using tile_bound [OF assms(2,3)] axes(3) [of "nat (g_local_dimensions g)" op] v by auto
qed

text \<open>
  C9: applying the alphas to data.  On a problem that is solved, outside of manifolds, for a
  sampling functional that needs no transformation, data with an entry for every neighbor and
  an output of the size of the operation, \<open>applyAlphasToDataAllComponentsAllTargetSites\<close>
  succeeds for every order of the targets, and adds to each component of the output at each
  target the sum, over the input components and the neighbors of the target, of the data at
  the neighbor times the alpha that the accessor of the solution set returns for it.
\<close>

theorem evaluation_is_weighted_sum:
  assumes valid: "evaluation_valid dbg g ss data op sro flag e"
    and out: "dv_ok out" "dv_extent_0 out = alpha_rows ss"
      "dv_extent_1 out = nat (g_local_dimensions g) ^ target_output_rank op"
    and ranks: "\<And>a b j k. distinct (ranks a b j k) \<and> set (ranks a b j k) = {0..<alpha_rows ss}"
  shows "\<exists>out'. applyAlphasToDataAllComponentsAllTargetSites dbg ranks ranks' g out ambient data op sro flag (int e)
      = Inr (out', ambient)
    \<and> (\<forall>t < alpha_rows ss. \<forall>o1 < axis_1 op (nat (g_local_dimensions g)).
        \<forall>o2 < axis_2 op (nat (g_local_dimensions g)).
          data_at out' t (o1 * axis_2 op (nat (g_local_dimensions g)) + o2)
            = data_at out t (o1 * axis_2 op (nat (g_local_dimensions g)) + o2)
              + (\<Sum>j < input_components (g_data_sampling_functional g) (nat (g_local_dimensions g)).
                 \<Sum>i < nl_count (ss_neighbor_lists ss) t.
                   data_at data (nl_neighbor (ss_neighbor_lists ss) t i) (input_column data j)
                   * alpha_of ss (evaluation_request op o1 o2 j e t i))
          \<and> (\<forall>j < input_components (g_data_sampling_functional g) (nat (g_local_dimensions g)).
              \<forall>i < nl_count (ss_neighbor_lists ss) t.
                getAlpha_request_device dbg ss (evaluation_request op o1 o2 j e t i)
                  = Inr (alpha_of ss (evaluation_request op o1 o2 j e t i))))"
proof -
  note r = valid [unfolded evaluation_valid_def evaluator_ready_def]
  let ?out = "dv_adds out (evaluation_sum ss data op e)"
  have same: "ss_local_dimensions ss = g_local_dimensions g" "ss_data_sampling_functional ss = g_data_sampling_functional g"
    and inv: "alphas_inv ss" using r by simp_all
  have read: "getAlpha_request_device dbg ss (evaluation_request op o1 o2 j e t i)
      = Inr (alpha_of ss (evaluation_request op o1 o2 j e t i))"
    if "column_valid ss (evaluation_request op o1 o2 j e 0 0)" "t < alpha_rows ss" "i < nl_count (ss_neighbor_lists ss) t"
    for o1 o2 j t i
    using that request_code(2) [OF inv, of "evaluation_request op o1 o2 j e t i" dbg]
    by (simp add: request_valid_def column_valid_def evaluation_request_def alpha_depth_def alpha_of_def)
  show ?thesis
  proof (intro exI [of _ ?out] conjI allI impI)
    show "applyAlphasToDataAllComponentsAllTargetSites dbg ranks ranks' g out ambient data op sro flag (int e)
      = Inr (?out, ambient)" by (rule evaluation_adds [OF valid out ranks])
  next
    fix t o1 o2
    assume t: "t < alpha_rows ss" and o: "o1 < axis_1 op (nat (g_local_dimensions g))" "o2 < axis_2 op (nat (g_local_dimensions g))"
    have "0 < input_components (g_data_sampling_functional g) (nat (g_local_dimensions g))"
      using r by (auto simp: input_components_def)
    from evaluation_columns(2) [OF valid o this] t out
    show "data_at ?out t (o1 * axis_2 op (nat (g_local_dimensions g)) + o2)
        = data_at out t (o1 * axis_2 op (nat (g_local_dimensions g)) + o2)
          + (\<Sum>j < input_components (g_data_sampling_functional g) (nat (g_local_dimensions g)).
             \<Sum>i < nl_count (ss_neighbor_lists ss) t.
               data_at data (nl_neighbor (ss_neighbor_lists ss) t i) (input_column data j)
               * alpha_of ss (evaluation_request op o1 o2 j e t i))"
      using evaluation_sum_entry [of o2 op ss data e t o1] o(2) same by (simp add: data_at_adds component_sum_def)
  next
    fix t o1 o2 j i
    assume t: "t < alpha_rows ss" and o: "o1 < axis_1 op (nat (g_local_dimensions g))" "o2 < axis_2 op (nat (g_local_dimensions g))"
      and j: "j < input_components (g_data_sampling_functional g) (nat (g_local_dimensions g))"
      and i: "i < nl_count (ss_neighbor_lists ss) t"
    show "getAlpha_request_device dbg ss (evaluation_request op o1 o2 j e t i)
        = Inr (alpha_of ss (evaluation_request op o1 o2 j e t i))"
      by (rule read [OF evaluation_columns(1) [OF valid o j] t i])
  qed
qed

text \<open>
  For scalar input the form for one target, \<open>applyAlphasToDataSingleComponentSingleTargetSite\<close>,
  returns the entry that the form for all targets, with an output of its own, puts there.
\<close>

theorem single_site_is_entry:
  assumes valid: "evaluation_valid dbg g ss data op sro flag e"
    and scalar: "output_rank (g_data_sampling_functional g) = 0"
    and flat: "flat \<longrightarrow> nat (g_local_dimensions g) ^ target_output_rank op = 1"
    and ranks: "\<And>a b j k. distinct (ranks a b j k) \<and> set (ranks a b j k) = {0..<alpha_rows ss}"
  shows "\<exists>out. allocate_applyAlphasToDataAllComponentsAllTargetSites dbg flat ranks ranks' g data op sro flag (int e)
      = Inr out
    \<and> (\<forall>t < alpha_rows ss. \<forall>o1 < axis_1 op (nat (g_local_dimensions g)).
        \<forall>o2 < axis_2 op (nat (g_local_dimensions g)).
          applyAlphasToDataSingleComponentSingleTargetSite dbg g data 0 op (int t) (int e) (int o1) (int o2) 0 0 flag
            = Inr (data_at out t (o1 * axis_2 op (nat (g_local_dimensions g)) + o2)))"
proof -
  note v = valid [unfolded evaluation_valid_def]
  have ready: "evaluator_ready g ss" and data: "data_covers (ss_neighbor_lists ss) data" using v by simp_all
  have same: "ss_local_dimensions ss = g_local_dimensions g" "ss_data_sampling_functional ss = g_data_sampling_functional g"
    using ready by (simp_all add: evaluator_ready_def)
  have one: "input_components (g_data_sampling_functional g) (nat (g_local_dimensions g)) = 1"
    using scalar by (simp add: input_components_def)
  obtain out where out: "allocate_applyAlphasToDataAllComponentsAllTargetSites dbg flat ranks ranks' g data op sro
      flag (int e) = Inr out"
    "\<And>t c. t < alpha_rows ss \<Longrightarrow> c < nat (g_local_dimensions g) ^ target_output_rank op
      \<Longrightarrow> data_at out t c = evaluation_sum ss data op e t c"
    using evaluation_allocated [where ranks = ranks and ranks' = ranks', OF valid flat ranks] by blast
  have "applyAlphasToDataSingleComponentSingleTargetSite dbg g data 0 op (int t) (int e) (int o1) (int o2) 0 0 flag
      = Inr (data_at out t (o1 * axis_2 op (nat (g_local_dimensions g)) + o2))"
    if t: "t < alpha_rows ss" and o: "o1 < axis_1 op (nat (g_local_dimensions g))" "o2 < axis_2 op (nat (g_local_dimensions g))"
    for t o1 o2
  proof -
    have zero: "0 < input_components (g_data_sampling_functional g) (nat (g_local_dimensions g))" using one by simp
    have col: "column_valid ss (evaluation_request op o1 o2 0 e 0 0)" by (rule evaluation_columns(1) [OF valid o zero])
    have "applyAlphasToDataSingleComponentSingleTargetSite dbg g data (int 0) op (int t) (int e) (int o1) (int o2) (int 0) 0 flag
        = Inr (component_sum ss data op o1 o2 0 e (input_column data 0) t)"
      using data by (intro single_site [OF ready col data t]) (simp_all add: data_covers_def)
    moreover have "data_at out t (o1 * axis_2 op (nat (g_local_dimensions g)) + o2)
        = component_sum ss data op o1 o2 0 e (input_column data 0) t"
      using out(2) [OF t evaluation_columns(2) [OF valid o zero]]
        evaluation_sum_entry [of o2 op ss data e t o1, unfolded same, OF o(2)] one by simp
    ultimately show ?thesis by simp
  qed
  with out(1) show ?thesis by blast
qed

section \<open>Evaluation of a scalar batch\<close>

text \<open>The problem after the solve of its batch, with the solution set copied to the host.\<close>

definition solved_problem :: "bool \<Rightarrow> gmls \<Rightarrow> solution_set \<Rightarrow> gmls" where
  "solved_problem same_space g ss =
     g\<lparr>g_d_ss := Some ss, g_h_ss := SolutionSet_copy same_space ss\<rparr>"

lemma scalar_operation_rank:
  "scalar_operation d m op \<Longrightarrow> target_output_rank op = (if op = GradientOfScalarPointEvaluation then 1 else 0)"
  by (auto simp: scalar_operation_def)

lemma point_sample_fields:
  "transform_type PointSample = Identity" "\<not> use_target_site_weights PointSample" "output_rank PointSample = 0"
  by (simp_all add: sampling_functional_defs)

lemma scalar_evaluation_valid:
  assumes batch: "scalar_batch d m g ss bdata sdata n teams" and l: "l < teams"
    and t: "t = nat (g_initial_index_for_batch g) + l"
    and dims: "g_local_dimensions g = int d" "g_data_sampling_functional g = PointSample"
    and data: "data_covers (pc_nla (g_pc g)) data"
    and op: "op \<in> set (ss_lro ss)" and e: "e \<le> additional_sites g t"
    and ss': "ss' = ss\<lparr>ss_alphas := a\<rparr>" "alphas_inv ss'"
  shows "evaluation_valid dbg (solved_problem same_space (g\<lparr>g_P := P, g_w := w, g_RHS := R, g_Z := Z\<rparr>) ss') ss' data op PointSample True e"
proof -
  note b = batch [unfolded scalar_batch_def] and r = scalar_batch_ready [OF batch l, folded t]
    and f = scalar_batch_fields [OF batch]
  have prob: "scalar_problem d m g ss" and state: "batch_state g ss" using b by simp_all
  note p = prob [unfolded scalar_problem_def] and st = state [unfolded batch_state_def]
  have "evaluator_ready (solved_problem same_space (g\<lparr>g_P := P, g_w := w, g_RHS := R, g_Z := Z\<rparr>) ss') ss'"
    using p st dims ss' by (simp add: evaluator_ready_def solved_problem_def SolutionSet_copy_eq)
  moreover have "e < nat (ss_max_evaluation_sites_per_target ss')" using r(5) f(3) e ss'(1) by simp
  moreover have "target_output_rank op \<noteq> 2" using p op scalar_operation_rank [of d m op] by auto
  moreover have "int d \<in> {1, 2, 3}" using p by auto
  ultimately show ?thesis
    using p st dims data op ss'(1)
    by (simp add: evaluation_valid_def index_dims_ok_def solved_problem_def
        point_sample_fields)
qed

text \<open>
  C7: the program on data.  For point samples of a scalar function and the operations and
  sites of the reproduction theorem (Compadre_Reproduction), after a batch is assembled, solved by a solver that
  satisfies the normal equations, evaluated and applied, the evaluator applied to samples of a
  polynomial of the degree of the basis returns, at a target of the batch whose neighbors
  determine these polynomials, the operation on that polynomial.
\<close>

theorem polynomial_evaluation:
  assumes batch: "scalar_batch d m g ss bdata sdata n teams"
    and solver: "solves_batch g (scalar_size d m) sdata teams solve"
    and schedules: "schedule_ok use_cuda places sdata teams" "set ranks1 = {0..<teams}" "set ranks2 = {0..<teams}"
      "set ranks3 = {0..<teams}"
    and dims: "g_local_dimensions g = int d" "g_data_sampling_functional g = PointSample"
    and target: "t \<in> {nat (g_initial_index_for_batch g) ..< nat (g_initial_index_for_batch g) + teams}"
      "unisolvent_target d m bdata t" "op \<in> set (ss_lro ss)" "out < op_outs d op" "e \<le> additional_sites g t"
    and data: "data_covers (pc_nla (g_pc g)) data"
    and samples: "\<And>i. i < nl_count (pc_nla (g_pc g)) t \<Longrightarrow> data_at data (nl_neighbor (pc_nla (g_pc g)) t i) 0
      = polynomial d m (bd_epsilons bdata ! t) c (coords (neighbor_offset d d bdata t i None))"
    and ranks: "\<And>a b j k. distinct (ranks a b j k) \<and> set (ranks a b j k) = {0..<alpha_rows ss}"
  shows "\<exists>g1 g2 ss' out_view. assemble_batch dbg gemm bdata ranks1 g = Inr g1
    \<and> evaluate_batch dbg bdata ranks2 (g1\<lparr>g_P := fst (solve (g_P g1) (g_RHS g1)), g_RHS := snd (solve (g_P g1) (g_RHS g1))\<rparr>)
        = Inr g2
    \<and> apply_batch use_cuda places sdata ranks3 g2 = Inr (g2\<lparr>g_d_ss := Some ss'\<rparr>)
    \<and> allocate_applyAlphasToDataAllComponentsAllTargetSites dbg False ranks ranks' (solved_problem same_space g2 ss') data op
        PointSample True (int e) = Inr out_view
    \<and> exact_value d m op out e (bd_epsilons bdata ! t) c (coords (site_offset d d bdata t e)) (data_at out_view t out)"
proof -
  note b = batch [unfolded scalar_batch_def] and f = scalar_batch_fields [OF batch]
  have prob: "scalar_problem d m g ss" and state: "batch_state g ss" using b by simp_all
  note p = prob [unfolded scalar_problem_def] and st = state [unfolded batch_state_def]
  obtain g1 g2 ss' P w R Z a where run: "assemble_batch dbg gemm bdata ranks1 g = Inr g1"
      "evaluate_batch dbg bdata ranks2 (g1\<lparr>g_P := fst (solve (g_P g1) (g_RHS g1)), g_RHS := snd (solve (g_P g1) (g_RHS g1))\<rparr>)
        = Inr g2" "apply_batch use_cuda places sdata ranks3 g2 = Inr (g2\<lparr>g_d_ss := Some ss'\<rparr>)"
    and g2: "g2 = g\<lparr>g_P := P, g_w := w, g_RHS := R, g_Z := Z\<rparr>"
    and ss': "ss' = ss\<lparr>ss_alphas := a\<rparr>" and inv: "alphas_inv ss'"
    and all: "\<forall>t op out e. t \<in> {nat (g_initial_index_for_batch g) ..< nat (g_initial_index_for_batch g) + teams}
         \<longrightarrow> unisolvent_target d m bdata t \<longrightarrow> op \<in> set (ss_lro ss) \<longrightarrow> out < op_outs d op \<longrightarrow> e \<le> additional_sites g t
         \<longrightarrow> reproduces_polynomials dbg d m bdata ss' t op out e"
    using batch_reproduces [OF batch solver schedules, of dbg gemm] by (elim exE conjE) (rule that; assumption)
  have rep: "reproduces_polynomials dbg d m bdata ss' t op out e" using all target by blast
  define l where "l = t - nat (g_initial_index_for_batch g)"
  have l: "l < teams" "t = nat (g_initial_index_for_batch g) + l" using target(1) by (auto simp: l_def)
  have valid: "evaluation_valid dbg (solved_problem same_space g2 ss') ss' data op PointSample True e"
    unfolding g2 by (rule scalar_evaluation_valid [OF batch l dims data target(3,5) ss' inv])
  have local_dims: "g_local_dimensions (solved_problem same_space g2 ss') = int d" "g_data_sampling_functional (solved_problem same_space g2 ss') = PointSample"
    using dims by (simp_all add: solved_problem_def g2)
  have rows: "alpha_rows ss' = alpha_rows ss" and nl: "ss_neighbor_lists ss' = pc_nla (g_pc g)"
    using st by (simp_all add: alpha_rows_def ss')
  have t: "t < alpha_rows ss" using l b by simp
  have op: "scalar_operation d m op" using p target(3) by simp
  have ax: "axis_2 op d = 1" "axis_1 op d = op_outs d op" "out < d ^ target_output_rank op"
    using op target(4) by (auto simp: axis_1_def axis_2_def scalar_operation_rank op_outs_def split: if_splits)
  have same: "ss_local_dimensions ss' = int d" "ss_data_sampling_functional ss' = PointSample"
    using p by (simp_all add: ss')
  have ranks': "\<And>a b j k. distinct (ranks a b j k) \<and> set (ranks a b j k) = {0..<alpha_rows ss'}"
    using ranks rows by simp
  obtain V where V: "allocate_applyAlphasToDataAllComponentsAllTargetSites dbg False ranks ranks' (solved_problem same_space g2 ss')
      data op PointSample True (int e) = Inr V"
    and entry: "\<And>t c. t < alpha_rows ss \<Longrightarrow> c < d ^ target_output_rank op \<Longrightarrow> data_at V t c = evaluation_sum ss' data op e t c"
    using evaluation_allocated [where flat = False and ranks = ranks and ranks' = ranks', OF valid _ ranks', unfolded local_dims rows nat_int]
    by blast
  obtain alpha where alpha: "\<And>j. j < nl_count (pc_nla (bd_pc bdata)) t \<Longrightarrow>
      getAlpha_request_device dbg ss' (scalar_request op t out e j) = Inr (alpha j)"
    and exact: "exact_value d m op out e (bd_epsilons bdata ! t) c (coords (site_offset d d bdata t e))
      (\<Sum>j < nl_count (pc_nla (bd_pc bdata)) t. alpha j
         * polynomial d m (bd_epsilons bdata ! t) c (coords (neighbor_offset d d bdata t j None)))"
    using rep by (auto simp: reproduces_polynomials_def)
  have same_alpha: "alpha i = alpha_of ss' (evaluation_request op out 0 0 e t i)" if i: "i < nl_count (pc_nla (g_pc g)) t" for i
  proof -
    have "request_valid ss' (scalar_request op t out e i)"
      using evaluation_columns(1) [OF valid, of out 0 0] t i ax target(4) local_dims rows nl
      by (simp add: request_valid_def column_valid_def evaluation_request_def scalar_request_def alpha_depth_def
          input_components_def point_sample_fields)
    then show ?thesis
      using alpha [of i] request_code(2) [OF inv, of "scalar_request op t out e i" dbg] i f(8)
      by (simp add: alpha_of_def scalar_request_def evaluation_request_def)
  qed
  have "data_at V t out = evaluation_sum ss' data op e t (out * axis_2 op (nat (ss_local_dimensions ss')) + 0)"
    using entry [OF t ax(3)] ax(1) same(1) by simp
  also have "\<dots> = component_sum ss' data op out 0 0 e 0 t"
    using ax(1) same data by (subst evaluation_sum_entry)
      (simp_all add: input_components_def point_sample_fields input_column_def data_covers_def)
  also have "\<dots> = (\<Sum>j < nl_count (pc_nla (g_pc g)) t. alpha j
      * polynomial d m (bd_epsilons bdata ! t) c (coords (neighbor_offset d d bdata t j None)))"
    unfolding component_sum_def nl using samples same_alpha by (intro sum.cong) simp_all
  finally have "exact_value d m op out e (bd_epsilons bdata ! t) c (coords (site_offset d d bdata t e)) (data_at V t out)"
    using exact f(8) by simp
  with run V show ?thesis by blast
qed

section \<open>Examples\<close>

definition evaluator_example :: "gmls \<Rightarrow> gmls" where
  "evaluator_example g0 =
     g0\<lparr>g_d_ss := Some ss_example, g_h_ss := ss_example, g_pc := pc_example, g_problem_type := STANDARD,
        g_local_dimensions := 2, g_global_dimensions := 2, g_data_sampling_functional := PointSample\<rparr>"

definition data_example :: data_view where
  "data_example = Rank1 (map real [0..<8])"

lemma nl_example_neighbor:
  "nl_offset nl_example 0 = 0" "nl_offset nl_example (Suc 0) = 2" "nl_cr_neighbor_lists nl_example = [5, 6, 7]"
  by (simp_all add: nl_example_def nl_built_def nl_view_defs unat_TO_GLOBAL)

lemma data_example_covers: "data_covers nl_example (Rank1 xs)" if "length xs = 8"
  using that by (simp add: data_covers_def nl_example_views all_below_2 nl_example_neighbor)

lemma evaluator_example_valid:
  assumes "op \<in> set (ss_lro ss_example)"
  shows "evaluation_valid dbg (evaluator_example g0) ss_example data_example op PointSample True 0"
  using assms data_example_covers [of "map real [0..<8]"] ss_example_alphas
  by (auto simp: evaluation_valid_def evaluator_ready_def evaluator_example_def ss_example_views index_dims_ok_def
      point_sample_fields pc_example_def PointConnections_make_def data_example_def)

lemma example_ranks: "distinct [1, 0 :: nat] \<and> set [1, 0] = {0..<alpha_rows ss_example}"
  by (auto simp: ss_example_views)

lemma gradient_example:
  "(\<Sum>i < nl_count nl_example 0. data_at data_example (nl_neighbor nl_example 0 i) 0
      * alpha_of ss_example (evaluation_request GradientOfScalarPointEvaluation 1 0 0 0 0 i)) = 61"
proof -
  have "request_address ss_example (evaluation_request GradientOfScalarPointEvaluation 1 0 0 0 0 i) = 4 + i" for i
    by (simp add: request_address_def request_column_def alpha_column_def evaluation_request_def lro_place_def
        output_index_def col_extent_def col_offset_def alpha_offset_def alpha_depth_def nl_example_views
        nl_example_neighbor ss_example_simps)
  then show ?thesis
    by (simp add: nl_example_views sum_below_2 data_example_def nl_neighbor_def nl_example_neighbor alpha_of_def
        ss_example_simps)
qed

theorem evaluation_is_weighted_sum_witness:
  "\<exists>g out'. applyAlphasToDataAllComponentsAllTargetSites True (\<lambda>_ _ _ _. [1, 0]) (\<lambda>_ _. []) g
      (Rank2 2 [[0, 100], [0, 0]]) (Rank2 0 []) data_example GradientOfScalarPointEvaluation PointSample True 0
      = Inr (out', Rank2 0 [])
    \<and> data_at out' 0 1 = 161"
proof -
  define g where "g = evaluator_example undefined"
  have dims: "nat (g_local_dimensions g) = 2" "g_data_sampling_functional g = PointSample"
    by (simp_all add: g_def evaluator_example_def)
  have "evaluation_valid True g ss_example data_example GradientOfScalarPointEvaluation PointSample True 0"
    unfolding g_def by (rule evaluator_example_valid) (simp add: ss_example_views)
  from evaluation_is_weighted_sum [where ranks = "\<lambda>_ _ _ _. [1, 0]" and ranks' = "\<lambda>_ _. []" and out = "Rank2 2 [[0, 100], [0, 0]]"
      and ambient = "Rank2 0 []", OF this _ _ _ example_ranks]
  obtain out' where run: "applyAlphasToDataAllComponentsAllTargetSites True (\<lambda>_ _ _ _. [1, 0]) (\<lambda>_ _. []) g
      (Rank2 2 [[0, 100], [0, 0]]) (Rank2 0 []) data_example GradientOfScalarPointEvaluation PointSample True (int 0)
      = Inr (out', Rank2 0 [])"
    and entries: "\<forall>t < 2. \<forall>o1 < 2. \<forall>o2 < 1. data_at out' t (o1 * 1 + o2) = data_at (Rank2 2 [[0, 100], [0, 0]]) t (o1 * 1 + o2)
      + (\<Sum>j < 1. \<Sum>i < nl_count nl_example t. data_at data_example (nl_neighbor nl_example t i) (input_column data_example j)
           * alpha_of ss_example (evaluation_request GradientOfScalarPointEvaluation o1 o2 j 0 t i))"
    by (auto simp: ss_example_views dims axis_1_def axis_2_def input_components_def point_sample_fields)
  have "data_at out' 0 1 = 161"
    using entries [rule_format, of 0 1 0] gradient_example by (simp add: input_column_def)
  with run show ?thesis by auto
qed

theorem single_site_is_entry_witness:
  "\<exists>g out. allocate_applyAlphasToDataAllComponentsAllTargetSites True False (\<lambda>_ _ _ _. [1, 0]) (\<lambda>_ _. []) g
      data_example GradientOfScalarPointEvaluation PointSample True 0 = Inr out
    \<and> applyAlphasToDataSingleComponentSingleTargetSite True g data_example 0 GradientOfScalarPointEvaluation 0 0 1 0 0 0 True
      = Inr (data_at out 0 1)
    \<and> data_at out 0 1 = 61"
proof -
  define g where "g = evaluator_example undefined"
  have dims: "nat (g_local_dimensions g) = 2" "g_data_sampling_functional g = PointSample"
    by (simp_all add: g_def evaluator_example_def)
  have valid: "evaluation_valid True g ss_example data_example GradientOfScalarPointEvaluation PointSample True 0"
    unfolding g_def by (rule evaluator_example_valid) (simp add: ss_example_views)
  have flat: "False \<longrightarrow> nat (g_local_dimensions g) ^ target_output_rank GradientOfScalarPointEvaluation = 1" by simp
  from single_site_is_entry [where ranks = "\<lambda>_ _ _ _. [1, 0]" and ranks' = "\<lambda>_ _. []", OF valid _ flat example_ranks]
  obtain out where run: "allocate_applyAlphasToDataAllComponentsAllTargetSites True False (\<lambda>_ _ _ _. [1, 0]) (\<lambda>_ _. []) g
      data_example GradientOfScalarPointEvaluation PointSample True (int 0) = Inr out"
    and site: "\<forall>t < 2. \<forall>o1 < 2. \<forall>o2 < 1. applyAlphasToDataSingleComponentSingleTargetSite True g data_example 0
      GradientOfScalarPointEvaluation (int t) (int 0) (int o1) (int o2) 0 0 True = Inr (data_at out t (o1 * 1 + o2))"
    by (auto simp: ss_example_views dims axis_1_def axis_2_def point_sample_fields)
  have "data_at out 0 1 = evaluation_sum ss_example data_example GradientOfScalarPointEvaluation 0 0 (1 * 1 + 0)"
    by (rule evaluation_allocated [where ranks = "\<lambda>_ _ _ _. [1, 0]" and ranks' = "\<lambda>_ _. []", OF valid flat example_ranks])
      (use run in \<open>simp add: dims ss_example_views\<close>)
  also have "\<dots> = 61"
    using evaluation_sum_entry [of 0 GradientOfScalarPointEvaluation ss_example data_example 0 0 1] gradient_example
    by (simp add: axis_2_def ss_example_views input_components_def point_sample_fields component_sum_def input_column_def)
  finally have "data_at out 0 1 = 61" .
  moreover have "applyAlphasToDataSingleComponentSingleTargetSite True g data_example 0 GradientOfScalarPointEvaluation
      0 0 1 0 0 0 True = Inr (data_at out 0 1)"
    using site [rule_format, of 0 1 0] by simp
  ultimately show ?thesis using run by (intro exI [of _ g] exI [of _ out]) simp
qed

lemma reproduction_example_dims:
  "g_local_dimensions (reproduction_example g0) = 2" "g_data_sampling_functional (reproduction_example g0) = PointSample"
  by (simp_all add: reproduction_example_def)

theorem polynomial_evaluation_witness:
  "\<exists>g g1 g2 bdata sdata ss' V. createGMLSBasisData g = Inr bdata \<and> createGMLSSolutionData g = Inr sdata
    \<and> assemble_batch True (\<lambda>_ _ R _. Inr R) bdata [0, 1] g = Inr g1
    \<and> evaluate_batch True bdata [1, 0] (g1\<lparr>g_P := fst (example_solve (g_P g1) (g_RHS g1)),
         g_RHS := snd (example_solve (g_P g1) (g_RHS g1))\<rparr>) = Inr g2
    \<and> apply_batch False (\<lambda>_. []) sdata [0, 1] g2 = Inr (g2\<lparr>g_d_ss := Some ss'\<rparr>)
    \<and> allocate_applyAlphasToDataAllComponentsAllTargetSites True False (\<lambda>_ _ _ _. [1, 0]) (\<lambda>_ _. [])
        (solved_problem False g2 ss') (Rank1 (replicate 8 7)) ScalarPointEvaluation PointSample True 0 = Inr V
    \<and> data_at V 0 0 = 7"
proof -
  define g where "g = reproduction_example undefined"
  obtain bdata sdata where batch: "scalar_batch 2 0 g ss_example bdata sdata 2 2"
    using example_batch unfolding g_def by blast
  have sched: "schedule_ok False (\<lambda>_. []) sdata 2" by (simp add: schedule_ok_def)
  have seven: "polynomial 2 0 h (\<lambda>_. 7) p = 7" if "length p = 3" for h p
    using row_entries(1) [of 2 0 0 p 0 h] that
    by (simp add: polynomial_def example_size taylor_def tfac_def lessThan_nat_numeral)
  have nla: "pc_nla (g_pc g) = nl_example"
    by (simp add: g_def reproduction_example_def pc_example_def PointConnections_make_def)
  note dims = reproduction_example_dims [of undefined, folded g_def]
  have target: "0 \<in> {nat (g_initial_index_for_batch g) ..< nat (g_initial_index_for_batch g) + 2}"
    "ScalarPointEvaluation \<in> set (ss_lro ss_example)" "0 < op_outs 2 ScalarPointEvaluation" "0 \<le> additional_sites g 0"
    by (simp_all add: g_def reproduction_example_def ss_example_views op_outs_def)
  have samples: "data_at (Rank1 (replicate 8 7)) (nl_neighbor (pc_nla (g_pc g)) 0 i) 0
      = polynomial 2 0 (bd_epsilons bdata ! 0) (\<lambda>_. 7) (coords (neighbor_offset 2 2 bdata 0 i None))"
    if "i < nl_count (pc_nla (g_pc g)) 0" for i
    using that unfolding nla nl_example_views
    by (auto simp: less_2_cases_iff nl_neighbor_def nl_example_neighbor seven coords_def)
  have d2: "g_local_dimensions g = int 2" using dims(1) by simp
  have covers: "data_covers (pc_nla (g_pc g)) (Rank1 (replicate 8 7))" unfolding nla by (rule data_example_covers) simp
  from polynomial_evaluation [where dbg = True and gemm = "\<lambda>_ _ R _. Inr R"
      and same_space = False and ranks = "\<lambda>_ _ _ _. [1, 0]" and ranks' = "\<lambda>_ _. []",
      OF batch example_solves [OF batch [unfolded g_def], folded g_def] sched ranks_of_two(1,2,1) d2 dims(2)
        target(1) example_unisolvent(1) [OF batch [unfolded g_def]] target(2-4) covers samples example_ranks]
  obtain g1 g2 ss' V where run: "assemble_batch True (\<lambda>_ _ R _. Inr R) bdata [0, 1] g = Inr g1"
    "evaluate_batch True bdata [1, 0] (g1\<lparr>g_P := fst (example_solve (g_P g1) (g_RHS g1)),
         g_RHS := snd (example_solve (g_P g1) (g_RHS g1))\<rparr>) = Inr g2"
    "apply_batch False (\<lambda>_. []) sdata [0, 1] g2 = Inr (g2\<lparr>g_d_ss := Some ss'\<rparr>)"
    "allocate_applyAlphasToDataAllComponentsAllTargetSites True False (\<lambda>_ _ _ _. [1, 0]) (\<lambda>_ _. [])
        (solved_problem False g2 ss') (Rank1 (replicate 8 7)) ScalarPointEvaluation PointSample True (int 0) = Inr V"
    and exact: "exact_value 2 0 ScalarPointEvaluation 0 0 (bd_epsilons bdata ! 0) (\<lambda>_. 7)
        (coords (site_offset 2 2 bdata 0 0)) (data_at V 0 0)"
    by (simp only: of_nat_0) blast
  have "data_at V 0 0 = 7" using exact by (simp add: exact_value_def seven coords_def)
  moreover have "createGMLSBasisData g = Inr bdata" "createGMLSSolutionData g = Inr sdata"
    using batch by (simp_all add: scalar_batch_def)
  moreover have "allocate_applyAlphasToDataAllComponentsAllTargetSites True False (\<lambda>_ _ _ _. [1, 0]) (\<lambda>_ _. [])
        (solved_problem False g2 ss') (Rank1 (replicate 8 7)) ScalarPointEvaluation PointSample True 0 = Inr V"
    using run(4) by simp
  moreover note run(1-3)
  ultimately show ?thesis by blast
qed

end
